(* ===== verification/Prelude.thy ===== *)
theory Prelude imports Main "HOL-Library.State_Monad" begin

text \<open>
  What the theories of the development share: the collections that drive the proofs,
  facts on lists that several components use, and the small vocabulary of the state
  monad in which the parsers are written.
\<close>

subsection \<open>Collections\<close>

text \<open>
  \<open>flow_rules\<close> holds one typing rule per parser operation and grammar function (see
  \<^verbatim>\<open>Flow.thy\<close>); a grammar function is checked by resolving its body with the collection.
\<close>

named_theorems flow_rules

text \<open>The rules for functions that return the node they completed, which may be wrapped.\<close>

named_theorems node_rules

text \<open>\<open>run_simps\<close> evaluates an action on a concrete parser (see \<^verbatim>\<open>Execution.thy\<close>).\<close>

named_theorems run_simps

subsection \<open>State monad vocabulary\<close>

abbreviation ret :: "'a \<Rightarrow> ('s, 'a) state" where
  "ret \<equiv> State_Monad.return"

abbreviation skip :: "('s, unit) state" where
  "skip \<equiv> State_Monad.return ()"

text \<open>\<^verbatim>\<open>if c { f }\<close>\<close>

definition if_then :: "bool \<Rightarrow> ('s, unit) state \<Rightarrow> ('s, unit) state" where
  "if_then c f = (if c then f else skip)"

text \<open>Running a statement whose value the source drops (\<^verbatim>\<open>f(p).ok();\<close>, \<^verbatim>\<open>let _ = f(p);\<close>, \<^verbatim>\<open>p.eat(k);\<close>).\<close>

definition discard :: "('s, 'a) state \<Rightarrow> ('s, unit) state" where
  "discard f = State_Monad.bind f (\<lambda>_. skip)"

text \<open>\<^verbatim>\<open>f(p).is_err()\<close>, and \<^verbatim>\<open>b && f(p)\<close>, which only runs \<open>f\<close> if \<open>b\<close> holds.\<close>

definition is_err :: "('s, bool) state \<Rightarrow> ('s, bool) state" where
  "is_err f = State_Monad.bind f (\<lambda>ok. ret (\<not> ok))"

definition and_then :: "bool \<Rightarrow> ('s, bool) state \<Rightarrow> ('s, bool) state" where
  "and_then b f = (if b then f else ret False)"

subsection \<open>Lists\<close>

lemma list_update_append_right:
  "length xs \<le> i \<Longrightarrow> (xs @ ys)[i := y] = xs @ ys[i - length xs := y]"
  by (simp add: list_update_append)

lemma nth_append_here [simp]: "(xs @ y # ys) ! length xs = y"
  by simp

lemma take_length_append [simp]: "take (length xs) (xs @ ys) = xs"
  by simp

text \<open>\<open>get\<close> of a Rust slice: out of range is \<open>None\<close>.\<close>

definition nth_opt :: "'a list \<Rightarrow> nat \<Rightarrow> 'a option" where
  "nth_opt xs i = (if i < length xs then Some (xs ! i) else None)"

lemma nth_opt_None [simp]: "nth_opt xs i = None \<longleftrightarrow> length xs \<le> i"
  by (simp add: nth_opt_def)

lemma nth_opt_Some: "nth_opt xs i = Some x \<longleftrightarrow> i < length xs \<and> xs ! i = x"
  by (simp add: nth_opt_def)

end
