(* ===== verification/ClassBytes.thy ===== *)
theory ClassBytes imports Prelude "HOL-Library.Word" begin

text \<open>
  The byte layer of \<^verbatim>\<open>lib/rust-asm\<close>: the \<^verbatim>\<open>ByteReader\<close> of \<^verbatim>\<open>class_reader.rs\<close> as actions of a
  state monad over a reader that runs or has stopped, the \<^verbatim>\<open>write_u*\<close> functions of
  \<^verbatim>\<open>class_writer.rs\<close>, and the law that ties a reading action to the bytes of a value
  (\<open>reads_as\<close>), which composes along the monad.

  The integers have their widths; a signed one is the word with its two's complement bits.
\<close>

type_synonym u8 = "8 word"
type_synonym u16 = "16 word"
type_synonym u32 = "32 word"
type_synonym jlong = "64 word"

text \<open>A Rust string is the list of its characters; \<open>text_of\<close> gives that of an ASCII literal.\<close>

type_synonym rust_text = "nat list"

definition ascii :: "char \<Rightarrow> nat" where
  "ascii c = of_char c"

definition text_of :: "string \<Rightarrow> rust_text" where
  "text_of s = map ascii s"

lemma ascii_eq [simp]: "ascii a = ascii b \<longleftrightarrow> a = b"
  unfolding ascii_def by (metis char_of_char)

lemma text_of_eq [simp]: "text_of a = text_of b \<longleftrightarrow> a = b"
  unfolding text_of_def by (simp add: inj_on_def inj_map_eq_map)

subsection \<open>Errors\<close>

datatype class_read_error =
    UnexpectedEof
  | InvalidMagic u32
  | InvalidClassVersion u16
  | InvalidConstantPoolTag u8
  | InvalidIndex u16
  | InvalidAttribute rust_text
  | InvalidOpcode u8 nat
  | Utf8Error rust_text

text \<open>
  Beside an error, reading can panic: \<^verbatim>\<open>Vec::with_capacity\<close> does when the capacity in bytes
  exceeds the address space. The last value is the fuel of the model's recursions.
\<close>

datatype read_stop = ReadError class_read_error | CapacityOverflow | ReadOutOfFuel

subsection \<open>The reader\<close>

record byte_reader =
  br_data :: "u8 list"
  br_pos :: nat

definition byte_reader_new :: "u8 list \<Rightarrow> byte_reader" where
  "byte_reader_new data = \<lparr>br_data = data, br_pos = 0\<rparr>"

definition remaining :: "byte_reader \<Rightarrow> nat" where
  "remaining r = length (br_data r) - br_pos r"

datatype read_state = Reading byte_reader | ReadStop read_stop

type_synonym 'a rd = "(read_state, 'a) state"

definition read_action :: "(byte_reader \<Rightarrow> read_stop + 'a \<times> byte_reader) \<Rightarrow> 'a rd" where
  "read_action f = State (\<lambda>m.
     case m of
       Reading r \<Rightarrow> (case f r of Inl e \<Rightarrow> (undefined, ReadStop e) | Inr (a, r') \<Rightarrow> (a, Reading r'))
     | ReadStop e \<Rightarrow> (undefined, ReadStop e))"

definition read_fail :: "read_stop \<Rightarrow> 'a rd" where
  "read_fail e = read_action (\<lambda>_. Inl e)"

definition read_gets :: "(byte_reader \<Rightarrow> 'a) \<Rightarrow> 'a rd" where
  "read_gets f = read_action (\<lambda>r. Inr (f r, r))"

text \<open>\<^verbatim>\<open>?\<close> on a result that does not depend on the reader\<close>

definition try_ok :: "class_read_error + 'a \<Rightarrow> 'a rd" where
  "try_ok x = (case x of Inl e \<Rightarrow> read_fail (ReadError e) | Inr a \<Rightarrow> ret a)"

definition read_u1 :: "u8 rd" where
  "read_u1 = read_action (\<lambda>r.
     if length (br_data r) \<le> br_pos r then Inl (ReadError UnexpectedEof)
     else Inr (br_data r ! br_pos r, r\<lparr>br_pos := br_pos r + 1\<rparr>))"

definition read_bytes :: "nat \<Rightarrow> u8 list rd" where
  "read_bytes len = read_action (\<lambda>r.
     if length (br_data r) < br_pos r + len then Inl (ReadError UnexpectedEof)
     else Inr (take len (drop (br_pos r) (br_data r)), r\<lparr>br_pos := br_pos r + len\<rparr>))"

text \<open>\<^verbatim>\<open>from_be_bytes\<close> and \<^verbatim>\<open>to_be_bytes\<close>\<close>

definition be_value :: "u8 list \<Rightarrow> nat" where
  "be_value bs = foldl (\<lambda>n b. n * 256 + unat b) 0 bs"

primrec be_bytes :: "nat \<Rightarrow> nat \<Rightarrow> u8 list" where
  "be_bytes 0 n = []"
| "be_bytes (Suc k) n = be_bytes k (n div 256) @ [word_of_nat n]"

definition read_u2 :: "u16 rd" where
  "read_u2 = do { bs \<leftarrow> read_bytes 2; ret (word_of_nat (be_value bs)) }"

definition read_u4 :: "u32 rd" where
  "read_u4 = do { bs \<leftarrow> read_bytes 4; ret (word_of_nat (be_value bs)) }"

definition read_u8 :: "jlong rd" where
  "read_u8 = do { bs \<leftarrow> read_bytes 8; ret (word_of_nat (be_value bs)) }"

text \<open>\<^verbatim>\<open>read_i1\<close>, \<^verbatim>\<open>read_i2\<close> and \<^verbatim>\<open>read_i4\<close> have the same bits.\<close>

definition read_i1 :: "u8 rd" where
  "read_i1 = read_u1"

definition read_i2 :: "u16 rd" where
  "read_i2 = read_u2"

definition read_i4 :: "u32 rd" where
  "read_i4 = do { bs \<leftarrow> read_bytes 4; ret (word_of_nat (be_value bs)) }"

text \<open>The padding of a switch instruction, up to a multiple of four.\<close>

definition switch_padding :: "nat \<Rightarrow> nat" where
  "switch_padding opcode_offset = (4 - (opcode_offset + 1) mod 4) mod 4"

primrec skip_u1s :: "nat \<Rightarrow> unit rd" where
  "skip_u1s 0 = skip"
| "skip_u1s (Suc n) = do { discard read_u1; skip_u1s n }"

definition align4 :: "nat \<Rightarrow> unit rd" where
  "align4 opcode_offset = skip_u1s (switch_padding opcode_offset)"

text \<open>\<^verbatim>\<open>for _ in 0..count { v.push(f(reader)?) }\<close>\<close>

primrec read_times :: "nat \<Rightarrow> 'a rd \<Rightarrow> 'a list rd" where
  "read_times 0 f = ret []"
| "read_times (Suc n) f = do { x \<leftarrow> f; xs \<leftarrow> read_times n f; ret (x # xs) }"

text \<open>A table: its length in two bytes, or in one, and its entries.\<close>

definition read_table :: "'a rd \<Rightarrow> 'a list rd" where
  "read_table f = do { count \<leftarrow> read_u2; read_times (unat count) f }"

definition read_table1 :: "'a rd \<Rightarrow> 'a list rd" where
  "read_table1 f = do { count \<leftarrow> read_u1; read_times (unat count) f }"

text \<open>A reader of its own over the bytes of \<open>info\<close>, and a whole run.\<close>

definition run_reader :: "'a rd \<Rightarrow> u8 list \<Rightarrow> read_stop + 'a" where
  "run_reader f data =
     (case run_state f (Reading (byte_reader_new data)) of
        (a, Reading _) \<Rightarrow> Inr a
      | (_, ReadStop e) \<Rightarrow> Inl e)"

definition read_nested :: "'a rd \<Rightarrow> u8 list \<Rightarrow> 'a rd" where
  "read_nested f info = read_action (\<lambda>r.
     case run_reader f info of Inl e \<Rightarrow> Inl e | Inr a \<Rightarrow> Inr (a, r))"

subsection \<open>Writing\<close>

text \<open>A \<^verbatim>\<open>write_\<close> function appends bytes to a vector; it is modelled by the bytes.\<close>

definition write_u1 :: "u8 \<Rightarrow> u8 list" where
  "write_u1 v = [v]"

definition write_u2 :: "u16 \<Rightarrow> u8 list" where
  "write_u2 v = be_bytes 2 (unat v)"

definition write_u4 :: "u32 \<Rightarrow> u8 list" where
  "write_u4 v = be_bytes 4 (unat v)"

definition write_u8 :: "jlong \<Rightarrow> u8 list" where
  "write_u8 v = be_bytes 8 (unat v)"

definition write_i1 :: "u8 \<Rightarrow> u8 list" where
  "write_i1 v = [v]"

definition write_i2 :: "u16 \<Rightarrow> u8 list" where
  "write_i2 v = be_bytes 2 (unat v)"

definition write_i4 :: "u32 \<Rightarrow> u8 list" where
  "write_i4 v = be_bytes 4 (unat v)"

definition write_switch_padding :: "nat \<Rightarrow> u8 list" where
  "write_switch_padding opcode_offset = replicate (switch_padding opcode_offset) 0"

definition write_table :: "('a \<Rightarrow> u8 list) \<Rightarrow> 'a list \<Rightarrow> u8 list" where
  "write_table w xs = write_u2 (word_of_nat (length xs)) @ concat (map w xs)"

definition write_table1 :: "('a \<Rightarrow> u8 list) \<Rightarrow> 'a list \<Rightarrow> u8 list" where
  "write_table1 w xs = write_u1 (word_of_nat (length xs)) @ concat (map w xs)"

subsection \<open>Bytes of a number\<close>

lemma unat_bound: "unat (w :: 'a :: len word) < 2 ^ LENGTH('a)"
  by (rule unsigned_less)

lemma length_be_bytes [simp]: "length (be_bytes k n) = k"
  by (induction k arbitrary: n) simp_all

lemma be_value_append [simp]: "be_value (bs @ [b]) = be_value bs * 256 + unat b"
  by (simp add: be_value_def)

lemma be_value_Nil [simp]: "be_value [] = 0"
  by (simp add: be_value_def)

lemma be_value_bytes: "be_value (be_bytes k n) = n mod 256 ^ k"
proof (induction k arbitrary: n)
  case (Suc k)
  have "be_value (be_bytes (Suc k) n) = n div 256 mod 256 ^ k * 256 + n mod 256"
    by (simp add: Suc unat_of_nat)
  also have "\<dots> = n mod (256 * 256 ^ k)" by (simp add: mod_mult2_eq)
  finally show ?case by simp
qed simp

lemma be_value_less: "be_value bs < 256 ^ length bs"
proof (induction bs rule: rev_induct)
  case (snoc b bs)
  have b: "unat b < 256" using unat_bound [of b] by simp
  have "be_value bs * 256 + unat b < (be_value bs + 1) * 256" using b by simp
  also have "\<dots> \<le> 256 ^ length bs * 256" using snoc by (intro mult_right_mono) simp_all
  finally show ?case by (simp add: mult.commute)
qed simp

lemma be_bytes_value: "be_bytes (length bs) (be_value bs) = bs"
proof (induction bs rule: rev_induct)
  case (snoc b bs)
  have "unat b < 256" using unat_bound [of b] by simp
  hence "(be_value bs * 256 + unat b) div 256 = be_value bs" by simp
  moreover have "word_of_nat (be_value bs * 256 + unat b) = b"
    using \<open>unat b < 256\<close> by (simp add: word_unat_eq_iff unat_of_nat del: of_nat_add)
  ultimately show ?case using snoc by simp
qed simp

subsection \<open>Reading what was written\<close>

text \<open>The reader reader_at \<open>pre\<close>, which is read, and \<open>post\<close>, which is not.\<close>

definition reader_at :: "u8 list \<Rightarrow> u8 list \<Rightarrow> byte_reader" where
  "reader_at pre post = \<lparr>br_data = pre @ post, br_pos = length pre\<rparr>"

definition reads_as :: "'a rd \<Rightarrow> u8 list \<Rightarrow> 'a \<Rightarrow> bool" where
  "reads_as f bs x \<longleftrightarrow>
     (\<forall>pre post. run_state f (Reading (reader_at pre (bs @ post))) = (x, Reading (reader_at (pre @ bs) post)))"

named_theorems codec_rules

lemma reads_as_bind [codec_rules]:
  "reads_as f bs x \<Longrightarrow> reads_as (g x) cs y \<Longrightarrow> reads_as (State_Monad.bind f g) (bs @ cs) y"
  by (simp add: reads_as_def)

lemma reads_as_ret [codec_rules]: "reads_as (ret x) [] x"
  by (simp add: reads_as_def)

lemma reads_as_last: "reads_as f bs x \<Longrightarrow> g x = ret y \<Longrightarrow> reads_as (State_Monad.bind f g) bs y"
  by (simp add: reads_as_def)

lemma reads_as_cong: "reads_as f bs x \<Longrightarrow> bs = cs \<Longrightarrow> x = y \<Longrightarrow> reads_as f cs y"
  by simp

lemma run_read_action:
  "run_state (read_action f) (Reading r) =
     (case f r of Inl e \<Rightarrow> (undefined, ReadStop e) | Inr (a, r') \<Rightarrow> (a, Reading r'))"
  "run_state (read_action f) (ReadStop e) = (undefined, ReadStop e)"
  by (simp_all add: read_action_def)

lemma reads_as_u1 [codec_rules]: "reads_as read_u1 (write_u1 v) v"
  by (simp add: reads_as_def read_u1_def write_u1_def run_read_action reader_at_def)

lemma reads_as_bytes [codec_rules]: "reads_as (read_bytes (length bs)) bs bs"
  by (simp add: reads_as_def read_bytes_def run_read_action reader_at_def)

lemma reads_as_bytes_n: "length bs = n \<Longrightarrow> reads_as (read_bytes n) bs bs"
  using reads_as_bytes by blast

lemma reads_as_u2 [codec_rules]: "reads_as read_u2 (write_u2 v) v"
proof -
  have "unat v < 256 ^ 2" using unat_bound [of v] by simp
  thus ?thesis unfolding read_u2_def write_u2_def
    by (intro reads_as_last [OF reads_as_bytes_n]) (simp_all add: be_value_bytes)
qed

lemma reads_as_u4 [codec_rules]: "reads_as read_u4 (write_u4 v) v"
proof -
  have "unat v < 256 ^ 4" using unat_bound [of v] by simp
  thus ?thesis unfolding read_u4_def write_u4_def
    by (intro reads_as_last [OF reads_as_bytes_n]) (simp_all add: be_value_bytes)
qed

lemma reads_as_i4 [codec_rules]: "reads_as read_i4 (write_i4 v) v"
  using reads_as_u4 by (simp add: read_i4_def write_i4_def read_u4_def write_u4_def)

lemma reads_as_i2 [codec_rules]: "reads_as read_i2 (write_i2 v) v"
  using reads_as_u2 by (simp add: read_i2_def write_i2_def write_u2_def)

lemma reads_as_i1 [codec_rules]: "reads_as read_i1 (write_i1 v) v"
  using reads_as_u1 by (simp add: read_i1_def write_i1_def write_u1_def)

lemma reads_as_u8 [codec_rules]: "reads_as read_u8 (write_u8 v) v"
proof -
  have "unat v < 256 ^ 8" using unat_bound [of v] by simp
  thus ?thesis unfolding read_u8_def write_u8_def
    by (intro reads_as_last [OF reads_as_bytes_n]) (simp_all add: be_value_bytes)
qed

lemma reads_as_discard [codec_rules]: "reads_as f bs x \<Longrightarrow> reads_as (discard f) bs ()"
  by (simp add: reads_as_def discard_def)

lemma reads_as_skip_u1s: "length bs = n \<Longrightarrow> reads_as (skip_u1s n) bs ()"
proof (induction n arbitrary: bs)
  case (Suc n)
  then obtain b cs where "bs = write_u1 b @ cs" "length cs = n"
    by (cases bs) (auto simp: write_u1_def)
  with Suc.IH [of cs] show ?case
    by (auto intro: reads_as_bind reads_as_discard reads_as_u1)
qed (simp add: reads_as_ret)

lemma reads_as_align4 [codec_rules]: "reads_as (align4 n) (write_switch_padding n) ()"
  by (simp add: align4_def write_switch_padding_def reads_as_skip_u1s)

subsection \<open>Codecs\<close>

text \<open>
  What the readers of tables rely on: the bytes \<open>enc x\<close> of an admissible entry are read back as
  the entry.
\<close>

locale codec =
  fixes enc :: "'a \<Rightarrow> u8 list" and dec :: "'a rd" and ok :: "'a \<Rightarrow> bool"
  assumes entry: "ok x \<Longrightarrow> reads_as dec (enc x) x"
begin

lemma times:
  "list_all ok xs \<Longrightarrow> reads_as (read_times (length xs) dec) (concat (map enc xs)) xs"
proof (induction xs)
  case (Cons x xs)
  have "reads_as (do { xs \<leftarrow> read_times (length xs) dec; ret (x # xs) }) (concat (map enc xs)) (x # xs)"
    using Cons by (intro reads_as_last [where x = xs]) simp_all
  with Cons.prems show ?case by (simp add: reads_as_bind [OF entry])
qed (simp add: reads_as_ret)

lemma table:
  assumes "list_all ok xs" and "length xs < 2 ^ 16"
  shows "reads_as (read_table dec) (write_table enc xs) xs"
  unfolding read_table_def write_table_def
  by (rule reads_as_bind [OF reads_as_u2]) (use times assms in \<open>simp add: unat_of_nat\<close>)

lemma table1:
  assumes "list_all ok xs" and "length xs < 2 ^ 8"
  shows "reads_as (read_table1 dec) (write_table1 enc xs) xs"
  unfolding read_table1_def write_table1_def
  by (rule reads_as_bind [OF reads_as_u1]) (use times assms in \<open>simp add: unat_of_nat\<close>)

end

abbreviation always :: "'a \<Rightarrow> bool" where
  "always \<equiv> \<lambda>_. True"

interpretation u2: codec write_u2 read_u2 always
  by unfold_locales (rule reads_as_u2)

subsection \<open>Whole runs\<close>

lemma reads_as_run: "reads_as f bs x \<Longrightarrow> run_reader f bs = Inr x"
proof -
  assume "reads_as f bs x"
  hence "run_state f (Reading (reader_at [] (bs @ []))) = (x, Reading (reader_at bs []))"
    unfolding reads_as_def by (metis append_Nil)
  thus ?thesis by (simp add: run_reader_def byte_reader_new_def reader_at_def)
qed

lemma reads_as_nested: "reads_as f bs x \<Longrightarrow> reads_as (read_nested f bs) [] x"
  by (simp add: reads_as_def read_nested_def run_read_action reads_as_run)

subsection \<open>Enough fuel\<close>

text \<open>
  On a reader with at most \<open>n\<close> bytes left, the action does not run out of fuel, and if it goes on
  it has read at least \<open>k\<close> bytes.
\<close>

definition br_ok :: "byte_reader \<Rightarrow> bool" where
  "br_ok r \<longleftrightarrow> br_pos r \<le> length (br_data r)"

definition fueled :: "nat \<Rightarrow> nat \<Rightarrow> 'a rd \<Rightarrow> bool" where
  "fueled n k f \<longleftrightarrow>
     (\<forall>e. snd (run_state f (ReadStop e)) = ReadStop e) \<and>
     (\<forall>r. br_ok r \<and> remaining r \<le> n \<longrightarrow>
       (case snd (run_state f (Reading r)) of
          Reading r' \<Rightarrow> br_ok r' \<and> br_data r' = br_data r \<and> br_pos r + k \<le> br_pos r'
        | ReadStop e \<Rightarrow> e \<noteq> ReadOutOfFuel))"

named_theorems fuel_rules

lemma fueled_stop: "fueled n k f \<Longrightarrow> snd (run_state f (ReadStop e)) = ReadStop e"
  by (simp add: fueled_def)

lemma fueled_go:
  "fueled n k f \<Longrightarrow> br_ok r \<Longrightarrow> remaining r \<le> n \<Longrightarrow> run_state f (Reading r) = (x, Reading r') \<Longrightarrow>
   br_ok r' \<and> br_data r' = br_data r \<and> br_pos r + k \<le> br_pos r'"
  unfolding fueled_def by (elim conjE allE [where x = r]) simp

lemma fueled_no_fuel:
  "fueled n k f \<Longrightarrow> br_ok r \<Longrightarrow> remaining r \<le> n \<Longrightarrow> run_state f (Reading r) = (x, ReadStop e) \<Longrightarrow>
   e \<noteq> ReadOutOfFuel"
  unfolding fueled_def by (elim conjE allE [where x = r]) simp

lemma fueledI:
  assumes "\<And>e. snd (run_state f (ReadStop e)) = ReadStop e"
    and "\<And>r x r'. br_ok r \<Longrightarrow> remaining r \<le> n \<Longrightarrow> run_state f (Reading r) = (x, Reading r') \<Longrightarrow>
      br_ok r' \<and> br_data r' = br_data r \<and> br_pos r + k \<le> br_pos r'"
    and "\<And>r x e. br_ok r \<Longrightarrow> remaining r \<le> n \<Longrightarrow> run_state f (Reading r) = (x, ReadStop e) \<Longrightarrow> e \<noteq> ReadOutOfFuel"
  shows "fueled n k f"
  unfolding fueled_def
proof (intro conjI allI impI assms(1), elim conjE)
  fix r assume r: "br_ok r" "remaining r \<le> n"
  show "case snd (run_state f (Reading r)) of
          Reading r' \<Rightarrow> br_ok r' \<and> br_data r' = br_data r \<and> br_pos r + k \<le> br_pos r'
        | ReadStop e \<Rightarrow> e \<noteq> ReadOutOfFuel"
  proof (cases "run_state f (Reading r)")
    case (Pair x m)
    thus ?thesis using assms(2) [OF r, of x] assms(3) [OF r, of x] by (cases m) simp_all
  qed
qed

lemma fueled_bind:
  assumes f: "fueled n k f" and g: "\<And>x. fueled (n - k) j (g x)"
  shows "fueled n (k + j) (State_Monad.bind f g)"
proof (rule fueledI)
  fix e
  show "snd (run_state (State_Monad.bind f g) (ReadStop e)) = ReadStop e"
    using fueled_stop [OF f, of e] fueled_stop [OF g, of _ e]
    by (cases "run_state f (ReadStop e)") simp
next
  fix r x r'
  assume r: "br_ok r" "remaining r \<le> n"
    and run: "run_state (State_Monad.bind f g) (Reading r) = (x, Reading r')"
  obtain y m where y: "run_state f (Reading r) = (y, m)" by (cases "run_state f (Reading r)")
  hence gy: "run_state (g y) m = (x, Reading r')" using run by simp
  with fueled_stop [OF g, of y] obtain q where m: "m = Reading q" by (cases m) (auto, metis snd_conv read_state.distinct(1))
  note q = fueled_go [OF f r y [unfolded m]]
  have "remaining q \<le> n - k" using r q by (auto simp: remaining_def)
  with q fueled_go [OF g, of q y x r'] gy m show "br_ok r' \<and> br_data r' = br_data r \<and> br_pos r + (k + j) \<le> br_pos r'"
    by auto
next
  fix r x e
  assume r: "br_ok r" "remaining r \<le> n"
    and run: "run_state (State_Monad.bind f g) (Reading r) = (x, ReadStop e)"
  obtain y m where y: "run_state f (Reading r) = (y, m)" by (cases "run_state f (Reading r)")
  hence gy: "run_state (g y) m = (x, ReadStop e)" using run by simp
  show "e \<noteq> ReadOutOfFuel"
  proof (cases m)
    case (Reading q)
    note q = fueled_go [OF f r y [unfolded Reading]]
    have "remaining q \<le> n - k" using r q by (auto simp: remaining_def)
    with q fueled_no_fuel [OF g, of q y x e] gy Reading show ?thesis by auto
  next
    case (ReadStop e')
    with fueled_stop [OF g, of y e'] gy have "e' = e" by simp
    with fueled_no_fuel [OF f r, of y e'] y ReadStop show ?thesis by simp
  qed
qed

lemma fueled_weaken: "fueled n k f \<Longrightarrow> m \<le> n \<Longrightarrow> j \<le> k \<Longrightarrow> fueled m j f"
proof (rule fueledI)
  fix r x r'
  assume "fueled n k f" "m \<le> n" "j \<le> k" "br_ok r" "remaining r \<le> m"
    "run_state f (Reading r) = (x, Reading r')"
  thus "br_ok r' \<and> br_data r' = br_data r \<and> br_pos r + j \<le> br_pos r'"
    using fueled_go [of n k f r x r'] by simp
next
  fix r x e
  assume "fueled n k f" "m \<le> n" "j \<le> k" "br_ok r" "remaining r \<le> m"
    "run_state f (Reading r) = (x, ReadStop e)"
  thus "e \<noteq> ReadOutOfFuel" using fueled_no_fuel [of n k f r x e] by simp
qed (rule fueled_stop)

lemma fueled_action:
  assumes "\<And>r x r'. br_ok r \<Longrightarrow> f r = Inr (x, r') \<Longrightarrow> br_ok r' \<and> br_data r' = br_data r \<and> br_pos r + k \<le> br_pos r'"
    and "\<And>r e. f r = Inl e \<Longrightarrow> e \<noteq> ReadOutOfFuel"
  shows "fueled n k (read_action f)"
  by (rule fueledI) (use assms in \<open>auto simp: run_read_action split: sum.splits\<close>)

lemma fueled_ret [fuel_rules]: "fueled n 0 (ret x)"
  by (simp add: fueled_def)

lemma fueled_fail [fuel_rules]: "e \<noteq> ReadOutOfFuel \<Longrightarrow> fueled n k (read_fail e)"
  unfolding read_fail_def by (rule fueled_action) auto

lemma fueled_gets [fuel_rules]: "fueled n 0 (read_gets f)"
  unfolding read_gets_def by (rule fueled_action) auto

lemma fueled_try [fuel_rules]: "fueled n 0 (try_ok x)"
  by (auto simp: try_ok_def intro: fueled_ret fueled_fail split: sum.splits)

lemma fueled_u1: "fueled n 1 read_u1"
  unfolding read_u1_def by (rule fueled_action) (auto simp: br_ok_def split: if_splits)

lemma fueled_bytes: "fueled n len (read_bytes len)"
  unfolding read_bytes_def by (rule fueled_action) (auto simp: br_ok_def split: if_splits)

lemma fueled_u2: "fueled n 2 read_u2"
  unfolding read_u2_def using fueled_bind [OF fueled_bytes fueled_ret, of _ 2] by simp

lemma fueled_u4: "fueled n 4 read_u4"
  unfolding read_u4_def using fueled_bind [OF fueled_bytes fueled_ret, of _ 4] by simp

lemma fueled_u8: "fueled n 8 read_u8"
  unfolding read_u8_def using fueled_bind [OF fueled_bytes fueled_ret, of _ 8] by simp

lemma fueled_i1: "fueled n 1 read_i1"
  unfolding read_i1_def by (rule fueled_u1)

lemma fueled_i2: "fueled n 2 read_i2"
  unfolding read_i2_def by (rule fueled_u2)

lemma fueled_i4: "fueled n 4 read_i4"
  unfolding read_i4_def using fueled_bind [OF fueled_bytes fueled_ret, of _ 4] by simp

definition stopping :: "'a rd \<Rightarrow> bool" where
  "stopping f \<longleftrightarrow> (\<forall>e. snd (run_state f (ReadStop e)) = ReadStop e)"

named_theorems stop_rules

lemma stopping_bind [stop_rules]:
  "stopping f \<Longrightarrow> (\<And>x. stopping (g x)) \<Longrightarrow> stopping (State_Monad.bind f g)"
  unfolding stopping_def by (auto split: prod.splits) (metis snd_conv)

lemma stopping_action: "stopping (read_action f)"
  by (simp add: stopping_def run_read_action)

lemma stopping_ret [stop_rules]: "stopping (ret x)"
  by (simp add: stopping_def)

lemma stopping_if [stop_rules]: "stopping f \<Longrightarrow> stopping g \<Longrightarrow> stopping (if c then f else g)"
  by simp

lemma stopping_primitives [stop_rules]:
  "stopping read_u1" "stopping (read_bytes len)" "stopping (read_fail e)" "stopping (read_gets h)"
  "stopping (read_nested g bs)"
  by (simp_all add: read_u1_def read_bytes_def read_fail_def read_gets_def read_nested_def stopping_action)

lemma stopping_integers [stop_rules]: "stopping read_u2" "stopping read_u4"
  unfolding read_u2_def read_u4_def by (auto intro!: stop_rules)

lemma stopping_try [stop_rules]: "stopping (try_ok x)"
  by (cases x) (simp_all add: try_ok_def stop_rules)

lemma stopping_times [stop_rules]: "stopping f \<Longrightarrow> stopping (read_times n f)"
  by (induction n) (auto intro: stop_rules)

lemma stopping_tables [stop_rules]:
  "stopping f \<Longrightarrow> stopping (read_table f)" "stopping f \<Longrightarrow> stopping (read_table1 f)"
  unfolding read_table_def read_table1_def by (auto intro!: stop_rules)

text \<open>What follows an action may rely on the bytes that the action has read.\<close>

lemma fueled_bind_le:
  assumes f: "fueled n k f" and g: "\<And>x. k \<le> n \<Longrightarrow> fueled (n - k) j (g x)" and stop: "\<And>x. stopping (g x)"
  shows "fueled n (k + j) (State_Monad.bind f g)"
proof (cases "k \<le> n")
  case True
  thus ?thesis using fueled_bind [OF f] g by blast
next
  case False
  have no: "run_state f (Reading r) \<noteq> (x, Reading r')" if "br_ok r" "remaining r \<le> n" for r x r'
    using fueled_go [OF f that] that False by (fastforce simp: br_ok_def remaining_def)
  have run: "\<exists>e. snd (run_state f (Reading r)) = ReadStop e \<and> e \<noteq> ReadOutOfFuel"
    if "br_ok r" "remaining r \<le> n" for r
    using no [OF that] fueled_no_fuel [OF f that] by (metis read_state.exhaust surj_pair snd_conv)
  have all: "\<exists>e. snd (run_state (State_Monad.bind f g) (Reading r)) = ReadStop e \<and> e \<noteq> ReadOutOfFuel"
    if "br_ok r" "remaining r \<le> n" for r
    using run [OF that] stop unfolding stopping_def by (auto split: prod.splits)
  show ?thesis
  proof (rule fueledI)
    fix e show "snd (run_state (State_Monad.bind f g) (ReadStop e)) = ReadStop e"
      using stopping_bind [of f g] stop fueled_stop [OF f] by (simp add: stopping_def)
  qed (use all in \<open>metis snd_conv read_state.distinct(1) read_state.inject(2)\<close>)+
qed

text \<open>What is read is not counted in the rules that follow.\<close>

lemmas fueled_reads [fuel_rules] =
  fueled_u1 [THEN fueled_weaken, OF order.refl le0]
  fueled_u2 [THEN fueled_weaken, OF order.refl le0]
  fueled_u4 [THEN fueled_weaken, OF order.refl le0]
  fueled_u8 [THEN fueled_weaken, OF order.refl le0]
  fueled_i1 [THEN fueled_weaken, OF order.refl le0]
  fueled_i2 [THEN fueled_weaken, OF order.refl le0]
  fueled_i4 [THEN fueled_weaken, OF order.refl le0]
  fueled_bytes [THEN fueled_weaken, OF order.refl le0]

lemma fueled_then [fuel_rules]:
  assumes "fueled n 0 f" and "\<And>x. fueled n 0 (g x)"
  shows "fueled n 0 (State_Monad.bind f g)"
  using fueled_bind [of n 0 f 0 g] assms by simp

lemma fueled_if [fuel_rules]:
  "(c \<Longrightarrow> fueled n k f) \<Longrightarrow> (\<not> c \<Longrightarrow> fueled n k g) \<Longrightarrow> fueled n k (if c then f else g)"
  by simp

lemma fueled_discard [fuel_rules]: "fueled n 0 f \<Longrightarrow> fueled n 0 (discard f)"
  unfolding discard_def by (intro fuel_rules)

lemma fueled_times [fuel_rules]: "fueled n 0 f \<Longrightarrow> fueled n 0 (read_times m f)"
  by (induction m) (auto intro: fuel_rules)

lemma fueled_skips [fuel_rules]: "fueled n 0 (skip_u1s m)"
  by (induction m) (auto intro: fuel_rules)

lemma fueled_align [fuel_rules]: "fueled n 0 (align4 m)"
  unfolding align4_def by (intro fuel_rules)

lemma fueled_table [fuel_rules]: "fueled n 0 f \<Longrightarrow> fueled n 0 (read_table f)"
  unfolding read_table_def by (intro fuel_rules)

lemma fueled_table1 [fuel_rules]: "fueled n 0 f \<Longrightarrow> fueled n 0 (read_table1 f)"
  unfolding read_table1_def by (intro fuel_rules)

lemma fueled_run: "fueled (length bs) k f \<Longrightarrow> run_reader f bs \<noteq> Inl ReadOutOfFuel"
proof
  assume f: "fueled (length bs) k f" and fuel: "run_reader f bs = Inl ReadOutOfFuel"
  let ?r = "byte_reader_new bs"
  obtain x where "run_state f (Reading ?r) = (x, ReadStop ReadOutOfFuel)"
    using fuel by (auto simp: run_reader_def split: prod.splits read_state.splits)
  moreover have "br_ok ?r" "remaining ?r \<le> length bs"
    by (simp_all add: br_ok_def remaining_def byte_reader_new_def)
  ultimately show False using fueled_no_fuel [OF f] by blast
qed

lemma fueled_nested: "fueled (length bs) k f \<Longrightarrow> fueled n 0 (read_nested f bs)"
  unfolding read_nested_def
  by (rule fueled_action) (use fueled_run [of bs k f] in \<open>auto split: sum.splits\<close>)

text \<open>The bytes that are read are bytes that were left.\<close>

lemma fueled_bytes_then:
  assumes g: "\<And>bs. length bs \<le> n \<Longrightarrow> fueled n 0 (g bs)" and stop: "\<And>bs. stopping (g bs)"
  shows "fueled n 0 (State_Monad.bind (read_bytes len) g)"
proof (rule fueledI)
  fix e
  show "snd (run_state (State_Monad.bind (read_bytes len) g) (ReadStop e)) = ReadStop e"
    using stop [of undefined] by (simp add: stopping_def read_bytes_def run_read_action)
next
  fix r x r'
  assume r: "br_ok r" "remaining r \<le> n"
    and run: "run_state (State_Monad.bind (read_bytes len) g) (Reading r) = (x, Reading r')"
  let ?bs = "take len (drop (br_pos r) (br_data r))"
  let ?q = "r\<lparr>br_pos := br_pos r + len\<rparr>"
  show "br_ok r' \<and> br_data r' = br_data r \<and> br_pos r + 0 \<le> br_pos r'"
  proof (cases "length (br_data r) < br_pos r + len")
    case True
    with run stop [of undefined] show ?thesis
      by (simp add: read_bytes_def run_read_action stopping_def) (metis snd_conv read_state.distinct(1))
  next
    case False
    hence "run_state (g ?bs) (Reading ?q) = (x, Reading r')"
      using run by (simp add: read_bytes_def run_read_action)
    moreover have "br_ok ?q" "remaining ?q \<le> n" "length ?bs \<le> n"
      using r False by (auto simp: br_ok_def remaining_def)
    ultimately show ?thesis using fueled_go [OF g, of ?bs ?q x r'] by simp
  qed
next
  fix r x e
  assume r: "br_ok r" "remaining r \<le> n"
    and run: "run_state (State_Monad.bind (read_bytes len) g) (Reading r) = (x, ReadStop e)"
  let ?bs = "take len (drop (br_pos r) (br_data r))"
  let ?q = "r\<lparr>br_pos := br_pos r + len\<rparr>"
  show "e \<noteq> ReadOutOfFuel"
  proof (cases "length (br_data r) < br_pos r + len")
    case True
    with run stop [of undefined] show ?thesis
      by (simp add: read_bytes_def run_read_action stopping_def)
        (metis snd_conv read_state.inject(2) read_stop.distinct(3))
  next
    case False
    hence "run_state (g ?bs) (Reading ?q) = (x, ReadStop e)"
      using run by (simp add: read_bytes_def run_read_action)
    moreover have "br_ok ?q" "remaining ?q \<le> n" "length ?bs \<le> n"
      using r False by (auto simp: br_ok_def remaining_def)
    ultimately show ?thesis using fueled_no_fuel [OF g, of ?bs ?q x e] by simp
  qed
qed

end
