(* ===== verification/ModifiedUtf8.thy ===== *)
theory ModifiedUtf8 imports ClassBytes begin

text \<open>
  Modified UTF-8, the encoding of strings in class files: \<^verbatim>\<open>decode_modified_utf8\<close> of
  \<^verbatim>\<open>class_reader.rs\<close>, \<^verbatim>\<open>encode_modified_utf8\<close> of \<^verbatim>\<open>class_writer.rs\<close>, and that the first
  inverts the second. A character outside of the basic plane is two surrogates of three bytes.
\<close>

unbundle bit_operations_syntax

definition is_char :: "nat \<Rightarrow> bool" where
  "is_char c \<longleftrightarrow> c < 0xD800 \<or> 0xDFFF < c \<and> c < 0x110000"

subsection \<open>Decoding\<close>

text \<open>\<^verbatim>\<open>String::from_utf16\<close>\<close>

fun from_utf16 :: "nat list \<Rightarrow> rust_text option" where
  "from_utf16 [] = Some []"
| "from_utf16 (u # us) =
     (if u < 0xD800 \<or> 0xDFFF < u then map_option (Cons u) (from_utf16 us)
      else if u \<le> 0xDBFF then
        (case us of
           v # vs \<Rightarrow>
             if 0xDC00 \<le> v \<and> v \<le> 0xDFFF then
               map_option (Cons (0x10000 + (u - 0xD800) * 0x400 + (v - 0xDC00))) (from_utf16 vs)
             else None
         | [] \<Rightarrow> None)
      else None)"

definition two_byte_value :: "u8 \<Rightarrow> u8 \<Rightarrow> nat" where
  "two_byte_value b b2 = push_bit 6 (unat (b AND 0x1F)) OR unat (b2 AND 0x3F)"

definition three_byte_value :: "u8 \<Rightarrow> u8 \<Rightarrow> u8 \<Rightarrow> nat" where
  "three_byte_value b b2 b3 =
     push_bit 12 (unat (b AND 0x0F)) OR push_bit 6 (unat (b2 AND 0x3F)) OR unat (b3 AND 0x3F)"

fun decode_units :: "u8 list \<Rightarrow> class_read_error + nat list" where
  "decode_units [] = Inr []"
| "decode_units (b # bs) =
     (if b AND 0x80 = 0 then map_sum id (Cons (unat b)) (decode_units bs)
      else if b AND 0xE0 = 0xC0 then
        (case bs of
           [] \<Rightarrow> Inl (Utf8Error (text_of ''truncated 2-byte''))
         | b2 # cs \<Rightarrow>
             if b2 AND 0xC0 \<noteq> 0x80 then Inl (Utf8Error (text_of ''invalid 2-byte''))
             else map_sum id (Cons (two_byte_value b b2)) (decode_units cs))
      else if b AND 0xF0 = 0xE0 then
        (case bs of
           b2 # b3 # cs \<Rightarrow>
             if b2 AND 0xC0 \<noteq> 0x80 \<or> b3 AND 0xC0 \<noteq> 0x80
             then Inl (Utf8Error (text_of ''invalid 3-byte''))
             else map_sum id (Cons (three_byte_value b b2 b3)) (decode_units cs)
         | _ \<Rightarrow> Inl (Utf8Error (text_of ''truncated 3-byte'')))
      else Inl (Utf8Error (text_of ''invalid leading byte'')))"

definition decode_modified_utf8 :: "u8 list \<Rightarrow> class_read_error + rust_text" where
  "decode_modified_utf8 bs =
     (case decode_units bs of
        Inl e \<Rightarrow> Inl e
      | Inr us \<Rightarrow>
          (case from_utf16 us of
             None \<Rightarrow> Inl (Utf8Error (text_of ''invalid utf16''))
           | Some s \<Rightarrow> Inr s))"

subsection \<open>Encoding\<close>

definition encode_two :: "nat \<Rightarrow> u8 list" where
  "encode_two c =
     [word_of_nat (0xC0 OR (drop_bit 6 c AND 0x1F)), word_of_nat (0x80 OR (c AND 0x3F))]"

definition encode_three :: "nat \<Rightarrow> u8 list" where
  "encode_three c =
     [word_of_nat (0xE0 OR (drop_bit 12 c AND 0x0F)), word_of_nat (0x80 OR (drop_bit 6 c AND 0x3F)),
      word_of_nat (0x80 OR (c AND 0x3F))]"

definition encode_char :: "nat \<Rightarrow> u8 list" where
  "encode_char code =
     (if code = 0 then [0xC0, 0x80]
      else if code \<le> 0x7F then [word_of_nat code]
      else if code \<le> 0x7FF then encode_two code
      else if code \<le> 0xFFFF then encode_three code
      else
        (let u = code - 0x10000;
             high = 0xD800 + (drop_bit 10 u AND 0x3FF);
             low = 0xDC00 + (u AND 0x3FF)
         in encode_three high @ encode_three low))"

definition encode_modified_utf8 :: "rust_text \<Rightarrow> u8 list" where
  "encode_modified_utf8 value = concat (map encode_char value)"

subsection \<open>Bits as arithmetic\<close>

lemma mask_mod:
  "(n :: nat) AND 0x1F = n mod 32" "n AND 0x3F = n mod 64" "n AND 0x0F = n mod 16"
  "n AND 0x3FF = n mod 1024"
  using take_bit_eq_mask [of 5 n] take_bit_eq_mask [of 6 n] take_bit_eq_mask [of 4 n]
    take_bit_eq_mask [of 10 n]
  by (simp_all add: take_bit_eq_mod mask_eq_exp_minus_1)

lemma bit_bound: "n < 2 ^ k \<Longrightarrow> bit n i \<Longrightarrow> i < k" for n :: nat
proof (rule ccontr)
  assume n: "n < 2 ^ k" "bit n i" "\<not> i < k"
  hence "n < 2 ^ i" using power_increasing [of k i "2 :: nat"] by linarith
  thus False using n(2) by (simp add: bit_iff_odd)
qed

lemma or_add_mult:
  fixes a b :: nat
  assumes "b < 2 ^ k"
  shows "push_bit k a OR b = a * 2 ^ k + b"
proof -
  have "push_bit k a + b = push_bit k a OR b"
    using bit_bound [OF assms] by (intro disjunctive_add) (fastforce simp: bit_push_bit_iff)
  thus ?thesis by (simp add: push_bit_eq_mult)
qed

lemma and_high:
  fixes n :: nat
  assumes "n < 2 ^ (j + k)"
  shows "n AND push_bit j (mask k) = push_bit j (drop_bit j n)"
proof (rule bit_eqI)
  fix i
  have "bit n i \<Longrightarrow> i < j + k" using bit_bound [OF assms] .
  thus "bit (n AND push_bit j (mask k)) i = bit (push_bit j (drop_bit j n)) i"
    by (auto simp: bit_and_iff bit_push_bit_iff bit_mask_iff bit_drop_bit_eq)
qed

lemma high_bits:
  fixes n :: nat
  assumes "n < 256"
  shows "n AND 0x80 = n div 128 * 128" "n AND 0xC0 = n div 64 * 64" "n AND 0xE0 = n div 32 * 32"
    "n AND 0xF0 = n div 16 * 16"
  using and_high [of n 7 1] and_high [of n 6 2] and_high [of n 5 3] and_high [of n 4 4] assms
  by (simp_all add: mask_eq_exp_minus_1 push_bit_eq_mult drop_bit_eq_div)

lemma unat_high:
  fixes b :: u8
  shows "b AND 0x80 = 0 \<longleftrightarrow> unat b < 128" "b AND 0xC0 = 0x80 \<longleftrightarrow> unat b div 64 = 2"
    "b AND 0xE0 = 0xC0 \<longleftrightarrow> unat b div 32 = 6" "b AND 0xF0 = 0xE0 \<longleftrightarrow> unat b div 16 = 14"
    "unat (b AND 0x1F) = unat b mod 32" "unat (b AND 0x3F) = unat b mod 64"
    "unat (b AND 0x0F) = unat b mod 16"
  using high_bits [of "unat b"] unat_bound [of b] mask_mod [of "unat b"]
  by (auto simp: word_unat_eq_iff unsigned_and_eq)

subsection \<open>The round trip\<close>

lemma bytes_of_char:
  shows "c < 64 \<Longrightarrow> unat (word_of_nat (0x80 OR c) :: u8) = 128 + c"
    "c < 32 \<Longrightarrow> unat (word_of_nat (0xC0 OR c) :: u8) = 192 + c"
    "c < 16 \<Longrightarrow> unat (word_of_nat (0xE0 OR c) :: u8) = 224 + c"
  using or_add_mult [of c 6 2] or_add_mult [of c 5 6] or_add_mult [of c 4 14]
  by (simp_all add: push_bit_eq_mult unat_of_nat del: of_nat_add)

lemma lead_bytes:
  fixes x :: nat
  shows "x < 64 \<Longrightarrow> (128 + x) mod 64 = x" "x < 64 \<Longrightarrow> (128 + x) div 64 = 2"
    "x < 32 \<Longrightarrow> (192 + x) mod 32 = x" "x < 32 \<Longrightarrow> (192 + x) div 32 = 6"
    "x < 16 \<Longrightarrow> (224 + x) mod 16 = x" "x < 16 \<Longrightarrow> (224 + x) div 16 = 14"
    "x < 16 \<Longrightarrow> (224 + x) div 32 = 7" "x < 32 \<Longrightarrow> 128 \<le> 192 + x"
  using mod_mult_self3 [of 2 64 x] div_mult_self3 [of 64 2 x] mod_mult_self3 [of 6 32 x]
    div_mult_self3 [of 32 6 x] mod_mult_self3 [of 14 16 x] div_mult_self3 [of 16 14 x]
    div_mult_self3 [of 32 7 x]
  by simp_all

lemma append_one: "(@) [x] = Cons x"
  by (simp add: fun_eq_iff)

lemma decode_two:
  assumes "c < 0x800"
  shows "decode_units (encode_two c @ bs) = map_sum id (Cons c) (decode_units bs)"
proof -
  have b: "c mod 64 < 64" "c div 64 < 32" "c div 64 mod 32 = c div 64"
    using assms by simp_all
  have "two_byte_value (word_of_nat (0xC0 OR (c div 64))) (word_of_nat (0x80 OR c mod 64)) = c"
    using b or_add_mult [of "c mod 64" 6 "c div 64"]
    by (simp add: two_byte_value_def unat_high bytes_of_char lead_bytes)
  thus ?thesis
    using b by (simp add: encode_two_def mask_mod drop_bit_eq_div unat_high lead_bytes
        bytes_of_char)
qed

lemma decode_three:
  assumes "c < 0x10000"
  shows "decode_units (encode_three c @ bs) = map_sum id (Cons c) (decode_units bs)"
proof -
  let ?a = "c div 4096" and ?b = "c div 64 mod 64" and ?c = "c mod 64"
  have b: "?a < 16" "?b < 64" "?c < 64" "?a mod 16 = ?a" using assms by simp_all
  have "?a * 64 + ?b = c div 64"
    using div_mult_mod_eq [of "c div 64" 64] by (simp add: div_mult2_eq [symmetric])
  hence "?a * 4096 + ?b * 64 + ?c = c" using div_mult_mod_eq [of c 64] by linarith
  moreover have "?b * 64 + ?c < 4096" using b(2,3) by linarith
  hence "push_bit 12 ?a OR (?b * 64 + ?c) = ?a * 4096 + (?b * 64 + ?c)"
    using or_add_mult [of "?b * 64 + ?c" 12 ?a] by simp
  moreover have "push_bit 6 ?b OR ?c = ?b * 64 + ?c" using or_add_mult [of ?c 6 ?b] by simp
  ultimately have "three_byte_value (word_of_nat (0xE0 OR ?a)) (word_of_nat (0x80 OR ?b))
      (word_of_nat (0x80 OR ?c)) = c"
    using b by (simp add: three_byte_value_def unat_high bytes_of_char
        or.assoc lead_bytes)
  thus ?thesis
    using b by (simp add: encode_three_def mask_mod drop_bit_eq_div unat_high lead_bytes
        bytes_of_char)
qed

text \<open>The UTF-16 units of a character.\<close>

definition units_of :: "nat \<Rightarrow> nat list" where
  "units_of c =
     (if c < 0x10000 then [c]
      else [0xD800 + (c - 0x10000) div 1024, 0xDC00 + (c - 0x10000) mod 1024])"

lemma decode_char:
  assumes "is_char c"
  shows "decode_units (encode_char c @ bs) = map_sum id ((@) (units_of c)) (decode_units bs)"
proof -
  consider "c = 0" | "0 < c" "c \<le> 0x7F" | "0x7F < c" "c \<le> 0x7FF" | "0x7FF < c" "c \<le> 0xFFFF"
    | "0xFFFF < c" "c < 0x110000"
    using assms by (fastforce simp: is_char_def)
  thus ?thesis
  proof cases
    case 1
    have "two_byte_value 0xC0 0x80 = 0" by (simp add: two_byte_value_def unat_high)
    thus ?thesis by (simp add: encode_char_def 1 unat_high units_of_def append_one)
  next
    case 5
    let ?u = "c - 0x10000"
    have u: "?u div 1024 < 1024" "?u mod 1024 < 1024" using 5 by (simp_all add: div_less_iff_less_mult)
    hence "encode_char c = encode_three (0xD800 + ?u div 1024) @ encode_three (0xDC00 + ?u mod 1024)"
      using 5 by (simp add: encode_char_def Let_def mask_mod drop_bit_eq_div)
    thus ?thesis
      using 5 u by (cases "decode_units bs") (simp_all add: decode_three units_of_def)
  qed (simp_all add: encode_char_def decode_two decode_three units_of_def unat_high unat_of_nat append_one)
qed

lemma from_utf16_units:
  "is_char c \<Longrightarrow> from_utf16 (units_of c @ us) = map_option (Cons c) (from_utf16 us)"
proof (cases "c < 0x10000")
  case False
  assume "is_char c"
  hence "(c - 0x10000) div 1024 < 1024" "(c - 0x10000) mod 1024 < 1024"
    by (auto simp: is_char_def div_less_iff_less_mult)
  moreover have "0xDC00 + (c - 0x10000) mod 1024 \<le> 0xDFFF"
    using mod_less_divisor [of 1024 "c - 0x10000"] by linarith
  moreover have "0x10000 + (c - 0x10000) div 1024 * 1024 + (c - 0x10000) mod 1024 = c"
    using False by (simp add: div_mult_mod_eq)
  ultimately show ?thesis using False by (simp add: units_of_def)
qed (auto simp: units_of_def is_char_def)

lemma decode_units_encode:
  "list_all is_char s \<Longrightarrow> decode_units (encode_modified_utf8 s) = Inr (concat (map units_of s))"
  by (induction s) (simp_all add: encode_modified_utf8_def decode_char)

lemma from_utf16_encode: "list_all is_char s \<Longrightarrow> from_utf16 (concat (map units_of s)) = Some s"
  by (induction s) (simp_all add: from_utf16_units)

lemma decode_encode: "list_all is_char s \<Longrightarrow> decode_modified_utf8 (encode_modified_utf8 s) = Inr s"
  by (simp add: decode_modified_utf8_def decode_units_encode from_utf16_encode)


end
