(* ===== verification/ConstPool.thy ===== *)
theory ConstPool imports ModifiedUtf8 "HOL-Library.Sublist" begin

text \<open>
  The constant pool of \<^verbatim>\<open>lib/rust-asm\<close>: its entries (\<^verbatim>\<open>constant_pool.rs\<close>), how they are read and
  looked up (\<^verbatim>\<open>class_reader.rs\<close>), how they are written and interned (\<^verbatim>\<open>class_writer.rs\<close>).
  Floating point constants are their bits.
\<close>

subsection \<open>Entries\<close>

datatype cp_info =
    Unusable
  | Utf8 rust_text
  | Integer u32
  | Float u32
  | Long jlong
  | Double jlong
  | Class u16
  | String u16
  | Fieldref u16 u16
  | Methodref u16 u16
  | InterfaceMethodref u16 u16
  | NameAndType u16 u16
  | MethodHandle u8 u16
  | MethodType u16
  | Dynamic u16 u16
  | InvokeDynamic u16 u16
  | Module u16
  | Package u16

text \<open>\<^verbatim>\<open>cp.get(index as usize)\<close>\<close>

definition cp_get :: "cp_info list \<Rightarrow> u16 \<Rightarrow> cp_info option" where
  "cp_get cp i = nth_opt cp (unat i)"

subsection \<open>Lookup\<close>

definition cp_utf8 :: "cp_info list \<Rightarrow> u16 \<Rightarrow> class_read_error + rust_text" where
  "cp_utf8 cp index =
     (case cp_get cp index of Some (Utf8 value) \<Rightarrow> Inr value | _ \<Rightarrow> Inl (InvalidIndex index))"

definition cp_class_name :: "cp_info list \<Rightarrow> u16 \<Rightarrow> class_read_error + rust_text" where
  "cp_class_name cp index =
     (case cp_get cp index of
        Some (Class name_index) \<Rightarrow> cp_utf8 cp name_index
      | _ \<Rightarrow> Inl (InvalidIndex index))"

definition cp_name_and_type :: "cp_info list \<Rightarrow> u16 \<Rightarrow> class_read_error + rust_text \<times> rust_text" where
  "cp_name_and_type cp index =
     (case cp_get cp index of
        Some (NameAndType name_index descriptor_index) \<Rightarrow>
          (case cp_utf8 cp name_index of
             Inl e \<Rightarrow> Inl e
           | Inr name \<Rightarrow> map_sum id (Pair name) (cp_utf8 cp descriptor_index))
      | _ \<Rightarrow> Inl (InvalidIndex index))"

definition cp_member ::
    "cp_info list \<Rightarrow> u16 \<Rightarrow> u16 \<Rightarrow> class_read_error + rust_text \<times> rust_text \<times> rust_text" where
  "cp_member cp class_index name_and_type_index =
     (case cp_class_name cp class_index of
        Inl e \<Rightarrow> Inl e
      | Inr owner \<Rightarrow> map_sum id (Pair owner) (cp_name_and_type cp name_and_type_index))"

definition cp_field_ref ::
    "cp_info list \<Rightarrow> u16 \<Rightarrow> class_read_error + rust_text \<times> rust_text \<times> rust_text" where
  "cp_field_ref cp index =
     (case cp_get cp index of
        Some (Fieldref class_index name_and_type_index) \<Rightarrow> cp_member cp class_index name_and_type_index
      | _ \<Rightarrow> Inl (InvalidIndex index))"

definition cp_method_ref ::
    "cp_info list \<Rightarrow> u16 \<Rightarrow> class_read_error + (rust_text \<times> rust_text \<times> rust_text) \<times> bool" where
  "cp_method_ref cp index =
     (case cp_get cp index of
        Some (Methodref class_index name_and_type_index) \<Rightarrow>
          map_sum id (\<lambda>m. (m, False)) (cp_member cp class_index name_and_type_index)
      | Some (InterfaceMethodref class_index name_and_type_index) \<Rightarrow>
          map_sum id (\<lambda>m. (m, True)) (cp_member cp class_index name_and_type_index)
      | _ \<Rightarrow> Inl (InvalidIndex index))"

definition cp_invoke_dynamic :: "cp_info list \<Rightarrow> u16 \<Rightarrow> class_read_error + rust_text \<times> rust_text" where
  "cp_invoke_dynamic cp index =
     (case cp_get cp index of
        Some (InvokeDynamic _ name_and_type_index) \<Rightarrow> cp_name_and_type cp name_and_type_index
      | _ \<Rightarrow> Inl (InvalidIndex index))"

datatype ldc_constant =
    LdcInteger u32
  | LdcFloat u32
  | LdcLong jlong
  | LdcDouble jlong
  | LdcString rust_text
  | LdcClass rust_text
  | LdcMethodType rust_text
  | LdcMethodHandle u8 u16
  | LdcDynamic

definition cp_ldc_constant :: "cp_info list \<Rightarrow> u16 \<Rightarrow> class_read_error + ldc_constant" where
  "cp_ldc_constant cp index =
     (case cp_get cp index of
        Some (Integer v) \<Rightarrow> Inr (LdcInteger v)
      | Some (Float v) \<Rightarrow> Inr (LdcFloat v)
      | Some (Long v) \<Rightarrow> Inr (LdcLong v)
      | Some (Double v) \<Rightarrow> Inr (LdcDouble v)
      | Some (String i) \<Rightarrow> map_sum id LdcString (cp_utf8 cp i)
      | Some (Class i) \<Rightarrow> map_sum id LdcClass (cp_utf8 cp i)
      | Some (MethodType i) \<Rightarrow> map_sum id LdcMethodType (cp_utf8 cp i)
      | Some (MethodHandle k i) \<Rightarrow> Inr (LdcMethodHandle k i)
      | Some (Dynamic _ _) \<Rightarrow> Inr LdcDynamic
      | _ \<Rightarrow> Inl (InvalidIndex index))"

subsection \<open>Reading\<close>

definition read_entry :: "u8 \<Rightarrow> cp_info rd" where
  "read_entry tag =
     (if tag = 1 then
        do { len \<leftarrow> read_u2;
             bytes \<leftarrow> read_bytes (unat len);
             value \<leftarrow> try_ok (decode_modified_utf8 bytes);
             ret (Utf8 value) }
      else if tag = 3 then do { v \<leftarrow> read_u4; ret (Integer v) }
      else if tag = 4 then do { v \<leftarrow> read_u4; ret (Float v) }
      else if tag = 5 then do { v \<leftarrow> read_u8; ret (Long v) }
      else if tag = 6 then do { v \<leftarrow> read_u8; ret (Double v) }
      else if tag = 7 then do { i \<leftarrow> read_u2; ret (Class i) }
      else if tag = 8 then do { i \<leftarrow> read_u2; ret (String i) }
      else if tag = 9 then do { i \<leftarrow> read_u2; j \<leftarrow> read_u2; ret (Fieldref i j) }
      else if tag = 10 then do { i \<leftarrow> read_u2; j \<leftarrow> read_u2; ret (Methodref i j) }
      else if tag = 11 then do { i \<leftarrow> read_u2; j \<leftarrow> read_u2; ret (InterfaceMethodref i j) }
      else if tag = 12 then do { i \<leftarrow> read_u2; j \<leftarrow> read_u2; ret (NameAndType i j) }
      else if tag = 15 then do { k \<leftarrow> read_u1; i \<leftarrow> read_u2; ret (MethodHandle k i) }
      else if tag = 16 then do { i \<leftarrow> read_u2; ret (MethodType i) }
      else if tag = 17 then do { i \<leftarrow> read_u2; j \<leftarrow> read_u2; ret (Dynamic i j) }
      else if tag = 18 then do { i \<leftarrow> read_u2; j \<leftarrow> read_u2; ret (InvokeDynamic i j) }
      else if tag = 19 then do { i \<leftarrow> read_u2; ret (Module i) }
      else if tag = 20 then do { i \<leftarrow> read_u2; ret (Package i) }
      else read_fail (ReadError (InvalidConstantPoolTag tag)))"

text \<open>The entries that are left, by their number; a long or double takes two.\<close>

fun read_pool_entries :: "nat \<Rightarrow> cp_info list rd" where
  "read_pool_entries 0 = ret []"
| "read_pool_entries (Suc n) =
     do { tag \<leftarrow> read_u1;
          entry \<leftarrow> read_entry tag;
          if tag = 5 \<or> tag = 6 then
            do { pool \<leftarrow> read_pool_entries (n - 1); ret (entry # Unusable # pool) }
          else do { pool \<leftarrow> read_pool_entries n; ret (entry # pool) } }"

definition read_constant_pool :: "cp_info list rd" where
  "read_constant_pool =
     do { count \<leftarrow> read_u2;
          pool \<leftarrow> read_pool_entries (unat count - 1);
          ret (Unusable # pool) }"

subsection \<open>Writing\<close>

fun write_entry :: "cp_info \<Rightarrow> u8 list" where
  "write_entry Unusable = []"
| "write_entry (Utf8 value) =
     (let bytes = encode_modified_utf8 value in
      write_u1 1 @ write_u2 (word_of_nat (length bytes)) @ bytes)"
| "write_entry (Integer v) = write_u1 3 @ write_u4 v"
| "write_entry (Float v) = write_u1 4 @ write_u4 v"
| "write_entry (Long v) = write_u1 5 @ write_u8 v"
| "write_entry (Double v) = write_u1 6 @ write_u8 v"
| "write_entry (Class i) = write_u1 7 @ write_u2 i"
| "write_entry (String i) = write_u1 8 @ write_u2 i"
| "write_entry (Fieldref i j) = write_u1 9 @ write_u2 i @ write_u2 j"
| "write_entry (Methodref i j) = write_u1 10 @ write_u2 i @ write_u2 j"
| "write_entry (InterfaceMethodref i j) = write_u1 11 @ write_u2 i @ write_u2 j"
| "write_entry (NameAndType i j) = write_u1 12 @ write_u2 i @ write_u2 j"
| "write_entry (MethodHandle k i) = write_u1 15 @ write_u1 k @ write_u2 i"
| "write_entry (MethodType i) = write_u1 16 @ write_u2 i"
| "write_entry (Dynamic i j) = write_u1 17 @ write_u2 i @ write_u2 j"
| "write_entry (InvokeDynamic i j) = write_u1 18 @ write_u2 i @ write_u2 j"
| "write_entry (Module i) = write_u1 19 @ write_u2 i"
| "write_entry (Package i) = write_u1 20 @ write_u2 i"

definition write_constant_pool :: "cp_info list \<Rightarrow> u8 list" where
  "write_constant_pool cp =
     write_u2 (word_of_nat (length cp)) @ concat (map write_entry (drop 1 cp))"

subsection \<open>Interning\<close>

primrec position :: "('a \<Rightarrow> bool) \<Rightarrow> 'a list \<Rightarrow> nat option" where
  "position P [] = None"
| "position P (x # xs) = (if P x then Some 0 else map_option Suc (position P xs))"

text \<open>The index of the first entry with \<open>P\<close>, or of a new entry.\<close>

definition ensure_entry :: "(cp_info \<Rightarrow> bool) \<Rightarrow> cp_info \<Rightarrow> cp_info list \<Rightarrow> u16 \<times> cp_info list" where
  "ensure_entry P entry cp =
     (case position P cp of
        Some i \<Rightarrow> (word_of_nat i, cp)
      | None \<Rightarrow> (word_of_nat (length cp), cp @ [entry]))"

definition cp_find_utf8 :: "cp_info list \<Rightarrow> rust_text \<Rightarrow> u16 option" where
  "cp_find_utf8 cp value = map_option word_of_nat (position (\<lambda>e. e = Utf8 value) cp)"

definition ensure_utf8 :: "rust_text \<Rightarrow> cp_info list \<Rightarrow> u16 \<times> cp_info list" where
  "ensure_utf8 value cp =
     (case cp_find_utf8 cp value of
        Some index \<Rightarrow> (index, cp)
      | None \<Rightarrow> (word_of_nat (length cp), cp @ [Utf8 value]))"

text \<open>
  An entry that names its text indirectly is found by the text: the first entry \<open>mk i\<close> whose
  index \<open>i\<close> is that of the text.
\<close>

definition names_text :: "cp_info list \<Rightarrow> (u16 \<Rightarrow> cp_info) \<Rightarrow> rust_text \<Rightarrow> cp_info \<Rightarrow> bool" where
  "names_text cp mk name entry =
     (case entry of
        Class i \<Rightarrow> mk i = Class i \<and> cp_get cp i = Some (Utf8 name)
      | Module i \<Rightarrow> mk i = Module i \<and> cp_get cp i = Some (Utf8 name)
      | Package i \<Rightarrow> mk i = Package i \<and> cp_get cp i = Some (Utf8 name)
      | _ \<Rightarrow> False)"

definition ensure_named :: "(u16 \<Rightarrow> cp_info) \<Rightarrow> rust_text \<Rightarrow> cp_info list \<Rightarrow> u16 \<times> cp_info list" where
  "ensure_named mk name cp =
     (case position (names_text cp mk name) cp of
        Some i \<Rightarrow> (word_of_nat i, cp)
      | None \<Rightarrow>
          (case ensure_utf8 name cp of
             (name_index, cp) \<Rightarrow> (word_of_nat (length cp), cp @ [mk name_index])))"

definition ensure_class :: "rust_text \<Rightarrow> cp_info list \<Rightarrow> u16 \<times> cp_info list" where
  "ensure_class = ensure_named Class"

definition ensure_module :: "rust_text \<Rightarrow> cp_info list \<Rightarrow> u16 \<times> cp_info list" where
  "ensure_module = ensure_named Module"

definition ensure_package :: "rust_text \<Rightarrow> cp_info list \<Rightarrow> u16 \<times> cp_info list" where
  "ensure_package = ensure_named Package"

definition ensure_name_and_type ::
    "rust_text \<Rightarrow> rust_text \<Rightarrow> cp_info list \<Rightarrow> u16 \<times> cp_info list" where
  "ensure_name_and_type name descriptor cp =
     (case ensure_utf8 name cp of
        (i, cp) \<Rightarrow>
          (case ensure_utf8 descriptor cp of
             (j, cp) \<Rightarrow> ensure_entry (\<lambda>e. e = NameAndType i j) (NameAndType i j) cp))"

definition ensure_string :: "rust_text \<Rightarrow> cp_info list \<Rightarrow> u16 \<times> cp_info list" where
  "ensure_string value cp =
     (case ensure_utf8 value cp of (i, cp) \<Rightarrow> ensure_entry (\<lambda>e. e = String i) (String i) cp)"

definition ensure_method_type :: "rust_text \<Rightarrow> cp_info list \<Rightarrow> u16 \<times> cp_info list" where
  "ensure_method_type descriptor cp =
     (case ensure_utf8 descriptor cp of
        (i, cp) \<Rightarrow> ensure_entry (\<lambda>e. e = MethodType i) (MethodType i) cp)"

definition ensure_member ::
    "(u16 \<Rightarrow> u16 \<Rightarrow> cp_info) \<Rightarrow> rust_text \<Rightarrow> rust_text \<Rightarrow> rust_text \<Rightarrow> cp_info list \<Rightarrow> u16 \<times> cp_info list" where
  "ensure_member mk owner name descriptor cp =
     (case ensure_class owner cp of
        (i, cp) \<Rightarrow>
          (case ensure_name_and_type name descriptor cp of
             (j, cp) \<Rightarrow> ensure_entry (\<lambda>e. e = mk i j) (mk i j) cp))"

definition ensure_field_ref ::
    "rust_text \<Rightarrow> rust_text \<Rightarrow> rust_text \<Rightarrow> cp_info list \<Rightarrow> u16 \<times> cp_info list" where
  "ensure_field_ref = ensure_member Fieldref"

definition ensure_method_ref ::
    "rust_text \<Rightarrow> rust_text \<Rightarrow> rust_text \<Rightarrow> cp_info list \<Rightarrow> u16 \<times> cp_info list" where
  "ensure_method_ref = ensure_member Methodref"

definition ensure_interface_method_ref ::
    "rust_text \<Rightarrow> rust_text \<Rightarrow> rust_text \<Rightarrow> cp_info list \<Rightarrow> u16 \<times> cp_info list" where
  "ensure_interface_method_ref = ensure_member InterfaceMethodref"

record handle =
  reference_kind :: u8
  handle_owner :: rust_text
  handle_name :: rust_text
  handle_descriptor :: rust_text
  is_interface :: bool

definition ensure_method_handle :: "handle \<Rightarrow> cp_info list \<Rightarrow> u16 \<times> cp_info list" where
  "ensure_method_handle h cp =
     (case (if 1 \<le> reference_kind h \<and> reference_kind h \<le> 4 then ensure_field_ref
            else if reference_kind h = 9 then ensure_interface_method_ref
            else ensure_method_ref) (handle_owner h) (handle_name h) (handle_descriptor h) cp of
        (i, cp) \<Rightarrow>
          ensure_entry (\<lambda>e. e = MethodHandle (reference_kind h) i) (MethodHandle (reference_kind h) i) cp)"

definition ensure_int :: "u32 \<Rightarrow> cp_info list \<Rightarrow> u16 \<times> cp_info list" where
  "ensure_int value = ensure_entry (\<lambda>e. e = Integer value) (Integer value)"

definition ensure_float :: "u32 \<Rightarrow> cp_info list \<Rightarrow> u16 \<times> cp_info list" where
  "ensure_float value = ensure_entry (\<lambda>e. e = Float value) (Float value)"

definition ensure_wide :: "cp_info \<Rightarrow> cp_info list \<Rightarrow> u16 \<times> cp_info list" where
  "ensure_wide entry cp =
     (case position (\<lambda>e. e = entry) cp of
        Some i \<Rightarrow> (word_of_nat i, cp)
      | None \<Rightarrow> (word_of_nat (length cp), cp @ [entry, Unusable]))"

definition ensure_long :: "jlong \<Rightarrow> cp_info list \<Rightarrow> u16 \<times> cp_info list" where
  "ensure_long value = ensure_wide (Long value)"

definition ensure_double :: "jlong \<Rightarrow> cp_info list \<Rightarrow> u16 \<times> cp_info list" where
  "ensure_double value = ensure_wide (Double value)"

definition ensure_invoke_dynamic ::
    "u16 \<Rightarrow> rust_text \<Rightarrow> rust_text \<Rightarrow> cp_info list \<Rightarrow> u16 \<times> cp_info list" where
  "ensure_invoke_dynamic bsm name descriptor cp =
     (case ensure_name_and_type name descriptor cp of
        (j, cp) \<Rightarrow> ensure_entry (\<lambda>e. e = InvokeDynamic bsm j) (InvokeDynamic bsm j) cp)"

subsection \<open>The round trip\<close>

definition utf8_fits :: "rust_text \<Rightarrow> bool" where
  "utf8_fits s \<longleftrightarrow> list_all is_char s \<and> length (encode_modified_utf8 s) < 2 ^ 16"

fun entry_fits :: "cp_info \<Rightarrow> bool" where
  "entry_fits Unusable = False"
| "entry_fits (Utf8 s) = utf8_fits s"
| "entry_fits _ = True"

fun wide_entry :: "cp_info \<Rightarrow> bool" where
  "wide_entry (Long _) = True"
| "wide_entry (Double _) = True"
| "wide_entry _ = False"

text \<open>A second, unusable place after each long and double, and nowhere else.\<close>

fun laid_out :: "cp_info list \<Rightarrow> bool" where
  "laid_out [] = True"
| "laid_out (e # es) =
     (entry_fits e \<and>
      (if wide_entry e then (case es of Unusable # es' \<Rightarrow> laid_out es' | _ \<Rightarrow> False) else laid_out es))"

definition pool_ok :: "cp_info list \<Rightarrow> bool" where
  "pool_ok cp \<longleftrightarrow> (case cp of Unusable # es \<Rightarrow> laid_out es | _ \<Rightarrow> False) \<and> length cp < 2 ^ 16"

text \<open>An entry is read back as it was written, the tag first.\<close>

lemma reads_as_try_ok: "x = Inr a \<Longrightarrow> reads_as (try_ok x) [] a"
  by (simp add: try_ok_def reads_as_ret)

lemma reads_as_bind_nil:
  "reads_as f [] x \<Longrightarrow> reads_as (g x) cs y \<Longrightarrow> reads_as (State_Monad.bind f g) cs y"
  by (rule reads_as_cong [OF reads_as_bind]) auto

fun entry_tag :: "cp_info \<Rightarrow> u8" where
  "entry_tag Unusable = 0"
| "entry_tag (Utf8 _) = 1"
| "entry_tag (Integer _) = 3"
| "entry_tag (Float _) = 4"
| "entry_tag (Long _) = 5"
| "entry_tag (Double _) = 6"
| "entry_tag (Class _) = 7"
| "entry_tag (String _) = 8"
| "entry_tag (Fieldref _ _) = 9"
| "entry_tag (Methodref _ _) = 10"
| "entry_tag (InterfaceMethodref _ _) = 11"
| "entry_tag (NameAndType _ _) = 12"
| "entry_tag (MethodHandle _ _) = 15"
| "entry_tag (MethodType _) = 16"
| "entry_tag (Dynamic _ _) = 17"
| "entry_tag (InvokeDynamic _ _) = 18"
| "entry_tag (Module _) = 19"
| "entry_tag (Package _) = 20"

lemma write_entry_tag: "entry_fits e \<Longrightarrow> write_entry e = write_u1 (entry_tag e) @ tl (write_entry e)"
  by (cases e) (simp_all add: write_u1_def Let_def)

lemma reads_as_entry: "entry_fits e \<Longrightarrow> reads_as (read_entry (entry_tag e)) (tl (write_entry e)) e"
proof (cases e)
  case (Utf8 s)
  assume "entry_fits e"
  hence s: "list_all is_char s" "length (encode_modified_utf8 s) < 2 ^ 16"
    by (simp_all add: Utf8 utf8_fits_def)
  have "reads_as (do { len \<leftarrow> read_u2;
             bytes \<leftarrow> read_bytes (unat len);
             value \<leftarrow> try_ok (decode_modified_utf8 bytes);
             ret (Utf8 value) })
      (write_u2 (word_of_nat (length (encode_modified_utf8 s))) @ encode_modified_utf8 s @ []) (Utf8 s)"
    by (intro reads_as_bind [OF reads_as_u2] reads_as_bind [OF reads_as_bytes_n]
        reads_as_last [OF reads_as_try_ok]) (use s in \<open>simp_all add: unat_of_nat decode_encode\<close>)
  thus ?thesis by (simp add: Utf8 read_entry_def write_u1_def Let_def)
qed (auto simp: read_entry_def write_u1_def
      intro!: reads_as_bind [OF reads_as_u2] reads_as_last [OF reads_as_u2] reads_as_last [OF reads_as_u4]
        reads_as_last [OF reads_as_u8] reads_as_bind [OF reads_as_u1 [unfolded write_u1_def], simplified])

lemma entry_tag_wide: "entry_fits e \<Longrightarrow> (entry_tag e = 5 \<or> entry_tag e = 6) = wide_entry e"
  by (cases e) simp_all

lemma reads_as_tagged:
  assumes "entry_fits e" and "reads_as (k (entry_tag e) e) bs y"
  shows "reads_as (do { tag \<leftarrow> read_u1; entry \<leftarrow> read_entry tag; k tag entry }) (write_entry e @ bs) y"
  by (subst write_entry_tag [OF assms(1)], unfold append_assoc)
    (intro reads_as_bind [OF reads_as_u1] reads_as_bind [OF reads_as_entry] assms)

lemma reads_as_entries:
  "laid_out es \<Longrightarrow> reads_as (read_pool_entries (length es)) (concat (map write_entry es)) es"
proof (induction es rule: laid_out.induct)
  case (2 e es)
  have fits: "entry_fits e" using 2 by simp
  note tag = entry_tag_wide [OF fits]
  show ?case
  proof (cases "wide_entry e")
    case True
    then obtain es' where es: "es = Unusable # es'" "laid_out es'"
      using 2 by (auto split: list.splits cp_info.splits)
    have "reads_as (read_pool_entries (length es')) (concat (map write_entry es')) es'"
      using 2 True es by simp
    thus ?thesis
      by (simp add: es(1)) (intro reads_as_tagged [OF fits], simp add: tag True reads_as_last)
  next
    case False
    have "reads_as (read_pool_entries (length es)) (concat (map write_entry es)) es"
      using 2 False by simp
    thus ?thesis
      by simp (intro reads_as_tagged [OF fits], simp add: tag False reads_as_last)
  qed
qed (simp add: reads_as_ret)

lemma reads_as_constant_pool:
  assumes "pool_ok cp"
  shows "reads_as read_constant_pool (write_constant_pool cp) cp"
proof -
  obtain es where cp: "cp = Unusable # es" "laid_out es" "length cp < 2 ^ 16"
    using assms by (auto simp: pool_ok_def split: list.splits cp_info.splits)
  have count: "unat (word_of_nat (length cp) :: u16) - 1 = length es"
    using cp by (simp add: unat_of_nat del: of_nat_Suc)
  show ?thesis unfolding read_constant_pool_def write_constant_pool_def
    by (intro reads_as_bind [OF reads_as_u2], unfold count)
      (rule reads_as_last [where x = es], simp_all add: cp reads_as_entries)
qed

subsection \<open>Growing pools\<close>

lemma position_some: "position P xs = Some i \<Longrightarrow> i < length xs \<and> P (xs ! i)"
  by (induction xs arbitrary: i) (auto split: if_splits)

lemma position_none: "position P xs = None \<longleftrightarrow> (\<forall>x \<in> set xs. \<not> P x)"
  by (induction xs) auto

lemma cp_get_prefix: "prefix cp cp' \<Longrightarrow> cp_get cp i = Some e \<Longrightarrow> cp_get cp' i = Some e"
  by (auto simp: cp_get_def nth_opt_Some prefix_def nth_append)

lemma cp_utf8_prefix: "prefix cp cp' \<Longrightarrow> cp_utf8 cp i = Inr s \<Longrightarrow> cp_utf8 cp' i = Inr s"
  by (auto simp: cp_utf8_def split: option.splits cp_info.splits dest: cp_get_prefix)

lemma ensure_utf8_prefix: "ensure_utf8 s cp = (i, cp') \<Longrightarrow> prefix cp cp'"
  by (auto simp: ensure_utf8_def split: option.splits)

lemma cp_get_nat: "k < length cp \<Longrightarrow> length cp \<le> 2 ^ 16 \<Longrightarrow> cp_get cp (word_of_nat k) = Some (cp ! k)"
  by (simp add: cp_get_def nth_opt_def unat_of_nat)

lemma ensure_utf8_found:
  assumes "ensure_utf8 s cp = (i, cp')" and "length cp' \<le> 2 ^ 16"
  shows "cp_utf8 cp' i = Inr s"
proof (cases "position (\<lambda>e. e = Utf8 s) cp")
  case None
  hence "cp' = cp @ [Utf8 s]" "i = word_of_nat (length cp)"
    using assms by (auto simp: ensure_utf8_def cp_find_utf8_def)
  thus ?thesis using cp_get_nat [of "length cp" cp'] assms(2) by (simp add: cp_utf8_def)
next
  case (Some k)
  hence "cp' = cp" "i = word_of_nat k" "k < length cp" "cp ! k = Utf8 s"
    using assms position_some [OF Some] by (auto simp: ensure_utf8_def cp_find_utf8_def)
  thus ?thesis using cp_get_nat [of k cp] assms(2) by (simp add: cp_utf8_def)
qed

end
