(* ===== verification/TypeDesc.thy ===== *)
theory TypeDesc imports ClassBytes "HOL-Library.Sublist" begin

text \<open>
  The descriptors of \<^verbatim>\<open>lib/rust-asm/src/types.rs\<close>: a type, its descriptor, and the parser of
  descriptors, which panics on an invalid one. The source walks over the bytes of the string; all
  the characters it tests are ASCII, so the model walks over the characters.
\<close>

datatype jvm_type =
    TVoid
  | TBoolean
  | TChar
  | TByte
  | TShort
  | TInt
  | TFloat
  | TLong
  | TDouble
  | TArray jvm_type
  | TObject rust_text
  | TMethod (argument_types: "jvm_type list") (return_type: jvm_type)

subsection \<open>Printing\<close>

primrec get_sort :: "jvm_type \<Rightarrow> nat" where
  "get_sort TVoid = 0"
| "get_sort TBoolean = 1"
| "get_sort TChar = 2"
| "get_sort TByte = 3"
| "get_sort TShort = 4"
| "get_sort TInt = 5"
| "get_sort TFloat = 6"
| "get_sort TLong = 7"
| "get_sort TDouble = 8"
| "get_sort (TArray _) = 9"
| "get_sort (TObject _) = 10"
| "get_sort (TMethod _ _) = 11"

fun get_descriptor :: "jvm_type \<Rightarrow> rust_text" where
  "get_descriptor TVoid = text_of ''V''"
| "get_descriptor TBoolean = text_of ''Z''"
| "get_descriptor TChar = text_of ''C''"
| "get_descriptor TByte = text_of ''B''"
| "get_descriptor TShort = text_of ''S''"
| "get_descriptor TInt = text_of ''I''"
| "get_descriptor TFloat = text_of ''F''"
| "get_descriptor TLong = text_of ''J''"
| "get_descriptor TDouble = text_of ''D''"
| "get_descriptor (TArray elem) = text_of ''['' @ get_descriptor elem"
| "get_descriptor (TObject name) = text_of ''L'' @ name @ text_of '';''"
| "get_descriptor (TMethod args r) =
     text_of ''('' @ concat (map get_descriptor args) @ text_of '')'' @ get_descriptor r"

text \<open>\<^verbatim>\<open>get_class_name\<close> panics on a method type, also inside an array: \<open>None\<close>.\<close>

fun get_class_name :: "jvm_type \<Rightarrow> rust_text option" where
  "get_class_name TVoid = Some (text_of ''void'')"
| "get_class_name TBoolean = Some (text_of ''boolean'')"
| "get_class_name TChar = Some (text_of ''char'')"
| "get_class_name TByte = Some (text_of ''byte'')"
| "get_class_name TShort = Some (text_of ''short'')"
| "get_class_name TInt = Some (text_of ''int'')"
| "get_class_name TFloat = Some (text_of ''float'')"
| "get_class_name TLong = Some (text_of ''long'')"
| "get_class_name TDouble = Some (text_of ''double'')"
| "get_class_name (TArray elem) = map_option (\<lambda>s. s @ text_of ''[]'') (get_class_name elem)"
| "get_class_name (TObject name) =
     Some (map (\<lambda>c. if c = ascii CHR ''/'' then ascii CHR ''.'' else c) name)"
| "get_class_name (TMethod _ _) = None"

fun internal_name :: "jvm_type \<Rightarrow> rust_text option" where
  "internal_name (TObject name) = Some name"
| "internal_name (TArray elem) = Some (get_descriptor (TArray elem))"
| "internal_name _ = None"

fun get_dimensions :: "jvm_type \<Rightarrow> nat" where
  "get_dimensions (TArray elem) = 1 + get_dimensions elem"
| "get_dimensions _ = 0"

fun get_element_type :: "jvm_type \<Rightarrow> jvm_type option" where
  "get_element_type (TArray elem) = Some elem"
| "get_element_type _ = None"

fun get_argument_types :: "jvm_type \<Rightarrow> jvm_type list option" where
  "get_argument_types (TMethod args _) = Some args"
| "get_argument_types _ = None"

fun get_return_type :: "jvm_type \<Rightarrow> jvm_type option" where
  "get_return_type (TMethod _ r) = Some r"
| "get_return_type _ = None"

fun get_size :: "jvm_type \<Rightarrow> nat" where
  "get_size TVoid = 0"
| "get_size TLong = 2"
| "get_size TDouble = 2"
| "get_size _ = 1"

subsection \<open>Parsing\<close>

text \<open>
  How the parser stops without a type: the panics of an index out of bounds, of a character that
  starts no type, and of \<^verbatim>\<open>get_method_type\<close>; the last value is the fuel of the model.
\<close>

datatype type_stop =
    IndexOutOfBounds
  | InvalidDescriptorCharacter
  | NotAMethodDescriptor
  | TypeOutOfFuel

text \<open>The name of a class type, up to the semicolon, which is dropped.\<close>

fun parse_name :: "rust_text \<Rightarrow> (rust_text \<times> rust_text) option" where
  "parse_name [] = None"
| "parse_name (c # s) =
     (if c = ascii CHR '';'' then Some ([], s)
      else map_option (\<lambda>(name, rest). (c # name, rest)) (parse_name s))"

text \<open>The characters that are a type by themselves.\<close>

definition simple_type :: "nat \<Rightarrow> jvm_type option" where
  "simple_type c =
     (if c = ascii CHR ''V'' then Some TVoid
      else if c = ascii CHR ''Z'' then Some TBoolean
      else if c = ascii CHR ''C'' then Some TChar
      else if c = ascii CHR ''B'' then Some TByte
      else if c = ascii CHR ''S'' then Some TShort
      else if c = ascii CHR ''I'' then Some TInt
      else if c = ascii CHR ''F'' then Some TFloat
      else if c = ascii CHR ''J'' then Some TLong
      else if c = ascii CHR ''D'' then Some TDouble
      else None)"

fun parse_type :: "nat \<Rightarrow> rust_text \<Rightarrow> type_stop + jvm_type \<times> rust_text"
and parse_args :: "nat \<Rightarrow> rust_text \<Rightarrow> type_stop + jvm_type list \<times> rust_text" where
  "parse_type 0 s = Inl TypeOutOfFuel"
| "parse_type (Suc n) [] = Inl IndexOutOfBounds"
| "parse_type (Suc n) (c # s) =
     (case simple_type c of
        Some t \<Rightarrow> Inr (t, s)
      | None \<Rightarrow>
      if c = ascii CHR ''L'' then
        (case parse_name s of None \<Rightarrow> Inl IndexOutOfBounds | Some (name, rest) \<Rightarrow> Inr (TObject name, rest))
      else if c = ascii CHR ''['' then
        (case parse_type n s of Inl e \<Rightarrow> Inl e | Inr (elem, rest) \<Rightarrow> Inr (TArray elem, rest))
      else if c = ascii CHR ''('' then
        (case parse_args n s of
           Inl e \<Rightarrow> Inl e
         | Inr (args, rest) \<Rightarrow>
             (case parse_type n rest of
                Inl e \<Rightarrow> Inl e
              | Inr (r, rest) \<Rightarrow> Inr (TMethod args r, rest)))
      else Inl InvalidDescriptorCharacter)"
| "parse_args 0 s = Inl TypeOutOfFuel"
| "parse_args (Suc n) [] = Inl IndexOutOfBounds"
| "parse_args (Suc n) (c # s) =
     (if c = ascii CHR '')'' then Inr ([], s)
      else
        (case parse_type n (c # s) of
           Inl e \<Rightarrow> Inl e
         | Inr (arg, rest) \<Rightarrow>
             (case parse_args n rest of
                Inl e \<Rightarrow> Inl e
              | Inr (args, rest) \<Rightarrow> Inr (arg # args, rest))))"

text \<open>Two calls per character are enough (\<open>parse_type_enough\<close>).\<close>

definition get_type :: "rust_text \<Rightarrow> type_stop + jvm_type" where
  "get_type s = map_sum id fst (parse_type (2 * length s + 1) s)"

definition get_object_type :: "rust_text \<Rightarrow> type_stop + jvm_type" where
  "get_object_type name =
     (if take 1 name = text_of ''['' then get_type name else Inr (TObject name))"

definition get_method_type :: "rust_text \<Rightarrow> type_stop + jvm_type" where
  "get_method_type s =
     (case get_type s of
        Inr (TMethod args r) \<Rightarrow> Inr (TMethod args r)
      | Inr _ \<Rightarrow> Inl NotAMethodDescriptor
      | Inl e \<Rightarrow> Inl e)"

subsection \<open>The round trip\<close>

fun type_ok :: "jvm_type \<Rightarrow> bool" where
  "type_ok (TArray elem) = type_ok elem"
| "type_ok (TObject name) = (ascii CHR '';'' \<notin> set name)"
| "type_ok (TMethod args r) = (list_all type_ok args \<and> type_ok r)"
| "type_ok _ = True"

lemma parse_name_sound:
  "parse_name s = Some (name, rest) \<Longrightarrow> s = name @ ascii CHR '';'' # rest \<and> ascii CHR '';'' \<notin> set name"
  by (induction s arbitrary: name) (auto split: if_splits)

lemma parse_name_complete:
  "ascii CHR '';'' \<notin> set name \<Longrightarrow> parse_name (name @ ascii CHR '';'' # rest) = Some (name, rest)"
  by (induction name) auto

lemma simple_type_some:
  "simple_type c = Some t \<Longrightarrow> get_descriptor t = [c] \<and> type_ok t"
  by (auto simp: simple_type_def text_of_def split: if_splits)

lemma simple_type_not:
  "simple_type (ascii CHR ''L'') = None" "simple_type (ascii CHR ''['') = None" "simple_type (ascii CHR ''('') = None"
  by (simp_all add: simple_type_def)

lemma parse_type_sound:
  "parse_type n s = Inr (t, rest) \<Longrightarrow> s = get_descriptor t @ rest \<and> type_ok t"
  "parse_args n s = Inr (ts, rest) \<Longrightarrow>
     s = concat (map get_descriptor ts) @ text_of '')'' @ rest \<and> list_all type_ok ts"
proof (induction n s and n s arbitrary: t rest and ts rest rule: parse_type_parse_args.induct)
  case (3 n c s)
  show ?case
  proof (cases "simple_type c")
    case None
    consider "c = ascii CHR ''L''" | "c = ascii CHR ''[''" | "c = ascii CHR ''(''"
      using 3(4) None by (auto split: if_splits)
    thus ?thesis
    proof cases
      case 1
      thus ?thesis using 3(4) None
        by (auto simp: text_of_def split: option.splits dest: parse_name_sound)
    next
      case 2
      then obtain elem where "parse_type n s = Inr (elem, rest)" "t = TArray elem"
        using 3(4) None by (auto split: sum.splits)
      thus ?thesis using 2 3(1) [OF None _ 2] by (auto simp: text_of_def)
    next
      case 3
      then obtain args mid r where "parse_args n s = Inr (args, mid)" "parse_type n mid = Inr (r, rest)"
          "t = TMethod args r"
        using \<open>parse_type (Suc n) (c # s) = Inr (t, rest)\<close> None by (auto split: sum.splits)
      thus ?thesis using 3 "3.IH"(2,3) [OF None _ _ 3] by (auto simp: text_of_def)
    qed
  qed (use 3(4) simple_type_some in auto)
next
  case (6 n c s)
  from 6(3) show ?case
    by (simp split: if_splits sum.splits prod.splits)
      (use 6(1,2) in \<open>auto simp: text_of_def\<close>)
qed simp_all

lemma get_descriptor_nonempty: "get_descriptor t \<noteq> []"
  by (cases t) (simp_all add: text_of_def)

lemma parse_type_shorter: "parse_type n s = Inr (t, rest) \<Longrightarrow> length rest < length s"
  using parse_type_sound(1) [of n s t rest] get_descriptor_nonempty [of t] by (cases "get_descriptor t") auto

lemma parse_args_shorter: "parse_args n s = Inr (ts, rest) \<Longrightarrow> length rest < length s"
  using parse_type_sound(2) [of n s ts rest] by (auto simp: text_of_def)

text \<open>The fuel is enough.\<close>

lemma parse_type_enough:
  "2 * length s + 1 \<le> n \<Longrightarrow> parse_type n s \<noteq> Inl TypeOutOfFuel"
  "2 * length s + 2 \<le> n \<Longrightarrow> parse_args n s \<noteq> Inl TypeOutOfFuel"
proof (induction n s and n s rule: parse_type_parse_args.induct)
  case (3 n c s)
  show ?case
  proof (cases "simple_type c")
    case None
    have "parse_type n s \<noteq> Inl TypeOutOfFuel" if "c = ascii CHR ''[''"
      using "3.IH"(1) [OF None _ that] "3.prems" that by simp
    moreover have "parse_args n s \<noteq> Inl TypeOutOfFuel" if "c = ascii CHR ''(''"
      using "3.IH"(2) [OF None _ _ that] "3.prems" that by simp
    moreover have "parse_type n mid \<noteq> Inl TypeOutOfFuel"
      if "c = ascii CHR ''(''" "parse_args n s = Inr (args, mid)" for args mid
      using "3.IH"(3) [OF None _ _ that] "3.prems" that parse_args_shorter [OF that(2)] by simp
    ultimately show ?thesis using None by (auto split: sum.splits option.splits)
  qed simp
next
  case (6 n c s)
  have "parse_type n (c # s) \<noteq> Inl TypeOutOfFuel" if "c \<noteq> ascii CHR '')''"
    using "6.IH"(1) that "6.prems" by simp
  moreover have "parse_args n mid \<noteq> Inl TypeOutOfFuel"
    if "c \<noteq> ascii CHR '')''" "parse_type n (c # s) = Inr (t, mid)" for t mid
    using "6.IH"(2) [OF that] "6.prems" parse_type_shorter [OF that(2)] by simp
  ultimately show ?case by (auto split: sum.splits)
qed simp_all

text \<open>The parser reads every descriptor, with any text behind it.\<close>

lemma parse_simple: "simple_type c = Some t \<Longrightarrow> 0 < n \<Longrightarrow> parse_type n (c # s) = Inr (t, s)"
  by (cases n) simp_all

lemma descriptor_no_close: "get_descriptor t = c # s \<Longrightarrow> c \<noteq> ascii CHR '')''"
  by (cases t) (auto simp: text_of_def)

lemma parse_type_complete:
  "type_ok t \<Longrightarrow> 2 * length (get_descriptor t) \<le> n \<Longrightarrow> parse_type n (get_descriptor t @ rest) = Inr (t, rest)"
  "list_all type_ok ts \<Longrightarrow> 2 * length (concat (map get_descriptor ts)) + 1 \<le> n \<Longrightarrow>
     parse_args n (concat (map get_descriptor ts) @ ascii CHR '')'' # rest) = Inr (ts, rest)"
proof (induction n arbitrary: t ts rest)
  case (Suc n)
  {
    case 1
    show ?case
    proof (cases t)
      case (TArray elem)
      thus ?thesis using 1 Suc.IH(1) [of elem] by (simp add: text_of_def simple_type_not)
    next
      case (TObject name)
      thus ?thesis using 1 by (simp add: text_of_def simple_type_not parse_name_complete)
    next
      case (TMethod args r)
      thus ?thesis using 1 Suc.IH(1) [of r] Suc.IH(2) [of args]
        by (simp add: text_of_def simple_type_not)
    qed (simp_all add: text_of_def simple_type_def)
  next
    case 2
    show ?case
    proof (cases ts)
      case (Cons t us)
      obtain c s where c: "get_descriptor t = c # s" using get_descriptor_nonempty [of t] by (cases "get_descriptor t") auto
      have "parse_type n (c # s @ more) = Inr (t, more)" for more
        using Suc.IH(1) [of t more] 2 Cons c by simp
      moreover have "parse_args n (concat (map get_descriptor us) @ ascii CHR '')'' # rest) = Inr (us, rest)"
        using Suc.IH(2) [of us] 2 Cons c by simp
      ultimately show ?thesis using Cons c descriptor_no_close [OF c] by simp
    qed simp
  }
qed (use get_descriptor_nonempty in auto)

theorem get_type_iff: "get_type s = Inr t \<longleftrightarrow> type_ok t \<and> prefix (get_descriptor t) s"
proof
  assume "get_type s = Inr t"
  then obtain rest where "parse_type (2 * length s + 1) s = Inr (t, rest)"
    by (auto simp: get_type_def map_sum_def split: sum.splits)
  thus "type_ok t \<and> prefix (get_descriptor t) s" using parse_type_sound(1) prefixI by blast
next
  assume "type_ok t \<and> prefix (get_descriptor t) s"
  then obtain rest where "type_ok t" "s = get_descriptor t @ rest" by (auto simp: prefix_def)
  thus "get_type s = Inr t" using parse_type_complete(1) [of t _ rest] by (simp add: get_type_def)
qed

lemma get_type_fuel: "get_type s \<noteq> Inl TypeOutOfFuel"
  using parse_type_enough(1) [of s "2 * length s + 1"]
  by (auto simp: get_type_def map_sum_def split: sum.splits)

end
