(* ===== verification/Bytecode.thy ===== *)
theory Bytecode imports ConstPool TypeDesc begin

text \<open>
  Bytecode instructions (\<^verbatim>\<open>insn.rs\<close>), the decoder of \<^verbatim>\<open>class_reader.rs\<close> and the raw encoder of
  \<^verbatim>\<open>class_writer.rs\<close>, with the round trip between them. An \<open>i32\<close> or \<open>i16\<close> operand is the word
  with its bits.
\<close>

subsection \<open>Instructions\<close>

datatype member_ref =
    MemberIndex u16
  | MemberSymbolic rust_text rust_text rust_text

datatype ldc_value =
    LdcIndex u16
  | LdcStringValue rust_text
  | LdcTypeValue jvm_type
  | LdcIntValue u32
  | LdcFloatValue u32
  | LdcLongValue jlong
  | LdcDoubleValue jlong

datatype bootstrap_argument =
    BsmInteger u32
  | BsmFloat u32
  | BsmLong jlong
  | BsmDouble jlong
  | BsmString rust_text
  | BsmClass rust_text
  | BsmMethodType rust_text
  | BsmHandle handle

text \<open>The first argument is the opcode.\<close>

datatype insn =
    SimpleInsn u8
  | IntInsn u8 u32
  | VarInsn u8 u16
  | TypeInsn u8 u16
  | FieldInsn u8 member_ref
  | MethodInsn u8 member_ref
  | InvokeInterfaceInsn u8 u16 u8
  | InvokeDynamicInsn u8 u16 "rust_text option" "rust_text option" "handle option" "bootstrap_argument list"
  | JumpInsn u8 u32
  | LdcInsn u8 ldc_value
  | IincInsn u8 u16 u16
  | TableSwitchInsn u8 u32 u32 u32 "u32 list"
  | LookupSwitchInsn u8 u32 "(u32 \<times> u32) list"
  | MultiANewArrayInsn u8 u16 u8

text \<open>\<^verbatim>\<open>InvokeDynamicInsnNode::from_index\<close> and \<^verbatim>\<open>::new\<close>\<close>

definition invoke_dynamic_from_index :: "u16 \<Rightarrow> insn" where
  "invoke_dynamic_from_index index = InvokeDynamicInsn 0xBA index None None None []"

definition invoke_dynamic_new ::
    "rust_text \<Rightarrow> rust_text \<Rightarrow> handle \<Rightarrow> bootstrap_argument list \<Rightarrow> insn" where
  "invoke_dynamic_new name descriptor bsm args =
     InvokeDynamicInsn 0xBA 0 (Some name) (Some descriptor) (Some bsm) args"

subsection \<open>Decoding\<close>

text \<open>
  The arms of the match on the opcode, by the operands they read. The bounds in \<open>arm_of\<close> are, in
  order, \<^verbatim>\<open>DCONST_1\<close>, \<^verbatim>\<open>BIPUSH\<close>, \<^verbatim>\<open>SIPUSH\<close>, \<^verbatim>\<open>LDC\<close>, \<^verbatim>\<open>LDC2_W\<close>, \<^verbatim>\<open>ALOAD\<close>, \<^verbatim>\<open>SALOAD\<close>, \<^verbatim>\<open>ASTORE\<close>,
  \<^verbatim>\<open>SASTORE\<close>, \<^verbatim>\<open>LXOR\<close>, \<^verbatim>\<open>IINC\<close>, \<^verbatim>\<open>DCMPG\<close>, \<^verbatim>\<open>JSR\<close>, \<^verbatim>\<open>RET\<close>, \<^verbatim>\<open>TABLESWITCH\<close>, \<^verbatim>\<open>LOOKUPSWITCH\<close>,
  \<^verbatim>\<open>RETURN\<close>, \<^verbatim>\<open>PUTFIELD\<close>, \<^verbatim>\<open>INVOKESTATIC\<close>, \<^verbatim>\<open>INVOKEINTERFACE\<close>, \<^verbatim>\<open>INVOKEDYNAMIC\<close>, \<^verbatim>\<open>NEW\<close>,
  \<^verbatim>\<open>NEWARRAY\<close>, \<^verbatim>\<open>ANEWARRAY\<close>, \<^verbatim>\<open>ATHROW\<close>, \<^verbatim>\<open>INSTANCEOF\<close>, \<^verbatim>\<open>MONITOREXIT\<close>, \<^verbatim>\<open>WIDE\<close>,
  \<^verbatim>\<open>MULTIANEWARRAY\<close>, \<^verbatim>\<open>IFNONNULL\<close>, \<^verbatim>\<open>JSR_W\<close>, \<^verbatim>\<open>BREAKPOINT\<close>, \<^verbatim>\<open>IMPDEP1\<close> and \<^verbatim>\<open>IMPDEP2\<close>.
\<close>

datatype insn_arm =
    SimpleArm | BipushArm | SipushArm | LdcArm | LdcWideArm | VarArm | IincArm | JumpArm
  | TableSwitchArm | LookupSwitchArm | FieldArm | MethodArm | InvokeInterfaceArm
  | InvokeDynamicArm | TypeArm | NewArrayArm | WideArm | MultiANewArrayArm | WideJumpArm
  | InvalidArm

definition arm_of :: "u8 \<Rightarrow> insn_arm" where
  "arm_of op =
     (if op \<le> 0x0F then SimpleArm
      else if op = 0x10 then BipushArm
      else if op = 0x11 then SipushArm
      else if op = 0x12 then LdcArm
      else if op \<le> 0x14 then LdcWideArm
      else if op \<le> 0x19 then VarArm
      else if op \<le> 0x35 then SimpleArm
      else if op \<le> 0x3A then VarArm
      else if op \<le> 0x56 then SimpleArm
      else if op \<le> 0x83 then SimpleArm
      else if op = 0x84 then IincArm
      else if op \<le> 0x98 then SimpleArm
      else if op \<le> 0xA8 then JumpArm
      else if op = 0xA9 then VarArm
      else if op = 0xAA then TableSwitchArm
      else if op = 0xAB then LookupSwitchArm
      else if op \<le> 0xB1 then SimpleArm
      else if op \<le> 0xB5 then FieldArm
      else if op \<le> 0xB8 then MethodArm
      else if op = 0xB9 then InvokeInterfaceArm
      else if op = 0xBA then InvokeDynamicArm
      else if op = 0xBB then TypeArm
      else if op = 0xBC then NewArrayArm
      else if op = 0xBD then TypeArm
      else if op \<le> 0xBF then SimpleArm
      else if op \<le> 0xC1 then TypeArm
      else if op \<le> 0xC3 then SimpleArm
      else if op = 0xC4 then WideArm
      else if op = 0xC5 then MultiANewArrayArm
      else if op \<le> 0xC7 then JumpArm
      else if op \<le> 0xC9 then WideJumpArm
      else if op = 0xCA then SimpleArm
      else if op = 0xFE \<or> op = 0xFF then SimpleArm
      else InvalidArm)"

text \<open>
  \<^verbatim>\<open>(high - low + 1) as usize\<close> with the wrap-around of a release build. A negative count is a
  capacity of at least \<open>2 ^ 63\<close>, on which \<^verbatim>\<open>Vec::with_capacity\<close> panics: \<open>None\<close>.
\<close>

definition capacity :: "u32 \<Rightarrow> nat option" where
  "capacity n = (if sint n < 0 then None else Some (nat (sint n)))"

definition switch_count :: "u32 \<Rightarrow> u32 \<Rightarrow> nat option" where
  "switch_count low high =
     (if sint high < sint low then Some 0 else capacity (high - low + 1))"

definition read_table_switch :: "nat \<Rightarrow> insn rd" where
  "read_table_switch opcode_offset =
     do { align4 opcode_offset;
          default_offset \<leftarrow> read_i4;
          low \<leftarrow> read_i4;
          high \<leftarrow> read_i4;
          case switch_count low high of
            None \<Rightarrow> read_fail CapacityOverflow
          | Some count \<Rightarrow>
              do { offsets \<leftarrow> read_times count read_i4;
                   ret (TableSwitchInsn 0xAA default_offset low high offsets) } }"

definition read_pair :: "(u32 \<times> u32) rd" where
  "read_pair = do { key \<leftarrow> read_i4; offset \<leftarrow> read_i4; ret (key, offset) }"

definition read_lookup_switch :: "nat \<Rightarrow> insn rd" where
  "read_lookup_switch opcode_offset =
     do { align4 opcode_offset;
          default_offset \<leftarrow> read_i4;
          npairs \<leftarrow> read_i4;
          case capacity npairs of
            None \<Rightarrow> read_fail CapacityOverflow
          | Some count \<Rightarrow>
              do { pairs \<leftarrow> read_times count read_pair;
                   ret (LookupSwitchInsn 0xAB default_offset pairs) } }"

text \<open>\<^verbatim>\<open>reader.pos().saturating_sub(1)\<close> is the position of the opcode that was read.\<close>

definition read_wide :: "insn rd" where
  "read_wide =
     do { opcode \<leftarrow> read_u1;
          if arm_of opcode = VarArm then
            do { var_index \<leftarrow> read_u2; ret (VarInsn opcode var_index) }
          else if opcode = 0x84 then
            do { var_index \<leftarrow> read_u2; increment \<leftarrow> read_i2; ret (IincInsn opcode var_index increment) }
          else
            do { pos \<leftarrow> read_gets br_pos; read_fail (ReadError (InvalidOpcode opcode (pos - 1))) } }"

definition read_insn :: "nat \<Rightarrow> u8 \<Rightarrow> insn rd" where
  "read_insn opcode_offset opcode =
     (case arm_of opcode of
        SimpleArm \<Rightarrow> ret (SimpleInsn opcode)
      | BipushArm \<Rightarrow> do { v \<leftarrow> read_i1; ret (IntInsn opcode (scast v)) }
      | SipushArm \<Rightarrow> do { v \<leftarrow> read_i2; ret (IntInsn opcode (scast v)) }
      | LdcArm \<Rightarrow> do { i \<leftarrow> read_u1; ret (LdcInsn opcode (LdcIndex (ucast i))) }
      | LdcWideArm \<Rightarrow> do { i \<leftarrow> read_u2; ret (LdcInsn opcode (LdcIndex i)) }
      | VarArm \<Rightarrow> do { i \<leftarrow> read_u1; ret (VarInsn opcode (ucast i)) }
      | IincArm \<Rightarrow>
          do { i \<leftarrow> read_u1; increment \<leftarrow> read_i1; ret (IincInsn opcode (ucast i) (scast increment)) }
      | JumpArm \<Rightarrow> do { offset \<leftarrow> read_i2; ret (JumpInsn opcode (scast offset)) }
      | TableSwitchArm \<Rightarrow> read_table_switch opcode_offset
      | LookupSwitchArm \<Rightarrow> read_lookup_switch opcode_offset
      | FieldArm \<Rightarrow> do { i \<leftarrow> read_u2; ret (FieldInsn opcode (MemberIndex i)) }
      | MethodArm \<Rightarrow> do { i \<leftarrow> read_u2; ret (MethodInsn opcode (MemberIndex i)) }
      | InvokeInterfaceArm \<Rightarrow>
          do { method_index \<leftarrow> read_u2;
               count \<leftarrow> read_u1;
               discard read_u1;
               ret (InvokeInterfaceInsn opcode method_index count) }
      | InvokeDynamicArm \<Rightarrow>
          do { method_index \<leftarrow> read_u2; discard read_u2; ret (invoke_dynamic_from_index method_index) }
      | TypeArm \<Rightarrow> do { i \<leftarrow> read_u2; ret (TypeInsn opcode i) }
      | NewArrayArm \<Rightarrow> do { v \<leftarrow> read_u1; ret (IntInsn opcode (ucast v)) }
      | WideArm \<Rightarrow> read_wide
      | MultiANewArrayArm \<Rightarrow>
          do { i \<leftarrow> read_u2; dimensions \<leftarrow> read_u1; ret (MultiANewArrayInsn opcode i dimensions) }
      | WideJumpArm \<Rightarrow> do { offset \<leftarrow> read_i4; ret (JumpInsn opcode offset) }
      | InvalidArm \<Rightarrow> read_fail (ReadError (InvalidOpcode opcode opcode_offset)))"

text \<open>
  \<^verbatim>\<open>while reader.remaining() > 0\<close>: each instruction with the offset of its opcode. Every round
  reads a byte, so the length of the code is enough fuel (\<open>fueled_insns\<close>).
\<close>

primrec read_insns :: "nat \<Rightarrow> (nat \<times> insn) list rd" where
  "read_insns 0 =
     do { left \<leftarrow> read_gets remaining;
          if left = 0 then ret [] else read_fail ReadOutOfFuel }"
| "read_insns (Suc n) =
     do { left \<leftarrow> read_gets remaining;
          if left = 0 then ret []
          else
            do { opcode_offset \<leftarrow> read_gets br_pos;
                 opcode \<leftarrow> read_u1;
                 insn \<leftarrow> read_insn opcode_offset opcode;
                 insns \<leftarrow> read_insns n;
                 ret ((opcode_offset, insn) # insns) } }"

definition parse_code_instructions :: "u8 list \<Rightarrow> read_stop + insn list" where
  "parse_code_instructions code = map_sum id (map snd) (run_reader (read_insns (length code)) code)"

text \<open>The offset is cut to sixteen bits.\<close>

definition parse_code_instructions_with_offsets :: "u8 list \<Rightarrow> read_stop + (u16 \<times> insn) list" where
  "parse_code_instructions_with_offsets code =
     map_sum id (map (map_prod word_of_nat id)) (run_reader (read_insns (length code)) code)"

subsection \<open>Encoding\<close>

text \<open>Beside its errors, writing can panic on a capacity: the last value.\<close>

datatype class_write_error =
    MissingConstantPool
  | InvalidConstantPool
  | WriteInvalidOpcode u8 nat
  | FrameComputation rust_text
  | WriteCapacityOverflow

text \<open>The bytes of an instruction at an offset, and the instruction as it was emitted.\<close>

fun emit_insn_raw :: "nat \<Rightarrow> insn \<Rightarrow> class_write_error + u8 list \<times> insn" where
  "emit_insn_raw offset (SimpleInsn op) = Inr ([op], SimpleInsn op)"
| "emit_insn_raw offset (IntInsn op v) =
     Inr ([op] @
          (if op = 0x10 then write_i1 (ucast v)
           else if op = 0x11 then write_i2 (ucast v)
           else if op = 0xBC then write_u1 (ucast v)
           else write_i1 (ucast v)), IntInsn op v)"
| "emit_insn_raw offset (VarInsn op i) = Inr ([op] @ write_u1 (ucast i), VarInsn op i)"
| "emit_insn_raw offset (TypeInsn op i) = Inr ([op] @ write_u2 i, TypeInsn op i)"
| "emit_insn_raw offset (FieldInsn op (MemberIndex i)) =
     Inr ([op] @ write_u2 i, FieldInsn op (MemberIndex i))"
| "emit_insn_raw offset (FieldInsn op (MemberSymbolic _ _ _)) =
     Inl (FrameComputation (text_of ''symbolic field ref in method instructions''))"
| "emit_insn_raw offset (MethodInsn op (MemberIndex i)) =
     Inr ([op] @ write_u2 i, MethodInsn op (MemberIndex i))"
| "emit_insn_raw offset (MethodInsn op (MemberSymbolic _ _ _)) =
     Inl (FrameComputation (text_of ''symbolic method ref in method instructions''))"
| "emit_insn_raw offset (InvokeInterfaceInsn op i count) =
     Inr ([op] @ write_u2 i @ write_u1 count @ write_u1 0, InvokeInterfaceInsn op i count)"
| "emit_insn_raw offset (InvokeDynamicInsn op i name descriptor bsm args) =
     Inr ([op] @ write_u2 i @ write_u2 0, InvokeDynamicInsn op i name descriptor bsm args)"
| "emit_insn_raw offset (JumpInsn op v) =
     Inr ([op] @ (if op = 0xC8 \<or> op = 0xC9 then write_i4 v else write_i2 (ucast v)), JumpInsn op v)"
| "emit_insn_raw offset (LdcInsn op value) =
     (case value of
        LdcIndex i \<Rightarrow>
          let opcode = (if op = 0x12 \<or> op = 0x13 \<or> op = 0x14 then op else if i \<le> 0xFF then 0x12 else 0x13)
          in Inr ([opcode] @ (if opcode = 0x12 then write_u1 (ucast i) else write_u2 i),
                  LdcInsn opcode (LdcIndex i))
      | _ \<Rightarrow> Inl (FrameComputation (text_of ''non-index ldc in method instructions'')))"
| "emit_insn_raw offset (IincInsn op i v) =
     Inr ([op] @ write_u1 (ucast i) @ write_i1 (ucast v), IincInsn op i v)"
| "emit_insn_raw offset (TableSwitchInsn op d low high offsets) =
     Inr ([op] @ write_switch_padding offset @ write_i4 d @ write_i4 low @ write_i4 high @
          concat (map write_i4 offsets), TableSwitchInsn op d low high offsets)"
| "emit_insn_raw offset (LookupSwitchInsn op d pairs) =
     Inr ([op] @ write_switch_padding offset @ write_i4 d @ write_i4 (word_of_nat (length pairs)) @
          concat (map (\<lambda>(key, value). write_i4 key @ write_i4 value) pairs), LookupSwitchInsn op d pairs)"
| "emit_insn_raw offset (MultiANewArrayInsn op i dimensions) =
     Inr ([op] @ write_u2 i @ write_u1 dimensions, MultiANewArrayInsn op i dimensions)"

fun emit_insns :: "u8 list \<Rightarrow> insn list \<Rightarrow> class_write_error + u8 list \<times> insn list" where
  "emit_insns code [] = Inr (code, [])"
| "emit_insns code (insn # insns) =
     (case emit_insn_raw (length code) insn of
        Inl e \<Rightarrow> Inl e
      | Inr (bytes, emitted) \<Rightarrow>
          map_sum id (map_prod id (Cons emitted)) (emit_insns (code @ bytes) insns))"

definition build_code_from_insn_list :: "insn list \<Rightarrow> class_write_error + u8 list \<times> insn list" where
  "build_code_from_insn_list = emit_insns []"

subsection \<open>The round trip\<close>

text \<open>An instruction whose operands fit the form its opcode has without a \<^verbatim>\<open>wide\<close> prefix.\<close>

fun insn_fits :: "insn \<Rightarrow> bool" where
  "insn_fits (SimpleInsn op) = (arm_of op = SimpleArm)"
| "insn_fits (IntInsn op v) =
     (op = 0x10 \<and> scast (ucast v :: u8) = v \<or>
      op = 0x11 \<and> scast (ucast v :: u16) = v \<or>
      op = 0xBC \<and> ucast (ucast v :: u8) = v)"
| "insn_fits (VarInsn op i) = (arm_of op = VarArm \<and> ucast (ucast i :: u8) = i)"
| "insn_fits (TypeInsn op i) = (arm_of op = TypeArm)"
| "insn_fits (FieldInsn op m) = (arm_of op = FieldArm \<and> (\<exists>i. m = MemberIndex i))"
| "insn_fits (MethodInsn op m) = (arm_of op = MethodArm \<and> (\<exists>i. m = MemberIndex i))"
| "insn_fits (InvokeInterfaceInsn op _ _) = (arm_of op = InvokeInterfaceArm)"
| "insn_fits (InvokeDynamicInsn op i name descriptor bsm args) =
     (op = 0xBA \<and> name = None \<and> descriptor = None \<and> bsm = None \<and> args = [])"
| "insn_fits (JumpInsn op v) =
     (arm_of op = JumpArm \<and> scast (ucast v :: u16) = v \<or> arm_of op = WideJumpArm)"
| "insn_fits (LdcInsn op value) =
     (case value of
        LdcIndex i \<Rightarrow> op = 0x12 \<and> ucast (ucast i :: u8) = i \<or> op = 0x13 \<or> op = 0x14
      | _ \<Rightarrow> False)"
| "insn_fits (IincInsn op i v) =
     (op = 0x84 \<and> ucast (ucast i :: u8) = i \<and> scast (ucast v :: u8) = v)"
| "insn_fits (TableSwitchInsn op d low high offsets) =
     (op = 0xAA \<and> switch_count low high = Some (length offsets))"
| "insn_fits (LookupSwitchInsn op d pairs) = (op = 0xAB \<and> length pairs < 2 ^ 31)"
| "insn_fits (MultiANewArrayInsn op i dimensions) = (op = 0xC5)"

lemma capacity_length: "n < 2 ^ 31 \<Longrightarrow> capacity (word_of_nat n) = Some n"
proof -
  assume n: "n < 2 ^ 31"
  hence "sint (word_of_nat n :: u32) = int n"
    by (simp add: signed_of_nat signed_take_bit_int_eq_self)
  thus ?thesis by (simp add: capacity_def)
qed

interpretation i4: codec write_i4 read_i4 always
  by unfold_locales (rule reads_as_i4)

lemma reads_as_pair: "reads_as read_pair (write_i4 key @ write_i4 value) (key, value)"
  unfolding read_pair_def by (intro reads_as_bind [OF reads_as_i4] reads_as_last [OF reads_as_i4]) simp

interpretation pair: codec "\<lambda>(key, value). write_i4 key @ write_i4 value" read_pair always
  by unfold_locales (auto intro: reads_as_pair)

lemma reads_as_table_switch:
  assumes "switch_count low high = Some (length offsets)"
  shows "reads_as (read_table_switch n)
    (write_switch_padding n @ write_i4 d @ write_i4 low @ write_i4 high @ concat (map write_i4 offsets))
    (TableSwitchInsn 0xAA d low high offsets)"
  unfolding read_table_switch_def
  by (intro reads_as_bind [OF reads_as_align4] reads_as_bind [OF reads_as_i4])
    (simp add: assms reads_as_last [OF i4.times] list_all_iff)

lemma reads_as_lookup_switch:
  assumes "length pairs < 2 ^ 31"
  shows "reads_as (read_lookup_switch n)
    (write_switch_padding n @ write_i4 d @ write_i4 (word_of_nat (length pairs)) @
     concat (map (\<lambda>(key, value). write_i4 key @ write_i4 value) pairs))
    (LookupSwitchInsn 0xAB d pairs)"
  unfolding read_lookup_switch_def
  by (intro reads_as_bind [OF reads_as_align4] reads_as_bind [OF reads_as_i4])
    (use assms in \<open>simp add: capacity_length reads_as_last [OF pair.times] list_all_iff\<close>)

lemma arm_simps:
  "arm_of 0x10 = BipushArm"
  "arm_of 0x11 = SipushArm"
  "arm_of 0x12 = LdcArm"
  "arm_of 0x13 = LdcWideArm"
  "arm_of 0x84 = IincArm"
  "arm_of 0xAA = TableSwitchArm"
  "arm_of 0xAB = LookupSwitchArm"
  "arm_of 0xBA = InvokeDynamicArm"
  "arm_of 0xBC = NewArrayArm"
  "arm_of 0xC5 = MultiANewArrayArm"
  "arm_of 0xC4 = WideArm"
  "arm_of 0x14 = LdcWideArm"
  by (simp_all add: arm_of_def)

lemma arm_interface: "arm_of op = InvokeInterfaceArm \<Longrightarrow> op = 0xB9"
  by (simp add: arm_of_def split: if_splits)

lemma arm_wide_jump: "arm_of op = WideJumpArm \<longleftrightarrow> op = 0xC8 \<or> op = 0xC9"
  by (simp add: arm_of_def word_le_nat_alt word_unat_eq_iff) linarith

lemmas reads_one =
  reads_as_last [OF reads_as_u1 [unfolded write_u1_def]] reads_as_last [OF reads_as_u2] reads_as_last [OF reads_as_i1 [unfolded write_i1_def]]
  reads_as_last [OF reads_as_i2] reads_as_last [OF reads_as_i4]

text \<open>The bytes of an instruction that fits are read back as the instruction.\<close>

lemma reads_as_insn:
  assumes "insn_fits i"
  shows "\<exists>op bs. emit_insn_raw n i = Inr (op # bs, i) \<and> reads_as (read_insn n op) bs i"
  using assms
proof (cases i)
  case (SimpleInsn op)
  with assms show ?thesis by (simp add: read_insn_def reads_as_ret)
next
  case (IntInsn op v)
  with assms show ?thesis
    by (auto simp: read_insn_def arm_simps write_i1_def write_u1_def intro!: reads_one)
next
  case (VarInsn op v)
  with assms show ?thesis by (auto simp: read_insn_def write_u1_def intro!: reads_one)
next
  case (TypeInsn op v)
  with assms show ?thesis by (auto simp: read_insn_def intro!: reads_one)
next
  case (FieldInsn op m)
  with assms show ?thesis by (auto simp: read_insn_def intro!: reads_one)
next
  case (MethodInsn op m)
  with assms show ?thesis by (auto simp: read_insn_def intro!: reads_one)
next
  case (InvokeInterfaceInsn op i count)
  with assms show ?thesis
    by (auto simp: read_insn_def intro!: reads_as_bind [OF reads_as_u2] reads_as_bind [OF reads_as_u1]
        reads_as_last [OF reads_as_discard [OF reads_as_u1]])
next
  case (InvokeDynamicInsn op i name descriptor bsm args)
  with assms show ?thesis
    by (auto simp: read_insn_def arm_simps invoke_dynamic_from_index_def intro!: reads_as_bind [OF reads_as_u2]
        reads_as_last [OF reads_as_discard [OF reads_as_u2]])
next
  case (JumpInsn op v)
  have "arm_of op = JumpArm \<Longrightarrow> op \<noteq> 0xC8 \<and> op \<noteq> 0xC9" by (auto simp: arm_of_def)
  moreover have "arm_of op = WideJumpArm \<Longrightarrow> op = 0xC8 \<or> op = 0xC9" by (simp add: arm_wide_jump)
  ultimately show ?thesis using assms JumpInsn
    by (cases "arm_of op = JumpArm") (auto simp: read_insn_def intro!: reads_one)
next
  case (LdcInsn op v)
  with assms show ?thesis
    by (auto simp: read_insn_def arm_simps write_u1_def Let_def intro!: reads_one split: ldc_value.splits)
next
  case (IincInsn op i v)
  with assms show ?thesis
    by (auto simp: read_insn_def arm_simps intro!: reads_as_bind [OF reads_as_u1] reads_as_last [OF reads_as_i1])
next
  case (TableSwitchInsn op d low high offsets)
  with assms reads_as_table_switch show ?thesis by (simp add: read_insn_def arm_simps)
next
  case (LookupSwitchInsn op d pairs)
  with assms reads_as_lookup_switch show ?thesis by (simp add: read_insn_def arm_simps)
next
  case (MultiANewArrayInsn op i dimensions)
  with assms show ?thesis
    by (auto simp: read_insn_def arm_simps intro!: reads_as_bind [OF reads_as_u2] reads_as_last [OF reads_as_u1])
qed

lemma run_read_gets: "run_state (read_gets f) (Reading r) = (f r, Reading r)"
  by (simp add: read_gets_def run_read_action)

lemma reads_asD:
  "reads_as f bs x \<Longrightarrow> run_state f (Reading (reader_at pre (bs @ post))) = (x, Reading (reader_at (pre @ bs) post))"
  by (simp add: reads_as_def)

lemma emit_insns_read:
  assumes "list_all insn_fits insns"
  shows "\<exists>bs. emit_insns code insns = Inr (code @ bs, insns) \<and>
    (\<forall>k \<ge> length bs. \<exists>rs. map snd rs = insns \<and>
      run_state (read_insns k) (Reading (reader_at code bs)) = (rs, Reading (reader_at (code @ bs) [])))"
  using assms
proof (induction insns arbitrary: code)
  case Nil
  have "run_state (read_insns k) (Reading (reader_at code [])) = ([], Reading (reader_at code []))" for k
    by (cases k) (simp_all add: run_read_gets remaining_def reader_at_def)
  thus ?case by simp
next
  case (Cons i insns)
  obtain op bs where i: "emit_insn_raw (length code) i = Inr (op # bs, i)"
      "reads_as (read_insn (length code) op) bs i"
    using reads_as_insn [of i "length code"] Cons.prems by auto
  let ?code = "code @ op # bs"
  obtain cs where cs: "emit_insns ?code insns = Inr (?code @ cs, insns)"
      "\<And>k. length cs \<le> k \<Longrightarrow> \<exists>rs. map snd rs = insns \<and>
        run_state (read_insns k) (Reading (reader_at ?code cs)) = (rs, Reading (reader_at (?code @ cs) []))"
    using Cons.IH [of ?code] Cons.prems by auto
  have "emit_insns code (i # insns) = Inr (code @ (op # bs @ cs), i # insns)"
    using i cs by simp
  moreover have "\<exists>rs. map snd rs = i # insns \<and>
      run_state (read_insns k) (Reading (reader_at code (op # bs @ cs))) =
        (rs, Reading (reader_at (code @ (op # bs @ cs)) []))"
    if k: "length (op # bs @ cs) \<le> k" for k
  proof (cases k)
    case (Suc n)
    obtain rs where rs: "map snd rs = insns"
        "run_state (read_insns n) (Reading (reader_at ?code cs)) = (rs, Reading (reader_at (?code @ cs) []))"
      using cs(2) [of n] k Suc by auto
    have op: "run_state read_u1 (Reading (reader_at code (op # bs @ cs))) =
        (op, Reading (reader_at (code @ [op]) (bs @ cs)))"
      using reads_asD [OF reads_as_u1, of code op "bs @ cs"] by (simp add: write_u1_def)
    have insn: "run_state (read_insn (length code) op) (Reading (reader_at (code @ [op]) (bs @ cs))) =
        (i, Reading (reader_at ?code cs))"
      using reads_asD [OF i(2), of "code @ [op]" cs] by simp
    have "remaining (reader_at code (op # bs @ cs)) \<noteq> 0" "br_pos (reader_at code (op # bs @ cs)) = length code"
      by (simp_all add: remaining_def reader_at_def)
    hence "run_state (read_insns k) (Reading (reader_at code (op # bs @ cs))) =
        ((length code, i) # rs, Reading (reader_at (?code @ cs) []))"
      by (simp add: Suc run_read_gets op insn rs)
    thus ?thesis using rs by auto
  qed (use k in simp)
  ultimately show ?case by blast
qed

theorem bytecode_roundtrip:
  assumes "list_all insn_fits insns"
  shows "\<exists>code. build_code_from_insn_list insns = Inr (code, insns) \<and> parse_code_instructions code = Inr insns"
proof -
  obtain code rs where "emit_insns [] insns = Inr (code, insns)" "map snd rs = insns"
      "run_state (read_insns (length code)) (Reading (reader_at [] code)) = (rs, Reading (reader_at code []))"
    using emit_insns_read [OF assms, of "[]"] by auto
  thus ?thesis
    by (auto simp: build_code_from_insn_list_def parse_code_instructions_def run_reader_def
        byte_reader_new_def reader_at_def)
qed

lemma fueled_case [fuel_rules]:
  "(x = None \<Longrightarrow> fueled n k f) \<Longrightarrow> (\<And>y. x = Some y \<Longrightarrow> fueled n k (g y)) \<Longrightarrow>
   fueled n k (case x of None \<Rightarrow> f | Some y \<Rightarrow> g y)"
  by (cases x) simp_all

lemma fueled_insn: "fueled n 0 (read_insn off op)"
  unfolding read_insn_def read_wide_def read_table_switch_def read_lookup_switch_def read_pair_def
  by (cases "arm_of op"; simp; intro fuel_rules; simp)

lemma fueled_until_end:
  assumes "\<And>r. br_ok r \<Longrightarrow> remaining r \<le> n \<Longrightarrow> remaining r \<noteq> 0 \<Longrightarrow> 0 < n"
    and "0 < n \<Longrightarrow> fueled n 0 f" and "\<not> 0 < n \<Longrightarrow> (\<forall>e. snd (run_state f (ReadStop e)) = ReadStop e)"
  shows "fueled n 0 (do { left \<leftarrow> read_gets remaining; if left = 0 then ret [] else f })"
proof (cases "0 < n")
  case True
  thus ?thesis using assms(2) by (intro fuel_rules) auto
next
  case False
  show ?thesis
    by (rule fueledI) (use False assms(3) in \<open>auto simp: run_read_gets read_gets_def run_read_action\<close>)
qed

lemma fueled_insns: "fueled n 0 (read_insns n)"
proof (induction n)
  case 0
  show ?case unfolding read_insns.simps
    by (rule fueled_until_end) (simp_all add: read_fail_def run_read_action)
next
  case (Suc n)
  have "fueled (Suc n) (0 + (1 + 0)) (do { opcode_offset \<leftarrow> read_gets br_pos;
                 opcode \<leftarrow> read_u1;
                 insn \<leftarrow> read_insn opcode_offset opcode;
                 insns \<leftarrow> read_insns n;
                 ret ((opcode_offset, insn) # insns) })"
    by (intro fueled_bind [OF fueled_gets] fueled_bind [OF fueled_u1] fueled_then fueled_insn fueled_ret)
      (use Suc in simp)
  hence "fueled (Suc n) 0 (do { opcode_offset \<leftarrow> read_gets br_pos;
                 opcode \<leftarrow> read_u1;
                 insn \<leftarrow> read_insn opcode_offset opcode;
                 insns \<leftarrow> read_insns n;
                 ret ((opcode_offset, insn) # insns) })"
    by (rule fueled_weaken) simp_all
  thus ?case unfolding read_insns.simps
    by (intro fueled_until_end) simp_all
qed

lemma decoding_ends:
  "parse_code_instructions code \<noteq> Inl ReadOutOfFuel"
  "parse_code_instructions_with_offsets code \<noteq> Inl ReadOutOfFuel"
  using fueled_run [OF fueled_insns, of code]
  by (auto simp: parse_code_instructions_def parse_code_instructions_with_offsets_def map_sum_def split: sum.splits)

end
