(* ===== verification/PoolBuilder.thy ===== *)
theory PoolBuilder imports Bytecode begin

text \<open>
  \<^verbatim>\<open>ConstantPoolBuilder\<close> of \<^verbatim>\<open>constant_pool.rs\<close>: a constant pool with maps that find the entries it
  already holds. The twelve maps of the struct, one per kind of entry, are one map here, whose keys
  say which of the twelve they belong to.
\<close>

subsection \<open>The builder\<close>

datatype pool_key =
    Utf8Key rust_text
  | ClassKey rust_text
  | ModuleKey rust_text
  | PackageKey rust_text
  | StringKey rust_text
  | NameAndTypeKey rust_text rust_text
  | FieldRefKey rust_text rust_text rust_text
  | MethodRefKey rust_text rust_text rust_text
  | InterfaceMethodRefKey rust_text rust_text rust_text
  | MethodTypeKey rust_text
  | MethodHandleKey u8 rust_text rust_text rust_text bool
  | InvokeDynamicKey u16 rust_text rust_text

record pool_builder =
  pb_pool :: "cp_info list"
  pb_index :: "pool_key \<rightharpoonup> u16"

type_synonym 'a pb = "(pool_builder, 'a) state"

definition pool_builder_new :: pool_builder where
  "pool_builder_new = \<lparr>pb_pool = [Unusable], pb_index = Map.empty\<rparr>"

definition into_pool :: "pool_builder \<Rightarrow> cp_info list" where
  "into_pool b = pb_pool b"

definition push_entry :: "cp_info \<Rightarrow> u16 pb" where
  "push_entry entry = State (\<lambda>b.
     let cp = pb_pool b @ [entry] in (word_of_nat (length cp - 1), b\<lparr>pb_pool := cp\<rparr>))"

definition lookup_key :: "pool_key \<Rightarrow> u16 option pb" where
  "lookup_key k = State (\<lambda>b. (pb_index b k, b))"

definition insert_key :: "pool_key \<Rightarrow> u16 \<Rightarrow> unit pb" where
  "insert_key k i = State (\<lambda>b. ((), b\<lparr>pb_index := (pb_index b)(k \<mapsto> i)\<rparr>))"

text \<open>
  The pattern of all the methods: the index under the key, or that of a new entry, which \<open>mk\<close>
  gives after it has added what the entry refers to.
\<close>

definition intern :: "pool_key \<Rightarrow> cp_info pb \<Rightarrow> u16 pb" where
  "intern k mk =
     do { known \<leftarrow> lookup_key k;
          (case known of
             Some i \<Rightarrow> ret i
           | None \<Rightarrow> do { entry \<leftarrow> mk; i \<leftarrow> push_entry entry; insert_key k i; ret i }) }"

definition pb_utf8 :: "rust_text \<Rightarrow> u16 pb" where
  "pb_utf8 value = intern (Utf8Key value) (ret (Utf8 value))"

definition pb_class :: "rust_text \<Rightarrow> u16 pb" where
  "pb_class name = intern (ClassKey name) (do { i \<leftarrow> pb_utf8 name; ret (Class i) })"

definition pb_module :: "rust_text \<Rightarrow> u16 pb" where
  "pb_module name = intern (ModuleKey name) (do { i \<leftarrow> pb_utf8 name; ret (Module i) })"

definition pb_package :: "rust_text \<Rightarrow> u16 pb" where
  "pb_package name = intern (PackageKey name) (do { i \<leftarrow> pb_utf8 name; ret (Package i) })"

definition pb_string :: "rust_text \<Rightarrow> u16 pb" where
  "pb_string value = intern (StringKey value) (do { i \<leftarrow> pb_utf8 value; ret (String i) })"

definition pb_integer :: "u32 \<Rightarrow> u16 pb" where
  "pb_integer value = push_entry (Integer value)"

definition pb_float :: "u32 \<Rightarrow> u16 pb" where
  "pb_float value = push_entry (Float value)"

text \<open>A long or double takes two places.\<close>

definition pb_long :: "jlong \<Rightarrow> u16 pb" where
  "pb_long value = do { i \<leftarrow> push_entry (Long value); discard (push_entry Unusable); ret i }"

definition pb_double :: "jlong \<Rightarrow> u16 pb" where
  "pb_double value = do { i \<leftarrow> push_entry (Double value); discard (push_entry Unusable); ret i }"

definition pb_name_and_type :: "rust_text \<Rightarrow> rust_text \<Rightarrow> u16 pb" where
  "pb_name_and_type name descriptor =
     intern (NameAndTypeKey name descriptor)
       (do { i \<leftarrow> pb_utf8 name; j \<leftarrow> pb_utf8 descriptor; ret (NameAndType i j) })"

definition pb_field_ref :: "rust_text \<Rightarrow> rust_text \<Rightarrow> rust_text \<Rightarrow> u16 pb" where
  "pb_field_ref owner name descriptor =
     intern (FieldRefKey owner name descriptor)
       (do { i \<leftarrow> pb_class owner; j \<leftarrow> pb_name_and_type name descriptor; ret (Fieldref i j) })"

definition pb_method_ref :: "rust_text \<Rightarrow> rust_text \<Rightarrow> rust_text \<Rightarrow> u16 pb" where
  "pb_method_ref owner name descriptor =
     intern (MethodRefKey owner name descriptor)
       (do { i \<leftarrow> pb_class owner; j \<leftarrow> pb_name_and_type name descriptor; ret (Methodref i j) })"

definition pb_interface_method_ref :: "rust_text \<Rightarrow> rust_text \<Rightarrow> rust_text \<Rightarrow> u16 pb" where
  "pb_interface_method_ref owner name descriptor =
     intern (InterfaceMethodRefKey owner name descriptor)
       (do { i \<leftarrow> pb_class owner; j \<leftarrow> pb_name_and_type name descriptor; ret (InterfaceMethodref i j) })"

definition pb_method_type :: "rust_text \<Rightarrow> u16 pb" where
  "pb_method_type descriptor =
     intern (MethodTypeKey descriptor) (do { i \<leftarrow> pb_utf8 descriptor; ret (MethodType i) })"

definition handle_key :: "handle \<Rightarrow> pool_key" where
  "handle_key h =
     MethodHandleKey (reference_kind h) (handle_owner h) (handle_name h) (handle_descriptor h) (is_interface h)"

definition pb_method_handle :: "handle \<Rightarrow> u16 pb" where
  "pb_method_handle h =
     intern (handle_key h)
       (do { i \<leftarrow> (if 1 \<le> reference_kind h \<and> reference_kind h \<le> 4 then pb_field_ref
                  else if reference_kind h = 9 then pb_interface_method_ref
                  else pb_method_ref) (handle_owner h) (handle_name h) (handle_descriptor h);
             ret (MethodHandle (reference_kind h) i) })"

definition pb_invoke_dynamic :: "u16 \<Rightarrow> rust_text \<Rightarrow> rust_text \<Rightarrow> u16 pb" where
  "pb_invoke_dynamic bsm name descriptor =
     intern (InvokeDynamicKey bsm name descriptor)
       (do { j \<leftarrow> pb_name_and_type name descriptor; ret (InvokeDynamic bsm j) })"

subsection \<open>From a pool\<close>

text \<open>The lookups local to \<^verbatim>\<open>from_pool\<close>, which drop the error.\<close>

definition ok_of :: "'e + 'a \<Rightarrow> 'a option" where
  "ok_of x = (case x of Inl _ \<Rightarrow> None | Inr a \<Rightarrow> Some a)"

definition cp_member_ref :: "cp_info list \<Rightarrow> u16 \<Rightarrow> (rust_text \<times> rust_text \<times> rust_text \<times> bool) option" where
  "cp_member_ref cp index =
     (case cp_get cp index of
        Some (Fieldref i j) \<Rightarrow> map_option (\<lambda>(c, n, d). (c, n, d, False)) (ok_of (cp_member cp i j))
      | Some (Methodref i j) \<Rightarrow> map_option (\<lambda>(c, n, d). (c, n, d, False)) (ok_of (cp_member cp i j))
      | Some (InterfaceMethodref i j) \<Rightarrow> map_option (\<lambda>(c, n, d). (c, n, d, True)) (ok_of (cp_member cp i j))
      | _ \<Rightarrow> None)"

text \<open>The key of an entry, if it has one and what it refers to is there.\<close>

definition entry_key :: "cp_info list \<Rightarrow> cp_info \<Rightarrow> pool_key option" where
  "entry_key cp entry =
     (case entry of
        Utf8 value \<Rightarrow> Some (Utf8Key value)
      | Class i \<Rightarrow> map_option ClassKey (ok_of (cp_utf8 cp i))
      | Module i \<Rightarrow> map_option ModuleKey (ok_of (cp_utf8 cp i))
      | Package i \<Rightarrow> map_option PackageKey (ok_of (cp_utf8 cp i))
      | String i \<Rightarrow> map_option StringKey (ok_of (cp_utf8 cp i))
      | NameAndType i j \<Rightarrow>
          (case (ok_of (cp_utf8 cp i), ok_of (cp_utf8 cp j)) of
             (Some name, Some desc) \<Rightarrow> Some (NameAndTypeKey name desc)
           | _ \<Rightarrow> None)
      | Fieldref i j \<Rightarrow> map_option (\<lambda>(c, n, d). FieldRefKey c n d) (ok_of (cp_member cp i j))
      | Methodref i j \<Rightarrow> map_option (\<lambda>(c, n, d). MethodRefKey c n d) (ok_of (cp_member cp i j))
      | InterfaceMethodref i j \<Rightarrow>
          map_option (\<lambda>(c, n, d). InterfaceMethodRefKey c n d) (ok_of (cp_member cp i j))
      | MethodType i \<Rightarrow> map_option MethodTypeKey (ok_of (cp_utf8 cp i))
      | MethodHandle kind i \<Rightarrow>
          map_option (\<lambda>(c, n, d, itf). MethodHandleKey kind c n d itf) (cp_member_ref cp i)
      | InvokeDynamic bsm j \<Rightarrow>
          map_option (\<lambda>(n, d). InvokeDynamicKey bsm n d) (ok_of (cp_name_and_type cp j))
      | _ \<Rightarrow> None)"

text \<open>\<^verbatim>\<open>entry(key).or_insert(index)\<close>: the first entry with a key keeps it.\<close>

definition or_insert :: "pool_key option \<Rightarrow> u16 \<Rightarrow> (pool_key \<rightharpoonup> u16) \<Rightarrow> (pool_key \<rightharpoonup> u16)" where
  "or_insert key i m =
     (case key of None \<Rightarrow> m | Some k \<Rightarrow> if m k = None then m(k \<mapsto> i) else m)"

primrec index_entries ::
    "cp_info list \<Rightarrow> nat \<Rightarrow> cp_info list \<Rightarrow> (pool_key \<rightharpoonup> u16) \<Rightarrow> (pool_key \<rightharpoonup> u16)" where
  "index_entries cp n [] m = m"
| "index_entries cp n (e # es) m =
     index_entries cp (Suc n) es (or_insert (entry_key cp e) (word_of_nat n) m)"

definition from_pool :: "cp_info list \<Rightarrow> pool_builder" where
  "from_pool pool =
     (let cp = (if pool = [] then [Unusable] else pool)
      in \<lparr>pb_pool = cp, pb_index = index_entries cp 0 cp Map.empty\<rparr>)"

end
