(* ===== verification/Interning.thy ===== *)
theory Interning imports PoolBuilder begin

text \<open>
  What interning promises. \<open>denotes cp i k\<close>: the entry of the pool at \<open>i\<close> is what the key \<open>k\<close> names.
  \<open>interns pool ok P f Q\<close> is a triple for actions that may add to a pool, with assertions about
  the pool that are kept when it grows: the pool of the state is only ever extended, and unless it
  outgrows its sixteen bit indices, the result satisfies \<open>Q\<close> in the new pool and in all that
  extend it.
\<close>

subsection \<open>What a key names\<close>

fun denotes :: "cp_info list \<Rightarrow> u16 \<Rightarrow> pool_key \<Rightarrow> bool" where
  "denotes cp i (Utf8Key s) \<longleftrightarrow> cp_utf8 cp i = Inr s"
| "denotes cp i (ClassKey n) \<longleftrightarrow> cp_class_name cp i = Inr n"
| "denotes cp i (ModuleKey n) \<longleftrightarrow> (\<exists>j. cp_get cp i = Some (Module j) \<and> cp_utf8 cp j = Inr n)"
| "denotes cp i (PackageKey n) \<longleftrightarrow> (\<exists>j. cp_get cp i = Some (Package j) \<and> cp_utf8 cp j = Inr n)"
| "denotes cp i (StringKey s) \<longleftrightarrow> (\<exists>j. cp_get cp i = Some (String j) \<and> cp_utf8 cp j = Inr s)"
| "denotes cp i (NameAndTypeKey n d) \<longleftrightarrow> cp_name_and_type cp i = Inr (n, d)"
| "denotes cp i (FieldRefKey c n d) \<longleftrightarrow> cp_field_ref cp i = Inr (c, n, d)"
| "denotes cp i (MethodRefKey c n d) \<longleftrightarrow> cp_method_ref cp i = Inr ((c, n, d), False)"
| "denotes cp i (InterfaceMethodRefKey c n d) \<longleftrightarrow> cp_method_ref cp i = Inr ((c, n, d), True)"
| "denotes cp i (MethodTypeKey s) \<longleftrightarrow> (\<exists>j. cp_get cp i = Some (MethodType j) \<and> cp_utf8 cp j = Inr s)"
| "denotes cp i (MethodHandleKey kind c n d _) \<longleftrightarrow>
     (\<exists>j itf. cp_get cp i = Some (MethodHandle kind j) \<and> cp_member_ref cp j = Some (c, n, d, itf))"
| "denotes cp i (InvokeDynamicKey bsm n d) \<longleftrightarrow>
     (\<exists>j. cp_get cp i = Some (InvokeDynamic bsm j) \<and> cp_name_and_type cp j = Inr (n, d))"

lemma ok_of_Some [simp]: "ok_of x = Some a \<longleftrightarrow> x = Inr a"
  by (cases x) (simp_all add: ok_of_def)

lemma map_sum_Inr [simp]: "map_sum f g x = Inr y \<longleftrightarrow> (\<exists>a. x = Inr a \<and> y = g a)"
  by (cases x) auto

lemma cp_class_name_Inr:
  "cp_class_name cp i = Inr n \<longleftrightarrow> (\<exists>j. cp_get cp i = Some (Class j) \<and> cp_utf8 cp j = Inr n)"
  by (auto simp: cp_class_name_def split: option.splits cp_info.splits)

lemma cp_name_and_type_Inr:
  "cp_name_and_type cp i = Inr (n, d) \<longleftrightarrow>
     (\<exists>a b. cp_get cp i = Some (NameAndType a b) \<and> cp_utf8 cp a = Inr n \<and> cp_utf8 cp b = Inr d)"
  by (auto simp: cp_name_and_type_def split: option.splits cp_info.splits sum.splits)

lemma cp_member_Inr:
  "cp_member cp i j = Inr (c, n, d) \<longleftrightarrow> cp_class_name cp i = Inr c \<and> cp_name_and_type cp j = Inr (n, d)"
  by (auto simp: cp_member_def split: sum.splits)

lemma cp_field_ref_Inr:
  "cp_field_ref cp i = Inr m \<longleftrightarrow> (\<exists>a b. cp_get cp i = Some (Fieldref a b) \<and> cp_member cp a b = Inr m)"
  by (auto simp: cp_field_ref_def split: option.splits cp_info.splits)

lemma cp_method_ref_Inr:
  "cp_method_ref cp i = Inr (m, itf) \<longleftrightarrow>
     (\<exists>a b. cp_get cp i = Some (if itf then InterfaceMethodref a b else Methodref a b) \<and>
        cp_member cp a b = Inr m)"
  by (cases m) (auto simp: cp_method_ref_def split: option.splits cp_info.splits)

lemma cp_member_ref_Some:
  "cp_member_ref cp i = Some (c, n, d, itf) \<longleftrightarrow>
     cp_field_ref cp i = Inr (c, n, d) \<and> \<not> itf \<or> cp_method_ref cp i = Inr ((c, n, d), itf)"
  by (auto simp: cp_member_ref_def cp_field_ref_def cp_method_ref_def split: option.splits cp_info.splits)

lemmas lookup_Inr =
  cp_class_name_Inr cp_name_and_type_Inr cp_member_Inr cp_field_ref_Inr cp_method_ref_Inr

text \<open>What is in a pool stays when the pool grows.\<close>

lemma lookups_prefix:
  assumes "prefix cp cp'"
  shows "cp_class_name cp i = Inr n \<Longrightarrow> cp_class_name cp' i = Inr n"
    and "cp_name_and_type cp i = Inr (n, d) \<Longrightarrow> cp_name_and_type cp' i = Inr (n, d)"
  using cp_get_prefix [OF assms] cp_utf8_prefix [OF assms]
  unfolding cp_class_name_Inr cp_name_and_type_Inr by blast+

lemma member_prefix:
  assumes "prefix cp cp'"
  shows "cp_field_ref cp i = Inr (c, n, d) \<Longrightarrow> cp_field_ref cp' i = Inr (c, n, d)"
    and "cp_method_ref cp i = Inr ((c, n, d), itf) \<Longrightarrow> cp_method_ref cp' i = Inr ((c, n, d), itf)"
  using cp_get_prefix [OF assms] lookups_prefix [OF assms]
  unfolding cp_field_ref_Inr cp_method_ref_Inr cp_member_Inr by blast+

lemma denotes_prefix: "prefix cp cp' \<Longrightarrow> denotes cp i k \<Longrightarrow> denotes cp' i k"
  by (cases k) (auto simp: cp_member_ref_Some dest: cp_get_prefix cp_utf8_prefix lookups_prefix member_prefix)

subsection \<open>Triples\<close>

definition interns ::
    "('s \<Rightarrow> cp_info list) \<Rightarrow> ('s \<Rightarrow> bool) \<Rightarrow> (cp_info list \<Rightarrow> bool) \<Rightarrow> ('s, 'a) state \<Rightarrow>
     (cp_info list \<Rightarrow> 'a \<Rightarrow> bool) \<Rightarrow> bool" where
  "interns pool ok P f Q \<longleftrightarrow>
     (\<forall>s a s'. run_state f s = (a, s') \<longrightarrow>
        prefix (pool s) (pool s') \<and>
        (ok s \<longrightarrow> (\<forall>cp. prefix (pool s) cp \<longrightarrow> P cp) \<longrightarrow> length (pool s') \<le> 2 ^ 16 \<longrightarrow>
           ok s' \<and> (\<forall>cp. prefix (pool s') cp \<longrightarrow> Q cp a)))"

lemma internsD:
  assumes "interns pool ok P f Q" and "run_state f s = (a, s')"
  shows "prefix (pool s) (pool s')"
    and "ok s \<Longrightarrow> (\<And>cp. prefix (pool s) cp \<Longrightarrow> P cp) \<Longrightarrow> length (pool s') \<le> 2 ^ 16 \<Longrightarrow> ok s'"
    and "ok s \<Longrightarrow> (\<And>cp. prefix (pool s) cp \<Longrightarrow> P cp) \<Longrightarrow> length (pool s') \<le> 2 ^ 16 \<Longrightarrow>
      prefix (pool s') cp \<Longrightarrow> Q cp a"
  using assms unfolding interns_def by blast+

named_theorems intern_rules

lemma interns_bind [intern_rules]:
  assumes f: "interns pool ok P f Q" and g: "\<And>a. interns pool ok (\<lambda>cp. P cp \<and> Q cp a) (g a) R"
  shows "interns pool ok P (State_Monad.bind f g) R"
  unfolding interns_def
proof (intro allI impI)
  fix s b s'' assume run: "run_state (State_Monad.bind f g) s = (b, s'')"
  obtain a s' where fs: "run_state f s = (a, s')" by fastforce
  with run have gs: "run_state (g a) s' = (b, s'')" by simp
  note f' = internsD [OF f fs] and g' = internsD [OF g gs]
  have mono: "prefix (pool s) (pool s'')" using f'(1) g'(1) by (rule prefix_order.trans)
  have "ok s'' \<and> (\<forall>cp. prefix (pool s'') cp \<longrightarrow> R cp b)"
    if ok: "ok s" and P: "\<forall>cp. prefix (pool s) cp \<longrightarrow> P cp" and len: "length (pool s'') \<le> 2 ^ 16"
  proof -
    have len': "length (pool s') \<le> 2 ^ 16" using prefix_length_le [OF g'(1)] len by simp
    have "P cp \<and> Q cp a" if "prefix (pool s') cp" for cp
      using P f'(3) [OF ok _ len' that] f'(1) that by (blast intro: prefix_order.trans)
    with f'(2) [OF ok _ len'] P show ?thesis using g'(2,3) len by blast
  qed
  with mono show "prefix (pool s) (pool s'') \<and>
      (ok s \<longrightarrow> (\<forall>cp. prefix (pool s) cp \<longrightarrow> P cp) \<longrightarrow> length (pool s'') \<le> 2 ^ 16 \<longrightarrow>
         ok s'' \<and> (\<forall>cp. prefix (pool s'') cp \<longrightarrow> R cp b))" by blast
qed

lemma interns_ret [intern_rules]: "(\<And>cp. P cp \<Longrightarrow> Q cp a) \<Longrightarrow> interns pool ok P (ret a) Q"
  by (simp add: interns_def)

lemma interns_weaken:
  "interns pool ok P f Q \<Longrightarrow> (\<And>cp. P' cp \<Longrightarrow> P cp) \<Longrightarrow> (\<And>cp a. P' cp \<Longrightarrow> Q cp a \<Longrightarrow> R cp a) \<Longrightarrow>
   interns pool ok P' f R"
  unfolding interns_def by (meson prefix_order.trans)

text \<open>Interning the parts of a list in turn.\<close>

primrec for_each :: "('a \<Rightarrow> ('s, 'b) state) \<Rightarrow> 'a list \<Rightarrow> ('s, 'b list) state" where
  "for_each f [] = ret []"
| "for_each f (x # xs) = do { y \<leftarrow> f x; ys \<leftarrow> for_each f xs; ret (y # ys) }"

lemma interns_for_each [intern_rules]:
  assumes "\<And>x. x \<in> set xs \<Longrightarrow> interns pool ok P (f x) (\<lambda>cp y. Q cp x y)"
  shows "interns pool ok P (for_each f xs) (\<lambda>cp. list_all2 (Q cp) xs)"
  using assms
proof (induction xs)
  case (Cons x xs)
  have rest: "interns pool ok (\<lambda>cp. P cp \<and> Q cp x y) (for_each f xs) (\<lambda>cp. list_all2 (Q cp) xs)" for y
    by (rule interns_weaken [OF Cons.IH]) (simp_all add: Cons.prems)
  show ?case unfolding for_each.simps
    by (rule interns_bind [OF Cons.prems], simp, rule interns_bind [OF rest], rule interns_ret) simp
qed (simp add: interns_ret)


subsection \<open>The builder\<close>

definition builder_ok :: "pool_builder \<Rightarrow> bool" where
  "builder_ok b \<longleftrightarrow> (\<forall>k i. pb_index b k = Some i \<longrightarrow> denotes (pb_pool b) i k)"

abbreviation pb_interns ::
    "(cp_info list \<Rightarrow> bool) \<Rightarrow> 'a pb \<Rightarrow> (cp_info list \<Rightarrow> 'a \<Rightarrow> bool) \<Rightarrow> bool" where
  "pb_interns \<equiv> interns pb_pool builder_ok"

lemma builder_ok_grow:
  "builder_ok b \<Longrightarrow> prefix (pb_pool b) cp \<Longrightarrow> builder_ok (b\<lparr>pb_pool := cp\<rparr>)"
  by (auto simp: builder_ok_def intro: denotes_prefix)

lemma interns_push [intern_rules]:
  "pb_interns P (push_entry e) (\<lambda>cp i. cp_get cp i = Some e)"
  unfolding interns_def
proof (intro allI impI)
  fix b i b' assume "run_state (push_entry e) b = (i, b')"
  hence b': "b' = b\<lparr>pb_pool := pb_pool b @ [e]\<rparr>" and i: "i = word_of_nat (length (pb_pool b))"
    by (simp_all add: push_entry_def Let_def)
  show "prefix (pb_pool b) (pb_pool b') \<and>
      (builder_ok b \<longrightarrow> (\<forall>cp. prefix (pb_pool b) cp \<longrightarrow> P cp) \<longrightarrow> length (pb_pool b') \<le> 2 ^ 16 \<longrightarrow>
         builder_ok b' \<and> (\<forall>cp. prefix (pb_pool b') cp \<longrightarrow> cp_get cp i = Some e))"
    using cp_get_nat [of "length (pb_pool b)" "pb_pool b @ [e]"]
    by (auto simp: b' i intro: builder_ok_grow elim: cp_get_prefix)
qed

lemma interns_insert:
  assumes "\<And>cp. P cp \<Longrightarrow> denotes cp i k"
  shows "pb_interns P (insert_key k i) (\<lambda>_ _. True)"
  using assms by (auto simp: interns_def insert_key_def builder_ok_def)

lemma interns_discard [intern_rules]: "pb_interns P f Q \<Longrightarrow> pb_interns P (discard f) (\<lambda>_ _. True)"
  unfolding discard_def by (intro intern_rules) auto

lemma interns_lookup: "pb_interns P (lookup_key k) (\<lambda>cp known. \<forall>i. known = Some i \<longrightarrow> denotes cp i k)"
  by (auto simp: interns_def lookup_key_def builder_ok_def intro: denotes_prefix)

lemma interns_intern:
  assumes mk: "pb_interns (\<lambda>_. True) mk (\<lambda>cp e. \<forall>i. cp_get cp i = Some e \<longrightarrow> denotes cp i k)"
  shows "pb_interns P (intern k mk) (\<lambda>cp i. denotes cp i k)"
proof -
  have "pb_interns Q (do { entry \<leftarrow> mk; i \<leftarrow> push_entry entry; insert_key k i; ret i }) (\<lambda>cp i. denotes cp i k)" for Q
    by (rule interns_bind, rule interns_weaken [OF mk TrueI], assumption,
        intro interns_bind [OF interns_push] interns_bind [OF interns_insert] interns_ret) blast+
  thus ?thesis unfolding intern_def
    by (intro interns_bind [OF interns_lookup]) (auto split: option.split intro!: interns_ret)
qed

lemma pb_utf8_interns [intern_rules]: "pb_interns P (pb_utf8 s) (\<lambda>cp i. cp_utf8 cp i = Inr s)"
  using interns_intern [of "ret (Utf8 s)" "Utf8Key s"]
  by (simp add: pb_utf8_def interns_ret cp_utf8_def)

lemma pb_class_interns [intern_rules]: "pb_interns P (pb_class n) (\<lambda>cp i. cp_class_name cp i = Inr n)"
  unfolding pb_class_def
  by (rule interns_intern [where k = "ClassKey n", simplified denotes.simps])
    (intro interns_bind [OF pb_utf8_interns] interns_ret, auto simp: cp_class_name_Inr)

lemma pb_name_and_type_interns [intern_rules]:
  "pb_interns P (pb_name_and_type n d) (\<lambda>cp i. cp_name_and_type cp i = Inr (n, d))"
  unfolding pb_name_and_type_def
  by (rule interns_intern [where k = "NameAndTypeKey n d", simplified denotes.simps])
    (intro interns_bind [OF pb_utf8_interns] interns_ret, auto simp: cp_name_and_type_Inr)

lemma pb_text_interns [intern_rules]:
  "pb_interns P (pb_module n) (\<lambda>cp i. denotes cp i (ModuleKey n))"
  "pb_interns P (pb_package n) (\<lambda>cp i. denotes cp i (PackageKey n))"
  "pb_interns P (pb_string n) (\<lambda>cp i. denotes cp i (StringKey n))"
  "pb_interns P (pb_method_type n) (\<lambda>cp i. denotes cp i (MethodTypeKey n))"
  unfolding pb_module_def pb_package_def pb_string_def pb_method_type_def
  by (rule interns_intern, intro interns_bind [OF pb_utf8_interns] interns_ret, simp)+

lemma pb_member_interns [intern_rules]:
  "pb_interns P (pb_field_ref c n d) (\<lambda>cp i. cp_field_ref cp i = Inr (c, n, d))"
  "pb_interns P (pb_method_ref c n d) (\<lambda>cp i. cp_method_ref cp i = Inr ((c, n, d), False))"
  "pb_interns P (pb_interface_method_ref c n d) (\<lambda>cp i. cp_method_ref cp i = Inr ((c, n, d), True))"
proof -
  have "pb_interns P (pb_class c \<bind> (\<lambda>i. pb_name_and_type n d \<bind> (\<lambda>j. ret (mk i j))))
      (\<lambda>cp e. \<exists>i j. e = mk i j \<and> cp_member cp i j = Inr (c, n, d))" for P mk
    by (intro interns_bind [OF pb_class_interns] interns_bind [OF pb_name_and_type_interns] interns_ret)
      (auto simp: cp_member_Inr)
  note members = interns_intern [OF interns_weaken [OF this]]
  show "pb_interns P (pb_field_ref c n d) (\<lambda>cp i. cp_field_ref cp i = Inr (c, n, d))"
    unfolding pb_field_ref_def denotes.simps(7) [symmetric]
    by (rule members) (auto simp: cp_field_ref_Inr)
  show "pb_interns P (pb_method_ref c n d) (\<lambda>cp i. cp_method_ref cp i = Inr ((c, n, d), False))"
    unfolding pb_method_ref_def denotes.simps(8) [symmetric]
    by (rule members) (auto simp: cp_method_ref_Inr)
  show "pb_interns P (pb_interface_method_ref c n d) (\<lambda>cp i. cp_method_ref cp i = Inr ((c, n, d), True))"
    unfolding pb_interface_method_ref_def denotes.simps(9) [symmetric]
    by (rule members) (auto simp: cp_method_ref_Inr)
qed

lemma pb_method_handle_interns [intern_rules]:
  "pb_interns P (pb_method_handle h) (\<lambda>cp i. denotes cp i (handle_key h))"
  unfolding pb_method_handle_def handle_key_def
  by (rule interns_intern, rule interns_bind [where Q = "\<lambda>cp j. \<exists>itf. cp_member_ref cp j = Some
        (handle_owner h, handle_name h, handle_descriptor h, itf)"])
    (auto simp: cp_member_ref_Some intro!: interns_ret interns_weaken [OF pb_member_interns(1)]
      interns_weaken [OF pb_member_interns(2)] interns_weaken [OF pb_member_interns(3)])

lemma pb_invoke_dynamic_interns [intern_rules]:
  "pb_interns P (pb_invoke_dynamic bsm n d) (\<lambda>cp i. denotes cp i (InvokeDynamicKey bsm n d))"
  unfolding pb_invoke_dynamic_def
  by (rule interns_intern, intro interns_bind [OF pb_name_and_type_interns] interns_ret) auto

text \<open>The builder of a pool finds the entries of the pool.\<close>

lemma entry_key_denotes: "entry_key cp e = Some k \<Longrightarrow> cp_get cp i = Some e \<Longrightarrow> denotes cp i k"
  by (cases e)
    (auto simp: entry_key_def cp_utf8_def cp_class_name_Inr cp_name_and_type_Inr cp_field_ref_Inr cp_method_ref_Inr
      split: option.splits)

lemma index_entries_denotes:
  assumes "cp = pre @ es" and "length cp \<le> 2 ^ 16" and "\<And>k i. m k = Some i \<Longrightarrow> denotes cp i k"
  shows "index_entries cp (length pre) es m k = Some i \<Longrightarrow> denotes cp i k"
  using assms
proof (induction es arbitrary: pre m)
  case (Cons e es)
  have here: "cp_get cp (word_of_nat (length pre)) = Some e"
    using cp_get_nat [of "length pre" cp] Cons.prems(2,3) by simp
  have m: "denotes cp i k" if "or_insert (entry_key cp e) (word_of_nat (length pre)) m k = Some i" for k i
    using that Cons.prems(4) entry_key_denotes [OF _ here]
    by (auto simp: or_insert_def split: option.splits if_splits)
  show ?case
    using Cons.IH [of "pre @ [e]", OF _ _ _ m] Cons.prems(1-3) by simp
qed simp

lemma from_pool_ok: "length cp \<le> 2 ^ 16 \<Longrightarrow> builder_ok (from_pool cp)"
  using index_entries_denotes [of "if cp = [] then [Unusable] else cp" "[]" _ Map.empty]
  by (auto simp: builder_ok_def from_pool_def Let_def split: if_splits)

lemma builder_new_ok: "builder_ok pool_builder_new"
  by (simp add: builder_ok_def pool_builder_new_def)

subsection \<open>Interners\<close>

text \<open>
  Both writers of the library intern constants: the builder, and the functions of
  \<^verbatim>\<open>class_writer.rs\<close> that search a bare pool. What they share: a request for a key gives an index
  that denotes it.
\<close>

locale interner =
  fixes pool :: "'s \<Rightarrow> cp_info list" and ok :: "'s \<Rightarrow> bool"
    and ask :: "'k \<Rightarrow> ('s, u16) state" and meant :: "cp_info list \<Rightarrow> u16 \<Rightarrow> 'k \<Rightarrow> bool"
  assumes ask: "interns pool ok P (ask k) (\<lambda>cp i. meant cp i k)"
begin

lemma asks: "interns pool ok P (for_each ask ks) (\<lambda>cp. list_all2 (\<lambda>k i. meant cp i k) ks)"
  by (intro interns_for_each ask)

lemma asked:
  assumes "run_state (for_each ask ks) s = (is, s')" and "ok s" and "length (pool s') \<le> 2 ^ 16"
  shows "prefix (pool s) (pool s') \<and> ok s' \<and> list_all2 (\<lambda>k i. meant (pool s') i k) ks is"
  using internsD [OF asks assms(1)] assms by blast

end

text \<open>The method of the builder for a key.\<close>

definition handle_of :: "u8 \<Rightarrow> rust_text \<Rightarrow> rust_text \<Rightarrow> rust_text \<Rightarrow> bool \<Rightarrow> handle" where
  "handle_of kind c n d itf =
     \<lparr>reference_kind = kind, handle_owner = c, handle_name = n, handle_descriptor = d, is_interface = itf\<rparr>"

fun request :: "pool_key \<Rightarrow> u16 pb" where
  "request (Utf8Key s) = pb_utf8 s"
| "request (ClassKey n) = pb_class n"
| "request (ModuleKey n) = pb_module n"
| "request (PackageKey n) = pb_package n"
| "request (StringKey s) = pb_string s"
| "request (NameAndTypeKey n d) = pb_name_and_type n d"
| "request (FieldRefKey c n d) = pb_field_ref c n d"
| "request (MethodRefKey c n d) = pb_method_ref c n d"
| "request (InterfaceMethodRefKey c n d) = pb_interface_method_ref c n d"
| "request (MethodTypeKey d) = pb_method_type d"
| "request (MethodHandleKey kind c n d itf) = pb_method_handle (handle_of kind c n d itf)"
| "request (InvokeDynamicKey bsm n d) = pb_invoke_dynamic bsm n d"

text \<open>All constants: those that are found again under a key, and numbers, which are not.\<close>

datatype pool_constant =
    Keyed pool_key
  | IntegerConstant u32
  | FloatConstant u32
  | LongConstant jlong
  | DoubleConstant jlong

fun request_constant :: "pool_constant \<Rightarrow> u16 pb" where
  "request_constant (Keyed k) = request k"
| "request_constant (IntegerConstant v) = pb_integer v"
| "request_constant (FloatConstant v) = pb_float v"
| "request_constant (LongConstant v) = pb_long v"
| "request_constant (DoubleConstant v) = pb_double v"

fun constant_at :: "cp_info list \<Rightarrow> u16 \<Rightarrow> pool_constant \<Rightarrow> bool" where
  "constant_at cp i (Keyed k) \<longleftrightarrow> denotes cp i k"
| "constant_at cp i (IntegerConstant v) \<longleftrightarrow> cp_get cp i = Some (Integer v)"
| "constant_at cp i (FloatConstant v) \<longleftrightarrow> cp_get cp i = Some (Float v)"
| "constant_at cp i (LongConstant v) \<longleftrightarrow> cp_get cp i = Some (Long v)"
| "constant_at cp i (DoubleConstant v) \<longleftrightarrow> cp_get cp i = Some (Double v)"

lemma request_interns: "pb_interns P (request k) (\<lambda>cp i. denotes cp i k)"
proof -
  have handle: "pb_interns P (pb_method_handle (handle_of kind c n d itf))
      (\<lambda>cp i. denotes cp i (MethodHandleKey kind c n d itf))" for kind c n d itf
    using pb_method_handle_interns [of P "handle_of kind c n d itf"]
    by (simp add: handle_key_def handle_of_def)
  show ?thesis
    using pb_text_interns pb_invoke_dynamic_interns handle
    by (cases k) (simp_all add: pb_utf8_interns pb_class_interns pb_name_and_type_interns pb_member_interns)
qed

lemma wide_interns:
  "pb_interns P (do { i \<leftarrow> push_entry e; discard (push_entry Unusable); ret i }) (\<lambda>cp i. cp_get cp i = Some e)"
  by (rule interns_bind [OF interns_push], rule interns_bind [OF interns_discard [OF interns_push]],
      rule interns_ret) simp

interpretation builder: interner pb_pool builder_ok request_constant constant_at
proof
  fix k P
  show "pb_interns P (request_constant k) (\<lambda>cp i. constant_at cp i k)"
    by (cases k) (simp_all add: request_interns pb_integer_def pb_float_def pb_long_def pb_double_def
        interns_push wide_interns)
qed

subsection \<open>Constants that are asked for again\<close>

text \<open>An action that keeps the keys of the builder.\<close>

definition keeps_keys :: "'a pb \<Rightarrow> bool" where
  "keeps_keys f \<longleftrightarrow> (\<forall>b x b' k i. run_state f b = (x, b') \<longrightarrow> pb_index b k = Some i \<longrightarrow> pb_index b' k = Some i)"

named_theorems key_rules

lemma keeps_keys_bind [key_rules]:
  assumes "keeps_keys f" and "\<And>x. keeps_keys (g x)"
  shows "keeps_keys (State_Monad.bind f g)"
  unfolding keeps_keys_def
proof (intro allI impI)
  fix b y b'' k i assume run: "run_state (State_Monad.bind f g) b = (y, b'')" and k: "pb_index b k = Some i"
  then obtain x b' where "run_state f b = (x, b')" "run_state (g x) b' = (y, b'')" by (auto split: prod.splits)
  with assms k show "pb_index b'' k = Some i" unfolding keeps_keys_def by blast
qed

lemma keeps_keys_simple [key_rules]:
  "keeps_keys (ret x)" "keeps_keys (push_entry e)" "keeps_keys f \<Longrightarrow> keeps_keys (discard f)"
  by (auto simp: keeps_keys_def push_entry_def discard_def Let_def split: prod.splits)

lemma keeps_keys_intern [key_rules]:
  assumes "keeps_keys mk"
  shows "keeps_keys (intern k mk)"
  unfolding keeps_keys_def
proof (intro allI impI)
  fix b x b' j i assume run: "run_state (intern k mk) b = (x, b')" and j: "pb_index b j = Some i"
  show "pb_index b' j = Some i"
  proof (cases "pb_index b k")
    case None
    hence "j \<noteq> k" using j by auto
    moreover obtain e b1 where "run_state mk b = (e, b1)" by fastforce
    moreover from this have "pb_index b1 j = Some i" using assms j unfolding keeps_keys_def by blast
    ultimately show ?thesis
      using run None by (auto simp: intern_def lookup_key_def insert_key_def push_entry_def Let_def)
  qed (use run j in \<open>simp add: intern_def lookup_key_def\<close>)
qed

lemmas request_defs =
  pb_utf8_def pb_class_def pb_module_def pb_package_def pb_string_def pb_name_and_type_def pb_field_ref_def
  pb_method_ref_def pb_interface_method_ref_def pb_method_type_def pb_method_handle_def pb_invoke_dynamic_def

lemma keeps_keys_request: "keeps_keys (request k)"
  by (cases k) (auto simp: request_defs intro!: key_rules)

lemma keeps_keys_constant: "keeps_keys (request_constant c)"
  by (cases c) (auto simp: pb_integer_def pb_float_def pb_long_def pb_double_def intro!: key_rules keeps_keys_request)

lemma keeps_keys_all: "keeps_keys (for_each request_constant cs)"
  by (induction cs) (auto intro!: key_rules keeps_keys_constant)

text \<open>A key that is known is found, and a request makes its key known.\<close>

lemma request_known: "pb_index b k = Some i \<Longrightarrow> run_state (request k) b = (i, b)"
  by (cases k) (simp_all add: request_defs intern_def lookup_key_def handle_key_def handle_of_def)

lemma intern_knows: "run_state (intern k mk) b = (i, b') \<Longrightarrow> pb_index b' k = Some i"
  by (auto simp: intern_def lookup_key_def insert_key_def push_entry_def Let_def
      split: option.splits prod.splits)

lemma request_knows: "run_state (request k) b = (i, b') \<Longrightarrow> pb_index b' k = Some i"
  by (cases k) (auto simp: request_defs handle_key_def handle_of_def dest: intern_knows)

lemma asked_again:
  assumes "run_state (for_each request_constant cs) b = (is, b')" and "(Keyed k, i) \<in> set (zip cs is)"
  shows "run_state (request_constant (Keyed k)) b' = (i, b')"
  using assms
proof (induction cs arbitrary: b "is")
  case (Cons c cs)
  then obtain j b1 js where c: "run_state (request_constant c) b = (j, b1)"
    and cs: "run_state (for_each request_constant cs) b1 = (js, b')" and "is": "is = j # js"
    by (auto split: prod.splits)
  show ?case
  proof (cases "(Keyed k, i) \<in> set (zip cs js)")
    case True
    with Cons.IH [OF cs] show ?thesis .
  next
    case False
    hence "c = Keyed k" "j = i" using Cons.prems(2) "is" by auto
    hence "pb_index b1 k = Some i" using c request_knows by simp
    hence "pb_index b' k = Some i" using cs keeps_keys_all unfolding keeps_keys_def by blast
    thus ?thesis by (simp add: request_known)
  qed
qed simp

subsection \<open>The bare pool\<close>

text \<open>The functions of \<^verbatim>\<open>class_writer.rs\<close> as actions on the pool.\<close>

definition on_pool :: "(cp_info list \<Rightarrow> u16 \<times> cp_info list) \<Rightarrow> (cp_info list, u16) state" where
  "on_pool f = State f"

abbreviation cp_interns ::
    "(cp_info list \<Rightarrow> bool) \<Rightarrow> (cp_info list, 'a) state \<Rightarrow> (cp_info list \<Rightarrow> 'a \<Rightarrow> bool) \<Rightarrow> bool" where
  "cp_interns \<equiv> interns (\<lambda>cp. cp) (\<lambda>_. True)"

lemma interns_on_pool:
  assumes "\<And>cp i cp'. f cp = (i, cp') \<Longrightarrow> prefix cp cp'"
    and "\<And>cp i cp' cp''. f cp = (i, cp') \<Longrightarrow> length cp' \<le> 2 ^ 16 \<Longrightarrow> (\<And>x. prefix cp x \<Longrightarrow> P x) \<Longrightarrow>
      prefix cp' cp'' \<Longrightarrow> Q cp'' i"
  shows "cp_interns P (on_pool f) Q"
  using assms by (auto simp: interns_def on_pool_def)

lemma ensure_utf8_interns [intern_rules]:
  "cp_interns P (on_pool (ensure_utf8 s)) (\<lambda>cp i. cp_utf8 cp i = Inr s)"
  by (rule interns_on_pool) (auto dest: ensure_utf8_prefix intro: cp_utf8_prefix [OF _ ensure_utf8_found])

lemma ensure_entry_found:
  assumes "ensure_entry (\<lambda>x. x = e) e cp = (i, cp')"
  shows "prefix cp cp'" and "length cp' \<le> 2 ^ 16 \<Longrightarrow> cp_get cp' i = Some e"
proof -
  have "prefix cp cp' \<and> (length cp' \<le> 2 ^ 16 \<longrightarrow> cp_get cp' i = Some e)"
  proof (cases "position (\<lambda>x. x = e) cp")
    case None
    hence "cp' = cp @ [e]" "i = word_of_nat (length cp)" using assms by (simp_all add: ensure_entry_def)
    thus ?thesis using cp_get_nat [of "length cp" cp'] by simp
  next
    case (Some k)
    hence "cp' = cp" "i = word_of_nat k" "k < length cp" "cp ! k = e"
      using assms position_some [OF Some] by (simp_all add: ensure_entry_def)
    thus ?thesis using cp_get_nat [of k cp] by simp
  qed
  thus "prefix cp cp'" "length cp' \<le> 2 ^ 16 \<Longrightarrow> cp_get cp' i = Some e" by simp_all
qed

lemma ensure_entry_interns [intern_rules]:
  "cp_interns P (on_pool (ensure_entry (\<lambda>x. x = e) e)) (\<lambda>cp i. cp_get cp i = Some e)"
  by (rule interns_on_pool) (blast intro: ensure_entry_found cp_get_prefix)+

lemma on_pool_bind:
  "on_pool (\<lambda>cp. case f cp of (i, cp) \<Rightarrow> g i cp) = do { i \<leftarrow> on_pool f; on_pool (g i) }"
  by (simp add: on_pool_def State_Monad.bind_def)

lemma ensure_named_interns:
  assumes "mk = Class \<or> mk = Module \<or> mk = Package"
  shows "cp_interns P (on_pool (ensure_named mk n)) (\<lambda>cp i. \<exists>j. cp_get cp i = Some (mk j) \<and> cp_utf8 cp j = Inr n)"
proof (rule interns_on_pool)
  fix cp i cp' assume run: "ensure_named mk n cp = (i, cp')"
  thus "prefix cp cp'"
    by (auto simp: ensure_named_def split: option.splits prod.splits dest!: ensure_utf8_prefix)
  fix cp'' assume len: "length cp' \<le> 2 ^ 16" and more: "prefix cp' cp''"
  have "\<exists>j. cp_get cp' i = Some (mk j) \<and> cp_utf8 cp' j = Inr n"
  proof (cases "position (names_text cp mk n) cp")
    case None
    with run obtain j cp1 where j: "ensure_utf8 n cp = (j, cp1)" and cp': "cp' = cp1 @ [mk j]"
        "i = word_of_nat (length cp1)"
      by (auto simp: ensure_named_def split: prod.splits)
    have "cp_utf8 cp1 j = Inr n" using ensure_utf8_found [OF j] len cp' by simp
    thus ?thesis using cp_utf8_prefix [of cp1 cp'] cp_get_nat [of "length cp1" cp'] len cp' by auto
  next
    case (Some k)
    with run have cp': "cp' = cp" "i = word_of_nat k" by (simp_all add: ensure_named_def)
    have "k < length cp" "names_text cp mk n (cp ! k)" using position_some [OF Some] by simp_all
    thus ?thesis using cp_get_nat [of k cp] len cp' assms
      by (auto simp: names_text_def cp_utf8_def split: cp_info.splits)
  qed
  thus "\<exists>j. cp_get cp'' i = Some (mk j) \<and> cp_utf8 cp'' j = Inr n"
    using cp_get_prefix [OF more] cp_utf8_prefix [OF more] by blast
qed

lemma ensure_class_interns [intern_rules]:
  "cp_interns P (on_pool (ensure_class n)) (\<lambda>cp i. cp_class_name cp i = Inr n)"
  unfolding ensure_class_def cp_class_name_Inr by (rule ensure_named_interns) simp

lemma ensure_text_interns [intern_rules]:
  "cp_interns P (on_pool (ensure_module n)) (\<lambda>cp i. denotes cp i (ModuleKey n))"
  "cp_interns P (on_pool (ensure_package n)) (\<lambda>cp i. denotes cp i (PackageKey n))"
  using ensure_named_interns [of Module P n] ensure_named_interns [of Package P n]
  by (simp_all add: ensure_module_def ensure_package_def)

lemma ensure_name_and_type_interns [intern_rules]:
  "cp_interns P (on_pool (ensure_name_and_type n d)) (\<lambda>cp i. cp_name_and_type cp i = Inr (n, d))"
  unfolding ensure_name_and_type_def [abs_def] on_pool_bind
  by (intro interns_bind [OF ensure_utf8_interns] interns_weaken [OF ensure_entry_interns])
    (auto simp: cp_name_and_type_Inr)

lemma ensure_indirect_interns [intern_rules]:
  "cp_interns P (on_pool (ensure_string s)) (\<lambda>cp i. denotes cp i (StringKey s))"
  "cp_interns P (on_pool (ensure_method_type s)) (\<lambda>cp i. denotes cp i (MethodTypeKey s))"
  unfolding ensure_string_def [abs_def] ensure_method_type_def [abs_def] on_pool_bind
  by (intro interns_bind [OF ensure_utf8_interns] interns_weaken [OF ensure_entry_interns]; auto)+

lemma ensure_member_interns [intern_rules]:
  "cp_interns P (on_pool (ensure_field_ref c n d)) (\<lambda>cp i. cp_field_ref cp i = Inr (c, n, d))"
  "cp_interns P (on_pool (ensure_method_ref c n d)) (\<lambda>cp i. cp_method_ref cp i = Inr ((c, n, d), False))"
  "cp_interns P (on_pool (ensure_interface_method_ref c n d)) (\<lambda>cp i. cp_method_ref cp i = Inr ((c, n, d), True))"
  unfolding ensure_field_ref_def ensure_method_ref_def ensure_interface_method_ref_def
    ensure_member_def [abs_def] on_pool_bind
  by (intro interns_bind [OF ensure_class_interns] interns_bind [OF ensure_name_and_type_interns]
      interns_weaken [OF ensure_entry_interns];
      auto simp: cp_field_ref_Inr cp_method_ref_Inr cp_member_Inr)+

lemma ensure_method_handle_interns [intern_rules]:
  "cp_interns P (on_pool (ensure_method_handle h)) (\<lambda>cp i. denotes cp i (handle_key h))"
  unfolding ensure_method_handle_def [abs_def] on_pool_bind handle_key_def
  by (rule interns_bind [where Q = "\<lambda>cp j. \<exists>itf. cp_member_ref cp j = Some
        (handle_owner h, handle_name h, handle_descriptor h, itf)"])
    (auto simp: cp_member_ref_Some intro!: interns_weaken [OF ensure_entry_interns]
      interns_weaken [OF ensure_member_interns(1)]
      interns_weaken [OF ensure_member_interns(2)] interns_weaken [OF ensure_member_interns(3)])

lemma ensure_invoke_dynamic_interns [intern_rules]:
  "cp_interns P (on_pool (ensure_invoke_dynamic bsm n d)) (\<lambda>cp i. denotes cp i (InvokeDynamicKey bsm n d))"
  unfolding ensure_invoke_dynamic_def [abs_def] on_pool_bind
  by (intro interns_bind [OF ensure_name_and_type_interns] interns_weaken [OF ensure_entry_interns]) auto

fun ensure_key :: "pool_key \<Rightarrow> cp_info list \<Rightarrow> u16 \<times> cp_info list" where
  "ensure_key (Utf8Key s) = ensure_utf8 s"
| "ensure_key (ClassKey n) = ensure_class n"
| "ensure_key (ModuleKey n) = ensure_module n"
| "ensure_key (PackageKey n) = ensure_package n"
| "ensure_key (StringKey s) = ensure_string s"
| "ensure_key (NameAndTypeKey n d) = ensure_name_and_type n d"
| "ensure_key (FieldRefKey c n d) = ensure_field_ref c n d"
| "ensure_key (MethodRefKey c n d) = ensure_method_ref c n d"
| "ensure_key (InterfaceMethodRefKey c n d) = ensure_interface_method_ref c n d"
| "ensure_key (MethodTypeKey d) = ensure_method_type d"
| "ensure_key (MethodHandleKey kind c n d itf) = ensure_method_handle (handle_of kind c n d itf)"
| "ensure_key (InvokeDynamicKey bsm n d) = ensure_invoke_dynamic bsm n d"

interpretation bare: interner "\<lambda>cp. cp" "\<lambda>_. True" "\<lambda>k. on_pool (ensure_key k)" denotes
proof
  fix k P
  have handle: "cp_interns P (on_pool (ensure_method_handle (handle_of kind c n d itf)))
      (\<lambda>cp i. denotes cp i (MethodHandleKey kind c n d itf))" for kind c n d itf
    using ensure_method_handle_interns [of P "handle_of kind c n d itf"]
    by (simp add: handle_key_def handle_of_def)
  show "cp_interns P (on_pool (ensure_key k)) (\<lambda>cp i. denotes cp i k)"
    using ensure_text_interns ensure_indirect_interns ensure_invoke_dynamic_interns handle
    by (cases k) (simp_all add: ensure_utf8_interns ensure_class_interns ensure_name_and_type_interns
        ensure_member_interns)
qed

end
