(* ===== verification/Attributes.thy ===== *)
theory Attributes imports Bytecode begin

text \<open>
  The bodies of class file attributes: their data, how \<^verbatim>\<open>class_reader.rs\<close> reads them and how
  \<^verbatim>\<open>class_writer.rs\<close> writes them. Each reader and its writer form a \<open>codec\<close>, so that the tables
  built from them are read back as they were written.
\<close>

subsection \<open>Tables of indices\<close>

datatype exception_table_entry =
  ExceptionTableEntry (start_pc: u16) (end_pc: u16) (handler_pc: u16) (catch_type: u16)

datatype line_number = LineNumber (line_start: u16) (line_number: u16)

datatype local_variable = LocalVariable u16 u16 u16 u16 u16

datatype inner_class =
  InnerClass (inner_class_info: u16) (outer_class_info: u16) (inner_name: u16) (inner_class_flags: u16)

datatype bootstrap_method = BootstrapMethod (bootstrap_method_ref: u16) (bootstrap_arguments: "u16 list")

datatype method_parameter = MethodParameter u16 u16

definition read_exception_table_entry :: "exception_table_entry rd" where
  "read_exception_table_entry =
     do { a \<leftarrow> read_u2; b \<leftarrow> read_u2; c \<leftarrow> read_u2; d \<leftarrow> read_u2; ret (ExceptionTableEntry a b c d) }"

definition read_line_number :: "line_number rd" where
  "read_line_number = do { a \<leftarrow> read_u2; b \<leftarrow> read_u2; ret (LineNumber a b) }"

definition read_local_variable :: "local_variable rd" where
  "read_local_variable =
     do { a \<leftarrow> read_u2; b \<leftarrow> read_u2; c \<leftarrow> read_u2; d \<leftarrow> read_u2; e \<leftarrow> read_u2;
          ret (LocalVariable a b c d e) }"

definition read_inner_class :: "inner_class rd" where
  "read_inner_class =
     do { a \<leftarrow> read_u2; b \<leftarrow> read_u2; c \<leftarrow> read_u2; d \<leftarrow> read_u2; ret (InnerClass a b c d) }"

definition read_bootstrap_method :: "bootstrap_method rd" where
  "read_bootstrap_method =
     do { a \<leftarrow> read_u2; args \<leftarrow> read_table read_u2; ret (BootstrapMethod a args) }"

definition read_method_parameter :: "method_parameter rd" where
  "read_method_parameter = do { a \<leftarrow> read_u2; b \<leftarrow> read_u2; ret (MethodParameter a b) }"

fun write_exception_table_entry :: "exception_table_entry \<Rightarrow> u8 list" where
  "write_exception_table_entry (ExceptionTableEntry a b c d) =
     write_u2 a @ write_u2 b @ write_u2 c @ write_u2 d"

fun write_line_number :: "line_number \<Rightarrow> u8 list" where
  "write_line_number (LineNumber a b) = write_u2 a @ write_u2 b"

fun write_local_variable :: "local_variable \<Rightarrow> u8 list" where
  "write_local_variable (LocalVariable a b c d e) =
     write_u2 a @ write_u2 b @ write_u2 c @ write_u2 d @ write_u2 e"

fun write_inner_class :: "inner_class \<Rightarrow> u8 list" where
  "write_inner_class (InnerClass a b c d) = write_u2 a @ write_u2 b @ write_u2 c @ write_u2 d"

fun write_bootstrap_method :: "bootstrap_method \<Rightarrow> u8 list" where
  "write_bootstrap_method (BootstrapMethod a args) = write_u2 a @ write_table write_u2 args"

fun write_method_parameter :: "method_parameter \<Rightarrow> u8 list" where
  "write_method_parameter (MethodParameter a b) = write_u2 a @ write_u2 b"

text \<open>A table whose length fits the count in front of it.\<close>

definition short_list :: "'a list \<Rightarrow> bool" where
  "short_list xs \<longleftrightarrow> length xs < 2 ^ 16"

definition tiny_list :: "'a list \<Rightarrow> bool" where
  "tiny_list xs \<longleftrightarrow> length xs < 2 ^ 8"

lemma reads_as_u2_table: "short_list xs \<Longrightarrow> reads_as (read_table read_u2) (write_table write_u2 xs) xs"
  by (rule u2.table) (simp_all add: short_list_def list_all_iff)

lemmas last_u1 = reads_as_last [OF reads_as_u1]
lemmas last_u2 = reads_as_last [OF reads_as_u2]
lemmas bind_u1 = reads_as_bind [OF reads_as_u1]
lemmas bind_u2 = reads_as_bind [OF reads_as_u2]

interpretation exception_table: codec write_exception_table_entry read_exception_table_entry always
  unfolding read_exception_table_entry_def
  by (unfold_locales, case_tac x) (auto intro!: bind_u2 last_u2)

interpretation line_number: codec write_line_number read_line_number always
  unfolding read_line_number_def
  by (unfold_locales, case_tac x) (auto intro!: bind_u2 last_u2)

interpretation local_variable: codec write_local_variable read_local_variable always
  unfolding read_local_variable_def
  by (unfold_locales, case_tac x) (auto intro!: bind_u2 last_u2)

interpretation inner_class: codec write_inner_class read_inner_class always
  unfolding read_inner_class_def
  by (unfold_locales, case_tac x) (auto intro!: bind_u2 last_u2)

interpretation method_parameter: codec write_method_parameter read_method_parameter always
  unfolding read_method_parameter_def
  by (unfold_locales, case_tac x) (auto intro!: bind_u2 last_u2)

interpretation bootstrap_method: codec write_bootstrap_method read_bootstrap_method
    "\<lambda>m. short_list (bootstrap_arguments m)"
  unfolding read_bootstrap_method_def
  by (unfold_locales, case_tac x) (auto intro!: bind_u2 reads_as_last [OF reads_as_u2_table])

subsection \<open>Stack map frames\<close>

datatype verification_type_info =
    VTop
  | VInteger
  | VFloat
  | VLong
  | VDouble
  | VNull
  | VUninitializedThis
  | VObject u16
  | VUninitialized u16

datatype stack_map_frame =
    SameFrame u16
  | SameLocals1StackItemFrame u16 verification_type_info
  | SameLocals1StackItemFrameExtended u16 verification_type_info
  | ChopFrame u16 u8
  | SameFrameExtended u16
  | AppendFrame u16 "verification_type_info list"
  | FullFrame u16 "verification_type_info list" "verification_type_info list"

definition invalid_attribute :: "string \<Rightarrow> 'a rd" where
  "invalid_attribute name = read_fail (ReadError (InvalidAttribute (text_of name)))"

definition parse_verification_type :: "verification_type_info rd" where
  "parse_verification_type =
     do { tag \<leftarrow> read_u1;
          if tag = 0 then ret VTop
          else if tag = 1 then ret VInteger
          else if tag = 2 then ret VFloat
          else if tag = 3 then ret VDouble
          else if tag = 4 then ret VLong
          else if tag = 5 then ret VNull
          else if tag = 6 then ret VUninitializedThis
          else if tag = 7 then do { i \<leftarrow> read_u2; ret (VObject i) }
          else if tag = 8 then do { offset \<leftarrow> read_u2; ret (VUninitialized offset) }
          else invalid_attribute ''StackMapTable'' }"

definition read_stack_map_frame :: "stack_map_frame rd" where
  "read_stack_map_frame =
     do { frame_type \<leftarrow> read_u1;
          if frame_type \<le> 63 then ret (SameFrame (ucast frame_type))
          else if frame_type \<le> 127 then
            do { stack \<leftarrow> parse_verification_type;
                 ret (SameLocals1StackItemFrame (ucast (frame_type - 64)) stack) }
          else if frame_type = 247 then
            do { offset_delta \<leftarrow> read_u2;
                 stack \<leftarrow> parse_verification_type;
                 ret (SameLocals1StackItemFrameExtended offset_delta stack) }
          else if 248 \<le> frame_type \<and> frame_type \<le> 250 then
            do { offset_delta \<leftarrow> read_u2; ret (ChopFrame offset_delta (251 - frame_type)) }
          else if frame_type = 251 then
            do { offset_delta \<leftarrow> read_u2; ret (SameFrameExtended offset_delta) }
          else if 252 \<le> frame_type \<and> frame_type \<le> 254 then
            do { offset_delta \<leftarrow> read_u2;
                 locals \<leftarrow> read_times (unat (frame_type - 251)) parse_verification_type;
                 ret (AppendFrame offset_delta locals) }
          else if frame_type = 255 then
            do { offset_delta \<leftarrow> read_u2;
                 locals \<leftarrow> read_table parse_verification_type;
                 stack \<leftarrow> read_table parse_verification_type;
                 ret (FullFrame offset_delta locals stack) }
          else invalid_attribute ''StackMapTable'' }"

fun write_verification_type :: "verification_type_info \<Rightarrow> u8 list" where
  "write_verification_type VTop = write_u1 0"
| "write_verification_type VInteger = write_u1 1"
| "write_verification_type VFloat = write_u1 2"
| "write_verification_type VDouble = write_u1 3"
| "write_verification_type VLong = write_u1 4"
| "write_verification_type VNull = write_u1 5"
| "write_verification_type VUninitializedThis = write_u1 6"
| "write_verification_type (VObject i) = write_u1 7 @ write_u2 i"
| "write_verification_type (VUninitialized offset) = write_u1 8 @ write_u2 offset"

fun write_stack_map_frame :: "stack_map_frame \<Rightarrow> u8 list" where
  "write_stack_map_frame (SameFrame offset_delta) = write_u1 (ucast offset_delta)"
| "write_stack_map_frame (SameLocals1StackItemFrame offset_delta stack) =
     write_u1 (ucast offset_delta + 64) @ write_verification_type stack"
| "write_stack_map_frame (SameLocals1StackItemFrameExtended offset_delta stack) =
     write_u1 247 @ write_u2 offset_delta @ write_verification_type stack"
| "write_stack_map_frame (ChopFrame offset_delta k) = write_u1 (251 - k) @ write_u2 offset_delta"
| "write_stack_map_frame (SameFrameExtended offset_delta) = write_u1 251 @ write_u2 offset_delta"
| "write_stack_map_frame (AppendFrame offset_delta locals) =
     write_u1 (251 + word_of_nat (length locals)) @ write_u2 offset_delta @
     concat (map write_verification_type locals)"
| "write_stack_map_frame (FullFrame offset_delta locals stack) =
     write_u1 255 @ write_u2 offset_delta @
     write_table write_verification_type locals @ write_table write_verification_type stack"

fun frame_fits :: "stack_map_frame \<Rightarrow> bool" where
  "frame_fits (SameFrame offset_delta) = (offset_delta \<le> 63)"
| "frame_fits (SameLocals1StackItemFrame offset_delta _) = (offset_delta \<le> 63)"
| "frame_fits (ChopFrame _ k) = (1 \<le> k \<and> k \<le> 3)"
| "frame_fits (AppendFrame _ locals) = (1 \<le> length locals \<and> length locals \<le> 3)"
| "frame_fits (FullFrame _ locals stack) = (short_list locals \<and> short_list stack)"
| "frame_fits _ = True"

interpretation verification_type: codec write_verification_type parse_verification_type always
proof
  fix x :: verification_type_info
  show "reads_as parse_verification_type (write_verification_type x) x"
    unfolding parse_verification_type_def
    by (cases x) (auto intro!: bind_u1 last_u1 last_u2)
qed

lemma byte_fits:
  fixes d :: u16
  assumes "d \<le> 63"
  shows "ucast (ucast d :: u8) = d" and "unat (ucast d :: u8) = unat d" and "unat d \<le> 63"
proof -
  show d: "unat d \<le> 63" using assms by (simp add: word_le_nat_alt)
  thus u: "unat (ucast d :: u8) = unat d" by (simp add: unsigned_ucast_eq take_bit_eq_mod)
  show "ucast (ucast d :: u8) = d" using d by (simp only: word_unat_eq_iff unsigned_ucast_eq [of "ucast d :: u8"] u) (simp add: take_bit_eq_mod)
qed

interpretation stack_map_frame: codec write_stack_map_frame read_stack_map_frame frame_fits
proof
  fix x
  assume fits: "frame_fits x"
  show "reads_as read_stack_map_frame (write_stack_map_frame x) x"
  proof (cases x)
    case (SameFrame d)
    have d: "d \<le> 63" using fits SameFrame by simp
    show ?thesis unfolding read_stack_map_frame_def SameFrame
      using byte_fits [OF d] by (auto simp: word_le_nat_alt intro!: last_u1)
  next
    case (SameLocals1StackItemFrame d stack)
    have d: "d \<le> 63" using fits SameLocals1StackItemFrame by simp
    have "unat (ucast d + 64 :: u8) = unat d + 64"
      using byte_fits [OF d] by (simp add: unat_word_ariths)
    thus ?thesis unfolding read_stack_map_frame_def SameLocals1StackItemFrame
      using byte_fits [OF d]
      by (auto simp: word_le_nat_alt intro!: bind_u1 reads_as_last [OF verification_type.entry])
  next
    case (SameLocals1StackItemFrameExtended d stack)
    show ?thesis unfolding read_stack_map_frame_def SameLocals1StackItemFrameExtended
      by (auto intro!: bind_u1 bind_u2 reads_as_last [OF verification_type.entry])
  next
    case (ChopFrame d k)
    hence "unat k = 1 \<or> unat k = 2 \<or> unat k = 3" using fits by (auto simp: word_le_nat_alt)
    hence "k = 1 \<or> k = 2 \<or> k = 3" by (simp add: word_unat_eq_iff)
    thus ?thesis unfolding read_stack_map_frame_def ChopFrame by (auto intro!: bind_u1 last_u2)
  next
    case (SameFrameExtended d)
    show ?thesis unfolding read_stack_map_frame_def SameFrameExtended
      by (auto intro!: bind_u1 last_u2)
  next
    case (AppendFrame d locals)
    have times: "reads_as (read_times (length locals) parse_verification_type)
        (concat (map write_verification_type locals)) locals"
      by (rule verification_type.times) (simp add: list_all_iff)
    have "reads_as (do { locals \<leftarrow> read_times (length locals) parse_verification_type; ret (AppendFrame d locals) })
        (concat (map write_verification_type locals)) (AppendFrame d locals)"
      by (rule reads_as_last [OF times]) simp
    moreover have "length locals = 1 \<or> length locals = 2 \<or> length locals = 3" using fits AppendFrame by auto
    ultimately show ?thesis unfolding read_stack_map_frame_def AppendFrame
      by (auto intro!: bind_u1 bind_u2)
  next
    case (FullFrame d locals stack)
    show ?thesis unfolding read_stack_map_frame_def FullFrame
      using fits FullFrame by (auto simp: short_list_def list_all_iff intro!: bind_u1 bind_u2
          reads_as_bind [OF verification_type.table] reads_as_last [OF verification_type.table])
  qed
qed

subsection \<open>Modules\<close>

datatype module_require = ModuleRequire (requires_index: u16) (requires_flags: u16) (requires_version_index: u16)

text \<open>\<^verbatim>\<open>ModuleExport\<close> and \<^verbatim>\<open>ModuleOpen\<close>\<close>

datatype module_export = ModuleExport (exports_index: u16) (exports_flags: u16) (exports_to_index: "u16 list")

datatype module_open = ModuleOpen (opens_index: u16) (opens_flags: u16) (opens_to_index: "u16 list")

datatype module_provide = ModuleProvide (provides_index: u16) (provides_with_index: "u16 list")

datatype module_attribute =
  ModuleAttribute (module_name_index: u16) (module_flags: u16) (module_version_index: u16)
    (module_requires: "module_require list") (module_exports: "module_export list") (module_opens: "module_open list")
    (module_uses: "u16 list") (module_provides: "module_provide list")

definition read_module_require :: "module_require rd" where
  "read_module_require = do { a \<leftarrow> read_u2; b \<leftarrow> read_u2; c \<leftarrow> read_u2; ret (ModuleRequire a b c) }"

definition read_module_export :: "module_export rd" where
  "read_module_export =
     do { a \<leftarrow> read_u2; b \<leftarrow> read_u2; to \<leftarrow> read_table read_u2; ret (ModuleExport a b to) }"

definition read_module_open :: "module_open rd" where
  "read_module_open =
     do { a \<leftarrow> read_u2; b \<leftarrow> read_u2; to \<leftarrow> read_table read_u2; ret (ModuleOpen a b to) }"

definition read_module_provide :: "module_provide rd" where
  "read_module_provide = do { a \<leftarrow> read_u2; pw \<leftarrow> read_table read_u2; ret (ModuleProvide a pw) }"

definition parse_module_attribute :: "module_attribute rd" where
  "parse_module_attribute =
     do { name \<leftarrow> read_u2;
          flags \<leftarrow> read_u2;
          version \<leftarrow> read_u2;
          rs \<leftarrow> read_table read_module_require;
          es \<leftarrow> read_table read_module_export;
          os \<leftarrow> read_table read_module_open;
          us \<leftarrow> read_table read_u2;
          ps \<leftarrow> read_table read_module_provide;
          ret (ModuleAttribute name flags version rs es os us ps) }"

fun write_module_require :: "module_require \<Rightarrow> u8 list" where
  "write_module_require (ModuleRequire a b c) = write_u2 a @ write_u2 b @ write_u2 c"

fun write_module_export :: "module_export \<Rightarrow> u8 list" where
  "write_module_export (ModuleExport a b to) = write_u2 a @ write_u2 b @ write_table write_u2 to"

fun write_module_open :: "module_open \<Rightarrow> u8 list" where
  "write_module_open (ModuleOpen a b to) = write_u2 a @ write_u2 b @ write_table write_u2 to"

fun write_module_provide :: "module_provide \<Rightarrow> u8 list" where
  "write_module_provide (ModuleProvide a pw) = write_u2 a @ write_table write_u2 pw"

fun write_module_attribute :: "module_attribute \<Rightarrow> u8 list" where
  "write_module_attribute (ModuleAttribute name flags version rs es os us ps) =
     write_u2 name @ write_u2 flags @ write_u2 version @
     write_table write_module_require rs @ write_table write_module_export es @
     write_table write_module_open os @ write_table write_u2 us @ write_table write_module_provide ps"

definition module_fits :: "module_attribute \<Rightarrow> bool" where
  "module_fits m \<longleftrightarrow>
     short_list (module_requires m) \<and>
     short_list (module_exports m) \<and> list_all (\<lambda>e. short_list (exports_to_index e)) (module_exports m) \<and>
     short_list (module_opens m) \<and> list_all (\<lambda>e. short_list (opens_to_index e)) (module_opens m) \<and>
     short_list (module_uses m) \<and>
     short_list (module_provides m) \<and> list_all (\<lambda>e. short_list (provides_with_index e)) (module_provides m)"

interpretation module_require: codec write_module_require read_module_require always
  unfolding read_module_require_def
  by (unfold_locales, case_tac x) (auto intro!: bind_u2 last_u2)

interpretation module_export: codec write_module_export read_module_export
    "\<lambda>e. short_list (exports_to_index e)"
  unfolding read_module_export_def
  by (unfold_locales, case_tac x) (auto intro!: bind_u2 reads_as_last [OF reads_as_u2_table])

interpretation module_open: codec write_module_open read_module_open
    "\<lambda>e. short_list (opens_to_index e)"
  unfolding read_module_open_def
  by (unfold_locales, case_tac x) (auto intro!: bind_u2 reads_as_last [OF reads_as_u2_table])

interpretation module_provide: codec write_module_provide read_module_provide
    "\<lambda>e. short_list (provides_with_index e)"
  unfolding read_module_provide_def
  by (unfold_locales, case_tac x) (auto intro!: bind_u2 reads_as_last [OF reads_as_u2_table])

interpretation module_attribute: codec write_module_attribute parse_module_attribute module_fits
proof
  fix m assume "module_fits m"
  thus "reads_as parse_module_attribute (write_module_attribute m) m"
    unfolding parse_module_attribute_def
    by (cases m) (auto simp: module_fits_def short_list_def list_all_iff intro!: bind_u2
        reads_as_bind [OF module_require.table] reads_as_bind [OF module_export.table]
        reads_as_bind [OF module_open.table] reads_as_bind [OF u2.table]
        reads_as_last [OF module_provide.table])
qed

subsection \<open>Annotations\<close>

datatype elem_value =
    ConstValueIndex u8 u16
  | EnumConstValue u16 u16
  | ClassInfoIndex u16
  | AnnotationValue annotation
  | ArrayValue "elem_value list"
and annotation =
    Annotation (type_descriptor_index: u16) (element_value_pairs: "(u16 \<times> elem_value) list")

definition read_element_pair :: "elem_value rd \<Rightarrow> (u16 \<times> elem_value) rd" where
  "read_element_pair value = do { name \<leftarrow> read_u2; v \<leftarrow> value; ret (name, v) }"

definition read_annotation :: "elem_value rd \<Rightarrow> annotation rd" where
  "read_annotation value =
     do { i \<leftarrow> read_u2; pairs \<leftarrow> read_table (read_element_pair value); ret (Annotation i pairs) }"

text \<open>The tags of the constants are \<^verbatim>\<open>B C D F I J S Z s\<close>; then come \<^verbatim>\<open>e\<close>, \<^verbatim>\<open>c\<close>, \<^verbatim>\<open>@\<close> and \<^verbatim>\<open>[\<close>.\<close>

definition const_tag :: "u8 \<Rightarrow> bool" where
  "const_tag tag \<longleftrightarrow>
     tag = 66 \<or> tag = 67 \<or> tag = 68 \<or> tag = 70 \<or> tag = 73 \<or> tag = 74 \<or> tag = 83 \<or> tag = 90 \<or> tag = 115"

text \<open>The fuel bounds the depth of the value.\<close>

primrec parse_element_value :: "nat \<Rightarrow> elem_value rd" where
  "parse_element_value 0 = read_fail ReadOutOfFuel"
| "parse_element_value (Suc n) =
     do { tag \<leftarrow> read_u1;
          if const_tag tag then do { i \<leftarrow> read_u2; ret (ConstValueIndex tag i) }
          else if tag = 101 then do { i \<leftarrow> read_u2; j \<leftarrow> read_u2; ret (EnumConstValue i j) }
          else if tag = 99 then do { i \<leftarrow> read_u2; ret (ClassInfoIndex i) }
          else if tag = 64 then
            do { a \<leftarrow> read_annotation (parse_element_value n); ret (AnnotationValue a) }
          else if tag = 91 then
            do { items \<leftarrow> read_table (parse_element_value n); ret (ArrayValue items) }
          else invalid_attribute ''AnnotationElementValue'' }"

definition parse_annotation :: "nat \<Rightarrow> annotation rd" where
  "parse_annotation n = read_annotation (parse_element_value n)"

definition parse_annotations :: "nat \<Rightarrow> annotation list rd" where
  "parse_annotations n = read_table (parse_annotation n)"

definition parse_parameter_annotations :: "nat \<Rightarrow> annotation list list rd" where
  "parse_parameter_annotations n = read_table1 (read_table (parse_annotation n))"

lemma write_table_cong [fundef_cong]:
  "xs = ys \<Longrightarrow> (\<And>x. x \<in> set ys \<Longrightarrow> f x = g x) \<Longrightarrow> write_table f xs = write_table g ys"
  by (simp add: write_table_def cong: map_cong)

fun write_element_value :: "elem_value \<Rightarrow> u8 list"
and write_annotation :: "annotation \<Rightarrow> u8 list" where
  "write_element_value (ConstValueIndex tag i) = write_u1 tag @ write_u2 i"
| "write_element_value (EnumConstValue i j) = write_u1 101 @ write_u2 i @ write_u2 j"
| "write_element_value (ClassInfoIndex i) = write_u1 99 @ write_u2 i"
| "write_element_value (AnnotationValue a) = write_u1 64 @ write_annotation a"
| "write_element_value (ArrayValue items) = write_u1 91 @ write_table write_element_value items"
| "write_annotation (Annotation i pairs) =
     write_u2 i @ write_table (\<lambda>p. write_u2 (fst p) @ write_element_value (snd p)) pairs"

definition write_runtime_annotations :: "annotation list \<Rightarrow> u8 list" where
  "write_runtime_annotations = write_table write_annotation"

definition write_runtime_parameter_annotations :: "annotation list list \<Rightarrow> u8 list" where
  "write_runtime_parameter_annotations = write_table1 (write_table write_annotation)"

fun value_ok :: "elem_value \<Rightarrow> bool"
and annotation_ok :: "annotation \<Rightarrow> bool" where
  "value_ok (ConstValueIndex tag i) = const_tag tag"
| "value_ok (EnumConstValue i j) = True"
| "value_ok (ClassInfoIndex i) = True"
| "value_ok (AnnotationValue a) = annotation_ok a"
| "value_ok (ArrayValue items) = (short_list items \<and> list_all value_ok items)"
| "annotation_ok (Annotation i pairs) = (short_list pairs \<and> list_all (\<lambda>p. value_ok (snd p)) pairs)"

lemma length_write_u1 [simp]: "length (write_u1 v) = 1"
  by (simp add: write_u1_def)

lemma length_write_u2 [simp]: "length (write_u2 v) = 2"
  by (simp add: write_u2_def)

lemma length_write_u4 [simp]: "length (write_u4 v) = 4"
  by (simp add: write_u4_def)

lemma length_table_member: "x \<in> set xs \<Longrightarrow> length (enc x) \<le> length (write_table enc xs)"
proof -
  assume "x \<in> set xs"
  then obtain ys zs where "xs = ys @ x # zs" by (meson split_list)
  thus ?thesis by (simp add: write_table_def)
qed

lemma codec_table:
  assumes "\<And>x. ok x \<Longrightarrow> reads_as dec (enc x) x" and "short_list xs" and "\<And>x. x \<in> set xs \<Longrightarrow> ok x"
  shows "reads_as (read_table dec) (write_table enc xs) xs"
proof -
  have "codec enc dec ok" by unfold_locales (rule assms)
  thus ?thesis by (rule codec.table) (use assms in \<open>auto simp: short_list_def list_all_iff\<close>)
qed

lemma codec_table1:
  assumes "\<And>x. ok x \<Longrightarrow> reads_as dec (enc x) x" and "tiny_list xs" and "\<And>x. x \<in> set xs \<Longrightarrow> ok x"
  shows "reads_as (read_table1 dec) (write_table1 enc xs) xs"
proof -
  have "codec enc dec ok" by unfold_locales (rule assms)
  thus ?thesis by (rule codec.table1) (use assms in \<open>auto simp: tiny_list_def list_all_iff\<close>)
qed

definition value_fits :: "nat \<Rightarrow> elem_value \<Rightarrow> bool" where
  "value_fits n v \<longleftrightarrow> value_ok v \<and> length (write_element_value v) \<le> n"

definition annotation_fits :: "nat \<Rightarrow> annotation \<Rightarrow> bool" where
  "annotation_fits n a \<longleftrightarrow> annotation_ok a \<and> length (write_annotation a) \<le> n"

lemma reads_as_annotation_with:
  assumes v: "\<And>v. value_fits n v \<Longrightarrow> reads_as value (write_element_value v) v" and a: "annotation_fits n a"
  shows "reads_as (read_annotation value) (write_annotation a) a"
proof (cases a)
  case (Annotation i pairs)
  let ?enc = "\<lambda>p. write_u2 (fst p) @ write_element_value (snd p)"
  have "reads_as (read_element_pair value) (?enc p) p" if "value_fits n (snd p)" for p
    unfolding read_element_pair_def
    by (rule bind_u2) (use reads_as_last [OF v [OF that], of "\<lambda>v. ret (fst p, v)" p] in simp)
  moreover have "value_fits n (snd p)" if "p \<in> set pairs" for p
    using a Annotation that length_table_member [OF that, of ?enc]
    by (auto simp: annotation_fits_def value_fits_def list_all_iff)
  moreover have "short_list pairs" using a Annotation by (simp add: annotation_fits_def)
  ultimately have "reads_as (read_table (read_element_pair value)) (write_table ?enc pairs) pairs"
    by (intro codec_table [where ok = "\<lambda>p. value_fits n (snd p)"])
  thus ?thesis unfolding read_annotation_def Annotation write_annotation.simps
    by (intro bind_u2 reads_as_last) simp_all
qed

lemma reads_as_value: "value_fits n v \<Longrightarrow> reads_as (parse_element_value (Suc n)) (write_element_value v) v"
proof (induction n arbitrary: v)
  case 0
  thus ?case by (cases v) (simp_all add: value_fits_def)
next
  case (Suc n)
  show ?case
  proof (cases v)
    case (AnnotationValue a)
    hence "annotation_fits n a" using Suc.prems by (simp add: value_fits_def annotation_fits_def)
    from reads_as_annotation_with [OF Suc.IH this] show ?thesis
      by (subst parse_element_value.simps)
        (auto simp: AnnotationValue const_tag_def intro!: bind_u1 reads_as_last)
  next
    case (ArrayValue items)
    have "value_fits n x" if "x \<in> set items" for x
      using Suc.prems ArrayValue that length_table_member [OF that, of write_element_value]
      by (auto simp: value_fits_def list_all_iff)
    moreover have "short_list items" using Suc.prems ArrayValue by (simp add: value_fits_def)
    ultimately have "reads_as (read_table (parse_element_value (Suc n))) (write_table write_element_value items) items"
      by (intro codec_table [where ok = "value_fits n"] Suc.IH)
    thus ?thesis
      by (subst parse_element_value.simps)
        (auto simp: ArrayValue const_tag_def simp del: parse_element_value.simps intro!: bind_u1 reads_as_last)
  qed (use Suc.prems in \<open>auto simp: value_fits_def const_tag_def intro!: bind_u1 bind_u2 last_u2\<close>)
qed

lemma reads_as_annotation: "annotation_fits n a \<Longrightarrow> reads_as (parse_annotation (Suc n)) (write_annotation a) a"
  unfolding parse_annotation_def using reads_as_annotation_with reads_as_value by blast

lemma reads_as_annotations:
  assumes "short_list as" and "list_all (annotation_fits n) as"
  shows "reads_as (parse_annotations (Suc n)) (write_runtime_annotations as) as"
  unfolding parse_annotations_def write_runtime_annotations_def
  using assms by (intro codec_table [where ok = "annotation_fits n"] reads_as_annotation) (auto simp: list_all_iff)

lemma reads_as_parameter_annotations:
  assumes "tiny_list ps" and "list_all (\<lambda>as. short_list as \<and> list_all (annotation_fits n) as) ps"
  shows "reads_as (parse_parameter_annotations (Suc n)) (write_runtime_parameter_annotations ps) ps"
proof -
  have "reads_as (read_table (parse_annotation (Suc n))) (write_table write_annotation as) as"
    if "short_list as \<and> list_all (annotation_fits n) as" for as
    using reads_as_annotations [of as n] that by (simp add: parse_annotations_def write_runtime_annotations_def)
  thus ?thesis unfolding parse_parameter_annotations_def write_runtime_parameter_annotations_def
    using assms
    by (intro codec_table1 [where ok = "\<lambda>as. short_list as \<and> list_all (annotation_fits n) as"]) (auto simp: list_all_iff)
qed

subsection \<open>Type annotations\<close>

datatype type_annotation_target_info =
    TypeParameter u8
  | Supertype u16
  | TypeParameterBound u8 u8
  | EmptyTarget
  | FormalParameter u8
  | Throws u16
  | LocalVar "(u16 \<times> u16 \<times> u16) list"
  | CatchTarget u16
  | OffsetTarget u16
  | TypeArgument u16 u8

datatype type_annotation =
  TypeAnnotation (target_type: u8) (target_info: type_annotation_target_info)
    (target_path: "(u8 \<times> u8) list") (type_annotation: annotation)

text \<open>
  The target types (\<^verbatim>\<open>TA_TARGET_*\<close> of \<^verbatim>\<open>constants.rs\<close>), by the shape of their target information.
\<close>

definition target_shapes :: "(string \<times> u8 list) list" where
  "target_shapes =
     [(''type_parameter'', [0x00, 0x01]),
      (''supertype'', [0x10]),
      (''bound'', [0x11, 0x12]),
      (''empty'', [0x13, 0x14, 0x15]),
      (''formal_parameter'', [0x16]),
      (''throws'', [0x17]),
      (''localvar'', [0x40, 0x41]),
      (''catch'', [0x42]),
      (''offset'', [0x43, 0x44, 0x45, 0x46]),
      (''type_argument'', [0x47, 0x48, 0x49, 0x4A, 0x4B])]"

definition has_shape :: "u8 \<Rightarrow> string \<Rightarrow> bool" where
  "has_shape target shape \<longleftrightarrow> (\<exists>p \<in> set target_shapes. fst p = shape \<and> target \<in> set (snd p))"

definition read_localvar_entry :: "(u16 \<times> u16 \<times> u16) rd" where
  "read_localvar_entry = do { a \<leftarrow> read_u2; b \<leftarrow> read_u2; c \<leftarrow> read_u2; ret (a, b, c) }"

text \<open>The message of the error ends with the target type in hexadecimal, which is left out.\<close>

definition parse_type_annotation_target_info :: "u8 \<Rightarrow> type_annotation_target_info rd" where
  "parse_type_annotation_target_info target =
     (if has_shape target ''type_parameter'' then do { i \<leftarrow> read_u1; ret (TypeParameter i) }
      else if has_shape target ''supertype'' then do { i \<leftarrow> read_u2; ret (Supertype i) }
      else if has_shape target ''bound'' then
        do { i \<leftarrow> read_u1; j \<leftarrow> read_u1; ret (TypeParameterBound i j) }
      else if has_shape target ''empty'' then ret EmptyTarget
      else if has_shape target ''formal_parameter'' then do { i \<leftarrow> read_u1; ret (FormalParameter i) }
      else if has_shape target ''throws'' then do { i \<leftarrow> read_u2; ret (Throws i) }
      else if has_shape target ''localvar'' then
        do { table \<leftarrow> read_table read_localvar_entry; ret (LocalVar table) }
      else if has_shape target ''catch'' then do { i \<leftarrow> read_u2; ret (CatchTarget i) }
      else if has_shape target ''offset'' then do { i \<leftarrow> read_u2; ret (OffsetTarget i) }
      else if has_shape target ''type_argument'' then
        do { i \<leftarrow> read_u2; j \<leftarrow> read_u1; ret (TypeArgument i j) }
      else invalid_attribute ''TypeAnnotationTargetInfo'')"

definition read_path_entry :: "(u8 \<times> u8) rd" where
  "read_path_entry = do { a \<leftarrow> read_u1; b \<leftarrow> read_u1; ret (a, b) }"

definition parse_type_path :: "(u8 \<times> u8) list rd" where
  "parse_type_path = read_table1 read_path_entry"

definition parse_type_annotation :: "nat \<Rightarrow> type_annotation rd" where
  "parse_type_annotation n =
     do { target \<leftarrow> read_u1;
          info \<leftarrow> parse_type_annotation_target_info target;
          path \<leftarrow> parse_type_path;
          annotation \<leftarrow> parse_annotation n;
          ret (TypeAnnotation target info path annotation) }"

definition parse_type_annotations :: "nat \<Rightarrow> type_annotation list rd" where
  "parse_type_annotations n = read_table (parse_type_annotation n)"

fun write_localvar_entry :: "u16 \<times> u16 \<times> u16 \<Rightarrow> u8 list" where
  "write_localvar_entry (a, b, c) = write_u2 a @ write_u2 b @ write_u2 c"

fun write_type_annotation_target_info :: "type_annotation_target_info \<Rightarrow> u8 list" where
  "write_type_annotation_target_info (TypeParameter i) = write_u1 i"
| "write_type_annotation_target_info (Supertype i) = write_u2 i"
| "write_type_annotation_target_info (TypeParameterBound i j) = write_u1 i @ write_u1 j"
| "write_type_annotation_target_info EmptyTarget = []"
| "write_type_annotation_target_info (FormalParameter i) = write_u1 i"
| "write_type_annotation_target_info (Throws i) = write_u2 i"
| "write_type_annotation_target_info (LocalVar table) = write_table write_localvar_entry table"
| "write_type_annotation_target_info (CatchTarget i) = write_u2 i"
| "write_type_annotation_target_info (OffsetTarget i) = write_u2 i"
| "write_type_annotation_target_info (TypeArgument i j) = write_u2 i @ write_u1 j"

fun write_path_entry :: "u8 \<times> u8 \<Rightarrow> u8 list" where
  "write_path_entry (a, b) = write_u1 a @ write_u1 b"

definition write_type_path :: "(u8 \<times> u8) list \<Rightarrow> u8 list" where
  "write_type_path = write_table1 write_path_entry"

fun write_type_annotation :: "type_annotation \<Rightarrow> u8 list" where
  "write_type_annotation (TypeAnnotation target info path annotation) =
     write_u1 target @ write_type_annotation_target_info info @ write_type_path path @
     write_annotation annotation"

definition write_runtime_type_annotations :: "type_annotation list \<Rightarrow> u8 list" where
  "write_runtime_type_annotations = write_table write_type_annotation"

text \<open>The target information has the shape of the target type.\<close>

fun target_fits :: "u8 \<Rightarrow> type_annotation_target_info \<Rightarrow> bool" where
  "target_fits target (TypeParameter _) = has_shape target ''type_parameter''"
| "target_fits target (Supertype _) = has_shape target ''supertype''"
| "target_fits target (TypeParameterBound _ _) = has_shape target ''bound''"
| "target_fits target EmptyTarget = has_shape target ''empty''"
| "target_fits target (FormalParameter _) = has_shape target ''formal_parameter''"
| "target_fits target (Throws _) = has_shape target ''throws''"
| "target_fits target (LocalVar table) = (has_shape target ''localvar'' \<and> short_list table)"
| "target_fits target (CatchTarget _) = has_shape target ''catch''"
| "target_fits target (OffsetTarget _) = has_shape target ''offset''"
| "target_fits target (TypeArgument _ _) = has_shape target ''type_argument''"

definition type_annotation_fits :: "nat \<Rightarrow> type_annotation \<Rightarrow> bool" where
  "type_annotation_fits n a \<longleftrightarrow>
     target_fits (target_type a) (target_info a) \<and> tiny_list (target_path a) \<and>
     annotation_fits n (type_annotation a)"

interpretation localvar_entry: codec write_localvar_entry read_localvar_entry always
  unfolding read_localvar_entry_def
  by (unfold_locales, case_tac x) (auto intro!: bind_u2 last_u2)

interpretation path_entry: codec write_path_entry read_path_entry always
  unfolding read_path_entry_def
  by (unfold_locales, case_tac x) (auto intro!: bind_u1 last_u1)

lemma reads_as_target:
  assumes "target_fits target info"
  shows "reads_as (parse_type_annotation_target_info target) (write_type_annotation_target_info info) info"
proof (cases info)
  case (LocalVar table)
  have "reads_as (read_table read_localvar_entry) (write_table write_localvar_entry table) table"
    using assms LocalVar by (intro localvar_entry.table) (auto simp: short_list_def list_all_iff)
  thus ?thesis using assms LocalVar unfolding parse_type_annotation_target_info_def
    by (auto simp: has_shape_def target_shapes_def intro!: reads_as_last)
qed (use assms in \<open>auto simp: parse_type_annotation_target_info_def has_shape_def target_shapes_def reads_as_ret
    intro!: bind_u1 bind_u2 last_u1 last_u2\<close>)

lemma reads_as_type_annotation:
  assumes "type_annotation_fits n a"
  shows "reads_as (parse_type_annotation (Suc n)) (write_type_annotation a) a"
proof (cases a)
  case (TypeAnnotation target info path annotation)
  have "reads_as parse_type_path (write_type_path path) path"
    unfolding parse_type_path_def write_type_path_def
    using assms TypeAnnotation by (intro path_entry.table1) (auto simp: type_annotation_fits_def tiny_list_def list_all_iff)
  moreover have "target_fits target info" "annotation_fits n annotation"
    using assms TypeAnnotation by (simp_all add: type_annotation_fits_def)
  ultimately show ?thesis unfolding parse_type_annotation_def TypeAnnotation write_type_annotation.simps
    by (intro bind_u1 reads_as_bind [OF reads_as_target] reads_as_bind [where f = parse_type_path]
        reads_as_last [OF reads_as_annotation]) simp_all
qed

lemma reads_as_type_annotations:
  assumes "short_list as" and "list_all (type_annotation_fits n) as"
  shows "reads_as (parse_type_annotations (Suc n)) (write_runtime_type_annotations as) as"
  unfolding parse_type_annotations_def write_runtime_type_annotations_def
  using assms by (intro codec_table [where ok = "type_annotation_fits n"] reads_as_type_annotation) (auto simp: list_all_iff)

end
