(* ===== verification/ClassFile.thy ===== *)
theory ClassFile imports Attributes begin

text \<open>
  Whole class files, as \<^verbatim>\<open>class_reader.rs\<close> reads them: the instruction nodes with their labels, the
  attributes, the members, and the file.

  The numbers of the labels follow the iteration order of a \<^verbatim>\<open>HashSet\<close>, which the standard library
  leaves open. It is the parameter \<open>order\<close>: the order in which the set of the given offsets is
  iterated. \<open>hash_order\<close> is what the library promises of it.
\<close>

subsection \<open>Instruction nodes\<close>

text \<open>A \<^verbatim>\<open>LabelNode\<close> is its number.\<close>

type_synonym label = nat

datatype abstract_insn_node =
    LabelNode label
  | LineNumberNode u16 label
  | InsnNode insn
  | JumpLabelNode u8 label
  | TableSwitchLabelNode u8 label u32 u32 "label list"
  | LookupSwitchLabelNode u8 label "(u32 \<times> label) list"

datatype try_catch_block =
  TryCatchBlock (block_start: label) (block_end: label) (block_handler: label) (block_type: "rust_text option")

text \<open>\<^verbatim>\<open>(instruction.offset as i32 + offset) as u16\<close>\<close>

definition jump_offset :: "u16 \<Rightarrow> u32 \<Rightarrow> u16" where
  "jump_offset at offset = ucast (ucast at + offset :: u32)"

fun insn_targets :: "u16 \<Rightarrow> insn \<Rightarrow> u16 list" where
  "insn_targets at (JumpInsn _ offset) = [jump_offset at offset]"
| "insn_targets at (TableSwitchInsn _ d _ _ offsets) = jump_offset at d # map (jump_offset at) offsets"
| "insn_targets at (LookupSwitchInsn _ d pairs) = jump_offset at d # map (\<lambda>p. jump_offset at (snd p)) pairs"
| "insn_targets at _ = []"

definition label_offsets ::
    "u8 list \<Rightarrow> (u16 \<times> insn) list \<Rightarrow> exception_table_entry list \<Rightarrow> u16 list" where
  "label_offsets code instructions exceptions =
     remdups (
       concat (map (\<lambda>(at, insn). at # insn_targets at insn) instructions) @
       concat (map (\<lambda>e. [start_pc e, end_pc e, handler_pc e]) exceptions) @
       [word_of_nat (length code)])"

definition hash_order :: "(u16 list \<Rightarrow> u16 list) \<Rightarrow> bool" where
  "hash_order order \<longleftrightarrow> (\<forall>xs. distinct xs \<longrightarrow> distinct (order xs) \<and> set (order xs) = set xs)"

text \<open>\<^verbatim>\<open>label_by_offset\<close>: the place of the offset in the iteration.\<close>

definition label_by_offset :: "u16 list \<Rightarrow> u16 \<Rightarrow> label option" where
  "label_by_offset offsets offset = position (\<lambda>x. x = offset) offsets"

definition label_node :: "(u16 \<Rightarrow> label option) \<Rightarrow> u16 \<Rightarrow> abstract_insn_node list" where
  "label_node labels offset = (case labels offset of None \<Rightarrow> [] | Some l \<Rightarrow> [LabelNode l])"

definition missing_label :: "string \<Rightarrow> label option \<Rightarrow> class_read_error + label" where
  "missing_label what l =
     (case l of
        Some l \<Rightarrow> Inr l
      | None \<Rightarrow> Inl (InvalidAttribute (text_of (''missing '' @ what @ '' label''))))"

definition catch_name :: "cp_info list \<Rightarrow> u16 \<Rightarrow> class_read_error + rust_text option" where
  "catch_name cp i = (if i = 0 then Inr None else map_sum id Some (cp_class_name cp i))"

definition try_catch_node ::
    "(u16 \<Rightarrow> label option) \<Rightarrow> cp_info list \<Rightarrow> exception_table_entry \<Rightarrow> class_read_error + try_catch_block" where
  "try_catch_node labels cp e =
     (case missing_label ''start'' (labels (start_pc e)) of
        Inl err \<Rightarrow> Inl err
      | Inr s \<Rightarrow>
     (case missing_label ''end'' (labels (end_pc e)) of
        Inl err \<Rightarrow> Inl err
      | Inr d \<Rightarrow>
     (case missing_label ''handler'' (labels (handler_pc e)) of
        Inl err \<Rightarrow> Inl err
      | Inr h \<Rightarrow> map_sum id (TryCatchBlock s d h) (catch_name cp (catch_type e)))))"

text \<open>\<^verbatim>\<open>?\<close> on a result, and the elements of a list in turn, up to the first error.\<close>

definition try_bind :: "'e + 'a \<Rightarrow> ('a \<Rightarrow> 'e + 'b) \<Rightarrow> 'e + 'b" where
  "try_bind x f = (case x of Inl e \<Rightarrow> Inl e | Inr a \<Rightarrow> f a)"

lemma try_bind_simps [simp]:
  "try_bind (Inl e) f = Inl e"
  "try_bind (Inr a) f = f a"
  by (simp_all add: try_bind_def)

primrec try_map :: "('a \<Rightarrow> 'e + 'b) \<Rightarrow> 'a list \<Rightarrow> 'e + 'b list" where
  "try_map f [] = Inr []"
| "try_map f (x # xs) =
     (case f x of Inl e \<Rightarrow> Inl e | Inr y \<Rightarrow> map_sum id (Cons y) (try_map f xs))"

definition build_insn_nodes ::
    "(u16 list \<Rightarrow> u16 list) \<Rightarrow> u8 list \<Rightarrow> exception_table_entry list \<Rightarrow> cp_info list \<Rightarrow>
     read_stop + abstract_insn_node list \<times> try_catch_block list \<times> (u16 \<Rightarrow> label option)" where
  "build_insn_nodes order code exceptions cp =
     (case parse_code_instructions_with_offsets code of
        Inl e \<Rightarrow> Inl e
      | Inr instructions \<Rightarrow>
          let labels = label_by_offset (order (label_offsets code instructions exceptions));
              nodes = concat (map (\<lambda>(at, insn). label_node labels at @ [InsnNode insn]) instructions) @
                label_node labels (word_of_nat (length code))
          in case try_map (try_catch_node labels cp) exceptions of
               Inl e \<Rightarrow> Inl (ReadError e)
             | Inr blocks \<Rightarrow> Inr (nodes, blocks, labels))"

text \<open>
  The lines go behind the first node of their label; \<^verbatim>\<open>lines_by_label.remove\<close> takes them away from
  the others. \<open>seen\<close> holds the labels that had their turn.
\<close>

definition lines_of_label :: "(u16 \<Rightarrow> label option) \<Rightarrow> line_number list \<Rightarrow> label \<Rightarrow> abstract_insn_node list" where
  "lines_of_label labels entries l =
     map (\<lambda>e. LineNumberNode (line_number e) l) (filter (\<lambda>e. labels (line_start e) = Some l) entries)"

fun attach_lines ::
    "(label \<Rightarrow> abstract_insn_node list) \<Rightarrow> label list \<Rightarrow> abstract_insn_node list \<Rightarrow> abstract_insn_node list" where
  "attach_lines lines seen [] = []"
| "attach_lines lines seen (LabelNode l # nodes) =
     LabelNode l # (if l \<in> set seen then [] else lines l) @ attach_lines lines (l # seen) nodes"
| "attach_lines lines seen (node # nodes) = node # attach_lines lines seen nodes"

definition attach_line_numbers ::
    "abstract_insn_node list \<Rightarrow> line_number list \<Rightarrow> (u16 \<Rightarrow> label option) \<Rightarrow> abstract_insn_node list" where
  "attach_line_numbers nodes entries labels = attach_lines (lines_of_label labels entries) [] nodes"

subsection \<open>Attributes\<close>

datatype attribute_info =
    Code code_attribute
  | ConstantValue u16
  | Exceptions "u16 list"
  | SourceFile u16
  | LineNumberTable "line_number list"
  | LocalVariableTable "local_variable list"
  | Signature u16
  | StackMapTable "stack_map_frame list"
  | Deprecated
  | Synthetic
  | InnerClasses "inner_class list"
  | EnclosingMethod u16 u16
  | ModuleAttr module_attribute
  | ModulePackages "u16 list"
  | ModuleMainClass u16
  | BootstrapMethods "bootstrap_method list"
  | MethodParameters "method_parameter list"
  | RuntimeVisibleAnnotations "annotation list"
  | RuntimeInvisibleAnnotations "annotation list"
  | RuntimeVisibleParameterAnnotations "annotation list list"
  | RuntimeInvisibleParameterAnnotations "annotation list list"
  | RuntimeVisibleTypeAnnotations "type_annotation list"
  | RuntimeInvisibleTypeAnnotations "type_annotation list"
  | PermittedSubclasses "u16 list"
  | Record "record_component list"
  | AnnotationDefault elem_value
  | Unknown rust_text "u8 list"
and code_attribute =
    CodeAttribute (code_max_stack: u16) (code_max_locals: u16) (code_bytes: "u8 list")
      (code_instructions: "insn list") (code_nodes: "abstract_insn_node list")
      (code_exceptions: "exception_table_entry list") (code_blocks: "try_catch_block list")
      (code_attributes: "attribute_info list")
and record_component =
    RecordComponent (component_name: u16) (component_descriptor: u16) (component_attributes: "attribute_info list")

fun line_number_table :: "attribute_info list \<Rightarrow> line_number list option" where
  "line_number_table [] = None"
| "line_number_table (LineNumberTable entries # _) = Some entries"
| "line_number_table (_ # attrs) = line_number_table attrs"

definition with_lines ::
    "attribute_info list \<Rightarrow> (u16 \<Rightarrow> label option) \<Rightarrow> abstract_insn_node list \<Rightarrow> abstract_insn_node list" where
  "with_lines attrs labels nodes =
     (case line_number_table attrs of
        None \<Rightarrow> nodes
      | Some entries \<Rightarrow> attach_line_numbers nodes entries labels)"

text \<open>A result that may also be a panic of the code decoder.\<close>

definition try_read :: "read_stop + 'a \<Rightarrow> 'a rd" where
  "try_read x = (case x of Inl e \<Rightarrow> read_fail e | Inr a \<Rightarrow> ret a)"

text \<open>\<open>nested\<close> reads the attributes of an attribute (\<open>read_attributes\<close> below).\<close>

definition read_code ::
    "(u16 list \<Rightarrow> u16 list) \<Rightarrow> attribute_info list rd \<Rightarrow> cp_info list \<Rightarrow> code_attribute rd" where
  "read_code order nested cp =
     do { max_stack \<leftarrow> read_u2;
          max_locals \<leftarrow> read_u2;
          code_length \<leftarrow> read_u4;
          code \<leftarrow> read_bytes (unat code_length);
          instructions \<leftarrow> try_read (parse_code_instructions code);
          exceptions \<leftarrow> read_table read_exception_table_entry;
          attributes \<leftarrow> nested;
          built \<leftarrow> try_read (build_insn_nodes order code exceptions cp);
          (case built of
             (nodes, blocks, labels) \<Rightarrow>
               ret (CodeAttribute max_stack max_locals code instructions
                 (with_lines attributes labels nodes) exceptions blocks attributes)) }"

definition read_component :: "attribute_info list rd \<Rightarrow> record_component rd" where
  "read_component nested =
     do { a \<leftarrow> read_u2; b \<leftarrow> read_u2; attrs \<leftarrow> nested; ret (RecordComponent a b attrs) }"

definition read_known ::
    "(u16 list \<Rightarrow> u16 list) \<Rightarrow> attribute_info list rd \<Rightarrow> cp_info list \<Rightarrow> nat \<Rightarrow> rust_text \<Rightarrow>
     attribute_info rd option" where
  "read_known order nested cp n name =
     (if name = text_of ''Code'' then Some (do { c \<leftarrow> read_code order nested cp; ret (Code c) })
      else if name = text_of ''ConstantValue'' then Some (do { i \<leftarrow> read_u2; ret (ConstantValue i) })
      else if name = text_of ''Exceptions'' then Some (do { t \<leftarrow> read_table read_u2; ret (Exceptions t) })
      else if name = text_of ''SourceFile'' then Some (do { i \<leftarrow> read_u2; ret (SourceFile i) })
      else if name = text_of ''LineNumberTable'' then
        Some (do { t \<leftarrow> read_table read_line_number; ret (LineNumberTable t) })
      else if name = text_of ''LocalVariableTable'' then
        Some (do { t \<leftarrow> read_table read_local_variable; ret (LocalVariableTable t) })
      else if name = text_of ''Signature'' then Some (do { i \<leftarrow> read_u2; ret (Signature i) })
      else if name = text_of ''StackMapTable'' then
        Some (do { t \<leftarrow> read_table read_stack_map_frame; ret (StackMapTable t) })
      else if name = text_of ''Deprecated'' then Some (ret Deprecated)
      else if name = text_of ''Synthetic'' then Some (ret Synthetic)
      else if name = text_of ''InnerClasses'' then
        Some (do { t \<leftarrow> read_table read_inner_class; ret (InnerClasses t) })
      else if name = text_of ''EnclosingMethod'' then
        Some (do { i \<leftarrow> read_u2; j \<leftarrow> read_u2; ret (EnclosingMethod i j) })
      else if name = text_of ''Module'' then Some (do { m \<leftarrow> parse_module_attribute; ret (ModuleAttr m) })
      else if name = text_of ''ModulePackages'' then
        Some (do { t \<leftarrow> read_table read_u2; ret (ModulePackages t) })
      else if name = text_of ''ModuleMainClass'' then Some (do { i \<leftarrow> read_u2; ret (ModuleMainClass i) })
      else if name = text_of ''BootstrapMethods'' then
        Some (do { t \<leftarrow> read_table read_bootstrap_method; ret (BootstrapMethods t) })
      else if name = text_of ''MethodParameters'' then
        Some (do { t \<leftarrow> read_table1 read_method_parameter; ret (MethodParameters t) })
      else if name = text_of ''RuntimeVisibleAnnotations'' then
        Some (do { t \<leftarrow> parse_annotations n; ret (RuntimeVisibleAnnotations t) })
      else if name = text_of ''RuntimeInvisibleAnnotations'' then
        Some (do { t \<leftarrow> parse_annotations n; ret (RuntimeInvisibleAnnotations t) })
      else if name = text_of ''RuntimeVisibleParameterAnnotations'' then
        Some (do { t \<leftarrow> parse_parameter_annotations n; ret (RuntimeVisibleParameterAnnotations t) })
      else if name = text_of ''RuntimeInvisibleParameterAnnotations'' then
        Some (do { t \<leftarrow> parse_parameter_annotations n; ret (RuntimeInvisibleParameterAnnotations t) })
      else if name = text_of ''RuntimeVisibleTypeAnnotations'' then
        Some (do { t \<leftarrow> parse_type_annotations n; ret (RuntimeVisibleTypeAnnotations t) })
      else if name = text_of ''RuntimeInvisibleTypeAnnotations'' then
        Some (do { t \<leftarrow> parse_type_annotations n; ret (RuntimeInvisibleTypeAnnotations t) })
      else if name = text_of ''PermittedSubclasses'' then
        Some (do { t \<leftarrow> read_table read_u2; ret (PermittedSubclasses t) })
      else if name = text_of ''Record'' then
        Some (do { t \<leftarrow> read_table (read_component nested); ret (Record t) })
      else if name = text_of ''AnnotationDefault'' then
        Some (do { v \<leftarrow> parse_element_value n; ret (AnnotationDefault v) })
      else None)"

text \<open>
  The reader of a known attribute must use up its bytes. The length of the bytes bounds the depth
  of the values in it.
\<close>

definition parse_attribute ::
    "(u16 list \<Rightarrow> u16 list) \<Rightarrow> attribute_info list rd \<Rightarrow> cp_info list \<Rightarrow> rust_text \<Rightarrow> u8 list \<Rightarrow>
     attribute_info rd" where
  "parse_attribute order nested cp name info =
     (case read_known order nested cp (Suc (length info)) name of
        None \<Rightarrow> ret (Unknown name info)
      | Some f \<Rightarrow>
          read_nested (do {
            attribute \<leftarrow> f;
            left \<leftarrow> read_gets remaining;
            if left \<noteq> 0 then read_fail (ReadError (InvalidAttribute name)) else ret attribute }) info)"

definition read_attribute ::
    "(u16 list \<Rightarrow> u16 list) \<Rightarrow> attribute_info list rd \<Rightarrow> cp_info list \<Rightarrow> attribute_info rd" where
  "read_attribute order nested cp =
     do { name_index \<leftarrow> read_u2;
          len \<leftarrow> read_u4;
          name \<leftarrow> try_ok (cp_utf8 cp name_index);
          info \<leftarrow> read_bytes (unat len);
          parse_attribute order nested cp name info }"

text \<open>The fuel bounds the depth of the attributes, each of which is inside the bytes of another.\<close>

primrec read_attributes ::
    "(u16 list \<Rightarrow> u16 list) \<Rightarrow> cp_info list \<Rightarrow> nat \<Rightarrow> attribute_info list rd" where
  "read_attributes order cp 0 = read_fail ReadOutOfFuel"
| "read_attributes order cp (Suc n) =
     read_table (read_attribute order (read_attributes order cp n) cp)"

subsection \<open>Members and the file\<close>

text \<open>\<^verbatim>\<open>FieldInfo\<close> and \<^verbatim>\<open>MethodInfo\<close>\<close>

datatype member_info =
  MemberInfo (member_flags: u16) (member_name: u16) (member_descriptor: u16) (member_attributes: "attribute_info list")

definition read_member :: "attribute_info list rd \<Rightarrow> member_info rd" where
  "read_member attributes =
     do { flags \<leftarrow> read_u2; name \<leftarrow> read_u2; descriptor \<leftarrow> read_u2; attrs \<leftarrow> attributes;
          ret (MemberInfo flags name descriptor attrs) }"

definition read_fields :: "attribute_info list rd \<Rightarrow> member_info list rd" where
  "read_fields attributes = read_table (read_member attributes)"

definition read_methods :: "attribute_info list rd \<Rightarrow> member_info list rd" where
  "read_methods attributes = read_table (read_member attributes)"

record class_file =
  minor_version :: u16
  major_version :: u16
  constant_pool :: "cp_info list"
  access_flags :: u16
  this_class :: u16
  super_class :: u16
  interfaces :: "u16 list"
  class_fields :: "member_info list"
  class_methods :: "member_info list"
  class_attributes :: "attribute_info list"

text \<open>Java 25\<close>

definition V25 :: u16 where
  "V25 = 69"

definition read_class :: "(u16 list \<Rightarrow> u16 list) \<Rightarrow> nat \<Rightarrow> class_file rd" where
  "read_class order n =
     do { magic \<leftarrow> read_u4;
          if magic \<noteq> 0xCAFEBABE then read_fail (ReadError (InvalidMagic magic))
          else
     do { minor \<leftarrow> read_u2;
          major \<leftarrow> read_u2;
          if V25 < major then read_fail (ReadError (InvalidClassVersion major))
          else
     do { cp \<leftarrow> read_constant_pool;
          flags \<leftarrow> read_u2;
          this \<leftarrow> read_u2;
          super \<leftarrow> read_u2;
          ifs \<leftarrow> read_table read_u2;
          fs \<leftarrow> read_fields (read_attributes order cp n);
          ms \<leftarrow> read_methods (read_attributes order cp n);
          attrs \<leftarrow> read_attributes order cp n;
          ret \<lparr>minor_version = minor, major_version = major, constant_pool = cp, access_flags = flags,
               this_class = this, super_class = super, interfaces = ifs, class_fields = fs,
               class_methods = ms, class_attributes = attrs\<rparr> } } }"

definition read_class_file :: "(u16 list \<Rightarrow> u16 list) \<Rightarrow> u8 list \<Rightarrow> read_stop + class_file" where
  "read_class_file order bytes = run_reader (read_class order (Suc (length bytes))) bytes"

end
