(* ===== verification/ClassReading.thy ===== *)
theory ClassReading imports ClassFile begin

text \<open>
  Facts on the reader of class files: the fuel of the model is enough, so that reading always ends
  with a class file, an error or a panic; and the labels of the instruction nodes.
\<close>

subsection \<open>Enough fuel\<close>

lemma fueled_invalid [fuel_rules]: "fueled n k (invalid_attribute s)"
  unfolding invalid_attribute_def by (intro fuel_rules) simp

lemma fueled_leaves [fuel_rules]:
  "fueled n 0 read_exception_table_entry" "fueled n 0 read_line_number" "fueled n 0 read_local_variable"
  "fueled n 0 read_inner_class" "fueled n 0 read_bootstrap_method" "fueled n 0 read_method_parameter"
  "fueled n 0 read_localvar_entry" "fueled n 0 read_path_entry" "fueled n 0 read_module_require"
  "fueled n 0 read_module_export" "fueled n 0 read_module_open" "fueled n 0 read_module_provide"
  unfolding read_exception_table_entry_def read_line_number_def read_local_variable_def read_inner_class_def
    read_bootstrap_method_def read_method_parameter_def read_localvar_entry_def read_path_entry_def
    read_module_require_def read_module_export_def read_module_open_def read_module_provide_def
  by (auto intro!: fuel_rules)

lemma fueled_module [fuel_rules]: "fueled n 0 parse_module_attribute"
  unfolding parse_module_attribute_def by (auto intro!: fuel_rules)

lemma fueled_verification_type [fuel_rules]: "fueled n 0 parse_verification_type"
  unfolding parse_verification_type_def by (auto intro!: fuel_rules)

lemma fueled_frame [fuel_rules]: "fueled n 0 read_stack_map_frame"
  unfolding read_stack_map_frame_def by (auto intro!: fuel_rules)

lemma stopping_value [stop_rules]: "stopping (parse_element_value n)"
  by (induction n) (auto simp: read_annotation_def read_element_pair_def invalid_attribute_def intro!: stop_rules)

lemma fueled_element_value: "fueled n 0 (parse_element_value (Suc n))"
proof (induction n)
  case 0
  have "fueled 0 (1 + 0) (parse_element_value (Suc 0))"
    unfolding parse_element_value.simps(2)
    by (rule fueled_bind_le [OF fueled_u1]) (auto simp: read_annotation_def read_element_pair_def invalid_attribute_def intro!: stop_rules)
  thus ?case by (rule fueled_weaken) simp_all
next
  case (Suc n)
  have "fueled (Suc n) (1 + 0) (parse_element_value (Suc (Suc n)))"
    unfolding parse_element_value.simps(2) [of "Suc n"]
    by (rule fueled_bind [OF fueled_u1])
      (auto simp: read_annotation_def read_element_pair_def Suc simp del: parse_element_value.simps intro!: fuel_rules)
  thus ?case by (rule fueled_weaken) simp_all
qed

lemma fueled_annotation: "fueled n 0 (parse_annotation (Suc n))"
  unfolding parse_annotation_def read_annotation_def read_element_pair_def
  by (intro fuel_rules fueled_element_value)

lemma fueled_target [fuel_rules]: "fueled n 0 (parse_type_annotation_target_info t)"
  unfolding parse_type_annotation_target_info_def by (auto intro!: fuel_rules)

lemma fueled_type_annotation: "fueled n 0 (parse_type_annotation (Suc n))"
  unfolding parse_type_annotation_def parse_type_path_def
  by (intro fuel_rules fueled_annotation)

lemma fueled_try_read [fuel_rules]: "x \<noteq> Inl ReadOutOfFuel \<Longrightarrow> fueled n 0 (try_read x)"
  by (auto simp: try_read_def intro!: fuel_rules split: sum.splits)

lemma nodes_end: "build_insn_nodes order code exceptions cp \<noteq> Inl ReadOutOfFuel"
  using decoding_ends(2) [of code] by (auto simp: build_insn_nodes_def Let_def split: sum.splits)

lemma fueled_code: "fueled n 0 nested \<Longrightarrow> fueled n 0 (read_code order nested cp)"
  unfolding read_code_def
  by (auto intro!: fuel_rules decoding_ends nodes_end split: prod.splits)

lemma fueled_known:
  assumes "fueled n 0 nested" and "read_known order nested cp (Suc n) name = Some f"
  shows "fueled n 0 f"
  using assms unfolding read_known_def parse_annotations_def parse_parameter_annotations_def parse_type_annotations_def
  by (auto simp: read_component_def simp del: parse_element_value.simps split: if_splits
      intro!: fuel_rules fueled_code fueled_annotation fueled_type_annotation fueled_element_value)

lemma fueled_parse_attribute:
  assumes "fueled (length info) 0 nested"
  shows "fueled n 0 (parse_attribute order nested cp name info)"
proof (cases "read_known order nested cp (Suc (length info)) name")
  case (Some f)
  have "fueled (length info) 0 f" by (rule fueled_known [OF assms Some])
  thus ?thesis unfolding parse_attribute_def Some
    by (auto intro!: fueled_nested [where k = 0] fuel_rules)
qed (simp add: parse_attribute_def fueled_ret)

lemma stopping_parse_attribute [stop_rules]: "stopping (parse_attribute order nested cp name info)"
  by (auto simp: parse_attribute_def intro!: stop_rules split: option.splits)

lemma stopping_attribute [stop_rules]: "stopping (read_attribute order nested cp)"
  unfolding read_attribute_def by (intro stop_rules)

lemma stopping_attributes [stop_rules]: "stopping (read_attributes order cp n)"
  by (cases n) (auto intro!: stop_rules)

lemma fueled_attributes: "fueled n 0 (read_attributes order cp (Suc n))"
proof (induction n rule: less_induct)
  case (less n)
  let ?nested = "read_attributes order cp n"
  have entry: "fueled n 0 (read_attribute order ?nested cp)"
  proof -
    have "fueled m 0 (parse_attribute order ?nested cp name info)" if "length info \<le> m" "m < n" for m name info
      using less [of "n - 1"] fueled_weaken that by (fastforce intro!: fueled_parse_attribute)
    hence "fueled n (2 + (4 + 0)) (read_attribute order ?nested cp)"
      unfolding read_attribute_def
      by (intro fueled_bind_le [OF fueled_u2] fueled_bind_le [OF fueled_u4] fueled_then fueled_try
          fueled_bytes_then stop_rules) simp_all
    thus ?thesis by (rule fueled_weaken) simp_all
  qed
  thus ?case by (simp add: fueled_table)
qed

lemma fueled_pool_entry [fuel_rules]: "fueled n 0 (read_entry tag)"
  unfolding read_entry_def by (auto intro!: fuel_rules)

lemma fueled_pool_entries [fuel_rules]: "fueled n 0 (read_pool_entries m)"
proof (induction m rule: less_induct)
  case (less m)
  thus ?case by (cases m) (auto intro!: fuel_rules)
qed

lemma fueled_class: "fueled n 0 (read_class order (Suc n))"
  unfolding read_class_def read_constant_pool_def read_fields_def read_methods_def read_member_def
  by (auto intro!: fuel_rules fueled_attributes)

theorem read_class_file_ends: "read_class_file order bytes \<noteq> Inl ReadOutOfFuel"
  unfolding read_class_file_def by (rule fueled_run [OF fueled_class])

subsection \<open>Labels\<close>

lemma label_by_offset_some: "a \<in> set offsets \<Longrightarrow> \<exists>l. label_by_offset offsets a = Some l"
  using position_none [of "\<lambda>x. x = a" offsets] by (auto simp: label_by_offset_def)

lemma label_by_offset_inj:
  "label_by_offset offsets a = Some l \<Longrightarrow> label_by_offset offsets b = Some l \<Longrightarrow> a = b"
  by (auto simp: label_by_offset_def dest!: position_some)

text \<open>The instructions among the nodes, without the labels and lines between them.\<close>

fun insns_of :: "abstract_insn_node list \<Rightarrow> insn list" where
  "insns_of [] = []"
| "insns_of (InsnNode insn # nodes) = insn # insns_of nodes"
| "insns_of (_ # nodes) = insns_of nodes"

lemma insns_of_append [simp]: "insns_of (xs @ ys) = insns_of xs @ insns_of ys"
  by (induction xs rule: insns_of.induct) simp_all

lemma insns_of_label [simp]: "insns_of (label_node labels at) = []"
  by (simp add: label_node_def split: option.splits)

lemma insns_of_nodes:
  "insns_of (concat (map (\<lambda>(at, insn). label_node labels at @ [InsnNode insn]) instructions)) = map snd instructions"
  by (induction instructions) auto

lemma insns_of_lines [simp]: "insns_of (lines_of_label labels entries l) = []"
  by (induction entries) (simp_all add: lines_of_label_def)

lemma insns_of_attach: "(\<And>l. insns_of (lines l) = []) \<Longrightarrow> insns_of (attach_lines lines seen nodes) = insns_of nodes"
proof (induction nodes arbitrary: seen)
  case (Cons node nodes)
  thus ?case by (cases node) auto
qed simp

lemma insns_of_with_lines: "insns_of (with_lines attrs labels nodes) = insns_of nodes"
  by (simp add: with_lines_def attach_line_numbers_def insns_of_attach split: option.splits)

text \<open>Each exception range is a block between its labels.\<close>

definition block_of :: "(u16 \<Rightarrow> label option) \<Rightarrow> exception_table_entry \<Rightarrow> try_catch_block \<Rightarrow> bool" where
  "block_of labels e b \<longleftrightarrow>
     labels (start_pc e) = Some (block_start b) \<and> labels (end_pc e) = Some (block_end b) \<and>
     labels (handler_pc e) = Some (block_handler b)"

lemma try_map_Inr: "try_map f xs = Inr ys \<Longrightarrow> list_all2 (\<lambda>x y. f x = Inr y) xs ys"
  by (induction xs arbitrary: ys) (auto simp: map_sum_def split: sum.splits)

lemma try_map_Inl: "try_map f xs = Inl e \<Longrightarrow> \<exists>x \<in> set xs. f x = Inl e"
  by (induction xs) (auto simp: map_sum_def split: sum.splits)

lemma map_sum_id_Inr: "map_sum id f x = Inr y \<longleftrightarrow> (\<exists>z. x = Inr z \<and> y = f z)"
  by (cases x) auto

lemma map_sum_id_Inl: "map_sum id f x = Inl e \<longleftrightarrow> x = Inl e"
  by (cases x) auto

lemma try_catch_node_Inr: "try_catch_node labels cp e = Inr b \<Longrightarrow> block_of labels e b"
  by (auto simp: try_catch_node_def missing_label_def block_of_def map_sum_id_Inr split: sum.splits option.splits)

lemma label_offsets_insn:
  assumes "(at, insn) \<in> set instructions" and "t \<in> set (at # insn_targets at insn)"
  shows "t \<in> set (label_offsets code instructions exceptions)"
proof -
  have "t \<in> (case (at, insn) of (at, insn) \<Rightarrow> set (at # insn_targets at insn))" using assms(2) by simp
  thus ?thesis using assms(1) unfolding label_offsets_def set_remdups set_append set_concat by force
qed

lemma label_offsets_exception:
  assumes "e \<in> set exceptions" and "t \<in> {start_pc e, end_pc e, handler_pc e}"
  shows "t \<in> set (label_offsets code instructions exceptions)"
  using assms unfolding label_offsets_def set_remdups set_append set_concat by force

theorem insn_nodes_labelled:
  assumes order: "hash_order order"
    and built: "build_insn_nodes order code exceptions cp = Inr (nodes, blocks, labels)"
    and instructions: "parse_code_instructions_with_offsets code = Inr instructions"
  shows "insns_of nodes = map snd instructions"
    and "\<forall>a b l. labels a = Some l \<and> labels b = Some l \<longrightarrow> a = b"
    and "\<forall>(at, insn) \<in> set instructions. \<forall>t \<in> set (at # insn_targets at insn). labels t \<noteq> None"
    and "list_all2 (block_of labels) exceptions blocks"
proof -
  let ?offsets = "label_offsets code instructions exceptions"
  have labels: "labels = label_by_offset (order ?offsets)"
    and blocks: "try_map (try_catch_node labels cp) exceptions = Inr blocks"
    and nodes: "nodes = concat (map (\<lambda>(at, insn). label_node labels at @ [InsnNode insn]) instructions) @
        label_node labels (word_of_nat (length code))"
    using built instructions by (auto simp: build_insn_nodes_def Let_def split: sum.splits)
  show "insns_of nodes = map snd instructions" by (simp add: nodes insns_of_nodes)
  show "\<forall>a b l. labels a = Some l \<and> labels b = Some l \<longrightarrow> a = b"
    using label_by_offset_inj labels by blast
  have "set (order ?offsets) = set ?offsets"
    using order by (simp add: hash_order_def label_offsets_def)
  thus "\<forall>(at, insn) \<in> set instructions. \<forall>t \<in> set (at # insn_targets at insn). labels t \<noteq> None"
    unfolding labels using label_offsets_insn label_by_offset_some [of _ "order ?offsets"]
    by (clarsimp simp del: set_simps)
  show "list_all2 (block_of labels) exceptions blocks"
    using try_map_Inr [OF blocks] try_catch_node_Inr by (auto elim: list_all2_mono)
qed

text \<open>The errors of a missing label do not occur.\<close>

theorem no_missing_label:
  assumes order: "hash_order order" and failed: "build_insn_nodes order code exceptions cp = Inl e"
  shows "parse_code_instructions_with_offsets code = Inl e \<or> (\<exists>i. e = ReadError (InvalidIndex i))"
proof (cases "parse_code_instructions_with_offsets code")
  case (Inr instructions)
  let ?offsets = "label_offsets code instructions exceptions"
  let ?labels = "label_by_offset (order ?offsets)"
  obtain err entry where err: "e = ReadError err" "entry \<in> set exceptions" "try_catch_node ?labels cp entry = Inl err"
    using failed Inr by (auto simp: build_insn_nodes_def Let_def dest!: try_map_Inl split: sum.splits)
  have "set (order ?offsets) = set ?offsets"
    using order by (simp add: hash_order_def label_offsets_def)
  hence "\<exists>l. ?labels t = Some l" if "t \<in> {start_pc entry, end_pc entry, handler_pc entry}" for t
    using label_by_offset_some [of t "order ?offsets"] label_offsets_exception [OF err(2) that] by simp
  from this [of "start_pc entry"] this [of "end_pc entry"] this [of "handler_pc entry"]
  obtain s d h where "?labels (start_pc entry) = Some s" "?labels (end_pc entry) = Some d"
      "?labels (handler_pc entry) = Some h" by auto
  hence "catch_name cp (catch_type entry) = Inl err"
    using err(3) by (simp add: try_catch_node_def missing_label_def map_sum_id_Inl)
  thus ?thesis
    by (auto simp: catch_name_def cp_class_name_def cp_utf8_def map_sum_id_Inl err split: if_splits option.splits cp_info.splits)
qed (use failed in \<open>simp add: build_insn_nodes_def\<close>)

end
