(* ===== verification/Modules.thy ===== *)
theory Modules imports Interning ClassReading begin

text \<open>
  The tree of a class as \<^verbatim>\<open>nodes.rs\<close> declares it, and the module descriptor in it: how
  \<^verbatim>\<open>class_writer.rs\<close> makes the attributes of a module and how it decodes them.
\<close>

subsection \<open>Nodes\<close>

datatype module_require_node =
  ModuleRequireNode (require_module: rust_text) (require_flags: u16) (require_version: "rust_text option")

datatype module_export_node =
  ModuleExportNode (export_package: rust_text) (export_flags: u16) (export_modules: "rust_text list")

datatype module_open_node =
  ModuleOpenNode (open_package: rust_text) (open_flags: u16) (open_modules: "rust_text list")

datatype module_provide_node =
  ModuleProvideNode (provide_service: rust_text) (provide_providers: "rust_text list")

record module_node =
  mn_name :: rust_text
  mn_access :: u16
  mn_version :: "rust_text option"
  mn_requires :: "module_require_node list"
  mn_exports :: "module_export_node list"
  mn_opens :: "module_open_node list"
  mn_uses :: "rust_text list"
  mn_provides :: "module_provide_node list"
  mn_packages :: "rust_text list"
  mn_main_class :: "rust_text option"

subsection \<open>Building the attributes\<close>

text \<open>\<^verbatim>\<open>version.map(|version| cp.utf8(version)).unwrap_or(0)\<close>\<close>

definition utf8_or_0 :: "rust_text option \<Rightarrow> u16 pb" where
  "utf8_or_0 version = (case version of None \<Rightarrow> ret 0 | Some v \<Rightarrow> pb_utf8 v)"

definition build_require :: "module_require_node \<Rightarrow> module_require pb" where
  "build_require r =
     do { i \<leftarrow> pb_module (require_module r);
          v \<leftarrow> utf8_or_0 (require_version r);
          ret (ModuleRequire i (require_flags r) v) }"

definition build_export :: "module_export_node \<Rightarrow> module_export pb" where
  "build_export e =
     do { i \<leftarrow> pb_package (export_package e);
          ms \<leftarrow> for_each pb_module (export_modules e);
          ret (ModuleExport i (export_flags e) ms) }"

definition build_open :: "module_open_node \<Rightarrow> module_open pb" where
  "build_open e =
     do { i \<leftarrow> pb_package (open_package e);
          ms \<leftarrow> for_each pb_module (open_modules e);
          ret (ModuleOpen i (open_flags e) ms) }"

definition build_provide :: "module_provide_node \<Rightarrow> module_provide pb" where
  "build_provide e =
     do { i \<leftarrow> pb_class (provide_service e);
          cs \<leftarrow> for_each pb_class (provide_providers e);
          ret (ModuleProvide i cs) }"

text \<open>The packages and the main class, each with an attribute of its own if there is any.\<close>

definition build_packages :: "rust_text list \<Rightarrow> attribute_info list pb" where
  "build_packages packages =
     (if packages = [] then ret []
      else do { is \<leftarrow> for_each pb_package packages; ret [ModulePackages is] })"

definition build_main_class :: "rust_text option \<Rightarrow> attribute_info list pb" where
  "build_main_class main_class =
     (case main_class of
        None \<Rightarrow> ret []
      | Some c \<Rightarrow> do { i \<leftarrow> pb_class c; ret [ModuleMainClass i] })"

definition build_module_attributes :: "module_node \<Rightarrow> attribute_info list pb" where
  "build_module_attributes m =
     do { requires \<leftarrow> for_each build_require (mn_requires m);
          exports \<leftarrow> for_each build_export (mn_exports m);
          opens \<leftarrow> for_each build_open (mn_opens m);
          uses \<leftarrow> for_each pb_class (mn_uses m);
          provides \<leftarrow> for_each build_provide (mn_provides m);
          name \<leftarrow> pb_module (mn_name m);
          version \<leftarrow> utf8_or_0 (mn_version m);
          packages \<leftarrow> build_packages (mn_packages m);
          main_class \<leftarrow> build_main_class (mn_main_class m);
          ret (ModuleAttr (ModuleAttribute name (mn_access m) version requires exports opens uses provides)
            # packages @ main_class) }"

subsection \<open>Decoding them\<close>

text \<open>\<^verbatim>\<open>format!("invalid constant pool utf8 index {}", index)\<close> and so on\<close>

datatype raw_index_error =
    InvalidUtf8Entry u16
  | InvalidClassEntry u16
  | InvalidModuleEntry u16
  | InvalidPackageEntry u16

definition cp_utf8_value_raw :: "cp_info list \<Rightarrow> u16 \<Rightarrow> raw_index_error + rust_text" where
  "cp_utf8_value_raw cp index =
     (case cp_get cp index of Some (Utf8 value) \<Rightarrow> Inr value | _ \<Rightarrow> Inl (InvalidUtf8Entry index))"

definition cp_class_name_raw :: "cp_info list \<Rightarrow> u16 \<Rightarrow> raw_index_error + rust_text" where
  "cp_class_name_raw cp index =
     (case cp_get cp index of
        Some (Class name_index) \<Rightarrow> cp_utf8_value_raw cp name_index
      | _ \<Rightarrow> Inl (InvalidClassEntry index))"

definition cp_module_name_raw :: "cp_info list \<Rightarrow> u16 \<Rightarrow> raw_index_error + rust_text" where
  "cp_module_name_raw cp index =
     (case cp_get cp index of
        Some (Module name_index) \<Rightarrow> cp_utf8_value_raw cp name_index
      | _ \<Rightarrow> Inl (InvalidModuleEntry index))"

definition cp_package_name_raw :: "cp_info list \<Rightarrow> u16 \<Rightarrow> raw_index_error + rust_text" where
  "cp_package_name_raw cp index =
     (case cp_get cp index of
        Some (Package name_index) \<Rightarrow> cp_utf8_value_raw cp name_index
      | _ \<Rightarrow> Inl (InvalidPackageEntry index))"

definition version_of :: "cp_info list \<Rightarrow> u16 \<Rightarrow> raw_index_error + rust_text option" where
  "version_of cp index = (if index = 0 then Inr None else map_sum id Some (cp_utf8_value_raw cp index))"

definition decode_require :: "cp_info list \<Rightarrow> module_require \<Rightarrow> raw_index_error + module_require_node" where
  "decode_require cp r =
     try_bind (cp_module_name_raw cp (requires_index r)) (\<lambda>name.
     try_bind (version_of cp (requires_version_index r)) (\<lambda>version.
     Inr (ModuleRequireNode name (requires_flags r) version)))"

definition decode_export :: "cp_info list \<Rightarrow> module_export \<Rightarrow> raw_index_error + module_export_node" where
  "decode_export cp e =
     try_bind (cp_package_name_raw cp (exports_index e)) (\<lambda>package.
     try_bind (try_map (cp_module_name_raw cp) (exports_to_index e)) (\<lambda>modules.
     Inr (ModuleExportNode package (exports_flags e) modules)))"

definition decode_open :: "cp_info list \<Rightarrow> module_open \<Rightarrow> raw_index_error + module_open_node" where
  "decode_open cp e =
     try_bind (cp_package_name_raw cp (opens_index e)) (\<lambda>package.
     try_bind (try_map (cp_module_name_raw cp) (opens_to_index e)) (\<lambda>modules.
     Inr (ModuleOpenNode package (opens_flags e) modules)))"

definition decode_provide :: "cp_info list \<Rightarrow> module_provide \<Rightarrow> raw_index_error + module_provide_node" where
  "decode_provide cp e =
     try_bind (cp_class_name_raw cp (provides_index e)) (\<lambda>service.
     try_bind (try_map (cp_class_name_raw cp) (provides_with_index e)) (\<lambda>providers.
     Inr (ModuleProvideNode service providers)))"

text \<open>\<^verbatim>\<open>find_map\<close> over the attributes, for the three kinds of a module\<close>

fun find_module :: "attribute_info list \<Rightarrow> module_attribute option" where
  "find_module [] = None"
| "find_module (ModuleAttr m # _) = Some m"
| "find_module (_ # attrs) = find_module attrs"

fun find_packages :: "attribute_info list \<Rightarrow> u16 list option" where
  "find_packages [] = None"
| "find_packages (ModulePackages t # _) = Some t"
| "find_packages (_ # attrs) = find_packages attrs"

fun find_main_class :: "attribute_info list \<Rightarrow> u16 option" where
  "find_main_class [] = None"
| "find_main_class (ModuleMainClass i # _) = Some i"
| "find_main_class (_ # attrs) = find_main_class attrs"

definition decode_packages :: "cp_info list \<Rightarrow> attribute_info list \<Rightarrow> raw_index_error + rust_text list" where
  "decode_packages cp attrs =
     (case find_packages attrs of None \<Rightarrow> Inr [] | Some t \<Rightarrow> try_map (cp_package_name_raw cp) t)"

definition decode_main_class :: "cp_info list \<Rightarrow> attribute_info list \<Rightarrow> raw_index_error + rust_text option" where
  "decode_main_class cp attrs =
     (case find_main_class attrs of None \<Rightarrow> Inr None | Some i \<Rightarrow> map_sum id Some (cp_class_name_raw cp i))"

definition decode_module ::
    "cp_info list \<Rightarrow> attribute_info list \<Rightarrow> module_attribute \<Rightarrow> raw_index_error + module_node" where
  "decode_module cp attrs m =
     try_bind (try_map (decode_require cp) (module_requires m)) (\<lambda>requires.
     try_bind (try_map (decode_export cp) (module_exports m)) (\<lambda>exports.
     try_bind (try_map (decode_open cp) (module_opens m)) (\<lambda>opens.
     try_bind (try_map (decode_provide cp) (module_provides m)) (\<lambda>provides.
     try_bind (decode_packages cp attrs) (\<lambda>packages.
     try_bind (decode_main_class cp attrs) (\<lambda>main_class.
     try_bind (cp_module_name_raw cp (module_name_index m)) (\<lambda>name.
     try_bind (version_of cp (module_version_index m)) (\<lambda>version.
     try_bind (try_map (cp_class_name_raw cp) (module_uses m)) (\<lambda>uses.
     Inr \<lparr>mn_name = name, mn_access = module_flags m, mn_version = version, mn_requires = requires,
          mn_exports = exports, mn_opens = opens, mn_uses = uses, mn_provides = provides,
          mn_packages = packages, mn_main_class = main_class\<rparr>)))))))))"

definition decode_module_node ::
    "cp_info list \<Rightarrow> attribute_info list \<Rightarrow> raw_index_error + module_node option" where
  "decode_module_node cp attrs =
     (case find_module attrs of None \<Rightarrow> Inr None | Some m \<Rightarrow> map_sum id Some (decode_module cp attrs m))"

subsection \<open>The round trip\<close>

lemma utf8_raw: "cp_utf8_value_raw cp i = Inr s \<longleftrightarrow> cp_utf8 cp i = Inr s"
  by (auto simp: cp_utf8_value_raw_def cp_utf8_def split: option.split cp_info.split)

lemma raw_Inr:
  "cp_class_name_raw cp i = Inr n \<longleftrightarrow> cp_class_name cp i = Inr n"
  "cp_module_name_raw cp i = Inr n \<longleftrightarrow> denotes cp i (ModuleKey n)"
  "cp_package_name_raw cp i = Inr n \<longleftrightarrow> denotes cp i (PackageKey n)"
  by (auto simp: cp_class_name_raw_def cp_module_name_raw_def cp_package_name_raw_def cp_class_name_def utf8_raw
      split: option.split cp_info.split)

text \<open>Each part is decoded from the indices it was built with.\<close>

definition first_unusable :: "cp_info list \<Rightarrow> bool" where
  "first_unusable cp \<longleftrightarrow> cp_get cp 0 = Some Unusable"

abbreviation built ::
    "(cp_info list \<Rightarrow> 'b \<Rightarrow> raw_index_error + 'a) \<Rightarrow> 'b pb \<Rightarrow> 'a \<Rightarrow> bool" where
  "built decode f x \<equiv> pb_interns first_unusable f (\<lambda>cp y. decode cp y = Inr x)"

lemma try_map_all: "list_all2 (\<lambda>x y. f y = Inr x) xs ys \<Longrightarrow> try_map f ys = Inr xs"
  by (induction xs ys rule: list_all2_induct) simp_all

lemma built_list:
  assumes "\<And>x. built decode (f x) x"
  shows "built (\<lambda>cp. try_map (decode cp)) (for_each f xs) xs"
  by (rule interns_weaken [OF interns_for_each [where Q = "\<lambda>cp x y. decode cp y = Inr x", OF assms]])
    (simp_all add: try_map_all)

lemma built_name:
  "built cp_class_name_raw (pb_class n) n"
  "built cp_module_name_raw (pb_module n) n"
  "built cp_package_name_raw (pb_package n) n"
  unfolding raw_Inr by (rule intern_rules)+

lemma built_version: "built version_of (utf8_or_0 v) v"
proof (cases v)
  case (Some s)
  have "cp_utf8 cp 0 \<noteq> Inr s" if "first_unusable cp" for cp
    using that by (simp add: first_unusable_def cp_utf8_def)
  thus ?thesis
    by (simp add: Some utf8_or_0_def version_of_def)
      (rule interns_weaken [OF pb_utf8_interns], auto simp: utf8_raw)
qed (simp add: utf8_or_0_def version_of_def interns_ret)

lemma built_bind:
  assumes "pb_interns first_unusable f Q" and "\<And>y. pb_interns (\<lambda>cp. P cp \<and> Q cp y) (g y) R"
    and "\<And>cp. P cp \<Longrightarrow> first_unusable cp"
  shows "pb_interns P (State_Monad.bind f g) R"
  by (rule interns_bind [where Q = Q], rule interns_weaken [OF assms(1)]) (use assms in auto)

lemma built_require: "built decode_require (build_require r) r"
  unfolding build_require_def
  by (rule built_bind [OF built_name(2)], rule built_bind [OF built_version])
    (auto simp: decode_require_def intro!: interns_ret)

lemma built_export: "built decode_export (build_export e) e"
  unfolding build_export_def
  by (rule built_bind [OF built_name(3)], rule built_bind [OF built_list [OF built_name(2)]])
    (auto simp: decode_export_def intro!: interns_ret)

lemma built_open: "built decode_open (build_open e) e"
  unfolding build_open_def
  by (rule built_bind [OF built_name(3)], rule built_bind [OF built_list [OF built_name(2)]])
    (auto simp: decode_open_def intro!: interns_ret)

lemma built_provide: "built decode_provide (build_provide e) e"
  unfolding build_provide_def
  by (rule built_bind [OF built_name(1)], rule built_bind [OF built_list [OF built_name(1)]])
    (auto simp: decode_provide_def intro!: interns_ret)


lemma built_packages:
  "pb_interns first_unusable (build_packages ps) (\<lambda>cp attrs.
     attrs = [] \<and> ps = [] \<or> (\<exists>is. attrs = [ModulePackages is] \<and> try_map (cp_package_name_raw cp) is = Inr ps))"
proof (cases "ps = []")
  case False
  have "built (\<lambda>cp. try_map (cp_package_name_raw cp)) (for_each pb_package ps) ps"
    by (rule built_list [OF built_name(3)])
  thus ?thesis
    using False by (simp add: build_packages_def) (erule built_bind, auto intro!: interns_ret)
qed (simp add: build_packages_def interns_ret)

lemma built_main_class:
  "pb_interns first_unusable (build_main_class c) (\<lambda>cp attrs.
     attrs = [] \<and> c = None \<or> (\<exists>i n. attrs = [ModuleMainClass i] \<and> c = Some n \<and> cp_class_name_raw cp i = Inr n))"
  by (cases c) (auto simp: build_main_class_def intro!: interns_ret built_bind [OF built_name(1)])

lemma module_built:
  "pb_interns first_unusable (build_module_attributes m) (\<lambda>cp attrs. decode_module_node cp attrs = Inr (Some m))"
  unfolding build_module_attributes_def
  by (rule built_bind [OF built_list [OF built_require]], rule built_bind [OF built_list [OF built_export]],
      rule built_bind [OF built_list [OF built_open]], rule built_bind [OF built_list [OF built_name(1)]],
      rule built_bind [OF built_list [OF built_provide]], rule built_bind [OF built_name(2)],
      rule built_bind [OF built_version], rule built_bind [OF built_packages],
      rule built_bind [OF built_main_class], rule interns_ret)
    (auto simp: decode_module_node_def decode_module_def decode_packages_def decode_main_class_def)

end
