(* ===== verification/FieldDesc.thy ===== *)
theory FieldDesc imports Modules begin

text \<open>
  The descriptor parser of \<^verbatim>\<open>class_writer.rs\<close>, which the library has beside \<^verbatim>\<open>Type::get_type\<close>, and
  where the two agree.
\<close>

datatype field_type =
    FBoolean | FByte | FChar | FShort | FInt | FFloat | FLong | FDouble
  | FObject rust_text
  | FArray rust_text
  | FVoid

abbreviation frame_error :: "string \<Rightarrow> class_write_error + 'a" where
  "frame_error s \<equiv> Inl (FrameComputation (text_of s))"

definition simple_field :: "nat \<Rightarrow> field_type option" where
  "simple_field c =
     (if c = ascii CHR ''Z'' then Some FBoolean
      else if c = ascii CHR ''B'' then Some FByte
      else if c = ascii CHR ''C'' then Some FChar
      else if c = ascii CHR ''S'' then Some FShort
      else if c = ascii CHR ''I'' then Some FInt
      else if c = ascii CHR ''F'' then Some FFloat
      else if c = ascii CHR ''J'' then Some FLong
      else if c = ascii CHR ''D'' then Some FDouble
      else None)"

text \<open>What \<^verbatim>\<open>desc.push\<close> adds to the descriptor of an array for its elements.\<close>

fun array_suffix :: "field_type \<Rightarrow> rust_text" where
  "array_suffix (FObject name) = ascii CHR ''L'' # name @ [ascii CHR '';'']"
| "array_suffix FBoolean = [ascii CHR ''Z'']"
| "array_suffix FByte = [ascii CHR ''B'']"
| "array_suffix FChar = [ascii CHR ''C'']"
| "array_suffix FShort = [ascii CHR ''S'']"
| "array_suffix FInt = [ascii CHR ''I'']"
| "array_suffix FFloat = [ascii CHR ''F'']"
| "array_suffix FLong = [ascii CHR ''J'']"
| "array_suffix FDouble = [ascii CHR ''D'']"
| "array_suffix FVoid = []"
| "array_suffix (FArray inner) = inner"

text \<open>The type and the characters behind it; a class name ends at a semicolon or at the end.\<close>

fun parse_field_type :: "rust_text \<Rightarrow> class_write_error + field_type \<times> rust_text" where
  "parse_field_type [] = frame_error ''bad field descriptor''"
| "parse_field_type (c # s) =
     (case simple_field c of
        Some t \<Rightarrow> Inr (t, s)
      | None \<Rightarrow>
          if c = ascii CHR ''L'' then
            Inr (FObject (takeWhile (\<lambda>ch. ch \<noteq> ascii CHR '';'') s),
                 drop 1 (dropWhile (\<lambda>ch. ch \<noteq> ascii CHR '';'') s))
          else if c = ascii CHR ''['' then
            map_sum id (map_prod (\<lambda>inner. FArray (ascii CHR ''['' # array_suffix inner)) id) (parse_field_type s)
          else frame_error ''bad field descriptor'')"

lemma parse_field_type_shorter: "parse_field_type s = Inr (t, rest) \<Longrightarrow> length rest < length s"
proof (induction s arbitrary: t)
  case (Cons c s)
  have "length (drop 1 (dropWhile (\<lambda>ch. ch \<noteq> ascii CHR '';'') s)) \<le> length s"
    using length_dropWhile_le [of "\<lambda>ch. ch \<noteq> ascii CHR '';''" s] by (simp add: le_diff_conv)
  with Cons show ?case
    by (auto split: option.splits if_splits dest!: Cons.IH)
qed simp

definition parse_field_descriptor :: "rust_text \<Rightarrow> class_write_error + field_type" where
  "parse_field_descriptor desc = map_sum id fst (parse_field_type desc)"

text \<open>The parameters, up to a closing parenthesis, which is taken, or the end of the text.\<close>

function parse_params :: "rust_text \<Rightarrow> class_write_error + field_type list \<times> rust_text" where
  "parse_params s =
     (case s of
        [] \<Rightarrow> Inr ([], [])
      | c # rest \<Rightarrow>
          if c = ascii CHR '')'' then Inr ([], rest)
          else
            (case parse_field_type s of
               Inl e \<Rightarrow> Inl e
             | Inr (t, rest) \<Rightarrow> map_sum id (map_prod (Cons t) id) (parse_params rest)))"
  by pat_completeness auto
termination parse_params
  by (relation "measure length") (auto simp del: parse_field_type.simps dest!: parse_field_type_shorter)

declare parse_params.simps [simp del]

definition parse_return_type :: "rust_text \<Rightarrow> class_write_error + field_type" where
  "parse_return_type s =
     (case s of
        [] \<Rightarrow> map_sum id fst (parse_field_type s)
      | c # _ \<Rightarrow> if c = ascii CHR ''V'' then Inr FVoid else map_sum id fst (parse_field_type s))"

definition parse_method_descriptor :: "rust_text \<Rightarrow> class_write_error + field_type list \<times> field_type" where
  "parse_method_descriptor desc =
     (case desc of
        [] \<Rightarrow> frame_error ''bad method descriptor''
      | c # s \<Rightarrow>
          if c \<noteq> ascii CHR ''('' then frame_error ''bad method descriptor''
          else try_bind (parse_params s) (\<lambda>(params, rest). map_sum id (Pair params) (parse_return_type rest)))"

text \<open>On the descriptors of types this parser gives what \<^verbatim>\<open>get_type\<close> does.\<close>

fun field_of :: "jvm_type \<Rightarrow> field_type" where
  "field_of TBoolean = FBoolean"
| "field_of TByte = FByte"
| "field_of TChar = FChar"
| "field_of TShort = FShort"
| "field_of TInt = FInt"
| "field_of TFloat = FFloat"
| "field_of TLong = FLong"
| "field_of TDouble = FDouble"
| "field_of (TObject name) = FObject name"
| "field_of (TArray elem) = FArray (get_descriptor (TArray elem))"
| "field_of _ = FVoid"

text \<open>The types of values: not void and no method type, nor arrays of these.\<close>

fun value_type :: "jvm_type \<Rightarrow> bool" where
  "value_type TVoid = False"
| "value_type (TMethod _ _) = False"
| "value_type (TArray elem) = value_type elem"
| "value_type _ = True"

lemma array_suffix_field: "value_type t \<Longrightarrow> array_suffix (field_of t) = get_descriptor t"
  by (cases t) (simp_all add: text_of_def)

lemma split_semicolon:
  assumes "ascii CHR '';'' \<notin> set name"
  shows "takeWhile (\<lambda>ch. ch \<noteq> ascii CHR '';'') (name @ ascii CHR '';'' # s) = name"
    and "dropWhile (\<lambda>ch. ch \<noteq> ascii CHR '';'') (name @ ascii CHR '';'' # s) = ascii CHR '';'' # s"
  using assms by (induction name) auto

lemma parse_field_descriptor_of:
  "value_type t \<Longrightarrow> type_ok t \<Longrightarrow> parse_field_type (get_descriptor t @ s) = Inr (field_of t, s)"
  by (induction t) (simp_all add: text_of_def simple_field_def array_suffix_field split_semicolon)

lemma parse_params_of:
  "list_all value_type ts \<Longrightarrow> list_all type_ok ts \<Longrightarrow>
   parse_params (concat (map get_descriptor ts) @ ascii CHR '')'' # s) = Inr (map field_of ts, s)"
proof (induction ts)
  case (Cons t ts)
  obtain c cs where d: "get_descriptor t = c # cs" "c \<noteq> ascii CHR '')''"
    using Cons.prems by (cases t) (simp_all add: text_of_def)
  have "parse_field_type (c # cs @ concat (map get_descriptor ts) @ ascii CHR '')'' # s) =
      Inr (field_of t, concat (map get_descriptor ts) @ ascii CHR '')'' # s)"
    using parse_field_descriptor_of [of t] Cons.prems d(1) by simp
  with Cons d show ?case
    by (subst parse_params.simps) (simp del: parse_field_type.simps)
qed (simp add: parse_params.simps)

theorem method_descriptors_agree:
  assumes "list_all value_type args" and "list_all type_ok args"
    and "r = TVoid \<or> value_type r \<and> type_ok r"
  shows "parse_method_descriptor (get_descriptor (TMethod args r)) = Inr (map field_of args, field_of r)"
proof -
  have "parse_return_type (get_descriptor r) = Inr (field_of r)"
  proof (cases "r = TVoid")
    case False
    with assms(3) have r: "value_type r" "type_ok r" by simp_all
    obtain c cs where d: "get_descriptor r = c # cs" "c \<noteq> ascii CHR ''V''"
      using r by (cases r) (simp_all add: text_of_def)
    with parse_field_descriptor_of [OF r, of "[]"] show ?thesis
      by (simp add: parse_return_type_def del: parse_field_type.simps)
  qed (simp add: parse_return_type_def text_of_def)
  with parse_params_of [OF assms(1,2)] show ?thesis
    by (simp add: parse_method_descriptor_def text_of_def)
qed

end
