(* ===== verification/CodeBuilder.thy ===== *)
theory CodeBuilder imports FieldDesc begin

text \<open>
  How \<^verbatim>\<open>class_writer.rs\<close> makes the code of a method from instruction nodes with labels
  (\<^verbatim>\<open>CodeBody::build\<close>): one pass emits the instructions, with zeros where an offset belongs, and
  notes what to fix; the fixups then write the offsets over the zeros.
\<close>

subsection \<open>Symbolic operands\<close>

definition resolve_field_ref :: "member_ref \<Rightarrow> u16 pb" where
  "resolve_field_ref r =
     (case r of
        MemberIndex index \<Rightarrow> ret index
      | MemberSymbolic owner name descriptor \<Rightarrow> pb_field_ref owner name descriptor)"

definition resolve_method_ref :: "u8 \<Rightarrow> member_ref \<Rightarrow> u16 pb" where
  "resolve_method_ref opcode r =
     (case r of
        MemberIndex index \<Rightarrow> ret index
      | MemberSymbolic owner name descriptor \<Rightarrow>
          if opcode = 0xB9 then pb_interface_method_ref owner name descriptor
          else pb_method_ref owner name descriptor)"

text \<open>The slots of the arguments and the receiver, cut to a byte; 1 for an index.\<close>

definition method_ref_interface_count :: "member_ref \<Rightarrow> u8" where
  "method_ref_interface_count r =
     (case r of
        MemberIndex _ \<Rightarrow> 1
      | MemberSymbolic _ _ descriptor \<Rightarrow>
          (case parse_method_descriptor descriptor of
             Inl _ \<Rightarrow> 1
           | Inr (args, _) \<Rightarrow>
               let count = foldl (\<lambda>n arg. n + (if arg = FLong \<or> arg = FDouble then 2 else 1)) (1 :: u16) args
               in ucast (min count 0xFF)))"

definition ldc_opcode :: "u16 \<Rightarrow> u8" where
  "ldc_opcode index = (if index \<le> 0xFF then 0x12 else 0x13)"

text \<open>The opcode and the index.\<close>

definition resolve_ldc :: "ldc_value \<Rightarrow> (u8 \<times> u16) pb" where
  "resolve_ldc v =
     (case v of
        LdcIndex index \<Rightarrow> ret (ldc_opcode index, index)
      | LdcStringValue s \<Rightarrow> do { index \<leftarrow> pb_string s; ret (ldc_opcode index, index) }
      | LdcTypeValue t \<Rightarrow>
          do { index \<leftarrow> (case t of
                 TObject obj \<Rightarrow> pb_class obj
               | TMethod _ _ \<Rightarrow> pb_method_type (get_descriptor t)
               | _ \<Rightarrow> pb_class (get_descriptor t));
               ret (ldc_opcode index, index) }
      | LdcIntValue n \<Rightarrow> do { index \<leftarrow> pb_integer n; ret (ldc_opcode index, index) }
      | LdcFloatValue n \<Rightarrow> do { index \<leftarrow> pb_float n; ret (ldc_opcode index, index) }
      | LdcLongValue n \<Rightarrow> do { index \<leftarrow> pb_long n; ret (0x14, index) }
      | LdcDoubleValue n \<Rightarrow> do { index \<leftarrow> pb_double n; ret (0x14, index) })"

text \<open>The bytes of an instruction at an offset, and the instruction with its operands resolved.\<close>

definition emit_insn :: "nat \<Rightarrow> insn \<Rightarrow> (u8 list \<times> insn) pb" where
  "emit_insn offset insn =
     (case insn of
        SimpleInsn op \<Rightarrow> ret ([op], SimpleInsn op)
      | IntInsn op v \<Rightarrow>
          ret ([op] @
            (if op = 0x10 then write_i1 (ucast v)
             else if op = 0x11 then write_i2 (ucast v)
             else if op = 0xBC then write_u1 (ucast v)
             else write_i1 (ucast v)), IntInsn op v)
      | VarInsn op i \<Rightarrow> ret ([op] @ write_u1 (ucast i), VarInsn op i)
      | TypeInsn op i \<Rightarrow> ret ([op] @ write_u2 i, TypeInsn op i)
      | FieldInsn op r \<Rightarrow>
          do { index \<leftarrow> resolve_field_ref r; ret ([op] @ write_u2 index, FieldInsn op (MemberIndex index)) }
      | MethodInsn op r \<Rightarrow>
          do { index \<leftarrow> resolve_method_ref op r;
               if op = 0xB9 then
                 let count = method_ref_interface_count r
                 in ret ([op] @ write_u2 index @ write_u1 count @ write_u1 0, InvokeInterfaceInsn 0xB9 index count)
               else ret ([op] @ write_u2 index, MethodInsn op (MemberIndex index)) }
      | InvokeInterfaceInsn op i count \<Rightarrow>
          ret ([op] @ write_u2 i @ write_u1 count @ write_u1 0, InvokeInterfaceInsn op i count)
      | InvokeDynamicInsn op i name descriptor bsm args \<Rightarrow>
          ret ([op] @ write_u2 i @ write_u2 0, InvokeDynamicInsn op i name descriptor bsm args)
      | JumpInsn op v \<Rightarrow>
          ret ([op] @ (if op = 0xC8 \<or> op = 0xC9 then write_i4 v else write_i2 (ucast v)), JumpInsn op v)
      | LdcInsn _ v \<Rightarrow>
          do { (op, index) \<leftarrow> resolve_ldc v;
               ret ([op] @ (if op = 0x12 then write_u1 (ucast index) else write_u2 index),
                    LdcInsn op (LdcIndex index)) }
      | IincInsn op i v \<Rightarrow> ret ([op] @ write_u1 (ucast i) @ write_i1 (ucast v), IincInsn op i v)
      | TableSwitchInsn op d low high offsets \<Rightarrow>
          ret ([op] @ write_switch_padding offset @ write_i4 d @ write_i4 low @ write_i4 high @
            concat (map write_i4 offsets), TableSwitchInsn op d low high offsets)
      | LookupSwitchInsn op d pairs \<Rightarrow>
          ret ([op] @ write_switch_padding offset @ write_i4 d @ write_i4 (word_of_nat (length pairs)) @
            concat (map (\<lambda>(key, v). write_i4 key @ write_i4 v) pairs), LookupSwitchInsn op d pairs)
      | MultiANewArrayInsn op i dimensions \<Rightarrow>
          ret ([op] @ write_u2 i @ write_u1 dimensions, MultiANewArrayInsn op i dimensions))"

subsection \<open>The first pass\<close>

definition is_wide_jump :: "u8 \<Rightarrow> bool" where
  "is_wide_jump opcode \<longleftrightarrow> opcode = 0xC8 \<or> opcode = 0xC9"

datatype jump_fixup =
  JumpFixup (jf_start: nat) (jf_opcode: u8) (jf_target: label) (jf_insn: nat) (jf_node: nat)

datatype table_switch_fixup =
  TableSwitchFixup (tf_start: nat) (tf_default: label) (tf_default_position: nat)
    (tf_targets: "label list") (tf_positions: "nat list") (tf_low: u32) (tf_high: u32)
    (tf_insn: nat) (tf_node: nat)

datatype lookup_switch_fixup =
  LookupSwitchFixup (lf_start: nat) (lf_default: label) (lf_default_position: nat)
    (lf_pairs: "(u32 \<times> label) list") (lf_positions: "nat list") (lf_insn: nat) (lf_node: nat)

text \<open>The local variables of \<^verbatim>\<open>build\<close>.\<close>

record assembly =
  as_code :: "u8 list"
  as_insns :: "insn list"
  as_nodes :: "abstract_insn_node list"
  as_labels :: "label \<rightharpoonup> u16"
  as_lines :: "(u16 \<times> label) list"
  as_jumps :: "jump_fixup list"
  as_tables :: "table_switch_fixup list"
  as_lookups :: "lookup_switch_fixup list"

definition assembly_new :: assembly where
  "assembly_new = \<lparr>as_code = [], as_insns = [], as_nodes = [], as_labels = Map.empty, as_lines = [],
     as_jumps = [], as_tables = [], as_lookups = []\<rparr>"

text \<open>Code for an instruction, which is appended to both lists.\<close>

definition append_insn :: "u8 list \<Rightarrow> insn \<Rightarrow> assembly \<Rightarrow> assembly" where
  "append_insn bytes insn a =
     a\<lparr>as_code := as_code a @ bytes, as_insns := as_insns a @ [insn], as_nodes := as_nodes a @ [InsnNode insn]\<rparr>"

definition emit_jump :: "u8 \<Rightarrow> label \<Rightarrow> assembly \<Rightarrow> assembly" where
  "emit_jump op target a =
     (let start = length (as_code a);
          a = append_insn ([op] @ (if is_wide_jump op then write_i4 0 else write_i2 0)) (JumpInsn op 0) a
      in a\<lparr>as_jumps := as_jumps a @
             [JumpFixup start op target (length (as_insns a) - 1) (length (as_nodes a) - 1)]\<rparr>)"

definition emit_table_switch :: "u8 \<Rightarrow> label \<Rightarrow> u32 \<Rightarrow> u32 \<Rightarrow> label list \<Rightarrow> assembly \<Rightarrow> assembly" where
  "emit_table_switch op d low high targets a =
     (let start = length (as_code a);
          default_pos = start + 1 + switch_padding start;
          a = append_insn
                ([op] @ write_switch_padding start @ write_i4 0 @ write_i4 low @ write_i4 high @
                 concat (map (\<lambda>_. write_i4 0) targets))
                (TableSwitchInsn op 0 low high (replicate (length targets) 0)) a
      in a\<lparr>as_tables := as_tables a @
             [TableSwitchFixup start d default_pos targets
                (map (\<lambda>k. default_pos + 12 + 4 * k) [0..<length targets]) low high
                (length (as_insns a) - 1) (length (as_nodes a) - 1)]\<rparr>)"

definition emit_lookup_switch :: "u8 \<Rightarrow> label \<Rightarrow> (u32 \<times> label) list \<Rightarrow> assembly \<Rightarrow> assembly" where
  "emit_lookup_switch op d pairs a =
     (let start = length (as_code a);
          default_pos = start + 1 + switch_padding start;
          a = append_insn
                ([op] @ write_switch_padding start @ write_i4 0 @ write_i4 (word_of_nat (length pairs)) @
                 concat (map (\<lambda>(key, _). write_i4 key @ write_i4 0) pairs))
                (LookupSwitchInsn op 0 (map (\<lambda>(key, _). (key, 0)) pairs)) a
      in a\<lparr>as_lookups := as_lookups a @
             [LookupSwitchFixup start d default_pos pairs
                (map (\<lambda>k. default_pos + 12 + 8 * k) [0..<length pairs])
                (length (as_insns a) - 1) (length (as_nodes a) - 1)]\<rparr>)"

definition emit_label :: "label \<Rightarrow> assembly \<Rightarrow> assembly" where
  "emit_label l a =
     (let offset = length (as_code a)
      in a\<lparr>as_labels := (if offset \<le> 0xFFFF then (as_labels a)(l \<mapsto> word_of_nat offset) else as_labels a),
           as_nodes := as_nodes a @ [LabelNode l]\<rparr>)"

definition emit_node :: "abstract_insn_node \<Rightarrow> assembly \<Rightarrow> assembly pb" where
  "emit_node node a =
     (case node of
        InsnNode insn \<Rightarrow>
          do { (bytes, resolved) \<leftarrow> emit_insn (length (as_code a)) insn; ret (append_insn bytes resolved a) }
      | JumpLabelNode op target \<Rightarrow> ret (emit_jump op target a)
      | LabelNode l \<Rightarrow> ret (emit_label l a)
      | LineNumberNode line l \<Rightarrow>
          ret (a\<lparr>as_lines := as_lines a @ [(line, l)], as_nodes := as_nodes a @ [LineNumberNode line l]\<rparr>)
      | TableSwitchLabelNode op d low high targets \<Rightarrow> ret (emit_table_switch op d low high targets a)
      | LookupSwitchLabelNode op d pairs \<Rightarrow> ret (emit_lookup_switch op d pairs a))"

primrec emit_nodes :: "abstract_insn_node list \<Rightarrow> assembly \<Rightarrow> assembly pb" where
  "emit_nodes [] a = ret a"
| "emit_nodes (node # nodes) a = do { a \<leftarrow> emit_node node a; emit_nodes nodes a }"

subsection \<open>Fixups\<close>

definition overwrite :: "u8 list \<Rightarrow> nat \<Rightarrow> u8 list \<Rightarrow> u8 list" where
  "overwrite out pos bytes = take pos out @ bytes @ drop (pos + length bytes) out"

definition write_i2_at :: "u8 list \<Rightarrow> nat \<Rightarrow> u16 \<Rightarrow> u8 list" where
  "write_i2_at out pos v = overwrite out pos (write_i2 v)"

definition write_i4_at :: "u8 list \<Rightarrow> nat \<Rightarrow> u32 \<Rightarrow> u8 list" where
  "write_i4_at out pos v = overwrite out pos (write_i4 v)"

text \<open>\<^verbatim>\<open>*target_offset as i32 - fixup.start as i32\<close>\<close>

definition delta :: "u16 \<Rightarrow> nat \<Rightarrow> u32" where
  "delta target start = ucast target - word_of_nat start"

definition resolve_at :: "nat \<Rightarrow> nat \<Rightarrow> insn \<Rightarrow> u8 list \<Rightarrow> assembly \<Rightarrow> assembly" where
  "resolve_at insn_index node_index insn code a =
     a\<lparr>as_code := code, as_insns := (as_insns a)[insn_index := insn],
       as_nodes := (as_nodes a)[node_index := InsnNode insn]\<rparr>"

definition fix_jump :: "jump_fixup \<Rightarrow> assembly \<Rightarrow> assembly" where
  "fix_jump f a =
     (case as_labels a (jf_target f) of
        None \<Rightarrow> a
      | Some target \<Rightarrow>
          let offset = delta target (jf_start f);
              code = (if is_wide_jump (jf_opcode f) then write_i4_at (as_code a) (jf_start f + 1) offset
                      else write_i2_at (as_code a) (jf_start f + 1) (ucast offset))
          in resolve_at (jf_insn f) (jf_node f) (JumpInsn (jf_opcode f) offset) code a)"

text \<open>
  The targets of a switch with their positions, in turn; a target without a label is left out, of
  the code and of the offsets.
\<close>

primrec fix_targets ::
    "(label \<Rightarrow> u16 option) \<Rightarrow> nat \<Rightarrow> (label \<times> nat) list \<Rightarrow> u8 list \<Rightarrow> u8 list" where
  "fix_targets labels start [] code = code"
| "fix_targets labels start (t # ts) code =
     (case labels (fst t) of
        None \<Rightarrow> fix_targets labels start ts code
      | Some target \<Rightarrow> fix_targets labels start ts (write_i4_at code (snd t) (delta target start)))"

definition target_offsets :: "(label \<Rightarrow> u16 option) \<Rightarrow> nat \<Rightarrow> label list \<Rightarrow> u32 list" where
  "target_offsets labels start targets =
     concat (map (\<lambda>l. case labels l of None \<Rightarrow> [] | Some t \<Rightarrow> [delta t start]) targets)"

definition fix_table :: "table_switch_fixup \<Rightarrow> assembly \<Rightarrow> assembly" where
  "fix_table f a =
     (case as_labels a (tf_default f) of
        None \<Rightarrow> a
      | Some target \<Rightarrow>
          let d = delta target (tf_start f);
              code = write_i4_at (as_code a) (tf_default_position f) d;
              code = fix_targets (as_labels a) (tf_start f) (zip (tf_targets f) (tf_positions f)) code;
              offsets = target_offsets (as_labels a) (tf_start f) (tf_targets f)
          in resolve_at (tf_insn f) (tf_node f) (TableSwitchInsn 0xAA d (tf_low f) (tf_high f) offsets) code a)"

definition target_pairs :: "(label \<Rightarrow> u16 option) \<Rightarrow> nat \<Rightarrow> (u32 \<times> label) list \<Rightarrow> (u32 \<times> u32) list" where
  "target_pairs labels start pairs =
     concat (map (\<lambda>(key, l). case labels l of None \<Rightarrow> [] | Some t \<Rightarrow> [(key, delta t start)]) pairs)"

definition fix_lookup :: "lookup_switch_fixup \<Rightarrow> assembly \<Rightarrow> assembly" where
  "fix_lookup f a =
     (case as_labels a (lf_default f) of
        None \<Rightarrow> a
      | Some target \<Rightarrow>
          let d = delta target (lf_start f);
              code = write_i4_at (as_code a) (lf_default_position f) d;
              code = fix_targets (as_labels a) (lf_start f) (zip (map snd (lf_pairs f)) (lf_positions f)) code;
              pairs = target_pairs (as_labels a) (lf_start f) (lf_pairs f)
          in resolve_at (lf_insn f) (lf_node f) (LookupSwitchInsn 0xAB d pairs) code a)"

definition apply_fixups :: "assembly \<Rightarrow> assembly" where
  "apply_fixups a =
     fold fix_lookup (as_lookups a) (fold fix_table (as_tables a) (fold fix_jump (as_jumps a) a))"

subsection \<open>The code attribute\<close>

text \<open>A pending block of which a label is missing is dropped.\<close>

fun build_blocks ::
    "(label \<Rightarrow> u16 option) \<Rightarrow> try_catch_block list \<Rightarrow> (exception_table_entry \<times> try_catch_block) list pb" where
  "build_blocks labels [] = ret []"
| "build_blocks labels (p # ps) =
     (case (labels (block_start p), labels (block_end p), labels (block_handler p)) of
        (Some s, Some e, Some h) \<Rightarrow>
          do { c \<leftarrow> (case block_type p of None \<Rightarrow> ret 0 | Some name \<Rightarrow> pb_class name);
               rest \<leftarrow> build_blocks labels ps;
               ret ((ExceptionTableEntry s e h c, p) # rest) }
      | _ \<Rightarrow> build_blocks labels ps)"

definition line_entries :: "(label \<Rightarrow> u16 option) \<Rightarrow> (u16 \<times> label) list \<Rightarrow> line_number list" where
  "line_entries labels lines =
     concat (map (\<lambda>(line, l). case labels l of None \<Rightarrow> [] | Some pc \<Rightarrow> [LineNumber pc line]) lines)"

record code_body =
  cb_max_stack :: u16
  cb_max_locals :: u16
  cb_insns :: "abstract_insn_node list"
  cb_exception_table :: "exception_table_entry list"
  cb_pending :: "try_catch_block list"
  cb_attributes :: "attribute_info list"

definition code_body_new :: "u16 \<Rightarrow> u16 \<Rightarrow> abstract_insn_node list \<Rightarrow> code_body" where
  "code_body_new max_stack max_locals insns =
     \<lparr>cb_max_stack = max_stack, cb_max_locals = max_locals, cb_insns = insns, cb_exception_table = [],
      cb_pending = [], cb_attributes = []\<rparr>"

definition build_code :: "code_body \<Rightarrow> code_attribute pb" where
  "build_code body =
     do { a \<leftarrow> emit_nodes (cb_insns body) assembly_new;
          let a = apply_fixups a;
          blocks \<leftarrow> build_blocks (as_labels a) (cb_pending body);
          let entries = line_entries (as_labels a) (as_lines a);
          ret (CodeAttribute (cb_max_stack body) (cb_max_locals body) (as_code a) (as_insns a) (as_nodes a)
                 (cb_exception_table body @ map fst blocks) (map snd blocks)
                 (cb_attributes body @ (if entries = [] then [] else [LineNumberTable entries]))) }"

end
