(* ===== verification/Backpatching.thy ===== *)
theory Backpatching imports CodeBuilder begin

text \<open>
  What \<^verbatim>\<open>CodeBody::build\<close> makes is the plain encoding of its resolved instructions: a state of the
  assembly is described by its cells, one per node, each an output node with what is left to fix
  in it; every fixup rewrites one cell.
\<close>

subsection \<open>Encodings\<close>

text \<open>The bytes of an instruction that is emitted as it is.\<close>

definition enc :: "nat \<Rightarrow> insn \<Rightarrow> u8 list" where
  "enc off i = (case emit_insn_raw off i of Inl _ \<Rightarrow> [] | Inr (bs, _) \<Rightarrow> bs)"

definition plain :: "insn \<Rightarrow> bool" where
  "plain i \<longleftrightarrow> (\<forall>off. emit_insn_raw off i = Inr (enc off i, i))"

fun enc_list :: "nat \<Rightarrow> insn list \<Rightarrow> u8 list" where
  "enc_list off [] = []"
| "enc_list off (i # is) = enc off i @ enc_list (off + length (enc off i)) is"

lemma plain_emit: "plain i \<Longrightarrow> emit_insn_raw off i = Inr (enc off i, i)"
  by (simp add: plain_def)

lemma emit_plain:
  "list_all plain is \<Longrightarrow> emit_insns code is = Inr (code @ enc_list (length code) is, is)"
proof (induction "is" arbitrary: code)
  case (Cons i "is")
  thus ?case by (simp add: plain_emit)
qed simp

lemma enc_list_append: "enc_list off (is @ js) = enc_list off is @ enc_list (off + length (enc_list off is)) js"
  by (induction "is" arbitrary: off) (simp_all add: add.assoc)

lemma plain_simps [simp]:
  "plain (JumpInsn op v)"
  "plain (TableSwitchInsn op d low high offsets)"
  "plain (LookupSwitchInsn op d pairs)"
  by (simp_all add: plain_def enc_def)

lemma enc_jump: "enc off (JumpInsn op v) = [op] @ (if is_wide_jump op then write_i4 v else write_i2 (ucast v))"
  by (simp add: enc_def is_wide_jump_def)

lemma enc_table:
  "enc off (TableSwitchInsn op d low high offsets) =
     [op] @ write_switch_padding off @ write_i4 d @ write_i4 low @ write_i4 high @ concat (map write_i4 offsets)"
  by (simp add: enc_def)

lemma enc_lookup:
  "enc off (LookupSwitchInsn op d pairs) =
     [op] @ write_switch_padding off @ write_i4 d @ write_i4 (word_of_nat (length pairs)) @
     concat (map (\<lambda>(key, v). write_i4 key @ write_i4 v) pairs)"
  by (simp add: enc_def)

subsection \<open>Operands\<close>

text \<open>What an instruction of the input becomes: symbolic operands become indices that denote them.\<close>

definition ldc_denotes :: "cp_info list \<Rightarrow> ldc_value \<Rightarrow> u16 \<Rightarrow> bool" where
  "ldc_denotes cp v i \<longleftrightarrow>
     (case v of
        LdcIndex j \<Rightarrow> i = j
      | LdcStringValue s \<Rightarrow> cp_ldc_constant cp i = Inr (LdcString s)
      | LdcTypeValue t \<Rightarrow>
          cp_ldc_constant cp i = Inr (case t of
             TObject obj \<Rightarrow> LdcClass obj
           | TMethod _ _ \<Rightarrow> LdcMethodType (get_descriptor t)
           | _ \<Rightarrow> LdcClass (get_descriptor t))
      | LdcIntValue n \<Rightarrow> cp_ldc_constant cp i = Inr (LdcInteger n)
      | LdcFloatValue n \<Rightarrow> cp_ldc_constant cp i = Inr (LdcFloat n)
      | LdcLongValue n \<Rightarrow> cp_ldc_constant cp i = Inr (LdcLong n)
      | LdcDoubleValue n \<Rightarrow> cp_ldc_constant cp i = Inr (LdcDouble n))"

definition member_denotes :: "cp_info list \<Rightarrow> (rust_text \<times> rust_text \<times> rust_text \<Rightarrow> u16 \<Rightarrow> bool) \<Rightarrow> member_ref \<Rightarrow> u16 \<Rightarrow> bool" where
  "member_denotes cp D r i = (case r of MemberIndex j \<Rightarrow> i = j | MemberSymbolic c n d \<Rightarrow> D (c, n, d) i)"

definition ldc_form :: "u8 \<Rightarrow> u16 \<Rightarrow> bool" where
  "ldc_form op i \<longleftrightarrow> op = 0x12 \<and> i \<le> 0xFF \<or> op = 0x13 \<or> op = 0x14"

lemma ldc_form_opcode [simp]: "ldc_form (ldc_opcode i) i" "ldc_form 0x14 i"
  by (simp_all add: ldc_form_def ldc_opcode_def)

definition operand_of :: "cp_info list \<Rightarrow> insn \<Rightarrow> insn \<Rightarrow> bool" where
  "operand_of cp insn r \<longleftrightarrow>
     (case insn of
        FieldInsn op m \<Rightarrow>
          (\<exists>i. r = FieldInsn op (MemberIndex i) \<and> member_denotes cp (\<lambda>x i. cp_field_ref cp i = Inr x) m i)
      | MethodInsn op m \<Rightarrow>
          (\<exists>i. member_denotes cp (\<lambda>x i. cp_method_ref cp i = Inr (x, op = 0xB9)) m i \<and>
             r = (if op = 0xB9 then InvokeInterfaceInsn op i (method_ref_interface_count m)
                  else MethodInsn op (MemberIndex i)))
      | LdcInsn _ v \<Rightarrow>
          (\<exists>op i. r = LdcInsn op (LdcIndex i) \<and> ldc_denotes cp v i \<and> ldc_form op i)
      | _ \<Rightarrow> r = insn)"

lemma resolve_field_interns [intern_rules]:
  "pb_interns P (resolve_field_ref m) (\<lambda>cp i. member_denotes cp (\<lambda>x i. cp_field_ref cp i = Inr x) m i)"
  by (cases m) (auto simp: resolve_field_ref_def member_denotes_def intro: intern_rules)

lemma resolve_method_interns [intern_rules]:
  "pb_interns P (resolve_method_ref op m) (\<lambda>cp i. member_denotes cp (\<lambda>x i. cp_method_ref cp i = Inr (x, op = 0xB9)) m i)"
  by (cases m) (auto simp: resolve_method_ref_def member_denotes_def intro: intern_rules)

lemma constant_interns:
  "pb_interns P (pb_integer n) (\<lambda>cp i. cp_ldc_constant cp i = Inr (LdcInteger n))"
  "pb_interns P (pb_float n) (\<lambda>cp i. cp_ldc_constant cp i = Inr (LdcFloat n))"
  "pb_interns P (pb_string s) (\<lambda>cp i. cp_ldc_constant cp i = Inr (LdcString s))"
  "pb_interns P (pb_class s) (\<lambda>cp i. cp_ldc_constant cp i = Inr (LdcClass s))"
  "pb_interns P (pb_method_type s) (\<lambda>cp i. cp_ldc_constant cp i = Inr (LdcMethodType s))"
  unfolding pb_integer_def pb_float_def
  by (rule interns_weaken [OF interns_push TrueI] interns_weaken [OF pb_text_interns(3) TrueI]
      interns_weaken [OF pb_class_interns TrueI] interns_weaken [OF pb_text_interns(4) TrueI];
      auto simp: cp_ldc_constant_def cp_class_name_Inr)+

lemma wide_constant_interns:
  "pb_interns P (pb_long n) (\<lambda>cp i. cp_ldc_constant cp i = Inr (LdcLong n))"
  "pb_interns P (pb_double n) (\<lambda>cp i. cp_ldc_constant cp i = Inr (LdcDouble n))"
  unfolding pb_long_def pb_double_def
  by (intro interns_bind [OF interns_push] interns_bind [OF interns_discard [OF interns_push]] interns_ret,
      simp add: cp_ldc_constant_def)+

lemma resolve_ldc_interns:
  "pb_interns P (resolve_ldc v)
     (\<lambda>cp (op, i). ldc_denotes cp v i \<and> ldc_form op i)"
  by (cases v; (rename_tac t, case_tac t)?)
    (auto simp: resolve_ldc_def ldc_denotes_def
      intro!: interns_bind [OF constant_interns(1)] interns_bind [OF constant_interns(2)]
        interns_bind [OF constant_interns(3)] interns_bind [OF constant_interns(4)]
        interns_bind [OF constant_interns(5)] interns_bind [OF wide_constant_interns(1)]
        interns_bind [OF wide_constant_interns(2)] interns_ret)

lemma emit_insn_interns:
  "pb_interns P (emit_insn off insn)
     (\<lambda>cp (bs, r). operand_of cp insn r \<and> plain r \<and> bs = enc off r)"
proof -
  have ldc: "plain (LdcInsn op (LdcIndex i)) \<and>
      enc off (LdcInsn op (LdcIndex i)) = [op] @ (if op = 0x12 then write_u1 (ucast i) else write_u2 i)"
    if "ldc_form op i" for op i
    using that by (auto simp: ldc_form_def plain_def enc_def)
  show ?thesis
  proof (cases insn)
    case (LdcInsn op v)
    have "pb_interns P (do { (op, index) \<leftarrow> resolve_ldc v;
               ret ([op] @ (if op = 0x12 then write_u1 (ucast index) else write_u2 index),
                    LdcInsn op (LdcIndex index)) })
        (\<lambda>cp (bs, r). operand_of cp insn r \<and> plain r \<and> bs = enc off r)"
    proof (rule interns_bind [OF resolve_ldc_interns])
      fix x :: "u8 \<times> u16"
      obtain op i where x: "x = (op, i)" by fastforce
      show "pb_interns (\<lambda>cp. P cp \<and> (case x of (op, i) \<Rightarrow> ldc_denotes cp v i \<and> ldc_form op i))
          (case x of (op, index) \<Rightarrow>
             ret ([op] @ (if op = 0x12 then write_u1 (ucast index) else write_u2 index), LdcInsn op (LdcIndex index)))
          (\<lambda>cp (bs, r). operand_of cp insn r \<and> plain r \<and> bs = enc off r)"
        unfolding x prod.case by (rule interns_ret) (use ldc in \<open>auto simp: LdcInsn operand_of_def\<close>)
    qed
    thus ?thesis by (simp add: LdcInsn emit_insn_def)
  next
    case (FieldInsn op m)
    thus ?thesis
      by (auto simp: emit_insn_def operand_of_def plain_def enc_def intro!: interns_bind [OF resolve_field_interns] interns_ret)
  next
    case (MethodInsn op m)
    thus ?thesis
      by (auto simp: emit_insn_def operand_of_def plain_def enc_def Let_def
          intro!: interns_bind [OF resolve_method_interns] interns_ret)
  qed (auto simp: emit_insn_def operand_of_def plain_def enc_def intro!: interns_ret)
qed

subsection \<open>Cells\<close>

datatype repair =
    NoFix
  | JumpFix label
  | TableFix label "label list"
  | LookupFix label "(u32 \<times> label) list"

type_synonym cell = "abstract_insn_node \<times> repair"

abbreviation cell_insns :: "cell list \<Rightarrow> insn list" where
  "cell_insns cs \<equiv> insns_of (map fst cs)"

text \<open>What the assembly notes for each node.\<close>

definition cell_for :: "cp_info list \<Rightarrow> abstract_insn_node \<Rightarrow> cell \<Rightarrow> bool" where
  "cell_for cp node c \<longleftrightarrow>
     (case node of
        InsnNode i \<Rightarrow> (\<exists>r. c = (InsnNode r, NoFix) \<and> operand_of cp i r \<and> plain r)
      | JumpLabelNode op t \<Rightarrow> c = (InsnNode (JumpInsn op 0), JumpFix t)
      | TableSwitchLabelNode op d low high ts \<Rightarrow>
          c = (InsnNode (TableSwitchInsn op 0 low high (replicate (length ts) 0)), TableFix d ts)
      | LookupSwitchLabelNode op d pairs \<Rightarrow>
          c = (InsnNode (LookupSwitchInsn op 0 (map (\<lambda>(key, _). (key, 0)) pairs)), LookupFix d pairs)
      | _ \<Rightarrow> c = (node, NoFix))"

text \<open>The instructions with their offsets and their places in the two lists.\<close>

fun spots :: "nat \<Rightarrow> nat \<Rightarrow> nat \<Rightarrow> cell list \<Rightarrow> (nat \<times> nat \<times> nat \<times> insn \<times> repair) list" where
  "spots off k n [] = []"
| "spots off k n ((InsnNode i, x) # cs) =
     (off, k, n, i, x) # spots (off + length (enc off i)) (Suc k) (Suc n) cs"
| "spots off k n (c # cs) = spots off k (Suc n) cs"

fun jump_of :: "nat \<times> nat \<times> nat \<times> insn \<times> repair \<Rightarrow> jump_fixup list" where
  "jump_of (off, k, n, JumpInsn op v, JumpFix t) = [JumpFixup off op t k n]"
| "jump_of _ = []"

fun table_of :: "nat \<times> nat \<times> nat \<times> insn \<times> repair \<Rightarrow> table_switch_fixup list" where
  "table_of (off, k, n, TableSwitchInsn op d low high vs, TableFix t ts) =
     (let p = off + 1 + switch_padding off
      in [TableSwitchFixup off t p ts (map (\<lambda>j. p + 12 + 4 * j) [0..<length ts]) low high k n])"
| "table_of _ = []"

fun lookup_of :: "nat \<times> nat \<times> nat \<times> insn \<times> repair \<Rightarrow> lookup_switch_fixup list" where
  "lookup_of (off, k, n, LookupSwitchInsn op d vs, LookupFix t pairs) =
     (let p = off + 1 + switch_padding off
      in [LookupSwitchFixup off t p pairs (map (\<lambda>j. p + 12 + 8 * j) [0..<length pairs]) k n])"
| "lookup_of _ = []"

fun labels_of :: "nat \<Rightarrow> cell list \<Rightarrow> (label \<rightharpoonup> u16) \<Rightarrow> (label \<rightharpoonup> u16)" where
  "labels_of off [] m = m"
| "labels_of off ((LabelNode l, x) # cs) m =
     labels_of off cs (if off \<le> 0xFFFF then m(l \<mapsto> word_of_nat off) else m)"
| "labels_of off ((InsnNode i, x) # cs) m = labels_of (off + length (enc off i)) cs m"
| "labels_of off (c # cs) m = labels_of off cs m"

abbreviation code_end :: "cell list \<Rightarrow> nat" where
  "code_end cs \<equiv> length (enc_list 0 (cell_insns cs))"

definition coded :: "assembly \<Rightarrow> cell list \<Rightarrow> bool" where
  "coded a cs \<longleftrightarrow>
     as_nodes a = map fst cs \<and> as_insns a = cell_insns cs \<and> as_code a = enc_list 0 (cell_insns cs)"

definition assembled :: "assembly \<Rightarrow> cell list \<Rightarrow> bool" where
  "assembled a cs \<longleftrightarrow>
     coded a cs \<and> as_labels a = labels_of 0 cs Map.empty \<and>
     as_jumps a = concat (map jump_of (spots 0 0 0 cs)) \<and>
     as_tables a = concat (map table_of (spots 0 0 0 cs)) \<and>
     as_lookups a = concat (map lookup_of (spots 0 0 0 cs))"

lemma spots_append:
  "spots off k n (xs @ ys) =
     spots off k n xs @
     spots (off + length (enc_list off (cell_insns xs))) (k + length (cell_insns xs)) (n + length xs) ys"
  by (induction off k n xs rule: spots.induct) (simp_all add: add.assoc)

lemma labels_of_append:
  "labels_of off (xs @ ys) m = labels_of (off + length (enc_list off (cell_insns xs))) ys (labels_of off xs m)"
  by (induction off xs m rule: labels_of.induct) (simp_all add: add.assoc)

text \<open>Emitting a node adds its cell.\<close>

lemma assembled_node:
  assumes "assembled a cs" and "emits = enc (length (as_code a)) r"
  shows "assembled (append_insn emits r a) (cs @ [(InsnNode r, NoFix)])"
  using assms
  by (auto simp: assembled_def coded_def append_insn_def enc_list_append spots_append labels_of_append)

lemma assembled_label: "assembled a cs \<Longrightarrow> assembled (emit_label l a) (cs @ [(LabelNode l, NoFix)])"
  by (auto simp: assembled_def coded_def emit_label_def Let_def enc_list_append spots_append labels_of_append
     )

lemma assembled_line:
  "assembled a cs \<Longrightarrow>
   assembled (a\<lparr>as_lines := as_lines a @ [(line, l)], as_nodes := as_nodes a @ [LineNumberNode line l]\<rparr>)
     (cs @ [(LineNumberNode line l, NoFix)])"
  by (auto simp: assembled_def coded_def enc_list_append spots_append labels_of_append)

lemma assembled_jump:
  "assembled a cs \<Longrightarrow> assembled (emit_jump op t a) (cs @ [(InsnNode (JumpInsn op 0), JumpFix t)])"
  by (auto simp: assembled_def coded_def emit_jump_def append_insn_def Let_def enc_list_append spots_append
      labels_of_append enc_jump)

lemma map_const_replicate: "map (\<lambda>_. y) xs = replicate (length xs) y"
  by (induction xs) simp_all

lemma assembled_table:
  "assembled a cs \<Longrightarrow>
   assembled (emit_table_switch op d low high ts a)
     (cs @ [(InsnNode (TableSwitchInsn op 0 low high (replicate (length ts) 0)), TableFix d ts)])"
  by (auto simp: assembled_def coded_def emit_table_switch_def append_insn_def Let_def enc_list_append spots_append
      labels_of_append enc_table map_const_replicate)

lemma assembled_lookup:
  "assembled a cs \<Longrightarrow>
   assembled (emit_lookup_switch op d pairs a)
     (cs @ [(InsnNode (LookupSwitchInsn op 0 (map (\<lambda>(key, _). (key, 0)) pairs)), LookupFix d pairs)])"
  by (auto simp: assembled_def coded_def emit_lookup_switch_def append_insn_def Let_def enc_list_append spots_append
      labels_of_append enc_lookup comp_def split_def)

lemma emit_node_interns:
  "pb_interns P (emit_node node a)
     (\<lambda>cp a'. \<exists>c. cell_for cp node c \<and> (\<forall>cs. assembled a cs \<longrightarrow> assembled a' (cs @ [c])))"
proof (cases node)
  case (InsnNode i)
  have "pb_interns P (do { (bytes, resolved) \<leftarrow> emit_insn (length (as_code a)) i; ret (append_insn bytes resolved a) })
      (\<lambda>cp a'. \<exists>c. cell_for cp node c \<and> (\<forall>cs. assembled a cs \<longrightarrow> assembled a' (cs @ [c])))"
  proof (rule interns_bind [OF emit_insn_interns])
    fix x :: "u8 list \<times> insn"
    obtain bs r where x: "x = (bs, r)" by fastforce
    show "pb_interns (\<lambda>cp. P cp \<and> (case x of (bs, r) \<Rightarrow> operand_of cp i r \<and> plain r \<and> bs = enc (length (as_code a)) r))
        (case x of (bytes, resolved) \<Rightarrow> ret (append_insn bytes resolved a))
        (\<lambda>cp a'. \<exists>c. cell_for cp node c \<and> (\<forall>cs. assembled a cs \<longrightarrow> assembled a' (cs @ [c])))"
      unfolding x prod.case
      by (rule interns_ret) (auto simp: InsnNode cell_for_def intro: assembled_node)
  qed
  thus ?thesis by (simp add: InsnNode emit_node_def)
qed (auto simp: emit_node_def cell_for_def
    intro!: interns_ret assembled_label assembled_line assembled_jump assembled_table assembled_lookup)

lemma emit_nodes_interns:
  "pb_interns P (emit_nodes nodes a)
     (\<lambda>cp a'. \<exists>cs'. list_all2 (cell_for cp) nodes cs' \<and> (\<forall>cs. assembled a cs \<longrightarrow> assembled a' (cs @ cs')))"
proof (induction nodes arbitrary: a P)
  case Nil
  show ?case by (auto intro!: interns_ret)
next
  case (Cons node nodes)
  show ?case unfolding emit_nodes.simps
  proof (rule interns_bind [OF emit_node_interns], rule interns_weaken [OF Cons.IH])
    fix cp a1 a2
    assume "P cp \<and> (\<exists>c. cell_for cp node c \<and> (\<forall>cs. assembled a cs \<longrightarrow> assembled a1 (cs @ [c])))"
      and "\<exists>cs'. list_all2 (cell_for cp) nodes cs' \<and> (\<forall>cs. assembled a1 cs \<longrightarrow> assembled a2 (cs @ cs'))"
    then obtain c cs' where "cell_for cp node c" "\<And>cs. assembled a cs \<Longrightarrow> assembled a1 (cs @ [c])"
      "list_all2 (cell_for cp) nodes cs'" "\<And>cs. assembled a1 cs \<Longrightarrow> assembled a2 (cs @ cs')" by blast
    thus "\<exists>cs'. list_all2 (cell_for cp) (node # nodes) cs' \<and> (\<forall>cs. assembled a cs \<longrightarrow> assembled a2 (cs @ cs'))"
      by (intro exI [of _ "c # cs'"]) (metis append_Cons append_Nil append_assoc list_all2_Cons)
  qed auto
qed

lemma assembled_new: "assembled assembly_new []"
  by (simp add: assembled_def coded_def assembly_new_def)

subsection \<open>Fixing a cell\<close>

text \<open>The instruction a fixup makes, where all labels are known.\<close>

definition place :: "(label \<Rightarrow> u16 option) \<Rightarrow> nat \<Rightarrow> label \<Rightarrow> u32" where
  "place L off t = delta (the (L t)) off"

definition fixed :: "(label \<Rightarrow> u16 option) \<Rightarrow> nat \<Rightarrow> insn \<Rightarrow> repair \<Rightarrow> insn" where
  "fixed L off i x =
     (case (x, i) of
        (JumpFix t, JumpInsn op _) \<Rightarrow> JumpInsn op (place L off t)
      | (TableFix d ts, TableSwitchInsn op _ low high _) \<Rightarrow>
          TableSwitchInsn op (place L off d) low high (map (place L off) ts)
      | (LookupFix d pairs, LookupSwitchInsn op _ _) \<Rightarrow>
          LookupSwitchInsn op (place L off d) (map (\<lambda>(key, t). (key, place L off t)) pairs)
      | _ \<Rightarrow> i)"

fun repair_labels :: "repair \<Rightarrow> label set" where
  "repair_labels NoFix = {}"
| "repair_labels (JumpFix t) = {t}"
| "repair_labels (TableFix d ts) = insert d (set ts)"
| "repair_labels (LookupFix d pairs) = insert d (snd ` set pairs)"

text \<open>A cell as the first pass leaves it, with known labels.\<close>

definition cell_ok :: "(label \<Rightarrow> u16 option) \<Rightarrow> cell \<Rightarrow> bool" where
  "cell_ok L c \<longleftrightarrow>
     (\<forall>t \<in> repair_labels (snd c). L t \<noteq> None) \<and>
     (case snd c of
        NoFix \<Rightarrow> True
      | JumpFix t \<Rightarrow> (\<exists>op. fst c = InsnNode (JumpInsn op 0))
      | TableFix d ts \<Rightarrow> (\<exists>low high. fst c = InsnNode (TableSwitchInsn 0xAA 0 low high (replicate (length ts) 0)))
      | LookupFix d pairs \<Rightarrow> fst c = InsnNode (LookupSwitchInsn 0xAB 0 (map (\<lambda>(key, _). (key, 0)) pairs)))"

lemma length_writes [simp]: "length (write_i2 v) = 2" "length (write_i4 w) = 4"
  by (simp_all add: write_i2_def write_i4_def)

lemma overwrite_here: "length bs = length cs \<Longrightarrow> overwrite (xs @ bs @ ys) (length xs) cs = xs @ cs @ ys"
  by (simp add: overwrite_def)

lemma overwrite_at: "n = length xs \<Longrightarrow> length bs = length cs \<Longrightarrow> overwrite (xs @ bs @ ys) n cs = xs @ cs @ ys"
  by (simp add: overwrite_here)

text \<open>The zeros of switch targets, each behind a header of \<open>m\<close> bytes, are overwritten in turn.\<close>

lemma fix_targets_writes:
  assumes "\<forall>(h, t) \<in> set items. length h = m \<and> L t \<noteq> None"
    and "ps = map (\<lambda>j. p + (m + 4) * j) [0..<length items]" and "p = length pre + m"
  shows "fix_targets L off (zip (map snd items) ps) (pre @ concat (map (\<lambda>(h, t). h @ write_i4 0) items) @ post) =
    pre @ concat (map (\<lambda>(h, t). h @ write_i4 (place L off t)) items) @ post"
  using assms
proof (induction items arbitrary: pre p ps)
  case (Cons it items)
  obtain h t where it: "it = (h, t)" by fastforce
  with Cons.prems obtain a where h: "length h = m" "L t = Some a" by auto
  have ps: "ps = p # map (\<lambda>j. p + (m + 4) + (m + 4) * j) [0..<length items]"
    using Cons.prems(2) by (simp add: upt_conv_Cons map_Suc_upt [symmetric] comp_def add.assoc del: upt_Suc)
  let ?v = "place L off t" and ?rest = "concat (map (\<lambda>(h, t). h @ write_i4 0) items)"
  have patch: "write_i4_at (pre @ h @ write_i4 0 @ ?rest @ post) p (delta a off) =
      (pre @ h @ write_i4 ?v) @ ?rest @ post"
    unfolding write_i4_at_def
    using overwrite_at [of p "pre @ h" "write_i4 0" "write_i4 ?v" "?rest @ post"] Cons.prems(3) h
    by (simp add: place_def)
  have "fix_targets L off (zip (map snd items) (map (\<lambda>j. p + (m + 4) + (m + 4) * j) [0..<length items]))
      ((pre @ h @ write_i4 ?v) @ ?rest @ post) =
    (pre @ h @ write_i4 ?v) @ concat (map (\<lambda>(h, t). h @ write_i4 (place L off t)) items) @ post"
    using Cons.prems h by (intro Cons.IH) auto
  thus ?case using h patch by (simp add: it ps)
qed simp

lemma fixed_length: "cell_ok L (InsnNode i, x) \<Longrightarrow> length (enc off (fixed L' off' i x)) = length (enc off i)"
  by (cases x) (auto simp: cell_ok_def fixed_def enc_jump enc_table enc_lookup length_concat comp_def split_def
      map_const_replicate)

lemma patched_jump:
  assumes "off = length c"
  shows "is_wide_jump op \<Longrightarrow>
      write_i4_at (c @ enc off (JumpInsn op 0) @ d) (off + 1) v = c @ enc off (JumpInsn op v) @ d"
    and "\<not> is_wide_jump op \<Longrightarrow>
      write_i2_at (c @ enc off (JumpInsn op 0) @ d) (off + 1) (ucast v) = c @ enc off (JumpInsn op v) @ d"
  using overwrite_at [of "off + 1" "c @ [op]" "write_i4 0" "write_i4 v" d]
    overwrite_at [of "off + 1" "c @ [op]" "write_i2 0" "write_i2 (ucast v)" d] assms
  by (simp_all add: enc_jump write_i4_at_def write_i2_at_def)

lemma patched_table:
  assumes "off = length c" and "p = off + 1 + switch_padding off" and "\<forall>t \<in> set ts. L t \<noteq> None"
  shows "fix_targets L off (zip ts (map (\<lambda>j. p + 12 + 4 * j) [0..<length ts]))
      (write_i4_at (c @ enc off (TableSwitchInsn op 0 low high (replicate (length ts) 0)) @ e) p v) =
    c @ enc off (TableSwitchInsn op v low high (map (place L off) ts)) @ e"
proof -
  let ?c = "c @ op # write_switch_padding off" and ?items = "map (Pair ([] :: u8 list)) ts"
  have p: "p = length ?c" using assms by (simp add: write_switch_padding_def)
  have zeros: "concat (replicate (length ts) (write_i4 0)) = concat (map ((\<lambda>(h, t). h @ write_i4 0) \<circ> Pair []) ts)"
    by (induction ts) simp_all
  have "write_i4_at (c @ enc off (TableSwitchInsn op 0 low high (replicate (length ts) 0)) @ e) p v =
      (?c @ write_i4 v @ write_i4 low @ write_i4 high) @ concat (map (\<lambda>(h, t). h @ write_i4 0) ?items) @ e"
    using overwrite_at [OF p, of "write_i4 0" "write_i4 v"]
    by (simp add: enc_table zeros write_i4_at_def)
  moreover have "fix_targets L off (zip (map snd ?items) (map (\<lambda>j. (p + 12) + (0 + 4) * j) [0..<length ?items]))
      ((?c @ write_i4 v @ write_i4 low @ write_i4 high) @ concat (map (\<lambda>(h, t). h @ write_i4 0) ?items) @ e) =
    (?c @ write_i4 v @ write_i4 low @ write_i4 high) @
      concat (map (\<lambda>(h, t). h @ write_i4 (place L off t)) ?items) @ e"
    by (rule fix_targets_writes [OF _ refl]) (use assms(3) p in auto)
  ultimately show ?thesis by (simp add: comp_def enc_table)
qed

lemma patched_lookup:
  assumes "off = length c" and "p = off + 1 + switch_padding off" and "\<forall>t \<in> snd ` set pairs. L t \<noteq> None"
  shows "fix_targets L off (zip (map snd pairs) (map (\<lambda>j. p + 12 + 8 * j) [0..<length pairs]))
      (write_i4_at (c @ enc off (LookupSwitchInsn op 0 (map (\<lambda>(key, _). (key, 0)) pairs)) @ e) p v) =
    c @ enc off (LookupSwitchInsn op v (map (\<lambda>(key, t). (key, place L off t)) pairs)) @ e"
proof -
  let ?c = "c @ op # write_switch_padding off" and ?items = "map (\<lambda>(key, t). (write_i4 key, t)) pairs"
    and ?n = "write_i4 (word_of_nat (length pairs))"
  have p: "p = length ?c" using assms by (simp add: write_switch_padding_def)
  have "write_i4_at (c @ enc off (LookupSwitchInsn op 0 (map (\<lambda>(key, _). (key, 0)) pairs)) @ e) p v =
      (?c @ write_i4 v @ ?n) @ concat (map (\<lambda>(h, t). h @ write_i4 0) ?items) @ e"
    using overwrite_at [OF p, of "write_i4 0" "write_i4 v"]
    by (simp add: enc_lookup write_i4_at_def comp_def split_def)
  moreover have "fix_targets L off (zip (map snd ?items) (map (\<lambda>j. (p + 12) + (4 + 4) * j) [0..<length ?items]))
      ((?c @ write_i4 v @ ?n) @ concat (map (\<lambda>(h, t). h @ write_i4 0) ?items) @ e) =
    (?c @ write_i4 v @ ?n) @ concat (map (\<lambda>(h, t). h @ write_i4 (place L off t)) ?items) @ e"
    by (rule fix_targets_writes [OF _ refl]) (use assms(3) p in auto)
  ultimately show ?thesis by (simp add: comp_def split_def enc_lookup)
qed

text \<open>Resolving the instruction behind the cells \<open>xs\<close>, where its bytes have been replaced.\<close>

lemma resolve_coded:
  assumes "coded a (xs @ (InsnNode i, x) # ys)" and "length (enc (code_end xs) i') = length (enc (code_end xs) i)"
  shows "coded (resolve_at (length (cell_insns xs)) (length xs) i'
      (enc_list 0 (cell_insns xs) @ enc (code_end xs) i' @
       enc_list (code_end xs + length (enc (code_end xs) i)) (cell_insns ys)) a)
    (xs @ (InsnNode i', x) # ys)"
  using assms by (simp add: coded_def resolve_at_def enc_list_append list_update_append_right)

lemma coded_code:
  "coded a (xs @ (InsnNode i, x) # ys) \<Longrightarrow>
   as_code a = enc_list 0 (cell_insns xs) @ enc (code_end xs) i @
     enc_list (code_end xs + length (enc (code_end xs) i)) (cell_insns ys)"
  by (simp add: coded_def enc_list_append)

lemma labels_resolve [simp]: "as_labels (resolve_at k n i code a) = as_labels a"
  by (simp add: resolve_at_def)

text \<open>What a fixup of the cell does; \<open>G\<close> gives the fixups of a spot and \<open>F\<close> applies one.\<close>

definition repairs ::
    "(repair \<Rightarrow> bool) \<Rightarrow> (nat \<times> nat \<times> nat \<times> insn \<times> repair \<Rightarrow> 'f list) \<Rightarrow> ('f \<Rightarrow> assembly \<Rightarrow> assembly) \<Rightarrow> bool" where
  "repairs sel G F \<longleftrightarrow>
     (\<forall>L off k n i x. cell_ok L (InsnNode i, x) \<longrightarrow>
        (\<not> sel x \<longrightarrow> G (off, k, n, i, x) = []) \<and>
        (sel x \<longrightarrow> (\<exists>f. G (off, k, n, i, x) = [f] \<and>
           (\<forall>a xs ys. coded a (xs @ (InsnNode i, x) # ys) \<longrightarrow> as_labels a = L \<longrightarrow> off = code_end xs \<longrightarrow>
              k = length (cell_insns xs) \<longrightarrow> n = length xs \<longrightarrow>
              coded (F f a) (xs @ (InsnNode (fixed L off i x), x) # ys) \<and> as_labels (F f a) = L))))"

lemma repairsI:
  assumes none: "\<And>off k n i x. \<not> sel x \<Longrightarrow> G (off, k, n, i, x) = []"
    and one: "\<And>L off k n i x. cell_ok L (InsnNode i, x) \<Longrightarrow> sel x \<Longrightarrow> \<exists>f. G (off, k, n, i, x) = [f] \<and>
      (\<forall>a c d. as_labels a = L \<longrightarrow> as_code a = c @ enc off i @ d \<longrightarrow> length c = off \<longrightarrow>
         F f a = resolve_at k n (fixed L off i x) (c @ enc off (fixed L off i x) @ d) a)"
  shows "repairs sel G F"
  unfolding repairs_def
proof (intro allI impI conjI none)
  fix L off k n i x assume ok: "cell_ok L (InsnNode i, x)" and "sel x"
  then obtain f where f: "G (off, k, n, i, x) = [f]" and F: "\<And>a c d. as_labels a = L \<Longrightarrow>
      as_code a = c @ enc off i @ d \<Longrightarrow> length c = off \<Longrightarrow>
      F f a = resolve_at k n (fixed L off i x) (c @ enc off (fixed L off i x) @ d) a"
    using one by blast
  have "coded (F f a) (xs @ (InsnNode (fixed L off i x), x) # ys) \<and> as_labels (F f a) = L"
    if a: "coded a (xs @ (InsnNode i, x) # ys)" "as_labels a = L" "off = code_end xs"
      "k = length (cell_insns xs)" "n = length xs" for a xs ys
  proof -
    have "F f a = resolve_at k n (fixed L off i x) (enc_list 0 (cell_insns xs) @ enc off (fixed L off i x) @
        enc_list (off + length (enc off i)) (cell_insns ys)) a"
      using coded_code [OF a(1)] a by (intro F) simp_all
    thus ?thesis using resolve_coded [OF a(1) fixed_length [OF ok]] a by simp
  qed
  with f show "\<exists>f. G (off, k, n, i, x) = [f] \<and>
      (\<forall>a xs ys. coded a (xs @ (InsnNode i, x) # ys) \<longrightarrow> as_labels a = L \<longrightarrow> off = code_end xs \<longrightarrow>
         k = length (cell_insns xs) \<longrightarrow> n = length xs \<longrightarrow>
         coded (F f a) (xs @ (InsnNode (fixed L off i x), x) # ys) \<and> as_labels (F f a) = L)" by blast
qed

lemma repairs_jump: "repairs (\<lambda>x. \<exists>t. x = JumpFix t) jump_of fix_jump"
proof (rule repairsI)
  show "jump_of (off, k, n, i, x) = []" if "\<not> (\<exists>t. x = JumpFix t)" for off k n i x
    using that by (cases x; cases i) simp_all
  fix L off k n i x assume "cell_ok L (InsnNode i, x)" and "\<exists>t. x = JumpFix t"
  then obtain t op b where x: "x = JumpFix t" "i = JumpInsn op 0" "L t = Some b"
    by (auto simp: cell_ok_def)
  have "delta b off = place L off t" by (simp add: place_def x(3))
  thus "\<exists>f. jump_of (off, k, n, i, x) = [f] \<and>
      (\<forall>a c d. as_labels a = L \<longrightarrow> as_code a = c @ enc off i @ d \<longrightarrow> length c = off \<longrightarrow>
         fix_jump f a = resolve_at k n (fixed L off i x) (c @ enc off (fixed L off i x) @ d) a)"
    using x patched_jump [of off] by (auto simp: fix_jump_def fixed_def Let_def simp del: One_nat_def)
qed

lemma target_offsets_known: "\<forall>t \<in> set ts. L t \<noteq> None \<Longrightarrow> target_offsets L off ts = map (place L off) ts"
  by (induction ts) (auto simp: target_offsets_def place_def)

lemma target_pairs_known:
  "\<forall>t \<in> snd ` set pairs. L t \<noteq> None \<Longrightarrow> target_pairs L off pairs = map (\<lambda>(key, t). (key, place L off t)) pairs"
  by (induction pairs) (auto simp: target_pairs_def place_def)

lemma repairs_table: "repairs (\<lambda>x. \<exists>d ts. x = TableFix d ts) table_of fix_table"
proof (rule repairsI)
  show "table_of (off, k, n, i, x) = []" if "\<not> (\<exists>d ts. x = TableFix d ts)" for off k n i x
    using that by (cases x; cases i) simp_all
  fix L off k n i x assume "cell_ok L (InsnNode i, x)" and "\<exists>d ts. x = TableFix d ts"
  then obtain d ts low high b where x: "x = TableFix d ts"
      "i = TableSwitchInsn 0xAA 0 low high (replicate (length ts) 0)" "L d = Some b" "\<forall>t \<in> set ts. L t \<noteq> None"
    by (auto simp: cell_ok_def)
  have "delta b off = place L off d" by (simp add: place_def x(3))
  thus "\<exists>f. table_of (off, k, n, i, x) = [f] \<and>
      (\<forall>a c d. as_labels a = L \<longrightarrow> as_code a = c @ enc off i @ d \<longrightarrow> length c = off \<longrightarrow>
         fix_table f a = resolve_at k n (fixed L off i x) (c @ enc off (fixed L off i x) @ d) a)"
    using x patched_table [OF _ refl x(4), of off] target_offsets_known [OF x(4)]
    by (auto simp: fix_table_def fixed_def Let_def)
qed

lemma repairs_lookup: "repairs (\<lambda>x. \<exists>d pairs. x = LookupFix d pairs) lookup_of fix_lookup"
proof (rule repairsI)
  show "lookup_of (off, k, n, i, x) = []" if "\<not> (\<exists>d pairs. x = LookupFix d pairs)" for off k n i x
    using that by (cases x; cases i) simp_all
  fix L off k n i x assume "cell_ok L (InsnNode i, x)" and "\<exists>d pairs. x = LookupFix d pairs"
  then obtain d pairs b where x: "x = LookupFix d pairs"
      "i = LookupSwitchInsn 0xAB 0 (map (\<lambda>(key, _). (key, 0)) pairs)" "L d = Some b"
      "\<forall>t \<in> snd ` set pairs. L t \<noteq> None"
    by (auto simp: cell_ok_def)
  have "delta b off = place L off d" by (simp add: place_def x(3))
  thus "\<exists>f. lookup_of (off, k, n, i, x) = [f] \<and>
      (\<forall>a c d. as_labels a = L \<longrightarrow> as_code a = c @ enc off i @ d \<longrightarrow> length c = off \<longrightarrow>
         fix_lookup f a = resolve_at k n (fixed L off i x) (c @ enc off (fixed L off i x) @ d) a)"
    using x patched_lookup [OF _ refl x(4), of off] target_pairs_known [OF x(4)]
    by (auto simp: fix_lookup_def fixed_def Let_def)
qed

subsection \<open>The fixup loops\<close>

text \<open>The cells with those of the kinds \<open>sel\<close> fixed.\<close>

fun fix_cells :: "(repair \<Rightarrow> bool) \<Rightarrow> (label \<Rightarrow> u16 option) \<Rightarrow> nat \<Rightarrow> cell list \<Rightarrow> cell list" where
  "fix_cells sel L off [] = []"
| "fix_cells sel L off ((InsnNode i, x) # cs) =
     (InsnNode (if sel x then fixed L off i x else i), x) # fix_cells sel L (off + length (enc off i)) cs"
| "fix_cells sel L off (c # cs) = c # fix_cells sel L off cs"

lemma fix_cells_append:
  "fix_cells sel L off (xs @ ys) =
     fix_cells sel L off xs @ fix_cells sel L (off + length (enc_list off (cell_insns xs))) ys"
  by (induction sel L off xs rule: fix_cells.induct) (simp_all add: add.assoc)

lemma length_fix_cells [simp]: "length (fix_cells sel L off cs) = length cs"
  by (induction sel L off cs rule: fix_cells.induct) simp_all

lemma length_fixed_insns [simp]: "length (cell_insns (fix_cells sel L off cs)) = length (cell_insns cs)"
  by (induction sel L off cs rule: fix_cells.induct) simp_all

lemma fix_cells_end:
  "list_all (cell_ok L') cs \<Longrightarrow>
   length (enc_list off (cell_insns (fix_cells sel L off cs))) = length (enc_list off (cell_insns cs))"
proof (induction sel L off cs rule: fix_cells.induct)
  case (2 sel L off i x cs)
  hence "length (enc off (if sel x then fixed L off i x else i)) = length (enc off i)"
    using fixed_length [of L' i x off L off] by simp
  with 2 show ?case by simp
qed simp_all

lemma fix_cells_none: "fix_cells (\<lambda>_. False) L off cs = cs"
  by (induction "\<lambda>_ :: repair. False" L off cs rule: fix_cells.induct) simp_all

lemma fixup_loop:
  assumes "repairs sel G F" and "\<And>x. sel x \<Longrightarrow> \<not> past x" and "list_all (cell_ok L) (xs @ ys)"
    and "coded a (fix_cells (\<lambda>x. past x \<or> sel x) L 0 xs @ fix_cells past L (code_end xs) ys)" and "as_labels a = L"
  shows "coded (fold F (concat (map G (spots (code_end xs) (length (cell_insns xs)) (length xs) ys))) a)
      (fix_cells (\<lambda>x. past x \<or> sel x) L 0 (xs @ ys)) \<and>
    as_labels (fold F (concat (map G (spots (code_end xs) (length (cell_insns xs)) (length xs) ys))) a) = L"
  using assms(3-5)
proof (induction ys arbitrary: xs a)
  case (Cons c ys)
  let ?all = "\<lambda>x. past x \<or> sel x"
  obtain node x where c: "c = (node, x)" by fastforce
  show ?case
  proof (cases node)
    case (InsnNode i)
    let ?off = "code_end xs" and ?k = "length (cell_insns xs)" and ?n = "length xs"
    let ?i = "if past x then fixed L ?off i x else i" and ?j = "if ?all x then fixed L ?off i x else i"
    let ?ys = "fix_cells past L (?off + length (enc ?off i)) ys"
    have ok: "cell_ok L (InsnNode i, x)" and oks: "list_all (cell_ok L) xs"
      using Cons.prems by (simp_all add: c InsnNode)
    have a: "coded a (fix_cells ?all L 0 xs @ (InsnNode ?i, x) # ?ys)"
      using Cons.prems by (simp add: c InsnNode)
    have "coded (fold F (G (?off, ?k, ?n, i, x)) a) (fix_cells ?all L 0 xs @ (InsnNode ?j, x) # ?ys) \<and>
        as_labels (fold F (G (?off, ?k, ?n, i, x)) a) = L"
    proof (cases "sel x")
      case True
      hence "?i = i" using assms(2) by simp
      from assms(1) ok True obtain f where f: "G (?off, ?k, ?n, i, x) = [f]"
        and F: "\<And>a xs ys. coded a (xs @ (InsnNode i, x) # ys) \<Longrightarrow> as_labels a = L \<Longrightarrow> ?off = code_end xs \<Longrightarrow>
          ?k = length (cell_insns xs) \<Longrightarrow> ?n = length xs \<Longrightarrow>
          coded (F f a) (xs @ (InsnNode (fixed L ?off i x), x) # ys) \<and> as_labels (F f a) = L"
        unfolding repairs_def by blast
      have "coded (F f a) (fix_cells ?all L 0 xs @ (InsnNode (fixed L ?off i x), x) # ?ys) \<and> as_labels (F f a) = L"
        using a \<open>?i = i\<close> Cons.prems(3) fix_cells_end [OF oks, of 0 ?all L] by (intro F) simp_all
      with f have "coded (fold F (G (?off, ?k, ?n, i, x)) a)
          (fix_cells ?all L 0 xs @ (InsnNode (fixed L ?off i x), x) # ?ys) \<and>
        as_labels (fold F (G (?off, ?k, ?n, i, x)) a) = L" by simp
      thus ?thesis using True by simp
    next
      case False
      hence "G (?off, ?k, ?n, i, x) = []" using assms(1) ok unfolding repairs_def by blast
      thus ?thesis using a Cons.prems(3) False by simp
    qed
    moreover have "enc_list ?off [i] = enc ?off i" by simp
    ultimately show ?thesis
      using Cons.IH [of "xs @ [c]" "fold F (G (?off, ?k, ?n, i, x)) a"] Cons.prems(1)
      by (simp add: c InsnNode fix_cells_append enc_list_append)
  qed (use Cons.IH [of "xs @ [c]" a] Cons.prems in \<open>simp_all add: c fix_cells_append enc_list_append\<close>)
qed simp

lemma apply_fixups_cells:
  assumes a: "assembled a cs" and ok: "list_all (cell_ok (as_labels a)) cs"
  shows "coded (apply_fixups a) (fix_cells (\<lambda>_. True) (as_labels a) 0 cs) \<and> as_labels (apply_fixups a) = as_labels a"
proof -
  let ?L = "as_labels a" and ?J = "\<lambda>x. \<exists>t. x = JumpFix t" and ?T = "\<lambda>x. \<exists>d ts. x = TableFix d ts"
    and ?U = "\<lambda>x. \<exists>d pairs. x = LookupFix d pairs"
  let ?a = "fold fix_jump (as_jumps a) a"
  let ?b = "fold fix_table (as_tables a) ?a"
  have lists: "as_jumps a = concat (map jump_of (spots 0 0 0 cs))"
      "as_tables a = concat (map table_of (spots 0 0 0 cs))"
      "as_lookups a = concat (map lookup_of (spots 0 0 0 cs))"
    using a by (simp_all add: assembled_def)
  have disj: "?T x \<Longrightarrow> \<not> ?J x" "?U x \<Longrightarrow> \<not> (?J x \<or> ?T x)" for x by auto
  have "coded a (fix_cells (\<lambda>_. False) ?L 0 cs)" using a by (simp add: assembled_def fix_cells_none)
  hence jumps: "coded ?a (fix_cells ?J ?L 0 cs) \<and> as_labels ?a = ?L"
    using fixup_loop [OF repairs_jump, of "\<lambda>_. False" ?L "[]" cs a] ok by (simp add: lists)
  hence tables: "coded ?b (fix_cells (\<lambda>x. ?J x \<or> ?T x) ?L 0 cs) \<and> as_labels ?b = ?L"
    using fixup_loop [OF repairs_table, of ?J ?L "[]" cs ?a, OF disj(1)] ok by (simp add: lists)
  hence all: "coded (apply_fixups a) (fix_cells (\<lambda>x. (?J x \<or> ?T x) \<or> ?U x) ?L 0 cs) \<and>
      as_labels (apply_fixups a) = ?L"
    using fixup_loop [OF repairs_lookup, of "\<lambda>x. ?J x \<or> ?T x" ?L "[]" cs ?b, OF disj(2)] ok
    by (simp add: lists apply_fixups_def)
  have "fix_cells (\<lambda>x. (?J x \<or> ?T x) \<or> ?U x) ?L off cs = fix_cells (\<lambda>_. True) ?L off cs" for off
  proof (induction "\<lambda>_ :: repair. True" ?L off cs rule: fix_cells.induct)
    case (2 off i x cs)
    have "(?J x \<or> ?T x) \<or> ?U x \<or> fixed ?L off i x = i" by (cases x) (auto simp: fixed_def)
    with 2 show ?case by auto
  qed simp_all
  with all show ?thesis by simp
qed

subsection \<open>The code that is built\<close>

fun defined_labels :: "abstract_insn_node list \<Rightarrow> label list" where
  "defined_labels [] = []"
| "defined_labels (LabelNode l # ns) = l # defined_labels ns"
| "defined_labels (_ # ns) = defined_labels ns"

fun node_targets :: "abstract_insn_node \<Rightarrow> label list" where
  "node_targets (JumpLabelNode op t) = [t]"
| "node_targets (TableSwitchLabelNode op d low high ts) = d # ts"
| "node_targets (LookupSwitchLabelNode op d pairs) = d # map snd pairs"
| "node_targets _ = []"

fun switch_opcode_ok :: "abstract_insn_node \<Rightarrow> bool" where
  "switch_opcode_ok (TableSwitchLabelNode op d low high ts) = (op = 0xAA)"
| "switch_opcode_ok (LookupSwitchLabelNode op d pairs) = (op = 0xAB)"
| "switch_opcode_ok _ = True"

text \<open>Every label is placed once and every target is placed.\<close>

definition nodes_ok :: "abstract_insn_node list \<Rightarrow> bool" where
  "nodes_ok ns \<longleftrightarrow> distinct (defined_labels ns) \<and> list_all switch_opcode_ok ns \<and>
     (\<forall>n \<in> set ns. set (node_targets n) \<subseteq> set (defined_labels ns))"

text \<open>
  The instructions that nodes stand for, from an offset on: each label is the offset of what
  follows it, each jump and switch has the distances to its targets, all other operands are
  resolved.
\<close>

definition resolved_node :: "cp_info list \<Rightarrow> (label \<Rightarrow> u16 option) \<Rightarrow> nat \<Rightarrow> abstract_insn_node \<Rightarrow> insn \<Rightarrow> bool" where
  "resolved_node cp L off node r \<longleftrightarrow>
     (case node of
        InsnNode i \<Rightarrow> operand_of cp i r
      | JumpLabelNode op t \<Rightarrow> r = JumpInsn op (place L off t)
      | TableSwitchLabelNode op d low high ts \<Rightarrow>
          r = TableSwitchInsn op (place L off d) low high (map (place L off) ts)
      | LookupSwitchLabelNode op d pairs \<Rightarrow>
          r = LookupSwitchInsn op (place L off d) (map (\<lambda>(key, t). (key, place L off t)) pairs)
      | _ \<Rightarrow> False)"

fun resolves ::
    "cp_info list \<Rightarrow> (label \<Rightarrow> u16 option) \<Rightarrow> nat \<Rightarrow> abstract_insn_node list \<Rightarrow> insn list \<Rightarrow> bool" where
  "resolves cp L off [] is \<longleftrightarrow> is = []"
| "resolves cp L off (LabelNode l # ns) is \<longleftrightarrow> L l = Some (word_of_nat off) \<and> resolves cp L off ns is"
| "resolves cp L off (LineNumberNode line l # ns) is \<longleftrightarrow> resolves cp L off ns is"
| "resolves cp L off (n # ns) is \<longleftrightarrow>
     (case is of
        [] \<Rightarrow> False
      | r # rs \<Rightarrow> resolved_node cp L off n r \<and> resolves cp L (off + length (enc off r)) ns rs)"

lemma labels_of_other: "l \<notin> set (defined_labels (map fst cs)) \<Longrightarrow> labels_of off cs m l = m l"
  by (induction off cs m rule: labels_of.induct) auto

lemma labels_of_keeps: "m l \<noteq> None \<Longrightarrow> labels_of off cs m l \<noteq> None"
  by (induction off cs m rule: labels_of.induct) auto

lemma labels_of_known:
  "l \<in> set (defined_labels (map fst cs)) \<Longrightarrow> off + length (enc_list off (cell_insns cs)) \<le> 0xFFFF \<Longrightarrow>
   labels_of off cs m l \<noteq> None"
proof (induction off cs m rule: labels_of.induct)
  case (2 off la x cs m)
  let ?m = "if off \<le> 0xFFFF then m(la \<mapsto> word_of_nat off) else m"
  have "?m la \<noteq> None" using 2(3) by simp
  hence "labels_of off cs ?m la \<noteq> None" by (rule labels_of_keeps)
  moreover have "labels_of off cs ?m l \<noteq> None" if "l \<noteq> la"
    by (rule 2(1)) (use that 2(2,3) in simp_all)
  ultimately have "labels_of off cs ?m l \<noteq> None" by (cases "l = la") simp_all
  thus ?case by simp
qed simp_all

lemma cells_labels: "list_all2 (cell_for cp) ns cs \<Longrightarrow> defined_labels (map fst cs) = defined_labels ns"
proof (induction ns cs rule: list_all2_induct)
  case (Cons n ns c cs)
  thus ?case by (cases n) (auto simp: cell_for_def)
qed simp

lemma cell_ok_for:
  assumes "cell_for cp n c" and "switch_opcode_ok n" and "\<forall>t \<in> set (node_targets n). L t \<noteq> None"
  shows "cell_ok L c"
  using assms by (cases n) (auto simp: cell_for_def cell_ok_def)

lemma cells_ok:
  assumes cells: "list_all2 (cell_for cp) ns cs" and ns: "nodes_ok ns" and small: "code_end cs \<le> 0xFFFF"
  shows "list_all (cell_ok (labels_of 0 cs Map.empty)) cs"
proof -
  have known: "labels_of 0 cs Map.empty l \<noteq> None" if "l \<in> set (defined_labels ns)" for l
    using labels_of_known [of l cs 0] that small cells_labels [OF cells] by simp
  show ?thesis unfolding list_all_length
  proof (intro allI impI)
    fix k assume k: "k < length cs"
    hence k': "k < length ns" using list_all2_lengthD [OF cells] by simp
    hence "set (node_targets (ns ! k)) \<subseteq> set (defined_labels ns)" using ns by (simp add: nodes_ok_def)
    with known have "\<forall>t \<in> set (node_targets (ns ! k)). labels_of 0 cs Map.empty t \<noteq> None" by blast
    moreover have "switch_opcode_ok (ns ! k)" using ns k' by (simp add: nodes_ok_def list_all_length)
    ultimately show "cell_ok (labels_of 0 cs Map.empty) (cs ! k)"
      using cell_ok_for list_all2_nthD2 [OF cells k] by blast
  qed
qed

lemma cells_resolve:
  assumes "list_all2 (cell_for cp) ns ys" and "L = labels_of 0 (xs @ ys) Map.empty"
    and "distinct (defined_labels ns)" and "code_end (xs @ ys) \<le> 0xFFFF" and "list_all (cell_ok L) ys"
  shows "resolves cp L (code_end xs) ns (cell_insns (fix_cells (\<lambda>_. True) L (code_end xs) ys))"
  using assms
proof (induction ns ys arbitrary: xs rule: list_all2_induct)
  case (Cons n ns c ys)
  have small: "code_end ((xs @ [c]) @ ys) \<le> 0xFFFF" using Cons.prems(3) by simp
  have distinct: "distinct (defined_labels ns)" using Cons.prems(2) by (cases n) simp_all
  have IH: "resolves cp L (code_end (xs @ [c])) ns (cell_insns (fix_cells (\<lambda>_. True) L (code_end (xs @ [c])) ys))"
    using Cons.prems distinct by (intro Cons.IH) simp_all
  show ?case
  proof (cases "\<exists>i. fst c = InsnNode i")
    case True
    then obtain i x where c: "c = (InsnNode i, x)" by (cases c) auto
    have "length (enc (code_end xs) (fixed L (code_end xs) i x)) = length (enc (code_end xs) i)"
      using fixed_length [of L i x] Cons.prems(4) by (simp add: c)
    with IH Cons.hyps(1) show ?thesis
      by (cases n) (auto simp: c cell_for_def resolved_node_def fixed_def enc_list_append comp_def split_def)
  next
    case False
    show ?thesis
    proof (cases n)
      case (LabelNode l)
      hence c: "c = (LabelNode l, NoFix)" using Cons.hyps(1) by (simp add: cell_for_def)
      have "l \<notin> set (defined_labels (map fst ys))"
        using Cons.prems(2) cells_labels [OF Cons.hyps(2)] by (simp add: LabelNode)
      moreover have "code_end xs \<le> 0xFFFF" using Cons.prems(3) by (simp add: enc_list_append)
      ultimately have "L l = Some (word_of_nat (code_end xs))"
        using Cons.prems(1) by (simp add: c labels_of_append labels_of_other)
      thus ?thesis using IH by (simp add: LabelNode c enc_list_append)
    qed (use False Cons.hyps(1) IH in \<open>auto simp: cell_for_def enc_list_append\<close>)
  qed
qed simp

lemma fixed_plain: "plain i \<Longrightarrow> plain (fixed L off i x)"
  by (cases x; cases i) (simp_all add: fixed_def)

lemma cells_plain:
  "list_all2 (cell_for cp) ns cs \<Longrightarrow> list_all plain (cell_insns (fix_cells sel L off cs))"
proof (induction ns cs arbitrary: off rule: list_all2_induct)
  case (Cons n ns c cs)
  thus ?case by (cases n) (auto simp: cell_for_def fixed_plain)
qed simp

lemma build_blocks_interns: "pb_interns P (build_blocks L ps) (\<lambda>_ _. True)"
proof (induction ps arbitrary: P)
  case (Cons p ps)
  have name: "pb_interns P (case block_type p of None \<Rightarrow> ret 0 | Some name \<Rightarrow> pb_class name) (\<lambda>_ _. True)"
    by (auto split: option.split intro: interns_ret interns_weaken [OF pb_class_interns])
  show ?case
  proof (cases "L (block_start p) = None \<or> L (block_end p) = None \<or> L (block_handler p) = None")
    case True
    hence "build_blocks L (p # ps) = build_blocks L ps" by (auto split: option.split)
    thus ?thesis using Cons by simp
  next
    case False
    then obtain s e h where "L (block_start p) = Some s" "L (block_end p) = Some e" "L (block_handler p) = Some h"
      by auto
    thus ?thesis by (simp, intro interns_bind [OF name] interns_bind [OF Cons] interns_ret) simp
  qed
qed (simp add: interns_ret)

text \<open>Fixing never shortens the code.\<close>

lemma overwrite_longer: "length code \<le> length (overwrite code n bs)"
  by (simp add: overwrite_def)

lemma fix_targets_longer: "length code \<le> length (fix_targets L off ts code)"
proof (induction ts arbitrary: code)
  case (Cons t ts)
  thus ?case using overwrite_longer order_trans by (auto simp: write_i4_at_def split: option.split) blast
qed simp

lemma fold_longer:
  assumes "\<And>f a. length (as_code a) \<le> length (as_code (F f a))"
  shows "length (as_code a) \<le> length (as_code (fold F fs a))"
  by (induction fs arbitrary: a) (auto intro: order_trans [OF assms])

lemma apply_fixups_longer: "length (as_code a) \<le> length (as_code (apply_fixups a))"
proof -
  have "length (as_code a) \<le> length (as_code (fix_jump f a))" for f a
    by (auto simp: fix_jump_def Let_def resolve_at_def write_i4_at_def write_i2_at_def overwrite_longer split: option.split)
  moreover have "length (as_code a) \<le> length (as_code (fix_table f a))" for f a
    by (auto simp: fix_table_def Let_def resolve_at_def write_i4_at_def split: option.split
        intro!: order_trans [OF overwrite_longer fix_targets_longer])
  moreover have "length (as_code a) \<le> length (as_code (fix_lookup f a))" for f a
    by (auto simp: fix_lookup_def Let_def resolve_at_def write_i4_at_def split: option.split
        intro!: order_trans [OF overwrite_longer fix_targets_longer])
  ultimately show ?thesis unfolding apply_fixups_def
    using fold_longer [of fix_jump] fold_longer [of fix_table] fold_longer [of fix_lookup] order_trans by metis
qed

theorem built_code:
  "pb_interns P (build_code body) (\<lambda>cp attr.
     nodes_ok (cb_insns body) \<longrightarrow> length (code_bytes attr) \<le> 0xFFFF \<longrightarrow>
     (\<exists>L. resolves cp L 0 (cb_insns body) (code_instructions attr)) \<and>
     insns_of (code_nodes attr) = code_instructions attr \<and>
     build_code_from_insn_list (code_instructions attr) = Inr (code_bytes attr, code_instructions attr))"
  (is "pb_interns P _ ?built")
  unfolding build_code_def Let_def
proof (intro interns_bind [OF emit_nodes_interns] interns_bind [OF build_blocks_interns] interns_ret)
  fix a blocks cp
  let ?attr = "CodeAttribute (cb_max_stack body) (cb_max_locals body) (as_code (apply_fixups a))
      (as_insns (apply_fixups a)) (as_nodes (apply_fixups a)) (cb_exception_table body @ map fst blocks)
      (map snd blocks) (cb_attributes body @
        (if line_entries (as_labels (apply_fixups a)) (as_lines (apply_fixups a)) = [] then []
         else [LineNumberTable (line_entries (as_labels (apply_fixups a)) (as_lines (apply_fixups a)))]))"
  assume "(P cp \<and> (\<exists>cs'. list_all2 (cell_for cp) (cb_insns body) cs' \<and>
      (\<forall>cs. assembled assembly_new cs \<longrightarrow> assembled a (cs @ cs')))) \<and> True"
  then obtain cs where cells: "list_all2 (cell_for cp) (cb_insns body) cs" and a: "assembled a cs"
    using assembled_new by auto
  show "?built cp ?attr"
  proof (intro impI)
    assume ok: "nodes_ok (cb_insns body)" and small: "length (code_bytes ?attr) \<le> 0xFFFF"
    have L: "as_labels a = labels_of 0 cs Map.empty" using a by (simp add: assembled_def)
    have fits: "code_end cs \<le> 0xFFFF"
      using small apply_fixups_longer [of a] a by (simp add: assembled_def coded_def)
    hence all: "list_all (cell_ok (as_labels a)) cs"
      using cells_ok [OF cells ok] L by simp
    have coded: "coded (apply_fixups a) (fix_cells (\<lambda>_. True) (as_labels a) 0 cs)"
      using apply_fixups_cells [OF a all] by simp
    have "resolves cp (as_labels a) 0 (cb_insns body) (as_insns (apply_fixups a))"
      using cells_resolve [OF cells, of "as_labels a" "[]"] L ok fits all coded
      by (simp add: nodes_ok_def coded_def)
    thus "(\<exists>L. resolves cp L 0 (cb_insns body) (code_instructions ?attr)) \<and>
      insns_of (code_nodes ?attr) = code_instructions ?attr \<and>
      build_code_from_insn_list (code_instructions ?attr) = Inr (code_bytes ?attr, code_instructions ?attr)"
      using coded emit_plain [of "as_insns (apply_fixups a)" "[]"] cells_plain [OF cells] 
      by (auto simp: coded_def build_code_from_insn_list_def)
  qed
qed

end
