(* ===== verification/Nodes.thy ===== *)
theory Nodes imports Modules begin

text \<open>
  The tree of a class that \<^verbatim>\<open>nodes.rs\<close> declares and all parts of the library exchange.
\<close>

record inner_class_node =
  ic_name :: rust_text
  ic_outer_name :: "rust_text option"
  ic_inner_name :: "rust_text option"
  ic_access :: u16

record field_node =
  fn_access :: u16
  fn_name :: rust_text
  fn_descriptor :: rust_text
  fn_attributes :: "attribute_info list"

record method_node =
  me_access :: u16
  me_name :: rust_text
  me_descriptor :: rust_text
  me_has_code :: bool
  me_max_stack :: u16
  me_max_locals :: u16
  me_instructions :: "insn list"
  me_instruction_offsets :: "u16 list"
  me_insn_nodes :: "abstract_insn_node list"
  me_exception_table :: "exception_table_entry list"
  me_try_catch_blocks :: "try_catch_block list"
  me_line_numbers :: "line_number list"
  me_local_variables :: "local_variable list"
  me_parameters :: "method_parameter list"
  me_exceptions :: "rust_text list"
  me_signature :: "rust_text option"
  me_code_attributes :: "attribute_info list"
  me_attributes :: "attribute_info list"

record record_component_node =
  rc_name :: rust_text
  rc_descriptor :: rust_text
  rc_attributes :: "attribute_info list"

record class_node =
  cn_minor_version :: u16
  cn_major_version :: u16
  cn_access :: u16
  cn_constant_pool :: "cp_info list"
  cn_this_class :: u16
  cn_name :: rust_text
  cn_super_name :: "rust_text option"
  cn_source_file :: "rust_text option"
  cn_interfaces :: "rust_text list"
  cn_interface_indices :: "u16 list"
  cn_fields :: "field_node list"
  cn_methods :: "method_node list"
  cn_attributes :: "attribute_info list"
  cn_inner_classes :: "inner_class_node list"
  cn_outer_class :: rust_text
  cn_module :: "module_node option"
  cn_permitted_subclasses :: "rust_text list"
  cn_record_components :: "record_component_node list"

end
