(* ===== verification/Opcodes.thy ===== *)
theory Opcodes imports ClassBytes begin

text \<open>The opcodes, by the names that \<^verbatim>\<open>opcodes.rs\<close> gives them.\<close>

abbreviation (input) NOP :: u8 where "NOP \<equiv> 0x00"
abbreviation (input) ACONST_NULL :: u8 where "ACONST_NULL \<equiv> 0x01"
abbreviation (input) ICONST_M1 :: u8 where "ICONST_M1 \<equiv> 0x02"
abbreviation (input) ICONST_0 :: u8 where "ICONST_0 \<equiv> 0x03"
abbreviation (input) ICONST_1 :: u8 where "ICONST_1 \<equiv> 0x04"
abbreviation (input) ICONST_2 :: u8 where "ICONST_2 \<equiv> 0x05"
abbreviation (input) ICONST_3 :: u8 where "ICONST_3 \<equiv> 0x06"
abbreviation (input) ICONST_4 :: u8 where "ICONST_4 \<equiv> 0x07"
abbreviation (input) ICONST_5 :: u8 where "ICONST_5 \<equiv> 0x08"
abbreviation (input) LCONST_0 :: u8 where "LCONST_0 \<equiv> 0x09"
abbreviation (input) LCONST_1 :: u8 where "LCONST_1 \<equiv> 0x0A"
abbreviation (input) FCONST_0 :: u8 where "FCONST_0 \<equiv> 0x0B"
abbreviation (input) FCONST_1 :: u8 where "FCONST_1 \<equiv> 0x0C"
abbreviation (input) FCONST_2 :: u8 where "FCONST_2 \<equiv> 0x0D"
abbreviation (input) DCONST_0 :: u8 where "DCONST_0 \<equiv> 0x0E"
abbreviation (input) DCONST_1 :: u8 where "DCONST_1 \<equiv> 0x0F"
abbreviation (input) BIPUSH :: u8 where "BIPUSH \<equiv> 0x10"
abbreviation (input) SIPUSH :: u8 where "SIPUSH \<equiv> 0x11"
abbreviation (input) LDC :: u8 where "LDC \<equiv> 0x12"
abbreviation (input) LDC_W :: u8 where "LDC_W \<equiv> 0x13"
abbreviation (input) LDC2_W :: u8 where "LDC2_W \<equiv> 0x14"
abbreviation (input) ILOAD :: u8 where "ILOAD \<equiv> 0x15"
abbreviation (input) LLOAD :: u8 where "LLOAD \<equiv> 0x16"
abbreviation (input) FLOAD :: u8 where "FLOAD \<equiv> 0x17"
abbreviation (input) DLOAD :: u8 where "DLOAD \<equiv> 0x18"
abbreviation (input) ALOAD :: u8 where "ALOAD \<equiv> 0x19"
abbreviation (input) ILOAD_0 :: u8 where "ILOAD_0 \<equiv> 0x1A"
abbreviation (input) ILOAD_1 :: u8 where "ILOAD_1 \<equiv> 0x1B"
abbreviation (input) ILOAD_2 :: u8 where "ILOAD_2 \<equiv> 0x1C"
abbreviation (input) ILOAD_3 :: u8 where "ILOAD_3 \<equiv> 0x1D"
abbreviation (input) LLOAD_0 :: u8 where "LLOAD_0 \<equiv> 0x1E"
abbreviation (input) LLOAD_1 :: u8 where "LLOAD_1 \<equiv> 0x1F"
abbreviation (input) LLOAD_2 :: u8 where "LLOAD_2 \<equiv> 0x20"
abbreviation (input) LLOAD_3 :: u8 where "LLOAD_3 \<equiv> 0x21"
abbreviation (input) FLOAD_0 :: u8 where "FLOAD_0 \<equiv> 0x22"
abbreviation (input) FLOAD_1 :: u8 where "FLOAD_1 \<equiv> 0x23"
abbreviation (input) FLOAD_2 :: u8 where "FLOAD_2 \<equiv> 0x24"
abbreviation (input) FLOAD_3 :: u8 where "FLOAD_3 \<equiv> 0x25"
abbreviation (input) DLOAD_0 :: u8 where "DLOAD_0 \<equiv> 0x26"
abbreviation (input) DLOAD_1 :: u8 where "DLOAD_1 \<equiv> 0x27"
abbreviation (input) DLOAD_2 :: u8 where "DLOAD_2 \<equiv> 0x28"
abbreviation (input) DLOAD_3 :: u8 where "DLOAD_3 \<equiv> 0x29"
abbreviation (input) ALOAD_0 :: u8 where "ALOAD_0 \<equiv> 0x2A"
abbreviation (input) ALOAD_1 :: u8 where "ALOAD_1 \<equiv> 0x2B"
abbreviation (input) ALOAD_2 :: u8 where "ALOAD_2 \<equiv> 0x2C"
abbreviation (input) ALOAD_3 :: u8 where "ALOAD_3 \<equiv> 0x2D"
abbreviation (input) IALOAD :: u8 where "IALOAD \<equiv> 0x2E"
abbreviation (input) LALOAD :: u8 where "LALOAD \<equiv> 0x2F"
abbreviation (input) FALOAD :: u8 where "FALOAD \<equiv> 0x30"
abbreviation (input) DALOAD :: u8 where "DALOAD \<equiv> 0x31"
abbreviation (input) AALOAD :: u8 where "AALOAD \<equiv> 0x32"
abbreviation (input) BALOAD :: u8 where "BALOAD \<equiv> 0x33"
abbreviation (input) CALOAD :: u8 where "CALOAD \<equiv> 0x34"
abbreviation (input) SALOAD :: u8 where "SALOAD \<equiv> 0x35"
abbreviation (input) ISTORE :: u8 where "ISTORE \<equiv> 0x36"
abbreviation (input) LSTORE :: u8 where "LSTORE \<equiv> 0x37"
abbreviation (input) FSTORE :: u8 where "FSTORE \<equiv> 0x38"
abbreviation (input) DSTORE :: u8 where "DSTORE \<equiv> 0x39"
abbreviation (input) ASTORE :: u8 where "ASTORE \<equiv> 0x3A"
abbreviation (input) ISTORE_0 :: u8 where "ISTORE_0 \<equiv> 0x3B"
abbreviation (input) ISTORE_1 :: u8 where "ISTORE_1 \<equiv> 0x3C"
abbreviation (input) ISTORE_2 :: u8 where "ISTORE_2 \<equiv> 0x3D"
abbreviation (input) ISTORE_3 :: u8 where "ISTORE_3 \<equiv> 0x3E"
abbreviation (input) LSTORE_0 :: u8 where "LSTORE_0 \<equiv> 0x3F"
abbreviation (input) LSTORE_1 :: u8 where "LSTORE_1 \<equiv> 0x40"
abbreviation (input) LSTORE_2 :: u8 where "LSTORE_2 \<equiv> 0x41"
abbreviation (input) LSTORE_3 :: u8 where "LSTORE_3 \<equiv> 0x42"
abbreviation (input) FSTORE_0 :: u8 where "FSTORE_0 \<equiv> 0x43"
abbreviation (input) FSTORE_1 :: u8 where "FSTORE_1 \<equiv> 0x44"
abbreviation (input) FSTORE_2 :: u8 where "FSTORE_2 \<equiv> 0x45"
abbreviation (input) FSTORE_3 :: u8 where "FSTORE_3 \<equiv> 0x46"
abbreviation (input) DSTORE_0 :: u8 where "DSTORE_0 \<equiv> 0x47"
abbreviation (input) DSTORE_1 :: u8 where "DSTORE_1 \<equiv> 0x48"
abbreviation (input) DSTORE_2 :: u8 where "DSTORE_2 \<equiv> 0x49"
abbreviation (input) DSTORE_3 :: u8 where "DSTORE_3 \<equiv> 0x4A"
abbreviation (input) ASTORE_0 :: u8 where "ASTORE_0 \<equiv> 0x4B"
abbreviation (input) ASTORE_1 :: u8 where "ASTORE_1 \<equiv> 0x4C"
abbreviation (input) ASTORE_2 :: u8 where "ASTORE_2 \<equiv> 0x4D"
abbreviation (input) ASTORE_3 :: u8 where "ASTORE_3 \<equiv> 0x4E"
abbreviation (input) IASTORE :: u8 where "IASTORE \<equiv> 0x4F"
abbreviation (input) LASTORE :: u8 where "LASTORE \<equiv> 0x50"
abbreviation (input) FASTORE :: u8 where "FASTORE \<equiv> 0x51"
abbreviation (input) DASTORE :: u8 where "DASTORE \<equiv> 0x52"
abbreviation (input) AASTORE :: u8 where "AASTORE \<equiv> 0x53"
abbreviation (input) BASTORE :: u8 where "BASTORE \<equiv> 0x54"
abbreviation (input) CASTORE :: u8 where "CASTORE \<equiv> 0x55"
abbreviation (input) SASTORE :: u8 where "SASTORE \<equiv> 0x56"
abbreviation (input) POP :: u8 where "POP \<equiv> 0x57"
abbreviation (input) POP2 :: u8 where "POP2 \<equiv> 0x58"
abbreviation (input) DUP :: u8 where "DUP \<equiv> 0x59"
abbreviation (input) DUP_X1 :: u8 where "DUP_X1 \<equiv> 0x5A"
abbreviation (input) DUP_X2 :: u8 where "DUP_X2 \<equiv> 0x5B"
abbreviation (input) DUP2 :: u8 where "DUP2 \<equiv> 0x5C"
abbreviation (input) DUP2_X1 :: u8 where "DUP2_X1 \<equiv> 0x5D"
abbreviation (input) DUP2_X2 :: u8 where "DUP2_X2 \<equiv> 0x5E"
abbreviation (input) SWAP :: u8 where "SWAP \<equiv> 0x5F"
abbreviation (input) IADD :: u8 where "IADD \<equiv> 0x60"
abbreviation (input) LADD :: u8 where "LADD \<equiv> 0x61"
abbreviation (input) FADD :: u8 where "FADD \<equiv> 0x62"
abbreviation (input) DADD :: u8 where "DADD \<equiv> 0x63"
abbreviation (input) ISUB :: u8 where "ISUB \<equiv> 0x64"
abbreviation (input) LSUB :: u8 where "LSUB \<equiv> 0x65"
abbreviation (input) FSUB :: u8 where "FSUB \<equiv> 0x66"
abbreviation (input) DSUB :: u8 where "DSUB \<equiv> 0x67"
abbreviation (input) IMUL :: u8 where "IMUL \<equiv> 0x68"
abbreviation (input) LMUL :: u8 where "LMUL \<equiv> 0x69"
abbreviation (input) FMUL :: u8 where "FMUL \<equiv> 0x6A"
abbreviation (input) DMUL :: u8 where "DMUL \<equiv> 0x6B"
abbreviation (input) IDIV :: u8 where "IDIV \<equiv> 0x6C"
abbreviation (input) LDIV :: u8 where "LDIV \<equiv> 0x6D"
abbreviation (input) FDIV :: u8 where "FDIV \<equiv> 0x6E"
abbreviation (input) DDIV :: u8 where "DDIV \<equiv> 0x6F"
abbreviation (input) IREM :: u8 where "IREM \<equiv> 0x70"
abbreviation (input) LREM :: u8 where "LREM \<equiv> 0x71"
abbreviation (input) FREM :: u8 where "FREM \<equiv> 0x72"
abbreviation (input) DREM :: u8 where "DREM \<equiv> 0x73"
abbreviation (input) INEG :: u8 where "INEG \<equiv> 0x74"
abbreviation (input) LNEG :: u8 where "LNEG \<equiv> 0x75"
abbreviation (input) FNEG :: u8 where "FNEG \<equiv> 0x76"
abbreviation (input) DNEG :: u8 where "DNEG \<equiv> 0x77"
abbreviation (input) ISHL :: u8 where "ISHL \<equiv> 0x78"
abbreviation (input) LSHL :: u8 where "LSHL \<equiv> 0x79"
abbreviation (input) ISHR :: u8 where "ISHR \<equiv> 0x7A"
abbreviation (input) LSHR :: u8 where "LSHR \<equiv> 0x7B"
abbreviation (input) IUSHR :: u8 where "IUSHR \<equiv> 0x7C"
abbreviation (input) LUSHR :: u8 where "LUSHR \<equiv> 0x7D"
abbreviation (input) IAND :: u8 where "IAND \<equiv> 0x7E"
abbreviation (input) LAND :: u8 where "LAND \<equiv> 0x7F"
abbreviation (input) IOR :: u8 where "IOR \<equiv> 0x80"
abbreviation (input) LOR :: u8 where "LOR \<equiv> 0x81"
abbreviation (input) IXOR :: u8 where "IXOR \<equiv> 0x82"
abbreviation (input) LXOR :: u8 where "LXOR \<equiv> 0x83"
abbreviation (input) IINC :: u8 where "IINC \<equiv> 0x84"
abbreviation (input) I2L :: u8 where "I2L \<equiv> 0x85"
abbreviation (input) I2F :: u8 where "I2F \<equiv> 0x86"
abbreviation (input) I2D :: u8 where "I2D \<equiv> 0x87"
abbreviation (input) L2I :: u8 where "L2I \<equiv> 0x88"
abbreviation (input) L2F :: u8 where "L2F \<equiv> 0x89"
abbreviation (input) L2D :: u8 where "L2D \<equiv> 0x8A"
abbreviation (input) F2I :: u8 where "F2I \<equiv> 0x8B"
abbreviation (input) F2L :: u8 where "F2L \<equiv> 0x8C"
abbreviation (input) F2D :: u8 where "F2D \<equiv> 0x8D"
abbreviation (input) D2I :: u8 where "D2I \<equiv> 0x8E"
abbreviation (input) D2L :: u8 where "D2L \<equiv> 0x8F"
abbreviation (input) D2F :: u8 where "D2F \<equiv> 0x90"
abbreviation (input) I2B :: u8 where "I2B \<equiv> 0x91"
abbreviation (input) I2C :: u8 where "I2C \<equiv> 0x92"
abbreviation (input) I2S :: u8 where "I2S \<equiv> 0x93"
abbreviation (input) LCMP :: u8 where "LCMP \<equiv> 0x94"
abbreviation (input) FCMPL :: u8 where "FCMPL \<equiv> 0x95"
abbreviation (input) FCMPG :: u8 where "FCMPG \<equiv> 0x96"
abbreviation (input) DCMPL :: u8 where "DCMPL \<equiv> 0x97"
abbreviation (input) DCMPG :: u8 where "DCMPG \<equiv> 0x98"
abbreviation (input) IFEQ :: u8 where "IFEQ \<equiv> 0x99"
abbreviation (input) IFNE :: u8 where "IFNE \<equiv> 0x9A"
abbreviation (input) IFLT :: u8 where "IFLT \<equiv> 0x9B"
abbreviation (input) IFGE :: u8 where "IFGE \<equiv> 0x9C"
abbreviation (input) IFGT :: u8 where "IFGT \<equiv> 0x9D"
abbreviation (input) IFLE :: u8 where "IFLE \<equiv> 0x9E"
abbreviation (input) IF_ICMPEQ :: u8 where "IF_ICMPEQ \<equiv> 0x9F"
abbreviation (input) IF_ICMPNE :: u8 where "IF_ICMPNE \<equiv> 0xA0"
abbreviation (input) IF_ICMPLT :: u8 where "IF_ICMPLT \<equiv> 0xA1"
abbreviation (input) IF_ICMPGE :: u8 where "IF_ICMPGE \<equiv> 0xA2"
abbreviation (input) IF_ICMPGT :: u8 where "IF_ICMPGT \<equiv> 0xA3"
abbreviation (input) IF_ICMPLE :: u8 where "IF_ICMPLE \<equiv> 0xA4"
abbreviation (input) IF_ACMPEQ :: u8 where "IF_ACMPEQ \<equiv> 0xA5"
abbreviation (input) IF_ACMPNE :: u8 where "IF_ACMPNE \<equiv> 0xA6"
abbreviation (input) GOTO :: u8 where "GOTO \<equiv> 0xA7"
abbreviation (input) JSR :: u8 where "JSR \<equiv> 0xA8"
abbreviation (input) RET :: u8 where "RET \<equiv> 0xA9"
abbreviation (input) TABLESWITCH :: u8 where "TABLESWITCH \<equiv> 0xAA"
abbreviation (input) LOOKUPSWITCH :: u8 where "LOOKUPSWITCH \<equiv> 0xAB"
abbreviation (input) IRETURN :: u8 where "IRETURN \<equiv> 0xAC"
abbreviation (input) LRETURN :: u8 where "LRETURN \<equiv> 0xAD"
abbreviation (input) FRETURN :: u8 where "FRETURN \<equiv> 0xAE"
abbreviation (input) DRETURN :: u8 where "DRETURN \<equiv> 0xAF"
abbreviation (input) ARETURN :: u8 where "ARETURN \<equiv> 0xB0"
abbreviation (input) RETURN :: u8 where "RETURN \<equiv> 0xB1"
abbreviation (input) GETSTATIC :: u8 where "GETSTATIC \<equiv> 0xB2"
abbreviation (input) PUTSTATIC :: u8 where "PUTSTATIC \<equiv> 0xB3"
abbreviation (input) GETFIELD :: u8 where "GETFIELD \<equiv> 0xB4"
abbreviation (input) PUTFIELD :: u8 where "PUTFIELD \<equiv> 0xB5"
abbreviation (input) INVOKEVIRTUAL :: u8 where "INVOKEVIRTUAL \<equiv> 0xB6"
abbreviation (input) INVOKESPECIAL :: u8 where "INVOKESPECIAL \<equiv> 0xB7"
abbreviation (input) INVOKESTATIC :: u8 where "INVOKESTATIC \<equiv> 0xB8"
abbreviation (input) INVOKEINTERFACE :: u8 where "INVOKEINTERFACE \<equiv> 0xB9"
abbreviation (input) INVOKEDYNAMIC :: u8 where "INVOKEDYNAMIC \<equiv> 0xBA"
abbreviation (input) NEW :: u8 where "NEW \<equiv> 0xBB"
abbreviation (input) NEWARRAY :: u8 where "NEWARRAY \<equiv> 0xBC"
abbreviation (input) ANEWARRAY :: u8 where "ANEWARRAY \<equiv> 0xBD"
abbreviation (input) ARRAYLENGTH :: u8 where "ARRAYLENGTH \<equiv> 0xBE"
abbreviation (input) ATHROW :: u8 where "ATHROW \<equiv> 0xBF"
abbreviation (input) CHECKCAST :: u8 where "CHECKCAST \<equiv> 0xC0"
abbreviation (input) INSTANCEOF :: u8 where "INSTANCEOF \<equiv> 0xC1"
abbreviation (input) MONITORENTER :: u8 where "MONITORENTER \<equiv> 0xC2"
abbreviation (input) MONITOREXIT :: u8 where "MONITOREXIT \<equiv> 0xC3"
abbreviation (input) WIDE :: u8 where "WIDE \<equiv> 0xC4"
abbreviation (input) MULTIANEWARRAY :: u8 where "MULTIANEWARRAY \<equiv> 0xC5"
abbreviation (input) IFNULL :: u8 where "IFNULL \<equiv> 0xC6"
abbreviation (input) IFNONNULL :: u8 where "IFNONNULL \<equiv> 0xC7"
abbreviation (input) GOTO_W :: u8 where "GOTO_W \<equiv> 0xC8"
abbreviation (input) JSR_W :: u8 where "JSR_W \<equiv> 0xC9"
abbreviation (input) BREAKPOINT :: u8 where "BREAKPOINT \<equiv> 0xCA"
abbreviation (input) IMPDEP1 :: u8 where "IMPDEP1 \<equiv> 0xFE"
abbreviation (input) IMPDEP2 :: u8 where "IMPDEP2 \<equiv> 0xFF"

end
