(* ===== verification/FrameTypes.thy ===== *)
theory FrameTypes imports FieldDesc Nodes Opcodes begin

text \<open>
  The types of the frame computation in \<^verbatim>\<open>class_writer.rs\<close> and how they are merged. Merging is not
  associative, but it absorbs: what a frame has taken in stays taken in when more is merged into it.
\<close>

subsection \<open>Types\<close>

datatype frame_type =
    FtTop
  | FtInteger
  | FtFloat
  | FtLong
  | FtDouble
  | FtNull
  | FtUninitializedThis
  | FtObject rust_text
  | FtUninitialized u16

definition is_category2 :: "frame_type \<Rightarrow> bool" where
  "is_category2 t \<longleftrightarrow> t = FtLong \<or> t = FtDouble"

record frame_state =
  fs_locals :: "frame_type list"
  fs_stack :: "frame_type list"

abbreviation java_object :: rust_text where
  "java_object \<equiv> text_of ''java/lang/Object''"

subsection \<open>Superclasses\<close>

definition known_classes :: "(string \<times> string) list" where
  "known_classes =
     [(''java/lang/Throwable'', ''java/lang/Object''),
      (''java/lang/Exception'', ''java/lang/Throwable''),
      (''java/lang/RuntimeException'', ''java/lang/Exception''),
      (''java/lang/IllegalArgumentException'', ''java/lang/RuntimeException''),
      (''java/lang/IllegalStateException'', ''java/lang/RuntimeException''),
      (''java/security/GeneralSecurityException'', ''java/lang/Exception''),
      (''java/security/NoSuchAlgorithmException'', ''java/security/GeneralSecurityException''),
      (''java/security/InvalidKeyException'', ''java/security/GeneralSecurityException''),
      (''javax/crypto/NoSuchPaddingException'', ''java/security/GeneralSecurityException''),
      (''javax/crypto/IllegalBlockSizeException'', ''java/security/GeneralSecurityException''),
      (''javax/crypto/BadPaddingException'', ''java/security/GeneralSecurityException'')]"

definition known_superclass :: "rust_text \<Rightarrow> rust_text option" where
  "known_superclass name = map_of (map (\<lambda>(c, p). (text_of c, text_of p)) known_classes) name"

text \<open>How far a class is from the root of the table; the loops over superclasses end by it.\<close>

definition class_depth :: "rust_text \<Rightarrow> nat" where
  "class_depth name =
     (case map_of (zip (map (text_of \<circ> fst) known_classes) [1, 2, 3, 4, 4, 3, 4, 4, 4, 4, 4]) name of
        None \<Rightarrow> 0
      | Some d \<Rightarrow> d)"

lemma known_superclass_cases:
  assumes "known_superclass c = Some p"
  obtains a b where "c = text_of a" "p = text_of b" "(a, b) \<in> set known_classes"
  using map_of_SomeD [OF assms [unfolded known_superclass_def]] by auto

lemma known_superclass_depth:
  assumes "known_superclass c = Some p"
  shows "class_depth p < class_depth c"
  using assms
proof (rule known_superclass_cases)
  fix a b assume c: "c = text_of a" "p = text_of b" and "(a, b) \<in> set known_classes"
  moreover have "list_all (\<lambda>(a, b). class_depth (text_of b) < class_depth (text_of a)) known_classes"
    by code_simp
  ultimately show ?thesis by (auto simp: list_all_iff)
qed

text \<open>\<^verbatim>\<open>starts_with('[')\<close>\<close>

definition is_array_name :: "rust_text \<Rightarrow> bool" where
  "is_array_name s \<longleftrightarrow> (case s of [] \<Rightarrow> False | c # _ \<Rightarrow> c = ascii CHR ''['')"

lemma known_superclass_no_array:
  assumes "known_superclass c = Some p"
  shows "\<not> is_array_name p"
  using assms
proof (rule known_superclass_cases)
  fix a b assume c: "c = text_of a" "p = text_of b" and "(a, b) \<in> set known_classes"
  moreover have "list_all (\<lambda>(a, b). \<not> is_array_name (text_of b)) known_classes"
    by code_simp
  ultimately show ?thesis by (auto simp: list_all_iff)
qed

function collect_ancestors :: "rust_text \<Rightarrow> rust_text set \<Rightarrow> rust_text set" where
  "collect_ancestors current ancestors =
     (case known_superclass current of
        None \<Rightarrow> ancestors
      | Some parent \<Rightarrow>
          if parent \<in> ancestors then ancestors else collect_ancestors parent (insert parent ancestors))"
  by pat_completeness auto
termination collect_ancestors
  by (relation "measure (class_depth \<circ> fst)") (auto dest: known_superclass_depth)

function first_ancestor :: "rust_text set \<Rightarrow> rust_text \<Rightarrow> rust_text" where
  "first_ancestor ancestors current =
     (case known_superclass current of
        None \<Rightarrow> java_object
      | Some parent \<Rightarrow> if parent \<in> ancestors then parent else first_ancestor ancestors parent)"
  by pat_completeness auto
termination first_ancestor
  by (relation "measure (class_depth \<circ> snd)") (auto dest: known_superclass_depth)

definition common_superclass :: "rust_text \<Rightarrow> rust_text \<Rightarrow> rust_text" where
  "common_superclass left right =
     (if left = right then left
      else if is_array_name left \<or> is_array_name right then java_object
      else let ancestors = insert java_object (collect_ancestors left {left})
           in if right \<in> ancestors then right else first_ancestor ancestors right)"

declare collect_ancestors.simps [simp del] first_ancestor.simps [simp del]

text \<open>A class with its superclasses, and the order they give.\<close>

function supers :: "rust_text \<Rightarrow> rust_text set" where
  "supers c = insert c (case known_superclass c of None \<Rightarrow> {} | Some p \<Rightarrow> supers p)"
  by pat_completeness auto
termination supers
  by (relation "measure class_depth") (auto dest: known_superclass_depth)

declare supers.simps [simp del]

lemma supers_self [simp]: "c \<in> supers c"
  by (subst supers.simps) simp

lemma supers_depth: "x \<in> supers c \<Longrightarrow> x = c \<or> class_depth x < class_depth c"
proof (induction c rule: supers.induct)
  case (1 c)
  thus ?case
    by (subst (asm) (2) supers.simps) (auto split: option.splits dest!: known_superclass_depth)
qed

lemma supers_trans: "x \<in> supers y \<Longrightarrow> y \<in> supers c \<Longrightarrow> x \<in> supers c"
proof (induction c rule: supers.induct)
  case (1 c)
  thus ?case using supers.simps [of c] by (auto split: option.splits)
qed

lemma supers_no_array: "x \<in> supers c \<Longrightarrow> is_array_name x \<Longrightarrow> x = c"
proof (induction c rule: supers.induct)
  case (1 c)
  thus ?case
    by (subst (asm) (2) supers.simps) (auto split: option.splits dest: known_superclass_no_array)
qed

lemma collect_supers:
  "\<forall>x \<in> A. class_depth c \<le> class_depth x \<Longrightarrow> c \<in> A \<Longrightarrow> collect_ancestors c A = A \<union> supers c"
proof (induction c A rule: collect_ancestors.induct)
  case (1 c A)
  show ?case
  proof (cases "known_superclass c")
    case None
    thus ?thesis using 1(3) by (subst collect_ancestors.simps, subst supers.simps) auto
  next
    case (Some p)
    have less: "class_depth p < class_depth c" by (rule known_superclass_depth [OF Some])
    with 1(2) have new: "p \<notin> A" by auto
    have "collect_ancestors p (insert p A) = insert p A \<union> supers p"
      using 1(2) less by (intro 1(1) [OF Some new]) auto
    thus ?thesis
      using 1(3) new Some by (subst collect_ancestors.simps, subst supers.simps) auto
  qed
qed

lemma first_ancestor_super:
  "first_ancestor A c = java_object \<or> first_ancestor A c \<in> supers c"
proof (induction A c rule: first_ancestor.induct)
  case (1 A c)
  show ?case
  proof (cases "known_superclass c")
    case (Some p)
    hence "supers p \<subseteq> supers c" using supers.simps [of c] by auto
    moreover from this have "p \<in> supers c" using supers_self by blast
    ultimately show ?thesis using 1 [OF Some] Some first_ancestor.simps [of A c] by (cases "p \<in> A") auto
  qed (simp add: first_ancestor.simps)
qed

lemma supers_object [simp]: "supers java_object = {java_object}"
proof -
  have "known_superclass java_object = None" by code_simp
  thus ?thesis by (subst supers.simps) simp
qed

text \<open>When the right class absorbs the left one.\<close>

lemma first_ancestor_in: "java_object \<in> A \<Longrightarrow> first_ancestor A c \<in> A"
proof (induction A c rule: first_ancestor.induct)
  case (1 A c)
  thus ?case by (subst first_ancestor.simps) (auto split: option.split)
qed

lemma common_absorbs:
  "common_superclass w y = y \<longleftrightarrow>
     w = y \<or> y = java_object \<or> \<not> is_array_name w \<and> \<not> is_array_name y \<and> y \<in> supers w"
proof -
  let ?A = "insert java_object (collect_ancestors w {w})"
  have A: "?A = insert java_object (supers w)" using collect_supers [of "{w}" w] by auto
  have "first_ancestor ?A y = y \<Longrightarrow> y \<in> ?A"
    using first_ancestor_in [of ?A y] by simp
  thus ?thesis unfolding common_superclass_def Let_def A by auto
qed

lemma common_result:
  "common_superclass z y = y \<or> common_superclass z y = java_object \<or>
   \<not> is_array_name y \<and> common_superclass z y \<in> supers y"
  using first_ancestor_super [of _ y] by (auto simp: common_superclass_def Let_def)

lemma common_keeps:
  assumes "common_superclass w y = y"
  shows "common_superclass w (common_superclass z y) = common_superclass z y"
proof -
  let ?x = "common_superclass z y"
  consider "?x = y" | "?x = java_object" | "\<not> is_array_name y" "?x \<in> supers y"
    using common_result by blast
  thus ?thesis
  proof cases
    case 3
    moreover have "\<not> is_array_name ?x" using 3 supers_no_array by metis
    moreover have "w = y \<or> y = java_object \<or> \<not> is_array_name w \<and> y \<in> supers w"
      using assms common_absorbs by blast
    ultimately show ?thesis
      unfolding common_absorbs [of w ?x] using supers_trans [of ?x y w] by auto
  next
    case 1
    thus ?thesis by (simp add: assms)
  next
    case 2
    thus ?thesis unfolding 2 common_absorbs by simp
  qed
qed

lemma common_again: "common_superclass z (common_superclass z y) = common_superclass z y"
proof -
  let ?A = "insert java_object (collect_ancestors z {z})" and ?x = "common_superclass z y"
  have A: "?A = insert java_object (supers z)" using collect_supers [of "{z}" z] by auto
  have "?x = z \<or> ?x = java_object \<or> \<not> is_array_name z \<and> ?x \<in> ?A"
    using first_ancestor_in [of ?A y] by (simp add: common_superclass_def Let_def)
  moreover have "?x \<in> supers z \<Longrightarrow> is_array_name ?x \<Longrightarrow> ?x = z" by (rule supers_no_array)
  ultimately show ?thesis unfolding common_absorbs A by auto
qed

subsection \<open>Merging\<close>

definition merge_type :: "frame_type \<Rightarrow> frame_type \<Rightarrow> frame_type" where
  "merge_type a b =
     (if a = b then a
      else case (a, b) of
        (FtTop, _) \<Rightarrow> FtTop
      | (_, FtTop) \<Rightarrow> FtTop
      | (FtNull, FtObject name) \<Rightarrow> FtObject name
      | (FtObject name, FtNull) \<Rightarrow> FtObject name
      | (FtObject left, FtObject right) \<Rightarrow> FtObject (common_superclass left right)
      | (FtObject _, FtUninitialized _) \<Rightarrow> FtObject java_object
      | (FtUninitialized _, FtObject _) \<Rightarrow> FtObject java_object
      | (FtUninitializedThis, FtObject _) \<Rightarrow> FtObject java_object
      | (FtObject _, FtUninitializedThis) \<Rightarrow> FtObject java_object
      | _ \<Rightarrow> FtTop)"

definition get_or_top :: "frame_type list \<Rightarrow> nat \<Rightarrow> frame_type" where
  "get_or_top ts i = (if i < length ts then ts ! i else FtTop)"

definition merge_vec :: "frame_type list \<Rightarrow> frame_type list \<Rightarrow> frame_type list" where
  "merge_vec a b = map (\<lambda>i. merge_type (get_or_top a i) (get_or_top b i)) [0..<max (length a) (length b)]"

definition merged_frame :: "frame_state \<Rightarrow> frame_state \<Rightarrow> frame_state" where
  "merged_frame frame other =
     \<lparr>fs_locals = merge_vec (fs_locals frame) (fs_locals other),
      fs_stack = merge_vec (fs_stack frame) (fs_stack other)\<rparr>"

definition merge_frame :: "frame_state \<Rightarrow> frame_state option \<Rightarrow> frame_state option" where
  "merge_frame frame existing =
     (case existing of
        None \<Rightarrow> Some frame
      | Some other \<Rightarrow> let merged = merged_frame frame other in if merged = other then None else Some merged)"

text \<open>A frame absorbs another if merging the other into it changes nothing.\<close>

definition absorbs :: "frame_state \<Rightarrow> frame_state \<Rightarrow> bool" where
  "absorbs frame other \<longleftrightarrow> merged_frame other frame = frame"

lemma merge_same [simp]: "merge_type a a = a"
  by (simp add: merge_type_def)

lemma merge_top [simp]: "merge_type FtTop a = FtTop" "merge_type a FtTop = FtTop"
  by (cases a; simp add: merge_type_def)+

lemma common_same [simp]: "common_superclass x x = x"
  by (simp add: common_superclass_def)

lemma common_object [simp]: "common_superclass x java_object = java_object"
  using common_absorbs by blast

lemma merge_type_keeps: "merge_type a g = g \<Longrightarrow> merge_type a (merge_type b g) = merge_type b g"
  by (cases g; cases b; cases a)
    (auto simp: merge_type_def common_keeps split: if_splits)

lemma merge_type_absorbs: "merge_type b (merge_type b g) = merge_type b g"
  by (cases g; cases b) (auto simp: merge_type_def common_again split: if_splits)

lemma get_merge_vec: "get_or_top (merge_vec a b) i = merge_type (get_or_top a i) (get_or_top b i)"
  by (auto simp: merge_vec_def get_or_top_def)

lemma length_merge_vec [simp]: "length (merge_vec a b) = max (length a) (length b)"
  by (simp add: merge_vec_def)

lemma vec_eq_iff:
  "a = b \<longleftrightarrow> length a = length b \<and> (\<forall>i. get_or_top a i = get_or_top b i)"
  by (auto simp: get_or_top_def list_eq_iff_nth_eq)

lemma merge_vec_absorbs: "merge_vec b (merge_vec b g) = merge_vec b g"
  by (subst vec_eq_iff) (simp add: get_merge_vec merge_type_absorbs)

lemma merge_vec_keeps:
  assumes "merge_vec a g = g"
  shows "merge_vec a (merge_vec b g) = merge_vec b g"
proof -
  have "length a \<le> length g" using arg_cong [OF assms, of length] by simp
  moreover have "merge_type (get_or_top a i) (get_or_top g i) = get_or_top g i" for i
    using arg_cong [OF assms, of "\<lambda>v. get_or_top v i"] by (simp add: get_merge_vec)
  ultimately show ?thesis
    by (subst vec_eq_iff) (simp add: get_merge_vec merge_type_keeps max_def)
qed

lemma merge_vec_same: "merge_vec a a = a"
  by (subst vec_eq_iff) (simp add: get_merge_vec)

text \<open>The laws of the worklist: a merged frame absorbs what it was merged from, and all it had absorbed.\<close>

lemma absorbs_same [simp]: "absorbs f f"
  by (simp add: absorbs_def merged_frame_def merge_vec_same)

lemma absorbs_merged: "absorbs (merged_frame b g) b"
  by (simp add: absorbs_def merged_frame_def merge_vec_absorbs)

lemma absorbs_keeps: "absorbs g a \<Longrightarrow> absorbs (merged_frame b g) a"
  by (cases g) (simp add: absorbs_def merged_frame_def merge_vec_keeps)

text \<open>Merging is not associative.\<close>

lemma merge_not_associative:
  "merge_type (merge_type FtNull FtUninitializedThis) (FtObject java_object) \<noteq>
   merge_type FtNull (merge_type FtUninitializedThis (FtObject java_object))"
  by (simp add: merge_type_def)

end
