(* ===== verification/FrameExec.thy ===== *)
theory FrameExec imports FrameTypes begin

text \<open>
  The instructions as the frame computation of \<^verbatim>\<open>class_writer.rs\<close> decodes them, with a decoder of
  its own, and what each of them does to the locals and the stack.
\<close>

subsection \<open>Decoding\<close>

text \<open>\<^verbatim>\<open>format!("{}", n)\<close>\<close>

fun decimal :: "nat \<Rightarrow> rust_text" where
  "decimal n = (if n < 10 then [48 + n] else decimal (n div 10) @ [48 + n mod 10])"

declare decimal.simps [simp del]

abbreviation frame_error_at :: "string \<Rightarrow> u16 \<Rightarrow> class_write_error + 'a" where
  "frame_error_at s offset \<equiv> Inl (FrameComputation (text_of s @ decimal (unat offset)))"

datatype operand =
    OpNone
  | OpI1 u8
  | OpI2 u16
  | OpI4 u32
  | OpU1 u8
  | OpU2 u16
  | OpU4 u32
  | OpJump u16
  | OpJumpWide u32
  | OpTableSwitch u32 u32 u32 "u32 list"
  | OpLookupSwitch u32 "(u32 \<times> u32) list"
  | OpIinc u16 u16
  | OpInvokeInterface u16 u8
  | OpInvokeDynamic u16
  | OpMultiANewArray u16 u8
  | OpWide u8 u16 "u16 option"

record parsed_instruction =
  pi_offset :: u16
  pi_opcode :: u8
  pi_operand :: operand

text \<open>\<^verbatim>\<open>read_u1\<close>, \<^verbatim>\<open>read_u2\<close> and \<^verbatim>\<open>read_i4\<close> of this file: the value and the position behind it.\<close>

definition code_u1 :: "u8 list \<Rightarrow> nat \<Rightarrow> class_write_error + u8 \<times> nat" where
  "code_u1 code pos =
     (if length code \<le> pos then frame_error ''unexpected eof'' else Inr (code ! pos, pos + 1))"

definition code_u2 :: "u8 list \<Rightarrow> nat \<Rightarrow> class_write_error + u16 \<times> nat" where
  "code_u2 code pos =
     (if length code < pos + 2 then frame_error ''unexpected eof''
      else Inr (word_of_nat (be_value (take 2 (drop pos code))), pos + 2))"

definition code_i4 :: "u8 list \<Rightarrow> nat \<Rightarrow> class_write_error + u32 \<times> nat" where
  "code_i4 code pos =
     (if length code < pos + 4 then frame_error ''unexpected eof''
      else Inr (word_of_nat (be_value (take 4 (drop pos code))), pos + 4))"

primrec code_i4s :: "nat \<Rightarrow> u8 list \<Rightarrow> nat \<Rightarrow> class_write_error + u32 list \<times> nat" where
  "code_i4s 0 code pos = Inr ([], pos)"
| "code_i4s (Suc n) code pos =
     try_bind (code_i4 code pos) (\<lambda>(v, pos).
     try_bind (code_i4s n code pos) (\<lambda>(vs, pos).
     Inr (v # vs, pos)))"

primrec code_pairs :: "nat \<Rightarrow> u8 list \<Rightarrow> nat \<Rightarrow> class_write_error + (u32 \<times> u32) list \<times> nat" where
  "code_pairs 0 code pos = Inr ([], pos)"
| "code_pairs (Suc n) code pos =
     try_bind (code_i4 code pos) (\<lambda>(key, pos).
     try_bind (code_i4 code pos) (\<lambda>(v, pos).
     try_bind (code_pairs n code pos) (\<lambda>(vs, pos).
     Inr ((key, v) # vs, pos))))"

definition code_operand ::
    "(u8 list \<Rightarrow> nat \<Rightarrow> class_write_error + 'a \<times> nat) \<Rightarrow> ('a \<Rightarrow> operand) \<Rightarrow> u8 list \<Rightarrow> nat \<Rightarrow>
     class_write_error + operand \<times> nat" where
  "code_operand f mk code pos = map_sum id (map_prod mk id) (f code pos)"

text \<open>\<^verbatim>\<open>Vec::with_capacity\<close> with a negative count panics.\<close>

definition parse_table_switch :: "u8 list \<Rightarrow> nat \<Rightarrow> class_write_error + operand \<times> nat" where
  "parse_table_switch code pos =
     (let pos = pos + (4 - pos mod 4) mod 4 in
      try_bind (code_i4 code pos) (\<lambda>(d, pos).
      try_bind (code_i4 code pos) (\<lambda>(low, pos).
      try_bind (code_i4 code pos) (\<lambda>(high, pos).
      case switch_count low high of
        None \<Rightarrow> Inl WriteCapacityOverflow
      | Some n \<Rightarrow> code_operand (code_i4s n) (OpTableSwitch d low high) code pos))))"

definition parse_lookup_switch :: "u8 list \<Rightarrow> nat \<Rightarrow> class_write_error + operand \<times> nat" where
  "parse_lookup_switch code pos =
     (let pos = pos + (4 - pos mod 4) mod 4 in
      try_bind (code_i4 code pos) (\<lambda>(d, pos).
      try_bind (code_i4 code pos) (\<lambda>(npairs, pos).
      case capacity npairs of
        None \<Rightarrow> Inl WriteCapacityOverflow
      | Some n \<Rightarrow> code_operand (code_pairs n) (OpLookupSwitch d) code pos)))"

definition parse_wide :: "u8 list \<Rightarrow> nat \<Rightarrow> class_write_error + operand \<times> nat" where
  "parse_wide code pos =
     try_bind (code_u1 code pos) (\<lambda>(wide_opcode, pos).
     if ILOAD \<le> wide_opcode \<and> wide_opcode \<le> ALOAD \<or> ISTORE \<le> wide_opcode \<and> wide_opcode \<le> ASTORE \<or>
        wide_opcode = RET then
       code_operand code_u2 (\<lambda>index. OpWide wide_opcode index None) code pos
     else if wide_opcode = IINC then
       try_bind (code_u2 code pos) (\<lambda>(index, pos).
       code_operand code_u2 (\<lambda>increment. OpWide wide_opcode index (Some increment)) code pos)
     else Inl (WriteInvalidOpcode wide_opcode (pos - 1)))"

definition parse_operand :: "u8 list \<Rightarrow> u8 \<Rightarrow> nat \<Rightarrow> class_write_error + operand \<times> nat" where
  "parse_operand code op pos =
     (if op = BIPUSH then code_operand code_u1 OpI1 code pos
      else if op = SIPUSH then code_operand code_u2 OpI2 code pos
      else if op = LDC then code_operand code_u1 OpU1 code pos
      else if op = LDC_W \<or> op = LDC2_W then code_operand code_u2 OpU2 code pos
      else if ILOAD \<le> op \<and> op \<le> ALOAD \<or> ISTORE \<le> op \<and> op \<le> ASTORE \<or> op = RET then
        code_operand code_u1 OpU1 code pos
      else if op = IINC then
        try_bind (code_u1 code pos) (\<lambda>(index, pos).
        code_operand code_u1 (\<lambda>inc. OpIinc (ucast index) (scast inc)) code pos)
      else if IFEQ \<le> op \<and> op \<le> JSR \<or> op = IFNULL \<or> op = IFNONNULL then
        code_operand code_u2 OpJump code pos
      else if op = GOTO_W \<or> op = JSR_W then code_operand code_i4 OpJumpWide code pos
      else if op = TABLESWITCH then parse_table_switch code pos
      else if op = LOOKUPSWITCH then parse_lookup_switch code pos
      else if GETSTATIC \<le> op \<and> op \<le> INVOKESTATIC \<or> op = NEW \<or> op = ANEWARRAY \<or> op = CHECKCAST \<or>
              op = INSTANCEOF then
        code_operand code_u2 OpU2 code pos
      else if op = INVOKEINTERFACE then
        try_bind (code_u2 code pos) (\<lambda>(index, pos).
        try_bind (code_u1 code pos) (\<lambda>(count, pos).
        code_operand code_u1 (\<lambda>_. OpInvokeInterface index count) code pos))
      else if op = INVOKEDYNAMIC then
        try_bind (code_u2 code pos) (\<lambda>(index, pos).
        code_operand code_u2 (\<lambda>_. OpInvokeDynamic index) code pos)
      else if op = NEWARRAY then code_operand code_u1 OpU1 code pos
      else if op = WIDE then parse_wide code pos
      else if op = MULTIANEWARRAY then
        try_bind (code_u2 code pos) (\<lambda>(index, pos).
        code_operand code_u1 (OpMultiANewArray index) code pos)
      else Inr (OpNone, pos))"

text \<open>Positions only grow.\<close>

lemma try_bind_Inr: "try_bind x f = Inr y \<longleftrightarrow> (\<exists>a. x = Inr a \<and> f a = Inr y)"
  by (cases x) simp_all

lemma code_read_pos:
  "code_u1 code pos = Inr (x, pos') \<Longrightarrow> pos' = pos + 1"
  "code_u2 code pos = Inr (y, pos') \<Longrightarrow> pos' = pos + 2"
  "code_i4 code pos = Inr (z, pos') \<Longrightarrow> pos' = pos + 4"
  by (auto simp: code_u1_def code_u2_def code_i4_def split: if_splits)

lemma code_i4s_pos: "code_i4s n code pos = Inr (vs, pos') \<Longrightarrow> pos' = pos + 4 * length vs"
  by (induction n arbitrary: pos vs) (fastforce simp: try_bind_Inr dest: code_read_pos)+

lemma code_pairs_pos: "code_pairs n code pos = Inr (vs, pos') \<Longrightarrow> pos' = pos + 8 * length vs"
  by (induction n arbitrary: pos vs) (fastforce simp: try_bind_Inr dest: code_read_pos)+

text \<open>The length of an instruction, from the operand.\<close>

definition instruction_length :: "parsed_instruction \<Rightarrow> nat" where
  "instruction_length i =
     (case pi_operand i of
        OpNone \<Rightarrow> 1
      | OpI1 _ \<Rightarrow> 2 | OpU1 _ \<Rightarrow> 2
      | OpI2 _ \<Rightarrow> 3 | OpU2 _ \<Rightarrow> 3 | OpJump _ \<Rightarrow> 3
      | OpI4 _ \<Rightarrow> 5 | OpU4 _ \<Rightarrow> 5 | OpJumpWide _ \<Rightarrow> 5
      | OpIinc _ _ \<Rightarrow> 3
      | OpInvokeInterface _ _ \<Rightarrow> 5
      | OpInvokeDynamic _ \<Rightarrow> 5
      | OpMultiANewArray _ _ \<Rightarrow> 4
      | OpWide op _ increment \<Rightarrow> if op = IINC \<and> increment \<noteq> None then 6 else 4
      | OpTableSwitch _ _ _ offsets \<Rightarrow> 1 + switch_padding (unat (pi_offset i)) + 12 + length offsets * 4
      | OpLookupSwitch _ pairs \<Rightarrow> 1 + switch_padding (unat (pi_offset i)) + 8 + length pairs * 8)"

lemma padding_mod: "(4 - Suc pos mod 4) mod 4 = switch_padding pos"
  by (simp add: switch_padding_def)

lemma switch_padding_cut: "switch_padding (unat (word_of_nat pos :: u16)) = switch_padding pos"
proof -
  have "pos mod 65536 mod 4 = pos mod 4" by (rule mod_mod_cancel) simp
  hence "(pos mod 65536 + 1) mod 4 = (pos + 1) mod 4" by (rule mod_add_cong) simp
  thus ?thesis by (simp add: switch_padding_def unat_of_nat)
qed

lemma code_operand_Inr:
  "code_operand f mk code pos = Inr (x, pos') \<longleftrightarrow> (\<exists>a. f code pos = Inr (a, pos') \<and> x = mk a)"
  by (auto simp: code_operand_def)

lemma parse_table_switch_end:
  assumes "parse_table_switch code (Suc off) = Inr (x, pos')"
  shows "\<exists>d low high offsets. x = OpTableSwitch d low high offsets \<and>
    pos' = off + (1 + switch_padding off + 12 + length offsets * 4)"
  using assms
  by (fastforce simp: parse_table_switch_def padding_mod Let_def try_bind_Inr code_operand_Inr
      split: option.splits dest: code_read_pos code_i4s_pos)

lemma parse_lookup_switch_end:
  assumes "parse_lookup_switch code (Suc off) = Inr (x, pos')"
  shows "\<exists>d pairs. x = OpLookupSwitch d pairs \<and> pos' = off + (1 + switch_padding off + 8 + length pairs * 8)"
  using assms
  by (fastforce simp: parse_lookup_switch_def padding_mod Let_def try_bind_Inr code_operand_Inr
      split: option.splits dest: code_read_pos code_pairs_pos)

lemma parse_wide_end:
  assumes "parse_wide code (Suc off) = Inr (x, pos')"
  shows "\<exists>op index increment. x = OpWide op index increment \<and>
    pos' = off + (if op = IINC \<and> increment \<noteq> None then 6 else 4)"
  using assms
  by (fastforce simp: parse_wide_def try_bind_Inr code_operand_Inr split: if_splits dest: code_read_pos)

definition ends_at :: "nat \<Rightarrow> u8 \<Rightarrow> class_write_error + operand \<times> nat \<Rightarrow> bool" where
  "ends_at off op r \<longleftrightarrow>
     (\<forall>x pos. r = Inr (x, pos) \<longrightarrow>
        pos = off + instruction_length \<lparr>pi_offset = word_of_nat off, pi_opcode = op, pi_operand = x\<rparr>)"

lemma ends_at_if: "ends_at off op a \<Longrightarrow> ends_at off op b \<Longrightarrow> ends_at off op (if c then a else b)"
  by simp

lemma parse_operand_end: "ends_at off op (parse_operand code op (Suc off))"
  unfolding parse_operand_def
  by (intro ends_at_if; unfold ends_at_def;
      auto simp: instruction_length_def switch_padding_cut code_operand_Inr try_bind_Inr
        dest!: parse_table_switch_end parse_lookup_switch_end parse_wide_end code_read_pos)

lemma instruction_length_pos: "0 < instruction_length i"
  by (simp add: instruction_length_def split: operand.split)

text \<open>The offset is cut to sixteen bits.\<close>

function parse_instructions_from :: "u8 list \<Rightarrow> nat \<Rightarrow> class_write_error + parsed_instruction list" where
  "parse_instructions_from code pos =
     (if length code \<le> pos then Inr []
      else let op = code ! pos in
        case parse_operand code op (pos + 1) of
          Inl e \<Rightarrow> Inl e
        | Inr (x, pos') \<Rightarrow>
            map_sum id (Cons \<lparr>pi_offset = word_of_nat pos, pi_opcode = op, pi_operand = x\<rparr>)
              (parse_instructions_from code pos'))"
  by pat_completeness auto
termination parse_instructions_from
proof (relation "measure (\<lambda>(code, pos). length code - pos)")
  fix code pos op r x pos'
  assume "\<not> length code \<le> pos" and "op = code ! pos"
    and "parse_operand code op (pos + 1) = Inr r" and "(x, pos') = r"
  moreover from this have "pos < pos'"
    using parse_operand_end [of pos op code] instruction_length_pos by (auto simp: ends_at_def)
  ultimately show "((code, pos'), (code, pos)) \<in> measure (\<lambda>(code, pos). length code - pos)" by auto
qed simp

declare parse_instructions_from.simps [simp del]

definition parse_instructions :: "u8 list \<Rightarrow> class_write_error + parsed_instruction list" where
  "parse_instructions code = parse_instructions_from code 0"

subsection \<open>Successors\<close>

text \<open>\<^verbatim>\<open>(insn.offset as i32 + offset) as u16\<close>\<close>

definition target_of :: "u16 \<Rightarrow> u32 \<Rightarrow> u16" where
  "target_of offset delta = ucast (ucast offset + delta)"

definition jump_target :: "parsed_instruction \<Rightarrow> u16 option" where
  "jump_target i =
     (case pi_operand i of
        OpJump v \<Rightarrow> Some (target_of (pi_offset i) (scast v))
      | OpJumpWide v \<Rightarrow> Some (target_of (pi_offset i) v)
      | _ \<Rightarrow> None)"

text \<open>\<^verbatim>\<open>insn.offset.saturating_add(instruction_length(insn) as u16)\<close>\<close>

definition next_offset :: "parsed_instruction \<Rightarrow> u16" where
  "next_offset i =
     word_of_nat (min 0xFFFF (unat (pi_offset i) + unat (word_of_nat (instruction_length i) :: u16)))"

definition jump_successors :: "parsed_instruction \<Rightarrow> u16 list" where
  "jump_successors i = (case jump_target i of None \<Rightarrow> [] | Some t \<Rightarrow> [t])"

definition instruction_successors :: "parsed_instruction \<Rightarrow> u16 list" where
  "instruction_successors i =
     (let op = pi_opcode i in
      if op = GOTO \<or> op = GOTO_W then jump_successors i
      else if op = JSR \<or> op = JSR_W then jump_successors i @ [next_offset i]
      else if IFEQ \<le> op \<and> op \<le> IF_ACMPNE \<or> op = IFNULL \<or> op = IFNONNULL then
        jump_successors i @ [next_offset i]
      else if op = TABLESWITCH then
        (case pi_operand i of
           OpTableSwitch d _ _ offsets \<Rightarrow> map (target_of (pi_offset i)) (d # offsets)
         | _ \<Rightarrow> [])
      else if op = LOOKUPSWITCH then
        (case pi_operand i of
           OpLookupSwitch d pairs \<Rightarrow> map (target_of (pi_offset i)) (d # map snd pairs)
         | _ \<Rightarrow> [])
      else if IRETURN \<le> op \<and> op \<le> RETURN \<or> op = ATHROW then []
      else if op = MONITORENTER \<or> op = MONITOREXIT then [next_offset i]
      else if next_offset i \<noteq> pi_offset i then [next_offset i]
      else [])"

end
