(* ===== verification/FrameEffect.thy ===== *)
theory FrameEffect imports FrameExec begin

text \<open>
  \<^verbatim>\<open>execute_instruction\<close>: the effect of an instruction on a frame. The last element of a stack is
  its top.
\<close>

subsection \<open>The stack\<close>

definition pop_frame :: "u16 \<Rightarrow> frame_type list \<Rightarrow> class_write_error + frame_type \<times> frame_type list" where
  "pop_frame offset stack =
     (if stack = [] then frame_error_at ''stack underflow at '' offset else Inr (last stack, butlast stack))"

primrec pop_frames :: "nat \<Rightarrow> u16 \<Rightarrow> frame_type list \<Rightarrow> class_write_error + frame_type list" where
  "pop_frames 0 offset stack = Inr stack"
| "pop_frames (Suc n) offset stack =
     try_bind (pop_frame offset stack) (\<lambda>(_, stack). pop_frames n offset stack)"

text \<open>The arms that pop some values and push others, whatever they are.\<close>

definition simple_effect :: "u8 \<Rightarrow> (nat \<times> frame_type list) option" where
  "simple_effect op =
     (if op = NOP then Some (0, [])
      else if op = ACONST_NULL then Some (0, [FtNull])
      else if ICONST_M1 \<le> op \<and> op \<le> ICONST_5 then Some (0, [FtInteger])
      else if op = LCONST_0 \<or> op = LCONST_1 then Some (0, [FtLong])
      else if FCONST_0 \<le> op \<and> op \<le> FCONST_2 then Some (0, [FtFloat])
      else if op = DCONST_0 \<or> op = DCONST_1 then Some (0, [FtDouble])
      else if op = BIPUSH then Some (0, [FtInteger])
      else if op = SIPUSH then Some (0, [FtInteger])
      else if IASTORE \<le> op \<and> op \<le> SASTORE then Some (3, [])
      else if op = POP then Some (1, [])
      else if op \<in> {IADD, ISUB, IMUL, IDIV, IREM, ISHL, ISHR, IUSHR, IAND, IOR, IXOR} then Some (2, [FtInteger])
      else if op \<in> {LADD, LSUB, LMUL, LDIV, LREM, LSHL, LSHR, LUSHR, LAND, LOR, LXOR} then Some (2, [FtLong])
      else if op \<in> {FADD, FSUB, FMUL, FDIV, FREM} then Some (2, [FtFloat])
      else if op \<in> {DADD, DSUB, DMUL, DDIV, DREM} then Some (2, [FtDouble])
      else if op = INEG then Some (1, [FtInteger])
      else if op = LNEG then Some (1, [FtLong])
      else if op = FNEG then Some (1, [FtFloat])
      else if op = DNEG then Some (1, [FtDouble])
      else if op = IINC then Some (0, [])
      else if op \<in> {I2L, F2L, D2L} then Some (1, [FtLong])
      else if op \<in> {I2F, L2F, D2F} then Some (1, [FtFloat])
      else if op \<in> {I2D, L2D, F2D} then Some (1, [FtDouble])
      else if op \<in> {L2I, F2I, D2I} then Some (1, [FtInteger])
      else if I2B \<le> op \<and> op \<le> I2S then Some (1, [FtInteger])
      else if LCMP \<le> op \<and> op \<le> DCMPG then Some (2, [FtInteger])
      else if IFEQ \<le> op \<and> op \<le> IFLE \<or> op = IFNULL \<or> op = IFNONNULL then Some (1, [])
      else if IF_ICMPEQ \<le> op \<and> op \<le> IF_ACMPNE then Some (2, [])
      else if op = GOTO \<or> op = GOTO_W then Some (0, [])
      else if op = TABLESWITCH \<or> op = LOOKUPSWITCH then Some (1, [])
      else if op \<in> {IRETURN, LRETURN, FRETURN, DRETURN, ARETURN} then Some (1, [])
      else if op = RETURN then Some (0, [])
      else if op = PUTSTATIC then Some (1, [])
      else if op = PUTFIELD then Some (2, [])
      else if op = ARRAYLENGTH then Some (1, [FtInteger])
      else if op = ATHROW then Some (1, [])
      else if op = INSTANCEOF then Some (1, [FtInteger])
      else if op = MONITORENTER \<or> op = MONITOREXIT then Some (1, [])
      else if op = BREAKPOINT \<or> op = IMPDEP1 \<or> op = IMPDEP2 then Some (0, [])
      else None)"

text \<open>\<^verbatim>\<open>POP2\<close>, \<^verbatim>\<open>DUP\<close> to \<^verbatim>\<open>DUP2_X2\<close> and \<^verbatim>\<open>SWAP\<close>\<close>

definition exec_pop2 :: "u16 \<Rightarrow> frame_type list \<Rightarrow> class_write_error + frame_type list" where
  "exec_pop2 offset stack =
     try_bind (pop_frame offset stack) (\<lambda>(v1, stack).
     if is_category2 v1 then Inr stack
     else
       try_bind (pop_frame offset stack) (\<lambda>(v2, stack).
       if is_category2 v2 then frame_error ''pop2 invalid'' else Inr stack))"

definition exec_dup :: "u16 \<Rightarrow> frame_type list \<Rightarrow> class_write_error + frame_type list" where
  "exec_dup offset stack =
     try_bind (pop_frame offset stack) (\<lambda>(v1, stack).
     if is_category2 v1 then frame_error ''dup category2'' else Inr (stack @ [v1, v1]))"

definition exec_dup_x1 :: "u16 \<Rightarrow> frame_type list \<Rightarrow> class_write_error + frame_type list" where
  "exec_dup_x1 offset stack =
     try_bind (pop_frame offset stack) (\<lambda>(v1, stack).
     try_bind (pop_frame offset stack) (\<lambda>(v2, stack).
     if is_category2 v1 \<or> is_category2 v2 then frame_error ''dup_x1''
     else Inr (stack @ [v1, v2, v1])))"

definition exec_dup_x2 :: "u16 \<Rightarrow> frame_type list \<Rightarrow> class_write_error + frame_type list" where
  "exec_dup_x2 offset stack =
     try_bind (pop_frame offset stack) (\<lambda>(v1, stack).
     if is_category2 v1 then frame_error ''dup_x2''
     else
       try_bind (pop_frame offset stack) (\<lambda>(v2, stack).
       if is_category2 v2 then Inr (stack @ [v1, v2, v1])
       else
         try_bind (pop_frame offset stack) (\<lambda>(v3, stack).
         Inr (stack @ [v1, v3, v2, v1]))))"

definition exec_dup2 :: "u16 \<Rightarrow> frame_type list \<Rightarrow> class_write_error + frame_type list" where
  "exec_dup2 offset stack =
     try_bind (pop_frame offset stack) (\<lambda>(v1, stack).
     if is_category2 v1 then Inr (stack @ [v1, v1])
     else
       try_bind (pop_frame offset stack) (\<lambda>(v2, stack).
       if is_category2 v2 then frame_error ''dup2'' else Inr (stack @ [v2, v1, v2, v1])))"

definition exec_dup2_x1 :: "u16 \<Rightarrow> frame_type list \<Rightarrow> class_write_error + frame_type list" where
  "exec_dup2_x1 offset stack =
     try_bind (pop_frame offset stack) (\<lambda>(v1, stack).
     try_bind (pop_frame offset stack) (\<lambda>(v2, stack).
     if is_category2 v1 then Inr (stack @ [v1, v2, v1])
     else
       try_bind (pop_frame offset stack) (\<lambda>(v3, stack).
       Inr (stack @ [v2, v1, v3, v2, v1]))))"

definition exec_dup2_x2 :: "u16 \<Rightarrow> frame_type list \<Rightarrow> class_write_error + frame_type list" where
  "exec_dup2_x2 offset stack =
     try_bind (pop_frame offset stack) (\<lambda>(v1, stack).
     try_bind (pop_frame offset stack) (\<lambda>(v2, stack).
     try_bind (pop_frame offset stack) (\<lambda>(v3, stack).
     if is_category2 v1 then Inr (stack @ [v1, v3, v2, v1])
     else
       try_bind (pop_frame offset stack) (\<lambda>(v4, stack).
       Inr (stack @ [v2, v1, v4, v3, v2, v1])))))"

definition exec_swap :: "u16 \<Rightarrow> frame_type list \<Rightarrow> class_write_error + frame_type list" where
  "exec_swap offset stack =
     try_bind (pop_frame offset stack) (\<lambda>(v1, stack).
     try_bind (pop_frame offset stack) (\<lambda>(v2, stack).
     if is_category2 v1 \<or> is_category2 v2 then frame_error ''swap'' else Inr (stack @ [v1, v2])))"

definition stack_effect ::
    "u8 \<Rightarrow> (u16 \<Rightarrow> frame_type list \<Rightarrow> class_write_error + frame_type list) option" where
  "stack_effect op =
     (if op = POP2 then Some exec_pop2
      else if op = DUP then Some exec_dup
      else if op = DUP_X1 then Some exec_dup_x1
      else if op = DUP_X2 then Some exec_dup_x2
      else if op = DUP2 then Some exec_dup2
      else if op = DUP2_X1 then Some exec_dup2_x1
      else if op = DUP2_X2 then Some exec_dup2_x2
      else if op = SWAP then Some exec_swap
      else None)"

subsection \<open>Locals\<close>

definition load_local :: "frame_type list \<Rightarrow> u16 \<Rightarrow> frame_type \<Rightarrow> frame_type" where
  "load_local locals index fallback =
     (if unat index < length locals then locals ! unat index else fallback)"

text \<open>\<^verbatim>\<open>resize(n, Top)\<close> of a shorter vector\<close>

definition grown :: "nat \<Rightarrow> frame_type list \<Rightarrow> frame_type list" where
  "grown n locals = locals @ replicate (n - length locals) FtTop"

definition store_local :: "frame_type list \<Rightarrow> u16 \<Rightarrow> frame_type \<Rightarrow> frame_type list" where
  "store_local locals index value =
     (let idx = unat index; locals = (grown (idx + 1) locals)[idx := value]
      in if is_category2 value then (grown (idx + 2) locals)[idx + 1 := FtTop] else locals)"

definition var_index :: "parsed_instruction \<Rightarrow> class_write_error + u16" where
  "var_index i =
     (case pi_operand i of
        OpU1 v \<Rightarrow> Inr (ucast v)
      | OpWide _ index _ \<Rightarrow> Inr index
      | _ \<Rightarrow> frame_error_at ''missing var index at '' (pi_offset i))"

text \<open>The short forms: the first opcode of the group and the type to use for a local that is not there.\<close>

definition short_load :: "rust_text \<Rightarrow> u8 \<Rightarrow> (u8 \<times> frame_type) option" where
  "short_load this op =
     (if ILOAD_0 \<le> op \<and> op \<le> ILOAD_3 then Some (ILOAD_0, FtInteger)
      else if LLOAD_0 \<le> op \<and> op \<le> LLOAD_3 then Some (LLOAD_0, FtLong)
      else if FLOAD_0 \<le> op \<and> op \<le> FLOAD_3 then Some (FLOAD_0, FtFloat)
      else if DLOAD_0 \<le> op \<and> op \<le> DLOAD_3 then Some (DLOAD_0, FtDouble)
      else if ALOAD_0 \<le> op \<and> op \<le> ALOAD_3 then Some (ALOAD_0, FtObject this)
      else None)"

definition short_store :: "u8 \<Rightarrow> u8 option" where
  "short_store op =
     (if ISTORE_0 \<le> op \<and> op \<le> ISTORE_3 then Some ISTORE_0
      else if LSTORE_0 \<le> op \<and> op \<le> LSTORE_3 then Some LSTORE_0
      else if FSTORE_0 \<le> op \<and> op \<le> FSTORE_3 then Some FSTORE_0
      else if DSTORE_0 \<le> op \<and> op \<le> DSTORE_3 then Some DSTORE_0
      else if ASTORE_0 \<le> op \<and> op \<le> ASTORE_3 then Some ASTORE_0
      else None)"

definition exec_store :: "u16 \<Rightarrow> u16 \<Rightarrow> frame_state \<Rightarrow> class_write_error + frame_state" where
  "exec_store offset index f =
     try_bind (pop_frame offset (fs_stack f)) (\<lambda>(v, stack).
     Inr \<lparr>fs_locals = store_local (fs_locals f) index v, fs_stack = stack\<rparr>)"

subsection \<open>Constants and members\<close>

definition writer_utf8 :: "cp_info list \<Rightarrow> u16 \<Rightarrow> class_write_error + rust_text" where
  "writer_utf8 cp index = (case cp_get cp index of Some (Utf8 v) \<Rightarrow> Inr v | _ \<Rightarrow> Inl InvalidConstantPool)"

definition writer_class_name :: "cp_info list \<Rightarrow> u16 \<Rightarrow> class_write_error + rust_text" where
  "writer_class_name cp index =
     (case cp_get cp index of Some (Class name_index) \<Rightarrow> writer_utf8 cp name_index | _ \<Rightarrow> Inl InvalidConstantPool)"

definition ldc_type :: "parsed_instruction \<Rightarrow> cp_info list \<Rightarrow> class_write_error + frame_type" where
  "ldc_type i cp =
     try_bind (case pi_operand i of
         OpU1 v \<Rightarrow> Inr (ucast v)
       | OpU2 v \<Rightarrow> Inr v
       | _ \<Rightarrow> frame_error_at ''invalid ldc at '' (pi_offset i)) (\<lambda>index :: u16.
     Inr (case cp_get cp index of
         Some (Integer _) \<Rightarrow> FtInteger
       | Some (Float _) \<Rightarrow> FtFloat
       | Some (Long _) \<Rightarrow> FtLong
       | Some (Double _) \<Rightarrow> FtDouble
       | Some (String _) \<Rightarrow> FtObject (text_of ''java/lang/String'')
       | Some (Class _) \<Rightarrow> FtObject (text_of ''java/lang/Class'')
       | Some (MethodType _) \<Rightarrow> FtObject (text_of ''java/lang/invoke/MethodType'')
       | Some (MethodHandle _ _) \<Rightarrow> FtObject (text_of ''java/lang/invoke/MethodHandle'')
       | _ \<Rightarrow> FtTop))"

definition cp_field_descriptor :: "cp_info list \<Rightarrow> u16 \<Rightarrow> class_write_error + rust_text" where
  "cp_field_descriptor cp index =
     (case cp_get cp index of
        Some (Fieldref _ nt) \<Rightarrow>
          (case cp_get cp nt of
             Some (NameAndType _ d) \<Rightarrow> writer_utf8 cp d
           | _ \<Rightarrow> Inl InvalidConstantPool)
      | _ \<Rightarrow> Inl InvalidConstantPool)"

text \<open>The descriptor and the name of a name and type entry.\<close>

definition cp_typed_name :: "cp_info list \<Rightarrow> u16 \<Rightarrow> class_write_error + rust_text \<times> rust_text" where
  "cp_typed_name cp nt =
     (case cp_get cp nt of
        Some (NameAndType n d) \<Rightarrow>
          try_bind (writer_utf8 cp n) (\<lambda>name.
          try_bind (writer_utf8 cp d) (\<lambda>desc. Inr (desc, name)))
      | _ \<Rightarrow> Inl InvalidConstantPool)"

definition cp_method_descriptor ::
    "cp_info list \<Rightarrow> u16 \<Rightarrow> u8 \<Rightarrow> class_write_error + rust_text \<times> rust_text \<times> rust_text" where
  "cp_method_descriptor cp index op =
     (let member = (\<lambda>c nt. try_bind (writer_class_name cp c) (\<lambda>owner.
                             map_sum id (Pair owner) (cp_typed_name cp nt)))
      in case cp_get cp index of
        Some (Methodref c nt) \<Rightarrow> member c nt
      | Some (InterfaceMethodref c nt) \<Rightarrow> member c nt
      | Some (InvokeDynamic _ nt) \<Rightarrow>
          if op = INVOKEDYNAMIC then map_sum id (Pair java_object) (cp_typed_name cp nt)
          else Inl InvalidConstantPool
      | _ \<Rightarrow> Inl InvalidConstantPool)"

fun field_type_to_frame :: "field_type \<Rightarrow> frame_type" where
  "field_type_to_frame FBoolean = FtInteger"
| "field_type_to_frame FByte = FtInteger"
| "field_type_to_frame FChar = FtInteger"
| "field_type_to_frame FShort = FtInteger"
| "field_type_to_frame FInt = FtInteger"
| "field_type_to_frame FFloat = FtFloat"
| "field_type_to_frame FLong = FtLong"
| "field_type_to_frame FDouble = FtDouble"
| "field_type_to_frame (FObject name) = FtObject name"
| "field_type_to_frame (FArray desc) = FtObject desc"
| "field_type_to_frame FVoid = FtTop"

definition field_frame_type :: "parsed_instruction \<Rightarrow> cp_info list \<Rightarrow> class_write_error + frame_type" where
  "field_frame_type i cp =
     (case pi_operand i of
        OpU2 index \<Rightarrow>
          try_bind (cp_field_descriptor cp index) (\<lambda>desc.
          map_sum id field_type_to_frame (parse_field_descriptor desc))
      | _ \<Rightarrow> frame_error_at ''invalid field operand at '' (pi_offset i))"

text \<open>The arguments, the type of the result unless it is void, the owner, and if it is \<^verbatim>\<open><init>\<close>.\<close>

definition method_type ::
    "parsed_instruction \<Rightarrow> cp_info list \<Rightarrow>
     class_write_error + field_type list \<times> frame_type option \<times> rust_text \<times> bool" where
  "method_type i cp =
     try_bind (case pi_operand i of
         OpU2 v \<Rightarrow> Inr v
       | OpInvokeInterface index _ \<Rightarrow> Inr index
       | OpInvokeDynamic index \<Rightarrow> Inr index
       | _ \<Rightarrow> frame_error_at ''invalid method operand at '' (pi_offset i)) (\<lambda>index.
     try_bind (cp_method_descriptor cp index (pi_opcode i)) (\<lambda>(owner, descriptor, name).
     try_bind (parse_method_descriptor descriptor) (\<lambda>(args, r).
     Inr (args, if r = FVoid then None else Some (field_type_to_frame r), owner, name = text_of ''<init>''))))"

definition newarray_descriptor :: "u8 \<Rightarrow> class_write_error + rust_text" where
  "newarray_descriptor atype =
     (case map_of [(4 :: u8, ''[Z''), (5, ''[C''), (6, ''[F''), (7, ''[D''), (8, ''[B''), (9, ''[S''), (10, ''[I''),
         (11, ''[J'')] atype of
        None \<Rightarrow> frame_error ''invalid newarray type''
      | Some d \<Rightarrow> Inr (text_of d))"

text \<open>\<^verbatim>\<open>trim_start_matches('L')\<close> and \<^verbatim>\<open>trim_end_matches(';')\<close> take all there are.\<close>

definition array_element_type :: "frame_type \<Rightarrow> frame_type option" where
  "array_element_type t =
     (case t of
        FtObject (b # element) \<Rightarrow>
          if b \<noteq> ascii CHR ''['' then None
          else if is_array_name element then Some (FtObject element)
          else (case element of
             [] \<Rightarrow> None
           | c # _ \<Rightarrow>
               if c = ascii CHR ''L'' then
                 Some (FtObject (rev (dropWhile (\<lambda>ch. ch = ascii CHR '';'')
                   (rev (dropWhile (\<lambda>ch. ch = ascii CHR ''L'') element)))))
               else if c \<in> {ascii CHR ''Z'', ascii CHR ''B'', ascii CHR ''C'', ascii CHR ''S'', ascii CHR ''I''}
                 then Some FtInteger
               else if c = ascii CHR ''F'' then Some FtFloat
               else if c = ascii CHR ''J'' then Some FtLong
               else if c = ascii CHR ''D'' then Some FtDouble
               else None)
      | _ \<Rightarrow> None)"

subsection \<open>Instructions\<close>

definition loaded_type :: "u8 \<Rightarrow> frame_type \<Rightarrow> frame_type" where
  "loaded_type op array_ref =
     (if op = IALOAD then FtInteger
      else if op = LALOAD then FtLong
      else if op = FALOAD then FtFloat
      else if op = DALOAD then FtDouble
      else if op = AALOAD then
        (case array_element_type array_ref of None \<Rightarrow> FtObject java_object | Some t \<Rightarrow> t)
      else if BALOAD \<le> op \<and> op \<le> SALOAD then FtInteger
      else FtTop)"

definition initialize_uninitialized :: "frame_type \<Rightarrow> rust_text \<Rightarrow> frame_state \<Rightarrow> frame_state" where
  "initialize_uninitialized receiver owner f =
     (let init = (\<lambda>v. if v = receiver then FtObject owner else v)
      in \<lparr>fs_locals = map init (fs_locals f), fs_stack = map init (fs_stack f)\<rparr>)"

abbreviation on_stack :: "frame_type list \<Rightarrow> frame_state \<Rightarrow> frame_state" where
  "on_stack stack f \<equiv> f\<lparr>fs_stack := stack\<rparr>"

abbreviation push_frame :: "frame_type \<Rightarrow> frame_state \<Rightarrow> frame_state" where
  "push_frame t f \<equiv> f\<lparr>fs_stack := fs_stack f @ [t]\<rparr>"

definition exec_invoke ::
    "rust_text \<Rightarrow> parsed_instruction \<Rightarrow> cp_info list \<Rightarrow> frame_state \<Rightarrow> class_write_error + frame_state" where
  "exec_invoke this i cp f =
     try_bind (method_type i cp) (\<lambda>(args, r, owner, is_init).
     try_bind (pop_frames (length args) (pi_offset i) (fs_stack f)) (\<lambda>stack.
     try_bind
       (if pi_opcode i \<noteq> INVOKESTATIC \<and> pi_opcode i \<noteq> INVOKEDYNAMIC then
          try_bind (pop_frame (pi_offset i) stack) (\<lambda>(receiver, stack).
          let f = on_stack stack f in
          Inr (if is_init then
                 initialize_uninitialized receiver (if receiver = FtUninitializedThis then this else owner) f
               else f))
        else Inr (on_stack stack f)) (\<lambda>f.
     Inr (case r of None \<Rightarrow> f | Some t \<Rightarrow> push_frame t f))))"

definition exec_wide :: "parsed_instruction \<Rightarrow> frame_state \<Rightarrow> class_write_error + frame_state" where
  "exec_wide i f =
     (case pi_operand i of
        OpWide op index _ \<Rightarrow>
          if ILOAD \<le> op \<and> op \<le> ALOAD then
            Inr (if unat index < length (fs_locals f) then push_frame (fs_locals f ! unat index) f else f)
          else if ISTORE \<le> op \<and> op \<le> ASTORE then exec_store (pi_offset i) index f
          else Inr f
      | _ \<Rightarrow> Inr f)"

text \<open>The arms that create objects and arrays or check them.\<close>

definition exec_object ::
    "parsed_instruction \<Rightarrow> cp_info list \<Rightarrow> frame_state \<Rightarrow> class_write_error + frame_state" where
  "exec_object i cp f =
     (let op = pi_opcode i; offset = pi_offset i; pop1 = pop_frame offset (fs_stack f) in
      if op = NEW then
        Inr (case pi_operand i of OpU2 _ \<Rightarrow> push_frame (FtUninitialized offset) f | _ \<Rightarrow> f)
      else if op = NEWARRAY then
        try_bind pop1 (\<lambda>(_, stack).
        case pi_operand i of
          OpU1 atype \<Rightarrow> map_sum id (\<lambda>d. on_stack (stack @ [FtObject d]) f) (newarray_descriptor atype)
        | _ \<Rightarrow> Inr (on_stack (stack @ [FtObject (text_of ''[I'')]) f))
      else if op = ANEWARRAY then
        try_bind pop1 (\<lambda>(_, stack).
        case pi_operand i of
          OpU2 index \<Rightarrow>
            map_sum id (\<lambda>n. on_stack (stack @ [FtObject (text_of ''[L'' @ n @ text_of '';'')]) f)
              (writer_class_name cp index)
        | _ \<Rightarrow> Inr (on_stack stack f))
      else if op = CHECKCAST then
        try_bind pop1 (\<lambda>(_, stack).
        case pi_operand i of
          OpU2 index \<Rightarrow> map_sum id (\<lambda>n. on_stack (stack @ [FtObject n]) f) (writer_class_name cp index)
        | _ \<Rightarrow> Inr (on_stack stack f))
      else
        (case pi_operand i of
          OpMultiANewArray index dims \<Rightarrow>
            try_bind (pop_frames (unat dims) offset (fs_stack f)) (\<lambda>stack.
            map_sum id (\<lambda>d. on_stack (stack @ [FtObject d]) f) (writer_class_name cp index))
        | _ \<Rightarrow> Inr f))"

definition execute_instruction ::
    "rust_text \<Rightarrow> cp_info list \<Rightarrow> parsed_instruction \<Rightarrow> frame_state \<Rightarrow> class_write_error + frame_state" where
  "execute_instruction this cp i f =
     (let op = pi_opcode i; offset = pi_offset i in
      case simple_effect op of
        Some (n, ts) \<Rightarrow>
          map_sum id (\<lambda>stack. on_stack (stack @ ts) f) (pop_frames n offset (fs_stack f))
      | None \<Rightarrow>
     (case stack_effect op of
        Some e \<Rightarrow> map_sum id (\<lambda>stack. on_stack stack f) (e offset (fs_stack f))
      | None \<Rightarrow>
     (case short_load this op of
        Some (first, t) \<Rightarrow> Inr (push_frame (load_local (fs_locals f) (ucast (op - first)) t) f)
      | None \<Rightarrow>
     (case short_store op of
        Some first \<Rightarrow> exec_store offset (ucast (op - first)) f
      | None \<Rightarrow>
      if LDC \<le> op \<and> op \<le> LDC2_W then map_sum id (\<lambda>t. push_frame t f) (ldc_type i cp)
      else if ILOAD \<le> op \<and> op \<le> ALOAD then
        map_sum id (\<lambda>index. push_frame (load_local (fs_locals f) index FtTop) f) (var_index i)
      else if IALOAD \<le> op \<and> op \<le> SALOAD then
        try_bind (pop_frame offset (fs_stack f)) (\<lambda>(_, stack).
        try_bind (pop_frame offset stack) (\<lambda>(array_ref, stack).
        Inr (on_stack (stack @ [loaded_type op array_ref]) f)))
      else if ISTORE \<le> op \<and> op \<le> ASTORE then
        try_bind (var_index i) (\<lambda>index. exec_store offset index f)
      else if op = JSR \<or> op = RET \<or> op = JSR_W then
        frame_error_at ''jsr/ret not supported at '' offset
      else if op = GETSTATIC then map_sum id (\<lambda>t. push_frame t f) (field_frame_type i cp)
      else if op = GETFIELD then
        try_bind (pop_frame offset (fs_stack f)) (\<lambda>(_, stack).
        map_sum id (\<lambda>t. on_stack (stack @ [t]) f) (field_frame_type i cp))
      else if INVOKEVIRTUAL \<le> op \<and> op \<le> INVOKEDYNAMIC then exec_invoke this i cp f
      else if op = WIDE then exec_wide i f
      else if op \<in> {NEW, NEWARRAY, ANEWARRAY, CHECKCAST, MULTIANEWARRAY} then exec_object i cp f
      else Inr f))))"

end
