(* ===== verification/Frames.thy ===== *)
theory Frames imports FrameEffect "HOL-Library.AList" begin

text \<open>
  The computation of stack maps and of the sizes of stack and locals in \<^verbatim>\<open>class_writer.rs\<close>: a
  worklist of instructions whose frames have changed is run until it is empty or has been run
  100000 times. A \<^verbatim>\<open>HashMap\<close> of frames is an association list without duplicates.
\<close>

subsection \<open>The frame at the start\<close>

fun local_types :: "field_type \<Rightarrow> frame_type list" where
  "local_types FLong = [FtLong, FtTop]"
| "local_types FDouble = [FtDouble, FtTop]"
| "local_types FFloat = [FtFloat]"
| "local_types FBoolean = [FtInteger]"
| "local_types FByte = [FtInteger]"
| "local_types FChar = [FtInteger]"
| "local_types FShort = [FtInteger]"
| "local_types FInt = [FtInteger]"
| "local_types (FObject name) = [FtObject name]"
| "local_types (FArray desc) = [FtObject desc]"
| "local_types FVoid = []"

definition push_local_type :: "field_type \<Rightarrow> frame_type list \<Rightarrow> frame_type list" where
  "push_local_type ty locals = locals @ local_types ty"

definition receiver_local :: "method_node \<Rightarrow> class_node \<Rightarrow> frame_type list" where
  "receiver_local m c =
     (if and (me_access m) 0x0008 = 0 then
        (if me_name m = text_of ''<init>'' then [FtUninitializedThis] else [FtObject (cn_name c)])
      else [])"

definition initial_frame :: "method_node \<Rightarrow> class_node \<Rightarrow> class_write_error + frame_state" where
  "initial_frame m c =
     try_bind (parse_method_descriptor (me_descriptor m)) (\<lambda>(params, _).
     Inr \<lparr>fs_locals = fold push_local_type params (receiver_local m c), fs_stack = []\<rparr>)"

definition pad_locals :: "u16 \<Rightarrow> frame_type list \<Rightarrow> frame_type list" where
  "pad_locals max_locals locals = grown (unat max_locals) locals"

subsection \<open>Handlers\<close>

record exception_handler =
  eh_start :: u16
  eh_end :: u16
  eh_handler :: u16
  eh_type :: frame_type

definition covers :: "exception_handler \<Rightarrow> u16 \<Rightarrow> bool" where
  "covers h offset \<longleftrightarrow> eh_start h \<le> offset \<and> offset < eh_end h"

definition build_exception_handler ::
    "cp_info list \<Rightarrow> exception_table_entry \<Rightarrow> class_write_error + exception_handler" where
  "build_exception_handler cp e =
     try_bind (if catch_type e = 0 then Inr (text_of ''java/lang/Throwable'')
               else writer_class_name cp (catch_type e)) (\<lambda>name.
     Inr \<lparr>eh_start = start_pc e, eh_end = end_pc e, eh_handler = handler_pc e, eh_type = FtObject name\<rparr>)"

definition build_exception_handlers ::
    "code_attribute \<Rightarrow> cp_info list \<Rightarrow> class_write_error + exception_handler list" where
  "build_exception_handlers code cp = try_map (build_exception_handler cp) (code_exceptions code)"

definition merge_exception_type :: "frame_type \<Rightarrow> frame_type \<Rightarrow> frame_type" where
  "merge_exception_type left right =
     (case (left, right) of
        (FtObject l, FtObject r) \<Rightarrow> FtObject (common_superclass l r)
      | _ \<Rightarrow> if left = right then left else FtObject java_object)"

definition add_common_type :: "exception_handler \<Rightarrow> (u16 \<rightharpoonup> frame_type) \<Rightarrow> (u16 \<rightharpoonup> frame_type)" where
  "add_common_type h m =
     m(eh_handler h \<mapsto>
         (case m (eh_handler h) of
            None \<Rightarrow> eh_type h
          | Some existing \<Rightarrow> merge_exception_type existing (eh_type h)))"

definition handler_common_types :: "exception_handler list \<Rightarrow> (u16 \<rightharpoonup> frame_type)" where
  "handler_common_types handlers = fold add_common_type handlers Map.empty"

subsection \<open>The worklist\<close>

record analysis =
  an_frames :: "(u16 \<times> frame_state) list"
  an_worklist :: "u16 list"
  an_queued :: "u16 set"

text \<open>What the analysis of a method reads. \<open>fe_type\<close> is the type a handler starts with.\<close>

record frame_env =
  fe_this :: rust_text
  fe_pool :: "cp_info list"
  fe_insns :: "parsed_instruction list"
  fe_handlers :: "exception_handler list"
  fe_type :: "exception_handler \<Rightarrow> frame_type"

abbreviation frame_at :: "analysis \<Rightarrow> u16 \<Rightarrow> frame_state option" where
  "frame_at a \<equiv> map_of (an_frames a)"

text \<open>Of several instructions at an offset the map has the last.\<close>

definition insn_at :: "parsed_instruction list \<Rightarrow> u16 \<Rightarrow> parsed_instruction option" where
  "insn_at insns offset = find (\<lambda>i. pi_offset i = offset) (rev insns)"

definition enqueue :: "u16 \<Rightarrow> analysis \<Rightarrow> analysis" where
  "enqueue offset a =
     (if offset \<in> an_queued a then a
      else a\<lparr>an_worklist := an_worklist a @ [offset], an_queued := insert offset (an_queued a)\<rparr>)"

definition propagate :: "frame_state \<Rightarrow> u16 \<Rightarrow> analysis \<Rightarrow> analysis" where
  "propagate out succ a =
     (case merge_frame out (frame_at a succ) of
        None \<Rightarrow> a
      | Some next \<Rightarrow>
          let changed = (case frame_at a succ of Some existing \<Rightarrow> existing \<noteq> next | None \<Rightarrow> True)
          in if changed then enqueue succ (a\<lparr>an_frames := AList.update succ next (an_frames a)\<rparr>) else a)"

definition handler_frame :: "frame_env \<Rightarrow> frame_state \<Rightarrow> exception_handler \<Rightarrow> frame_state" where
  "handler_frame env frame h = \<lparr>fs_locals = fs_locals frame, fs_stack = [fe_type env h]\<rparr>"

text \<open>
  One turn of the loop, with the frames it sees noted in \<open>x\<close>: the frame of the instruction, the one
  it leaves and those of its handlers.
\<close>

definition visit ::
    "frame_env \<Rightarrow> (frame_state \<Rightarrow> 'x \<Rightarrow> 'x) \<Rightarrow> u16 \<Rightarrow> analysis \<times> 'x \<Rightarrow> class_write_error + analysis \<times> 'x" where
  "visit env note offset ax =
     (case insn_at (fe_insns env) offset of
        None \<Rightarrow> frame_error_at ''missing instruction at '' offset
      | Some insn \<Rightarrow>
     (case frame_at (fst ax) offset of
        None \<Rightarrow> frame_error_at ''missing frame at '' offset
      | Some frame \<Rightarrow>
          try_bind (execute_instruction (fe_this env) (fe_pool env) insn frame) (\<lambda>out.
          let a = fold (propagate out) (instruction_successors insn) (fst ax);
              hs = filter (\<lambda>h. covers h offset) (fe_handlers env);
              a = fold (\<lambda>h. propagate (handler_frame env frame h) (eh_handler h)) hs a
          in Inr (a, fold note (frame # out # map (handler_frame env frame) hs) (snd ax)))))"

definition taken :: "analysis \<Rightarrow> u16 \<times> analysis" where
  "taken a =
     (let offset = hd (an_worklist a)
      in (offset, a\<lparr>an_worklist := tl (an_worklist a), an_queued := an_queued a - {offset}\<rparr>))"

function analyse ::
    "frame_env \<Rightarrow> (frame_state \<Rightarrow> 'x \<Rightarrow> 'x) \<Rightarrow> nat \<Rightarrow> analysis \<times> 'x \<Rightarrow> class_write_error + analysis \<times> 'x" where
  "analyse env note left ax =
     (if an_worklist (fst ax) = [] then Inr ax
      else if left = 0 then frame_error ''frame analysis exceeded iteration limit''
      else
        let (offset, a) = taken (fst ax)
        in try_bind (visit env note offset (a, snd ax)) (analyse env note (left - 1)))"
  by pat_completeness auto
termination analyse
  by (relation "measure (\<lambda>(env, note, left, ax). left)") auto

declare analyse.simps [simp del]

definition iteration_limit :: nat where
  "iteration_limit = 100000"

definition analysis_start :: "frame_state \<Rightarrow> analysis" where
  "analysis_start initial = \<lparr>an_frames = [(0, initial)], an_worklist = [0], an_queued = {0}\<rparr>"

subsection \<open>Stack maps\<close>

fun compact_from :: "frame_type option \<Rightarrow> frame_type list \<Rightarrow> frame_type list" where
  "compact_from prev [] = []"
| "compact_from prev (t # ts) =
     (if t = FtTop then
        (case prev of
           Some p \<Rightarrow> if is_category2 p then compact_from (Some t) ts else FtTop # compact_from (Some t) ts
         | None \<Rightarrow> FtTop # compact_from (Some t) ts)
      else if is_category2 t then
        t # (case ts of
               u # us \<Rightarrow> if u = FtTop then compact_from (Some u) us else compact_from (Some t) ts
             | [] \<Rightarrow> compact_from (Some t) ts)
      else t # compact_from (Some t) ts)"

definition without_tops :: "frame_type list \<Rightarrow> frame_type list" where
  "without_tops ts = rev (dropWhile (\<lambda>t. t = FtTop) (rev ts))"

definition compact_locals :: "frame_type list \<Rightarrow> frame_type list" where
  "compact_locals locals = without_tops (compact_from None locals)"

definition to_verification_type :: "frame_type \<Rightarrow> (cp_info list, verification_type_info) state" where
  "to_verification_type t =
     (case t of
        FtTop \<Rightarrow> ret VTop
      | FtInteger \<Rightarrow> ret VInteger
      | FtFloat \<Rightarrow> ret VFloat
      | FtLong \<Rightarrow> ret VLong
      | FtDouble \<Rightarrow> ret VDouble
      | FtNull \<Rightarrow> ret VNull
      | FtUninitializedThis \<Rightarrow> ret VUninitializedThis
      | FtUninitialized offset \<Rightarrow> ret (VUninitialized offset)
      | FtObject name \<Rightarrow> do { i \<leftarrow> on_pool (ensure_class name); ret (VObject i) })"

text \<open>\<^verbatim>\<open>(offset as i32 - previous_offset - 1) as u16\<close>\<close>

definition full_frame :: "int \<Rightarrow> u16 \<Rightarrow> frame_state \<Rightarrow> (cp_info list, stack_map_frame) state" where
  "full_frame previous offset frame =
     do { locals \<leftarrow> for_each to_verification_type (compact_locals (fs_locals frame));
          stack \<leftarrow> for_each to_verification_type (fs_stack frame);
          ret (FullFrame (word_of_int (uint offset - previous - 1)) locals stack) }"

fun full_frames :: "int \<Rightarrow> (u16 \<times> frame_state) list \<Rightarrow> (cp_info list, stack_map_frame list) state" where
  "full_frames previous [] = ret []"
| "full_frames previous ((offset, frame) # frames) =
     (if offset = 0 then full_frames previous frames
      else do { entry \<leftarrow> full_frame previous offset frame;
                entries \<leftarrow> full_frames (uint offset) frames;
                ret (entry # entries) })"

definition sorted_frames :: "(u16 \<times> frame_state) list \<Rightarrow> (u16 \<times> frame_state) list" where
  "sorted_frames frames = sort_key fst frames"

definition stack_map_env ::
    "class_node \<Rightarrow> cp_info list \<Rightarrow> parsed_instruction list \<Rightarrow> exception_handler list \<Rightarrow> frame_env" where
  "stack_map_env c cp insns handlers =
     \<lparr>fe_this = cn_name c, fe_pool = cp, fe_insns = insns, fe_handlers = handlers,
      fe_type = (\<lambda>h. case handler_common_types handlers (eh_handler h) of Some t \<Rightarrow> t | None \<Rightarrow> eh_type h)\<rparr>"

definition compute_stack_map_table ::
    "method_node \<Rightarrow> class_node \<Rightarrow> code_attribute \<Rightarrow> u16 \<Rightarrow> cp_info list \<Rightarrow>
     class_write_error + stack_map_frame list \<times> cp_info list" where
  "compute_stack_map_table m c code max_locals cp =
     try_bind (parse_instructions (code_bytes code)) (\<lambda>insns.
     if insns = [] then Inr ([], cp)
     else
       try_bind (build_exception_handlers code cp) (\<lambda>handlers.
       try_bind (initial_frame m c) (\<lambda>initial.
       let initial = initial\<lparr>fs_locals := pad_locals max_locals (fs_locals initial)\<rparr> in
       try_bind
         (analyse (stack_map_env c cp insns handlers) (\<lambda>_ u. u) iteration_limit (analysis_start initial, ()))
         (\<lambda>(a, _). Inr (run_state (full_frames (-1) (sorted_frames (an_frames a))) cp)))))"

subsection \<open>Sizes\<close>

definition stack_slots :: "frame_type list \<Rightarrow> nat" where
  "stack_slots stack = sum_list (map (\<lambda>t. if is_category2 t then 2 else 1) stack)"

definition note_sizes :: "frame_state \<Rightarrow> nat \<times> nat \<Rightarrow> nat \<times> nat" where
  "note_sizes frame sizes =
     (max (fst sizes) (stack_slots (fs_stack frame)), max (snd sizes) (length (fs_locals frame)))"

definition maxs_env ::
    "class_node \<Rightarrow> cp_info list \<Rightarrow> parsed_instruction list \<Rightarrow> exception_handler list \<Rightarrow> frame_env" where
  "maxs_env c cp insns handlers =
     \<lparr>fe_this = cn_name c, fe_pool = cp, fe_insns = insns, fe_handlers = handlers, fe_type = eh_type\<rparr>"

definition compute_maxs ::
    "method_node \<Rightarrow> class_node \<Rightarrow> code_attribute \<Rightarrow> cp_info list \<Rightarrow> class_write_error + u16 \<times> u16" where
  "compute_maxs m c code cp =
     try_bind (parse_instructions (code_bytes code)) (\<lambda>insns.
     if insns = [] then map_sum id (\<lambda>f. (0, word_of_nat (length (fs_locals f)))) (initial_frame m c)
     else
       try_bind (build_exception_handlers code cp) (\<lambda>handlers.
       try_bind (initial_frame m c) (\<lambda>initial.
       try_bind
         (analyse (maxs_env c cp insns handlers) note_sizes iteration_limit
           (analysis_start initial, (length (fs_stack initial), length (fs_locals initial))))
         (\<lambda>(_, max_stack, max_locals). Inr (word_of_nat max_stack, word_of_nat max_locals)))))"

end
