(* ===== verification/FrameFacts.thy ===== *)
theory FrameFacts imports Frames begin

text \<open>
  What the worklist of the frame computation leaves: a stable assignment of frames, in which each
  recorded frame is executed without an error and what comes out is absorbed by the frames of all
  successors and covering handlers.
\<close>

subsection \<open>Absorption\<close>

text \<open>
  The worklist needs no semilattice: a merge must absorb its argument and keep what was absorbed.
\<close>

locale absorption =
  fixes absorbed :: "'s \<Rightarrow> 's \<Rightarrow> bool" and merged :: "'s \<Rightarrow> 's \<Rightarrow> 's"
  assumes same: "absorbed g g"
    and takes: "absorbed (merged b g) b"
    and keeps: "absorbed g a \<Longrightarrow> absorbed (merged b g) a"
begin

text \<open>An assignment grows if it keeps its places and each of them keeps what it has absorbed.\<close>

definition grows :: "('k \<rightharpoonup> 's) \<Rightarrow> ('k \<rightharpoonup> 's) \<Rightarrow> bool" where
  "grows m m' \<longleftrightarrow> (\<forall>k g. m k = Some g \<longrightarrow> (\<exists>g'. m' k = Some g' \<and> (\<forall>a. absorbed g a \<longrightarrow> absorbed g' a)))"

lemma grows_refl: "grows m m"
  by (auto simp: grows_def)

lemma wider_trans: "grows m m' \<Longrightarrow> grows m' m'' \<Longrightarrow> grows m m''"
  unfolding grows_def by meson

text \<open>What an assignment has absorbed at a place.\<close>

definition takes_in :: "('k \<rightharpoonup> 's) \<Rightarrow> 'k \<Rightarrow> 's \<Rightarrow> bool" where
  "takes_in m k a \<longleftrightarrow> (\<exists>g. m k = Some g \<and> absorbed g a)"

lemma takes_in_grows: "takes_in m k a \<Longrightarrow> grows m m' \<Longrightarrow> takes_in m' k a"
  unfolding grows_def takes_in_def by blast

lemma new_place: "m k = None \<Longrightarrow> grows m (m(k \<mapsto> a)) \<and> takes_in (m(k \<mapsto> a)) k a"
  by (auto simp: grows_def takes_in_def same)

lemma merged_place:
  "m k = Some g \<Longrightarrow> grows m (m(k \<mapsto> merged a g)) \<and> takes_in (m(k \<mapsto> merged a g)) k a"
  by (auto simp: grows_def takes_in_def intro: keeps takes)

end

interpretation frames: absorption absorbs merged_frame
  by unfold_locales (simp_all add: absorbs_merged absorbs_keeps)

subsection \<open>Turns of the worklist\<close>

definition worklist_ok :: "analysis \<Rightarrow> bool" where
  "worklist_ok a \<longleftrightarrow>
     distinct (map fst (an_frames a)) \<and> distinct (an_worklist a) \<and> an_queued a = set (an_worklist a) \<and>
     set (an_worklist a) \<subseteq> dom (frame_at a)"

text \<open>Frames grow, and those that change are queued.\<close>

definition advances :: "analysis \<Rightarrow> analysis \<Rightarrow> bool" where
  "advances a a' \<longleftrightarrow>
     worklist_ok a' \<and> set (an_worklist a) \<subseteq> set (an_worklist a') \<and>
     frames.grows (frame_at a) (frame_at a') \<and>
     (\<forall>k. k \<notin> set (an_worklist a') \<longrightarrow> frame_at a' k = frame_at a k)"

lemma advances_refl: "worklist_ok a \<Longrightarrow> advances a a"
  by (simp add: advances_def frames.grows_refl)

lemma advances_trans: "advances a b \<Longrightarrow> advances b c \<Longrightarrow> advances a c"
  unfolding advances_def using frames.wider_trans [of "frame_at a" "frame_at b" "frame_at c"]
  by (intro conjI; (elim conjE)?) auto

lemma advances_update:
  assumes ok: "worklist_ok a" and grows: "frames.grows (frame_at a) ((frame_at a)(k \<mapsto> f))"
  shows "advances a (enqueue k (a\<lparr>an_frames := AList.update k f (an_frames a)\<rparr>))"
  using assms
  by (auto simp: advances_def worklist_ok_def enqueue_def update_conv' distinct_update)

lemma propagate_advances:
  assumes ok: "worklist_ok a"
  shows "advances a (propagate out k a) \<and> frames.takes_in (frame_at (propagate out k a)) k out"
proof (cases "frame_at a k")
  case None
  thus ?thesis
    using advances_update [OF ok] frames.new_place [of "frame_at a" k out]
    by (simp add: propagate_def merge_frame_def Let_def enqueue_def update_conv')
next
  case (Some g)
  thus ?thesis
    using advances_update [OF ok] advances_refl [OF ok] frames.merged_place [of "frame_at a" k g out]
    by (auto simp: propagate_def merge_frame_def Let_def enqueue_def update_conv' frames.takes_in_def absorbs_def)
qed

lemma advances_ok: "advances a b \<Longrightarrow> worklist_ok b"
  by (simp add: advances_def)

lemma advances_grows: "advances a b \<Longrightarrow> frames.grows (frame_at a) (frame_at b)"
  by (simp add: advances_def)

lemma propagate_all:
  "worklist_ok a \<Longrightarrow>
   advances a (fold (\<lambda>x. propagate (out x) (to x)) xs a) \<and>
   (\<forall>x \<in> set xs. frames.takes_in (frame_at (fold (\<lambda>x. propagate (out x) (to x)) xs a)) (to x) (out x))"
proof (induction xs arbitrary: a)
  case (Cons x xs)
  let ?b = "propagate (out x) (to x) a"
  have b: "advances a ?b" "frames.takes_in (frame_at ?b) (to x) (out x)"
    using propagate_advances [OF Cons.prems] by blast+
  let ?c = "fold (\<lambda>x. propagate (out x) (to x)) xs ?b"
  have c: "advances ?b ?c" "\<forall>x \<in> set xs. frames.takes_in (frame_at ?c) (to x) (out x)"
    using Cons.IH [OF advances_ok [OF b(1)]] by blast+
  have "advances a ?c" by (rule advances_trans [OF b(1) c(1)])
  moreover have "frames.takes_in (frame_at ?c) (to x) (out x)"
    by (rule frames.takes_in_grows [OF b(2) advances_grows [OF c(1)]])
  ultimately show ?case using c(2) by simp
qed (simp add: advances_refl)

text \<open>A place is stable if its frame has been passed on.\<close>

definition passed_on :: "frame_env \<Rightarrow> (u16 \<rightharpoonup> frame_state) \<Rightarrow> u16 \<Rightarrow> frame_state \<Rightarrow> parsed_instruction \<Rightarrow> frame_state \<Rightarrow> bool" where
  "passed_on env m offset frame insn out \<longleftrightarrow>
     insn_at (fe_insns env) offset = Some insn \<and>
     execute_instruction (fe_this env) (fe_pool env) insn frame = Inr out \<and>
     (\<forall>succ \<in> set (instruction_successors insn). frames.takes_in m succ out) \<and>
     (\<forall>h \<in> set (fe_handlers env). covers h offset \<longrightarrow> frames.takes_in m (eh_handler h) (handler_frame env frame h))"

definition stable_at :: "frame_env \<Rightarrow> (frame_state \<Rightarrow> bool) \<Rightarrow> (u16 \<rightharpoonup> frame_state) \<Rightarrow> u16 \<Rightarrow> bool" where
  "stable_at env seen m offset \<longleftrightarrow>
     (\<forall>frame. m offset = Some frame \<longrightarrow>
        (\<exists>insn out. passed_on env m offset frame insn out \<and> seen frame \<and> seen out))"

lemma passed_on_grows: "passed_on env m k f i out \<Longrightarrow> frames.grows m m' \<Longrightarrow> passed_on env m' k f i out"
  using frames.takes_in_grows [of m _ _ m'] by (simp add: passed_on_def)

lemma visit_advances:
  assumes ok: "worklist_ok a" and run: "visit env note k (a, x) = Inr (a', x')"
  shows "\<exists>frame insn out. frame_at a k = Some frame \<and> advances a a' \<and> passed_on env (frame_at a') k frame insn out \<and>
    x' = fold note (frame # out # map (handler_frame env frame) (filter (\<lambda>h. covers h k) (fe_handlers env))) x"
proof -
  from run obtain insn frame out where insn: "insn_at (fe_insns env) k = Some insn"
    and frame: "frame_at a k = Some frame"
    and out: "execute_instruction (fe_this env) (fe_pool env) insn frame = Inr out"
    by (auto simp: visit_def try_bind_Inr split: option.splits)
  let ?hs = "filter (\<lambda>h. covers h k) (fe_handlers env)"
  let ?b = "fold (\<lambda>s. propagate out s) (instruction_successors insn) a"
  let ?c = "fold (\<lambda>h. propagate (handler_frame env frame h) (eh_handler h)) ?hs ?b"
  have a': "a' = ?c" and x': "x' = fold note (frame # out # map (handler_frame env frame) ?hs) x"
    using run by (simp_all add: visit_def insn frame out Let_def del: fold_simps)
  note b = propagate_all [OF ok, of "\<lambda>_. out" "\<lambda>s. s" "instruction_successors insn"]
  note c = propagate_all [OF advances_ok [OF conjunct1 [OF b]], of "handler_frame env frame" eh_handler ?hs]
  have "advances a ?c" by (rule advances_trans [OF conjunct1 [OF b] conjunct1 [OF c]])
  moreover have "frames.takes_in (frame_at ?c) s out" if "s \<in> set (instruction_successors insn)" for s
    by (rule frames.takes_in_grows [OF bspec [OF conjunct2 [OF b] that] advances_grows [OF conjunct1 [OF c]]])
  hence "passed_on env (frame_at ?c) k frame insn out"
    unfolding passed_on_def using insn out conjunct2 [OF c] by simp
  ultimately show ?thesis using frame x' a' by blast
qed

text \<open>What is noted of a frame stays noted.\<close>

definition noting :: "('x \<Rightarrow> frame_state \<Rightarrow> bool) \<Rightarrow> (frame_state \<Rightarrow> 'x \<Rightarrow> 'x) \<Rightarrow> bool" where
  "noting seen note \<longleftrightarrow>
     (\<forall>f x. seen (note f x) f) \<and> (\<forall>f g x. seen x f \<longrightarrow> seen (note g x) f)"

lemma notes_fold: "noting seen note \<Longrightarrow> seen x f \<Longrightarrow> seen (fold note fs x) f"
  by (induction fs arbitrary: x) (simp_all add: noting_def)

text \<open>The invariant of the loop: what is not queued is stable.\<close>

definition settled ::
    "frame_env \<Rightarrow> ('x \<Rightarrow> frame_state \<Rightarrow> bool) \<Rightarrow> analysis \<Rightarrow> 'x \<Rightarrow> bool" where
  "settled env seen a x \<longleftrightarrow>
     worklist_ok a \<and> (\<forall>k. k \<notin> set (an_worklist a) \<longrightarrow> stable_at env (seen x) (frame_at a) k)"

lemma settled_start: "settled env seen (analysis_start f) x"
  by (auto simp: settled_def worklist_ok_def analysis_start_def stable_at_def)

lemma taken_settled:
  assumes "settled env seen a x" and "an_worklist a \<noteq> []" and "taken a = (k, b)"
  shows "worklist_ok b" and "frame_at b = frame_at a"
    and "\<And>j. j \<notin> set (an_worklist b) \<Longrightarrow> j \<noteq> k \<Longrightarrow> stable_at env (seen x) (frame_at b) j"
  using assms by (cases "an_worklist a"; auto simp: settled_def worklist_ok_def taken_def Let_def)+

lemma visit_settled:
  assumes a: "settled env seen a x" "an_worklist a \<noteq> []" "taken a = (k, b)" and noting: "noting seen note"
    and run: "visit env note k (b, x) = Inr (c, y)"
  shows "settled env seen c y"
proof -
  note b = taken_settled [OF a]
  obtain frame insn out where frame: "frame_at b k = Some frame" and adv: "advances b c"
    and passed: "passed_on env (frame_at c) k frame insn out"
    and y: "y = fold note (map (handler_frame env frame) (filter (\<lambda>h. covers h k) (fe_handlers env)))
      (note out (note frame x))"
    using visit_advances [OF b(1) run] by auto
  have seen: "seen y frame" "seen y out"
    unfolding y by (rule notes_fold [OF noting], use noting in \<open>simp add: noting_def\<close>)+
  have kept: "seen y f" if "seen x f" for f
    unfolding y by (rule notes_fold [OF noting]) (use noting that in \<open>simp add: noting_def\<close>)
  have "stable_at env (seen y) (frame_at c) j" if j: "j \<notin> set (an_worklist c)" for j
  proof (cases "j = k")
    case True
    have "frame_at c k = Some frame" using adv j frame True by (simp add: advances_def)
    thus ?thesis using passed seen True by (auto simp: stable_at_def)
  next
    case False
    have same: "frame_at c j = frame_at b j" and "j \<notin> set (an_worklist b)"
      using adv j by (auto simp: advances_def)
    with b(3) False have "stable_at env (seen x) (frame_at b) j" by blast
    thus ?thesis
      unfolding stable_at_def same using passed_on_grows [OF _ advances_grows [OF adv]] kept by metis
  qed
  thus ?thesis using advances_ok [OF adv] by (simp add: settled_def)
qed

lemma analyse_settled:
  assumes "analyse env note n (a, x) = Inr (a', x')" and "settled env seen a x" and noting: "noting seen note"
  shows "settled env seen a' x' \<and> an_worklist a' = [] \<and> frames.grows (frame_at a) (frame_at a')"
  using assms(1,2)
proof (induction n arbitrary: a x)
  case 0
  thus ?case by (subst (asm) analyse.simps) (auto simp: frames.grows_refl split: if_splits)
next
  case (Suc n)
  show ?case
  proof (cases "an_worklist a = []")
    case True
    thus ?thesis using Suc.prems by (subst (asm) analyse.simps) (simp add: frames.grows_refl)
  next
    case False
    obtain k b where taken: "taken a = (k, b)" by fastforce
    with Suc.prems False obtain c y where v: "visit env note k (b, x) = Inr (c, y)"
      and rest: "analyse env note n (c, y) = Inr (a', x')"
      by (subst (asm) analyse.simps) (auto simp: try_bind_Inr)
    note b = taken_settled [OF Suc.prems(2) False taken]
    have "frames.grows (frame_at b) (frame_at c)"
      using visit_advances [OF b(1) v] advances_grows by blast
    thus ?thesis
      using Suc.IH [OF rest visit_settled [OF Suc.prems(2) False taken noting v]] frames.wider_trans
      unfolding b(2) by blast
  qed
qed

text \<open>
  What the loop leaves is a typing of the code: the first frame takes the initial one in, every
  recorded frame is executed, and what comes out is absorbed where control can go.
\<close>

definition frames_typed ::
    "frame_env \<Rightarrow> frame_state \<Rightarrow> (frame_state \<Rightarrow> bool) \<Rightarrow> (u16 \<rightharpoonup> frame_state) \<Rightarrow> bool" where
  "frames_typed env initial seen m \<longleftrightarrow>
     frames.takes_in m 0 initial \<and> (\<forall>offset. stable_at env seen m offset)"

lemma analyse_typed:
  assumes "analyse env note n (analysis_start f, x) = Inr (a, y)" and "noting seen note"
  shows "frames_typed env f (seen y) (frame_at a)" and "distinct (map fst (an_frames a))"
proof -
  note settled = analyse_settled [OF assms(1) settled_start assms(2)]
  have "frames.takes_in (frame_at (analysis_start f)) 0 f"
    by (simp add: analysis_start_def frames.takes_in_def)
  hence "frames.takes_in (frame_at a) 0 f" using settled frames.takes_in_grows [of _ 0 f] by blast
  with settled show "frames_typed env f (seen y) (frame_at a)" by (auto simp: frames_typed_def settled_def)
  from settled show "distinct (map fst (an_frames a))" by (simp add: settled_def worklist_ok_def)
qed

text \<open>The sizes that are noted bound those of all frames.\<close>

definition sized :: "nat \<times> nat \<Rightarrow> frame_state \<Rightarrow> bool" where
  "sized sizes f \<longleftrightarrow> stack_slots (fs_stack f) \<le> fst sizes \<and> length (fs_locals f) \<le> snd sizes"

lemma noting_sizes: "noting sized note_sizes"
  by (auto simp: noting_def sized_def note_sizes_def)

lemma noting_nothing: "noting (\<lambda>_ _. True) note"
  by (simp add: noting_def)

subsection \<open>The entries\<close>

text \<open>The offsets that a reader of a stack map computes.\<close>

fun frame_positions :: "int \<Rightarrow> stack_map_frame list \<Rightarrow> int list" where
  "frame_positions previous [] = []"
| "frame_positions previous (FullFrame delta _ _ # entries) =
     (let offset = previous + uint delta + 1 in offset # frame_positions offset entries)"
| "frame_positions previous (_ # entries) = []"

fun verification_denotes :: "cp_info list \<Rightarrow> frame_type \<Rightarrow> verification_type_info \<Rightarrow> bool" where
  "verification_denotes cp (FtObject name) v \<longleftrightarrow> (\<exists>i. v = VObject i \<and> cp_class_name cp i = Inr name)"
| "verification_denotes cp (FtUninitialized offset) v \<longleftrightarrow> v = VUninitialized offset"
| "verification_denotes cp FtTop v \<longleftrightarrow> v = VTop"
| "verification_denotes cp FtInteger v \<longleftrightarrow> v = VInteger"
| "verification_denotes cp FtFloat v \<longleftrightarrow> v = VFloat"
| "verification_denotes cp FtLong v \<longleftrightarrow> v = VLong"
| "verification_denotes cp FtDouble v \<longleftrightarrow> v = VDouble"
| "verification_denotes cp FtNull v \<longleftrightarrow> v = VNull"
| "verification_denotes cp FtUninitializedThis v \<longleftrightarrow> v = VUninitializedThis"

definition frame_denotes :: "cp_info list \<Rightarrow> frame_state \<Rightarrow> stack_map_frame \<Rightarrow> bool" where
  "frame_denotes cp f entry \<longleftrightarrow>
     (\<exists>delta locals stack. entry = FullFrame delta locals stack \<and>
        list_all2 (verification_denotes cp) (compact_locals (fs_locals f)) locals \<and>
        list_all2 (verification_denotes cp) (fs_stack f) stack)"

lemma verification_interns: "cp_interns P (to_verification_type t) (\<lambda>cp v. verification_denotes cp t v)"
  by (cases t) (auto simp: to_verification_type_def intro!: interns_ret interns_bind [OF ensure_class_interns])

lemma full_frame_interns:
  "cp_interns P (full_frame previous offset f)
     (\<lambda>cp entry. frame_denotes cp f entry \<and>
        (\<exists>locals stack. entry = FullFrame (word_of_int (uint offset - previous - 1)) locals stack))"
  unfolding full_frame_def
  by (intro interns_bind [OF interns_for_each [OF verification_interns]] interns_ret) (auto simp: frame_denotes_def)

text \<open>The deltas are small enough for their sixteen bits.\<close>

lemma delta_fits:
  assumes "-1 \<le> previous" and "previous < uint (offset :: u16)"
  shows "previous + uint (word_of_int (uint offset - previous - 1) :: u16) + 1 = uint offset"
proof -
  let ?d = "uint offset - previous - 1"
  have "?d < 65536" "0 \<le> ?d" using assms uint_bounded [of offset] by simp_all
  hence "uint (word_of_int ?d :: u16) = ?d" unfolding uint_word_of_int by simp
  thus ?thesis by linarith
qed

lemma full_frames_interns:
  "sorted_wrt (\<lambda>x y. uint (fst x) < uint (fst y)) fs \<Longrightarrow> -1 \<le> previous \<Longrightarrow>
   \<forall>x \<in> set fs. fst x \<noteq> 0 \<longrightarrow> previous < uint (fst x) \<Longrightarrow>
   cp_interns P (full_frames previous fs)
     (\<lambda>cp entries. list_all2 (\<lambda>x entry. frame_denotes cp (snd x) entry) (filter (\<lambda>x. fst x \<noteq> 0) fs) entries \<and>
        frame_positions previous entries = map (uint \<circ> fst) (filter (\<lambda>x. fst x \<noteq> 0) fs))"
proof (induction fs arbitrary: previous P)
  case (Cons x fs)
  obtain offset f where x: "x = (offset, f)" by fastforce
  show ?case
  proof (cases "offset = 0")
    case True
    thus ?thesis using Cons.IH Cons.prems by (simp add: x)
  next
    case False
    have rest: "cp_interns P' (full_frames (uint offset) fs)
        (\<lambda>cp entries. list_all2 (\<lambda>x entry. frame_denotes cp (snd x) entry) (filter (\<lambda>x. fst x \<noteq> 0) fs) entries \<and>
        frame_positions (uint offset) entries = map (uint \<circ> fst) (filter (\<lambda>x. fst x \<noteq> 0) fs))" for P'
      using Cons.prems uint_nonnegative [of offset] by (intro Cons.IH) (auto simp: x)
    have "previous + uint (word_of_int (uint offset - previous - 1) :: u16) + 1 = uint offset"
      using Cons.prems False by (intro delta_fits) (auto simp: x)
    thus ?thesis using False
      by (simp add: x, intro interns_bind [OF full_frame_interns] interns_bind [OF rest] interns_ret) auto
  qed
qed (simp add: interns_ret)

lemma sorted_frames_sorted:
  assumes "distinct (map fst frames)"
  shows "sorted_wrt (\<lambda>x y. uint (fst x) < uint (fst y)) (sorted_frames frames)"
proof -
  have "sorted (map fst (sorted_frames frames))" by (simp add: sorted_frames_def)
  moreover have "distinct (map fst (sorted_frames frames))"
    using assms by (simp add: sorted_frames_def distinct_map)
  ultimately have "sorted_wrt (<) (map fst (sorted_frames frames))"
    by (simp add: strict_sorted_iff)
  thus ?thesis by (simp add: sorted_wrt_map word_less_def)
qed

subsection \<open>Compact locals\<close>

text \<open>The locals that a list of verification types stands for: a long or double takes two.\<close>

definition slots_of :: "frame_type list \<Rightarrow> frame_type list" where
  "slots_of ts = concat (map (\<lambda>t. if is_category2 t then [t, FtTop] else [t]) ts)"

text \<open>The second half of each long or double is there.\<close>

fun paired :: "frame_type list \<Rightarrow> bool" where
  "paired [] \<longleftrightarrow> True"
| "paired (t # ts) \<longleftrightarrow>
     (if is_category2 t then (case ts of [] \<Rightarrow> True | u # us \<Rightarrow> u = FtTop \<and> paired us) else paired ts)"

lemma slots_of_simps [simp]:
  "slots_of [] = []"
  "slots_of (t # ts) = (if is_category2 t then [t, FtTop] else [t]) @ slots_of ts"
  by (simp_all add: slots_of_def)

lemma slots_of_append [simp]: "slots_of (ts @ us) = slots_of ts @ slots_of us"
  by (simp add: slots_of_def)

lemma top_not_wide [simp]: "\<not> is_category2 FtTop"
  by (simp add: is_category2_def)

lemma without_tops_append_top [simp]: "without_tops (ts @ [FtTop]) = without_tops ts"
  by (simp add: without_tops_def)

lemma slots_of_without_tops: "without_tops (slots_of (without_tops ts)) = without_tops (slots_of ts)"
proof (induction ts rule: rev_induct)
  case (snoc t ts)
  show ?case
  proof (cases "t = FtTop")
    case False
    hence "without_tops (ts @ [t]) = ts @ [t]" by (simp add: without_tops_def)
    thus ?thesis by simp
  qed (use snoc in simp)
qed (simp add: without_tops_def)

lemma slots_of_compact:
  assumes "paired ts" and "\<And>p. prev = Some p \<Longrightarrow> \<not> is_category2 p"
  shows "slots_of (compact_from prev ts) = ts \<or> slots_of (compact_from prev ts) = ts @ [FtTop]"
  using assms
proof (induction prev ts rule: compact_from.induct)
  case (2 prev t ts)
  show ?case
  proof (cases "is_category2 t")
    case True
    hence "t \<noteq> FtTop" by auto
    thus ?thesis using 2 True by (cases ts) auto
  next
    case False
    thus ?thesis using 2 by (cases "t = FtTop"; cases prev) auto
  qed
qed simp

text \<open>Compact locals stand for the locals, but for what is not in use at the end.\<close>

lemma slots_of_compact_locals:
  assumes "paired locals"
  shows "without_tops (slots_of (compact_locals locals)) = without_tops locals"
  using slots_of_compact [OF assms, of None]
  by (auto simp: compact_locals_def slots_of_without_tops)

text \<open>
  Where the second half of a long has been overwritten the long is still there, and the locals behind
  it are moved.
\<close>

lemma stale_long:
  "store_local [FtLong, FtTop] 1 FtInteger = [FtLong, FtInteger]"
  "slots_of (compact_locals [FtLong, FtInteger]) = [FtLong, FtTop, FtInteger]"
  by (simp_all add: store_local_def grown_def is_category2_def compact_locals_def without_tops_def)

end
