(* ===== verification/FrameSizes.thy ===== *)
theory FrameSizes imports FrameFacts begin

text \<open>
  The frames that the analysis of a method can meet, and that the sizes it notes are those of the
  largest it has met.
\<close>

subsection \<open>Frames that can be met\<close>

text \<open>\<open>analysed env initial k f\<close>: the analysis may record \<open>f\<close> at the offset \<open>k\<close>.\<close>

inductive analysed :: "frame_env \<Rightarrow> frame_state \<Rightarrow> u16 \<Rightarrow> frame_state \<Rightarrow> bool" for env initial where
  start: "analysed env initial 0 initial"
| merge: "analysed env initial k f \<Longrightarrow> analysed env initial k g \<Longrightarrow> analysed env initial k (merged_frame f g)"
| step: "analysed env initial k f \<Longrightarrow> insn_at (fe_insns env) k = Some insn \<Longrightarrow>
    execute_instruction (fe_this env) (fe_pool env) insn f = Inr out \<Longrightarrow>
    succ \<in> set (instruction_successors insn) \<Longrightarrow> analysed env initial succ out"
| handler: "analysed env initial k f \<Longrightarrow> h \<in> set (fe_handlers env) \<Longrightarrow> covers h k \<Longrightarrow>
    analysed env initial (eh_handler h) (handler_frame env f h)"

text \<open>A frame is met if it is recorded at an instruction or left by it.\<close>

inductive met :: "frame_env \<Rightarrow> frame_state \<Rightarrow> frame_state \<Rightarrow> bool" for env initial where
  recorded: "analysed env initial k f \<Longrightarrow> met env initial f"
| left_by: "analysed env initial k f \<Longrightarrow> insn_at (fe_insns env) k = Some insn \<Longrightarrow>
    execute_instruction (fe_this env) (fe_pool env) insn f = Inr out \<Longrightarrow> met env initial out"

definition records :: "frame_env \<Rightarrow> frame_state \<Rightarrow> (u16 \<rightharpoonup> frame_state) \<Rightarrow> bool" where
  "records env initial m \<longleftrightarrow> (\<forall>k f. m k = Some f \<longrightarrow> analysed env initial k f)"

lemma propagate_records:
  assumes "records env initial (frame_at a)" and "analysed env initial k out"
  shows "records env initial (frame_at (propagate out k a))"
proof (cases "frame_at a k")
  case None
  thus ?thesis using assms
    by (auto simp: propagate_def merge_frame_def enqueue_def update_conv' records_def)
next
  case (Some g)
  with assms have "analysed env initial k (merged_frame out g)" by (auto simp: records_def intro: analysed.merge)
  thus ?thesis using Some assms
    by (auto simp: propagate_def merge_frame_def enqueue_def update_conv' records_def Let_def)
qed

lemma propagate_all_records:
  "records env initial (frame_at a) \<Longrightarrow> \<forall>x \<in> set xs. analysed env initial (to x) (out x) \<Longrightarrow>
   records env initial (frame_at (fold (\<lambda>x. propagate (out x) (to x)) xs a))"
  by (induction xs arbitrary: a) (simp_all add: propagate_records)

subsection \<open>The sizes that are noted\<close>

text \<open>\<open>attained\<close>: there are frames that have the sizes.\<close>

definition attained :: "frame_env \<Rightarrow> frame_state \<Rightarrow> nat \<times> nat \<Rightarrow> bool" where
  "attained env initial sizes \<longleftrightarrow>
     (\<exists>f. met env initial f \<and> stack_slots (fs_stack f) = fst sizes) \<and>
     (\<exists>f. met env initial f \<and> length (fs_locals f) = snd sizes)"

lemma note_attained: "attained env initial sizes \<Longrightarrow> met env initial f \<Longrightarrow> attained env initial (note_sizes f sizes)"
  by (auto simp: attained_def note_sizes_def max_def)

lemma notes_attained:
  "attained env initial sizes \<Longrightarrow> \<forall>f \<in> set fs. met env initial f \<Longrightarrow> attained env initial (fold note_sizes fs sizes)"
  by (induction fs arbitrary: sizes) (simp_all add: note_attained)

lemma visit_attained:
  assumes a: "records env initial (frame_at a)" and sizes: "attained env initial sizes"
    and run: "visit env note_sizes k (a, sizes) = Inr (a', sizes')"
  shows "records env initial (frame_at a') \<and> attained env initial sizes'"
proof -
  from run obtain insn frame out where insn: "insn_at (fe_insns env) k = Some insn"
    and frame: "frame_at a k = Some frame"
    and out: "execute_instruction (fe_this env) (fe_pool env) insn frame = Inr out"
    by (auto simp: visit_def try_bind_Inr split: option.splits)
  let ?hs = "filter (\<lambda>h. covers h k) (fe_handlers env)"
  let ?b = "fold (\<lambda>s. propagate out s) (instruction_successors insn) a"
  have a': "a' = fold (\<lambda>h. propagate (handler_frame env frame h) (eh_handler h)) ?hs ?b"
    and sizes': "sizes' = fold note_sizes (frame # out # map (handler_frame env frame) ?hs) sizes"
    using run by (simp_all add: visit_def insn frame out Let_def del: fold_simps)
  have at: "analysed env initial k frame" using a frame by (simp add: records_def)
  have hs: "analysed env initial (eh_handler h) (handler_frame env frame h)" if "h \<in> set ?hs" for h
    using analysed.handler [OF at] that by simp
  have "records env initial (frame_at ?b)"
    using propagate_all_records [OF a, of "instruction_successors insn" "\<lambda>s. s" "\<lambda>_. out"]
      analysed.step [OF at insn out] by simp
  from propagate_all_records [OF this, of ?hs eh_handler "handler_frame env frame"] hs
  have "records env initial (frame_at a')" unfolding a' by simp
  moreover have "\<forall>f \<in> set (frame # out # map (handler_frame env frame) ?hs). met env initial f"
    using met.recorded [OF at] met.left_by [OF at insn out] met.recorded [OF hs] by auto
  ultimately show ?thesis using notes_attained [OF sizes] unfolding sizes' by blast
qed

lemma analyse_attained:
  assumes "analyse env note_sizes n (a, sizes) = Inr (a', sizes')"
    and "records env initial (frame_at a)" and "attained env initial sizes"
  shows "attained env initial sizes'"
  using assms
proof (induction n arbitrary: a sizes)
  case 0
  thus ?case by (subst (asm) analyse.simps) (auto split: if_splits)
next
  case (Suc n)
  show ?case
  proof (cases "an_worklist a = []")
    case True
    thus ?thesis using Suc.prems by (subst (asm) analyse.simps) simp
  next
    case False
    obtain k b where taken: "taken a = (k, b)" by fastforce
    with Suc.prems(1) False obtain c y where v: "visit env note_sizes k (b, sizes) = Inr (c, y)"
      and rest: "analyse env note_sizes n (c, y) = Inr (a', sizes')"
      by (subst (asm) analyse.simps) (auto simp: try_bind_Inr)
    have "frame_at b = frame_at a" using taken by (auto simp: taken_def Let_def)
    with Suc.prems have "records env initial (frame_at c) \<and> attained env initial y"
      by (intro visit_attained [OF _ _ v]) simp_all
    with Suc.IH [OF rest] show ?thesis by blast
  qed
qed

lemma start_attained:
  assumes "fs_stack initial = []"
  shows "records env initial (frame_at (analysis_start initial))"
    and "attained env initial (length (fs_stack initial), length (fs_locals initial))"
  using met.recorded [OF analysed.start, of env initial] assms
  by (auto simp: records_def analysis_start_def attained_def stack_slots_def intro: analysed.start)

lemma initial_stack: "initial_frame m c = Inr initial \<Longrightarrow> fs_stack initial = []"
  by (auto simp: initial_frame_def try_bind_Inr)

text \<open>The sizes are bounds for a typing, and no larger than the frames that are met.\<close>

lemma analysed_sizes:
  assumes "initial_frame m c = Inr initial"
    and "analyse env note_sizes n
      (analysis_start initial, (length (fs_stack initial), length (fs_locals initial))) = Inr (a, sizes)"
  shows "frames_typed env initial (sized sizes) (frame_at a) \<and> attained env initial sizes"
  using analyse_typed(1) [OF assms(2) noting_sizes] analyse_attained [OF assms(2)]
    start_attained [OF initial_stack [OF assms(1)]] by blast

end
