(* ===== verification/AttributeWriter.thy ===== *)
theory AttributeWriter imports ClassReading begin

text \<open>
  How \<^verbatim>\<open>class_writer.rs\<close> writes attributes, with the interning of their names, and the round trip
  with the reader.
\<close>

subsection \<open>Writing\<close>

definition write_attribute_with_info :: "u16 \<Rightarrow> u8 list \<Rightarrow> u8 list" where
  "write_attribute_with_info name_index info =
     write_u2 name_index @ write_u4 (word_of_nat (length info)) @ info"

fun attribute_name :: "attribute_info \<Rightarrow> rust_text" where
  "attribute_name (Code _) = text_of ''Code''"
| "attribute_name (ConstantValue _) = text_of ''ConstantValue''"
| "attribute_name (Exceptions _) = text_of ''Exceptions''"
| "attribute_name (SourceFile _) = text_of ''SourceFile''"
| "attribute_name (LineNumberTable _) = text_of ''LineNumberTable''"
| "attribute_name (LocalVariableTable _) = text_of ''LocalVariableTable''"
| "attribute_name (Signature _) = text_of ''Signature''"
| "attribute_name (StackMapTable _) = text_of ''StackMapTable''"
| "attribute_name Deprecated = text_of ''Deprecated''"
| "attribute_name Synthetic = text_of ''Synthetic''"
| "attribute_name (InnerClasses _) = text_of ''InnerClasses''"
| "attribute_name (EnclosingMethod _ _) = text_of ''EnclosingMethod''"
| "attribute_name (ModuleAttr _) = text_of ''Module''"
| "attribute_name (ModulePackages _) = text_of ''ModulePackages''"
| "attribute_name (ModuleMainClass _) = text_of ''ModuleMainClass''"
| "attribute_name (BootstrapMethods _) = text_of ''BootstrapMethods''"
| "attribute_name (MethodParameters _) = text_of ''MethodParameters''"
| "attribute_name (RuntimeVisibleAnnotations _) = text_of ''RuntimeVisibleAnnotations''"
| "attribute_name (RuntimeInvisibleAnnotations _) = text_of ''RuntimeInvisibleAnnotations''"
| "attribute_name (RuntimeVisibleParameterAnnotations _) = text_of ''RuntimeVisibleParameterAnnotations''"
| "attribute_name (RuntimeInvisibleParameterAnnotations _) = text_of ''RuntimeInvisibleParameterAnnotations''"
| "attribute_name (RuntimeVisibleTypeAnnotations _) = text_of ''RuntimeVisibleTypeAnnotations''"
| "attribute_name (RuntimeInvisibleTypeAnnotations _) = text_of ''RuntimeInvisibleTypeAnnotations''"
| "attribute_name (PermittedSubclasses _) = text_of ''PermittedSubclasses''"
| "attribute_name (Record _) = text_of ''Record''"
| "attribute_name (AnnotationDefault _) = text_of ''AnnotationDefault''"
| "attribute_name (Unknown name _) = name"

text \<open>\<^verbatim>\<open>collect_attribute_names\<close>, which does not look into attributes.\<close>

definition collect_attribute_names :: "attribute_info list \<Rightarrow> rust_text list" where
  "collect_attribute_names attrs = map attribute_name attrs"

text \<open>The bytes of an attribute that has no attributes in it.\<close>

fun leaf_info :: "attribute_info \<Rightarrow> u8 list" where
  "leaf_info (ConstantValue i) = write_u2 i"
| "leaf_info (Exceptions t) = write_table write_u2 t"
| "leaf_info (SourceFile i) = write_u2 i"
| "leaf_info (LineNumberTable t) = write_table write_line_number t"
| "leaf_info (LocalVariableTable t) = write_table write_local_variable t"
| "leaf_info (Signature i) = write_u2 i"
| "leaf_info (StackMapTable t) = write_table write_stack_map_frame t"
| "leaf_info (InnerClasses t) = write_table write_inner_class t"
| "leaf_info (EnclosingMethod i j) = write_u2 i @ write_u2 j"
| "leaf_info (ModuleAttr m) = write_module_attribute m"
| "leaf_info (ModulePackages t) = write_table write_u2 t"
| "leaf_info (ModuleMainClass i) = write_u2 i"
| "leaf_info (BootstrapMethods t) = write_table write_bootstrap_method t"
| "leaf_info (MethodParameters t) = write_table1 write_method_parameter t"
| "leaf_info (RuntimeVisibleAnnotations t) = write_runtime_annotations t"
| "leaf_info (RuntimeInvisibleAnnotations t) = write_runtime_annotations t"
| "leaf_info (RuntimeVisibleParameterAnnotations t) = write_runtime_parameter_annotations t"
| "leaf_info (RuntimeInvisibleParameterAnnotations t) = write_runtime_parameter_annotations t"
| "leaf_info (RuntimeVisibleTypeAnnotations t) = write_runtime_type_annotations t"
| "leaf_info (RuntimeInvisibleTypeAnnotations t) = write_runtime_type_annotations t"
| "leaf_info (PermittedSubclasses t) = write_table write_u2 t"
| "leaf_info (AnnotationDefault v) = write_element_value v"
| "leaf_info (Unknown _ info) = info"
| "leaf_info _ = []"

definition write_leaf :: "attribute_info \<Rightarrow> cp_info list \<Rightarrow> u8 list \<times> cp_info list" where
  "write_leaf a cp =
     (case ensure_utf8 (attribute_name a) cp of
        (name_index, cp) \<Rightarrow> (write_attribute_with_info name_index (leaf_info a), cp))"

text \<open>
  What the writer of a method's code is given: whether the options ask for stack maps
  (\<^verbatim>\<open>COMPUTE_FRAMES\<close>), and \<^verbatim>\<open>compute_stack_map_table\<close> for the method at hand, which may add to the
  pool, or fails where there is no method.
\<close>

record writer_context =
  compute_frames :: bool
  stack_map_of :: "code_attribute \<Rightarrow> u16 \<Rightarrow> cp_info list \<Rightarrow> class_write_error + stack_map_frame list \<times> cp_info list"

fun is_stack_map :: "attribute_info \<Rightarrow> bool" where
  "is_stack_map (StackMapTable _) = True"
| "is_stack_map _ = False"

text \<open>The stack map to append to the attributes of a code attribute, if one is asked for.\<close>

definition appended_map ::
    "writer_context \<Rightarrow> stack_map_frame list option \<Rightarrow> code_attribute \<Rightarrow> u16 \<Rightarrow> cp_info list \<Rightarrow>
     class_write_error + stack_map_frame list option \<times> cp_info list" where
  "appended_map ctx precomputed c locals cp =
     (if compute_frames ctx then
        (case precomputed of
           Some m \<Rightarrow> Inr (Some m, cp)
         | None \<Rightarrow> map_sum id (map_prod Some id) (stack_map_of ctx c locals cp))
      else Inr (None, cp))"

definition write_appended :: "stack_map_frame list option \<Rightarrow> cp_info list \<Rightarrow> u8 list \<times> cp_info list" where
  "write_appended m cp = (case m of None \<Rightarrow> ([], cp) | Some entries \<Rightarrow> write_leaf (StackMapTable entries) cp)"

definition code_info ::
    "u16 \<times> u16 \<Rightarrow> code_attribute \<Rightarrow> nat \<Rightarrow> u8 list \<Rightarrow> u8 list" where
  "code_info maxs c count nested =
     write_u2 (fst maxs) @ write_u2 (snd maxs) @ write_u4 (word_of_nat (length (code_bytes c))) @ code_bytes c @
     write_table write_exception_table_entry (code_exceptions c) @ write_u2 (word_of_nat count) @ nested"

definition kept_attributes :: "writer_context \<Rightarrow> attribute_info list \<Rightarrow> attribute_info list" where
  "kept_attributes ctx attrs = filter (\<lambda>a. \<not> (compute_frames ctx \<and> is_stack_map a)) attrs"

text \<open>\<^verbatim>\<open>precomputed_maxs.unwrap_or((code.max_stack, code.max_locals))\<close>\<close>

definition chosen_maxs :: "(u16 \<times> u16) option \<Rightarrow> code_attribute \<Rightarrow> u16 \<times> u16" where
  "chosen_maxs maxs c = (case maxs of Some m \<Rightarrow> m | None \<Rightarrow> (code_max_stack c, code_max_locals c))"

function (sequential) write_attribute ::
    "writer_context \<Rightarrow> stack_map_frame list option \<Rightarrow> (u16 \<times> u16) option \<Rightarrow> attribute_info \<Rightarrow> cp_info list \<Rightarrow>
     class_write_error + u8 list \<times> cp_info list"
and write_attributes ::
    "writer_context \<Rightarrow> attribute_info list \<Rightarrow> cp_info list \<Rightarrow> class_write_error + u8 list \<times> cp_info list"
and write_components ::
    "writer_context \<Rightarrow> record_component list \<Rightarrow> cp_info list \<Rightarrow> class_write_error + u8 list \<times> cp_info list" where
  "write_attribute ctx precomputed maxs (Code c) cp =
     (case ensure_utf8 (text_of ''Code'') cp of
        (name_index, cp) \<Rightarrow>
          (case appended_map ctx precomputed c (snd (chosen_maxs maxs c)) cp of
             Inl e \<Rightarrow> Inl e
           | Inr (stack_map, cp) \<Rightarrow>
               let kept = kept_attributes ctx (code_attributes c) in
               (case write_attributes ctx kept cp of
                  Inl e \<Rightarrow> Inl e
                | Inr (nested, cp) \<Rightarrow>
                    (case write_appended stack_map cp of
                       (appended, cp) \<Rightarrow>
                         Inr (write_attribute_with_info name_index
                                (code_info (chosen_maxs maxs c) c (length kept + (if stack_map = None then 0 else 1))
                                  (nested @ appended)), cp)))))"
| "write_attribute ctx precomputed maxs (Record components) cp =
     (case ensure_utf8 (text_of ''Record'') cp of
        (name_index, cp) \<Rightarrow>
          (case write_components ctx components cp of
             Inl e \<Rightarrow> Inl e
           | Inr (info, cp) \<Rightarrow>
               Inr (write_attribute_with_info name_index (write_u2 (word_of_nat (length components)) @ info), cp)))"
| "write_attribute ctx precomputed maxs a cp = Inr (write_leaf a cp)"
| "write_attributes ctx [] cp = Inr ([], cp)"
| "write_attributes ctx (a # as) cp =
     (case write_attribute ctx None None a cp of
        Inl e \<Rightarrow> Inl e
      | Inr (bytes, cp) \<Rightarrow> map_sum id (map_prod (append bytes) id) (write_attributes ctx as cp))"
| "write_components ctx [] cp = Inr ([], cp)"
| "write_components ctx (c # cs) cp =
     (case write_attributes ctx (component_attributes c) cp of
        Inl e \<Rightarrow> Inl e
      | Inr (nested, cp) \<Rightarrow>
          map_sum id
            (map_prod
              (append (write_u2 (component_name c) @ write_u2 (component_descriptor c) @
                write_u2 (word_of_nat (length (component_attributes c))) @ nested)) id)
            (write_components ctx cs cp))"
  by pat_completeness auto

lemma size_kept: "size_list size (kept_attributes ctx as) \<le> size_list size as"
  by (induction as) (auto simp: kept_attributes_def)

lemma size_code_attributes: "size_list size (code_attributes c) < size c"
  by (cases c) simp

lemma size_component_attributes: "2 * size_list size (component_attributes c) \<le> Suc (2 * size c + k)"
  by (cases c) simp

termination write_attribute
  by (relation "measure (\<lambda>x. case x of
        Inl (_, _, _, a, _) \<Rightarrow> 2 * size a
      | Inr (Inl (_, as, _)) \<Rightarrow> 2 * size_list size as + 1
      | Inr (Inr (_, cs, _)) \<Rightarrow> 2 * size_list size cs + 1)")
    (auto simp: less_Suc_eq_le size_component_attributes
      intro!: order.trans [OF size_kept] size_code_attributes [THEN less_imp_le])

text \<open>The attributes of a method are given what was computed for its code.\<close>

fun write_method_attributes ::
    "writer_context \<Rightarrow> stack_map_frame list option \<Rightarrow> (u16 \<times> u16) option \<Rightarrow> attribute_info list \<Rightarrow> cp_info list \<Rightarrow>
     class_write_error + u8 list \<times> cp_info list" where
  "write_method_attributes ctx precomputed maxs [] cp = Inr ([], cp)"
| "write_method_attributes ctx precomputed maxs (a # as) cp =
     try_bind (write_attribute ctx precomputed maxs a cp) (\<lambda>(bytes, cp).
     map_sum id (map_prod (append bytes) id) (write_method_attributes ctx precomputed maxs as cp))"

lemma write_method_attributes_none:
  "write_method_attributes ctx None None as cp = write_attributes ctx as cp"
  by (induction as arbitrary: cp) (auto split: sum.splits)

subsection \<open>What is written and what is read\<close>

text \<open>
  The attribute that a writer with the given options puts into the file: the sizes and the stack map
  of a code attribute may have been computed, and a computed stack map takes the place of the old.
\<close>

fun finished ::
    "writer_context \<Rightarrow> stack_map_frame list option \<Rightarrow> (u16 \<times> u16) option \<Rightarrow> attribute_info \<Rightarrow> attribute_info" where
  "finished ctx precomputed maxs (Code c) =
     Code (CodeAttribute (fst (chosen_maxs maxs c)) (snd (chosen_maxs maxs c)) (code_bytes c) (code_instructions c)
       (code_nodes c) (code_exceptions c) (code_blocks c)
       (kept_attributes ctx (code_attributes c) @
        (case precomputed of Some m \<Rightarrow> if compute_frames ctx then [StackMapTable m] else [] | None \<Rightarrow> [])))"
| "finished ctx precomputed maxs a = a"

text \<open>Where stack maps are computed, there is one for each code attribute: it is an attribute of a method.\<close>

fun code_free :: "attribute_info \<Rightarrow> bool" and code_free_component :: "record_component \<Rightarrow> bool" where
  "code_free (Code _) = False"
| "code_free (Record cs) = list_all code_free_component cs"
| "code_free _ = True"
| "code_free_component (RecordComponent _ _ attrs) = list_all code_free attrs"

definition placed :: "writer_context \<Rightarrow> stack_map_frame list option \<Rightarrow> attribute_info \<Rightarrow> bool" where
  "placed ctx precomputed a \<longleftrightarrow>
     (compute_frames ctx \<longrightarrow>
        (case a of
           Code c \<Rightarrow> precomputed \<noteq> None \<and> list_all code_free (code_attributes c)
         | _ \<Rightarrow> code_free a))"

text \<open>
  The attribute that a reader makes of the bytes of an attribute: the instructions, the nodes and the
  blocks of a code attribute are those of its bytes.
\<close>

lemma try_map_cong [fundef_cong]:
  "xs = ys \<Longrightarrow> (\<And>x. x \<in> set ys \<Longrightarrow> f x = g x) \<Longrightarrow> try_map f xs = try_map g ys"
  by (induction ys arbitrary: xs) (auto split: sum.split)

lemma size_code_member [termination_simp]: "a \<in> set (code_attributes c) \<Longrightarrow> size a < Suc (size c)"
  using size_list_estimation' [of a "code_attributes c" "size a" size] size_code_attributes [of c] by simp

fun reread :: "(u16 list \<Rightarrow> u16 list) \<Rightarrow> cp_info list \<Rightarrow> attribute_info \<Rightarrow> read_stop + attribute_info"
and reread_component :: "(u16 list \<Rightarrow> u16 list) \<Rightarrow> cp_info list \<Rightarrow> record_component \<Rightarrow> read_stop + record_component" where
  "reread order cp (Code c) =
     (case parse_code_instructions (code_bytes c) of
        Inl e \<Rightarrow> Inl e
      | Inr insns \<Rightarrow>
     (case try_map (reread order cp) (code_attributes c) of
        Inl e \<Rightarrow> Inl e
      | Inr attrs \<Rightarrow>
     (case build_insn_nodes order (code_bytes c) (code_exceptions c) cp of
        Inl e \<Rightarrow> Inl e
      | Inr (nodes, blocks, labels) \<Rightarrow>
          Inr (Code (CodeAttribute (code_max_stack c) (code_max_locals c) (code_bytes c) insns
            (with_lines attrs labels nodes) (code_exceptions c) blocks attrs)))))"
| "reread order cp (Record cs) = map_sum id Record (try_map (reread_component order cp) cs)"
| "reread order cp a = Inr a"
| "reread_component order cp (RecordComponent n d attrs) =
     map_sum id (RecordComponent n d) (try_map (reread order cp) attrs)"

subsection \<open>The round trip\<close>

definition known_names :: "string list" where
  "known_names =
     [''Code'', ''ConstantValue'', ''Exceptions'', ''SourceFile'', ''LineNumberTable'',
      ''LocalVariableTable'', ''Signature'', ''StackMapTable'', ''Deprecated'', ''Synthetic'',
      ''InnerClasses'', ''EnclosingMethod'', ''Module'', ''ModulePackages'', ''ModuleMainClass'',
      ''BootstrapMethods'', ''MethodParameters'', ''RuntimeVisibleAnnotations'',
      ''RuntimeInvisibleAnnotations'', ''RuntimeVisibleParameterAnnotations'',
      ''RuntimeInvisibleParameterAnnotations'', ''RuntimeVisibleTypeAnnotations'',
      ''RuntimeInvisibleTypeAnnotations'', ''PermittedSubclasses'', ''Record'', ''AnnotationDefault'']"

definition type_annotation_ok :: "type_annotation \<Rightarrow> bool" where
  "type_annotation_ok a \<longleftrightarrow>
     target_fits (target_type a) (target_info a) \<and> tiny_list (target_path a) \<and>
     annotation_ok (type_annotation a)"

text \<open>The tables of an attribute fit their counts.\<close>

fun attribute_ok :: "attribute_info \<Rightarrow> bool" and component_ok :: "record_component \<Rightarrow> bool" where
  "attribute_ok (Code c) =
     (short_list (code_exceptions c) \<and>
      short_list (code_attributes c) \<and> list_all (attribute_ok) (code_attributes c))"
| "attribute_ok (Record cs) = (short_list cs \<and> list_all (component_ok) cs)"
| "attribute_ok (Exceptions t) = short_list t"
| "attribute_ok (LineNumberTable t) = short_list t"
| "attribute_ok (LocalVariableTable t) = short_list t"
| "attribute_ok (StackMapTable t) = (short_list t \<and> list_all frame_fits t)"
| "attribute_ok (InnerClasses t) = short_list t"
| "attribute_ok (ModuleAttr m) = module_fits m"
| "attribute_ok (ModulePackages t) = short_list t"
| "attribute_ok (BootstrapMethods t) =
     (short_list t \<and> list_all (\<lambda>m. short_list (bootstrap_arguments m)) t)"
| "attribute_ok (MethodParameters t) = tiny_list t"
| "attribute_ok (RuntimeVisibleAnnotations t) = (short_list t \<and> list_all annotation_ok t)"
| "attribute_ok (RuntimeInvisibleAnnotations t) = (short_list t \<and> list_all annotation_ok t)"
| "attribute_ok (RuntimeVisibleParameterAnnotations t) =
     (tiny_list t \<and> list_all (\<lambda>as. short_list as \<and> list_all annotation_ok as) t)"
| "attribute_ok (RuntimeInvisibleParameterAnnotations t) =
     (tiny_list t \<and> list_all (\<lambda>as. short_list as \<and> list_all annotation_ok as) t)"
| "attribute_ok (RuntimeVisibleTypeAnnotations t) = (short_list t \<and> list_all type_annotation_ok t)"
| "attribute_ok (RuntimeInvisibleTypeAnnotations t) = (short_list t \<and> list_all type_annotation_ok t)"
| "attribute_ok (PermittedSubclasses t) = short_list t"
| "attribute_ok (AnnotationDefault v) = value_ok v"
| "attribute_ok (Unknown name _) = (name \<notin> text_of ` set known_names)"
| "attribute_ok _ = True"
| "component_ok (RecordComponent _ _ attrs) =
     (short_list attrs \<and> list_all (attribute_ok) attrs)"

lemma short_table:
  assumes "\<And>x. x \<in> set xs \<Longrightarrow> ok x" and "codec enc dec ok" and "short_list xs"
  shows "reads_as (read_table dec) (write_table enc xs) xs"
  using assms by (intro codec.table) (auto simp: short_list_def list_all_iff)

lemmas table_rules =
  reads_as_u2_table line_number.table local_variable.table stack_map_frame.table inner_class.table
  bootstrap_method.table method_parameter.table1 module_attribute.entry

lemma annotations_fit:
  assumes "list_all annotation_ok as"
  shows "list_all (annotation_fits (length (write_runtime_annotations as))) as"
  using assms length_table_member [of _ as write_annotation]
  by (auto simp: list_all_iff annotation_fits_def write_runtime_annotations_def)

lemma type_annotations_fit:
  assumes "list_all type_annotation_ok as"
  shows "list_all (type_annotation_fits (length (write_runtime_type_annotations as))) as"
proof -
  have "length (write_annotation (type_annotation a)) \<le> length (write_runtime_type_annotations as)"
    if "a \<in> set as" for a
    using length_table_member [OF that, of write_type_annotation]
    by (cases a) (auto simp: write_runtime_type_annotations_def)
  thus ?thesis using assms
    by (auto simp: list_all_iff type_annotation_fits_def type_annotation_ok_def annotation_fits_def)
qed

lemma length_table1_member: "x \<in> set xs \<Longrightarrow> length (enc x) \<le> length (write_table1 enc xs)"
proof -
  assume "x \<in> set xs"
  then obtain ys zs where "xs = ys @ x # zs" by (meson split_list)
  thus ?thesis by (simp add: write_table1_def)
qed

lemma parameter_annotations_fit:
  assumes "list_all (\<lambda>as. short_list as \<and> list_all annotation_ok as) ps"
  shows "list_all (\<lambda>as. short_list as \<and>
    list_all (annotation_fits (length (write_runtime_parameter_annotations ps))) as) ps"
proof -
  have "length (write_annotation a) \<le> length (write_runtime_parameter_annotations ps)"
    if "as \<in> set ps" "a \<in> set as" for as a
    using length_table_member [OF that(2), of write_annotation]
      length_table1_member [OF that(1), of "write_table write_annotation"]
    by (simp add: write_runtime_parameter_annotations_def)
  thus ?thesis using assms by (auto simp: list_all_iff annotation_fits_def)
qed

fun is_leaf :: "attribute_info \<Rightarrow> bool" where
  "is_leaf (Code _) = False"
| "is_leaf (Record _) = False"
| "is_leaf (Unknown _ _) = False"
| "is_leaf _ = True"

text \<open>The known attributes without attributes in them.\<close>

lemma leaf_read:
  assumes "attribute_ok a" and "is_leaf a"
  shows "\<exists>f. read_known order nested cp (Suc (length (leaf_info a))) (attribute_name a) = Some f \<and>
    reads_as f (leaf_info a) a"
  using assms
proof (cases a)
  case (RuntimeVisibleAnnotations t)
  thus ?thesis using assms annotations_fit
    by (simp add: read_known_def) (rule reads_as_last [OF reads_as_annotations]; simp)
next
  case (RuntimeInvisibleAnnotations t)
  thus ?thesis using assms annotations_fit
    by (simp add: read_known_def) (rule reads_as_last [OF reads_as_annotations]; simp)
next
  case (RuntimeVisibleParameterAnnotations t)
  thus ?thesis using assms parameter_annotations_fit
    by (simp add: read_known_def) (rule reads_as_last [OF reads_as_parameter_annotations]; simp)
next
  case (RuntimeInvisibleParameterAnnotations t)
  thus ?thesis using assms parameter_annotations_fit
    by (simp add: read_known_def) (rule reads_as_last [OF reads_as_parameter_annotations]; simp)
next
  case (RuntimeVisibleTypeAnnotations t)
  thus ?thesis using assms type_annotations_fit
    by (simp add: read_known_def) (rule reads_as_last [OF reads_as_type_annotations]; simp)
next
  case (RuntimeInvisibleTypeAnnotations t)
  thus ?thesis using assms type_annotations_fit
    by (simp add: read_known_def) (rule reads_as_last [OF reads_as_type_annotations]; simp)
next
  case (AnnotationDefault v)
  hence "value_fits (length (write_element_value v)) v" using assms by (simp add: value_fits_def)
  thus ?thesis using AnnotationDefault
    by (simp add: read_known_def del: parse_element_value.simps)
      (rule reads_as_last [OF reads_as_value]; simp)
qed (auto simp: read_known_def short_list_def tiny_list_def list_all_iff reads_as_ret
  intro!: bind_u2 last_u2 reads_as_last [OF table_rules(1)] reads_as_last [OF table_rules(2)] reads_as_last [OF table_rules(3)]
    reads_as_last [OF table_rules(4)] reads_as_last [OF table_rules(5)] reads_as_last [OF table_rules(6)]
    reads_as_last [OF table_rules(7)] reads_as_last [OF table_rules(8)])

lemma run_whole:
  assumes "reads_as f bs x"
  shows "run_reader (do { a \<leftarrow> f; left \<leftarrow> read_gets remaining;
      if left \<noteq> 0 then read_fail (ReadError e) else ret a }) bs = Inr x"
proof -
  have "run_state f (Reading (byte_reader_new bs)) = (x, Reading (reader_at bs []))"
    using reads_asD [OF assms, of "[]" "[]"] by (simp add: byte_reader_new_def reader_at_def)
  moreover have "remaining (reader_at bs []) = 0" by (simp add: remaining_def reader_at_def)
  ultimately show ?thesis by (simp add: run_reader_def run_read_gets)
qed

lemma nested_whole: "run_reader f bs = Inr x \<Longrightarrow> reads_as (read_nested f bs) [] x"
  by (simp add: reads_as_def read_nested_def run_read_action)

lemma parse_known_as:
  assumes "read_known order nested cp (Suc (length info)) name = Some f" and "reads_as f info a"
  shows "reads_as (parse_attribute order nested cp name info) [] a"
  using nested_whole [OF run_whole [OF assms(2)]] assms(1) by (simp add: parse_attribute_def)

text \<open>An attribute whose name is in the pool and whose bytes are read back is read back.\<close>

lemma reads_as_framed:
  assumes "cp_utf8 cp i = Inr name" and "length info < 2 ^ 32"
    and "reads_as (parse_attribute order nested cp name info) [] a"
  shows "reads_as (read_attribute order nested cp) (write_attribute_with_info i info) a"
proof -
  have "reads_as (do { info \<leftarrow> read_bytes (unat (word_of_nat (length info) :: u32));
      parse_attribute order nested cp name info }) (info @ []) a"
    using assms(2) by (intro reads_as_bind [OF reads_as_bytes_n] assms(3)) (simp add: unat_of_nat)
  thus ?thesis unfolding read_attribute_def write_attribute_with_info_def
    using assms(1)
    by (intro bind_u2 reads_as_bind [OF reads_as_u4] reads_as_bind_nil [OF reads_as_try_ok]) simp_all
qed

lemma leaf_as:
  assumes "attribute_ok a" and "is_leaf a"
  shows "reads_as (parse_attribute order nested cp (attribute_name a) (leaf_info a)) [] a"
  using leaf_read [OF assms, where order = order and nested = nested and cp = cp] parse_known_as by blast

lemma unknown_as:
  assumes "name \<notin> text_of ` set known_names"
  shows "reads_as (parse_attribute order nested cp name info) [] (Unknown name info)"
proof -
  have "read_known order nested cp (Suc (length info)) name = None"
    using assms by (simp add: read_known_def known_names_def)
  thus ?thesis by (simp add: parse_attribute_def reads_as_ret)
qed

lemma interned:
  assumes "ensure_utf8 s cp = (i, cp1)" and "prefix cp1 cpf" and "length cpf \<le> 2 ^ 16"
  shows "cp_utf8 cpf i = Inr s"
  using ensure_utf8_found [OF assms(1)] cp_utf8_prefix [OF assms(2)] prefix_length_le [OF assms(2)] assms(3)
  by simp

lemma leaf_framed:
  assumes "write_leaf a cp = (bytes, cp')" and "prefix cp' cpf" and "length cpf \<le> 2 ^ 16"
    and "attribute_ok a" and "is_leaf a \<or> (\<exists>name info. a = Unknown name info)" and "length bytes < 2 ^ 32"
  shows "reads_as (read_attribute order nested cpf) bytes a"
proof -
  obtain i where i: "ensure_utf8 (attribute_name a) cp = (i, cp')"
      "bytes = write_attribute_with_info i (leaf_info a)"
    using assms(1) by (auto simp: write_leaf_def split: prod.splits)
  have "length cp' \<le> 2 ^ 16" using assms(2,3) by (auto simp: prefix_def)
  hence name: "cp_utf8 cpf i = Inr (attribute_name a)"
    using cp_utf8_prefix [OF assms(2) ensure_utf8_found [OF i(1)]] by simp
  have len: "length (leaf_info a) < 2 ^ 32" using assms(6) i(2) by (simp add: write_attribute_with_info_def)
  show ?thesis unfolding i(2)
    by (rule reads_as_framed [OF name len]) (use assms(4,5) in \<open>auto intro: leaf_as unknown_as\<close>)
qed

lemma write_leaf_prefix: "write_leaf a cp = (bytes, cp') \<Longrightarrow> prefix cp cp'"
  by (auto simp: write_leaf_def split: prod.splits dest: ensure_utf8_prefix)

text \<open>The stack maps that the context computes only add to the pool.\<close>

definition context_ok :: "writer_context \<Rightarrow> bool" where
  "context_ok ctx \<longleftrightarrow>
     (\<forall>c locals cp m cp'. stack_map_of ctx c locals cp = Inr (m, cp') \<longrightarrow> prefix cp cp')"

lemma appended_map_prefix:
  "context_ok ctx \<Longrightarrow> appended_map ctx pre c locals cp = Inr (m, cp') \<Longrightarrow> prefix cp cp'"
  by (auto simp: appended_map_def context_ok_def map_sum_id_Inr split: if_splits option.splits)

lemma write_appended_prefix: "write_appended m cp = (bytes, cp') \<Longrightarrow> prefix cp cp'"
  by (auto simp: write_appended_def split: option.splits dest: write_leaf_prefix)

lemma write_code_Inr:
  assumes "write_attribute ctx pre maxs (Code c) cp = Inr (bytes, cp')"
  obtains i cp1 m cp2 nested cp3 appended where
    "ensure_utf8 (text_of ''Code'') cp = (i, cp1)"
    "appended_map ctx pre c (snd (chosen_maxs maxs c)) cp1 = Inr (m, cp2)"
    "write_attributes ctx (kept_attributes ctx (code_attributes c)) cp2 = Inr (nested, cp3)"
    "write_appended m cp3 = (appended, cp')"
    "bytes = write_attribute_with_info i (code_info (chosen_maxs maxs c) c
       (length (kept_attributes ctx (code_attributes c)) + (if m = None then 0 else 1)) (nested @ appended))"
proof -
  obtain i cp1 where i: "ensure_utf8 (text_of ''Code'') cp = (i, cp1)" by fastforce
  show thesis
  proof (cases "appended_map ctx pre c (snd (chosen_maxs maxs c)) cp1")
    case (Inr p)
    then obtain m cp2 where m: "appended_map ctx pre c (snd (chosen_maxs maxs c)) cp1 = Inr (m, cp2)" by (cases p) simp
    show thesis
    proof (cases "write_attributes ctx (kept_attributes ctx (code_attributes c)) cp2")
      case (Inr q)
      then obtain nested cp3 where n: "write_attributes ctx (kept_attributes ctx (code_attributes c)) cp2 = Inr (nested, cp3)"
        by (cases q) simp
      obtain appended cp4 where w: "write_appended m cp3 = (appended, cp4)" by fastforce
      have "cp4 = cp'" using assms i m n w by (simp add: Let_def)
      with w have w: "write_appended m cp3 = (appended, cp')" by simp
      show thesis by (rule that [OF i m n w]) (use assms i m n w in \<open>simp add: Let_def\<close>)
    qed (use assms i m in \<open>simp add: Let_def\<close>)
  qed (use assms i in simp)
qed

lemma write_record_Inr:
  assumes "write_attribute ctx pre maxs (Record cs) cp = Inr (bytes, cp')"
  obtains i cp1 info where "ensure_utf8 (text_of ''Record'') cp = (i, cp1)"
    "write_components ctx cs cp1 = Inr (info, cp')"
    "bytes = write_attribute_with_info i (write_u2 (word_of_nat (length cs)) @ info)"
  using assms by (auto split: prod.splits sum.splits)

lemma write_cons_Inr:
  assumes "write_attributes ctx (a # as) cp = Inr (bytes, cp')"
  obtains bs cp1 cs where "write_attribute ctx None None a cp = Inr (bs, cp1)"
    "write_attributes ctx as cp1 = Inr (cs, cp')" "bytes = bs @ cs"
  using assms by (auto simp: map_sum_id_Inr split: sum.splits)

lemma write_component_Inr:
  assumes "write_components ctx (c # cs) cp = Inr (bytes, cp')"
  obtains nested cp1 ds where "write_attributes ctx (component_attributes c) cp = Inr (nested, cp1)"
    "write_components ctx cs cp1 = Inr (ds, cp')"
    "bytes = (write_u2 (component_name c) @ write_u2 (component_descriptor c) @
       write_u2 (word_of_nat (length (component_attributes c))) @ nested) @ ds"
  using assms by (auto simp: map_sum_id_Inr split: sum.splits)

lemma write_other:
  "is_leaf a \<or> (\<exists>name info. a = Unknown name info) \<Longrightarrow> write_attribute ctx pre maxs a cp = Inr (write_leaf a cp)"
  by (cases a) simp_all

lemma write_prefix:
  assumes "context_ok ctx"
  shows "write_attribute ctx pre maxs a cp = Inr (bytes, cp') \<Longrightarrow> prefix cp cp'"
    and "write_attributes ctx as cp = Inr (bytes, cp') \<Longrightarrow> prefix cp cp'"
    and "write_components ctx cs cp = Inr (bytes, cp') \<Longrightarrow> prefix cp cp'"
  using assms
proof (induction ctx pre maxs a cp and ctx as cp and ctx cs cp arbitrary: bytes cp' and bytes cp' and bytes cp'
    rule: write_attribute_write_attributes_write_components.induct)
  case (1 ctx precomputed maxs c cp)
  from 1(2) show ?case
  proof (rule write_code_Inr)
    fix i cp1 m cp2 nested cp3 appended
    assume *: "ensure_utf8 (text_of ''Code'') cp = (i, cp1)"
      "appended_map ctx precomputed c (snd (chosen_maxs maxs c)) cp1 = Inr (m, cp2)"
      "write_attributes ctx (kept_attributes ctx (code_attributes c)) cp2 = Inr (nested, cp3)"
      "write_appended m cp3 = (appended, cp')"
    have "prefix cp2 cp3" using 1(1) * 1(3) by auto
    with * 1(3) show ?thesis
      by (meson ensure_utf8_prefix appended_map_prefix write_appended_prefix prefix_order.trans)
  qed
next
  case (2 ctx precomputed maxs components cp)
  then show ?case
    by (auto split: prod.splits sum.splits dest!: ensure_utf8_prefix intro: prefix_order.trans)
qed (auto simp: map_sum_id_Inr split: prod.splits sum.splits dest: write_leaf_prefix intro: prefix_order.trans)

text \<open>The attributes in an attribute.\<close>

lemma code_free_placed: "code_free a \<Longrightarrow> placed ctx None a"
  by (cases a) (simp_all add: placed_def)

lemma placed_nested:
  assumes "placed ctx precomputed (Code c)"
  shows "list_all (placed ctx None) (kept_attributes ctx (code_attributes c))"
  using assms code_free_placed by (auto simp: placed_def kept_attributes_def list_all_iff)

lemma placed_components:
  assumes "placed ctx precomputed (Record cs)"
  shows "list_all (\<lambda>c. list_all (placed ctx None) (component_attributes c)) cs"
  unfolding list_all_iff
proof (intro ballI)
  fix c a assume "c \<in> set cs" "a \<in> set (component_attributes c)"
  with assms show "placed ctx None a"
    by (cases "compute_frames ctx"; cases c)
      (auto simp: placed_def list_all_iff intro!: code_free_placed [unfolded placed_def, rule_format])
qed

lemma kept_all: "\<not> compute_frames ctx \<Longrightarrow> kept_attributes ctx as = as"
  by (simp add: kept_attributes_def)

lemma finished_nested: "placed ctx None a \<Longrightarrow> finished ctx None None a = a"
  by (cases a) (auto simp: placed_def chosen_maxs_def kept_all)

lemma reread_other: "is_leaf a \<or> (\<exists>name info. a = Unknown name info) \<Longrightarrow> reread order cp a = Inr a"
  by (cases a) simp_all

lemma finished_other: "is_leaf a \<or> (\<exists>name info. a = Unknown name info) \<Longrightarrow> finished ctx precomputed maxs a = a"
  by (cases a) simp_all

lemma try_map_append:
  "try_map f (xs @ ys) = Inr zs \<longleftrightarrow> (\<exists>us vs. try_map f xs = Inr us \<and> try_map f ys = Inr vs \<and> zs = us @ vs)"
  by (induction xs arbitrary: zs) (auto simp: map_sum_id_Inr split: sum.split)

lemma try_map_length: "try_map f xs = Inr ys \<Longrightarrow> length ys = length xs"
  by (auto dest!: try_map_Inr list_all2_lengthD)

text \<open>Attributes without code are written as they are.\<close>

lemma plain_attributes:
  assumes "list_all code_free as"
  shows "map (finished ctx None None) as = as" and "list_all (placed ctx None) as"
  using assms code_free_placed finished_nested by (auto simp: list_all_iff intro!: map_idI)

lemma try_map_same_values: "(\<And>x. x \<in> set xs \<Longrightarrow> f x = Inr x) \<Longrightarrow> try_map f xs = Inr xs"
  by (induction xs) simp_all

text \<open>What is written is read back, but for what is derived from the bytes.\<close>

definition reads_attributes ::
    "(u16 list \<Rightarrow> u16 list) \<Rightarrow> cp_info list \<Rightarrow> nat \<Rightarrow> attribute_info list \<Rightarrow> u8 list \<Rightarrow> bool" where
  "reads_attributes order cp n as bytes \<longleftrightarrow>
     reads_as (read_times (length as) (read_attribute order (read_attributes order cp n) cp)) bytes as"

lemma reads_attributes_table:
  assumes "reads_attributes order cp n as bytes" and "short_list as"
  shows "reads_as (read_attributes order cp (Suc n)) (write_u2 (word_of_nat (length as)) @ bytes) as"
  unfolding read_attributes.simps read_table_def
  by (rule bind_u2) (use assms in \<open>simp add: reads_attributes_def short_list_def unat_of_nat\<close>)

lemma read_times_add:
  "read_times (m + n) f = do { xs \<leftarrow> read_times m f; ys \<leftarrow> read_times n f; ret (xs @ ys) }"
  by (induction m) (simp_all add: State_Monad.bind_assoc)

lemma reads_attributes_append:
  assumes "reads_attributes order cp n as bs" and "reads_attributes order cp n cs ds"
  shows "reads_attributes order cp n (as @ cs) (bs @ ds)"
  unfolding reads_attributes_def length_append read_times_add
  by (rule reads_as_bind [OF assms(1) [unfolded reads_attributes_def]],
      rule reads_as_last [OF assms(2) [unfolded reads_attributes_def]]) (rule refl)

lemma reads_attributes_one:
  "reads_as (read_attribute order (read_attributes order cp n) cp) bs a \<Longrightarrow> reads_attributes order cp n [a] bs"
  unfolding reads_attributes_def by (simp, rule reads_as_last) simp_all

lemma reads_attributes_Cons:
  "reads_as (read_attribute order (read_attributes order cp n) cp) bs a \<Longrightarrow> reads_attributes order cp n as cs \<Longrightarrow>
   reads_attributes order cp n (a # as) (bs @ cs)"
  using reads_attributes_append [OF reads_attributes_one, of order cp n bs a as cs] by simp

lemma written_code_read:
  assumes "reads_as nested (write_u2 (word_of_nat count) @ bs) attrs"
    and "short_list (code_exceptions c)" and "length (code_bytes c) < 2 ^ 32"
    and insns: "parse_code_instructions (code_bytes c) = Inr insns"
    and built: "build_insn_nodes order (code_bytes c) (code_exceptions c) cp = Inr (nodes, blocks, labels)"
  shows "reads_as (read_code order nested cp) (code_info maxs c count bs)
    (CodeAttribute (fst maxs) (snd maxs) (code_bytes c) insns (with_lines attrs labels nodes)
      (code_exceptions c) blocks attrs)"
proof -
  have table: "reads_as (read_table read_exception_table_entry)
      (write_table write_exception_table_entry (code_exceptions c)) (code_exceptions c)"
    using assms(2) by (intro exception_table.table) (auto simp: short_list_def list_all_iff)
  have bytes: "length (code_bytes c) = unat (word_of_nat (length (code_bytes c)) :: u32)"
    using assms(3) by (simp add: unat_of_nat)
  show ?thesis unfolding read_code_def code_info_def
    by (intro bind_u2 reads_as_bind [OF reads_as_u4] reads_as_bind [OF reads_as_bytes_n [OF bytes]])
      (simp add: try_read_def insns built, intro reads_as_bind [OF table],
        rule reads_as_last [OF assms(1)], use built in simp)
qed

lemma write_read:
  assumes "context_ok ctx" and "length cpf \<le> 2 ^ 16"
  shows "write_attribute ctx pre maxs a cp = Inr (bytes, cp') \<Longrightarrow> prefix cp' cpf \<Longrightarrow> placed ctx pre a \<Longrightarrow>
      attribute_ok (finished ctx pre maxs a) \<Longrightarrow> reread order cpf (finished ctx pre maxs a) = Inr a' \<Longrightarrow>
      length bytes < 2 ^ 32 \<Longrightarrow> length bytes \<le> n \<Longrightarrow>
      reads_as (read_attribute order (read_attributes order cpf n) cpf) bytes a'"
    and "write_attributes ctx as cp = Inr (bytes, cp') \<Longrightarrow> prefix cp' cpf \<Longrightarrow> list_all (placed ctx None) as \<Longrightarrow>
      list_all attribute_ok as \<Longrightarrow> try_map (reread order cpf) as = Inr as' \<Longrightarrow>
      length bytes < 2 ^ 32 \<Longrightarrow> length bytes \<le> n \<Longrightarrow> reads_attributes order cpf n as' bytes"
    and "write_components ctx cs cp = Inr (bytes, cp') \<Longrightarrow> prefix cp' cpf \<Longrightarrow>
      list_all (\<lambda>c. list_all (placed ctx None) (component_attributes c)) cs \<Longrightarrow>
      list_all component_ok cs \<Longrightarrow> try_map (reread_component order cpf) cs = Inr cs' \<Longrightarrow>
      length bytes < 2 ^ 32 \<Longrightarrow> length bytes \<le> n \<Longrightarrow>
      reads_as (read_times (length cs) (read_component (read_attributes order cpf n))) bytes cs'"
  using assms
proof (induction ctx pre maxs a cp and ctx as cp and ctx cs cp
    arbitrary: bytes cp' n a' and bytes cp' n as' and bytes cp' n cs'
    rule: write_attribute_write_attributes_write_components.induct)
  case (1 ctx precomputed maxs c cp)
  from 1(2) show ?case
  proof (rule write_code_Inr)
    fix i cp1 m cp2 nested cp3 appended
    assume i: "ensure_utf8 (text_of ''Code'') cp = (i, cp1)"
      and m: "appended_map ctx precomputed c (snd (chosen_maxs maxs c)) cp1 = Inr (m, cp2)"
      and nested: "write_attributes ctx (kept_attributes ctx (code_attributes c)) cp2 = Inr (nested, cp3)"
      and appended: "write_appended m cp3 = (appended, cp')"
      and bytes: "bytes = write_attribute_with_info i (code_info (chosen_maxs maxs c) c
       (length (kept_attributes ctx (code_attributes c)) + (if m = None then 0 else 1)) (nested @ appended))"
    let ?kept = "kept_attributes ctx (code_attributes c)"
    define extra where
      "extra = (case precomputed of Some m \<Rightarrow> if compute_frames ctx then [StackMapTable m] else [] | None \<Rightarrow> [])"
    have m_is: "m = (if compute_frames ctx then precomputed else None)" "cp2 = cp1"
      and extra: "extra = (case m of None \<Rightarrow> [] | Some entries \<Rightarrow> [StackMapTable entries])"
      using m 1(4) by (auto simp: appended_map_def placed_def extra_def split: if_splits option.splits)
    have count: "length ?kept + (if m = None then 0 else 1) = length (?kept @ extra)"
      by (simp add: extra split: option.split)
    define info where "info = code_info (chosen_maxs maxs c) c (length (?kept @ extra)) (nested @ appended)"
    have bytes: "bytes = write_attribute_with_info i info" using bytes count by (simp add: info_def)
    from 1(5) have fit: "short_list (code_exceptions c)" "short_list (?kept @ extra)"
      "list_all attribute_ok ?kept" "list_all attribute_ok extra"
      by (simp_all add: extra_def [symmetric])
    from 1(6) obtain insns attrs nodes blocks labels where
      insns: "parse_code_instructions (code_bytes c) = Inr insns"
      and attrs: "try_map (reread order cpf) (?kept @ extra) = Inr attrs"
      and built: "build_insn_nodes order (code_bytes c) (code_exceptions c) cpf = Inr (nodes, blocks, labels)"
      and a': "a' = Code (CodeAttribute (fst (chosen_maxs maxs c)) (snd (chosen_maxs maxs c)) (code_bytes c) insns
        (with_lines attrs labels nodes) (code_exceptions c) blocks attrs)"
      by (auto simp: extra_def [symmetric] split: sum.splits)
    have "try_map (reread order cpf) extra = Inr extra" by (simp add: extra split: option.split)
    with attrs obtain ks where ks: "try_map (reread order cpf) ?kept = Inr ks" "attrs = ks @ extra"
      by (auto simp: try_map_append)
    have len: "length info < 2 ^ 32" "length info + 6 = length bytes"
      using 1(7) by (simp_all add: bytes write_attribute_with_info_def)
    have inner: "length nested + length appended + 6 \<le> length info" "length (code_bytes c) \<le> length info"
      by (simp_all add: info_def code_info_def)
    obtain k where k: "n = Suc k" "length nested \<le> k" "length appended \<le> k" using 1(8) len inner by (cases n) auto
    have grows: "prefix cp3 cpf" using write_appended_prefix [OF appended] 1(3) by (rule prefix_order.trans)
    have "reads_attributes order cpf k ks nested"
      by (rule 1(1) [OF i [symmetric] m refl refl nested grows placed_nested [OF 1(4)] fit(3) ks(1)])
        (use 1(9,10) len inner k in simp_all)
    moreover have "reads_attributes order cpf k extra appended"
    proof (cases m)
      case None
      thus ?thesis using appended by (simp add: extra write_appended_def reads_attributes_def reads_as_ret)
    next
      case (Some entries)
      have "write_leaf (StackMapTable entries) cp3 = (appended, cp')" using appended Some by (simp add: write_appended_def)
      from leaf_framed [OF this 1(3) 1(10)] show ?thesis
        using fit(4) len inner by (intro reads_attributes_one [where a = "StackMapTable entries"] | simp add: extra Some)+
    qed
    ultimately have "reads_attributes order cpf k attrs (nested @ appended)"
      unfolding ks(2) by (rule reads_attributes_append)
    moreover have same: "length attrs = length (?kept @ extra)" by (rule try_map_length [OF attrs])
    ultimately have table: "reads_as (read_attributes order cpf n)
        (write_u2 (word_of_nat (length (?kept @ extra))) @ nested @ appended) attrs"
      using reads_attributes_table [of order cpf k attrs] fit(2) by (simp add: k(1) short_list_def del: length_append)
    have "length (code_bytes c) < 2 ^ 32" using len inner by linarith
    from written_code_read [OF table fit(1) this insns built]
    have "reads_as (do { c \<leftarrow> read_code order (read_attributes order cpf n) cpf; ret (Code c) }) info a'"
      unfolding info_def a' by (rule reads_as_last) (rule refl)
    hence parse: "reads_as (parse_attribute order (read_attributes order cpf n) cpf (text_of ''Code'') info) [] a'"
      by (intro parse_known_as) (simp_all add: read_known_def)
    have "prefix cp1 cp3" using write_prefix(2) [OF \<open>context_ok ctx\<close> nested] m_is by simp
    hence "cp_utf8 cpf i = Inr (text_of ''Code'')"
      using interned [OF i prefix_order.trans [OF _ grows]] \<open>length cpf \<le> 2 ^ 16\<close> by blast
    from reads_as_framed [OF this len(1) parse] show ?thesis by (simp add: bytes)
  qed
next
  case (2 ctx precomputed maxs components cp)
  from 2(2) show ?case
  proof (rule write_record_Inr)
    fix i cp1 inner
    assume i: "ensure_utf8 (text_of ''Record'') cp = (i, cp1)"
      and inner: "write_components ctx components cp1 = Inr (inner, cp')"
      and bytes: "bytes = write_attribute_with_info i (write_u2 (word_of_nat (length components)) @ inner)"
    let ?info = "write_u2 (word_of_nat (length components)) @ inner"
    have len: "length ?info < 2 ^ 32" "length inner \<le> n" "length inner < 2 ^ 32"
      using 2(7,8) by (simp_all add: bytes write_attribute_with_info_def)
    obtain cs where cs: "try_map (reread_component order cpf) components = Inr cs" "a' = Record cs"
      using 2(6) by (auto simp: map_sum_id_Inr)
    have "reads_as (read_times (length components) (read_component (read_attributes order cpf n))) inner cs"
      by (rule 2(1) [OF i [symmetric] inner _ placed_components [OF 2(4)] _ cs(1)]) (use 2(3-10) len in auto)
    hence "reads_as (read_table (read_component (read_attributes order cpf n))) ?info cs"
      unfolding read_table_def using 2(5) by (intro bind_u2) (simp add: short_list_def unat_of_nat)
    hence "reads_as (do { t \<leftarrow> read_table (read_component (read_attributes order cpf n)); ret (Record t) }) ?info a'"
      by (rule reads_as_last) (simp add: cs(2))
    hence parse: "reads_as (parse_attribute order (read_attributes order cpf n) cpf (text_of ''Record'') ?info) [] a'"
      by (intro parse_known_as) (simp_all add: read_known_def)
    have "prefix cp1 cp'" by (rule write_prefix(3) [OF \<open>context_ok ctx\<close> inner])
    hence "cp_utf8 cpf i = Inr (text_of ''Record'')"
      using interned [OF i prefix_order.trans] 2(3) \<open>length cpf \<le> 2 ^ 16\<close> by blast
    from reads_as_framed [OF this len(1) parse] show ?thesis by (simp add: bytes)
  qed
next
  case (5 ctx a as cp)
  from 5(3) show ?case
  proof (rule write_cons_Inr)
    fix bs cp1 cs
    assume a: "write_attribute ctx None None a cp = Inr (bs, cp1)"
      and as: "write_attributes ctx as cp1 = Inr (cs, cp')" and bytes: "bytes = bs @ cs"
    from 5(7) obtain b bs' where b: "reread order cpf a = Inr b" "try_map (reread order cpf) as = Inr bs'" "as' = b # bs'"
      by (auto simp: map_sum_id_Inr split: sum.splits)
    have same: "finished ctx None None a = a" using 5(5) by (simp add: finished_nested)
    have "prefix cp1 cpf" using write_prefix(2) [OF \<open>context_ok ctx\<close> as] 5(4) by (rule prefix_order.trans)
    hence "reads_as (read_attribute order (read_attributes order cpf n) cpf) bs b"
      using 5(1) [OF a, unfolded same, OF _ _ _ b(1)] 5(5-11) bytes by simp
    moreover have "reads_attributes order cpf n bs' cs"
      using 5(2) [OF a refl as _ _ _ b(2)] 5(4-11) bytes by simp
    ultimately show ?thesis unfolding bytes b(3) by (rule reads_attributes_Cons)
  qed
next
  case (7 ctx c cs cp)
  from 7(3) show ?case
  proof (rule write_component_Inr)
    fix nested cp1 ds
    assume c: "write_attributes ctx (component_attributes c) cp = Inr (nested, cp1)"
      and cs: "write_components ctx cs cp1 = Inr (ds, cp')"
      and bytes: "bytes = (write_u2 (component_name c) @ write_u2 (component_descriptor c) @
       write_u2 (word_of_nat (length (component_attributes c))) @ nested) @ ds"
    obtain k where k: "n = Suc k" "length nested \<le> k" using 7(9) bytes by (cases n) auto
    from 7(7) obtain d ds' where d: "reread_component order cpf c = Inr d"
      "try_map (reread_component order cpf) cs = Inr ds'" "cs' = d # ds'"
      by (auto simp: map_sum_id_Inr split: sum.splits)
    then obtain attrs where attrs: "try_map (reread order cpf) (component_attributes c) = Inr attrs"
      and d': "d = RecordComponent (component_name c) (component_descriptor c) attrs"
      by (cases c) (auto simp: map_sum_id_Inr)
    have ok: "list_all attribute_ok (component_attributes c)" "short_list (component_attributes c)"
      using 7(6) by (cases c; simp)+
    have "prefix cp1 cpf" using write_prefix(3) [OF \<open>context_ok ctx\<close> cs] 7(4) by (rule prefix_order.trans)
    hence "reads_attributes order cpf k attrs nested"
      using 7(1) [OF c _ _ ok(1) attrs] 7(5-11) bytes k by simp
    note table = reads_attributes_table [OF this, unfolded try_map_length [OF attrs] short_list_def,
        folded short_list_def, OF ok(2)]
    have c_read: "reads_as (read_component (read_attributes order cpf n))
        (write_u2 (component_name c) @ write_u2 (component_descriptor c) @
         write_u2 (word_of_nat (length (component_attributes c))) @ nested) d"
      unfolding read_component_def k(1) d'
      by (rule bind_u2, rule bind_u2, rule reads_as_last [OF table]) (rule refl)
    have cs_read: "reads_as (read_times (length cs) (read_component (read_attributes order cpf n))) ds ds'"
      using 7(2) [OF c refl cs _ _ _ d(2)] 7(4-11) bytes by simp
    show ?thesis unfolding bytes length_Cons read_times.simps d(3)
      by (rule reads_as_bind [OF c_read], rule reads_as_last [OF cs_read]) simp
  qed
qed (auto intro!: leaf_framed simp: reads_attributes_def reads_as_ret)

text \<open>The attributes of a method.\<close>

lemma write_method_prefix_attributes:
  assumes "context_ok ctx"
  shows "write_method_attributes ctx pre maxs as cp = Inr (bytes, cp') \<Longrightarrow> prefix cp cp'"
  using write_prefix(1) [OF assms]
  by (induction as arbitrary: cp bytes)
    (fastforce simp: try_bind_def map_sum_id_Inr split: sum.splits intro: prefix_order.trans)+

lemma method_attributes_read:
  assumes "context_ok ctx" and "length cpf \<le> 2 ^ 16"
  shows "write_method_attributes ctx pre maxs as cp = Inr (bytes, cp') \<Longrightarrow> prefix cp' cpf \<Longrightarrow>
    list_all (placed ctx pre) as \<Longrightarrow> list_all attribute_ok (map (finished ctx pre maxs) as) \<Longrightarrow>
    try_map (reread order cpf) (map (finished ctx pre maxs) as) = Inr as' \<Longrightarrow>
    length bytes < 2 ^ 32 \<Longrightarrow> length bytes \<le> n \<Longrightarrow> reads_attributes order cpf n as' bytes"
proof (induction as arbitrary: cp bytes as')
  case (Cons a as)
  from Cons.prems(1) obtain bs cp1 cs where a: "write_attribute ctx pre maxs a cp = Inr (bs, cp1)"
    and as: "write_method_attributes ctx pre maxs as cp1 = Inr (cs, cp')" and bytes: "bytes = bs @ cs"
    by (auto simp: try_bind_def map_sum_id_Inr split: sum.splits)
  from Cons.prems(5) obtain b bs' where b: "reread order cpf (finished ctx pre maxs a) = Inr b"
    "try_map (reread order cpf) (map (finished ctx pre maxs) as) = Inr bs'" "as' = b # bs'"
    by (auto simp: map_sum_id_Inr split: sum.splits)
  have "prefix cp1 cpf"
    using write_method_prefix_attributes [OF assms(1) as] Cons.prems(2) by (rule prefix_order.trans)
  hence "reads_as (read_attribute order (read_attributes order cpf n) cpf) bs b"
    using write_read(1) [OF assms a _ _ _ b(1)] Cons.prems bytes by simp
  moreover have "reads_attributes order cpf n bs' cs"
    using Cons.IH [OF as _ _ _ b(2)] Cons.prems bytes by simp
  ultimately show ?case unfolding bytes b(3) by (rule reads_attributes_Cons)
qed (simp add: reads_attributes_def reads_as_ret)

end
