(* ===== verification/ClassOutput.thy ===== *)
theory ClassOutput imports AttributeWriter Frames CodeBuilder begin

text \<open>
  \<^verbatim>\<open>ClassFileWriter::to_bytes\<close>: how a tree of a class becomes the bytes of a class file.
\<close>

subsection \<open>Dynamic calls\<close>

definition ensure_bootstrap_arg :: "bootstrap_argument \<Rightarrow> cp_info list \<Rightarrow> u16 \<times> cp_info list" where
  "ensure_bootstrap_arg arg =
     (case arg of
        BsmInteger v \<Rightarrow> ensure_int v
      | BsmFloat v \<Rightarrow> ensure_float v
      | BsmLong v \<Rightarrow> ensure_long v
      | BsmDouble v \<Rightarrow> ensure_double v
      | BsmString v \<Rightarrow> ensure_string v
      | BsmClass v \<Rightarrow> ensure_class v
      | BsmMethodType v \<Rightarrow> ensure_method_type v
      | BsmHandle v \<Rightarrow> ensure_method_handle v)"

fun is_bootstrap :: "attribute_info \<Rightarrow> bool" where
  "is_bootstrap (BootstrapMethods _) = True"
| "is_bootstrap _ = False"

text \<open>The place of the attribute, which is added if there is none.\<close>

definition bootstrap_place :: "attribute_info list \<Rightarrow> nat \<times> attribute_info list" where
  "bootstrap_place attrs =
     (case position is_bootstrap attrs of
        Some i \<Rightarrow> (i, attrs)
      | None \<Rightarrow> (length attrs, attrs @ [BootstrapMethods []]))"

definition add_bootstrap_method ::
    "bootstrap_method \<Rightarrow> attribute_info list \<Rightarrow> u16 \<times> attribute_info list" where
  "add_bootstrap_method e attrs =
     (case bootstrap_place attrs of
        (i, attrs) \<Rightarrow>
          (case attrs ! i of
             BootstrapMethods ms \<Rightarrow>
               (case position (\<lambda>x. x = e) ms of
                  Some k \<Rightarrow> (word_of_nat k, attrs)
                | None \<Rightarrow> (word_of_nat (length ms), attrs[i := BootstrapMethods (ms @ [e])]))
           | _ \<Rightarrow> (0, attrs)))"

text \<open>The class attributes and the pool, which the resolution of dynamic calls may add to.\<close>

type_synonym 'a linking = "(attribute_info list \<times> cp_info list, 'a) state"

definition pool_action :: "(cp_info list, 'a) state \<Rightarrow> 'a linking" where
  "pool_action f = State (\<lambda>(attrs, cp). case run_state f cp of (x, cp) \<Rightarrow> (x, attrs, cp))"

definition attrs_action :: "(attribute_info list \<Rightarrow> 'a \<times> attribute_info list) \<Rightarrow> 'a linking" where
  "attrs_action f = State (\<lambda>(attrs, cp). case f attrs of (x, attrs) \<Rightarrow> (x, attrs, cp))"

definition ensure_bootstrap_method :: "handle \<Rightarrow> bootstrap_argument list \<Rightarrow> u16 linking" where
  "ensure_bootstrap_method bsm args =
     do { e \<leftarrow> pool_action (do {
            i \<leftarrow> on_pool (ensure_method_handle bsm);
            is \<leftarrow> for_each (\<lambda>arg. on_pool (ensure_bootstrap_arg arg)) args;
            ret (BootstrapMethod i is) });
          attrs_action (add_bootstrap_method e) }"

definition resolve_invokedynamic :: "insn \<Rightarrow> insn linking" where
  "resolve_invokedynamic insn =
     (case insn of
        InvokeDynamicInsn op index (Some name) (Some descriptor) (Some bsm) args \<Rightarrow>
          if index = 0 then
            do { b \<leftarrow> ensure_bootstrap_method bsm args;
                 i \<leftarrow> pool_action (on_pool (ensure_invoke_dynamic b name descriptor));
                 ret (InvokeDynamicInsn op i (Some name) (Some descriptor) (Some bsm) args) }
          else ret insn
      | _ \<Rightarrow> ret insn)"

definition resolve_invokedynamic_methods :: "method_node list \<Rightarrow> method_node list linking" where
  "resolve_invokedynamic_methods methods =
     for_each (\<lambda>m. do { insns \<leftarrow> for_each resolve_invokedynamic (me_instructions m);
                        ret (m\<lparr>me_instructions := insns\<rparr>) }) methods"

subsection \<open>Members\<close>

fun is_line_numbers :: "attribute_info \<Rightarrow> bool" where
  "is_line_numbers (LineNumberTable _) = True"
| "is_line_numbers _ = False"

fun is_local_variables :: "attribute_info \<Rightarrow> bool" where
  "is_local_variables (LocalVariableTable _) = True"
| "is_local_variables _ = False"

text \<open>A table of the node is added unless the attributes have one.\<close>

definition with_table :: "(attribute_info \<Rightarrow> bool) \<Rightarrow> ('a list \<Rightarrow> attribute_info) \<Rightarrow> 'a list \<Rightarrow> attribute_info list \<Rightarrow> attribute_info list" where
  "with_table is_table mk entries attrs =
     (if entries \<noteq> [] \<and> \<not> list_ex is_table attrs then attrs @ [mk entries] else attrs)"

definition method_code_attribute :: "method_node \<Rightarrow> class_write_error + code_attribute" where
  "method_code_attribute m =
     try_bind (build_code_from_insn_list (me_instructions m)) (\<lambda>(code, instructions).
     Inr (CodeAttribute (me_max_stack m) (me_max_locals m) code instructions (me_insn_nodes m)
       (me_exception_table m) (me_try_catch_blocks m)
       (with_table is_local_variables LocalVariableTable (me_local_variables m)
         (with_table is_line_numbers LineNumberTable (me_line_numbers m) (me_code_attributes m)))))"

text \<open>The attributes of a member, a field's with no options.\<close>

definition no_method :: "bool \<Rightarrow> writer_context" where
  "no_method frames =
     \<lparr>compute_frames = frames, stack_map_of = (\<lambda>_ _ _. frame_error ''missing method'')\<rparr>"

definition method_context :: "u32 \<Rightarrow> method_node \<Rightarrow> class_node \<Rightarrow> writer_context" where
  "method_context options m c =
     \<lparr>compute_frames = (and options 1 \<noteq> 0), stack_map_of = compute_stack_map_table m c\<rparr>"

definition write_header :: "u16 \<Rightarrow> rust_text \<Rightarrow> rust_text \<Rightarrow> cp_info list \<Rightarrow> u8 list \<times> cp_info list" where
  "write_header flags name descriptor cp =
     (case ensure_utf8 name cp of
        (i, cp) \<Rightarrow> (case ensure_utf8 descriptor cp of
          (j, cp) \<Rightarrow> (write_u2 flags @ write_u2 i @ write_u2 j, cp)))"

definition write_field :: "field_node \<Rightarrow> cp_info list \<Rightarrow> class_write_error + u8 list \<times> cp_info list" where
  "write_field f cp =
     (case write_header (fn_access f) (fn_name f) (fn_descriptor f) cp of
        (header, cp) \<Rightarrow>
          map_sum id (map_prod (append (header @ write_u2 (word_of_nat (length (fn_attributes f))))) id)
            (write_attributes (no_method False) (fn_attributes f) cp))"

fun is_code :: "attribute_info \<Rightarrow> bool" where
  "is_code (Code _) = True"
| "is_code _ = False"

definition method_attributes :: "method_node \<Rightarrow> class_write_error + attribute_info list" where
  "method_attributes m =
     (if me_has_code m then
        map_sum id (\<lambda>code. filter (\<lambda>a. \<not> is_code a) (me_attributes m) @ [Code code]) (method_code_attribute m)
      else Inr (me_attributes m))"

definition write_method ::
    "u32 \<Rightarrow> class_node \<Rightarrow> method_node \<times> stack_map_frame list option \<times> (u16 \<times> u16) option \<Rightarrow> cp_info list \<Rightarrow>
     class_write_error + u8 list \<times> cp_info list" where
  "write_method options c mx cp =
     (case mx of (m, precomputed, maxs) \<Rightarrow>
     (case write_header (me_access m) (me_name m) (me_descriptor m) cp of
        (header, cp) \<Rightarrow>
          try_bind (method_attributes m) (\<lambda>attributes.
          map_sum id (map_prod (append (header @ write_u2 (word_of_nat (length attributes)))) id)
            (write_method_attributes (method_context options m c) precomputed maxs attributes cp))))"

fun write_all ::
    "('a \<Rightarrow> cp_info list \<Rightarrow> class_write_error + u8 list \<times> cp_info list) \<Rightarrow> 'a list \<Rightarrow> cp_info list \<Rightarrow>
     class_write_error + u8 list \<times> cp_info list" where
  "write_all f [] cp = Inr ([], cp)"
| "write_all f (x # xs) cp =
     try_bind (f x cp) (\<lambda>(bytes, cp). map_sum id (map_prod (append bytes) id) (write_all f xs cp))"

subsection \<open>Preparing the class\<close>

fun is_source_file :: "attribute_info \<Rightarrow> bool" where
  "is_source_file (SourceFile _) = True"
| "is_source_file _ = False"

fun is_module :: "attribute_info \<Rightarrow> bool" where
  "is_module (ModuleAttr _) = True"
| "is_module _ = False"

definition add_source_file :: "rust_text option \<Rightarrow> unit linking" where
  "add_source_file source =
     (case source of
        None \<Rightarrow> skip
      | Some s \<Rightarrow>
          do { attrs_action (\<lambda>attrs. ((), filter (\<lambda>a. \<not> is_source_file a) attrs));
               i \<leftarrow> pool_action (on_pool (ensure_utf8 s));
               attrs_action (\<lambda>attrs. ((), attrs @ [SourceFile i])) })"

text \<open>The attributes of the module are made with a builder that takes over the pool.\<close>

definition add_module :: "module_node option \<Rightarrow> unit linking" where
  "add_module module =
     State (\<lambda>(attrs, cp).
       case module of
         None \<Rightarrow> ((), attrs, cp)
       | Some m \<Rightarrow>
           if list_ex is_module attrs then ((), attrs, cp)
           else (case run_state (build_module_attributes m) (from_pool cp) of
                   (new, b) \<Rightarrow> ((), attrs @ new, into_pool b)))"

definition attribute_names :: "class_node \<Rightarrow> method_node list \<Rightarrow> attribute_info list \<Rightarrow> rust_text list" where
  "attribute_names c methods attrs =
     map attribute_name attrs @
     concat (map (\<lambda>f. map attribute_name (fn_attributes f)) (cn_fields c)) @
     concat (map (\<lambda>m. map attribute_name (me_attributes m) @
       (if me_has_code m then text_of ''Code'' # map attribute_name (me_code_attributes m) else [])) methods)"

definition ensure_names :: "rust_text list \<Rightarrow> cp_info list \<Rightarrow> cp_info list" where
  "ensure_names names cp = fold (\<lambda>n cp. snd (ensure_utf8 n cp)) names cp"

definition method_names :: "method_node list \<Rightarrow> rust_text list" where
  "method_names methods = concat (map (\<lambda>m. [me_name m, me_descriptor m]) methods)"

text \<open>\<^verbatim>\<open>COMPUTE_FRAMES\<close> is 1 and \<^verbatim>\<open>COMPUTE_MAXS\<close> is 2; a method's stack map and sizes:\<close>

definition method_maxs :: "u32 \<Rightarrow> class_node \<Rightarrow> method_node \<Rightarrow> code_attribute \<Rightarrow> cp_info list \<Rightarrow> class_write_error + (u16 \<times> u16) option" where
  "method_maxs options c m code cp =
     (if and options 2 \<noteq> 0 then map_sum id Some (compute_maxs m c code cp) else Inr None)"

definition precompute ::
    "u32 \<Rightarrow> class_node \<Rightarrow> method_node \<Rightarrow> cp_info list \<Rightarrow>
     class_write_error + (stack_map_frame list option \<times> (u16 \<times> u16) option) \<times> cp_info list" where
  "precompute options c m cp =
     (if \<not> me_has_code m \<or> and options 3 = 0 then Inr ((None, None), cp)
      else
        try_bind (method_code_attribute m) (\<lambda>code.
        try_bind (method_maxs options c m code cp) (\<lambda>maxs.
        if and options 1 \<noteq> 0 then
          map_sum id (map_prod (\<lambda>entries. (Some entries, maxs)) id)
            (compute_stack_map_table m c code (case maxs of Some (_, l) \<Rightarrow> l | None \<Rightarrow> code_max_locals code) cp)
        else Inr ((None, maxs), cp))))"

fun precompute_all ::
    "u32 \<Rightarrow> class_node \<Rightarrow> method_node list \<Rightarrow> cp_info list \<Rightarrow>
     class_write_error + (method_node \<times> stack_map_frame list option \<times> (u16 \<times> u16) option) list \<times> cp_info list" where
  "precompute_all options c [] cp = Inr ([], cp)"
| "precompute_all options c (m # ms) cp =
     try_bind (precompute options c m cp) (\<lambda>(x, cp).
     map_sum id (map_prod (Cons (m, x)) id) (precompute_all options c ms cp))"

definition super_index :: "class_node \<Rightarrow> cp_info list \<Rightarrow> u16 \<times> cp_info list" where
  "super_index c cp =
     (case cn_super_name c of
        Some name \<Rightarrow> ensure_class name cp
      | None \<Rightarrow> if cn_name c = java_object then (0, cp) else ensure_class java_object cp)"

record prepared_class =
  pc_pool :: "cp_info list"
  pc_methods :: "(method_node \<times> stack_map_frame list option \<times> (u16 \<times> u16) option) list"
  pc_attributes :: "attribute_info list"
  pc_super :: u16

definition prepare_class :: "u32 \<Rightarrow> class_node \<Rightarrow> class_write_error + prepared_class" where
  "prepare_class options c =
     (let (methods, attrs, cp) =
            run_state (do { methods \<leftarrow> resolve_invokedynamic_methods (cn_methods c);
                            add_source_file (cn_source_file c);
                            add_module (cn_module c);
                            ret methods }) (cn_attributes c, cn_constant_pool c);
          cp = ensure_names (attribute_names c methods attrs @ method_names methods) cp;
          cp = (if and options 1 \<noteq> 0 then snd (ensure_utf8 (text_of ''StackMapTable'') cp) else cp)
      in try_bind (precompute_all options c methods cp) (\<lambda>(methods, cp).
         case super_index c cp of
           (super, cp) \<Rightarrow>
             Inr \<lparr>pc_pool = cp, pc_methods = methods, pc_attributes = attrs, pc_super = super\<rparr>))"

text \<open>What follows the pool. The pool may still grow, after it has been written.\<close>

definition write_body ::
    "u32 \<Rightarrow> class_node \<Rightarrow> prepared_class \<Rightarrow> class_write_error + u8 list \<times> cp_info list" where
  "write_body options c p =
     try_bind (write_all write_field (cn_fields c) (pc_pool p)) (\<lambda>(fields, cp).
     try_bind (write_all (write_method options c) (pc_methods p) cp) (\<lambda>(methods, cp).
     try_bind (write_attributes (no_method (and options 1 \<noteq> 0)) (pc_attributes p) cp) (\<lambda>(attrs, cp).
     Inr (write_u2 (cn_access c) @ write_u2 (cn_this_class c) @ write_u2 (pc_super p) @
          write_table write_u2 (cn_interface_indices c) @
          write_u2 (word_of_nat (length (cn_fields c))) @ fields @
          write_u2 (word_of_nat (length (pc_methods p))) @ methods @
          write_u2 (word_of_nat (length (pc_attributes p))) @ attrs, cp))))"

definition to_bytes :: "u32 \<Rightarrow> class_node \<Rightarrow> class_write_error + u8 list" where
  "to_bytes options c =
     (if cn_constant_pool c = [] then Inl MissingConstantPool
      else
        try_bind (prepare_class options c) (\<lambda>p.
        try_bind (write_body options c p) (\<lambda>(body, _).
        Inr (write_u4 0xCAFEBABE @ write_u2 (cn_minor_version c) @ write_u2 (cn_major_version c) @
             write_constant_pool (pc_pool p) @ body))))"

end
