(* ===== verification/ClassRoundtrip.thy ===== *)
theory ClassRoundtrip imports ClassOutput FrameFacts begin

text \<open>
  The class file that is written for a class is read back, where the pool has all constants before
  it is written.
\<close>

subsection \<open>Writing keeps the pool\<close>

lemma compute_stack_map_prefix:
  assumes "compute_stack_map_table m c code l cp = Inr (entries, cp')"
  shows "prefix cp cp'"
proof -
  from assms consider "cp' = cp"
    | env initial a u where "analyse env (\<lambda>_ u. u) iteration_limit (analysis_start initial, ()) = Inr (a, u)"
      "run_state (full_frames (-1) (sorted_frames (an_frames a))) cp = (entries, cp')"
    by (auto simp: compute_stack_map_table_def try_bind_Inr Let_def split: if_splits)
  thus ?thesis
  proof cases
    case (2 env initial a u)
    have "\<forall>x \<in> set (sorted_frames (an_frames a)). fst x \<noteq> 0 \<longrightarrow> -1 < uint (fst x)"
      using uint_nonnegative by (meson less_le_trans neg_less_0_iff_less zero_less_one)
    from internsD(1) [OF full_frames_interns [OF
        sorted_frames_sorted [OF analyse_typed(2) [OF 2(1) noting_nothing]] _ this] 2(2)]
    show ?thesis by simp
  qed simp
qed

lemma contexts_ok [simp]: "context_ok (no_method frames)" "context_ok (method_context options m c)"
  by (auto simp: context_ok_def no_method_def method_context_def intro: compute_stack_map_prefix)

lemma write_header_prefix: "write_header fl n d cp = (bs, cp') \<Longrightarrow> prefix cp cp'"
  by (auto simp: write_header_def split: prod.splits dest!: ensure_utf8_prefix intro: prefix_order.trans)

lemma write_field_prefix: "write_field f cp = Inr (bs, cp') \<Longrightarrow> prefix cp cp'"
  by (auto simp: write_field_def split: prod.splits
      dest!: write_header_prefix write_prefix(2) [OF contexts_ok(1)] intro: prefix_order.trans)

text \<open>A list of members that leaves the pool as it is.\<close>

definition keeps_pool :: "('a \<Rightarrow> cp_info list \<Rightarrow> class_write_error + u8 list \<times> cp_info list) \<Rightarrow> 'a list \<Rightarrow> bool" where
  "keeps_pool f xs \<longleftrightarrow> (\<forall>x \<in> set xs. \<forall>cp bs cp'. f x cp = Inr (bs, cp') \<longrightarrow> prefix cp cp')"

lemma keeps_pool_Cons [simp]:
  "keeps_pool f (x # xs) \<longleftrightarrow> (\<forall>cp bs cp'. f x cp = Inr (bs, cp') \<longrightarrow> prefix cp cp') \<and> keeps_pool f xs"
  by (simp add: keeps_pool_def)

lemma write_all_prefix:
  "keeps_pool f xs \<Longrightarrow> write_all f xs cp = Inr (bytes, cp') \<Longrightarrow> prefix cp cp'"
proof (induction xs arbitrary: cp bytes)
  case (Cons x xs)
  from Cons.prems(2) obtain bs cp1 rest where x: "f x cp = Inr (bs, cp1)" and xs: "write_all f xs cp1 = Inr (rest, cp')"
    by (auto simp: try_bind_Inr)
  have "prefix cp cp1" using Cons.prems(1) x by simp
  moreover have "prefix cp1 cp'" using Cons.IH [OF _ xs] Cons.prems(1) by simp
  ultimately show ?case by (rule prefix_order.trans)
qed simp

lemma write_all_same:
  "keeps_pool f xs \<Longrightarrow> write_all f xs cp = Inr (bytes, cp) \<Longrightarrow>
   \<exists>bss. list_all2 (\<lambda>x bs. f x cp = Inr (bs, cp)) xs bss \<and> bytes = concat bss"
proof (induction xs arbitrary: bytes)
  case (Cons x xs)
  from Cons.prems(2) obtain bs cp1 rest where x: "f x cp = Inr (bs, cp1)" and xs: "write_all f xs cp1 = Inr (rest, cp)"
    and bytes: "bytes = bs @ rest"
    by (auto simp: try_bind_Inr)
  have "prefix cp cp1" "prefix cp1 cp"
    using Cons.prems(1) x write_all_prefix [OF _ xs] by simp_all
  hence same: "cp1 = cp" by (simp add: prefix_order.eq_iff)
  obtain bss where "list_all2 (\<lambda>x bs. f x cp = Inr (bs, cp)) xs bss" "rest = concat bss"
    using Cons.IH [of rest] Cons.prems(1) xs same by auto
  with x same bytes show ?case by (intro exI [of _ "bs # bss"]) simp
qed simp

subsection \<open>Reading members\<close>

text \<open>The attributes of a field or of the class, which hold no code.\<close>

definition attributes_fit :: "attribute_info list \<Rightarrow> bool" where
  "attributes_fit as \<longleftrightarrow> short_list as \<and> list_all code_free as \<and> list_all attribute_ok as"

text \<open>The attributes of a method: what is written fits its counts, and its code can be decoded.\<close>

definition code_fits ::
    "(u16 list \<Rightarrow> u16 list) \<Rightarrow> cp_info list \<Rightarrow> writer_context \<Rightarrow> stack_map_frame list option \<times> (u16 \<times> u16) option \<Rightarrow>
     attribute_info list \<Rightarrow> bool" where
  "code_fits order cp ctx x as \<longleftrightarrow>
     short_list as \<and> list_all (placed ctx (fst x)) as \<and>
     list_all attribute_ok (map (finished ctx (fst x) (snd x)) as) \<and>
     \<not> isl (try_map (reread order cp) (map (finished ctx (fst x) (snd x)) as))"

lemma reread_code_free:
  "code_free a \<Longrightarrow> reread order cp a = Inr a"
  "code_free_component c \<Longrightarrow> reread_component order cp c = Inr c"
  by (induction order cp a and order cp c rule: reread_reread_component.induct)
    (auto simp: list_all_iff intro!: try_map_same_values)

lemma reread_all: "list_all code_free as \<Longrightarrow> try_map (reread order cp) as = Inr as"
  using try_map_same_values [of as "reread order cp"] reread_code_free(1) by (auto simp: list_all_iff)

text \<open>The member of the class file has the flags, the names and the attributes.\<close>

definition member_is ::
    "cp_info list \<Rightarrow> u16 \<Rightarrow> rust_text \<Rightarrow> rust_text \<Rightarrow> attribute_info list \<Rightarrow> member_info \<Rightarrow> bool" where
  "member_is cp flags name descriptor attrs m \<longleftrightarrow>
     member_flags m = flags \<and> cp_utf8 cp (member_name m) = Inr name \<and>
     cp_utf8 cp (member_descriptor m) = Inr descriptor \<and> member_attributes m = attrs"

lemma header_found:
  assumes "write_header flags name descriptor cp = (bs, cp')" and "length cp' \<le> 2 ^ 16"
  shows "\<exists>i j. bs = write_u2 flags @ write_u2 i @ write_u2 j \<and> cp_utf8 cp' i = Inr name \<and> cp_utf8 cp' j = Inr descriptor"
proof -
  obtain i cp1 j where i: "ensure_utf8 name cp = (i, cp1)" and j: "ensure_utf8 descriptor cp1 = (j, cp')"
    and bs: "bs = write_u2 flags @ write_u2 i @ write_u2 j"
    using assms(1) by (auto simp: write_header_def split: prod.splits)
  have "prefix cp1 cp'" by (rule ensure_utf8_prefix [OF j])
  moreover from this have "length cp1 \<le> 2 ^ 16" using assms(2) prefix_length_le by fastforce
  ultimately show ?thesis
    using bs ensure_utf8_found [OF i] ensure_utf8_found [OF j] assms(2) cp_utf8_prefix by blast
qed

lemma member_read:
  assumes header: "write_header flags name descriptor cp = (bs, cp1)"
    and attrs: "write_method_attributes ctx pre maxs as cp1 = Inr (cs, cp)" and ctx: "context_ok ctx"
    and fit: "short_list as" "list_all (placed ctx pre) as" "list_all attribute_ok (map (finished ctx pre maxs) as)"
    and reread: "try_map (reread order cp) (map (finished ctx pre maxs) as) = Inr as'"
    and len: "length cp \<le> 2 ^ 16" "length cs < 2 ^ 32" "length cs \<le> n"
  shows "\<exists>m. member_is cp flags name descriptor as' m \<and>
    reads_as (read_member (read_attributes order cp (Suc n))) ((bs @ write_u2 (word_of_nat (length as))) @ cs) m"
proof -
  have "prefix cp cp1" "prefix cp1 cp"
    using write_header_prefix [OF header] write_method_prefix_attributes [OF ctx attrs] by simp_all
  hence same: "cp1 = cp" by (simp add: prefix_order.eq_iff)
  obtain i j where bs: "bs = write_u2 flags @ write_u2 i @ write_u2 j"
    and names: "cp_utf8 cp i = Inr name" "cp_utf8 cp j = Inr descriptor"
    using header_found [OF header] len same by auto
  have count: "length as' = length as" using try_map_length [OF reread] by simp
  have "reads_attributes order cp n as' cs"
    by (rule method_attributes_read [OF ctx len(1) attrs _ fit(2,3) reread len(2,3)]) simp
  from reads_attributes_table [OF this] fit(1)
  have "reads_as (read_attributes order cp (Suc n)) (write_u2 (word_of_nat (length as)) @ cs) as'"
    by (simp add: count short_list_def)
  hence "reads_as (read_member (read_attributes order cp (Suc n)))
      (write_u2 flags @ write_u2 i @ write_u2 j @ write_u2 (word_of_nat (length as)) @ cs)
      (MemberInfo flags i j as')"
    unfolding read_member_def by (intro bind_u2) (rule reads_as_last, assumption, simp)
  thus ?thesis using names by (intro exI [of _ "MemberInfo flags i j as'"]) (simp add: member_is_def bs)
qed

lemma members_read:
  assumes "list_all2 (\<lambda>x bs. \<exists>m. R x m \<and> reads_as f bs m) xs bss"
  shows "\<exists>ms. list_all2 R xs ms \<and> reads_as (read_times (length xs) f) (concat bss) ms"
  using assms
proof (induction xs bss rule: list_all2_induct)
  case (Cons x xs bs bss)
  then obtain m ms where "R x m" "reads_as f bs m" "list_all2 R xs ms" "reads_as (read_times (length xs) f) (concat bss) ms"
    by blast
  thus ?case
    by (intro exI [of _ "m # ms"]) (simp, rule reads_as_bind, assumption, rule reads_as_last, assumption, simp)
qed (simp add: reads_as_ret)

lemma read_table_members:
  assumes "reads_as (read_times (length xs) f) bs ms" and "short_list xs"
  shows "reads_as (read_table f) (write_u2 (word_of_nat (length xs)) @ bs) ms"
  unfolding read_table_def by (rule bind_u2) (use assms in \<open>simp add: short_list_def unat_of_nat\<close>)

subsection \<open>The file\<close>

text \<open>
  What \<^verbatim>\<open>to_bytes\<close> relies on and does not check: tables fit their counts, the version is one the reader
  knows, code is in methods only and can be decoded.
\<close>

definition class_fits :: "(u16 list \<Rightarrow> u16 list) \<Rightarrow> u32 \<Rightarrow> class_node \<Rightarrow> prepared_class \<Rightarrow> bool" where
  "class_fits order options c p \<longleftrightarrow>
     pool_ok (pc_pool p) \<and> cn_major_version c \<le> V25 \<and>
     short_list (cn_interface_indices c) \<and> short_list (cn_fields c) \<and> short_list (pc_methods p) \<and>
     attributes_fit (pc_attributes p) \<and>
     list_all (\<lambda>f. attributes_fit (fn_attributes f)) (cn_fields c) \<and>
     list_all (\<lambda>(m, x). case method_attributes m of
         Inl e \<Rightarrow> True
       | Inr as \<Rightarrow> code_fits order (pc_pool p) (method_context options m c) x as) (pc_methods p)"

definition field_is :: "cp_info list \<Rightarrow> field_node \<Rightarrow> member_info \<Rightarrow> bool" where
  "field_is cp f m \<longleftrightarrow> member_is cp (fn_access f) (fn_name f) (fn_descriptor f) (fn_attributes f) m"

text \<open>The attributes that are read of a method, whose sizes and stack map may have been computed.\<close>

definition attributes_back ::
    "(u16 list \<Rightarrow> u16 list) \<Rightarrow> cp_info list \<Rightarrow> u32 \<Rightarrow> class_node \<Rightarrow>
     method_node \<times> stack_map_frame list option \<times> (u16 \<times> u16) option \<Rightarrow> attribute_info list \<Rightarrow> bool" where
  "attributes_back order cp options c mx as \<longleftrightarrow>
     (case mx of (m, precomputed, maxs) \<Rightarrow>
        \<exists>attrs. method_attributes m = Inr attrs \<and>
          try_map (reread order cp) (map (finished (method_context options m c) precomputed maxs) attrs) = Inr as)"

definition method_is ::
    "(u16 list \<Rightarrow> u16 list) \<Rightarrow> cp_info list \<Rightarrow> u32 \<Rightarrow> class_node \<Rightarrow>
     method_node \<times> stack_map_frame list option \<times> (u16 \<times> u16) option \<Rightarrow> member_info \<Rightarrow> bool" where
  "method_is order cp options c mx mi \<longleftrightarrow>
     (\<exists>as. attributes_back order cp options c mx as \<and>
        member_is cp (me_access (fst mx)) (me_name (fst mx)) (me_descriptor (fst mx)) as mi)"

lemma concat_member_length: "bs \<in> set bss \<Longrightarrow> length bs \<le> length (concat bss)"
  by (induction bss) auto

lemma fields_read:
  assumes "write_all write_field fs cp = Inr (bytes, cp)" and "list_all (\<lambda>f. attributes_fit (fn_attributes f)) fs"
    and len: "length cp \<le> 2 ^ 16" "length bytes < 2 ^ 32" "length bytes \<le> n"
  shows "\<exists>ms. list_all2 (field_is cp) fs ms \<and>
    reads_as (read_times (length fs) (read_member (read_attributes order cp (Suc n)))) bytes ms"
proof -
  obtain bss where bss: "list_all2 (\<lambda>x bs. write_field x cp = Inr (bs, cp)) fs bss" "bytes = concat bss"
    using write_all_same [OF _ assms(1)] write_field_prefix by (auto simp: keeps_pool_def)
  have "list_all2 (\<lambda>x bs. \<exists>m. field_is cp x m \<and> reads_as (read_member (read_attributes order cp (Suc n))) bs m) fs bss"
    using bss(1)
  proof (rule list.rel_mono_strong)
    fix f bs assume f: "f \<in> set fs" and b: "bs \<in> set bss" and run: "write_field f cp = Inr (bs, cp)"
    obtain h cp1 cs where h: "write_header (fn_access f) (fn_name f) (fn_descriptor f) cp = (h, cp1)"
      and cs: "write_method_attributes (no_method False) None None (fn_attributes f) cp1 = Inr (cs, cp)"
      and bs: "bs = (h @ write_u2 (word_of_nat (length (fn_attributes f)))) @ cs"
      using run by (auto simp: write_field_def write_method_attributes_none split: prod.splits)
    have "length cs \<le> length bytes" using concat_member_length [OF b] bs bss(2) by simp
    moreover have "attributes_fit (fn_attributes f)" using assms(2) f by (simp add: list_all_iff)
    ultimately show "\<exists>m. field_is cp f m \<and> reads_as (read_member (read_attributes order cp (Suc n))) bs m"
      unfolding bs field_is_def using len
      by (intro member_read [OF h cs contexts_ok(1)]) (simp_all add: attributes_fit_def plain_attributes reread_all)
  qed
  from members_read [OF this] bss(2) show ?thesis by simp
qed

lemma write_method_Inr:
  assumes "write_method options c (m, pre, maxs) cp = Inr (bs, cp')"
  obtains h cp1 as cs where
    "write_header (me_access m) (me_name m) (me_descriptor m) cp = (h, cp1)" "method_attributes m = Inr as"
    "write_method_attributes (method_context options m c) pre maxs as cp1 = Inr (cs, cp')"
    "bs = (h @ write_u2 (word_of_nat (length as))) @ cs"
  using assms by (auto simp: write_method_def try_bind_Inr split: prod.splits)

lemma write_method_prefix: "write_method options c mx cp1 = Inr (bs, cp2) \<Longrightarrow> prefix cp1 cp2"
proof (cases mx)
  case (fields m pre maxs)
  assume "write_method options c mx cp1 = Inr (bs, cp2)"
  from write_method_Inr [OF this [unfolded fields]] show ?thesis
    using write_header_prefix write_method_prefix_attributes [OF contexts_ok(2)] prefix_order.trans by metis
qed

lemma methods_read:
  assumes "write_all (write_method options c) ms cp = Inr (bytes, cp)"
    and "list_all (\<lambda>(m, x). case method_attributes m of
         Inl e \<Rightarrow> True
       | Inr as \<Rightarrow> code_fits order cp (method_context options m c) x as) ms"
    and len: "length cp \<le> 2 ^ 16" "length bytes < 2 ^ 32" "length bytes \<le> n"
  shows "\<exists>mis. list_all2 (method_is order cp options c) ms mis \<and>
    reads_as (read_times (length ms) (read_member (read_attributes order cp (Suc n)))) bytes mis"
proof -
  obtain bss where bss: "list_all2 (\<lambda>x bs. write_method options c x cp = Inr (bs, cp)) ms bss" "bytes = concat bss"
    using write_all_same [OF _ assms(1)] write_method_prefix by (auto simp: keeps_pool_def)
  have "list_all2 (\<lambda>x bs. \<exists>m. method_is order cp options c x m \<and>
      reads_as (read_member (read_attributes order cp (Suc n))) bs m) ms bss"
    using bss(1)
  proof (rule list.rel_mono_strong)
    fix x bs assume x: "x \<in> set ms" and b: "bs \<in> set bss" and run: "write_method options c x cp = Inr (bs, cp)"
    obtain m pre maxs where m: "x = (m, pre, maxs)" by (metis prod.collapse)
    obtain h cp1 as cs where h: "write_header (me_access m) (me_name m) (me_descriptor m) cp = (h, cp1)"
      and as: "method_attributes m = Inr as"
      and cs: "write_method_attributes (method_context options m c) pre maxs as cp1 = Inr (cs, cp)"
      and bs: "bs = (h @ write_u2 (word_of_nat (length as))) @ cs"
      using write_method_Inr [OF run [unfolded m]] by blast
    have fits: "code_fits order cp (method_context options m c) (pre, maxs) as"
      using assms(2) x by (auto simp: list_all_iff m as split: prod.splits)
    then obtain as' where as': "try_map (reread order cp)
        (map (finished (method_context options m c) pre maxs) as) = Inr as'"
      by (auto simp: code_fits_def isl_def) (metis sum.exhaust)
    have "length cs \<le> length bytes" using concat_member_length [OF b] bs bss(2) by simp
    with fits len obtain mi where "member_is cp (me_access m) (me_name m) (me_descriptor m) as' mi"
      "reads_as (read_member (read_attributes order cp (Suc n))) bs mi"
      using member_read [OF h cs contexts_ok(2) _ _ _ as', of n] bs by (auto simp: code_fits_def)
    thus "\<exists>mi. method_is order cp options c x mi \<and> reads_as (read_member (read_attributes order cp (Suc n))) bs mi"
      using as as' by (auto simp: method_is_def attributes_back_def m)
  qed
  from members_read [OF this] bss(2) show ?thesis by simp
qed

lemma bind_counted: "reads_as f (b @ bs) x \<Longrightarrow> reads_as (g x) cs y \<Longrightarrow> reads_as (State_Monad.bind f g) (b @ bs @ cs) y"
  using reads_as_bind by fastforce

lemma class_parts_read:
  assumes pool: "pool_ok cp" and major: "\<not> V25 < major" and ifs: "reads_as (read_table read_u2) ibytes is"
    and f: "reads_as (read_fields (read_attributes order cp n)) (b @ fbytes) fs"
    and m: "reads_as (read_methods (read_attributes order cp n)) (b' @ mbytes) ms"
    and a: "reads_as (read_attributes order cp n) abytes attrs"
  shows "reads_as (read_class order n)
      (write_u4 0xCAFEBABE @ write_u2 minor @ write_u2 major @ write_constant_pool cp @
       write_u2 access @ write_u2 this @ write_u2 super @ ibytes @ b @ fbytes @ b' @ mbytes @ abytes)
      \<lparr>minor_version = minor, major_version = major, constant_pool = cp, access_flags = access, this_class = this,
       super_class = super, interfaces = is, class_fields = fs, class_methods = ms, class_attributes = attrs\<rparr>"
  unfolding read_class_def
  by (rule reads_as_bind [OF reads_as_u4], simp only: refl not_True_eq_False if_False simp_thms,
      rule bind_u2, rule bind_u2, simp only: major if_False,
      rule reads_as_bind [OF reads_as_constant_pool [OF pool]],
      rule bind_u2, rule bind_u2, rule bind_u2, rule reads_as_bind [OF ifs],
      rule bind_counted [OF f], rule bind_counted [OF m], rule reads_as_last [OF a], rule refl)

lemma class_reads:
  assumes body: "write_body options c p = Inr (bytes, pc_pool p)"
    and fits: "class_fits order options c p" and len: "length bytes < 2 ^ 32" "length bytes \<le> n"
  shows "\<exists>fs ms. list_all2 (field_is (pc_pool p)) (cn_fields c) fs \<and>
    list_all2 (method_is order (pc_pool p) options c) (pc_methods p) ms \<and>
    reads_as (read_class order (Suc n))
      (write_u4 0xCAFEBABE @ write_u2 (cn_minor_version c) @ write_u2 (cn_major_version c) @
       write_constant_pool (pc_pool p) @ bytes)
      \<lparr>minor_version = cn_minor_version c, major_version = cn_major_version c, constant_pool = pc_pool p,
       access_flags = cn_access c, this_class = cn_this_class c, super_class = pc_super p,
       interfaces = cn_interface_indices c, class_fields = fs, class_methods = ms,
       class_attributes = pc_attributes p\<rparr>"
proof -
  let ?cp = "pc_pool p"
  obtain f cp1 m cp2 a where f: "write_all write_field (cn_fields c) ?cp = Inr (f, cp1)"
    and m: "write_all (write_method options c) (pc_methods p) cp1 = Inr (m, cp2)"
    and a: "write_method_attributes (no_method (and options 1 \<noteq> 0)) None None (pc_attributes p) cp2 = Inr (a, ?cp)"
    and bytes: "bytes = write_u2 (cn_access c) @ write_u2 (cn_this_class c) @ write_u2 (pc_super p) @
          write_table write_u2 (cn_interface_indices c) @
          write_u2 (word_of_nat (length (cn_fields c))) @ f @
          write_u2 (word_of_nat (length (pc_methods p))) @ m @
          write_u2 (word_of_nat (length (pc_attributes p))) @ a"
    using body by (auto simp: write_body_def try_bind_Inr write_method_attributes_none)
  have keeps: "keeps_pool write_field (cn_fields c)" "keeps_pool (write_method options c) (pc_methods p)"
    using write_field_prefix write_method_prefix by (auto simp: keeps_pool_def)
  have "prefix ?cp cp1" "prefix cp1 cp2" "prefix cp2 ?cp"
    using write_all_prefix [OF keeps(1) f] write_all_prefix [OF keeps(2) m] write_method_prefix_attributes [OF contexts_ok(1) a] by simp_all
  hence same: "cp1 = ?cp" "cp2 = ?cp" by (metis prefix_order.antisym prefix_order.trans)+
  have pool: "length ?cp \<le> 2 ^ 16" using fits by (simp add: class_fits_def pool_ok_def)
  have lens: "length f \<le> length bytes" "length m \<le> length bytes" "length a \<le> length bytes"
    by (simp_all add: bytes)
  obtain fs where fs: "list_all2 (field_is ?cp) (cn_fields c) fs"
    and f_read: "reads_as (read_times (length (cn_fields c)) (read_member (read_attributes order ?cp (Suc n)))) f fs"
    using fields_read [OF f [unfolded same], where order = order and n = n] fits pool len lens by (auto simp: class_fits_def)
  obtain ms where ms: "list_all2 (method_is order ?cp options c) (pc_methods p) ms"
    and m_read: "reads_as (read_times (length (pc_methods p)) (read_member (read_attributes order ?cp (Suc n)))) m ms"
    using methods_read [OF m [unfolded same], where order = order and n = n] fits pool len lens
    by (auto simp: class_fits_def)
  have "reads_attributes order ?cp n (pc_attributes p) a"
    using method_attributes_read [OF contexts_ok(1) pool a] fits len lens
    by (simp add: class_fits_def attributes_fit_def plain_attributes reread_all)
  hence a_read: "reads_as (read_attributes order ?cp (Suc n)) (write_u2 (word_of_nat (length (pc_attributes p))) @ a)
      (pc_attributes p)"
    using fits by (intro reads_attributes_table) (simp_all add: class_fits_def attributes_fit_def)
  have pool_ok: "pool_ok ?cp" using fits by (simp add: class_fits_def)
  have f_table: "reads_as (read_fields (read_attributes order ?cp (Suc n))) (write_u2 (word_of_nat (length (cn_fields c))) @ f) fs"
    unfolding read_fields_def using fits by (intro read_table_members [OF f_read]) (simp add: class_fits_def)
  have m_table: "reads_as (read_methods (read_attributes order ?cp (Suc n))) (write_u2 (word_of_nat (length (pc_methods p))) @ m) ms"
    unfolding read_methods_def using fits by (intro read_table_members [OF m_read]) (simp add: class_fits_def)
  have ifs: "reads_as (read_table read_u2) (write_table write_u2 (cn_interface_indices c)) (cn_interface_indices c)"
    using fits by (intro reads_as_u2_table) (simp add: class_fits_def)
  have major: "\<not> V25 < cn_major_version c" using fits by (simp add: class_fits_def not_less)
  from class_parts_read [OF pool_ok major ifs f_table m_table a_read] fs ms show ?thesis
    unfolding bytes append_assoc by blast
qed

subsection \<open>The methods that are written\<close>

text \<open>Linking fills in the index of a dynamic call.\<close>

definition insn_linked :: "insn \<Rightarrow> insn \<Rightarrow> bool" where
  "insn_linked i j \<longleftrightarrow>
     (case i of
        InvokeDynamicInsn op index name descriptor bsm args \<Rightarrow>
          \<exists>k. j = InvokeDynamicInsn op k name descriptor bsm args \<and> (index \<noteq> 0 \<longrightarrow> k = index)
      | _ \<Rightarrow> j = i)"

definition method_linked :: "method_node \<Rightarrow> method_node \<Rightarrow> bool" where
  "method_linked m n \<longleftrightarrow>
     n = m\<lparr>me_instructions := me_instructions n\<rparr> \<and> list_all2 insn_linked (me_instructions m) (me_instructions n)"

lemma run_for_each:
  assumes "\<And>x s y s'. x \<in> set xs \<Longrightarrow> run_state (f x) s = (y, s') \<Longrightarrow> R x y"
    and "run_state (for_each f xs) s = (ys, s')"
  shows "list_all2 R xs ys"
  using assms
proof (induction xs arbitrary: s ys)
  case (Cons x xs)
  from Cons.prems(2) obtain y s1 ys' where "run_state (f x) s = (y, s1)" "run_state (for_each f xs) s1 = (ys', s')"
    "ys = y # ys'" by (auto split: prod.splits)
  with Cons.IH Cons.prems(1) show ?case by (metis list.rel_intros(2) list.set_intros)
qed simp

lemma resolved_linked: "run_state (resolve_invokedynamic i) s = (j, s') \<Longrightarrow> insn_linked i j"
  by (auto simp: resolve_invokedynamic_def insn_linked_def split: insn.splits option.splits if_splits prod.splits)

lemma resolved_methods:
  assumes "run_state (resolve_invokedynamic_methods ms) s = (ns, s')"
  shows "list_all2 method_linked ms ns"
proof (rule run_for_each [OF _ assms [unfolded resolve_invokedynamic_methods_def]])
  fix m n :: method_node and s s' assume "run_state (do { insns \<leftarrow> for_each resolve_invokedynamic (me_instructions m);
      ret (m\<lparr>me_instructions := insns\<rparr>) }) s = (n, s')"
  then obtain insns s1 where "run_state (for_each resolve_invokedynamic (me_instructions m)) s = (insns, s1)"
    "n = m\<lparr>me_instructions := insns\<rparr>" by (auto split: prod.splits)
  with run_for_each [OF resolved_linked this(1)] show "method_linked m n" by (simp add: method_linked_def)
qed

lemma precomputed_methods: "precompute_all options c ms cp = Inr (xs, cp') \<Longrightarrow> map fst xs = ms"
  by (induction ms arbitrary: cp xs) (auto simp: try_bind_Inr)

lemma prepared_methods:
  assumes "prepare_class options c = Inr p"
  shows "list_all2 method_linked (cn_methods c) (map fst (pc_methods p))"
proof -
  obtain methods s1 where m: "run_state (resolve_invokedynamic_methods (cn_methods c))
      (cn_attributes c, cn_constant_pool c) = (methods, s1)" by (metis prod.collapse)
  then obtain s2 where link: "run_state (do { methods \<leftarrow> resolve_invokedynamic_methods (cn_methods c);
      add_source_file (cn_source_file c); add_module (cn_module c); ret methods })
      (cn_attributes c, cn_constant_pool c) = (methods, s2)" by (auto simp: split_beta)
  obtain attrs cp where s2: "s2 = (attrs, cp)" by fastforce
  from assms obtain xs cp1 cp2 where "precompute_all options c methods cp1 = Inr (xs, cp2)" "pc_methods p = xs"
    unfolding prepare_class_def link s2
    by (auto simp: try_bind_Inr Let_def split: prod.splits) (metis prepared_class.select_convs(2) prod.collapse)
  with precomputed_methods resolved_methods [OF m] show ?thesis by metis
qed

subsection \<open>The bytes of a class\<close>

lemma class_bytes_read:
  assumes "prepare_class options c = Inr p" and "write_body options c p = Inr (body, pc_pool p)"
    and "class_fits order options c p" and "cn_constant_pool c \<noteq> []" and "length body < 2 ^ 32"
  shows "\<exists>bytes fs ms. to_bytes options c = Inr bytes \<and>
    read_class_file order bytes = Inr
      \<lparr>minor_version = cn_minor_version c, major_version = cn_major_version c, constant_pool = pc_pool p,
       access_flags = cn_access c, this_class = cn_this_class c, super_class = pc_super p,
       interfaces = cn_interface_indices c, class_fields = fs, class_methods = ms,
       class_attributes = pc_attributes p\<rparr> \<and>
    list_all2 (field_is (pc_pool p)) (cn_fields c) fs \<and>
    list_all2 (method_is order (pc_pool p) options c) (pc_methods p) ms \<and>
    list_all2 method_linked (cn_methods c) (map fst (pc_methods p))"
proof -
  let ?bytes = "write_u4 0xCAFEBABE @ write_u2 (cn_minor_version c) @ write_u2 (cn_major_version c) @
       write_constant_pool (pc_pool p) @ body"
  have bytes: "to_bytes options c = Inr ?bytes" using assms by (simp add: to_bytes_def)
  have "length body \<le> length ?bytes" by simp
  from class_reads [OF assms(2,3,5) this] obtain fs ms where
    members: "list_all2 (field_is (pc_pool p)) (cn_fields c) fs"
      "list_all2 (method_is order (pc_pool p) options c) (pc_methods p) ms"
    and read: "reads_as (read_class order (Suc (length ?bytes))) ?bytes
      \<lparr>minor_version = cn_minor_version c, major_version = cn_major_version c, constant_pool = pc_pool p,
       access_flags = cn_access c, this_class = cn_this_class c, super_class = pc_super p,
       interfaces = cn_interface_indices c, class_fields = fs, class_methods = ms,
       class_attributes = pc_attributes p\<rparr>" by blast
  show ?thesis
    using bytes members reads_as_run [OF read, folded read_class_file_def] prepared_methods [OF assms(1)] by blast
qed

end
