(* ===== verification/ClassSpec.thy ===== *)
theory ClassSpec imports Backpatching FrameSizes ClassRoundtrip begin

text \<open>
  The properties of the class file library (\<^verbatim>\<open>lib/rust-asm\<close>), with their witnesses, and the
  behaviours that modelling it showed.
\<close>

subsection \<open>Encodings\<close>

text \<open>C14. Modified UTF-8 round trip: decoding the encoding of a string of Unicode scalar values, the
  zero character and those outside the basic plane included, gives the string back.\<close>

theorem modified_utf8_roundtrip:
  "list_all is_char s \<Longrightarrow> decode_modified_utf8 (encode_modified_utf8 s) = Inr s"
  by (rule decode_encode)

lemma modified_utf8_roundtrip_witness:
  "decode_modified_utf8 (encode_modified_utf8 [0, 65, 233, 8364, 128512]) = Inr [0, 65, 233, 8364, 128512]"
  by (rule modified_utf8_roundtrip) (simp add: is_char_def)

text \<open>C13. Descriptors: \<^verbatim>\<open>Type::get_type\<close> returns a type exactly where the text begins with the
  descriptor of a type whose class names contain no semicolon, and then that type, whatever follows;
  it always ends, otherwise with a panic. The documentation promises a panic for any text that is
  no descriptor; a descriptor with more text behind it gives none.\<close>

theorem descriptor_parsed_iff:
  "(get_type s = Inr t \<longleftrightarrow> type_ok t \<and> prefix (get_descriptor t) s) \<and> get_type s \<noteq> Inl TypeOutOfFuel"
  using get_type_iff get_type_fuel by blast

text \<open>C12. Constant pool round trip: a pool whose strings fit their length field and whose long and
  double entries take two places is read back from its bytes.\<close>

theorem constant_pool_roundtrip:
  "pool_ok cp \<Longrightarrow> run_reader read_constant_pool (write_constant_pool cp) = Inr cp"
  by (rule reads_as_run [OF reads_as_constant_pool])

lemma constant_pool_roundtrip_witness:
  "run_reader read_constant_pool
     (write_constant_pool [Unusable, Utf8 [65], Long 5, Unusable, Class 1, MethodHandle 6 3]) =
   Inr [Unusable, Utf8 [65], Long 5, Unusable, Class 1, MethodHandle 6 3]"
  by (rule constant_pool_roundtrip)
    (simp add: pool_ok_def utf8_fits_def is_char_def encode_modified_utf8_def encode_char_def)

subsection \<open>Bytecode\<close>

text \<open>C10. Bytecode round trip: instructions whose operands fit the form of their opcode, switches with
  their padding included, are encoded as they are, and decoding the code gives them back.\<close>

theorem bytecode_is_read_back:
  "list_all insn_fits insns \<Longrightarrow>
   \<exists>code. build_code_from_insn_list insns = Inr (code, insns) \<and> parse_code_instructions code = Inr insns"
  by (rule bytecode_roundtrip)

lemma bytecode_is_read_back_witness:
  "\<exists>code. build_code_from_insn_list
     [SimpleInsn 0, LookupSwitchInsn 0xAB 20 [(1, 24)], IntInsn 0x10 0xFFFFFFFF, JumpInsn 0xA7 3] =
       Inr (code, [SimpleInsn 0, LookupSwitchInsn 0xAB 20 [(1, 24)], IntInsn 0x10 0xFFFFFFFF, JumpInsn 0xA7 3]) \<and>
     parse_code_instructions code =
       Inr [SimpleInsn 0, LookupSwitchInsn 0xAB 20 [(1, 24)], IntInsn 0x10 0xFFFFFFFF, JumpInsn 0xA7 3]"
  by (rule bytecode_is_read_back) (simp add: arm_of_def)

text \<open>The \<^verbatim>\<open>wide\<close> prefix is dropped: \<^verbatim>\<open>wide iload 256\<close> is decoded, and encoded as \<^verbatim>\<open>iload 0\<close>.\<close>

lemma wide_prefix_is_lost:
  "parse_code_instructions [0xC4, 0x15, 1, 0] = Inr [VarInsn 0x15 256]"
  "build_code_from_insn_list [VarInsn 0x15 256] = Inr ([0x15, 0], [VarInsn 0x15 256])"
  by (simp_all add: parse_code_instructions_def run_reader_def run_read_gets byte_reader_new_def remaining_def
      read_u1_def run_read_action read_insn_def arm_simps read_wide_def arm_of_def read_u2_def read_bytes_def
      be_value_def build_code_from_insn_list_def write_u1_def)

text \<open>A negative number of pairs in a \<^verbatim>\<open>lookupswitch\<close> is a capacity that \<^verbatim>\<open>Vec\<close> cannot have.\<close>

lemma negative_pair_count_panics:
  assumes "sint n < 0"
  shows "parse_code_instructions ([0xAB, 0, 0, 0] @ write_i4 d @ write_i4 n @ rest) = Inl CapacityOverflow"
proof -
  let ?rest = "[0, 0, 0] @ write_i4 d @ write_i4 n @ rest"
  let ?code = "0xAB # ?rest"
  have op: "run_state read_u1 (Reading (reader_at [] ?code)) = (0xAB, Reading (reader_at [0xAB] ?rest))"
    using reads_asD [OF reads_as_u1, of "[]" "0xAB"] by (simp add: write_u1_def)
  have padding: "write_switch_padding 0 = [0, 0, 0]" by code_simp
  have pad: "run_state (align4 0) (Reading (reader_at [0xAB] ?rest)) =
      ((), Reading (reader_at [0xAB, 0, 0, 0] (write_i4 d @ write_i4 n @ rest)))"
    using reads_asD [OF reads_as_align4 [of 0], of "[0xAB]" "write_i4 d @ write_i4 n @ rest"]
    by (simp add: padding)
  have i4: "run_state read_i4 (Reading (reader_at pre (write_i4 v @ post))) = (v, Reading (reader_at (pre @ write_i4 v) post))"
    for pre v post by (rule reads_asD [OF reads_as_i4])
  have switch: "snd (run_state (read_lookup_switch 0) (Reading (reader_at [0xAB] ?rest))) = ReadStop CapacityOverflow"
    using assms by (simp only: read_lookup_switch_def run_state_bind pad i4 split_conv)
      (simp add: capacity_def read_fail_def run_read_action)
  have "remaining (reader_at [] ?code) \<noteq> 0" "br_pos (reader_at [] ?code) = 0"
    by (simp_all add: remaining_def reader_at_def)
  hence "snd (run_state (read_insns (Suc k)) (Reading (reader_at [] ?code))) = ReadStop CapacityOverflow" for k
    using switch fueled_stop [OF fueled_insns, of k CapacityOverflow] op
    by (cases "run_state (read_lookup_switch 0) (Reading (reader_at [0xAB] ?rest))")
      (auto simp: run_read_gets read_insn_def arm_simps split: prod.splits)
  from this [of "length ?rest"]
  obtain x where "run_state (read_insns (length ?code)) (Reading (reader_at [] ?code)) = (x, ReadStop CapacityOverflow)"
    unfolding length_Cons by (metis prod.collapse)
  thus ?thesis
    by (simp add: parse_code_instructions_def run_reader_def byte_reader_new_def reader_at_def del: read_insns.simps)
qed

subsection \<open>Reading class files\<close>

text \<open>C6. Reading always ends: whatever the bytes, \<^verbatim>\<open>read_class_file\<close> returns a class file, an error, or
  panics on a capacity; the loops and recursions of the reader use up bytes.\<close>

theorem class_reading_ends:
  "read_class_file order bytes \<noteq> Inl ReadOutOfFuel"
  by (rule read_class_file_ends)

text \<open>C11. Labels: whatever order the hash set is iterated in, the nodes of a code attribute are its
  instructions in order, each instruction and each target of a jump or switch has a label, two
  offsets never share one, and each exception range becomes the block between its labels.\<close>

theorem labels_are_faithful:
  assumes "hash_order order"
    and "build_insn_nodes order code exceptions cp = Inr (nodes, blocks, labels)"
    and "parse_code_instructions_with_offsets code = Inr instructions"
  shows "insns_of nodes = map snd instructions \<and>
    (\<forall>a b l. labels a = Some l \<and> labels b = Some l \<longrightarrow> a = b) \<and>
    (\<forall>(at, insn) \<in> set instructions. \<forall>t \<in> set (at # insn_targets at insn). labels t \<noteq> None) \<and>
    list_all2 (block_of labels) exceptions blocks"
  by (intro conjI insn_nodes_labelled [OF assms])

lemma return_code:
  "parse_code_instructions_with_offsets [0xB1] = Inr [(0, SimpleInsn 0xB1)]"
  "build_insn_nodes id [0xB1] [ExceptionTableEntry 0 1 0 0] [] =
     Inr ([LabelNode 0, InsnNode (SimpleInsn 0xB1), LabelNode 1], [TryCatchBlock 0 1 0 None],
          label_by_offset [0, 1])"
proof -
  show decoded: "parse_code_instructions_with_offsets [0xB1] = Inr [(0, SimpleInsn 0xB1)]"
    by (simp add: parse_code_instructions_with_offsets_def run_reader_def run_read_gets byte_reader_new_def
        remaining_def read_u1_def run_read_action read_insn_def arm_of_def)
  show "build_insn_nodes id [0xB1] [ExceptionTableEntry 0 1 0 0] [] =
     Inr ([LabelNode 0, InsnNode (SimpleInsn 0xB1), LabelNode 1], [TryCatchBlock 0 1 0 None],
          label_by_offset [0, 1])"
  proof -
    have "label_by_offset [0, 1] 0 = Some 0" "label_by_offset [0, 1] 1 = Some 1"
      by (simp_all add: label_by_offset_def)
    thus ?thesis
      by (simp add: build_insn_nodes_def decoded label_offsets_def label_node_def try_catch_node_def
          missing_label_def catch_name_def Let_def)
  qed
qed

lemma labels_are_faithful_witness:
  "insns_of [LabelNode 0, InsnNode (SimpleInsn 0xB1), LabelNode 1] = [SimpleInsn 0xB1]"
  using labels_are_faithful [OF _ return_code(2,1)] by (simp add: hash_order_def)

text \<open>C22. Errors of the labels: building the nodes fails only where decoding fails or an exception names
  an invalid class; the errors of a missing label cannot occur.\<close>

theorem missing_labels_do_not_occur:
  assumes "hash_order order" and "build_insn_nodes order code exceptions cp = Inl e"
  shows "parse_code_instructions_with_offsets code = Inl e \<or> (\<exists>i. e = ReadError (InvalidIndex i))"
  by (rule no_missing_label [OF assms])

lemma missing_labels_do_not_occur_witness:
  "build_insn_nodes id [] [ExceptionTableEntry 0 0 0 9] [] = Inl (ReadError (InvalidIndex 9)) \<and>
   (parse_code_instructions_with_offsets [] = Inl (ReadError (InvalidIndex 9)) \<or>
    (\<exists>i. ReadError (InvalidIndex 9) = ReadError (InvalidIndex i)))"
proof -
  have "build_insn_nodes id [] [ExceptionTableEntry 0 0 0 9] [] = Inl (ReadError (InvalidIndex 9))"
    by (simp add: build_insn_nodes_def parse_code_instructions_with_offsets_def run_reader_def run_read_gets
        byte_reader_new_def remaining_def label_offsets_def label_by_offset_def try_catch_node_def
        missing_label_def catch_name_def cp_class_name_def cp_get_def nth_opt_def)
  moreover from missing_labels_do_not_occur [OF _ this]
  have "parse_code_instructions_with_offsets [] = Inl (ReadError (InvalidIndex 9)) \<or>
    (\<exists>i. ReadError (InvalidIndex 9) = ReadError (InvalidIndex i))" by (simp add: hash_order_def)
  ultimately show ?thesis by blast
qed

definition empty_class :: class_node where
  "empty_class = \<lparr>cn_minor_version = 0, cn_major_version = 52, cn_access = 0, cn_constant_pool = [],
     cn_this_class = 0, cn_name = [], cn_super_name = None, cn_source_file = None, cn_interfaces = [],
     cn_interface_indices = [], cn_fields = [], cn_methods = [], cn_attributes = [], cn_inner_classes = [],
     cn_outer_class = [], cn_module = None, cn_permitted_subclasses = [], cn_record_components = []\<rparr>"

definition static_method :: method_node where
  "static_method = \<lparr>me_access = 8, me_name = text_of ''m'', me_descriptor = text_of ''(I)V'', me_has_code = True,
     me_max_stack = 0, me_max_locals = 0, me_instructions = [], me_instruction_offsets = [], me_insn_nodes = [],
     me_exception_table = [], me_try_catch_blocks = [], me_line_numbers = [], me_local_variables = [],
     me_parameters = [], me_exceptions = [], me_signature = None, me_code_attributes = [], me_attributes = []\<rparr>"

subsection \<open>Attributes\<close>

text \<open>C9. Attributes round trip: what is written for the attributes of a method is read back, with the
  pool in which their names were interned, as these attributes, nested attributes and records
  included; only what a code attribute derives from its bytes, the instructions, the nodes and the
  blocks, is derived anew. Sizes that were computed take the place of the old ones, and so does a
  stack map where \<^verbatim>\<open>COMPUTE_FRAMES\<close> is set. This where the tables fit their counts, the code can be
  decoded, and, with \<^verbatim>\<open>COMPUTE_FRAMES\<close>, code is in code attributes of the method only, with a stack
  map computed for it.\<close>

theorem attributes_are_read_back:
  assumes "write_method_attributes (method_context options m c) precomputed maxs as cp = Inr (bytes, cp')"
    and "length cp' \<le> 2 ^ 16" and "length bytes < 2 ^ 32"
    and "code_fits order cp' (method_context options m c) (precomputed, maxs) as"
  shows "\<exists>as'.
    try_map (reread order cp') (map (finished (method_context options m c) precomputed maxs) as) = Inr as' \<and>
    run_reader (read_attributes order cp' (Suc (length bytes))) (write_u2 (word_of_nat (length as)) @ bytes) = Inr as'"
proof -
  from assms(4) obtain as' where
    as': "try_map (reread order cp') (map (finished (method_context options m c) precomputed maxs) as) = Inr as'"
    by (auto simp: code_fits_def isl_def) (metis sum.exhaust)
  have count: "length as' = length as" using try_map_length [OF as'] by simp
  have "reads_attributes order cp' (length bytes) as' bytes"
    using method_attributes_read [OF contexts_ok(2) assms(2,1) _ _ _ as' assms(3)] assms(4)
    by (simp add: code_fits_def)
  from reads_as_run [OF reads_attributes_table [OF this]] as' assms(4) show ?thesis
    by (simp add: code_fits_def short_list_def count)
qed

text \<open>The code \<^verbatim>\<open>return\<close>, in an attribute with an old stack map, sizes and a map being computed.\<close>

lemma return_decoded:
  "parse_code_instructions [0xB1] = Inr [SimpleInsn 0xB1]"
  "build_insn_nodes id [0xB1] [] cp = Inr ([LabelNode 0, InsnNode (SimpleInsn 0xB1), LabelNode 1], [], label_by_offset [0, 1])"
proof -
  show "parse_code_instructions [0xB1] = Inr [SimpleInsn 0xB1]"
    by (simp add: parse_code_instructions_def run_reader_def run_read_gets byte_reader_new_def
        remaining_def read_u1_def run_read_action read_insn_def arm_of_def)
  have "label_by_offset [0, 1] 0 = Some 0" "label_by_offset [0, 1] 1 = Some 1" by (simp_all add: label_by_offset_def)
  thus "build_insn_nodes id [0xB1] [] cp =
      Inr ([LabelNode 0, InsnNode (SimpleInsn 0xB1), LabelNode 1], [], label_by_offset [0, 1])"
    by (simp add: build_insn_nodes_def return_code(1) label_offsets_def label_node_def Let_def)
qed

lemma attributes_are_read_back_witness:
  "\<exists>bytes cp. write_method_attributes (method_context 1 static_method empty_class) (Some []) (Some (1, 2))
      [Code (CodeAttribute 0 0 [0xB1] [] [] [] [] [StackMapTable [SameFrame 0]]), Deprecated] [Unusable] =
      Inr (bytes, cp) \<and>
    run_reader (read_attributes id cp (Suc (length bytes))) (write_u2 2 @ bytes) =
      Inr [Code (CodeAttribute 1 2 [0xB1] [SimpleInsn 0xB1] [LabelNode 0, InsnNode (SimpleInsn 0xB1), LabelNode 1] [] []
             [StackMapTable []]), Deprecated]"
proof -
  let ?ctx = "method_context 1 static_method empty_class"
  let ?attrs = "[Code (CodeAttribute 0 0 [0xB1] [] [] [] [] [StackMapTable [SameFrame 0]]), Deprecated]"
  note written = write_leaf_def ensure_utf8_def cp_find_utf8_def write_attribute_with_info_def appended_map_def
    write_appended_def kept_attributes_def chosen_maxs_def code_info_def method_context_def Let_def write_table_def
  obtain bytes cp where w: "write_method_attributes ?ctx (Some []) (Some (1, 2)) ?attrs [Unusable] = Inr (bytes, cp)"
    and small: "length cp \<le> 2 ^ 16" "length bytes < 2 ^ 32"
    by (simp add: written)
  have fits: "code_fits id cp ?ctx (Some [], Some (1, 2)) ?attrs"
    by (simp add: code_fits_def short_list_def placed_def kept_attributes_def chosen_maxs_def return_decoded
        with_lines_def method_context_def)
  have "try_map (reread id cp) (map (finished ?ctx (Some []) (Some (1, 2))) ?attrs) =
      Inr [Code (CodeAttribute 1 2 [0xB1] [SimpleInsn 0xB1] [LabelNode 0, InsnNode (SimpleInsn 0xB1), LabelNode 1] [] []
             [StackMapTable []]), Deprecated]"
    by (simp add: kept_attributes_def chosen_maxs_def return_decoded with_lines_def method_context_def)
  with attributes_are_read_back [OF w small fits] w show ?thesis by simp
qed

subsection \<open>Building a class\<close>



text \<open>Modules: the attributes that a class writer makes of a module descriptor are decoded, with
  the pool in which it interned the names, to the same descriptor.\<close>

theorem modules_are_decoded:
  assumes "run_state (build_module_attributes m) b = (attrs, b')"
    and "builder_ok b" and "first_unusable (pb_pool b)" and "length (pb_pool b') \<le> 2 ^ 16"
  shows "decode_module_node (pb_pool b') attrs = Inr (Some m)"
proof (rule internsD(3) [OF module_built assms(1,2) _ assms(4)])
  show "first_unusable cp" if "prefix (pb_pool b) cp" for cp
    using that assms(3) cp_get_prefix by (auto simp: first_unusable_def)
qed simp

lemma modules_are_decoded_witness:
  "decode_module_node
     [Unusable, Utf8 [97], Module 1, Utf8 [98], Module 3, Utf8 [112], Package 5, Utf8 [77], Class 7]
     [ModuleAttr (ModuleAttribute 4 0 0 [ModuleRequire 2 0x8000 0] [] [] [] []), ModulePackages [6], ModuleMainClass 8] =
   Inr (Some \<lparr>mn_name = [98], mn_access = 0, mn_version = None,
     mn_requires = [ModuleRequireNode [97] 0x8000 None], mn_exports = [], mn_opens = [], mn_uses = [],
     mn_provides = [], mn_packages = [[112]], mn_main_class = Some [77]\<rparr>)"
proof -
  let ?m = "\<lparr>mn_name = [98], mn_access = 0, mn_version = None,
     mn_requires = [ModuleRequireNode [97] 0x8000 None], mn_exports = [], mn_opens = [], mn_uses = [],
     mn_provides = [], mn_packages = [[112]], mn_main_class = Some [77]\<rparr>"
  let ?run = "run_state (build_module_attributes ?m) pool_builder_new"
  have attrs: "fst ?run = [ModuleAttr (ModuleAttribute 4 0 0 [ModuleRequire 2 0x8000 0] [] [] [] []),
      ModulePackages [6], ModuleMainClass 8]"
    and pool: "pb_pool (snd ?run) =
      [Unusable, Utf8 [97], Module 1, Utf8 [98], Module 3, Utf8 [112], Package 5, Utf8 [77], Class 7]"
    by code_simp+
  have "first_unusable (pb_pool pool_builder_new)" by code_simp
  from modules_are_decoded [OF prod.collapse [symmetric] builder_new_ok this, of ?m] show ?thesis
    unfolding attrs pool by simp
qed



subsection \<open>Frames\<close>

text \<open>C17. Stack maps: the frames from which a stack map is made type the code: the first takes in the
  initial frame, each is executed without an error and what it leaves is absorbed by the frames of
  its successors and handlers; the entries are these frames, in order, at the offsets a reader of
  the map computes from the deltas.\<close>

theorem stack_maps_type_the_code:
  assumes "compute_stack_map_table m c code max_locals cp = Inr (entries, cp')"
    and "parse_instructions (code_bytes code) = Inr insns" and "insns \<noteq> []" and "length cp' \<le> 2 ^ 16"
  shows "\<exists>handlers initial frames.
    build_exception_handlers code cp = Inr handlers \<and> initial_frame m c = Inr initial \<and>
    frames_typed (stack_map_env c cp insns handlers)
      (initial\<lparr>fs_locals := pad_locals max_locals (fs_locals initial)\<rparr>) (\<lambda>_. True) (map_of frames) \<and>
    sorted_wrt (<) (map (uint \<circ> fst) (sorted_frames frames)) \<and>
    frame_positions (-1) entries = map (uint \<circ> fst) (filter (\<lambda>x. fst x \<noteq> 0) (sorted_frames frames)) \<and>
    list_all2 (\<lambda>x. frame_denotes cp' (snd x)) (filter (\<lambda>x. fst x \<noteq> 0) (sorted_frames frames)) entries"
proof -
  obtain handlers initial a u where h: "build_exception_handlers code cp = Inr handlers"
    and i: "initial_frame m c = Inr initial"
    and run: "analyse (stack_map_env c cp insns handlers) (\<lambda>_ u. u) iteration_limit
      (analysis_start (initial\<lparr>fs_locals := pad_locals max_locals (fs_locals initial)\<rparr>), ()) = Inr (a, u)"
    and table: "run_state (full_frames (-1) (sorted_frames (an_frames a))) cp = (entries, cp')"
    using assms(1-3) by (auto simp: compute_stack_map_table_def try_bind_Inr Let_def split: if_splits)
  note typed = analyse_typed [OF run noting_nothing]
  note sorted = sorted_frames_sorted [OF typed(2)]
  have "\<forall>x \<in> set (sorted_frames (an_frames a)). fst x \<noteq> 0 \<longrightarrow> -1 < uint (fst x)"
    using uint_nonnegative by (meson less_le_trans neg_less_0_iff_less zero_less_one)
  from internsD(3) [OF full_frames_interns [OF sorted _ this, of "\<lambda>_. True"] table _ _ assms(4), of cp']
  show ?thesis
    using h i typed(1) sorted by (intro exI [of _ handlers] exI [of _ initial] exI [of _ "an_frames a"])
      (simp add: sorted_wrt_map)
qed

text \<open>C18. Sizes: the sizes that are computed are, but for being cut to sixteen bits, the largest of the
  frames the analysis meets: they bound the stack and the locals of all frames of a typing of the
  code and of what the instructions leave, and frames that can be met have these sizes.\<close>

theorem maxs_bound_the_frames:
  assumes "compute_maxs m c code cp = Inr (max_stack, max_locals)"
    and "parse_instructions (code_bytes code) = Inr insns" and "insns \<noteq> []"
  shows "\<exists>handlers initial frames stack locals.
    build_exception_handlers code cp = Inr handlers \<and> initial_frame m c = Inr initial \<and>
    frames_typed (maxs_env c cp insns handlers) initial (sized (stack, locals)) frames \<and>
    (\<exists>f. met (maxs_env c cp insns handlers) initial f \<and> stack_slots (fs_stack f) = stack) \<and>
    (\<exists>f. met (maxs_env c cp insns handlers) initial f \<and> length (fs_locals f) = locals) \<and>
    unat max_stack = stack mod 2 ^ 16 \<and> unat max_locals = locals mod 2 ^ 16"
proof -
  obtain handlers initial a sizes where h: "build_exception_handlers code cp = Inr handlers"
    and i: "initial_frame m c = Inr initial"
    and run: "analyse (maxs_env c cp insns handlers) note_sizes iteration_limit
      (analysis_start initial, (length (fs_stack initial), length (fs_locals initial))) = Inr (a, sizes)"
    and sizes: "max_stack = word_of_nat (fst sizes)" "max_locals = word_of_nat (snd sizes)"
    using assms by (auto simp: compute_maxs_def try_bind_Inr Let_def split: if_splits)
  show ?thesis
    using h i analysed_sizes [OF i run] sizes
    by (intro exI [of _ handlers] exI [of _ initial] exI [of _ "frame_at a"] exI [of _ "fst sizes"] exI [of _ "snd sizes"])
      (simp add: attained_def unat_of_nat)
qed

text \<open>\<^verbatim>\<open>static void m(int)\<close> with a jump over an instruction.\<close>

definition branching :: code_attribute where
  "branching = CodeAttribute 0 0 [0x1A, 0x99, 0, 4, 0, 0xB1] [] [] [] [] []"

lemma branching_insns:
  "parse_instructions (code_bytes branching) =
     Inr [\<lparr>pi_offset = 0, pi_opcode = 0x1A, pi_operand = OpNone\<rparr>,
       \<lparr>pi_offset = 1, pi_opcode = 0x99, pi_operand = OpJump 4\<rparr>,
       \<lparr>pi_offset = 4, pi_opcode = 0, pi_operand = OpNone\<rparr>,
       \<lparr>pi_offset = 5, pi_opcode = 0xB1, pi_operand = OpNone\<rparr>]"
  by (simp add: parse_instructions_def branching_def parse_instructions_from.simps parse_operand_def
      code_operand_def code_u2_def be_value_def Let_def)

lemma branching_initial:
  "initial_frame static_method c = Inr \<lparr>fs_locals = [FtInteger], fs_stack = []\<rparr>"
  by (simp add: initial_frame_def static_method_def text_of_def parse_method_descriptor_def parse_params.simps
      simple_field_def parse_return_type_def receiver_local_def push_local_type_def)

lemmas frame_evaluation =
  taken_def visit_def insn_at_def execute_instruction_def simple_effect_def stack_effect_def short_load_def
  short_store_def load_local_def pop_frame_def is_category2_def instruction_successors_def next_offset_def
  instruction_length_def jump_successors_def jump_target_def target_of_def propagate_def merge_frame_def
  merged_frame_def merge_vec_def get_or_top_def enqueue_def note_sizes_def stack_slots_def Let_def

lemma branching_maxs: "compute_maxs static_method c branching [] = Inr (1, 1)"
  unfolding compute_maxs_def branching_insns branching_initial
  by (simp add: build_exception_handlers_def branching_def analysis_start_def maxs_env_def iteration_limit_def
      analyse.simps frame_evaluation)

lemma branching_stack_map:
  "compute_stack_map_table static_method c branching 1 [] =
     Inr ([FullFrame 1 [VInteger] [VInteger], FullFrame 2 [VInteger] [], FullFrame 0 [VInteger] []], [])"
  unfolding compute_stack_map_table_def branching_insns branching_initial
  by (simp add: build_exception_handlers_def branching_def analysis_start_def stack_map_env_def iteration_limit_def
      analyse.simps frame_evaluation pad_locals_def grown_def sorted_frames_def full_frame_def compact_locals_def
      without_tops_def to_verification_type_def)

lemma stack_maps_type_the_code_witness:
  "\<exists>frames. frames_typed
      (stack_map_env empty_class [] [\<lparr>pi_offset = 0, pi_opcode = 0x1A, pi_operand = OpNone\<rparr>,
           \<lparr>pi_offset = 1, pi_opcode = 0x99, pi_operand = OpJump 4\<rparr>,
           \<lparr>pi_offset = 4, pi_opcode = 0, pi_operand = OpNone\<rparr>,
           \<lparr>pi_offset = 5, pi_opcode = 0xB1, pi_operand = OpNone\<rparr>] [])
      \<lparr>fs_locals = [FtInteger], fs_stack = []\<rparr> (\<lambda>_. True) frames"
  using stack_maps_type_the_code [OF branching_stack_map [where c = empty_class] branching_insns]
  by (simp add: branching_initial build_exception_handlers_def branching_def pad_locals_def grown_def) blast

lemma maxs_bound_the_frames_witness:
  "\<exists>stack f. met
      (maxs_env empty_class [] [\<lparr>pi_offset = 0, pi_opcode = 0x1A, pi_operand = OpNone\<rparr>,
           \<lparr>pi_offset = 1, pi_opcode = 0x99, pi_operand = OpJump 4\<rparr>,
           \<lparr>pi_offset = 4, pi_opcode = 0, pi_operand = OpNone\<rparr>,
           \<lparr>pi_offset = 5, pi_opcode = 0xB1, pi_operand = OpNone\<rparr>] [])
      \<lparr>fs_locals = [FtInteger], fs_stack = []\<rparr> f \<and> stack_slots (fs_stack f) = stack \<and> 1 = stack mod 2 ^ 16"
  using maxs_bound_the_frames [OF branching_maxs [where c = empty_class] branching_insns]
  by (simp add: branching_initial build_exception_handlers_def branching_def) blast

subsection \<open>Class files\<close>

text \<open>C8. Class files: whatever the options, the bytes that \<^verbatim>\<open>ClassFileWriter\<close> makes of a class are read
  back as a class file with the pool, the flags, the members and the attributes of the class; a
  method has the sizes and the stack map that were computed for it, if any, and of its code what the
  reader derives from the bytes. The methods are those of the class, with their dynamic calls linked.
  This where the class fits: tables fit their counts, the version is one the reader knows, code is in
  methods only and can be decoded; and where all constants are in the pool when it is written.\<close>

theorem class_file_is_read_back:
  assumes "prepare_class options c = Inr p" and "write_body options c p = Inr (body, pc_pool p)"
    and "class_fits order options c p" and "cn_constant_pool c \<noteq> []" and "length body < 2 ^ 32"
  shows "\<exists>bytes fs ms. to_bytes options c = Inr bytes \<and>
    read_class_file order bytes = Inr
      \<lparr>minor_version = cn_minor_version c, major_version = cn_major_version c, constant_pool = pc_pool p,
       access_flags = cn_access c, this_class = cn_this_class c, super_class = pc_super p,
       interfaces = cn_interface_indices c, class_fields = fs, class_methods = ms,
       class_attributes = pc_attributes p\<rparr> \<and>
    list_all2 (field_is (pc_pool p)) (cn_fields c) fs \<and>
    list_all2 (method_is order (pc_pool p) options c) (pc_methods p) ms \<and>
    list_all2 method_linked (cn_methods c) (map fst (pc_methods p))"
  using assms by (rule class_bytes_read)

text \<open>A class with a field and a method \<^verbatim>\<open>static void m()\<close> that returns at once, its sizes and stack map
  being computed.\<close>

definition return_method :: method_node where
  "return_method = static_method\<lparr>me_descriptor := text_of ''()V'', me_instructions := [SimpleInsn 0xB1]\<rparr>"

definition small_class :: class_node where
  "small_class = empty_class\<lparr>cn_name := text_of ''A'', cn_super_name := Some java_object,
     cn_constant_pool := [Unusable, Utf8 (text_of ''A''), Class 1, Utf8 (text_of ''x''), Utf8 (text_of ''I'')], cn_this_class := 2,
     cn_fields := [\<lparr>fn_access = 1, fn_name = text_of ''x'', fn_descriptor = text_of ''I'', fn_attributes = []\<rparr>],
     cn_methods := [return_method], cn_attributes := [Deprecated]\<rparr>"

lemmas class_evaluation =
  prepare_class_def resolve_invokedynamic_methods_def add_source_file_def add_module_def
  attribute_names_def method_names_def ensure_names_def ensure_utf8_def cp_find_utf8_def precompute_def super_index_def
  ensure_class_def ensure_named_def names_text_def write_body_def write_field_def write_header_def write_method_def
  method_attributes_def write_method_attributes_none write_leaf_def write_attribute_with_info_def

lemmas code_evaluation =
  method_code_attribute_def build_code_from_insn_list_def with_table_def resolve_invokedynamic_def appended_map_def
  write_appended_def kept_attributes_def chosen_maxs_def code_info_def method_context_def method_maxs_def write_u1_def

lemmas fits_evaluation =
  class_fits_def pool_ok_def utf8_fits_def is_char_def encode_modified_utf8_def encode_char_def text_of_def ascii_def
  short_list_def attributes_fit_def V25_def method_attributes_def write_table_def code_fits_def placed_def

lemma return_insns:
  "parse_instructions [0xB1] = Inr [\<lparr>pi_offset = 0, pi_opcode = 0xB1, pi_operand = OpNone\<rparr>]"
  by (simp add: parse_instructions_def parse_instructions_from.simps parse_operand_def code_operand_def Let_def)

lemma return_method_parts:
  "me_access return_method = 8" "me_name return_method = text_of ''m''" "me_descriptor return_method = text_of ''()V''"
  "me_has_code return_method" "me_max_stack return_method = 0" "me_max_locals return_method = 0"
  "me_instructions return_method = [SimpleInsn 0xB1]" "me_insn_nodes return_method = []"
  "me_exception_table return_method = []" "me_try_catch_blocks return_method = []"
  "me_line_numbers return_method = []" "me_local_variables return_method = []"
  "me_code_attributes return_method = []" "me_attributes return_method = []"
  "return_method\<lparr>me_instructions := [SimpleInsn 0xB1]\<rparr> = return_method"
  by (simp_all add: return_method_def static_method_def)

lemma return_initial: "initial_frame return_method c = Inr \<lparr>fs_locals = [], fs_stack = []\<rparr>"
  by (simp add: initial_frame_def return_method_def static_method_def text_of_def parse_method_descriptor_def
      parse_params.simps parse_return_type_def receiver_local_def)

lemma return_sizes:
  "compute_maxs return_method c (CodeAttribute s l [0xB1] is ns [] bs as) cp = Inr (0, 0)"
  "compute_stack_map_table return_method c (CodeAttribute s l [0xB1] is ns [] bs as) 0 cp = Inr ([], cp)"
  unfolding compute_maxs_def compute_stack_map_table_def code_attribute.sel return_insns return_initial
  by (simp_all add: build_exception_handlers_def analysis_start_def maxs_env_def stack_map_env_def iteration_limit_def
      analyse.simps frame_evaluation pad_locals_def grown_def sorted_frames_def)

lemma small_class_prepared:
  "\<exists>p body. prepare_class 3 small_class = Inr p \<and> write_body 3 small_class p = Inr (body, pc_pool p) \<and>
     class_fits id 3 small_class p \<and> cn_constant_pool small_class \<noteq> [] \<and> length body < 2 ^ 32"
  unfolding small_class_def empty_class_def
  by (simp add: class_evaluation code_evaluation fits_evaluation return_method_parts return_sizes return_decoded
      with_lines_def)

lemma class_file_is_read_back_witness:
  "\<exists>bytes cf. to_bytes 3 small_class = Inr bytes \<and> read_class_file id bytes = Inr cf \<and>
     list_all2 (field_is (constant_pool cf)) (cn_fields small_class) (class_fields cf) \<and> access_flags cf = 0"
proof -
  obtain p body where p: "prepare_class 3 small_class = Inr p" "write_body 3 small_class p = Inr (body, pc_pool p)"
      "class_fits id 3 small_class p" "cn_constant_pool small_class \<noteq> []" "length body < 2 ^ 32"
    using small_class_prepared by blast
  have "cn_access small_class = 0" by (simp add: small_class_def empty_class_def)
  with class_file_is_read_back [OF p] show ?thesis by fastforce
qed

end
