(* ===== verification/ClassNodes.thy ===== *)
theory ClassNodes imports Nodes begin

text \<open>
  \<^verbatim>\<open>ClassFile::to_class_node\<close>: the tree of a class that was read, with its names looked up in the
  pool.
\<close>

subsection \<open>Lookups of a class file\<close>

definition cf_utf8 :: "class_file \<Rightarrow> u16 \<Rightarrow> class_read_error + rust_text" where
  "cf_utf8 cf index =
     (case cp_get (constant_pool cf) index of
        Some (Utf8 value) \<Rightarrow> Inr value
      | _ \<Rightarrow> Inl (InvalidIndex index))"

definition cf_class_name :: "class_file \<Rightarrow> u16 \<Rightarrow> class_read_error + rust_text" where
  "cf_class_name cf index =
     (case cp_get (constant_pool cf) index of
        Some (Class name_index) \<Rightarrow> cf_utf8 cf name_index
      | _ \<Rightarrow> Inl (InvalidIndex index))"

definition cf_module_name :: "class_file \<Rightarrow> u16 \<Rightarrow> class_read_error + rust_text" where
  "cf_module_name cf index =
     (case cp_get (constant_pool cf) index of
        Some (Module name_index) \<Rightarrow> cf_utf8 cf name_index
      | _ \<Rightarrow> Inl (InvalidIndex index))"

definition cf_package_name :: "class_file \<Rightarrow> u16 \<Rightarrow> class_read_error + rust_text" where
  "cf_package_name cf index =
     (case cp_get (constant_pool cf) index of
        Some (Package name_index) \<Rightarrow> cf_utf8 cf name_index
      | _ \<Rightarrow> Inl (InvalidIndex index))"

text \<open>An index of 0 stands for no name.\<close>

definition optional_name ::
    "(u16 \<Rightarrow> class_read_error + rust_text) \<Rightarrow> u16 \<Rightarrow> class_read_error + rust_text option" where
  "optional_name look index = (if index = 0 then Inr None else map_sum id Some (look index))"

text \<open>\<^verbatim>\<open>find_map\<close>\<close>

primrec find_map :: "('a \<Rightarrow> 'b option) \<Rightarrow> 'a list \<Rightarrow> 'b option" where
  "find_map f [] = None"
| "find_map f (x # xs) = (case f x of Some y \<Rightarrow> Some y | None \<Rightarrow> find_map f xs)"

definition ok_value :: "'e + 'a \<Rightarrow> 'a option" where
  "ok_value r = (case r of Inr x \<Rightarrow> Some x | Inl _ \<Rightarrow> None)"

fun source_of :: "class_file \<Rightarrow> attribute_info \<Rightarrow> rust_text option" where
  "source_of cf (SourceFile i) = ok_value (cf_utf8 cf i)"
| "source_of _ _ = None"

subsection \<open>Members\<close>

definition field_node_of :: "class_file \<Rightarrow> member_info \<Rightarrow> class_read_error + field_node" where
  "field_node_of cf f =
     try_bind (cf_utf8 cf (member_name f)) (\<lambda>name.
     try_bind (cf_utf8 cf (member_descriptor f)) (\<lambda>descriptor.
     Inr \<lparr>fn_access = member_flags f, fn_name = name, fn_descriptor = descriptor,
          fn_attributes = member_attributes f\<rparr>))"

fun code_of :: "attribute_info \<Rightarrow> code_attribute option" where
  "code_of (Code c) = Some c"
| "code_of _ = None"

fun line_numbers_of :: "attribute_info \<Rightarrow> line_number list option" where
  "line_numbers_of (LineNumberTable entries) = Some entries"
| "line_numbers_of _ = None"

fun local_variables_of :: "attribute_info \<Rightarrow> local_variable list option" where
  "local_variables_of (LocalVariableTable entries) = Some entries"
| "local_variables_of _ = None"

fun parameters_of :: "attribute_info \<Rightarrow> method_parameter list option" where
  "parameters_of (MethodParameters ps) = Some ps"
| "parameters_of _ = None"

fun exceptions_of :: "attribute_info \<Rightarrow> u16 list option" where
  "exceptions_of (Exceptions t) = Some t"
| "exceptions_of _ = None"

fun signature_of :: "class_file \<Rightarrow> attribute_info \<Rightarrow> rust_text option" where
  "signature_of cf (Signature i) = ok_value (cf_utf8 cf i)"
| "signature_of _ _ = None"

definition or_default :: "'a list option \<Rightarrow> 'a list" where
  "or_default x = (case x of Some xs \<Rightarrow> xs | None \<Rightarrow> [])"

text \<open>The part of a method's node that comes from its code; the code is decoded again for the offsets.\<close>

definition without_code :: method_node where
  "without_code =
     \<lparr>me_access = 0, me_name = [], me_descriptor = [], me_has_code = False, me_max_stack = 0, me_max_locals = 0,
      me_instructions = [], me_instruction_offsets = [], me_insn_nodes = [], me_exception_table = [],
      me_try_catch_blocks = [], me_line_numbers = [], me_local_variables = [], me_parameters = [],
      me_exceptions = [], me_signature = None, me_code_attributes = [], me_attributes = []\<rparr>"

definition with_code :: "code_attribute option \<Rightarrow> read_stop + method_node" where
  "with_code code =
     (case code of
        None \<Rightarrow> Inr without_code
      | Some c \<Rightarrow>
          try_bind (parse_code_instructions_with_offsets (code_bytes c)) (\<lambda>located.
          Inr (without_code
            \<lparr>me_has_code := True, me_max_stack := code_max_stack c, me_max_locals := code_max_locals c,
             me_instructions := code_instructions c, me_instruction_offsets := map fst located,
             me_insn_nodes := code_nodes c, me_exception_table := code_exceptions c,
             me_try_catch_blocks := code_blocks c,
             me_line_numbers := or_default (find_map line_numbers_of (code_attributes c)),
             me_local_variables := or_default (find_map local_variables_of (code_attributes c)),
             me_code_attributes := code_attributes c\<rparr>)))"

definition as_read :: "class_read_error + 'a \<Rightarrow> read_stop + 'a" where
  "as_read = map_sum ReadError id"

definition method_node_of :: "class_file \<Rightarrow> member_info \<Rightarrow> read_stop + method_node" where
  "method_node_of cf m =
     try_bind (as_read (cf_utf8 cf (member_name m))) (\<lambda>name.
     try_bind (as_read (cf_utf8 cf (member_descriptor m))) (\<lambda>descriptor.
     try_bind (with_code (find_map code_of (member_attributes m))) (\<lambda>node.
     try_bind (as_read (try_map (cf_class_name cf) (or_default (find_map exceptions_of (member_attributes m))))) (\<lambda>exceptions.
     Inr (node\<lparr>me_access := member_flags m, me_name := name, me_descriptor := descriptor,
       me_parameters := or_default (find_map parameters_of (member_attributes m)),
       me_exceptions := exceptions, me_signature := find_map (signature_of cf) (member_attributes m),
       me_attributes := filter (\<lambda>a. code_of a = None) (member_attributes m)\<rparr>)))))"

subsection \<open>Nested and enclosing classes\<close>

fun inner_classes_of :: "attribute_info \<Rightarrow> inner_class list" where
  "inner_classes_of (InnerClasses classes) = classes"
| "inner_classes_of _ = []"

definition inner_class_node_of :: "class_file \<Rightarrow> inner_class \<Rightarrow> class_read_error + inner_class_node" where
  "inner_class_node_of cf e =
     try_bind (cf_class_name cf (inner_class_info e)) (\<lambda>name.
     try_bind (optional_name (cf_class_name cf) (outer_class_info e)) (\<lambda>outer.
     try_bind (optional_name (cf_utf8 cf) (inner_name e)) (\<lambda>inner.
     Inr \<lparr>ic_name = name, ic_outer_name = outer, ic_inner_name = inner, ic_access = inner_class_flags e\<rparr>)))"

fun enclosing_class :: "attribute_info \<Rightarrow> u16 option" where
  "enclosing_class (EnclosingMethod class_index _) = Some class_index"
| "enclosing_class _ = None"

text \<open>The entry for the class itself that names an outer class\<close>

definition outer_entry :: "u16 \<Rightarrow> attribute_info \<Rightarrow> u16 option" where
  "outer_entry this a =
     find_map (\<lambda>e. if inner_class_info e = this \<and> outer_class_info e \<noteq> 0 then Some (outer_class_info e) else None)
       (inner_classes_of a)"

definition outer_class_of :: "class_file \<Rightarrow> class_read_error + rust_text" where
  "outer_class_of cf =
     try_bind (case find_map enclosing_class (class_attributes cf) of
                 Some i \<Rightarrow> cf_class_name cf i
               | None \<Rightarrow> Inr []) (\<lambda>outer.
     if outer = [] then
       (case find_map (outer_entry (this_class cf)) (class_attributes cf) of
          Some i \<Rightarrow> cf_class_name cf i
        | None \<Rightarrow> Inr [])
     else Inr outer)"

subsection \<open>Modules\<close>

definition cf_require :: "class_file \<Rightarrow> module_require \<Rightarrow> class_read_error + module_require_node" where
  "cf_require cf r =
     try_bind (cf_module_name cf (requires_index r)) (\<lambda>name.
     try_bind (optional_name (cf_utf8 cf) (requires_version_index r)) (\<lambda>version.
     Inr (ModuleRequireNode name (requires_flags r) version)))"

definition cf_export :: "class_file \<Rightarrow> module_export \<Rightarrow> class_read_error + module_export_node" where
  "cf_export cf e =
     try_bind (cf_package_name cf (exports_index e)) (\<lambda>package.
     try_bind (try_map (cf_module_name cf) (exports_to_index e)) (\<lambda>modules.
     Inr (ModuleExportNode package (exports_flags e) modules)))"

definition cf_open :: "class_file \<Rightarrow> module_open \<Rightarrow> class_read_error + module_open_node" where
  "cf_open cf e =
     try_bind (cf_package_name cf (opens_index e)) (\<lambda>package.
     try_bind (try_map (cf_module_name cf) (opens_to_index e)) (\<lambda>modules.
     Inr (ModuleOpenNode package (opens_flags e) modules)))"

definition cf_provide :: "class_file \<Rightarrow> module_provide \<Rightarrow> class_read_error + module_provide_node" where
  "cf_provide cf e =
     try_bind (cf_class_name cf (provides_index e)) (\<lambda>service.
     try_bind (try_map (cf_class_name cf) (provides_with_index e)) (\<lambda>providers.
     Inr (ModuleProvideNode service providers)))"

definition cf_module :: "class_file \<Rightarrow> module_attribute \<Rightarrow> class_read_error + module_node" where
  "cf_module cf m =
     try_bind (try_map (cf_require cf) (module_requires m)) (\<lambda>requires.
     try_bind (try_map (cf_export cf) (module_exports m)) (\<lambda>exports.
     try_bind (try_map (cf_open cf) (module_opens m)) (\<lambda>opens.
     try_bind (try_map (cf_provide cf) (module_provides m)) (\<lambda>provides.
     try_bind (case find_packages (class_attributes cf) of
                 None \<Rightarrow> Inr [] | Some t \<Rightarrow> try_map (cf_package_name cf) t) (\<lambda>packages.
     try_bind (case find_main_class (class_attributes cf) of
                 None \<Rightarrow> Inr None | Some i \<Rightarrow> map_sum id Some (cf_class_name cf i)) (\<lambda>main_class.
     try_bind (cf_module_name cf (module_name_index m)) (\<lambda>name.
     try_bind (optional_name (cf_utf8 cf) (module_version_index m)) (\<lambda>version.
     try_bind (try_map (cf_class_name cf) (module_uses m)) (\<lambda>uses.
     Inr \<lparr>mn_name = name, mn_access = module_flags m, mn_version = version, mn_requires = requires,
          mn_exports = exports, mn_opens = opens, mn_uses = uses, mn_provides = provides,
          mn_packages = packages, mn_main_class = main_class\<rparr>)))))))))"

subsection \<open>The class\<close>

fun permitted_of :: "attribute_info \<Rightarrow> u16 list option" where
  "permitted_of (PermittedSubclasses t) = Some t"
| "permitted_of _ = None"

fun components_of :: "attribute_info \<Rightarrow> record_component list option" where
  "components_of (Record cs) = Some cs"
| "components_of _ = None"

definition component_node_of :: "class_file \<Rightarrow> record_component \<Rightarrow> class_read_error + record_component_node" where
  "component_node_of cf c =
     try_bind (cf_utf8 cf (component_name c)) (\<lambda>name.
     try_bind (cf_utf8 cf (component_descriptor c)) (\<lambda>descriptor.
     Inr \<lparr>rc_name = name, rc_descriptor = descriptor, rc_attributes = component_attributes c\<rparr>))"

definition cf_to_class_node :: "class_file \<Rightarrow> read_stop + class_node" where
  "cf_to_class_node cf =
     try_bind (as_read (cf_class_name cf (this_class cf))) (\<lambda>name.
     try_bind (as_read (optional_name (cf_class_name cf) (super_class cf))) (\<lambda>super.
     try_bind (as_read (try_map (cf_class_name cf) (interfaces cf))) (\<lambda>ifs.
     try_bind (as_read (try_map (field_node_of cf) (class_fields cf))) (\<lambda>fs.
     try_bind (try_map (method_node_of cf) (class_methods cf)) (\<lambda>ms.
     try_bind (as_read (try_map (inner_class_node_of cf) (concat (map inner_classes_of (class_attributes cf))))) (\<lambda>inner.
     try_bind (as_read (outer_class_of cf)) (\<lambda>outer.
     try_bind (as_read (case find_module (class_attributes cf) of
                 None \<Rightarrow> Inr None | Some m \<Rightarrow> map_sum id Some (cf_module cf m))) (\<lambda>module.
     try_bind (as_read (try_map (cf_class_name cf) (or_default (find_map permitted_of (class_attributes cf))))) (\<lambda>permitted.
     try_bind (as_read (try_map (component_node_of cf) (or_default (find_map components_of (class_attributes cf))))) (\<lambda>components.
     Inr \<lparr>cn_minor_version = minor_version cf, cn_major_version = major_version cf, cn_access = access_flags cf,
          cn_constant_pool = constant_pool cf, cn_this_class = this_class cf, cn_name = name,
          cn_super_name = super, cn_source_file = find_map (source_of cf) (class_attributes cf),
          cn_interfaces = ifs, cn_interface_indices = interfaces cf, cn_fields = fs, cn_methods = ms,
          cn_attributes = class_attributes cf, cn_inner_classes = inner, cn_outer_class = outer,
          cn_module = module, cn_permitted_subclasses = permitted, cn_record_components = components\<rparr>))))))))))"

text \<open>\<^verbatim>\<open>ClassReader::to_class_node\<close>\<close>

definition to_class_node :: "(u16 list \<Rightarrow> u16 list) \<Rightarrow> u8 list \<Rightarrow> read_stop + class_node" where
  "to_class_node order bytes = try_bind (read_class_file order bytes) cf_to_class_node"

end
