(* ===== verification/Visiting.thy ===== *)
theory Visiting imports ClassNodes begin

text \<open>
  \<^verbatim>\<open>ClassReader::accept\<close>: the class that was read as the calls a visitor receives. A visitor of a class
  and the visitors it hands out for its module, fields and methods are one object here, with a
  state of any type; its answer to a call says whether it has handed one out.
\<close>

datatype visit_call =
    VisitClass u16 u16 u16 rust_text "rust_text option" "rust_text list"
  | VisitSource rust_text
  | VisitModule rust_text u16 "rust_text option"
  | VisitMainClass rust_text
  | VisitPackage rust_text
  | VisitRequire rust_text u16 "rust_text option"
  | VisitExport rust_text u16 "rust_text list"
  | VisitOpen rust_text u16 "rust_text list"
  | VisitUse rust_text
  | VisitProvide rust_text "rust_text list"
  | VisitModuleEnd
  | VisitField u16 rust_text rust_text
  | VisitFieldEnd
  | VisitMethod u16 rust_text rust_text
  | VisitCode
  | VisitInsn u8
  | VisitIntInsn u8 u32
  | VisitVarInsn u8 u16
  | VisitTypeInsn u8 rust_text
  | VisitFieldInsn u8 rust_text rust_text rust_text
  | VisitMethodInsn u8 rust_text rust_text rust_text bool
  | VisitInvokeDynamicInsn rust_text rust_text
  | VisitJumpInsn u8 u32
  | VisitLdcInsn ldc_constant
  | VisitIincInsn u16 u16
  | VisitTableSwitch u32 u32 u32 "u32 list"
  | VisitLookupSwitch u32 "(u32 \<times> u32) list"
  | VisitMultiANewArrayInsn rust_text u8
  | VisitMaxs u16 u16
  | VisitMethodEnd
  | VisitEnd

type_synonym 's visitor = "visit_call \<Rightarrow> 's \<Rightarrow> bool \<times> 's"

text \<open>A walk passes on the visitor's state, or ends with the error of a lookup; what was visited stays visited.\<close>

type_synonym ('s, 'a) walk = "'s \<Rightarrow> (read_stop + 'a) \<times> 's"

definition walk_ret :: "'a \<Rightarrow> ('s, 'a) walk" where
  "walk_ret x s = (Inr x, s)"

definition walk_bind :: "('s, 'a) walk \<Rightarrow> ('a \<Rightarrow> ('s, 'b) walk) \<Rightarrow> ('s, 'b) walk" where
  "walk_bind f g s = (case f s of (Inl e, s) \<Rightarrow> (Inl e, s) | (Inr x, s) \<Rightarrow> g x s)"

definition walk_try :: "read_stop + 'a \<Rightarrow> ('s, 'a) walk" where
  "walk_try r s = (r, s)"

definition visit_with :: "'s visitor \<Rightarrow> visit_call \<Rightarrow> ('s, bool) walk" where
  "visit_with v call s = (case v call s of (answer, s) \<Rightarrow> (Inr answer, s))"

definition walk_all :: "('a \<Rightarrow> ('s, bool) walk) \<Rightarrow> 'a list \<Rightarrow> ('s, bool) walk" where
  "walk_all f xs = foldr (\<lambda>x rest. walk_bind (f x) (\<lambda>_. rest)) xs (walk_ret True)"

text \<open>A lookup and the call it is made for\<close>

definition visit_looked_up ::
    "'s visitor \<Rightarrow> ('a \<Rightarrow> visit_call) \<Rightarrow> class_read_error + 'a \<Rightarrow> ('s, bool) walk" where
  "visit_looked_up v mk r = walk_bind (walk_try (as_read r)) (\<lambda>x. visit_with v (mk x))"

subsection \<open>Instructions\<close>

fun symbolic_constant :: "ldc_value \<Rightarrow> ldc_constant option" where
  "symbolic_constant (LdcIndex _) = None"
| "symbolic_constant (LdcStringValue s) = Some (LdcString s)"
| "symbolic_constant (LdcTypeValue t) =
     Some (case t of TMethod _ _ \<Rightarrow> LdcMethodType (get_descriptor t) | _ \<Rightarrow> LdcClass (get_descriptor t))"
| "symbolic_constant (LdcIntValue v) = Some (LdcInteger v)"
| "symbolic_constant (LdcFloatValue v) = Some (LdcFloat v)"
| "symbolic_constant (LdcLongValue v) = Some (LdcLong v)"
| "symbolic_constant (LdcDoubleValue v) = Some (LdcDouble v)"

definition indexed_member ::
    "(u16 \<Rightarrow> class_read_error + 'a) \<Rightarrow> member_ref \<Rightarrow> class_read_error + 'a" where
  "indexed_member look r = (case r of MemberIndex i \<Rightarrow> look i | MemberSymbolic _ _ _ \<Rightarrow> Inl (InvalidIndex 0))"

definition instruction_call :: "cp_info list \<Rightarrow> u32 \<Rightarrow> insn \<Rightarrow> class_read_error + visit_call" where
  "instruction_call cp offset insn =
     (case insn of
        SimpleInsn op \<Rightarrow> Inr (VisitInsn op)
      | IntInsn op v \<Rightarrow> Inr (VisitIntInsn op v)
      | VarInsn op i \<Rightarrow> Inr (VisitVarInsn op i)
      | TypeInsn op i \<Rightarrow> map_sum id (VisitTypeInsn op) (cp_class_name cp i)
      | FieldInsn op r \<Rightarrow>
          map_sum id (\<lambda>(owner, name, desc). VisitFieldInsn op owner name desc) (indexed_member (cp_field_ref cp) r)
      | MethodInsn op r \<Rightarrow>
          map_sum id (\<lambda>((owner, name, desc), is_interface). VisitMethodInsn op owner name desc is_interface)
            (indexed_member (cp_method_ref cp) r)
      | InvokeInterfaceInsn op i _ \<Rightarrow>
          map_sum id (\<lambda>((owner, name, desc), _). VisitMethodInsn op owner name desc True) (cp_method_ref cp i)
      | InvokeDynamicInsn _ i _ _ _ _ \<Rightarrow>
          map_sum id (\<lambda>(name, desc). VisitInvokeDynamicInsn name desc) (cp_invoke_dynamic cp i)
      | JumpInsn op d \<Rightarrow> Inr (VisitJumpInsn op (offset + d))
      | LdcInsn _ v \<Rightarrow>
          (case v of
             LdcIndex i \<Rightarrow> map_sum id VisitLdcInsn (cp_ldc_constant cp i)
           | _ \<Rightarrow> Inr (VisitLdcInsn (the (symbolic_constant v))))
      | IincInsn _ i n \<Rightarrow> Inr (VisitIincInsn i n)
      | TableSwitchInsn _ d low high offsets \<Rightarrow>
          Inr (VisitTableSwitch (offset + d) low high (map ((+) offset) offsets))
      | LookupSwitchInsn _ d pairs \<Rightarrow> Inr (VisitLookupSwitch (offset + d) (map (map_prod id ((+) offset)) pairs))
      | MultiANewArrayInsn _ i n \<Rightarrow> map_sum id (\<lambda>name. VisitMultiANewArrayInsn name n) (cp_class_name cp i))"

definition visit_instruction :: "'s visitor \<Rightarrow> cp_info list \<Rightarrow> u32 \<Rightarrow> insn \<Rightarrow> ('s, bool) walk" where
  "visit_instruction v cp offset insn = visit_looked_up v id (instruction_call cp offset insn)"

subsection \<open>The parts of a class\<close>

definition visit_module_parts :: "'s visitor \<Rightarrow> class_file \<Rightarrow> module_attribute \<Rightarrow> ('s, bool) walk" where
  "visit_module_parts v cf m =
     walk_bind (walk_all (\<lambda>i. visit_looked_up v VisitMainClass (cf_class_name cf i))
                  (case find_main_class (class_attributes cf) of Some i \<Rightarrow> [i] | None \<Rightarrow> [])) (\<lambda>_.
     walk_bind (walk_all (\<lambda>i. visit_looked_up v VisitPackage (cf_package_name cf i))
                  (or_default (find_packages (class_attributes cf)))) (\<lambda>_.
     walk_bind (walk_all (\<lambda>r. visit_looked_up v (\<lambda>(version, name). VisitRequire name (requires_flags r) version)
                  (try_bind (optional_name (cf_utf8 cf) (requires_version_index r)) (\<lambda>version.
                   map_sum id (Pair version) (cf_module_name cf (requires_index r))))) (module_requires m)) (\<lambda>_.
     walk_bind (walk_all (\<lambda>e. visit_looked_up v (\<lambda>(modules, package). VisitExport package (exports_flags e) modules)
                  (try_bind (try_map (cf_module_name cf) (exports_to_index e)) (\<lambda>modules.
                   map_sum id (Pair modules) (cf_package_name cf (exports_index e))))) (module_exports m)) (\<lambda>_.
     walk_bind (walk_all (\<lambda>e. visit_looked_up v (\<lambda>(modules, package). VisitOpen package (opens_flags e) modules)
                  (try_bind (try_map (cf_module_name cf) (opens_to_index e)) (\<lambda>modules.
                   map_sum id (Pair modules) (cf_package_name cf (opens_index e))))) (module_opens m)) (\<lambda>_.
     walk_bind (walk_all (\<lambda>i. visit_looked_up v VisitUse (cf_class_name cf i)) (module_uses m)) (\<lambda>_.
     walk_bind (walk_all (\<lambda>p. visit_looked_up v (\<lambda>(providers, service). VisitProvide service providers)
                  (try_bind (try_map (cf_class_name cf) (provides_with_index p)) (\<lambda>providers.
                   map_sum id (Pair providers) (cf_class_name cf (provides_index p))))) (module_provides m)) (\<lambda>_.
     visit_with v VisitModuleEnd)))))))"

definition visit_module :: "'s visitor \<Rightarrow> class_file \<Rightarrow> ('s, bool) walk" where
  "visit_module v cf =
     (case find_module (class_attributes cf) of
        None \<Rightarrow> walk_ret True
      | Some m \<Rightarrow>
          walk_bind (walk_try (as_read (optional_name (cf_utf8 cf) (module_version_index m)))) (\<lambda>version.
          walk_bind (walk_try (as_read (cf_module_name cf (module_name_index m)))) (\<lambda>name.
          walk_bind (visit_with v (VisitModule name (module_flags m) version)) (\<lambda>visited.
          if visited then visit_module_parts v cf m else walk_ret True))))"

definition visit_field_of :: "'s visitor \<Rightarrow> class_file \<Rightarrow> member_info \<Rightarrow> ('s, bool) walk" where
  "visit_field_of v cf f =
     walk_bind (walk_try (as_read (cf_utf8 cf (member_name f)))) (\<lambda>name.
     walk_bind (walk_try (as_read (cf_utf8 cf (member_descriptor f)))) (\<lambda>desc.
     walk_bind (visit_with v (VisitField (member_flags f) name desc)) (\<lambda>visited.
     if visited then visit_with v VisitFieldEnd else walk_ret True)))"

definition visit_code_of :: "'s visitor \<Rightarrow> cp_info list \<Rightarrow> code_attribute \<Rightarrow> ('s, bool) walk" where
  "visit_code_of v cp code =
     walk_bind (visit_with v VisitCode) (\<lambda>_.
     walk_bind (walk_try (parse_code_instructions_with_offsets (code_bytes code))) (\<lambda>located.
     walk_bind (walk_all (\<lambda>(at, insn). visit_instruction v cp (ucast at) insn) located) (\<lambda>_.
     visit_with v (VisitMaxs (code_max_stack code) (code_max_locals code)))))"

definition visit_method_of :: "'s visitor \<Rightarrow> class_file \<Rightarrow> member_info \<Rightarrow> ('s, bool) walk" where
  "visit_method_of v cf m =
     walk_bind (walk_try (as_read (cf_utf8 cf (member_name m)))) (\<lambda>name.
     walk_bind (walk_try (as_read (cf_utf8 cf (member_descriptor m)))) (\<lambda>desc.
     walk_bind (visit_with v (VisitMethod (member_flags m) name desc)) (\<lambda>visited.
     if visited then
       walk_bind (case find_map code_of (member_attributes m) of
                    Some code \<Rightarrow> visit_code_of v (constant_pool cf) code
                  | None \<Rightarrow> walk_ret True) (\<lambda>_.
       visit_with v VisitMethodEnd)
     else walk_ret True)))"

fun source_index :: "attribute_info \<Rightarrow> u16 list" where
  "source_index (SourceFile i) = [i]"
| "source_index _ = []"

definition accept_class :: "'s visitor \<Rightarrow> class_file \<Rightarrow> ('s, bool) walk" where
  "accept_class v cf =
     walk_bind (walk_try (as_read (cf_class_name cf (this_class cf)))) (\<lambda>name.
     walk_bind (walk_try (as_read (optional_name (cf_class_name cf) (super_class cf)))) (\<lambda>super.
     walk_bind (walk_try (as_read (try_map (cf_class_name cf) (interfaces cf)))) (\<lambda>ifs.
     walk_bind (visit_with v (VisitClass (major_version cf) (minor_version cf) (access_flags cf) name super ifs)) (\<lambda>_.
     walk_bind (walk_all (\<lambda>i. visit_looked_up v VisitSource (cf_utf8 cf i))
                  (concat (map source_index (class_attributes cf)))) (\<lambda>_.
     walk_bind (visit_module v cf) (\<lambda>_.
     walk_bind (walk_all (visit_field_of v cf) (class_fields cf)) (\<lambda>_.
     walk_bind (walk_all (visit_method_of v cf) (class_methods cf)) (\<lambda>_.
     visit_with v VisitEnd))))))))"

definition accept :: "(u16 list \<Rightarrow> u16 list) \<Rightarrow> 's visitor \<Rightarrow> u8 list \<Rightarrow> ('s, bool) walk" where
  "accept order v bytes = walk_bind (walk_try (read_class_file order bytes)) (accept_class v)"

end
