(* ===== verification/ClassBuilder.thy ===== *)
theory ClassBuilder imports ClassOutput ClassNodes begin

text \<open>
  \<^verbatim>\<open>ClassWriter\<close> and the visitors by which a class is built member by member, up to
  \<^verbatim>\<open>ClassWriter::to_bytes\<close>. The visitors of modules, fields and record components keep a pointer to
  their writer and commit what they have when they are dropped, unless \<^verbatim>\<open>visit_end\<close> has done so.
\<close>

subsection \<open>The writer\<close>

text \<open>\<^verbatim>\<open>FieldData\<close> and \<^verbatim>\<open>MethodData\<close> have the fields of the nodes.\<close>

record builder =
  cw_options :: u32
  cw_minor :: u16
  cw_major :: u16
  cw_access :: u16
  cw_name :: rust_text
  cw_super :: "rust_text option"
  cw_interfaces :: "rust_text list"
  cw_fields :: "field_node list"
  cw_methods :: "method_node list"
  cw_attributes :: "attribute_info list"
  cw_source :: "rust_text option"
  cw_permitted :: "rust_text list"
  cw_components :: "record_component_node list"
  cw_pool :: pool_builder

type_synonym 'a building = "(builder, 'a) state"

definition class_writer_new :: "u32 \<Rightarrow> builder" where
  "class_writer_new options =
     \<lparr>cw_options = options, cw_minor = 0, cw_major = 52, cw_access = 0, cw_name = [], cw_super = None,
      cw_interfaces = [], cw_fields = [], cw_methods = [], cw_attributes = [], cw_source = None,
      cw_permitted = [], cw_components = [], cw_pool = pool_builder_new\<rparr>"

definition in_pool :: "'a pb \<Rightarrow> 'a building" where
  "in_pool f = State (\<lambda>w. case run_state f (cw_pool w) of (x, b) \<Rightarrow> (x, w\<lparr>cw_pool := b\<rparr>))"

definition optional_index :: "(rust_text \<Rightarrow> u16 pb) \<Rightarrow> rust_text option \<Rightarrow> u16 pb" where
  "optional_index f name = (case name of None \<Rightarrow> ret 0 | Some s \<Rightarrow> f s)"

fun is_inner_classes :: "attribute_info \<Rightarrow> bool" where
  "is_inner_classes (InnerClasses _) = True"
| "is_inner_classes _ = False"

fun is_permitted_or_record :: "attribute_info \<Rightarrow> bool" where
  "is_permitted_or_record (PermittedSubclasses _) = True"
| "is_permitted_or_record (Record _) = True"
| "is_permitted_or_record _ = False"

definition inner_class_entry :: "inner_class_node \<Rightarrow> inner_class pb" where
  "inner_class_entry e =
     do { i \<leftarrow> pb_class (ic_name e);
          j \<leftarrow> optional_index pb_class (ic_outer_name e);
          k \<leftarrow> optional_index pb_utf8 (ic_inner_name e);
          ret (InnerClass i j k (ic_access e)) }"

definition added_inner_classes :: "inner_class_node list \<Rightarrow> attribute_info list \<Rightarrow> attribute_info list pb" where
  "added_inner_classes inner attrs =
     (if list_ex is_inner_classes attrs \<or> inner = [] then ret attrs
      else do { classes \<leftarrow> for_each inner_class_entry inner; ret (attrs @ [InnerClasses classes]) })"

definition added_module :: "module_node option \<Rightarrow> attribute_info list \<Rightarrow> attribute_info list pb" where
  "added_module module attrs =
     (case module of
        None \<Rightarrow> ret attrs
      | Some m \<Rightarrow>
          if list_ex is_module attrs then ret attrs
          else do { new \<leftarrow> build_module_attributes m; ret (attrs @ new) })"

definition from_class_node :: "class_node \<Rightarrow> u32 \<Rightarrow> builder" where
  "from_class_node c options =
     (let attrs = (if cn_source_file c = None then cn_attributes c
                   else filter (\<lambda>a. \<not> is_source_file a) (cn_attributes c));
          (attrs, b) = run_state (do { attrs \<leftarrow> added_inner_classes (cn_inner_classes c) attrs;
                                       added_module (cn_module c) attrs }) (from_pool (cn_constant_pool c))
      in \<lparr>cw_options = options, cw_minor = cn_minor_version c, cw_major = cn_major_version c,
          cw_access = cn_access c, cw_name = cn_name c, cw_super = cn_super_name c,
          cw_interfaces = cn_interfaces c, cw_fields = cn_fields c, cw_methods = cn_methods c,
          cw_attributes = filter (\<lambda>a. \<not> is_permitted_or_record a) attrs, cw_source = cn_source_file c,
          cw_permitted = cn_permitted_subclasses c, cw_components = cn_record_components c, cw_pool = b\<rparr>)"

definition visit_class ::
    "u16 \<Rightarrow> u16 \<Rightarrow> u16 \<Rightarrow> rust_text \<Rightarrow> rust_text option \<Rightarrow> rust_text list \<Rightarrow> builder \<Rightarrow> builder" where
  "visit_class major minor access name super ifs w =
     w\<lparr>cw_major := major, cw_minor := minor, cw_access := access, cw_name := name, cw_super := super,
       cw_interfaces := ifs\<rparr>"

definition visit_source_file :: "rust_text \<Rightarrow> builder \<Rightarrow> builder" where
  "visit_source_file name w = w\<lparr>cw_source := Some name\<rparr>"

fun push_inner_class :: "inner_class \<Rightarrow> attribute_info list \<Rightarrow> attribute_info list" where
  "push_inner_class e [] = [InnerClasses [e]]"
| "push_inner_class e (InnerClasses classes # attrs) = InnerClasses (classes @ [e]) # attrs"
| "push_inner_class e (a # attrs) = a # push_inner_class e attrs"

definition visit_inner_class ::
    "rust_text \<Rightarrow> rust_text option \<Rightarrow> rust_text option \<Rightarrow> u16 \<Rightarrow> builder \<Rightarrow> builder" where
  "visit_inner_class name outer inner access w =
     (case run_state (inner_class_entry \<lparr>ic_name = name, ic_outer_name = outer, ic_inner_name = inner,
                        ic_access = access\<rparr>) (cw_pool w) of
        (e, b) \<Rightarrow> w\<lparr>cw_attributes := push_inner_class e (cw_attributes w), cw_pool := b\<rparr>)"

definition visit_permitted_subclass :: "rust_text \<Rightarrow> builder \<Rightarrow> builder" where
  "visit_permitted_subclass name w = w\<lparr>cw_permitted := cw_permitted w @ [name]\<rparr>"

definition add_class_attribute :: "attribute_info \<Rightarrow> builder \<Rightarrow> builder" where
  "add_class_attribute a w = w\<lparr>cw_attributes := cw_attributes w @ [a]\<rparr>"

subsection \<open>Bootstrap methods\<close>

definition bootstrap_argument_index :: "bootstrap_argument \<Rightarrow> u16 pb" where
  "bootstrap_argument_index arg =
     (case arg of
        BsmInteger v \<Rightarrow> pb_integer v
      | BsmFloat v \<Rightarrow> pb_float v
      | BsmLong v \<Rightarrow> pb_long v
      | BsmDouble v \<Rightarrow> pb_double v
      | BsmString v \<Rightarrow> pb_string v
      | BsmClass v \<Rightarrow> pb_class v
      | BsmMethodType v \<Rightarrow> pb_method_type v
      | BsmHandle v \<Rightarrow> pb_method_handle v)"

fun push_bootstrap :: "bootstrap_method \<Rightarrow> attribute_info list \<Rightarrow> u16 \<times> attribute_info list" where
  "push_bootstrap e [] = (0, [BootstrapMethods [e]])"
| "push_bootstrap e (BootstrapMethods ms # attrs) =
     (word_of_nat (length ms), BootstrapMethods (ms @ [e]) # attrs)"
| "push_bootstrap e (a # attrs) = (case push_bootstrap e attrs of (i, attrs) \<Rightarrow> (i, a # attrs))"

definition writer_bootstrap_method :: "handle \<Rightarrow> bootstrap_argument list \<Rightarrow> u16 building" where
  "writer_bootstrap_method bsm args =
     do { e \<leftarrow> in_pool (do { i \<leftarrow> pb_method_handle bsm;
                             is \<leftarrow> for_each bootstrap_argument_index args;
                             ret (BootstrapMethod i is) });
          State (\<lambda>w. case push_bootstrap e (cw_attributes w) of
            (i, attrs) \<Rightarrow> (i, w\<lparr>cw_attributes := attrs\<rparr>)) }"

subsection \<open>Modules\<close>

record module_writer =
  mw_module :: module_node
  mw_committed :: bool

definition module_writer_new :: "rust_text \<Rightarrow> u16 \<Rightarrow> rust_text option \<Rightarrow> module_writer" where
  "module_writer_new name access version =
     \<lparr>mw_module = \<lparr>mn_name = name, mn_access = access, mn_version = version, mn_requires = [], mn_exports = [],
        mn_opens = [], mn_uses = [], mn_provides = [], mn_packages = [], mn_main_class = None\<rparr>,
      mw_committed = False\<rparr>"

definition mw_visit_main_class :: "rust_text \<Rightarrow> module_writer \<Rightarrow> module_writer" where
  "mw_visit_main_class c w = w\<lparr>mw_module := (mw_module w)\<lparr>mn_main_class := Some c\<rparr>\<rparr>"

definition mw_visit_package :: "rust_text \<Rightarrow> module_writer \<Rightarrow> module_writer" where
  "mw_visit_package p w = w\<lparr>mw_module := (mw_module w)\<lparr>mn_packages := mn_packages (mw_module w) @ [p]\<rparr>\<rparr>"

definition mw_visit_require :: "rust_text \<Rightarrow> u16 \<Rightarrow> rust_text option \<Rightarrow> module_writer \<Rightarrow> module_writer" where
  "mw_visit_require m access version w =
     w\<lparr>mw_module := (mw_module w)\<lparr>mn_requires := mn_requires (mw_module w) @ [ModuleRequireNode m access version]\<rparr>\<rparr>"

definition mw_visit_export :: "rust_text \<Rightarrow> u16 \<Rightarrow> rust_text list \<Rightarrow> module_writer \<Rightarrow> module_writer" where
  "mw_visit_export p access modules w =
     w\<lparr>mw_module := (mw_module w)\<lparr>mn_exports := mn_exports (mw_module w) @ [ModuleExportNode p access modules]\<rparr>\<rparr>"

definition mw_visit_open :: "rust_text \<Rightarrow> u16 \<Rightarrow> rust_text list \<Rightarrow> module_writer \<Rightarrow> module_writer" where
  "mw_visit_open p access modules w =
     w\<lparr>mw_module := (mw_module w)\<lparr>mn_opens := mn_opens (mw_module w) @ [ModuleOpenNode p access modules]\<rparr>\<rparr>"

definition mw_visit_use :: "rust_text \<Rightarrow> module_writer \<Rightarrow> module_writer" where
  "mw_visit_use s w = w\<lparr>mw_module := (mw_module w)\<lparr>mn_uses := mn_uses (mw_module w) @ [s]\<rparr>\<rparr>"

definition mw_visit_provide :: "rust_text \<Rightarrow> rust_text list \<Rightarrow> module_writer \<Rightarrow> module_writer" where
  "mw_visit_provide s providers w =
     w\<lparr>mw_module := (mw_module w)\<lparr>mn_provides := mn_provides (mw_module w) @ [ModuleProvideNode s providers]\<rparr>\<rparr>"

fun is_module_part :: "attribute_info \<Rightarrow> bool" where
  "is_module_part (ModuleAttr _) = True"
| "is_module_part (ModulePackages _) = True"
| "is_module_part (ModuleMainClass _) = True"
| "is_module_part _ = False"

definition module_visit_end :: "module_writer \<Rightarrow> builder \<Rightarrow> module_writer \<times> builder" where
  "module_visit_end mw w =
     (case run_state (build_module_attributes (mw_module mw)) (cw_pool w) of
        (new, b) \<Rightarrow>
          (mw\<lparr>mw_committed := True\<rparr>,
           w\<lparr>cw_attributes := filter (\<lambda>a. \<not> is_module_part a) (cw_attributes w) @ new, cw_pool := b\<rparr>))"

definition module_drop :: "module_writer \<Rightarrow> builder \<Rightarrow> module_writer \<times> builder" where
  "module_drop mw w = (if mw_committed mw then (mw, w) else module_visit_end mw w)"

subsection \<open>Fields and record components\<close>

record field_visitor =
  fv_node :: field_node
  fv_committed :: bool

definition field_visitor_new :: "u16 \<Rightarrow> rust_text \<Rightarrow> rust_text \<Rightarrow> field_visitor" where
  "field_visitor_new access name descriptor =
     \<lparr>fv_node = \<lparr>fn_access = access, fn_name = name, fn_descriptor = descriptor, fn_attributes = []\<rparr>,
      fv_committed = False\<rparr>"

definition fv_add_attribute :: "attribute_info \<Rightarrow> field_visitor \<Rightarrow> field_visitor" where
  "fv_add_attribute a v = v\<lparr>fv_node := (fv_node v)\<lparr>fn_attributes := fn_attributes (fv_node v) @ [a]\<rparr>\<rparr>"

definition field_visit_end :: "field_visitor \<Rightarrow> builder \<Rightarrow> field_visitor \<times> builder" where
  "field_visit_end v w = (v\<lparr>fv_committed := True\<rparr>, w\<lparr>cw_fields := cw_fields w @ [fv_node v]\<rparr>)"

definition field_drop :: "field_visitor \<Rightarrow> builder \<Rightarrow> field_visitor \<times> builder" where
  "field_drop v w = (if fv_committed v then (v, w) else field_visit_end v w)"

record component_visitor =
  rv_node :: record_component_node
  rv_committed :: bool

definition component_visitor_new :: "rust_text \<Rightarrow> rust_text \<Rightarrow> component_visitor" where
  "component_visitor_new name descriptor =
     \<lparr>rv_node = \<lparr>rc_name = name, rc_descriptor = descriptor, rc_attributes = []\<rparr>, rv_committed = False\<rparr>"

definition rv_add_attribute :: "attribute_info \<Rightarrow> component_visitor \<Rightarrow> component_visitor" where
  "rv_add_attribute a v = v\<lparr>rv_node := (rv_node v)\<lparr>rc_attributes := rc_attributes (rv_node v) @ [a]\<rparr>\<rparr>"

definition component_visit_end :: "component_visitor \<Rightarrow> builder \<Rightarrow> component_visitor \<times> builder" where
  "component_visit_end v w = (v\<lparr>rv_committed := True\<rparr>, w\<lparr>cw_components := cw_components w @ [rv_node v]\<rparr>)"

definition component_drop :: "component_visitor \<Rightarrow> builder \<Rightarrow> component_visitor \<times> builder" where
  "component_drop v w = (if rv_committed v then (v, w) else component_visit_end v w)"

subsection \<open>Methods\<close>

record method_visitor =
  mv_access :: u16
  mv_name :: rust_text
  mv_descriptor :: rust_text
  mv_has_code :: bool
  mv_max_stack :: u16
  mv_max_locals :: u16
  mv_insns :: "abstract_insn_node list"
  mv_type_names :: "rust_text list"
  mv_exceptions :: "exception_table_entry list"
  mv_pending :: "try_catch_block list"
  mv_code_attributes :: "attribute_info list"
  mv_attributes :: "attribute_info list"

definition method_visitor_new :: "u16 \<Rightarrow> rust_text \<Rightarrow> rust_text \<Rightarrow> method_visitor" where
  "method_visitor_new access name descriptor =
     \<lparr>mv_access = access, mv_name = name, mv_descriptor = descriptor, mv_has_code = False, mv_max_stack = 0,
      mv_max_locals = 0, mv_insns = [], mv_type_names = [], mv_exceptions = [], mv_pending = [],
      mv_code_attributes = [], mv_attributes = []\<rparr>"

definition mv_add :: "abstract_insn_node \<Rightarrow> method_visitor \<Rightarrow> method_visitor" where
  "mv_add n v = v\<lparr>mv_insns := mv_insns v @ [n]\<rparr>"

definition mv_visit_code :: "method_visitor \<Rightarrow> method_visitor" where
  "mv_visit_code v = v\<lparr>mv_has_code := True\<rparr>"

definition mv_visit_insn :: "u8 \<Rightarrow> method_visitor \<Rightarrow> method_visitor" where
  "mv_visit_insn op = mv_add (InsnNode (SimpleInsn op))"

definition mv_visit_var_insn :: "u8 \<Rightarrow> u16 \<Rightarrow> method_visitor \<Rightarrow> method_visitor" where
  "mv_visit_var_insn op i = mv_add (InsnNode (VarInsn op i))"

definition mv_visit_type_insn :: "u8 \<Rightarrow> rust_text \<Rightarrow> method_visitor \<Rightarrow> method_visitor" where
  "mv_visit_type_insn op name v =
     mv_add (InsnNode (TypeInsn op 0)) (v\<lparr>mv_type_names := mv_type_names v @ [name]\<rparr>)"

definition mv_visit_field_insn ::
    "u8 \<Rightarrow> rust_text \<Rightarrow> rust_text \<Rightarrow> rust_text \<Rightarrow> method_visitor \<Rightarrow> method_visitor" where
  "mv_visit_field_insn op owner name descriptor =
     mv_add (InsnNode (FieldInsn op (MemberSymbolic owner name descriptor)))"

definition mv_visit_method_insn ::
    "u8 \<Rightarrow> rust_text \<Rightarrow> rust_text \<Rightarrow> rust_text \<Rightarrow> bool \<Rightarrow> method_visitor \<Rightarrow> method_visitor" where
  "mv_visit_method_insn op owner name descriptor itf =
     mv_add (InsnNode (MethodInsn op (MemberSymbolic owner name descriptor)))"

definition mv_visit_invokedynamic_insn ::
    "rust_text \<Rightarrow> rust_text \<Rightarrow> handle \<Rightarrow> bootstrap_argument list \<Rightarrow> method_visitor \<Rightarrow> method_visitor" where
  "mv_visit_invokedynamic_insn name descriptor bsm args =
     mv_add (InsnNode (invoke_dynamic_new name descriptor bsm args))"

definition mv_visit_jump_insn :: "u8 \<Rightarrow> label \<Rightarrow> method_visitor \<Rightarrow> method_visitor" where
  "mv_visit_jump_insn op target = mv_add (JumpLabelNode op target)"

text \<open>The assertion on the number of targets: \<open>None\<close> is its panic.\<close>

definition table_size :: "u32 \<Rightarrow> u32 \<Rightarrow> nat" where
  "table_size low high = (if high <s low then 0 else unat (scast (high - low + 1) :: 64 word))"

definition mv_visit_table_switch ::
    "label \<Rightarrow> u32 \<Rightarrow> u32 \<Rightarrow> label list \<Rightarrow> method_visitor \<Rightarrow> method_visitor option" where
  "mv_visit_table_switch d low high targets v =
     (if length targets = table_size low high then Some (mv_add (TableSwitchLabelNode 0xAA d low high targets) v)
      else None)"

definition mv_visit_lookup_switch :: "label \<Rightarrow> (u32 \<times> label) list \<Rightarrow> method_visitor \<Rightarrow> method_visitor" where
  "mv_visit_lookup_switch d pairs = mv_add (LookupSwitchLabelNode 0xAB d pairs)"

definition mv_visit_label :: "label \<Rightarrow> method_visitor \<Rightarrow> method_visitor" where
  "mv_visit_label l = mv_add (LabelNode l)"

definition mv_visit_try_catch_block ::
    "label \<Rightarrow> label \<Rightarrow> label \<Rightarrow> rust_text option \<Rightarrow> method_visitor \<Rightarrow> method_visitor" where
  "mv_visit_try_catch_block start end_label handler type v =
     v\<lparr>mv_pending := mv_pending v @ [TryCatchBlock start end_label handler type]\<rparr>"

definition mv_visit_line_number :: "u16 \<Rightarrow> label \<Rightarrow> method_visitor \<Rightarrow> method_visitor" where
  "mv_visit_line_number line start = mv_add (LineNumberNode line start)"

definition mv_visit_ldc_insn :: "u8 \<Rightarrow> ldc_value \<Rightarrow> method_visitor \<Rightarrow> method_visitor" where
  "mv_visit_ldc_insn op v = mv_add (InsnNode (LdcInsn op v))"

definition mv_visit_iinc_insn :: "u16 \<Rightarrow> u16 \<Rightarrow> method_visitor \<Rightarrow> method_visitor" where
  "mv_visit_iinc_insn i n = mv_add (InsnNode (IincInsn 0x84 i n))"

definition mv_visit_maxs :: "u16 \<Rightarrow> u16 \<Rightarrow> method_visitor \<Rightarrow> method_visitor" where
  "mv_visit_maxs max_stack max_locals v = v\<lparr>mv_max_stack := max_stack, mv_max_locals := max_locals\<rparr>"

text \<open>
  At the end type instructions get the pending names in order, and dynamic calls a bootstrap
  method; the symbolic operands of a dynamic call are taken out of it.
\<close>

definition resolve_node ::
    "abstract_insn_node \<Rightarrow> rust_text list \<Rightarrow> (abstract_insn_node \<times> rust_text list) building" where
  "resolve_node n names =
     (case n of
        InsnNode (TypeInsn op i) \<Rightarrow>
          (case names of
             name # names' \<Rightarrow>
               if i = 0 then do { i \<leftarrow> in_pool (pb_class name); ret (InsnNode (TypeInsn op i), names') }
               else ret (n, names)
           | [] \<Rightarrow> ret (n, names))
      | InsnNode (InvokeDynamicInsn op i name descriptor bsm args) \<Rightarrow>
          if i = 0 then
            (case (name, descriptor, bsm) of
               (Some name, Some descriptor, Some bsm) \<Rightarrow>
                 do { b \<leftarrow> writer_bootstrap_method bsm args;
                      i \<leftarrow> in_pool (pb_invoke_dynamic b name descriptor);
                      ret (InsnNode (InvokeDynamicInsn op i None None None args), names) }
             | _ \<Rightarrow> ret (InsnNode (InvokeDynamicInsn op i None None None args), names))
          else ret (n, names)
      | _ \<Rightarrow> ret (n, names))"

fun resolve_nodes :: "abstract_insn_node list \<Rightarrow> rust_text list \<Rightarrow> abstract_insn_node list building" where
  "resolve_nodes [] names = ret []"
| "resolve_nodes (n # ns) names =
     do { (n, names) \<leftarrow> resolve_node n names; ns \<leftarrow> resolve_nodes ns names; ret (n # ns) }"

definition built_method :: "method_visitor \<Rightarrow> code_attribute option \<Rightarrow> method_node" where
  "built_method v code =
     (let m = \<lparr>me_access = mv_access v, me_name = mv_name v, me_descriptor = mv_descriptor v, me_has_code = False,
               me_max_stack = 0, me_max_locals = 0, me_instructions = [], me_instruction_offsets = [],
               me_insn_nodes = [], me_exception_table = [], me_try_catch_blocks = [], me_line_numbers = [],
               me_local_variables = [], me_parameters = or_default (find_map parameters_of (mv_attributes v)),
               me_exceptions = [], me_signature = None, me_code_attributes = [], me_attributes = mv_attributes v\<rparr>
      in case code of
           None \<Rightarrow> m
         | Some c \<Rightarrow>
             m\<lparr>me_has_code := True, me_max_stack := code_max_stack c, me_max_locals := code_max_locals c,
               me_instructions := code_instructions c, me_insn_nodes := code_nodes c,
               me_exception_table := code_exceptions c, me_try_catch_blocks := code_blocks c,
               me_line_numbers := or_default (find_map line_numbers_of (code_attributes c)),
               me_local_variables := or_default (find_map local_variables_of (code_attributes c)),
               me_code_attributes := code_attributes c\<rparr>)"

definition built_code :: "method_visitor \<Rightarrow> abstract_insn_node list \<Rightarrow> code_attribute option pb" where
  "built_code v insns =
     (if mv_has_code v \<or> insns \<noteq> [] then
        do { c \<leftarrow> build_code \<lparr>cb_max_stack = mv_max_stack v, cb_max_locals = mv_max_locals v, cb_insns = insns,
                  cb_exception_table = mv_exceptions v, cb_pending = mv_pending v,
                  cb_attributes = mv_code_attributes v\<rparr>;
             ret (Some c) }
      else ret None)"

definition method_visit_end :: "method_visitor \<Rightarrow> unit building" where
  "method_visit_end v =
     do { insns \<leftarrow> resolve_nodes (mv_insns v) (mv_type_names v);
          code \<leftarrow> in_pool (built_code v insns);
          State (\<lambda>w. ((), w\<lparr>cw_methods := cw_methods w @ [built_method v code]\<rparr>)) }"

subsection \<open>The class that was built\<close>

definition source_attribute :: "rust_text option \<Rightarrow> attribute_info list pb" where
  "source_attribute source =
     (case source of None \<Rightarrow> ret [] | Some s \<Rightarrow> do { i \<leftarrow> pb_utf8 s; ret [SourceFile i] })"

definition permitted_attribute :: "rust_text list \<Rightarrow> attribute_info list pb" where
  "permitted_attribute names =
     (if names = [] then ret []
      else do { is \<leftarrow> for_each pb_class names; ret [PermittedSubclasses is] })"

definition component_entry :: "record_component_node \<Rightarrow> record_component pb" where
  "component_entry c =
     do { i \<leftarrow> pb_utf8 (rc_name c); j \<leftarrow> pb_utf8 (rc_descriptor c);
          ret (RecordComponent i j (rc_attributes c)) }"

definition record_attribute :: "record_component_node list \<Rightarrow> attribute_info list pb" where
  "record_attribute components =
     (if components = [] then ret []
      else do { cs \<leftarrow> for_each component_entry components; ret [Record cs] })"

text \<open>The index of the class, those of its interfaces, and its attributes\<close>

definition class_indices :: "builder \<Rightarrow> (u16 \<times> u16 list \<times> attribute_info list) pb" where
  "class_indices w =
     do { this \<leftarrow> pb_class (cw_name w);
          discard (optional_index pb_class (cw_super w));
          ifs \<leftarrow> for_each pb_class (cw_interfaces w);
          source \<leftarrow> source_attribute (cw_source w);
          permitted \<leftarrow> permitted_attribute (cw_permitted w);
          components \<leftarrow> record_attribute (cw_components w);
          ret (this, ifs, cw_attributes w @ source @ permitted @ components) }"

definition raw_inner_class :: "cp_info list \<Rightarrow> inner_class \<Rightarrow> raw_index_error + inner_class_node" where
  "raw_inner_class cp e =
     try_bind (cp_class_name_raw cp (inner_class_info e)) (\<lambda>name.
     try_bind (if outer_class_info e = 0 then Inr None
               else map_sum id Some (cp_class_name_raw cp (outer_class_info e))) (\<lambda>outer.
     try_bind (version_of cp (inner_name e)) (\<lambda>inner.
     Inr \<lparr>ic_name = name, ic_outer_name = outer, ic_inner_name = inner, ic_access = inner_class_flags e\<rparr>)))"

definition raw_outer_class :: "cp_info list \<Rightarrow> u16 \<Rightarrow> attribute_info list \<Rightarrow> raw_index_error + rust_text" where
  "raw_outer_class cp this attrs =
     try_bind (case find_map enclosing_class attrs of Some i \<Rightarrow> cp_class_name_raw cp i | None \<Rightarrow> Inr []) (\<lambda>outer.
     if outer = [] then
       (case find_map (outer_entry this) attrs of Some i \<Rightarrow> cp_class_name_raw cp i | None \<Rightarrow> Inr [])
     else Inr outer)"

text \<open>\<^verbatim>\<open>missing class name, call visit() first\<close>, or the text of a lookup that failed\<close>

datatype build_error = MissingClassName | BadIndex raw_index_error

definition built_class :: "builder \<Rightarrow> build_error + class_node" where
  "built_class w =
     (if cw_name w = [] then Inl MissingClassName
      else case run_state (class_indices w) (cw_pool w) of
        ((this, ifs, attrs), b) \<Rightarrow>
          let cp = into_pool b
          in map_sum BadIndex id (
             try_bind (try_map (raw_inner_class cp) (concat (map inner_classes_of attrs))) (\<lambda>inner.
             try_bind (raw_outer_class cp this attrs) (\<lambda>outer.
             try_bind (decode_module_node cp attrs) (\<lambda>module.
             Inr \<lparr>cn_minor_version = cw_minor w, cn_major_version = cw_major w, cn_access = cw_access w,
                  cn_constant_pool = cp, cn_this_class = this, cn_name = cw_name w, cn_super_name = cw_super w,
                  cn_source_file = cw_source w, cn_interfaces = cw_interfaces w, cn_interface_indices = ifs,
                  cn_fields = cw_fields w, cn_methods = cw_methods w, cn_attributes = attrs,
                  cn_inner_classes = inner, cn_outer_class = outer, cn_module = module,
                  cn_permitted_subclasses = cw_permitted w, cn_record_components = cw_components w\<rparr>)))))"

text \<open>\<^verbatim>\<open>ClassWriter::to_bytes\<close>; the text of the error is left out of \<open>FrameComputation\<close>.\<close>

definition writer_to_bytes :: "builder \<Rightarrow> (build_error + class_write_error) + u8 list" where
  "writer_to_bytes w =
     (case built_class w of
        Inl e \<Rightarrow> Inl (Inl e)
      | Inr c \<Rightarrow> map_sum Inr id (to_bytes (cw_options w) c))"

definition write_class_node :: "class_node \<Rightarrow> u32 \<Rightarrow> class_write_error + u8 list" where
  "write_class_node c options = to_bytes options c"

end
