(* ===== verification/NodeFacts.thy ===== *)
theory NodeFacts imports ClassNodes Visiting ClassRoundtrip ClassBuilder begin

text \<open>
  What the tree of a class keeps of the class that was written, and what a visitor sees of it.
\<close>

subsection \<open>Lookups\<close>

lemma cf_lookups:
  "cf_utf8 cf = cp_utf8 (constant_pool cf)" "cf_class_name cf = cp_class_name (constant_pool cf)"
  by (auto simp: cf_utf8_def cp_utf8_def cf_class_name_def cp_class_name_def fun_eq_iff split: option.split cp_info.split)

lemma try_map_related:
  "list_all2 (\<lambda>x y. \<exists>n. f y = Inr n \<and> R x n) xs ys \<Longrightarrow> \<exists>ns. try_map f ys = Inr ns \<and> list_all2 R xs ns"
  by (induction xs ys rule: list_all2_induct) auto

text \<open>The names that the tree looks up for an attribute are in the pool.\<close>

definition is_module_name :: "cp_info list \<Rightarrow> u16 \<Rightarrow> bool" where
  "is_module_name cp i \<longleftrightarrow> (case cp_get cp i of Some (Module j) \<Rightarrow> \<not> isl (cp_utf8 cp j) | _ \<Rightarrow> False)"

definition is_package_name :: "cp_info list \<Rightarrow> u16 \<Rightarrow> bool" where
  "is_package_name cp i \<longleftrightarrow> (case cp_get cp i of Some (Package j) \<Rightarrow> \<not> isl (cp_utf8 cp j) | _ \<Rightarrow> False)"

definition is_class_name :: "cp_info list \<Rightarrow> u16 \<Rightarrow> bool" where
  "is_class_name cp i \<longleftrightarrow> \<not> isl (cp_class_name cp i)"

definition is_text :: "cp_info list \<Rightarrow> u16 \<Rightarrow> bool" where
  "is_text cp i \<longleftrightarrow> \<not> isl (cp_utf8 cp i)"

definition module_names_found :: "cp_info list \<Rightarrow> module_attribute \<Rightarrow> bool" where
  "module_names_found cp m \<longleftrightarrow>
     is_module_name cp (module_name_index m) \<and> (module_version_index m = 0 \<or> is_text cp (module_version_index m)) \<and>
     list_all (\<lambda>r. is_module_name cp (requires_index r) \<and>
       (requires_version_index r = 0 \<or> is_text cp (requires_version_index r))) (module_requires m) \<and>
     list_all (\<lambda>e. is_package_name cp (exports_index e) \<and> list_all (is_module_name cp) (exports_to_index e)) (module_exports m) \<and>
     list_all (\<lambda>e. is_package_name cp (opens_index e) \<and> list_all (is_module_name cp) (opens_to_index e)) (module_opens m) \<and>
     list_all (is_class_name cp) (module_uses m) \<and>
     list_all (\<lambda>e. is_class_name cp (provides_index e) \<and> list_all (is_class_name cp) (provides_with_index e)) (module_provides m)"

fun names_found :: "cp_info list \<Rightarrow> attribute_info \<Rightarrow> bool" where
  "names_found cp (Exceptions t) = list_all (is_class_name cp) t"
| "names_found cp (InnerClasses t) =
     list_all (\<lambda>e. is_class_name cp (inner_class_info e) \<and>
       (outer_class_info e = 0 \<or> is_class_name cp (outer_class_info e)) \<and>
       (inner_name e = 0 \<or> is_text cp (inner_name e))) t"
| "names_found cp (EnclosingMethod i _) = is_class_name cp i"
| "names_found cp (ModuleAttr m) = module_names_found cp m"
| "names_found cp (ModulePackages t) = list_all (is_package_name cp) t"
| "names_found cp (ModuleMainClass i) = is_class_name cp i"
| "names_found cp (PermittedSubclasses t) = list_all (is_class_name cp) t"
| "names_found cp (Record cs) = list_all (\<lambda>c. is_text cp (component_name c) \<and> is_text cp (component_descriptor c)) cs"
| "names_found cp _ = True"

text \<open>\<open>found r\<close>: the lookup succeeds.\<close>

definition found :: "'e + 'a \<Rightarrow> bool" where
  "found r \<longleftrightarrow> (\<exists>x. r = Inr x)"

named_theorems found_rules

lemma found_Inr [found_rules]: "found (Inr x)"
  by (simp add: found_def)

lemma found_bind [found_rules]: "found r \<Longrightarrow> (\<And>x. r = Inr x \<Longrightarrow> found (f x)) \<Longrightarrow> found (try_bind r f)"
  by (auto simp: found_def)

lemma found_map [found_rules]: "found r \<Longrightarrow> found (map_sum id f r)"
  by (auto simp: found_def)

lemma found_as_read [found_rules]: "found r \<Longrightarrow> found (as_read r)"
  by (auto simp: found_def as_read_def)

lemma found_try_map [found_rules]: "(\<And>x. x \<in> set xs \<Longrightarrow> found (f x)) \<Longrightarrow> found (try_map f xs)"
  unfolding found_def by (induction xs) fastforce+

lemma found_optional [found_rules]: "(i \<noteq> 0 \<Longrightarrow> found (look i)) \<Longrightarrow> found (optional_name look i)"
  by (auto simp: optional_name_def found_def)

lemma found_names:
  "is_text (constant_pool cf) i \<longleftrightarrow> found (cf_utf8 cf i)"
  "is_class_name (constant_pool cf) i \<longleftrightarrow> found (cf_class_name cf i)"
  "is_module_name (constant_pool cf) i \<longleftrightarrow> found (cf_module_name cf i)"
  "is_package_name (constant_pool cf) i \<longleftrightarrow> found (cf_package_name cf i)"
  by (auto simp: found_def isl_def is_text_def is_class_name_def is_module_name_def is_package_name_def cf_lookups
      cf_module_name_def cf_package_name_def split: option.splits cp_info.splits) (metis sum.exhaust)+

text \<open>The tree of a class whose attributes have their names in the pool can be made.\<close>

lemma find_map_Some: "find_map f xs = Some y \<Longrightarrow> \<exists>x \<in> set xs. f x = Some y"
  by (induction xs) (auto split: option.splits)

lemma in_listed:
  assumes "i \<in> set (or_default (find_map f as))"
  obtains a t where "a \<in> set as" "f a = Some t" "i \<in> set t"
proof (cases "find_map f as")
  case (Some t)
  with assms that find_map_Some [OF Some] show thesis by (auto simp: or_default_def)
qed (use assms in \<open>simp add: or_default_def\<close>)

lemma inner_names_found:
  assumes "names_found (constant_pool cf) a" and "e \<in> set (inner_classes_of a)"
  shows "found (cf_class_name cf (inner_class_info e))"
    and "outer_class_info e \<noteq> 0 \<Longrightarrow> found (cf_class_name cf (outer_class_info e))"
    and "inner_name e \<noteq> 0 \<Longrightarrow> found (cf_utf8 cf (inner_name e))"
  using assms by (cases a; auto simp: list_all_iff found_names)+

lemma class_parts_found:
  assumes "list_all (names_found (constant_pool cf)) (class_attributes cf)"
  shows "found (try_map (inner_class_node_of cf) (concat (map inner_classes_of (class_attributes cf))))"
    and "found (try_map (cf_class_name cf) (or_default (find_map permitted_of (class_attributes cf))))"
    and "found (try_map (component_node_of cf) (or_default (find_map components_of (class_attributes cf))))"
proof -
  have "names_found (constant_pool cf) a" if "a \<in> set (class_attributes cf)" for a
    using assms that by (simp add: list_all_iff)
  note inner = inner_names_found [OF this]
  show "found (try_map (inner_class_node_of cf) (concat (map inner_classes_of (class_attributes cf))))"
    unfolding inner_class_node_of_def using inner by (intro found_rules) auto
  have "found (cf_class_name cf i)" if "i \<in> set (or_default (find_map permitted_of (class_attributes cf)))" for i
    using that
    by (rule in_listed) (use assms in \<open>auto simp: list_all_iff found_names [symmetric] elim!: permitted_of.elims\<close>)
  thus "found (try_map (cf_class_name cf) (or_default (find_map permitted_of (class_attributes cf))))"
    by (intro found_rules)
  have "found (cf_utf8 cf (component_name c)) \<and> found (cf_utf8 cf (component_descriptor c))"
    if "c \<in> set (or_default (find_map components_of (class_attributes cf)))" for c
    using that
    by (rule in_listed) (use assms in \<open>auto simp: list_all_iff found_names [symmetric] elim!: components_of.elims\<close>)
  thus "found (try_map (component_node_of cf) (or_default (find_map components_of (class_attributes cf))))"
    unfolding component_node_of_def by (intro found_rules) simp_all
qed

lemma outer_found:
  assumes "list_all (names_found (constant_pool cf)) (class_attributes cf)"
  shows "found (outer_class_of cf)"
proof -
  have "found (cf_class_name cf i)" if "find_map enclosing_class (class_attributes cf) = Some i" for i
    using assms that by (auto simp: list_all_iff found_names dest!: find_map_Some elim!: enclosing_class.elims)
  moreover have "found (cf_class_name cf i)"
    if "find_map (outer_entry (this_class cf)) (class_attributes cf) = Some i" for i
  proof -
    from that obtain a where a: "a \<in> set (class_attributes cf)" and "outer_entry (this_class cf) a = Some i"
      by (auto dest!: find_map_Some)
    then obtain e where "e \<in> set (inner_classes_of a)" "outer_class_info e = i" "i \<noteq> 0"
      by (auto simp: outer_entry_def dest!: find_map_Some split: if_splits)
    with inner_names_found(2) [of cf a e] assms a show ?thesis by (simp add: list_all_iff)
  qed
  ultimately show ?thesis
    unfolding outer_class_of_def by (auto intro!: found_rules split: option.split)
qed

lemma find_attribute:
  "find_module as = Some m \<Longrightarrow> ModuleAttr m \<in> set as"
  "find_packages as = Some t \<Longrightarrow> ModulePackages t \<in> set as"
  "find_main_class as = Some i \<Longrightarrow> ModuleMainClass i \<in> set as"
  by (induction as; simp; rename_tac a as; case_tac a; simp)+

lemma module_found:
  assumes "list_all (names_found (constant_pool cf)) (class_attributes cf)"
  shows "found (case find_module (class_attributes cf) of None \<Rightarrow> Inr None | Some m \<Rightarrow> map_sum id Some (cf_module cf m))"
proof (cases "find_module (class_attributes cf)")
  case (Some m)
  hence m: "module_names_found (constant_pool cf) m"
    using assms find_attribute(1) by (fastforce simp: list_all_iff)
  have packages: "found (cf_package_name cf i)" if "find_packages (class_attributes cf) = Some t" "i \<in> set t" for t i
    using assms find_attribute(2) [OF that(1)] that(2) by (fastforce simp: list_all_iff found_names)
  have main: "found (cf_class_name cf i)" if "find_main_class (class_attributes cf) = Some i" for i
    using assms find_attribute(3) [OF that] by (fastforce simp: list_all_iff found_names)
  have "found (cf_module cf m)"
    unfolding cf_module_def cf_require_def cf_export_def cf_open_def cf_provide_def
    by (intro found_rules; (use m packages main in \<open>auto simp: module_names_found_def found_names list_all_iff
        intro!: found_rules split: option.split\<close>)?)
  thus ?thesis by (simp add: Some found_map)
qed (simp add: found_Inr)

subsection \<open>Members\<close>

lemma field_node_read: "field_is (constant_pool cf) f m \<Longrightarrow> field_node_of cf m = Inr f"
  by (simp add: field_is_def member_is_def field_node_of_def cf_lookups)

lemma try_map_same: "list_all2 (\<lambda>x y. f y = Inr x) xs ys \<Longrightarrow> try_map f ys = Inr xs"
  by (rule try_map_all)

lemma code_of_none: "code_of a = None \<longleftrightarrow> \<not> is_code a"
  by (cases a) simp_all

lemma code_of_Some: "code_of a = Some c \<longleftrightarrow> a = Code c"
  by (cases a) simp_all

text \<open>What is read of an attribute is of its kind.\<close>

lemma reread_kind:
  assumes "reread order cp (finished ctx pre maxs a) = Inr b"
  shows "is_code b = is_code a" and "exceptions_of b = exceptions_of a"
  using assms by (cases a; auto simp: map_sum_id_Inr split: sum.splits)+

lemma reread_kinds:
  assumes "try_map (reread order cp) (map (finished ctx pre maxs) as) = Inr bs"
  shows "list_all2 (\<lambda>a b. is_code b = is_code a \<and> exceptions_of b = exceptions_of a) as bs"
proof -
  have "list_all2 (\<lambda>a b. reread order cp (finished ctx pre maxs a) = Inr b) as bs"
    using try_map_Inr [OF assms] by (simp add: list_all2_map1)
  thus ?thesis by (rule list_all2_mono) (use reread_kind in blast)
qed

lemma same_exceptions:
  "list_all2 (\<lambda>a b. is_code b = is_code a \<and> exceptions_of b = exceptions_of a) as bs \<Longrightarrow>
   find_map exceptions_of bs = find_map exceptions_of as"
  by (induction as bs rule: list_all2_induct) (simp_all split: option.split)

text \<open>The code of a node is decoded from the bytes once more.\<close>

definition decodable :: "attribute_info \<Rightarrow> bool" where
  "decodable a \<longleftrightarrow> (\<forall>c. a = Code c \<longrightarrow> found (parse_code_instructions_with_offsets (code_bytes c)))"

lemma reread_decodable: "reread order cp a = Inr b \<Longrightarrow> decodable b"
  by (cases a) (auto simp: decodable_def found_def build_insn_nodes_def map_sum_id_Inr split: sum.splits)

lemma with_code_read:
  assumes "list_all decodable as"
  obtains n where "with_code (find_map code_of as) = Inr n"
proof (cases "find_map code_of as")
  case (Some c)
  hence "Code c \<in> set as" by (auto dest!: find_map_Some simp: code_of_Some)
  with assms have "found (parse_code_instructions_with_offsets (code_bytes c))" by (auto simp: decodable_def list_all_iff)
  with Some that show thesis by (auto simp: with_code_def found_def)
qed (use that in \<open>simp add: with_code_def\<close>)

text \<open>
  The node of a method has its header, its attributes and its code: what the reader derives from the
  bytes, with the sizes that were chosen. Instructions that fit their forms are as they were.
\<close>

definition code_kept :: "method_node \<Rightarrow> code_attribute option \<Rightarrow> bool" where
  "code_kept n code \<longleftrightarrow>
     (case code of
        None \<Rightarrow> \<not> me_has_code n
      | Some c \<Rightarrow>
          me_has_code n \<and> me_max_stack n = code_max_stack c \<and> me_max_locals n = code_max_locals c \<and>
          me_instructions n = code_instructions c \<and> me_insn_nodes n = code_nodes c \<and>
          me_exception_table n = code_exceptions c \<and> me_try_catch_blocks n = code_blocks c \<and>
          me_code_attributes n = code_attributes c)"

definition method_kept ::
    "(u16 list \<Rightarrow> u16 list) \<Rightarrow> cp_info list \<Rightarrow> u32 \<Rightarrow> class_node \<Rightarrow>
     method_node \<times> stack_map_frame list option \<times> (u16 \<times> u16) option \<Rightarrow> method_node \<Rightarrow> bool" where
  "method_kept order cp options c mx n \<longleftrightarrow>
     (case mx of (m, precomputed, maxs) \<Rightarrow>
        me_access n = me_access m \<and> me_name n = me_name m \<and> me_descriptor n = me_descriptor m \<and>
        (\<exists>as. attributes_back order cp options c mx as \<and>
           me_attributes n = filter (\<lambda>a. \<not> is_code a) as \<and> code_kept n (find_map code_of as)) \<and>
        (me_has_code m \<longrightarrow>
           me_has_code n \<and> me_exception_table n = me_exception_table m \<and>
           (me_max_stack n, me_max_locals n) =
             (case maxs of Some sizes \<Rightarrow> sizes | None \<Rightarrow> (me_max_stack m, me_max_locals m)) \<and>
           (list_all insn_fits (me_instructions m) \<longrightarrow> me_instructions n = me_instructions m)))"

lemma find_map_skips: "\<forall>x \<in> set xs. f x = None \<Longrightarrow> find_map f (xs @ ys) = find_map f ys"
  by (induction xs) (auto split: option.splits)

text \<open>The code of a method is written last.\<close>

lemma written_code_found:
  assumes "attributes_back order cp options c (m, pre, maxs) as" and "me_has_code m"
  obtains code code' where "method_code_attribute m = Inr code" "find_map code_of as = Some code'"
    "reread order cp (finished (method_context options m c) pre maxs (Code code)) = Inr (Code code')"
proof -
  let ?ctx = "method_context options m c"
  let ?rest = "filter (\<lambda>a. \<not> is_code a) (me_attributes m)"
  from assms obtain code where code: "method_code_attribute m = Inr code"
    and "try_map (reread order cp) (map (finished ?ctx pre maxs) (?rest @ [Code code])) = Inr as"
    by (auto simp: attributes_back_def method_attributes_def)
  then obtain bs vs where bs: "try_map (reread order cp) (map (finished ?ctx pre maxs) ?rest) = Inr bs"
    and vs: "try_map (reread order cp) [finished ?ctx pre maxs (Code code)] = Inr vs" and as: "as = bs @ vs"
    unfolding map_append try_map_append by auto
  from vs obtain b where b: "reread order cp (finished ?ctx pre maxs (Code code)) = Inr b" "vs = [b]"
    by (auto simp del: finished.simps split: sum.splits)
  from reread_kind(1) [OF b(1)] obtain code' where code': "b = Code code'" by (cases b) auto
  have "list_all2 (\<lambda>a b. \<not> is_code b) ?rest bs"
    using reread_kinds [OF bs] by (rule list.rel_mono_strong) simp
  hence "\<forall>a \<in> set bs. code_of a = None"
    by (auto simp: code_of_none list_all2_conv_all_nth in_set_conv_nth)
  hence "find_map code_of as = Some code'" by (simp add: as b(2) code' find_map_skips)
  with code b(1) that show thesis by (simp add: code')
qed

lemma method_node_read:
  assumes "method_is order (constant_pool cf) options c mx mi"
    and "\<And>as. method_attributes (fst mx) = Inr as \<Longrightarrow> list_all (names_found (constant_pool cf)) as"
  shows "\<exists>n. method_node_of cf mi = Inr n \<and> method_kept order (constant_pool cf) options c mx n"
proof -
  let ?cp = "constant_pool cf"
  obtain m pre maxs where mx: "mx = (m, pre, maxs)" by (metis prod.collapse)
  obtain as where as: "attributes_back order ?cp options c mx as"
    and member: "member_is ?cp (me_access m) (me_name m) (me_descriptor m) as mi"
    using assms(1) by (auto simp: method_is_def mx)
  then obtain attrs where attrs: "method_attributes m = Inr attrs"
    and reread: "try_map (reread order ?cp) (map (finished (method_context options m c) pre maxs) attrs) = Inr as"
    by (auto simp: attributes_back_def mx)
  have "list_all decodable as"
    using try_map_Inr [OF reread] reread_decodable by (auto simp: list_all2_conv_all_nth list_all_length)
  then obtain n where n: "with_code (find_map code_of as) = Inr n" by (rule with_code_read)
  have "found (cf_class_name cf i)" if "i \<in> set (or_default (find_map exceptions_of attrs))" for i
    using that
    by (rule in_listed) (use assms(2) [of attrs] attrs in
      \<open>auto simp: mx list_all_iff found_names [symmetric] elim!: exceptions_of.elims\<close>)
  hence "found (try_map (cf_class_name cf) (or_default (find_map exceptions_of as)))"
    unfolding same_exceptions [OF reread_kinds [OF reread]] by (intro found_rules)
  then obtain es where es: "as_read (try_map (cf_class_name cf) (or_default (find_map exceptions_of as))) = Inr es"
    by (auto simp: found_def as_read_def)
  have names: "as_read (cf_utf8 cf (member_name mi)) = Inr (me_name m)"
    "as_read (cf_utf8 cf (member_descriptor mi)) = Inr (me_descriptor m)"
    and parts: "member_attributes mi = as" "member_flags mi = me_access m"
    using member by (simp_all add: member_is_def cf_lookups as_read_def)
  let ?n = "n\<lparr>me_access := me_access m, me_name := me_name m, me_descriptor := me_descriptor m,
       me_parameters := or_default (find_map parameters_of as), me_exceptions := es,
       me_signature := find_map (signature_of cf) as, me_attributes := filter (\<lambda>a. code_of a = None) as\<rparr>"
  have code: "code_kept ?n (find_map code_of as)"
    using n by (cases "find_map code_of as") (auto simp: code_kept_def with_code_def without_code_def try_bind_Inr)
  have "me_has_code ?n \<and> me_exception_table ?n = me_exception_table m \<and>
      (me_max_stack ?n, me_max_locals ?n) =
        (case maxs of Some sizes \<Rightarrow> sizes | None \<Rightarrow> (me_max_stack m, me_max_locals m)) \<and>
      (list_all insn_fits (me_instructions m) \<longrightarrow> me_instructions ?n = me_instructions m)" if has: "me_has_code m"
  proof -
    obtain c1 c2 where c1: "method_code_attribute m = Inr c1" and c2: "find_map code_of as = Some c2"
      "reread order ?cp (finished (method_context options m c) pre maxs (Code c1)) = Inr (Code c2)"
      using written_code_found [OF as [unfolded mx] has] by metis
    have "code_exceptions c2 = code_exceptions c1" "(code_max_stack c2, code_max_locals c2) = chosen_maxs maxs c1"
      and insns: "parse_code_instructions (code_bytes c1) = Inr (code_instructions c2)"
      using c2(2) by (auto split: sum.splits)
    moreover obtain bytes insns where "build_code_from_insn_list (me_instructions m) = Inr (bytes, insns)"
      and "code_bytes c1 = bytes" "code_exceptions c1 = me_exception_table m"
      "code_max_stack c1 = me_max_stack m" "code_max_locals c1 = me_max_locals m"
      using c1 by (auto simp: method_code_attribute_def try_bind_Inr)
    moreover have "code_instructions c2 = me_instructions m" if "list_all insn_fits (me_instructions m)"
      using bytecode_roundtrip [OF that] insns calculation by auto
    ultimately show ?thesis
      using code c2(1) by (auto simp: code_kept_def chosen_maxs_def split: option.splits)
  qed
  hence "method_kept order ?cp options c mx ?n"
    using as code by (auto simp: method_kept_def mx code_of_none)
  moreover have "method_node_of cf mi = Inr ?n"
    unfolding method_node_of_def names parts n es try_bind_simps by simp
  ultimately show ?thesis by blast
qed

subsection \<open>The class\<close>

definition written_super :: "class_node \<Rightarrow> rust_text option" where
  "written_super c =
     (case cn_super_name c of
        Some name \<Rightarrow> Some name
      | None \<Rightarrow> if cn_name c = java_object then None else Some java_object)"

lemma super_written:
  assumes "super_index c cp = (i, cp')" and "pool_ok cp'"
  shows "optional_name (cp_class_name cp') i = Inr (written_super c)"
proof -
  have len: "length cp' \<le> 2 ^ 16" and first: "cp_get cp' 0 = Some Unusable"
    using assms(2) by (auto simp: pool_ok_def cp_get_def nth_opt_def split: list.splits cp_info.splits)
  have known: "cp_class_name cp' j = Inr n" if "ensure_class n cp = (j, cp')" for j n
    using internsD(3) [OF ensure_class_interns [of "\<lambda>_. True" n], of cp j cp'] that len
    by (simp add: on_pool_def)
  hence "optional_name (cp_class_name cp') j = Inr (Some n)" if "ensure_class n cp = (j, cp')" for j n
    using known [OF that] first by (cases "j = 0") (auto simp: optional_name_def cp_class_name_Inr)
  thus ?thesis
    using assms(1) by (auto simp: super_index_def written_super_def split: option.splits if_splits)
      (simp add: optional_name_def)
qed

lemma prepared_super:
  assumes "prepare_class options c = Inr p" and "pool_ok (pc_pool p)"
  shows "optional_name (cp_class_name (pc_pool p)) (pc_super p) = Inr (written_super c)"
  using assms by (auto simp: prepare_class_def Let_def try_bind_Inr split: prod.splits intro: super_written)

definition node_kept ::
    "(u16 list \<Rightarrow> u16 list) \<Rightarrow> u32 \<Rightarrow> class_node \<Rightarrow> prepared_class \<Rightarrow> class_node \<Rightarrow> bool" where
  "node_kept order options c p n \<longleftrightarrow>
     cn_name n = cn_name c \<and> cn_super_name n = written_super c \<and> cn_access n = cn_access c \<and>
     cn_interfaces n = cn_interfaces c \<and> cn_fields n = cn_fields c \<and>
     list_all2 (method_kept order (pc_pool p) options c) (pc_methods p) (cn_methods n) \<and>
     cn_attributes n = pc_attributes p"

text \<open>All names that the attributes of the class and its methods stand for are in the pool.\<close>

definition attribute_names_found :: "prepared_class \<Rightarrow> bool" where
  "attribute_names_found p \<longleftrightarrow>
     list_all (names_found (pc_pool p)) (pc_attributes p) \<and>
     list_all (\<lambda>(m, _). case method_attributes m of
         Inl e \<Rightarrow> True
       | Inr as \<Rightarrow> list_all (names_found (pc_pool p)) as) (pc_methods p)"

lemma class_node_read:
  assumes cf: "cf = \<lparr>minor_version = cn_minor_version c, major_version = cn_major_version c,
        constant_pool = pc_pool p, access_flags = cn_access c, this_class = cn_this_class c,
        super_class = pc_super p, interfaces = cn_interface_indices c, class_fields = fs, class_methods = ms,
        class_attributes = pc_attributes p\<rparr>"
    and p: "prepare_class options c = Inr p" and fits: "class_fits order options c p"
    and names: "attribute_names_found p"
    and fs: "list_all2 (field_is (pc_pool p)) (cn_fields c) fs"
    and ms: "list_all2 (method_is order (pc_pool p) options c) (pc_methods p) ms"
    and named: "cp_class_name (pc_pool p) (cn_this_class c) = Inr (cn_name c)"
    and ifs: "try_map (cp_class_name (pc_pool p)) (cn_interface_indices c) = Inr (cn_interfaces c)"
  shows "\<exists>n. cf_to_class_node cf = Inr n \<and> node_kept order options c p n"
proof -
  have lists: "class_fields cf = fs" "class_methods cf = ms" "constant_pool cf = pc_pool p"
    "class_attributes cf = pc_attributes p" "access_flags cf = cn_access c" by (simp_all add: cf)
  have "try_map (field_node_of cf) fs = Inr (cn_fields c)"
    by (rule try_map_all) (use fs field_node_read [of cf] in \<open>auto simp: cf elim: list_all2_mono\<close>)
  hence look: "as_read (cf_class_name cf (this_class cf)) = Inr (cn_name c)"
    "as_read (optional_name (cf_class_name cf) (super_class cf)) = Inr (written_super c)"
    "as_read (try_map (cf_class_name cf) (interfaces cf)) = Inr (cn_interfaces c)"
    "as_read (try_map (field_node_of cf) fs) = Inr (cn_fields c)"
    using prepared_super [OF p] fits named ifs
    by (simp_all add: as_read_def cf_lookups class_fits_def) (simp_all add: cf)
  have "list_all2 (\<lambda>mx mi. \<exists>n. method_node_of cf mi = Inr n \<and> method_kept order (pc_pool p) options c mx n)
      (pc_methods p) ms"
    using ms
  proof (rule list.rel_mono_strong)
    fix mx mi assume mx: "mx \<in> set (pc_methods p)" and mi: "method_is order (pc_pool p) options c mx mi"
    have "list_all (names_found (pc_pool p)) as" if "method_attributes (fst mx) = Inr as" for as
    proof -
      have "\<forall>(m, x) \<in> set (pc_methods p). case method_attributes m of
         Inl e \<Rightarrow> True | Inr as \<Rightarrow> list_all (names_found (pc_pool p)) as"
        using names by (simp add: attribute_names_found_def list_all_iff [of _ "pc_methods p"] split_beta)
      from bspec [OF this mx] that show ?thesis by (simp add: split_beta)
    qed
    thus "\<exists>n. method_node_of cf mi = Inr n \<and> method_kept order (pc_pool p) options c mx n"
      using method_node_read [of order cf options c mx mi] mi by (simp add: lists)
  qed
  then obtain ns where ns: "try_map (method_node_of cf) ms = Inr ns"
    "list_all2 (method_kept order (pc_pool p) options c) (pc_methods p) ns"
    using try_map_related by blast
  have "list_all (names_found (constant_pool cf)) (class_attributes cf)"
    using names by (simp add: attribute_names_found_def lists)
  note parts = class_parts_found [OF this] outer_found [OF this] module_found [OF this]
  from parts(1) obtain i where i: "as_read (try_map (inner_class_node_of cf)
      (concat (map inner_classes_of (class_attributes cf)))) = Inr i" by (auto simp: found_def as_read_def)
  from parts(2) obtain s where s: "as_read (try_map (cf_class_name cf)
      (or_default (find_map permitted_of (class_attributes cf)))) = Inr s" by (auto simp: found_def as_read_def)
  from parts(3) obtain r where r: "as_read (try_map (component_node_of cf)
      (or_default (find_map components_of (class_attributes cf)))) = Inr r" by (auto simp: found_def as_read_def)
  from parts(4) obtain oc where oc: "as_read (outer_class_of cf) = Inr oc" by (auto simp: found_def as_read_def)
  from parts(5) obtain md where md: "as_read (case find_module (class_attributes cf) of
      None \<Rightarrow> Inr None | Some m \<Rightarrow> map_sum id Some (cf_module cf m)) = Inr md" by (auto simp: found_def as_read_def)
  show ?thesis
    unfolding cf_to_class_node_def lists(1,2) look ns(1) i s r oc md try_bind_simps
    using ns(2) by (simp add: node_kept_def lists)
qed

subsection \<open>Visitors\<close>

text \<open>A visitor that takes every part and notes the calls it receives.\<close>

definition recorder :: "visit_call list visitor" where
  "recorder call calls = (True, calls @ [call])"

fun is_declaration :: "visit_call \<Rightarrow> bool" where
  "is_declaration (VisitClass _ _ _ _ _ _) = True"
| "is_declaration (VisitModule _ _ _) = True"
| "is_declaration (VisitField _ _ _) = True"
| "is_declaration (VisitMethod _ _ _) = True"
| "is_declaration _ = False"

text \<open>\<open>visits w ds\<close>: where the walk ends well, the declarations among its calls are \<open>ds\<close>.\<close>

definition visits :: "(visit_call list, 'a) walk \<Rightarrow> visit_call list \<Rightarrow> bool" where
  "visits w ds \<longleftrightarrow> (\<forall>s x s'. w s = (Inr x, s') \<longrightarrow> (\<exists>cs. s' = s @ cs \<and> filter is_declaration cs = ds))"

lemma visits_bind:
  assumes "visits w ds" and "\<And>x. visits (f x) es"
  shows "visits (walk_bind w f) (ds @ es)"
  unfolding visits_def
proof (intro allI impI)
  fix s y s'' assume "walk_bind w f s = (Inr y, s'')"
  then obtain x s' where "w s = (Inr x, s')" "f x s' = (Inr y, s'')"
    by (auto simp: walk_bind_def split: prod.splits sum.splits)
  with assms obtain cs cs' where "s' = s @ cs" "filter is_declaration cs = ds"
      "s'' = s' @ cs'" "filter is_declaration cs' = es"
    unfolding visits_def by metis
  thus "\<exists>cs. s'' = s @ cs \<and> filter is_declaration cs = ds @ es" by (intro exI [of _ "cs @ cs'"]) simp
qed

lemma visits_try: "(\<And>x. r = Inr x \<Longrightarrow> visits (f x) ds) \<Longrightarrow> visits (walk_bind (walk_try r) f) ds"
  by (cases r) (auto simp: visits_def walk_bind_def walk_try_def)

lemma visits_call: "visits (f True) ds \<Longrightarrow> visits (walk_bind (visit_with recorder c) f) (filter is_declaration [c] @ ds)"
proof -
  assume f: "visits (f True) ds"
  have "walk_bind (visit_with recorder c) f s = f True (s @ [c])" for s
    by (simp add: walk_bind_def visit_with_def recorder_def)
  with f show ?thesis
    unfolding visits_def by (metis append.assoc filter_append)
qed

lemma visits_last: "visits (visit_with recorder c) (filter is_declaration [c])"
  by (auto simp: visits_def visit_with_def recorder_def)

lemma visits_last_quiet: "\<not> is_declaration c \<Longrightarrow> visits (visit_with recorder c) []"
  using visits_last [of c] by simp

lemma visits_part:
  "is_declaration c \<Longrightarrow> visits w [] \<Longrightarrow>
   visits (walk_bind (visit_with recorder c) (\<lambda>visited. if visited then w else walk_ret y)) [c]"
  using visits_call [of "\<lambda>visited. if visited then w else walk_ret y" "[]" c] by simp

lemma visits_ret: "visits (walk_ret x) []"
  by (simp add: visits_def walk_ret_def)

lemma visits_quiet: "(\<And>x. \<not> is_declaration (mk x)) \<Longrightarrow> visits (visit_looked_up recorder mk r) []"
  unfolding visit_looked_up_def using visits_last by (intro visits_try) (metis (no_types) filter.simps)

lemma visits_all: "(\<And>x. x \<in> set xs \<Longrightarrow> visits (f x) (g x)) \<Longrightarrow> visits (walk_all f xs) (concat (map g xs))"
proof (induction xs)
  case (Cons x xs)
  have "visits (walk_bind (f x) (\<lambda>_. walk_all f xs)) (g x @ concat (map g xs))"
    using Cons by (intro visits_bind) simp_all
  thus ?case by (simp add: walk_all_def)
qed (simp add: walk_all_def visits_ret)

lemma visits_all_quiet: "(\<And>x. visits (f x) []) \<Longrightarrow> visits (walk_all f xs) []"
  using visits_all [of xs f "\<lambda>_. []"] by (simp add: concat_eq_Nil_conv [THEN iffD2])

lemma visits_quiet_bind: "visits w [] \<Longrightarrow> (\<And>x. visits (f x) ds) \<Longrightarrow> visits (walk_bind w f) ds"
  by (rule visits_bind [of w "[]", simplified])

lemma module_parts_quiet: "visits (visit_module_parts recorder cf m) []"
  unfolding visit_module_parts_def
  by (intro visits_quiet_bind visits_all_quiet visits_quiet visits_last_quiet)
    (simp_all split: prod.split)

definition module_call :: "module_node option \<Rightarrow> visit_call list" where
  "module_call module = (case module of None \<Rightarrow> [] | Some m \<Rightarrow> [VisitModule (mn_name m) (mn_access m) (mn_version m)])"

lemma module_visited:
  assumes "as_read (case find_module (class_attributes cf) of
      None \<Rightarrow> Inr None | Some m \<Rightarrow> map_sum id Some (cf_module cf m)) = Inr module"
  shows "visits (visit_module recorder cf) (module_call module)"
proof (cases "find_module (class_attributes cf)")
  case (Some m)
  then obtain node where "cf_module cf m = Inr node" "module = Some node" using assms by (auto simp: as_read_def)
  moreover from this have "cf_module_name cf (module_name_index m) = Inr (mn_name node)"
      "optional_name (cf_utf8 cf) (module_version_index m) = Inr (mn_version node)" "module_flags m = mn_access node"
    by (auto simp: cf_module_def try_bind_Inr)
  ultimately show ?thesis
    unfolding visit_module_def Some
    by (simp add: module_call_def as_read_def) (intro visits_try, simp add: visits_part module_parts_quiet)
next
  case None
  thus ?thesis using assms by (simp add: visit_module_def module_call_def as_read_def visits_ret)
qed

lemma field_visited:
  assumes "field_node_of cf f = Inr n"
  shows "visits (visit_field_of recorder cf f) [VisitField (fn_access n) (fn_name n) (fn_descriptor n)]"
proof -
  have "cf_utf8 cf (member_name f) = Inr (fn_name n)" "cf_utf8 cf (member_descriptor f) = Inr (fn_descriptor n)"
      "member_flags f = fn_access n"
    using assms by (auto simp: field_node_of_def try_bind_Inr)
  thus ?thesis
    unfolding visit_field_of_def
    by (simp add: as_read_def) (intro visits_try, simp add: visits_part visits_last_quiet)
qed

lemma instruction_quiet: "instruction_call cp offset insn = Inr c \<Longrightarrow> \<not> is_declaration c"
  by (auto simp: instruction_call_def split: insn.splits ldc_value.splits)

lemma code_quiet: "visits (visit_code_of recorder cp code) []"
proof -
  have insn: "visits (visit_instruction recorder cp at insn) []" for at insn
    unfolding visit_instruction_def visit_looked_up_def
    by (intro visits_try visits_last_quiet) (auto simp: as_read_def dest: instruction_quiet)
  have rest: "visits (walk_bind (walk_try (parse_code_instructions_with_offsets (code_bytes code))) (\<lambda>located.
     walk_bind (walk_all (\<lambda>(at, insn). visit_instruction recorder cp (ucast at) insn) located) (\<lambda>_.
     visit_with recorder (VisitMaxs (code_max_stack code) (code_max_locals code))))) []"
    by (intro visits_try visits_quiet_bind visits_all_quiet visits_last_quiet)
      (auto simp: insn split: prod.split)
  show ?thesis
    unfolding visit_code_of_def using visits_call [OF rest, of VisitCode] by simp
qed

lemma method_visited:
  assumes "method_node_of cf m = Inr n"
  shows "visits (visit_method_of recorder cf m) [VisitMethod (me_access n) (me_name n) (me_descriptor n)]"
proof -
  have "cf_utf8 cf (member_name m) = Inr (me_name n)" "cf_utf8 cf (member_descriptor m) = Inr (me_descriptor n)"
      "member_flags m = me_access n"
    using assms by (auto simp: method_node_of_def try_bind_Inr as_read_def)
  moreover have "visits (walk_bind (case find_map code_of (member_attributes m) of
        Some code \<Rightarrow> visit_code_of recorder (constant_pool cf) code
      | None \<Rightarrow> walk_ret True) (\<lambda>_. visit_with recorder VisitMethodEnd)) []"
    by (intro visits_quiet_bind visits_last_quiet) (simp_all add: code_quiet visits_ret split: option.split)
  ultimately show ?thesis
    unfolding visit_method_of_def by (simp add: as_read_def) (intro visits_try, simp add: visits_part)
qed

definition declaration_calls :: "class_node \<Rightarrow> visit_call list" where
  "declaration_calls n =
     VisitClass (cn_major_version n) (cn_minor_version n) (cn_access n) (cn_name n) (cn_super_name n) (cn_interfaces n) #
     module_call (cn_module n) @
     map (\<lambda>f. VisitField (fn_access f) (fn_name f) (fn_descriptor f)) (cn_fields n) @
     map (\<lambda>m. VisitMethod (me_access m) (me_name m) (me_descriptor m)) (cn_methods n)"

lemma visits_members:
  assumes "try_map f xs = Inr ys" and "\<And>x y. f x = Inr y \<Longrightarrow> visits (g x) [h y]"
  shows "visits (walk_all g xs) (map h ys)"
  using assms(1)
proof (induction xs arbitrary: ys)
  case (Cons x xs)
  then obtain y ys' where "f x = Inr y" "try_map f xs = Inr ys'" "ys = y # ys'" by (auto split: sum.splits)
  thus ?case
    using visits_bind [OF assms(2), of x y "\<lambda>_. walk_all g xs" "map h ys'"] Cons.IH [of ys'] by (simp add: walk_all_def)
qed (simp add: walk_all_def visits_ret)

lemma class_visited:
  assumes "cf_to_class_node cf = Inr n"
  shows "visits (accept_class recorder cf) (declaration_calls n)"
proof -
  have n: "cf_class_name cf (this_class cf) = Inr (cn_name n)"
    "optional_name (cf_class_name cf) (super_class cf) = Inr (cn_super_name n)"
    "try_map (cf_class_name cf) (interfaces cf) = Inr (cn_interfaces n)"
    "try_map (field_node_of cf) (class_fields cf) = Inr (cn_fields n)"
    "try_map (method_node_of cf) (class_methods cf) = Inr (cn_methods n)"
    "as_read (case find_module (class_attributes cf) of
      None \<Rightarrow> Inr None | Some m \<Rightarrow> map_sum id Some (cf_module cf m)) = Inr (cn_module n)"
    "major_version cf = cn_major_version n" "minor_version cf = cn_minor_version n" "access_flags cf = cn_access n"
    using assms by (auto simp: cf_to_class_node_def try_bind_Inr as_read_def)
  have members: "visits (walk_bind (visit_module recorder cf) (\<lambda>_.
     walk_bind (walk_all (visit_field_of recorder cf) (class_fields cf)) (\<lambda>_.
     walk_bind (walk_all (visit_method_of recorder cf) (class_methods cf)) (\<lambda>_.
     visit_with recorder VisitEnd)))) (tl (declaration_calls n))"
    using visits_bind [OF module_visited [OF n(6)] visits_bind [OF visits_members [OF n(4) field_visited]
        visits_bind [OF visits_members [OF n(5) method_visited] visits_last [where c = VisitEnd]]]]
    by (simp add: declaration_calls_def)
  show ?thesis
    unfolding accept_class_def n(1-3) n(7-9)
    by (simp add: as_read_def, rule visits_try, rule visits_try, rule visits_try)
      (simp add: declaration_calls_def, rule visits_call [where c = "VisitClass _ _ _ _ _ _", simplified],
       rule visits_quiet_bind [OF visits_all_quiet [OF visits_quiet]], simp,
       use members in \<open>simp add: declaration_calls_def\<close>)
qed

end
