(* ===== verification/BuilderFacts.thy ===== *)
theory BuilderFacts imports NodeFacts Backpatching begin

text \<open>
  What \<^verbatim>\<open>ClassWriter\<close> makes: the indices of the class denote its names, and the module that was visited
  is the module of the class.
\<close>

subsection \<open>The pool of the writer\<close>

abbreviation cw_interns ::
    "u32 \<Rightarrow> (cp_info list \<Rightarrow> bool) \<Rightarrow> 'a building \<Rightarrow> (cp_info list \<Rightarrow> 'a \<Rightarrow> bool) \<Rightarrow> bool" where
  "cw_interns options \<equiv>
     interns (\<lambda>w. pb_pool (cw_pool w)) (\<lambda>w. builder_ok (cw_pool w) \<and> cw_options w = options)"

lemma interns_in_pool [intern_rules]:
  assumes "pb_interns P f Q"
  shows "cw_interns options P (in_pool f) Q"
  unfolding interns_def in_pool_def
proof (intro allI impI)
  fix w x w'
  assume "run_state (State (\<lambda>w. case run_state f (cw_pool w) of (x, b) \<Rightarrow> (x, w\<lparr>cw_pool := b\<rparr>))) w = (x, w')"
  then obtain b where "run_state f (cw_pool w) = (x, b)" and w': "w' = w\<lparr>cw_pool := b\<rparr>" by (auto split: prod.splits)
  with assms show "prefix (pb_pool (cw_pool w)) (pb_pool (cw_pool w')) \<and>
      (builder_ok (cw_pool w) \<and> cw_options w = options \<longrightarrow> (\<forall>cp. prefix (pb_pool (cw_pool w)) cp \<longrightarrow> P cp) \<longrightarrow>
         length (pb_pool (cw_pool w')) \<le> 2 ^ 16 \<longrightarrow>
         (builder_ok (cw_pool w') \<and> cw_options w' = options) \<and> (\<forall>cp. prefix (pb_pool (cw_pool w')) cp \<longrightarrow> Q cp x))"
    by (simp add: interns_def)
qed

lemma interns_elsewhere:
  assumes "\<And>w x w'. run_state f w = (x, w') \<Longrightarrow> cw_pool w' = cw_pool w \<and> cw_options w' = cw_options w"
  shows "cw_interns options P f (\<lambda>_ _. True)"
  using assms by (auto simp: interns_def)

lemmas interns_any = interns_weaken [where R = "\<lambda>_ _. True"]

lemma bootstrap_argument_interns: "pb_interns P (bootstrap_argument_index arg) (\<lambda>_ _. True)"
  unfolding bootstrap_argument_index_def
  by (cases arg; simp; rule interns_any, (rule constant_interns wide_constant_interns pb_method_handle_interns); simp)

lemma writer_bootstrap_interns: "cw_interns options P (writer_bootstrap_method bsm args) (\<lambda>_ _. True)"
  unfolding writer_bootstrap_method_def
proof (rule interns_bind)
  show "cw_interns options P (in_pool (do { i \<leftarrow> pb_method_handle bsm;
      is \<leftarrow> for_each bootstrap_argument_index args; ret (BootstrapMethod i is) })) (\<lambda>_ _. True)"
    by (intro interns_in_pool interns_bind [OF pb_method_handle_interns]
        interns_bind [OF interns_for_each [OF bootstrap_argument_interns]] interns_ret TrueI)
qed (rule interns_elsewhere, auto split: prod.splits)

lemma resolve_node_interns: "cw_interns options P (resolve_node n names) (\<lambda>_ _. True)"
proof -
  have "cw_interns options P (do { b \<leftarrow> writer_bootstrap_method bsm args;
      i \<leftarrow> in_pool (pb_invoke_dynamic b name descriptor); ret (g i) }) (\<lambda>_ _. True)"
    for bsm args name descriptor and g :: "u16 \<Rightarrow> abstract_insn_node \<times> rust_text list"
    by (intro interns_bind [OF writer_bootstrap_interns] interns_bind [OF interns_in_pool [OF pb_invoke_dynamic_interns]]
        interns_ret TrueI)
  thus ?thesis
    unfolding resolve_node_def
    by (auto split: abstract_insn_node.split insn.split list.split option.split intro!: interns_ret
        interns_bind [OF interns_in_pool [OF pb_class_interns]])
qed

lemma resolve_nodes_interns: "cw_interns options P (resolve_nodes ns names) (\<lambda>_ _. True)"
proof (induction ns arbitrary: names P)
  case (Cons n ns)
  show ?case
    unfolding resolve_nodes.simps
    by (rule interns_bind [OF resolve_node_interns])
      (auto split: prod.split intro!: interns_bind [OF Cons.IH] interns_ret)
qed (simp add: interns_ret)

lemma built_code_interns: "pb_interns P (built_code v insns) (\<lambda>_ _. True)"
  unfolding built_code_def
  by (auto intro!: interns_ret interns_bind [OF Backpatching.built_code])

lemma method_visit_end_interns: "cw_interns options P (method_visit_end v) (\<lambda>_ _. True)"
  unfolding method_visit_end_def
  by (intro interns_bind [OF resolve_nodes_interns] interns_bind [OF interns_in_pool [OF built_code_interns]]
      interns_elsewhere) auto

lemma optional_index_interns: "(\<And>n. pb_interns P (f n) (Q n)) \<Longrightarrow> pb_interns P (optional_index f name) (\<lambda>_ _. True)"
  unfolding optional_index_def by (auto split: option.split intro: interns_ret interns_weaken)

lemma inner_class_entry_interns: "pb_interns P (inner_class_entry e) (\<lambda>_ _. True)"
  unfolding inner_class_entry_def
  by (intro interns_bind [OF pb_class_interns] interns_bind [OF optional_index_interns [OF pb_class_interns]]
      interns_bind [OF optional_index_interns [OF pb_utf8_interns]] interns_ret TrueI)

text \<open>What the visitors do to their writer.\<close>

inductive writer_step :: "builder \<Rightarrow> builder \<Rightarrow> bool" where
  "writer_step w (visit_class major minor access name super ifs w)"
| "writer_step w (visit_source_file s w)"
| "writer_step w (visit_inner_class name outer inner access w)"
| "writer_step w (visit_permitted_subclass name w)"
| "writer_step w (add_class_attribute a w)"
| "writer_step w (snd (module_visit_end mw w))"
| "writer_step w (snd (module_drop mw w))"
| "writer_step w (snd (field_visit_end fv w))"
| "writer_step w (snd (field_drop fv w))"
| "writer_step w (snd (component_visit_end rv w))"
| "writer_step w (snd (component_drop rv w))"
| "writer_step w (snd (run_state (method_visit_end mv) w))"

text \<open>The pool is only added to, and what the builder knows of it stays right.\<close>

definition writer_ok :: "u32 \<Rightarrow> builder \<Rightarrow> bool" where
  "writer_ok options w \<longleftrightarrow>
     builder_ok (cw_pool w) \<and> cw_options w = options \<and> first_unusable (pb_pool (cw_pool w))"

definition writer_grows :: "builder \<Rightarrow> builder \<Rightarrow> bool" where
  "writer_grows w w' \<longleftrightarrow>
     prefix (pb_pool (cw_pool w)) (pb_pool (cw_pool w')) \<and>
     (length (pb_pool (cw_pool w')) \<le> 2 ^ 16 \<longrightarrow> writer_ok (cw_options w) w \<longrightarrow> writer_ok (cw_options w) w')"

lemma first_unusable_prefix: "first_unusable cp \<Longrightarrow> prefix cp cp' \<Longrightarrow> first_unusable cp'"
  using cp_get_prefix by (auto simp: first_unusable_def)

lemma writer_grows_same: "cw_pool w' = cw_pool w \<Longrightarrow> cw_options w' = cw_options w \<Longrightarrow> writer_grows w w'"
  by (simp add: writer_grows_def writer_ok_def)

lemma writer_grows_interns:
  assumes f: "\<And>options. cw_interns options first_unusable f Q" and run: "run_state f w = (x, w')"
  shows "writer_grows w w'"
  using internsD(1) [OF f run] internsD(2) [OF f run, of "cw_options w"] first_unusable_prefix
  by (auto simp: writer_grows_def writer_ok_def)

lemma writer_grows_pool:
  assumes f: "pb_interns first_unusable f Q" and run: "run_state f (cw_pool w) = (x, b)" and "cw_pool w' = b"
    and "cw_options w' = cw_options w"
  shows "writer_grows w w'"
  using internsD(1,2) [OF f run] assms(3,4) first_unusable_prefix by (auto simp: writer_grows_def writer_ok_def)

lemma module_end_grows: "writer_grows w (snd (module_visit_end mw w))"
  unfolding module_visit_end_def
  by (auto split: prod.split intro!: writer_grows_pool [OF module_built])

lemma inner_class_grows: "writer_grows w (visit_inner_class name outer inner access w)"
  unfolding visit_inner_class_def
  by (auto split: prod.split intro!: writer_grows_pool [OF inner_class_entry_interns])

lemma writer_step_grows: "writer_step w w' \<Longrightarrow> writer_grows w w'"
proof (induction rule: writer_step.induct)
  case (12 w mv)
  show ?case
    by (rule writer_grows_interns [OF method_visit_end_interns prod.collapse [symmetric]])
qed (simp_all add: visit_class_def visit_source_file_def visit_permitted_subclass_def add_class_attribute_def
      field_visit_end_def field_drop_def component_visit_end_def component_drop_def module_drop_def
      inner_class_grows module_end_grows writer_grows_same)

definition written_by :: "u32 \<Rightarrow> builder \<Rightarrow> bool" where
  "written_by options w \<longleftrightarrow> writer_step\<^sup>*\<^sup>* (class_writer_new options) w"

lemma writer_new_ok: "writer_ok options (class_writer_new options)"
  by (simp add: writer_ok_def class_writer_new_def builder_ok_def first_unusable_def pool_builder_new_def cp_get_def
      nth_opt_def)

lemma writer_invariant:
  assumes "written_by options w" and "length (pb_pool (cw_pool w)) \<le> 2 ^ 16"
  shows "writer_ok options w"
proof -
  have "length (pb_pool (cw_pool w)) \<le> 2 ^ 16 \<longrightarrow> writer_ok options w"
    using assms(1) unfolding written_by_def
  proof (induction rule: rtranclp_induct)
    case (step w w')
    from writer_step_grows [OF step.hyps(2)] step.IH show ?case
      using prefix_length_le order_trans by (fastforce simp: writer_grows_def writer_ok_def)
  qed (simp add: writer_new_ok)
  with assms(2) show ?thesis by simp
qed

subsection \<open>The class that was built\<close>

lemma source_interns:
  "pb_interns P (source_attribute source) (\<lambda>cp attrs.
     (case source of None \<Rightarrow> attrs = [] | Some s \<Rightarrow> \<exists>i. attrs = [SourceFile i] \<and> cp_utf8 cp i = Inr s))"
  unfolding source_attribute_def
  by (cases source) (auto intro!: interns_ret interns_bind [OF pb_utf8_interns])

lemma permitted_interns:
  "pb_interns P (permitted_attribute names) (\<lambda>cp attrs.
     names = [] \<and> attrs = [] \<or>
     (\<exists>is. attrs = [PermittedSubclasses is] \<and> try_map (cp_class_name cp) is = Inr names))"
  unfolding permitted_attribute_def
  by (auto intro!: interns_ret interns_bind [OF interns_for_each [OF pb_class_interns]] try_map_all
      elim: list_all2_mono)

lemma record_interns:
  "pb_interns P (record_attribute components) (\<lambda>cp attrs. attrs = [] \<or> (\<exists>cs. attrs = [Record cs]))"
  unfolding record_attribute_def component_entry_def
  by (auto intro!: interns_ret interns_bind [OF interns_for_each]  interns_bind [OF pb_utf8_interns])

definition indices_denote :: "builder \<Rightarrow> cp_info list \<Rightarrow> u16 \<times> u16 list \<times> attribute_info list \<Rightarrow> bool" where
  "indices_denote w cp x \<longleftrightarrow>
     (case x of (this, ifs, attrs) \<Rightarrow>
        cp_class_name cp this = Inr (cw_name w) \<and> try_map (cp_class_name cp) ifs = Inr (cw_interfaces w) \<and>
        (\<exists>new. attrs = cw_attributes w @ new \<and> \<not> list_ex is_module_part new))"

lemma class_indices_interns: "pb_interns P (class_indices w) (indices_denote w)"
  unfolding class_indices_def
  by (rule interns_bind [OF pb_class_interns], rule interns_bind [OF interns_discard [OF optional_index_interns
        [OF pb_class_interns]]], rule interns_bind [OF interns_for_each [OF pb_class_interns]],
      rule interns_bind [OF source_interns], rule interns_bind [OF permitted_interns],
      rule interns_bind [OF record_interns], rule interns_ret)
    (auto simp: indices_denote_def split: option.splits intro!: try_map_all elim: list_all2_mono)

lemma built_class_denotes:
  assumes "built_class w = Inr c" and "writer_ok options w" and "length (cn_constant_pool c) \<le> 2 ^ 16"
  shows "indices_denote w (cn_constant_pool c) (cn_this_class c, cn_interface_indices c, cn_attributes c)"
    and "cn_name c = cw_name w" and "cn_interfaces c = cw_interfaces w"
proof -
  obtain this ifs attrs b where run: "run_state (class_indices w) (cw_pool w) = ((this, ifs, attrs), b)"
    by (metis prod.collapse)
  with assms(1) have c: "cn_constant_pool c = pb_pool b" "cn_this_class c = this" "cn_interface_indices c = ifs"
      "cn_attributes c = attrs" and names: "cn_name c = cw_name w" "cn_interfaces c = cw_interfaces w"
    by (auto simp: built_class_def Let_def into_pool_def try_bind_Inr split: if_splits)
  show "indices_denote w (cn_constant_pool c) (cn_this_class c, cn_interface_indices c, cn_attributes c)"
    using internsD(3) [OF class_indices_interns [of "\<lambda>_. True"] run, of "pb_pool b"] assms(2,3)
    by (simp add: c writer_ok_def)
  show "cn_name c = cw_name w" "cn_interfaces c = cw_interfaces w" by (fact names)+
qed

lemma finds_append:
  "find_module (xs @ ys) = (case find_module xs of None \<Rightarrow> find_module ys | Some m \<Rightarrow> Some m)"
  "find_packages (xs @ ys) = (case find_packages xs of None \<Rightarrow> find_packages ys | Some t \<Rightarrow> Some t)"
  "find_main_class (xs @ ys) = (case find_main_class xs of None \<Rightarrow> find_main_class ys | Some i \<Rightarrow> Some i)"
  by (induction xs; simp; rename_tac a xs, case_tac a; simp)+

lemma finds_none:
  assumes "\<not> list_ex is_module_part xs"
  shows "find_module xs = None" "find_packages xs = None" "find_main_class xs = None"
  using assms by (induction xs; simp; rename_tac a xs, case_tac a; simp)+

text \<open>Attributes of other kinds before and behind those of the module do not matter.\<close>

lemma decode_module_among:
  assumes "\<not> list_ex is_module_part xs" and "\<not> list_ex is_module_part zs"
  shows "decode_module_node cp (xs @ ys @ zs) = decode_module_node cp ys"
proof -
  note none = finds_none [OF assms(1)] finds_none [OF assms(2)]
  have "find_module (xs @ ys @ zs) = find_module ys" "find_packages (xs @ ys @ zs) = find_packages ys"
    "find_main_class (xs @ ys @ zs) = find_main_class ys"
    by (simp_all add: finds_append none split: option.split)
  moreover from this have "decode_module cp (xs @ ys @ zs) m = decode_module cp ys m" for m
    by (simp add: decode_module_def decode_packages_def decode_main_class_def)
  ultimately show ?thesis by (cases "find_module ys") (simp_all add: decode_module_node_def)
qed

lemma module_of_built_class:
  assumes "written_by options w" and "built_class (snd (module_visit_end mw w)) = Inr c"
    and len: "length (cn_constant_pool c) \<le> 2 ^ 16"
  shows "cn_module c = Some (mw_module mw)"
proof -
  let ?w = "snd (module_visit_end mw w)"
  obtain new b where build: "run_state (build_module_attributes (mw_module mw)) (cw_pool w) = (new, b)" by fastforce
  hence w: "cw_pool ?w = b" "cw_attributes ?w = filter (\<lambda>a. \<not> is_module_part a) (cw_attributes w) @ new"
    by (simp_all add: module_visit_end_def)
  obtain this ifs attrs b' where run: "run_state (class_indices ?w) b = ((this, ifs, attrs), b')"
    by (metis prod.collapse)
  with assms(2) have c: "cn_constant_pool c = pb_pool b'" "decode_module_node (pb_pool b') attrs = Inr (cn_module c)"
    by (auto simp: w built_class_def Let_def into_pool_def try_bind_Inr split: if_splits)
  have grow: "prefix (pb_pool b) (pb_pool b')" by (rule internsD(1) [OF class_indices_interns run])
  hence len_b: "length (pb_pool b) \<le> 2 ^ 16" using prefix_length_le len c(1) by fastforce
  have "prefix (pb_pool (cw_pool w)) (pb_pool b)" by (rule internsD(1) [OF module_built build])
  hence "length (pb_pool (cw_pool w)) \<le> 2 ^ 16" using prefix_length_le len_b by fastforce
  hence ok: "writer_ok options w" by (rule writer_invariant [OF assms(1)])
  hence first: "first_unusable cp" if "prefix (pb_pool (cw_pool w)) cp" for cp
    using that first_unusable_prefix unfolding writer_ok_def by blast
  have "decode_module_node (pb_pool b') new = Inr (Some (mw_module mw))"
    by (rule internsD(3) [OF module_built build _ first len_b grow]) (use ok in \<open>simp_all add: writer_ok_def\<close>)
  moreover obtain more where "attrs = cw_attributes ?w @ more" "\<not> list_ex is_module_part more"
    using internsD(3) [OF class_indices_interns [of "\<lambda>_. True"] run, of "pb_pool b'"] len c(1) ok
      internsD(2) [OF module_built build] first_unusable_prefix len_b
    by (auto simp: indices_denote_def writer_ok_def)
  moreover have "\<not> list_ex is_module_part (filter (\<lambda>a. \<not> is_module_part a) (cw_attributes w))"
    by (simp add: list_ex_iff)
  ultimately show ?thesis using c(2) decode_module_among by (simp add: w)
qed

subsection \<open>Preparing the class keeps its pool\<close>

definition extends :: "'a linking \<Rightarrow> bool" where
  "extends f \<longleftrightarrow> (\<forall>attrs cp x attrs' cp'. cp \<noteq> [] \<longrightarrow> run_state f (attrs, cp) = (x, attrs', cp') \<longrightarrow> prefix cp cp')"

lemma extends_bind:
  assumes "extends f" and "\<And>x. extends (g x)"
  shows "extends (State_Monad.bind f g)"
  unfolding extends_def
proof (intro allI impI)
  fix attrs cp y attrs'' cp''
  assume "cp \<noteq> []" and "run_state (State_Monad.bind f g) (attrs, cp) = (y, attrs'', cp'')"
  then obtain x attrs' cp' where f: "run_state f (attrs, cp) = (x, attrs', cp')"
    and g: "run_state (g x) (attrs', cp') = (y, attrs'', cp'')"
    by (auto split: prod.splits)
  have "prefix cp cp'" using assms(1) f \<open>cp \<noteq> []\<close> unfolding extends_def by blast
  moreover from this have "cp' \<noteq> []" using \<open>cp \<noteq> []\<close> by auto
  hence "prefix cp' cp''" using assms(2) g unfolding extends_def by blast
  ultimately show "prefix cp cp''" by (rule prefix_order.trans)
qed

lemma extends_ret: "extends (ret x)"
  by (simp add: extends_def)

lemma extends_attrs: "extends (attrs_action f)"
  by (auto simp: extends_def attrs_action_def split: prod.splits)

lemma extends_pool: "cp_interns (\<lambda>_. True) f Q \<Longrightarrow> extends (pool_action f)"
  by (auto simp: extends_def pool_action_def interns_def split: prod.splits)

lemma extends_for_each: "(\<And>x. extends (f x)) \<Longrightarrow> extends (for_each f xs)"
  by (induction xs) (auto intro!: extends_bind extends_ret)

lemma cp_interns_any: "cp_interns P f Q \<Longrightarrow> cp_interns P f (\<lambda>_ _. True)"
  by (erule interns_weaken) simp_all

lemma number_interns:
  "cp_interns P (on_pool (ensure_int i)) (\<lambda>_ _. True)" "cp_interns P (on_pool (ensure_float i)) (\<lambda>_ _. True)"
  "cp_interns P (on_pool (ensure_long l)) (\<lambda>_ _. True)" "cp_interns P (on_pool (ensure_double l)) (\<lambda>_ _. True)"
  unfolding ensure_int_def ensure_float_def ensure_long_def ensure_double_def
  by (rule cp_interns_any [OF ensure_entry_interns])+
    (rule interns_on_pool, auto simp: ensure_wide_def split: option.splits)+

lemma bootstrap_arg_interns: "cp_interns P (on_pool (ensure_bootstrap_arg arg)) (\<lambda>_ _. True)"
  by (cases arg) (simp_all add: ensure_bootstrap_arg_def number_interns
      cp_interns_any [OF ensure_indirect_interns(1)] cp_interns_any [OF ensure_indirect_interns(2)]
      cp_interns_any [OF ensure_class_interns] cp_interns_any [OF ensure_method_handle_interns])

lemma extends_resolution: "extends (resolve_invokedynamic_methods methods)"
proof -
  have "extends (ensure_bootstrap_method bsm args)" for bsm args
    unfolding ensure_bootstrap_method_def
    by (intro extends_bind extends_attrs extends_pool [where Q = "\<lambda>_ _. True"]
        interns_bind [OF ensure_method_handle_interns]
        interns_bind [OF interns_for_each [OF bootstrap_arg_interns]] interns_ret TrueI)
  hence "extends (resolve_invokedynamic insn)" for insn
    unfolding resolve_invokedynamic_def
    by (auto split: insn.split option.split
        intro!: extends_ret extends_bind extends_pool [OF ensure_invoke_dynamic_interns])
  thus ?thesis
    unfolding resolve_invokedynamic_methods_def
    by (intro extends_for_each extends_bind extends_ret) simp
qed

lemma from_pool_pool: "cp \<noteq> [] \<Longrightarrow> pb_pool (from_pool cp) = cp"
  by (simp add: from_pool_def Let_def)

lemma extends_source: "extends (add_source_file source)"
  unfolding add_source_file_def
  by (auto split: option.split intro!: extends_ret extends_bind extends_attrs extends_pool [OF ensure_utf8_interns])

lemma extends_module: "extends (add_module module)"
  unfolding extends_def add_module_def
  by (auto split: option.splits if_splits prod.splits simp: into_pool_def
      dest!: internsD(1) [OF module_built] simp: from_pool_pool)

lemma ensure_names_prefix: "prefix cp (ensure_names names cp)"
proof (induction names arbitrary: cp)
  case (Cons n names)
  have "prefix cp (snd (ensure_utf8 n cp))" using ensure_utf8_prefix [of n cp] by (metis prod.collapse)
  with Cons [of "snd (ensure_utf8 n cp)"] show ?case
    by (auto simp: ensure_names_def intro: prefix_order.trans)
qed (simp add: ensure_names_def)

lemma precompute_prefix: "precompute options c m cp = Inr (x, cp') \<Longrightarrow> prefix cp cp'"
  by (auto simp: precompute_def try_bind_Inr split: if_splits dest: compute_stack_map_prefix)

lemma precompute_all_prefix: "precompute_all options c ms cp = Inr (pms, cp') \<Longrightarrow> prefix cp cp'"
  by (induction ms arbitrary: cp pms)
    (fastforce simp: try_bind_Inr intro: prefix_order.trans dest: precompute_prefix)+

lemma ensure_class_prefix: "ensure_class n cp = (i, cp') \<Longrightarrow> prefix cp cp'"
  using internsD(1) [OF ensure_class_interns [of "\<lambda>_. True" n], of cp i cp'] by (simp add: on_pool_def)

lemma prepared_prefix:
  assumes "prepare_class options c = Inr p" and "cn_constant_pool c \<noteq> []"
  shows "prefix (cn_constant_pool c) (pc_pool p)"
proof -
  obtain methods attrs cp where link: "run_state (do { methods \<leftarrow> resolve_invokedynamic_methods (cn_methods c);
      add_source_file (cn_source_file c); add_module (cn_module c); ret methods })
      (cn_attributes c, cn_constant_pool c) = (methods, attrs, cp)"
    by (metis prod.collapse)
  have "extends (do { methods \<leftarrow> resolve_invokedynamic_methods (cn_methods c);
      add_source_file (cn_source_file c); add_module (cn_module c); ret methods })"
    by (intro extends_bind extends_resolution extends_source extends_module extends_ret)
  hence "prefix (cn_constant_pool c) cp" using assms(2) link unfolding extends_def by blast
  moreover define named where "named = ensure_names (attribute_names c methods attrs @ method_names methods) cp"
  moreover obtain pms cp' super where pre: "precompute_all options c methods
      (if and options 1 \<noteq> 0 then snd (ensure_utf8 (text_of ''StackMapTable'') named) else named) = Inr (pms, cp')"
    and super: "super_index c cp' = (super, pc_pool p)"
    using assms(1) unfolding prepare_class_def link Let_def named_def
    by (auto simp: try_bind_Inr split: prod.splits) (metis prepared_class.select_convs(1) prod.collapse)
  have "prefix named (if and options 1 \<noteq> 0 then snd (ensure_utf8 (text_of ''StackMapTable'') named) else named)"
    using ensure_utf8_prefix [of "text_of ''StackMapTable''" named] by (simp split: if_split) (metis prod.collapse)
  hence "prefix named cp'" using precompute_all_prefix [OF pre] by (rule prefix_order.trans)
  hence "prefix cp cp'" unfolding named_def using ensure_names_prefix prefix_order.trans by blast
  moreover have "prefix cp' (pc_pool p)"
    using super by (auto simp: super_index_def split: option.splits if_splits dest: ensure_class_prefix)
  ultimately show ?thesis by (meson prefix_order.trans)
qed

subsection \<open>From the writer to the reader\<close>

lemma named_in_pool:
  assumes "indices_denote w cp (this, ifs, attrs)" and "prefix cp cp'"
  shows "cp_class_name cp' this = Inr (cw_name w)" and "try_map (cp_class_name cp') ifs = Inr (cw_interfaces w)"
proof -
  show "cp_class_name cp' this = Inr (cw_name w)"
    using assms lookups_prefix(1) by (auto simp: indices_denote_def)
  have "list_all2 (\<lambda>i n. cp_class_name cp i = Inr n) ifs (cw_interfaces w)"
    using assms(1) by (auto simp: indices_denote_def dest: try_map_Inr)
  hence "list_all2 (\<lambda>n i. cp_class_name cp' i = Inr n) (cw_interfaces w) ifs"
    using lookups_prefix(1) [OF assms(2)] by (auto simp: list_all2_conv_all_nth)
  thus "try_map (cp_class_name cp') ifs = Inr (cw_interfaces w)" by (rule try_map_all)
qed

end
