(* ===== verification/NodeSpec.thy ===== *)
theory NodeSpec imports ClassSpec BuilderFacts begin

text \<open>
  The properties of the trees of classes, of the visitors and of the writer that builds classes.
\<close>

subsection \<open>Building a class\<close>

lemma class_indices_grow: "run_state (class_indices w) b = (x, b') \<Longrightarrow> prefix (pb_pool b) (pb_pool b')"
  by (rule internsD(1) [OF class_indices_interns [where P = "\<lambda>_. True"]])

lemma written_pool: "written_by options w \<Longrightarrow> pb_pool (cw_pool w) \<noteq> []"
  unfolding written_by_def
proof (induction rule: rtranclp_induct)
  case (step w w')
  from writer_step_grows [OF step.hyps(2)] step.IH show ?case by (auto simp: writer_grows_def)
qed (simp add: class_writer_new_def pool_builder_new_def)

lemma built_parts:
  assumes "built_class w = Inr c"
  shows "cn_name c = cw_name w" and "cn_access c = cw_access w" and "cn_interfaces c = cw_interfaces w"
    and "cn_fields c = cw_fields w" and "cn_methods c = cw_methods w"
  using assms by (auto simp: built_class_def Let_def try_bind_Inr split: if_splits prod.splits)

text \<open>C7. Building: a class that was built by the visitors of a \<^verbatim>\<open>ClassWriter\<close>, whatever its options, is
  read back as a tree with the names, the flags, the interfaces and the fields the writer was told,
  with a superclass where it was told none, with the attributes of the class that was built, and with
  its methods: their headers, their attributes, and their code as the reader derives it from the
  bytes, whose instructions, if they fit their forms, are those that were built. This where the
  class fits (as in the property of class files), all constants are in the pool when it is written,
  which the name of a field is only if something else has put it there, and where the indices in the
  attributes stand for names in the pool.\<close>

theorem built_class_is_read_back:
  assumes "written_by options w" and "built_class w = Inr c" and "prepare_class options c = Inr p"
    and "write_body options c p = Inr (body, pc_pool p)" and "class_fits order options c p"
    and "attribute_names_found p" and "length body < 2 ^ 32"
  shows "\<exists>bytes n. writer_to_bytes w = Inr bytes \<and> to_class_node order bytes = Inr n \<and>
    node_kept order options c p n \<and>
    cn_name n = cw_name w \<and> cn_access n = cw_access w \<and> cn_interfaces n = cw_interfaces w \<and>
    cn_fields n = cw_fields w \<and> list_all2 method_linked (cw_methods w) (map fst (pc_methods p))"
proof -
  have "prefix (pb_pool (cw_pool w)) (cn_constant_pool c)"
    using assms(2) class_indices_grow
    by (auto simp: built_class_def Let_def into_pool_def try_bind_Inr split: if_splits prod.splits)
  moreover have "pb_pool (cw_pool w) \<noteq> []"
    using written_pool [OF assms(1)] .
  ultimately have pool: "cn_constant_pool c \<noteq> []" by auto
  note grow = prepared_prefix [OF assms(3) pool]
  have len: "length (pc_pool p) \<le> 2 ^ 16" using assms(5) by (simp add: class_fits_def pool_ok_def)
  hence len_c: "length (cn_constant_pool c) \<le> 2 ^ 16" using prefix_length_le [OF grow] by simp
  hence "length (pb_pool (cw_pool w)) \<le> 2 ^ 16"
    using prefix_length_le [OF \<open>prefix (pb_pool (cw_pool w)) (cn_constant_pool c)\<close>] by simp
  hence ok: "writer_ok options w" by (rule writer_invariant [OF assms(1)])
  note denotes = built_class_denotes [OF assms(2) ok len_c]
  from class_bytes_read [OF assms(3,4,5) pool assms(7)] obtain bytes fs ms where
    bytes: "to_bytes options c = Inr bytes" and read: "read_class_file order bytes = Inr
      \<lparr>minor_version = cn_minor_version c, major_version = cn_major_version c, constant_pool = pc_pool p,
       access_flags = cn_access c, this_class = cn_this_class c, super_class = pc_super p,
       interfaces = cn_interface_indices c, class_fields = fs, class_methods = ms,
       class_attributes = pc_attributes p\<rparr>"
    and members: "list_all2 (field_is (pc_pool p)) (cn_fields c) fs"
      "list_all2 (method_is order (pc_pool p) options c) (pc_methods p) ms"
      "list_all2 method_linked (cn_methods c) (map fst (pc_methods p))" by blast
  obtain n where "to_class_node order bytes = Inr n" "node_kept order options c p n"
    unfolding to_class_node_def read try_bind_simps
    using class_node_read [OF refl assms(3,5,6) members(1,2)] named_in_pool [OF denotes(1) grow] denotes(2,3) by auto
  moreover have "writer_to_bytes w = Inr bytes"
    using ok bytes by (simp add: writer_to_bytes_def assms(2) writer_ok_def)
  ultimately show ?thesis using members(3) built_parts [OF assms(2)] by (auto simp: node_kept_def)
qed

text \<open>A class with a method that returns at once.\<close>

definition built_writer :: builder where
  "built_writer = snd (run_state (method_visit_end (mv_visit_insn 0xB1 (mv_visit_code
       (method_visitor_new 9 (text_of ''m'') (text_of ''()V'')))))
     (visit_class 52 0 1 (text_of ''A'') None [] (class_writer_new 0)))"

definition field_writer :: builder where
  "field_writer = snd (field_visit_end (field_visitor_new 1 (text_of ''x'') (text_of ''I''))
     (visit_class 52 0 1 (text_of ''A'') None [] (class_writer_new 0)))"

lemmas builder_evaluation =
  field_visit_end_def field_visitor_new_def visit_class_def class_writer_new_def built_class_def class_indices_def
  pb_class_def pb_utf8_def intern_def lookup_key_def insert_key_def push_entry_def optional_index_def
  source_attribute_def permitted_attribute_def record_attribute_def pool_builder_new_def into_pool_def
  raw_outer_class_def decode_module_node_def discard_def

lemma written_by_visit: "written_by options (visit_class major minor access name super ifs (class_writer_new options))"
  unfolding written_by_def by (rule r_into_rtranclp) (rule writer_step.intros)

lemma built_writer_written: "written_by 0 built_writer"
  using written_by_visit unfolding written_by_def built_writer_def
  by (rule rtranclp.rtrancl_into_rtrancl) (rule writer_step.intros)

lemmas method_evaluation =
  method_visit_end_def method_visitor_new_def in_pool_def built_code_def built_method_def or_default_def
  mv_visit_insn_def mv_visit_code_def mv_add_def resolve_node_def build_code_def emit_node_def emit_insn_def
  append_insn_def assembly_new_def apply_fixups_def line_entries_def write_u1_def Let_def

lemma text_of_Nil [simp]: "text_of s = [] \<longleftrightarrow> s = []"
  by (simp add: text_of_def)

definition field_class :: class_node where
  "field_class = empty_class\<lparr>cn_access := 1, cn_name := text_of ''A'',
     cn_constant_pool := [Unusable, Utf8 (text_of ''A''), Class 1], cn_this_class := 2,
     cn_fields := [\<lparr>fn_access = 1, fn_name = text_of ''x'', fn_descriptor = text_of ''I'', fn_attributes = []\<rparr>]\<rparr>"

lemma field_class_built: "built_class field_writer = Inr field_class"
  by (simp add: field_writer_def builder_evaluation field_class_def empty_class_def)

abbreviation field_pool :: "cp_info list" where
  "field_pool \<equiv> [Unusable, Utf8 (text_of ''A''), Class 1, Utf8 java_object, Class 3]"

text \<open>The member's name and descriptor are at 5 and 6, behind the end of the pool that was written.\<close>

definition field_member_bytes :: "u8 list" where
  "field_member_bytes = write_u2 1 @ write_u2 5 @ write_u2 6 @ write_u2 0"

definition field_body :: "u8 list" where
  "field_body = write_u2 1 @ write_u2 2 @ write_u2 4 @ write_table write_u2 [] @
     (write_u2 1 @ field_member_bytes) @ (write_u2 0 @ []) @ (write_u2 0 @ [])"

lemma field_class_bytes:
  "to_bytes 0 field_class =
     Inr (write_u4 0xCAFEBABE @ write_u2 0 @ write_u2 52 @ write_constant_pool field_pool @ field_body)"
  by (simp add: to_bytes_def field_class_def empty_class_def class_evaluation cp_get_def nth_opt_def
      field_body_def field_member_bytes_def)

lemma no_attributes_read:
  "reads_as (read_attributes order cp (Suc n)) (write_u2 0 @ []) []"
proof -
  have "reads_attributes order cp n [] []" by (simp add: reads_attributes_def reads_as_ret)
  from reads_attributes_table [OF this] show ?thesis unfolding short_list_def by simp
qed

lemma field_class_read:
  "\<exists>cf. read_class_file order (write_u4 0xCAFEBABE @ write_u2 0 @ write_u2 52 @
      write_constant_pool field_pool @ field_body) = Inr cf \<and>
    constant_pool cf = field_pool \<and> this_class cf = 2 \<and> super_class cf = 4 \<and> interfaces cf = [] \<and>
    class_fields cf = [MemberInfo 1 5 6 []]"
proof -
  have pool: "pool_ok field_pool"
    by (simp add: fits_evaluation)
  have member: "reads_as (read_member (read_attributes order field_pool (Suc n))) field_member_bytes (MemberInfo 1 5 6 [])" for n
    unfolding read_member_def field_member_bytes_def using no_attributes_read [of order field_pool n]
    by (intro bind_u2) (rule reads_as_last, simp, simp)
  have f: "reads_as (read_fields (read_attributes order field_pool (Suc n))) (write_u2 1 @ field_member_bytes) [MemberInfo 1 5 6 []]" for n
  proof -
    have "reads_as (read_times (length [()]) (read_member (read_attributes order field_pool (Suc n)))) field_member_bytes
        [MemberInfo 1 5 6 []]"
      using reads_as_bind [OF member reads_as_ret] by simp
    from read_table_members [OF this] show ?thesis unfolding read_fields_def short_list_def by simp
  qed
  have m: "reads_as (read_methods (read_attributes order field_pool (Suc n))) (write_u2 0 @ []) []" for n
  proof -
    have "reads_as (read_times (length []) (read_member (read_attributes order field_pool (Suc n)))) [] []"
      by (simp add: reads_as_ret)
    from read_table_members [OF this] show ?thesis unfolding read_methods_def short_list_def by simp
  qed
  have i: "reads_as (read_table read_u2) (write_table write_u2 []) []"
    by (intro reads_as_u2_table) (simp add: short_list_def)
  let ?cf = "\<lparr>minor_version = 0, major_version = 52, constant_pool = field_pool, access_flags = 1, this_class = 2,
       super_class = 4, interfaces = [], class_fields = [MemberInfo 1 5 6 []], class_methods = [], class_attributes = []\<rparr>"
  have "reads_as (read_class order (Suc n)) (write_u4 0xCAFEBABE @ write_u2 0 @ write_u2 52 @
      write_constant_pool field_pool @ field_body) ?cf" for n
    using class_parts_read [OF pool _ i f [of n] m [of n] no_attributes_read [of order field_pool n],
        where major = 52 and minor = 0 and access = 1 and this = 2 and super = 4]
    by (simp add: field_body_def V25_def)
  from reads_as_run [OF this, folded read_class_file_def] have "read_class_file order (write_u4 0xCAFEBABE @
      write_u2 0 @ write_u2 52 @ write_constant_pool field_pool @ field_body) = Inr ?cf"
    by (simp only: read_class_file_def)
  thus ?thesis by (intro exI [of _ ?cf]) simp
qed

text \<open>C21. Fields: the names of the fields of a built class are not in the pool that is written. The class
  with one public field \<^verbatim>\<open>int x\<close> is written without an error, and its bytes are a class file, but the
  index of the field's name is not in its pool, so no tree can be made of it.\<close>

theorem field_names_are_lost:
  "\<exists>bytes cf. writer_to_bytes field_writer = Inr bytes \<and> read_class_file order bytes = Inr cf \<and>
     to_class_node order bytes = Inl (ReadError (InvalidIndex 5))"
proof -
  obtain cf where read: "read_class_file order (write_u4 0xCAFEBABE @ write_u2 0 @ write_u2 52 @
      write_constant_pool field_pool @ field_body) = Inr cf"
    and cf: "constant_pool cf = field_pool" "this_class cf = 2" "super_class cf = 4" "interfaces cf = []"
      "class_fields cf = [MemberInfo 1 5 6 []]"
    using field_class_read by blast
  have "cf_to_class_node cf = Inl (ReadError (InvalidIndex 5))"
    by (simp add: cf_to_class_node_def cf as_read_def cf_class_name_def cf_utf8_def optional_name_def cp_get_def
        nth_opt_def field_node_of_def)
  moreover have "cw_options field_writer = 0"
    by (simp add: field_writer_def builder_evaluation)
  ultimately show ?thesis
    using read field_class_bytes by (simp add: writer_to_bytes_def field_class_built to_class_node_def)
qed

text \<open>C20. Visitors: where the tree of a class can be made, a visitor that takes every part is told the
  class, its module, its fields and its methods, in this order and as they are in the tree.\<close>

theorem visitors_see_the_tree:
  assumes "accept order recorder bytes [] = (Inr x, calls)" and "to_class_node order bytes = Inr n"
  shows "filter is_declaration calls = declaration_calls n"
proof -
  obtain cf where "read_class_file order bytes = Inr cf" "cf_to_class_node cf = Inr n"
    using assms(2) by (auto simp: to_class_node_def try_bind_Inr)
  with assms(1) class_visited [of cf n] show ?thesis
    by (fastforce simp: accept_def walk_bind_def walk_try_def visits_def)
qed

text \<open>C19. Modules: the module that was visited last is the module of the class that is built, whatever
  else was visited before.\<close>

theorem visited_module_is_built:
  assumes "written_by options w" and "built_class (snd (module_visit_end mw w)) = Inr c"
    and "length (cn_constant_pool c) \<le> 2 ^ 16"
  shows "cn_module c = Some (mw_module mw)"
  using assms by (rule module_of_built_class)

definition built_method_class :: class_node where
  "built_method_class = empty_class\<lparr>cn_access := 1, cn_name := text_of ''A'',
     cn_constant_pool := [Unusable, Utf8 (text_of ''A''), Class 1], cn_this_class := 2,
     cn_methods := [static_method\<lparr>me_access := 9, me_descriptor := text_of ''()V'',
       me_instructions := [SimpleInsn 0xB1], me_insn_nodes := [InsnNode (SimpleInsn 0xB1)]\<rparr>]\<rparr>"

lemma built_method_class: "built_class built_writer = Inr built_method_class"
  by (simp add: built_writer_def builder_evaluation method_evaluation built_method_class_def empty_class_def
      static_method_def)

lemma built_method_prepared:
  "\<exists>p body. prepare_class 0 built_method_class = Inr p \<and> write_body 0 built_method_class p = Inr (body, pc_pool p) \<and>
     class_fits id 0 built_method_class p \<and> attribute_names_found p \<and> length body < 2 ^ 32"
  unfolding built_method_class_def
  by (simp add: class_evaluation code_evaluation empty_class_def static_method_def fits_evaluation cp_get_def
      nth_opt_def return_decoded with_lines_def attribute_names_found_def)

lemma built_class_is_read_back_witness:
  "\<exists>bytes n. writer_to_bytes built_writer = Inr bytes \<and> to_class_node id bytes = Inr n \<and>
     cn_name n = text_of ''A'' \<and> length (cn_methods n) = 1"
proof -
  obtain p body where p: "prepare_class 0 built_method_class = Inr p"
      "write_body 0 built_method_class p = Inr (body, pc_pool p)" "class_fits id 0 built_method_class p"
      "attribute_names_found p" "length body < 2 ^ 32"
    using built_method_prepared by blast
  have w: "cw_name built_writer = text_of ''A''" "length (cw_methods built_writer) = 1"
    by (simp_all add: built_parts [OF built_method_class, symmetric]) (simp_all add: built_method_class_def)
  from built_class_is_read_back [OF built_writer_written built_method_class p] w show ?thesis
    by (auto simp: node_kept_def dest!: list_all2_lengthD)
qed

lemma visited_module_is_built_witness:
  "\<exists>c. built_class (snd (module_visit_end (module_writer_new (text_of ''m'') 0 None)
      (visit_class 53 0 0x8000 (text_of ''A'') None [] (class_writer_new 0)))) = Inr c \<and>
    map_option mn_name (cn_module c) = Some (text_of ''m'')"
proof -
  have "\<exists>c. built_class (snd (module_visit_end (module_writer_new (text_of ''m'') 0 None)
      (visit_class 53 0 0x8000 (text_of ''A'') None [] (class_writer_new 0)))) = Inr c \<and>
      length (cn_constant_pool c) \<le> 2 ^ 16"
    by (simp add: builder_evaluation module_visit_end_def module_writer_new_def build_module_attributes_def
        utf8_or_0_def build_packages_def build_main_class_def pb_module_def decode_module_def decode_packages_def
        decode_main_class_def outer_entry_def cp_module_name_raw_def cp_utf8_value_raw_def version_of_def cp_get_def nth_opt_def)
  then obtain c where c: "built_class (snd (module_visit_end (module_writer_new (text_of ''m'') 0 None)
      (visit_class 53 0 0x8000 (text_of ''A'') None [] (class_writer_new 0)))) = Inr c"
      "length (cn_constant_pool c) \<le> 2 ^ 16" by blast
  with visited_module_is_built [OF written_by_visit c] show ?thesis by (simp add: module_writer_new_def)
qed

definition memberless_class :: class_node where
  "memberless_class = field_class\<lparr>cn_fields := []\<rparr>"

lemma memberless_prepared:
  "\<exists>body. prepare_class 0 memberless_class =
       Inr \<lparr>pc_pool = field_pool, pc_methods = [], pc_attributes = [], pc_super = 4\<rparr> \<and>
     write_body 0 memberless_class \<lparr>pc_pool = field_pool, pc_methods = [], pc_attributes = [], pc_super = 4\<rparr> =
       Inr (body, field_pool) \<and> length body < 2 ^ 32"
  unfolding memberless_class_def field_class_def
  by (simp add: class_evaluation empty_class_def cp_get_def nth_opt_def write_table_def)

lemma memberless_read:
  "\<exists>bytes. read_class_file order bytes = Inr
     \<lparr>minor_version = 0, major_version = 52, constant_pool = field_pool, access_flags = 1, this_class = 2,
      super_class = 4, interfaces = [], class_fields = [], class_methods = [], class_attributes = []\<rparr>"
proof -
  let ?p = "\<lparr>pc_pool = field_pool, pc_methods = [], pc_attributes = [], pc_super = 4\<rparr>"
  obtain body where p: "prepare_class 0 memberless_class = Inr ?p"
      "write_body 0 memberless_class ?p = Inr (body, pc_pool ?p)" "length body < 2 ^ 32"
    using memberless_prepared by auto
  have "class_fits order 0 memberless_class ?p" "cn_constant_pool memberless_class \<noteq> []"
    by (simp_all add: memberless_class_def field_class_def empty_class_def fits_evaluation)
  with class_bytes_read [OF p(1,2) _ _ p(3), of order] show ?thesis
    by (auto simp: memberless_class_def field_class_def empty_class_def)
qed

lemma visitors_see_the_tree_witness:
  "\<exists>bytes x calls n. accept id recorder bytes [] = (Inr x, calls) \<and> to_class_node id bytes = Inr n \<and>
     filter is_declaration calls = [VisitClass 52 0 1 (text_of ''A'') (Some java_object) []]"
proof -
  obtain bytes where read: "read_class_file id bytes = Inr
     \<lparr>minor_version = 0, major_version = 52, constant_pool = field_pool, access_flags = 1, this_class = 2,
      super_class = 4, interfaces = [], class_fields = [], class_methods = [], class_attributes = []\<rparr>"
    using memberless_read by blast
  have "\<exists>n. to_class_node id bytes = Inr n \<and>
      declaration_calls n = [VisitClass 52 0 1 (text_of ''A'') (Some java_object) []]"
    by (simp add: to_class_node_def read cf_to_class_node_def as_read_def cf_class_name_def cf_utf8_def
        optional_name_def cp_get_def nth_opt_def outer_class_of_def or_default_def declaration_calls_def
        module_call_def)
  then obtain n where n: "to_class_node id bytes = Inr n"
      "declaration_calls n = [VisitClass 52 0 1 (text_of ''A'') (Some java_object) []]" by blast
  have "\<exists>calls. accept id recorder bytes [] = (Inr True, calls)"
    by (simp add: accept_def read walk_bind_def walk_try_def accept_class_def as_read_def cf_class_name_def
        cf_utf8_def optional_name_def cp_get_def nth_opt_def visit_with_def recorder_def walk_all_def walk_ret_def
        visit_module_def)
  with visitors_see_the_tree [OF _ n(1)] n show ?thesis by metis
qed

end
