(* ===== verification/SyntaxKind.thy ===== *)
theory SyntaxKind imports Prelude begin

text \<open>
  The token and node kinds of the Java syntax tree and the contextual keywords
  (\<^verbatim>\<open>crates/java-syntax/src/syntax_kind.rs\<close>).

  The Rust enum is declared \<^verbatim>\<open>#[repr(u16)]\<close> without explicit discriminants, so a kind
  is its position in the declaration, and the code relies on that number: token sets
  index their bit array with it. A kind is therefore modelled as a tagged discriminant,
  and each variant is the abbreviation of its own number, in the order of the source.
\<close>

datatype syntax_kind = SyntaxKind (discriminant: nat)

text \<open>\<open>syntax_kind_count\<close> is one more than the discriminant of \<^verbatim>\<open>ROOT\<close>, "the last variant".\<close>

definition syntax_kind_count :: nat where
  "syntax_kind_count = 248"

subsection \<open>The variants\<close>

abbreviation L_PAREN :: syntax_kind where "L_PAREN \<equiv> SyntaxKind 0"
abbreviation R_PAREN :: syntax_kind where "R_PAREN \<equiv> SyntaxKind 1"
abbreviation L_BRACE :: syntax_kind where "L_BRACE \<equiv> SyntaxKind 2"
abbreviation R_BRACE :: syntax_kind where "R_BRACE \<equiv> SyntaxKind 3"
abbreviation L_BRACKET :: syntax_kind where "L_BRACKET \<equiv> SyntaxKind 4"
abbreviation R_BRACKET :: syntax_kind where "R_BRACKET \<equiv> SyntaxKind 5"
abbreviation STRING_LITERAL :: syntax_kind where "STRING_LITERAL \<equiv> SyntaxKind 6"
abbreviation INTEGER_LITERAL :: syntax_kind where "INTEGER_LITERAL \<equiv> SyntaxKind 7"
abbreviation FLOAT_LITERAL :: syntax_kind where "FLOAT_LITERAL \<equiv> SyntaxKind 8"
abbreviation STRING_TEMPLATE_BEGIN :: syntax_kind where "STRING_TEMPLATE_BEGIN \<equiv> SyntaxKind 9"
abbreviation STRING_TEMPLATE_MID :: syntax_kind where "STRING_TEMPLATE_MID \<equiv> SyntaxKind 10"
abbreviation STRING_TEMPLATE_END :: syntax_kind where "STRING_TEMPLATE_END \<equiv> SyntaxKind 11"
abbreviation TEXT_BLOCK_TEMPLATE_BEGIN :: syntax_kind where "TEXT_BLOCK_TEMPLATE_BEGIN \<equiv> SyntaxKind 12"
abbreviation TEXT_BLOCK_TEMPLATE_MID :: syntax_kind where "TEXT_BLOCK_TEMPLATE_MID \<equiv> SyntaxKind 13"
abbreviation TEXT_BLOCK_TEMPLATE_END :: syntax_kind where "TEXT_BLOCK_TEMPLATE_END \<equiv> SyntaxKind 14"
abbreviation NULL_LITERAL :: syntax_kind where "NULL_LITERAL \<equiv> SyntaxKind 15"
abbreviation TRUE_LITERAL :: syntax_kind where "TRUE_LITERAL \<equiv> SyntaxKind 16"
abbreviation FALSE_LITERAL :: syntax_kind where "FALSE_LITERAL \<equiv> SyntaxKind 17"
abbreviation CHAR_LITERAL :: syntax_kind where "CHAR_LITERAL \<equiv> SyntaxKind 18"
abbreviation SEMICOLON :: syntax_kind where "SEMICOLON \<equiv> SyntaxKind 19"
abbreviation DOT :: syntax_kind where "DOT \<equiv> SyntaxKind 20"
abbreviation AT :: syntax_kind where "AT \<equiv> SyntaxKind 21"
abbreviation PLUS :: syntax_kind where "PLUS \<equiv> SyntaxKind 22"
abbreviation MINUS :: syntax_kind where "MINUS \<equiv> SyntaxKind 23"
abbreviation STAR :: syntax_kind where "STAR \<equiv> SyntaxKind 24"
abbreviation SLASH :: syntax_kind where "SLASH \<equiv> SyntaxKind 25"
abbreviation LESS_EQUAL :: syntax_kind where "LESS_EQUAL \<equiv> SyntaxKind 26"
abbreviation LESS :: syntax_kind where "LESS \<equiv> SyntaxKind 27"
abbreviation GREATER :: syntax_kind where "GREATER \<equiv> SyntaxKind 28"
abbreviation GREATER_EQUAL :: syntax_kind where "GREATER_EQUAL \<equiv> SyntaxKind 29"
abbreviation EQUAL_EQUAL :: syntax_kind where "EQUAL_EQUAL \<equiv> SyntaxKind 30"
abbreviation EQUAL :: syntax_kind where "EQUAL \<equiv> SyntaxKind 31"
abbreviation OR :: syntax_kind where "OR \<equiv> SyntaxKind 32"
abbreviation BIT_OR :: syntax_kind where "BIT_OR \<equiv> SyntaxKind 33"
abbreviation OR_EQUAL :: syntax_kind where "OR_EQUAL \<equiv> SyntaxKind 34"
abbreviation AND :: syntax_kind where "AND \<equiv> SyntaxKind 35"
abbreviation BIT_AND :: syntax_kind where "BIT_AND \<equiv> SyntaxKind 36"
abbreviation AND_EQUAL :: syntax_kind where "AND_EQUAL \<equiv> SyntaxKind 37"
abbreviation NOT :: syntax_kind where "NOT \<equiv> SyntaxKind 38"
abbreviation TILDE :: syntax_kind where "TILDE \<equiv> SyntaxKind 39"
abbreviation MODULO :: syntax_kind where "MODULO \<equiv> SyntaxKind 40"
abbreviation CARET :: syntax_kind where "CARET \<equiv> SyntaxKind 41"
abbreviation DIVIDE_EQUAL :: syntax_kind where "DIVIDE_EQUAL \<equiv> SyntaxKind 42"
abbreviation NOT_EQUAL :: syntax_kind where "NOT_EQUAL \<equiv> SyntaxKind 43"
abbreviation MULTIPLE_EQUAL :: syntax_kind where "MULTIPLE_EQUAL \<equiv> SyntaxKind 44"
abbreviation PLUS_EQUAL :: syntax_kind where "PLUS_EQUAL \<equiv> SyntaxKind 45"
abbreviation PLUS_PLUS :: syntax_kind where "PLUS_PLUS \<equiv> SyntaxKind 46"
abbreviation MINUS_EQUAL :: syntax_kind where "MINUS_EQUAL \<equiv> SyntaxKind 47"
abbreviation MINUS_MINUS :: syntax_kind where "MINUS_MINUS \<equiv> SyntaxKind 48"
abbreviation XOR_EQUAL :: syntax_kind where "XOR_EQUAL \<equiv> SyntaxKind 49"
abbreviation MODULO_EQUAL :: syntax_kind where "MODULO_EQUAL \<equiv> SyntaxKind 50"
abbreviation LEFT_SHIFT_EQUAL :: syntax_kind where "LEFT_SHIFT_EQUAL \<equiv> SyntaxKind 51"
abbreviation RIGHT_SHIFT_EQUAL :: syntax_kind where "RIGHT_SHIFT_EQUAL \<equiv> SyntaxKind 52"
abbreviation UNSIGNED_RIGHT_SHIFT_EQUAL :: syntax_kind where "UNSIGNED_RIGHT_SHIFT_EQUAL \<equiv> SyntaxKind 53"
abbreviation LEFT_SHIFT :: syntax_kind where "LEFT_SHIFT \<equiv> SyntaxKind 54"
abbreviation RIGHT_SHIFT :: syntax_kind where "RIGHT_SHIFT \<equiv> SyntaxKind 55"
abbreviation UNSIGNED_RIGHT_SHIFT :: syntax_kind where "UNSIGNED_RIGHT_SHIFT \<equiv> SyntaxKind 56"
abbreviation COMMA :: syntax_kind where "COMMA \<equiv> SyntaxKind 57"
abbreviation QUESTION :: syntax_kind where "QUESTION \<equiv> SyntaxKind 58"
abbreviation ARROW :: syntax_kind where "ARROW \<equiv> SyntaxKind 59"
abbreviation COLON_COLON :: syntax_kind where "COLON_COLON \<equiv> SyntaxKind 60"
abbreviation COLON :: syntax_kind where "COLON \<equiv> SyntaxKind 61"
abbreviation ELLIPSIS :: syntax_kind where "ELLIPSIS \<equiv> SyntaxKind 62"
abbreviation TEXT_BLOCK :: syntax_kind where "TEXT_BLOCK \<equiv> SyntaxKind 63"
abbreviation UNDERSCORE :: syntax_kind where "UNDERSCORE \<equiv> SyntaxKind 64"
abbreviation PACKAGE_KW :: syntax_kind where "PACKAGE_KW \<equiv> SyntaxKind 65"
abbreviation IMPORT_KW :: syntax_kind where "IMPORT_KW \<equiv> SyntaxKind 66"
abbreviation CLASS_KW :: syntax_kind where "CLASS_KW \<equiv> SyntaxKind 67"
abbreviation PUBLIC_KW :: syntax_kind where "PUBLIC_KW \<equiv> SyntaxKind 68"
abbreviation PRIVATE_KW :: syntax_kind where "PRIVATE_KW \<equiv> SyntaxKind 69"
abbreviation PROTECTED_KW :: syntax_kind where "PROTECTED_KW \<equiv> SyntaxKind 70"
abbreviation FINAL_KW :: syntax_kind where "FINAL_KW \<equiv> SyntaxKind 71"
abbreviation STATIC_KW :: syntax_kind where "STATIC_KW \<equiv> SyntaxKind 72"
abbreviation VOID_KW :: syntax_kind where "VOID_KW \<equiv> SyntaxKind 73"
abbreviation BYTE_KW :: syntax_kind where "BYTE_KW \<equiv> SyntaxKind 74"
abbreviation ENUM_KW :: syntax_kind where "ENUM_KW \<equiv> SyntaxKind 75"
abbreviation INTERFACE_KW :: syntax_kind where "INTERFACE_KW \<equiv> SyntaxKind 76"
abbreviation ABSTRACT_KW :: syntax_kind where "ABSTRACT_KW \<equiv> SyntaxKind 77"
abbreviation FOR_KW :: syntax_kind where "FOR_KW \<equiv> SyntaxKind 78"
abbreviation WHILE_KW :: syntax_kind where "WHILE_KW \<equiv> SyntaxKind 79"
abbreviation CONTINUE_KW :: syntax_kind where "CONTINUE_KW \<equiv> SyntaxKind 80"
abbreviation BREAK_KW :: syntax_kind where "BREAK_KW \<equiv> SyntaxKind 81"
abbreviation INSTANCEOF_KW :: syntax_kind where "INSTANCEOF_KW \<equiv> SyntaxKind 82"
abbreviation RETURN_KW :: syntax_kind where "RETURN_KW \<equiv> SyntaxKind 83"
abbreviation TRANSIENT_KW :: syntax_kind where "TRANSIENT_KW \<equiv> SyntaxKind 84"
abbreviation EXTENDS_KW :: syntax_kind where "EXTENDS_KW \<equiv> SyntaxKind 85"
abbreviation IMPLEMENTS_KW :: syntax_kind where "IMPLEMENTS_KW \<equiv> SyntaxKind 86"
abbreviation NEW_KW :: syntax_kind where "NEW_KW \<equiv> SyntaxKind 87"
abbreviation ASSERT_KW :: syntax_kind where "ASSERT_KW \<equiv> SyntaxKind 88"
abbreviation SWITCH_KW :: syntax_kind where "SWITCH_KW \<equiv> SyntaxKind 89"
abbreviation CASE_KW :: syntax_kind where "CASE_KW \<equiv> SyntaxKind 90"
abbreviation DEFAULT_KW :: syntax_kind where "DEFAULT_KW \<equiv> SyntaxKind 91"
abbreviation SYNCHRONIZED_KW :: syntax_kind where "SYNCHRONIZED_KW \<equiv> SyntaxKind 92"
abbreviation DO_KW :: syntax_kind where "DO_KW \<equiv> SyntaxKind 93"
abbreviation IF_KW :: syntax_kind where "IF_KW \<equiv> SyntaxKind 94"
abbreviation ELSE_KW :: syntax_kind where "ELSE_KW \<equiv> SyntaxKind 95"
abbreviation THIS_KW :: syntax_kind where "THIS_KW \<equiv> SyntaxKind 96"
abbreviation SUPER_KW :: syntax_kind where "SUPER_KW \<equiv> SyntaxKind 97"
abbreviation VOLATILE_KW :: syntax_kind where "VOLATILE_KW \<equiv> SyntaxKind 98"
abbreviation NATIVE_KW :: syntax_kind where "NATIVE_KW \<equiv> SyntaxKind 99"
abbreviation THROW_KW :: syntax_kind where "THROW_KW \<equiv> SyntaxKind 100"
abbreviation THROWS_KW :: syntax_kind where "THROWS_KW \<equiv> SyntaxKind 101"
abbreviation TRY_KW :: syntax_kind where "TRY_KW \<equiv> SyntaxKind 102"
abbreviation CATCH_KW :: syntax_kind where "CATCH_KW \<equiv> SyntaxKind 103"
abbreviation FINALLY_KW :: syntax_kind where "FINALLY_KW \<equiv> SyntaxKind 104"
abbreviation STRICTFP_KW :: syntax_kind where "STRICTFP_KW \<equiv> SyntaxKind 105"
abbreviation DOUBLE_KW :: syntax_kind where "DOUBLE_KW \<equiv> SyntaxKind 106"
abbreviation INT_KW :: syntax_kind where "INT_KW \<equiv> SyntaxKind 107"
abbreviation SHORT_KW :: syntax_kind where "SHORT_KW \<equiv> SyntaxKind 108"
abbreviation LONG_KW :: syntax_kind where "LONG_KW \<equiv> SyntaxKind 109"
abbreviation FLOAT_KW :: syntax_kind where "FLOAT_KW \<equiv> SyntaxKind 110"
abbreviation CHAR_KW :: syntax_kind where "CHAR_KW \<equiv> SyntaxKind 111"
abbreviation BOOLEAN_KW :: syntax_kind where "BOOLEAN_KW \<equiv> SyntaxKind 112"
abbreviation GOTO_KW :: syntax_kind where "GOTO_KW \<equiv> SyntaxKind 113"
abbreviation CONST_KW :: syntax_kind where "CONST_KW \<equiv> SyntaxKind 114"
abbreviation LINE_COMMENT :: syntax_kind where "LINE_COMMENT \<equiv> SyntaxKind 115"
abbreviation BLOCK_COMMENT :: syntax_kind where "BLOCK_COMMENT \<equiv> SyntaxKind 116"
abbreviation JAVADOC_LINE :: syntax_kind where "JAVADOC_LINE \<equiv> SyntaxKind 117"
abbreviation JAVADOC :: syntax_kind where "JAVADOC \<equiv> SyntaxKind 118"
abbreviation WHITESPACE :: syntax_kind where "WHITESPACE \<equiv> SyntaxKind 119"
abbreviation UNKNOWN :: syntax_kind where "UNKNOWN \<equiv> SyntaxKind 120"
abbreviation IDENTIFIER :: syntax_kind where "IDENTIFIER \<equiv> SyntaxKind 121"
abbreviation EOF :: syntax_kind where "EOF \<equiv> SyntaxKind 122"
abbreviation MISSING :: syntax_kind where "MISSING \<equiv> SyntaxKind 123"
abbreviation ERROR :: syntax_kind where "ERROR \<equiv> SyntaxKind 124"
abbreviation QUALIFIED_NAME :: syntax_kind where "QUALIFIED_NAME \<equiv> SyntaxKind 125"
abbreviation TYPE_K :: syntax_kind where "TYPE_K \<equiv> SyntaxKind 126"
abbreviation NAME_REF :: syntax_kind where "NAME_REF \<equiv> SyntaxKind 127"
abbreviation ASSIGNMENT_EXPR :: syntax_kind where "ASSIGNMENT_EXPR \<equiv> SyntaxKind 128"
abbreviation POSTFIX_EXPR :: syntax_kind where "POSTFIX_EXPR \<equiv> SyntaxKind 129"
abbreviation PREFIX_EXPR :: syntax_kind where "PREFIX_EXPR \<equiv> SyntaxKind 130"
abbreviation METHOD_CALL :: syntax_kind where "METHOD_CALL \<equiv> SyntaxKind 131"
abbreviation NEW_EXPR :: syntax_kind where "NEW_EXPR \<equiv> SyntaxKind 132"
abbreviation METHOD_REFERENCE :: syntax_kind where "METHOD_REFERENCE \<equiv> SyntaxKind 133"
abbreviation SUPER_EXPR :: syntax_kind where "SUPER_EXPR \<equiv> SyntaxKind 134"
abbreviation THIS_EXPR :: syntax_kind where "THIS_EXPR \<equiv> SyntaxKind 135"
abbreviation CAST_EXPR :: syntax_kind where "CAST_EXPR \<equiv> SyntaxKind 136"
abbreviation INSTANCEOF_EXPR :: syntax_kind where "INSTANCEOF_EXPR \<equiv> SyntaxKind 137"
abbreviation LAMBDA_EXPR :: syntax_kind where "LAMBDA_EXPR \<equiv> SyntaxKind 138"
abbreviation SWITCH_EXPR :: syntax_kind where "SWITCH_EXPR \<equiv> SyntaxKind 139"
abbreviation COND_EXPR :: syntax_kind where "COND_EXPR \<equiv> SyntaxKind 140"
abbreviation ASSIGN_EXPR :: syntax_kind where "ASSIGN_EXPR \<equiv> SyntaxKind 141"
abbreviation PRIMITIVE_TYPE_EXPR :: syntax_kind where "PRIMITIVE_TYPE_EXPR \<equiv> SyntaxKind 142"
abbreviation LITERAL :: syntax_kind where "LITERAL \<equiv> SyntaxKind 143"
abbreviation CLASS_LITERAL :: syntax_kind where "CLASS_LITERAL \<equiv> SyntaxKind 144"
abbreviation TEMPLATE_EXPR :: syntax_kind where "TEMPLATE_EXPR \<equiv> SyntaxKind 145"
abbreviation TEMPLATE_ARGUMENT :: syntax_kind where "TEMPLATE_ARGUMENT \<equiv> SyntaxKind 146"
abbreviation PAREN_EXPR :: syntax_kind where "PAREN_EXPR \<equiv> SyntaxKind 147"
abbreviation UNARY_EXPR :: syntax_kind where "UNARY_EXPR \<equiv> SyntaxKind 148"
abbreviation FIELD_ACCESS :: syntax_kind where "FIELD_ACCESS \<equiv> SyntaxKind 149"
abbreviation ARRAY_ACCESS :: syntax_kind where "ARRAY_ACCESS \<equiv> SyntaxKind 150"
abbreviation BINARY_EXPR :: syntax_kind where "BINARY_EXPR \<equiv> SyntaxKind 151"
abbreviation TYPE_PARAMETERS :: syntax_kind where "TYPE_PARAMETERS \<equiv> SyntaxKind 152"
abbreviation TYPE_PARAMETER :: syntax_kind where "TYPE_PARAMETER \<equiv> SyntaxKind 153"
abbreviation TYPE_BOUND :: syntax_kind where "TYPE_BOUND \<equiv> SyntaxKind 154"
abbreviation TYPE_ARGUMENTS :: syntax_kind where "TYPE_ARGUMENTS \<equiv> SyntaxKind 155"
abbreviation TYPE_ARGUMENT :: syntax_kind where "TYPE_ARGUMENT \<equiv> SyntaxKind 156"
abbreviation WILDCARD_TYPE :: syntax_kind where "WILDCARD_TYPE \<equiv> SyntaxKind 157"
abbreviation WILDCARD_BOUNDS :: syntax_kind where "WILDCARD_BOUNDS \<equiv> SyntaxKind 158"
abbreviation VARIABLE_DECLARATOR_LIST :: syntax_kind where "VARIABLE_DECLARATOR_LIST \<equiv> SyntaxKind 159"
abbreviation VARIABLE_DECLARATOR :: syntax_kind where "VARIABLE_DECLARATOR \<equiv> SyntaxKind 160"
abbreviation LOCAL_VARIABLE_DECLARATION_STMT :: syntax_kind where "LOCAL_VARIABLE_DECLARATION_STMT \<equiv> SyntaxKind 161"
abbreviation LOCAL_VARIABLE_DECLARATION :: syntax_kind where "LOCAL_VARIABLE_DECLARATION \<equiv> SyntaxKind 162"
abbreviation EXPRESSION_STMT :: syntax_kind where "EXPRESSION_STMT \<equiv> SyntaxKind 163"
abbreviation EMPTY_STMT :: syntax_kind where "EMPTY_STMT \<equiv> SyntaxKind 164"
abbreviation YIELD_STMT :: syntax_kind where "YIELD_STMT \<equiv> SyntaxKind 165"
abbreviation RETURN_STMT :: syntax_kind where "RETURN_STMT \<equiv> SyntaxKind 166"
abbreviation THROW_STMT :: syntax_kind where "THROW_STMT \<equiv> SyntaxKind 167"
abbreviation BREAK_STMT :: syntax_kind where "BREAK_STMT \<equiv> SyntaxKind 168"
abbreviation CONTINUE_STMT :: syntax_kind where "CONTINUE_STMT \<equiv> SyntaxKind 169"
abbreviation ASSERT_STMT :: syntax_kind where "ASSERT_STMT \<equiv> SyntaxKind 170"
abbreviation IF_STMT :: syntax_kind where "IF_STMT \<equiv> SyntaxKind 171"
abbreviation WHILE_STMT :: syntax_kind where "WHILE_STMT \<equiv> SyntaxKind 172"
abbreviation SWITCH_STMT :: syntax_kind where "SWITCH_STMT \<equiv> SyntaxKind 173"
abbreviation SYNCHRONIZED_STMT :: syntax_kind where "SYNCHRONIZED_STMT \<equiv> SyntaxKind 174"
abbreviation DO_STMT :: syntax_kind where "DO_STMT \<equiv> SyntaxKind 175"
abbreviation TRY_STMT :: syntax_kind where "TRY_STMT \<equiv> SyntaxKind 176"
abbreviation FOR_STMT :: syntax_kind where "FOR_STMT \<equiv> SyntaxKind 177"
abbreviation ENHANCED_FOR_STMT :: syntax_kind where "ENHANCED_FOR_STMT \<equiv> SyntaxKind 178"
abbreviation TRY_WITH_RESOURCES_STMT :: syntax_kind where "TRY_WITH_RESOURCES_STMT \<equiv> SyntaxKind 179"
abbreviation LABELED_STMT :: syntax_kind where "LABELED_STMT \<equiv> SyntaxKind 180"
abbreviation RESOURCE_SPECIFICATION :: syntax_kind where "RESOURCE_SPECIFICATION \<equiv> SyntaxKind 181"
abbreviation RESOURCE :: syntax_kind where "RESOURCE \<equiv> SyntaxKind 182"
abbreviation VARIABLE_ACCESS :: syntax_kind where "VARIABLE_ACCESS \<equiv> SyntaxKind 183"
abbreviation PARENTHESIZED_EXPR :: syntax_kind where "PARENTHESIZED_EXPR \<equiv> SyntaxKind 184"
abbreviation DIMENSION :: syntax_kind where "DIMENSION \<equiv> SyntaxKind 185"
abbreviation DIMENSIONS :: syntax_kind where "DIMENSIONS \<equiv> SyntaxKind 186"
abbreviation ARRAY_TYPE :: syntax_kind where "ARRAY_TYPE \<equiv> SyntaxKind 187"
abbreviation ARRAY_ACCESS_EXPR :: syntax_kind where "ARRAY_ACCESS_EXPR \<equiv> SyntaxKind 188"
abbreviation ARRAY_INITIALIZER :: syntax_kind where "ARRAY_INITIALIZER \<equiv> SyntaxKind 189"
abbreviation MODIFIER_LIST :: syntax_kind where "MODIFIER_LIST \<equiv> SyntaxKind 190"
abbreviation ARGUMENT_LIST :: syntax_kind where "ARGUMENT_LIST \<equiv> SyntaxKind 191"
abbreviation INFERRED_PARAMETERS :: syntax_kind where "INFERRED_PARAMETERS \<equiv> SyntaxKind 192"
abbreviation FORMAL_PARAMETERS :: syntax_kind where "FORMAL_PARAMETERS \<equiv> SyntaxKind 193"
abbreviation FORMAL_PARAMETER :: syntax_kind where "FORMAL_PARAMETER \<equiv> SyntaxKind 194"
abbreviation SPREAD_PARAMETER :: syntax_kind where "SPREAD_PARAMETER \<equiv> SyntaxKind 195"
abbreviation ANNOTATION :: syntax_kind where "ANNOTATION \<equiv> SyntaxKind 196"
abbreviation MARKER_ANNOTATION :: syntax_kind where "MARKER_ANNOTATION \<equiv> SyntaxKind 197"
abbreviation ANNOTATION_ARGUMENT_LIST :: syntax_kind where "ANNOTATION_ARGUMENT_LIST \<equiv> SyntaxKind 198"
abbreviation ELEMENT_VALUE_PAIR :: syntax_kind where "ELEMENT_VALUE_PAIR \<equiv> SyntaxKind 199"
abbreviation CLASS_DECL :: syntax_kind where "CLASS_DECL \<equiv> SyntaxKind 200"
abbreviation PACKAGE_DECL :: syntax_kind where "PACKAGE_DECL \<equiv> SyntaxKind 201"
abbreviation IMPORT_DECL :: syntax_kind where "IMPORT_DECL \<equiv> SyntaxKind 202"
abbreviation IMPORT_PATH :: syntax_kind where "IMPORT_PATH \<equiv> SyntaxKind 203"
abbreviation FIELD_DECL :: syntax_kind where "FIELD_DECL \<equiv> SyntaxKind 204"
abbreviation METHOD_DECL :: syntax_kind where "METHOD_DECL \<equiv> SyntaxKind 205"
abbreviation INTERFACE_DECL :: syntax_kind where "INTERFACE_DECL \<equiv> SyntaxKind 206"
abbreviation ANNOTATION_TYPE_DECL :: syntax_kind where "ANNOTATION_TYPE_DECL \<equiv> SyntaxKind 207"
abbreviation ANNOTATION_TYPE_ELEMENT_DECL :: syntax_kind where "ANNOTATION_TYPE_ELEMENT_DECL \<equiv> SyntaxKind 208"
abbreviation RECORD_DECL :: syntax_kind where "RECORD_DECL \<equiv> SyntaxKind 209"
abbreviation ENUM_DECL :: syntax_kind where "ENUM_DECL \<equiv> SyntaxKind 210"
abbreviation MODULE_DECL :: syntax_kind where "MODULE_DECL \<equiv> SyntaxKind 211"
abbreviation MODULE_NAME :: syntax_kind where "MODULE_NAME \<equiv> SyntaxKind 212"
abbreviation REQUIRES_DIRECTIVE :: syntax_kind where "REQUIRES_DIRECTIVE \<equiv> SyntaxKind 213"
abbreviation EXPORTS_DIRECTIVE :: syntax_kind where "EXPORTS_DIRECTIVE \<equiv> SyntaxKind 214"
abbreviation OPENS_DIRECTIVE :: syntax_kind where "OPENS_DIRECTIVE \<equiv> SyntaxKind 215"
abbreviation USES_DIRECTIVE :: syntax_kind where "USES_DIRECTIVE \<equiv> SyntaxKind 216"
abbreviation PROVIDES_DIRECTIVE :: syntax_kind where "PROVIDES_DIRECTIVE \<equiv> SyntaxKind 217"
abbreviation COMPACT_CONSTRUCTOR_DECL :: syntax_kind where "COMPACT_CONSTRUCTOR_DECL \<equiv> SyntaxKind 218"
abbreviation CONSTRUCTOR_DECL :: syntax_kind where "CONSTRUCTOR_DECL \<equiv> SyntaxKind 219"
abbreviation EMPTY_DECL :: syntax_kind where "EMPTY_DECL \<equiv> SyntaxKind 220"
abbreviation ENUM_CONSTANT :: syntax_kind where "ENUM_CONSTANT \<equiv> SyntaxKind 221"
abbreviation STATIC_INITIALIZER :: syntax_kind where "STATIC_INITIALIZER \<equiv> SyntaxKind 222"
abbreviation INSTANCE_INITIALIZER :: syntax_kind where "INSTANCE_INITIALIZER \<equiv> SyntaxKind 223"
abbreviation BLOCK :: syntax_kind where "BLOCK \<equiv> SyntaxKind 224"
abbreviation SWITCH_BLOCK :: syntax_kind where "SWITCH_BLOCK \<equiv> SyntaxKind 225"
abbreviation SWITCH_RULE :: syntax_kind where "SWITCH_RULE \<equiv> SyntaxKind 226"
abbreviation SWITCH_BLOCK_STATEMENT_GROUP :: syntax_kind where "SWITCH_BLOCK_STATEMENT_GROUP \<equiv> SyntaxKind 227"
abbreviation SWITCH_LABEL :: syntax_kind where "SWITCH_LABEL \<equiv> SyntaxKind 228"
abbreviation TYPE_PATTERN :: syntax_kind where "TYPE_PATTERN \<equiv> SyntaxKind 229"
abbreviation RECORD_PATTERN :: syntax_kind where "RECORD_PATTERN \<equiv> SyntaxKind 230"
abbreviation MATCH_ALL_PATTERN :: syntax_kind where "MATCH_ALL_PATTERN \<equiv> SyntaxKind 231"
abbreviation CLASS_BODY :: syntax_kind where "CLASS_BODY \<equiv> SyntaxKind 232"
abbreviation ENUM_BODY :: syntax_kind where "ENUM_BODY \<equiv> SyntaxKind 233"
abbreviation INTERFACE_BODY :: syntax_kind where "INTERFACE_BODY \<equiv> SyntaxKind 234"
abbreviation RECORD_BODY :: syntax_kind where "RECORD_BODY \<equiv> SyntaxKind 235"
abbreviation ANNOTATION_TYPE_BODY :: syntax_kind where "ANNOTATION_TYPE_BODY \<equiv> SyntaxKind 236"
abbreviation MODULE_BODY :: syntax_kind where "MODULE_BODY \<equiv> SyntaxKind 237"
abbreviation EXTENDS_CLAUSE :: syntax_kind where "EXTENDS_CLAUSE \<equiv> SyntaxKind 238"
abbreviation THROWS_CLAUSE :: syntax_kind where "THROWS_CLAUSE \<equiv> SyntaxKind 239"
abbreviation INTERFACE_EXTENDS_CLAUSE :: syntax_kind where "INTERFACE_EXTENDS_CLAUSE \<equiv> SyntaxKind 240"
abbreviation IMPLEMENTS_CLAUSE :: syntax_kind where "IMPLEMENTS_CLAUSE \<equiv> SyntaxKind 241"
abbreviation PERMITS_CLAUSE :: syntax_kind where "PERMITS_CLAUSE \<equiv> SyntaxKind 242"
abbreviation CATCH_TYPE :: syntax_kind where "CATCH_TYPE \<equiv> SyntaxKind 243"
abbreviation CATCH_CLAUSE :: syntax_kind where "CATCH_CLAUSE \<equiv> SyntaxKind 244"
abbreviation CATCH_FORMAL_PARAMETER :: syntax_kind where "CATCH_FORMAL_PARAMETER \<equiv> SyntaxKind 245"
abbreviation FINALLY_CLAUSE :: syntax_kind where "FINALLY_CLAUSE \<equiv> SyntaxKind 246"
abbreviation ROOT :: syntax_kind where "ROOT \<equiv> SyntaxKind 247"

lemma syntax_kind_eq_iff: "(k = l) = (discriminant k = discriminant l)"
  by (cases k; cases l) simp

lemma discriminant_ROOT: "discriminant ROOT = syntax_kind_count - 1"
  by (simp add: syntax_kind_count_def)

subsection \<open>Trivia\<close>

definition is_trivia :: "syntax_kind \<Rightarrow> bool" where
  "is_trivia k = (k \<in> {WHITESPACE, LINE_COMMENT, BLOCK_COMMENT, JAVADOC, JAVADOC_LINE})"

lemma is_trivia_EOF [simp]: "\<not> is_trivia EOF"
  by (simp add: is_trivia_def)

subsection \<open>Contextual keywords\<close>

datatype contextual_keyword =
    Kw_Record
  | Kw_Sealed
  | Kw_NonSealed
  | Kw_Permits
  | Kw_Yield
  | Kw_Var
  | Kw_When
  | Kw_Module
  | Kw_Open
  | Kw_Requires
  | Kw_Opens
  | Kw_Exports
  | Kw_Uses
  | Kw_Provides
  | Kw_Transitive
  | Kw_To
  | Kw_With

primrec kw_as_str :: "contextual_keyword \<Rightarrow> string" where
  "kw_as_str Kw_Record = ''record''"
|   "kw_as_str Kw_Sealed = ''sealed''"
|   "kw_as_str Kw_NonSealed = ''non-sealed''"
|   "kw_as_str Kw_Permits = ''permits''"
|   "kw_as_str Kw_Yield = ''yield''"
|   "kw_as_str Kw_Var = ''var''"
|   "kw_as_str Kw_When = ''when''"
|   "kw_as_str Kw_Module = ''module''"
|   "kw_as_str Kw_Open = ''open''"
|   "kw_as_str Kw_Requires = ''requires''"
|   "kw_as_str Kw_Opens = ''opens''"
|   "kw_as_str Kw_Exports = ''exports''"
|   "kw_as_str Kw_Uses = ''uses''"
|   "kw_as_str Kw_Provides = ''provides''"
|   "kw_as_str Kw_Transitive = ''transitive''"
|   "kw_as_str Kw_To = ''to''"
|   "kw_as_str Kw_With = ''with''"

text \<open>\<^verbatim>\<open>ContextualKeyword::from_str\<close>: the match arms in the order of the macro's expansion.\<close>

definition kw_from_str :: "string \<Rightarrow> contextual_keyword option" where
  "kw_from_str s =
   (    if s = ''record'' then Some Kw_Record
    else if s = ''sealed'' then Some Kw_Sealed
    else if s = ''non-sealed'' then Some Kw_NonSealed
    else if s = ''permits'' then Some Kw_Permits
    else if s = ''yield'' then Some Kw_Yield
    else if s = ''var'' then Some Kw_Var
    else if s = ''when'' then Some Kw_When
    else if s = ''module'' then Some Kw_Module
    else if s = ''open'' then Some Kw_Open
    else if s = ''requires'' then Some Kw_Requires
    else if s = ''opens'' then Some Kw_Opens
    else if s = ''exports'' then Some Kw_Exports
    else if s = ''uses'' then Some Kw_Uses
    else if s = ''provides'' then Some Kw_Provides
    else if s = ''transitive'' then Some Kw_Transitive
    else if s = ''to'' then Some Kw_To
    else if s = ''with'' then Some Kw_With
    else None)"

text \<open>\<^verbatim>\<open>kw as u16\<close>: the position of the variant.\<close>

primrec kw_discriminant :: "contextual_keyword \<Rightarrow> nat" where
  "kw_discriminant Kw_Record = 0"
|   "kw_discriminant Kw_Sealed = 1"
|   "kw_discriminant Kw_NonSealed = 2"
|   "kw_discriminant Kw_Permits = 3"
|   "kw_discriminant Kw_Yield = 4"
|   "kw_discriminant Kw_Var = 5"
|   "kw_discriminant Kw_When = 6"
|   "kw_discriminant Kw_Module = 7"
|   "kw_discriminant Kw_Open = 8"
|   "kw_discriminant Kw_Requires = 9"
|   "kw_discriminant Kw_Opens = 10"
|   "kw_discriminant Kw_Exports = 11"
|   "kw_discriminant Kw_Uses = 12"
|   "kw_discriminant Kw_Provides = 13"
|   "kw_discriminant Kw_Transitive = 14"
|   "kw_discriminant Kw_To = 15"
|   "kw_discriminant Kw_With = 16"

lemma kw_from_str_as_str [simp]: "kw_from_str (kw_as_str kw) = Some kw"
  by (cases kw) (simp_all add: kw_from_str_def)

lemma kw_from_str_Some: "kw_from_str s = Some kw \<Longrightarrow> s = kw_as_str kw"
  by (auto simp: kw_from_str_def split: if_splits)

end
