(* ===== verification/TokenSets.thy ===== *)
theory TokenSets imports SyntaxKind "HOL-Library.Word" begin

text \<open>
  Token sets (\<^verbatim>\<open>TokenSet\<close> and the macro \<^verbatim>\<open>tokenset!\<close> of
  \<^verbatim>\<open>crates/java-syntax/src/parser.rs\<close>): 256 bits in four \<^verbatim>\<open>u64\<close> words, indexed by the
  discriminant of a kind.
\<close>

type_synonym u64 = "64 word"

record token_set =
  bits :: "u64 list"

definition token_set_empty :: token_set where
  "token_set_empty = \<lparr>bits = [0, 0, 0, 0]\<rparr>"

text \<open>The body of the macro's repetition: \<^verbatim>\<open>bits[(k >> 6) as usize] |= 1u64 << (k & 63)\<close>.\<close>

definition token_set_add :: "nat \<Rightarrow> token_set \<Rightarrow> token_set" where
  "token_set_add k s =
     s\<lparr>bits := (bits s)[k div 64 := semiring_bit_operations_class.or (bits s ! (k div 64)) (push_bit (k mod 64) 1)]\<rparr>"

primrec tokenset_of :: "nat list \<Rightarrow> token_set \<Rightarrow> token_set" where
  "tokenset_of [] s = s"
| "tokenset_of (k # ks) s = tokenset_of ks (token_set_add k s)"

definition tokenset :: "syntax_kind list \<Rightarrow> token_set" where
  "tokenset ks = tokenset_of (map discriminant ks) token_set_empty"

definition kw_tokenset :: "contextual_keyword list \<Rightarrow> token_set" where
  "kw_tokenset ks = tokenset_of (map kw_discriminant ks) token_set_empty"

definition token_set_contains :: "token_set \<Rightarrow> nat \<Rightarrow> bool" where
  "token_set_contains s k =
     (let index = k div 64; mask = push_bit (k mod 64) (1 :: u64)
      in index < 4 \<and> semiring_bit_operations_class.and (bits s ! index) mask \<noteq> 0)"

subsection \<open>The bit set is the set of its members\<close>

lemma mask_hit: "(semiring_bit_operations_class.and w (push_bit n (1 :: u64)) \<noteq> 0) = bit w n" if "n < 64"
proof -
  have eq: "semiring_bit_operations_class.and w (push_bit n 1) = (if bit w n then push_bit n 1 else 0)"
    by (rule bit_word_eqI) (auto simp: bit_simps)
  have "bit (push_bit n (1 :: u64)) n"
    using that by (simp add: bit_push_bit_iff del: push_bit_of_1)
  hence "push_bit n (1 :: u64) \<noteq> 0"
    by (metis bit_0_eq bot_fun_def bot_bool_def)
  with eq show ?thesis by simp
qed

lemma contains_iff:
  "token_set_contains s k = (k div 64 < 4 \<and> bit (bits s ! (k div 64)) (k mod 64))"
  using mask_hit [of "k mod 64" "bits s ! (k div 64)"]
  by (simp add: token_set_contains_def Let_def)

lemma length_bits_add [simp]: "length (bits (token_set_add k s)) = length (bits s)"
  by (simp add: token_set_add_def)

lemma contains_add:
  assumes "length (bits s) = 4" and "k < 256"
  shows "token_set_contains (token_set_add k s) l = (l = k \<or> token_set_contains s l)"
proof -
  have kl: "k div 64 < 4" using assms(2) by (simp add: div_less_iff_less_mult)
  have eq: "l = k \<longleftrightarrow> l div 64 = k div 64 \<and> l mod 64 = k mod 64"
    by (metis div_mult_mod_eq)
  have m: "bit (semiring_bit_operations_class.or w (push_bit (k mod 64) (1 :: u64))) (l mod 64) =
      (l mod 64 = k mod 64 \<or> bit w (l mod 64))" for w
    using mod_less_divisor [of 64 l] by (auto simp: bit_or_iff bit_push_bit_iff bit_1_iff simp del: push_bit_of_1)
  show ?thesis
    using assms(1) kl
    by (cases "l div 64 = k div 64")
       (auto simp: contains_iff token_set_add_def m eq simp del: push_bit_of_1)
qed

lemma contains_tokenset_of:
  assumes "length (bits s) = 4" and "\<forall>k \<in> set ks. k < 256"
  shows "token_set_contains (tokenset_of ks s) l = (l \<in> set ks \<or> token_set_contains s l)"
  using assms by (induction ks arbitrary: s) (auto simp: contains_add)

lemma contains_empty [simp]: "\<not> token_set_contains token_set_empty l"
proof -
  have "i < 4 \<Longrightarrow> [0, 0, 0, 0 :: u64] ! i = 0" for i
    by (simp add: less_Suc_eq numeral_eq_Suc) auto
  thus ?thesis by (auto simp: contains_iff token_set_empty_def)
qed

subsection \<open>The interface the parser uses\<close>

text \<open>
  A set of kinds as the parser needs it: built from a list, queried by a kind. The
  representation is free as long as membership is list membership.
\<close>

locale kind_set =
  fixes build :: "syntax_kind list \<Rightarrow> 's" and has :: "'s \<Rightarrow> syntax_kind \<Rightarrow> bool"
    and in_range :: "syntax_kind \<Rightarrow> bool"
  assumes has_build: "\<forall>k \<in> set ks. in_range k \<Longrightarrow> has (build ks) l = (l \<in> set ks)"
begin

lemma has_build_Cons:
  assumes "\<forall>k \<in> set (a # ks). in_range k"
  shows "has (build (a # ks)) l = (l = a \<or> has (build ks) l)"
  using assms by (simp add: has_build)

lemma build_order_irrelevant:
  assumes "set ks = set ls" and "\<forall>k \<in> set ks. in_range k"
  shows "has (build ks) l = has (build ls) l"
  using assms by (simp add: has_build)

lemma build_mono:
  assumes "set ks \<subseteq> set ls" and "\<forall>k \<in> set ls. in_range k" and "has (build ks) l"
  shows "has (build ls) l"
  using assms by (metis has_build subset_iff)

end

lemma contains_tokenset:
  assumes "\<forall>k \<in> set ks. discriminant k < 256"
  shows "token_set_contains (tokenset ks) (discriminant l) = (l \<in> set ks)"
proof -
  have "length (bits token_set_empty) = 4" by (simp add: token_set_empty_def)
  hence "token_set_contains (tokenset ks) (discriminant l) =
      (discriminant l \<in> discriminant ` set ks)"
    using assms by (simp add: tokenset_def contains_tokenset_of)
  also have "\<dots> = (l \<in> set ks)"
    by (auto simp: image_iff syntax_kind_eq_iff [symmetric])
  finally show ?thesis .
qed

lemma contains_kw_tokenset:
  "token_set_contains (kw_tokenset ks) l = (l \<in> kw_discriminant ` set ks)"
proof -
  have "length (bits token_set_empty) = 4" by (simp add: token_set_empty_def)
  moreover have "kw_discriminant k < 256" for k by (cases k) simp_all
  ultimately show ?thesis by (simp add: kw_tokenset_def contains_tokenset_of)
qed

interpretation token_sets: kind_set tokenset "\<lambda>s k. token_set_contains s (discriminant k)"
    "\<lambda>k. discriminant k < 256"
  by unfold_locales (rule contains_tokenset)

end
