(* ===== verification/Parser.thy ===== *)
theory Parser imports TokenSets begin

text \<open>
  The parser object of \<^verbatim>\<open>crates/java-syntax/src/parser.rs\<close> with its token source
  (\<^verbatim>\<open>parser/reader.rs\<close>), markers (\<^verbatim>\<open>parser/marker.rs\<close>) and checkpoints
  (\<^verbatim>\<open>parser/checkpoint.rs\<close>): the state as records, the queries (\<^verbatim>\<open>&self\<close>) as functions of
  the state, and the operations (\<^verbatim>\<open>&mut self\<close>) as actions of a state monad.

  The monad's state is a machine that is either running, with the parser object, or
  stopped, with the reason why the Rust function never returns to its caller: a panic of
  the standard library or of an assertion of the source, an armed marker that goes out of
  scope (a \<^verbatim>\<open>DropBomb\<close>, whose behaviour from there on is that of the \<^verbatim>\<open>drop_bomb\<close> crate and is
  not modelled), or a loop or recursion that has used up the fuel it was given. Every
  action of a stopped machine leaves it stopped, as nothing runs after a panic.

  Strings are lists of bytes (\<^verbatim>\<open>str\<close> is UTF-8, and \<^verbatim>\<open>TextSize\<close> counts bytes); offsets are
  natural numbers, so a source of 4 GiB or more, for which \<^verbatim>\<open>TextSize\<close> would overflow, is
  outside the model.
\<close>

subsection \<open>Tokens and text ranges\<close>

record token =
  tok_kind :: syntax_kind
  tok_lexeme :: string
  tok_offset :: nat

datatype text_range = TextRange (range_start: nat) (range_end: nat)

definition range_at :: "nat \<Rightarrow> nat \<Rightarrow> text_range" where
  "range_at offset len = TextRange offset (offset + len)"

definition range_empty :: "nat \<Rightarrow> text_range" where
  "range_empty offset = TextRange offset offset"

text \<open>A byte index splits a \<^verbatim>\<open>str\<close> unless it is past the end or before a continuation byte.\<close>

definition is_char_boundary :: "string \<Rightarrow> nat \<Rightarrow> bool" where
  "is_char_boundary s i =
     (i = 0 \<or> i = length s \<or>
      i < length s \<and> \<not> (128 \<le> (of_char (s ! i) :: nat) \<and> (of_char (s ! i) :: nat) < 192))"

definition split_at :: "string \<Rightarrow> nat \<Rightarrow> (string \<times> string) option" where
  "split_at s i = (if is_char_boundary s i then Some (take i s, drop i s) else None)"

subsection \<open>Errors and events\<close>

datatype expected_construct =
    Declaration | TypeDeclaration | MemberDeclaration | Expression | Statement | Type
  | Resource | QualifiedName | Pattern | ModuleDirective

datatype parse_error_kind =
    ExpectedToken "syntax_kind list" "syntax_kind option"
  | ExpectedContextualKeyword contextual_keyword "syntax_kind option"
  | ExpectedConstruct expected_construct
  | NotAStatement
  | Message string

record parse_error =
  err_kind :: parse_error_kind
  err_range :: text_range

datatype event =
    Tombstone
  | AddToken
  | AddVirtualToken syntax_kind string
  | AdvanceSource
  | Error parse_error
  | StartNode syntax_kind "nat option"
  | FinishNode

subsection \<open>The token source\<close>

record token_source =
  tokens :: "token list"
  indices :: "nat list"
  cursor :: nat

text \<open>\<^verbatim>\<open>TokenSource::new\<close>: the positions of the tokens that are not trivia.\<close>

definition token_source_new :: "token list \<Rightarrow> token_source" where
  "token_source_new ts =
     \<lparr>tokens = ts,
      indices = filter (\<lambda>i. \<not> is_trivia (tok_kind (ts ! i))) [0..<length ts],
      cursor = 0\<rparr>"

definition source_nth :: "nat \<Rightarrow> token_source \<Rightarrow> token option" where
  "source_nth n s =
     (case nth_opt (indices s) (cursor s + n) of
        None \<Rightarrow> None
      | Some idx \<Rightarrow> Some (tokens s ! idx))"

definition source_current :: "token_source \<Rightarrow> syntax_kind option" where
  "source_current s = map_option tok_kind (source_nth 0 s)"

definition source_current_lexeme :: "token_source \<Rightarrow> string option" where
  "source_current_lexeme s = map_option tok_lexeme (source_nth 0 s)"

definition source_bump :: "token_source \<Rightarrow> token_source" where
  "source_bump s =
     (if cursor s < length (indices s) then s\<lparr>cursor := cursor s + 1\<rparr> else s)"

definition source_is_at_end :: "token_source \<Rightarrow> bool" where
  "source_is_at_end s = (length (indices s) \<le> cursor s)"

definition source_set_pos :: "nat \<Rightarrow> token_source \<Rightarrow> token_source option" where
  "source_set_pos new_pos s =
     (if new_pos \<le> length (indices s) then Some (s\<lparr>cursor := new_pos\<rparr>) else None)"

subsection \<open>The parser object\<close>

record parser =
  source :: token_source
  events :: "event list"
  errors :: "parse_error list"
  override_token :: "token option"
  last_token_range :: text_range

definition parser_new :: "token list \<Rightarrow> parser" where
  "parser_new ts =
     \<lparr>source = token_source_new ts, events = [], errors = [],
      override_token = None, last_token_range = range_empty 0\<rparr>"

record checkpoint =
  source_pos :: nat
  events_len :: nat
  errors_len :: nat

subsubsection \<open>Queries\<close>

definition current :: "parser \<Rightarrow> syntax_kind option" where
  "current p =
     (case map_option tok_kind (override_token p) of
        Some k \<Rightarrow> Some k
      | None \<Rightarrow> source_current (source p))"

definition current_lexeme :: "parser \<Rightarrow> string option" where
  "current_lexeme p = source_current_lexeme (source p)"

definition nth_kind :: "nat \<Rightarrow> parser \<Rightarrow> syntax_kind option" where
  "nth_kind n p =
     (case override_token p of
        Some over \<Rightarrow>
          (if n = 0 then Some (tok_kind over)
           else map_option tok_kind (source_nth (n - 1) (source p)))
      | None \<Rightarrow> map_option tok_kind (source_nth n (source p)))"

definition at :: "syntax_kind \<Rightarrow> parser \<Rightarrow> bool" where
  "at k p = (current p = Some k)"

definition at_set :: "token_set \<Rightarrow> parser \<Rightarrow> bool" where
  "at_set s p =
     (case current p of None \<Rightarrow> False | Some k \<Rightarrow> token_set_contains s (discriminant k))"

definition is_at_end :: "parser \<Rightarrow> bool" where
  "is_at_end p = (at EOF p \<or> source_is_at_end (source p))"

definition at_contextual_kw :: "contextual_keyword \<Rightarrow> parser \<Rightarrow> bool" where
  "at_contextual_kw kw p =
     (current p = Some IDENTIFIER \<and> current_lexeme p = Some (kw_as_str kw))"

definition nth_at_contextual_kw :: "nat \<Rightarrow> contextual_keyword \<Rightarrow> parser \<Rightarrow> bool" where
  "nth_at_contextual_kw n kw p =
     (case source_nth n (source p) of
        None \<Rightarrow> False
      | Some t \<Rightarrow> tok_kind t = IDENTIFIER \<and> tok_lexeme t = kw_as_str kw)"

definition at_contextual_kw_set :: "token_set \<Rightarrow> parser \<Rightarrow> bool" where
  "at_contextual_kw_set s p =
     (if at IDENTIFIER p then
        (case current_lexeme p of
           None \<Rightarrow> False
         | Some text \<Rightarrow>
             (case kw_from_str text of
                Some kw \<Rightarrow> token_set_contains s (kw_discriminant kw)
              | None \<Rightarrow> False))
      else False)"

definition nth_at_non_sealed :: "nat \<Rightarrow> parser \<Rightarrow> bool" where
  "nth_at_non_sealed n p =
     (if n = 0 \<and> override_token p \<noteq> None then False
      else
        (case source_nth n (source p) of
           None \<Rightarrow> False
         | Some t \<Rightarrow> tok_kind t = IDENTIFIER \<and> tok_lexeme t = ''non'') \<and>
        (case source_nth (n + 1) (source p) of
           None \<Rightarrow> False
         | Some t \<Rightarrow> tok_kind t = MINUS) \<and>
        (case source_nth (n + 2) (source p) of
           None \<Rightarrow> False
         | Some t \<Rightarrow> tok_kind t = IDENTIFIER \<and> tok_lexeme t = ''sealed''))"

definition at_non_sealed :: "parser \<Rightarrow> bool" where
  "at_non_sealed p = nth_at_non_sealed 0 p"

definition matches :: "syntax_kind list \<Rightarrow> parser \<Rightarrow> bool" where
  "matches kinds p = list_all (\<lambda>(i, k). nth_kind i p = Some k) (enumerate 0 kinds)"

definition current_token_range :: "parser \<Rightarrow> text_range" where
  "current_token_range p =
     (case override_token p of
        Some over \<Rightarrow> range_at (tok_offset over) (length (tok_lexeme over))
      | None \<Rightarrow>
          (case source_nth 0 (source p) of
             Some t \<Rightarrow> range_at (tok_offset t) (length (tok_lexeme t))
           | None \<Rightarrow> range_empty (range_end (last_token_range p))))"

definition checkpoint_of :: "parser \<Rightarrow> checkpoint" where
  "checkpoint_of p =
     \<lparr>source_pos = cursor (source p), events_len = length (events p),
      errors_len = length (errors p)\<rparr>"

subsection \<open>The machine\<close>

datatype stop =
    OutOfFuel
  | MarkerDropped
  | PanicUnreachable
  | PanicAssert
  | PanicSplit

datatype machine = Run parser | Stop stop

type_synonym 'a parse = "(machine, 'a) state"

text \<open>
  An action that may panic; \<open>d\<close> is the value a stopped machine hands to code that no
  longer has an effect.
\<close>

definition action :: "'a \<Rightarrow> (parser \<Rightarrow> stop + 'a \<times> parser) \<Rightarrow> 'a parse" where
  "action d f = State (\<lambda>s.
     case s of
       Run p \<Rightarrow> (case f p of Inl e \<Rightarrow> (d, Stop e) | Inr (a, p') \<Rightarrow> (a, Run p'))
     | Stop e \<Rightarrow> (d, Stop e))"

definition modify :: "(parser \<Rightarrow> parser) \<Rightarrow> unit parse" where
  "modify f = action () (\<lambda>p. Inr ((), f p))"

definition gets :: "(parser \<Rightarrow> 'a) \<Rightarrow> 'a parse" where
  "gets f = action (f (parser_new [])) (\<lambda>p. Inr (f p, p))"

text \<open>The parser as the queries of a condition see it.\<close>

definition view :: "parser parse" where
  "view = gets (\<lambda>p. p)"

definition halt :: "'a \<Rightarrow> stop \<Rightarrow> 'a parse" where
  "halt d e = action d (\<lambda>_. Inl e)"

text \<open>\<^verbatim>\<open>while c(p) { body(p) }\<close>, with fuel for the number of iterations.\<close>

primrec while_loop :: "nat \<Rightarrow> (parser \<Rightarrow> bool) \<Rightarrow> unit parse \<Rightarrow> unit parse" where
  "while_loop 0 c body = halt () OutOfFuel"
| "while_loop (Suc n) c body =
     do { b \<leftarrow> gets c; if b then do { body; while_loop n c body } else skip }"

text \<open>\<^verbatim>\<open>loop { body(p) }\<close>, where the body says whether to go round again.\<close>

primrec loop :: "nat \<Rightarrow> bool parse \<Rightarrow> unit parse" where
  "loop 0 body = halt () OutOfFuel"
| "loop (Suc n) body = do { again \<leftarrow> body; if again then loop n body else skip }"

text \<open>A loop that updates local variables \<open>x\<close>; the body also says whether to go round again.\<close>

primrec loop_with :: "nat \<Rightarrow> 'x \<Rightarrow> ('x \<Rightarrow> (bool \<times> 'x) parse) \<Rightarrow> 'x parse" where
  "loop_with 0 x body = halt x OutOfFuel"
| "loop_with (Suc n) x body =
     do { r \<leftarrow> body x; if fst r then loop_with n (snd r) body else ret (snd r) }"

subsection \<open>Operations of the parser\<close>

definition push_event :: "event \<Rightarrow> parser \<Rightarrow> parser" where
  "push_event e p = p\<lparr>events := events p @ [e]\<rparr>"

definition start :: "nat parse" where
  "start = action 0 (\<lambda>p. Inr (length (events p), push_event Tombstone p))"

definition bump_parser :: "parser \<Rightarrow> parser" where
  "bump_parser p =
     (case override_token p of
        Some over \<Rightarrow>
          (let p1 = push_event (AddVirtualToken (tok_kind over) (tok_lexeme over))
                      (p\<lparr>override_token := None\<rparr>);
               p2 = push_event AdvanceSource p1
           in p2\<lparr>source := source_bump (source p2),
                 last_token_range := range_at (tok_offset over) (length (tok_lexeme over))\<rparr>)
      | None \<Rightarrow>
          (case source_nth 0 (source p) of
             Some t \<Rightarrow>
               (let p1 = push_event AddToken p
                in p1\<lparr>source := source_bump (source p1),
                      last_token_range := range_at (tok_offset t) (length (tok_lexeme t))\<rparr>)
           | None \<Rightarrow> p))"

definition bump :: "unit parse" where
  "bump = modify bump_parser"

definition error_at :: "parse_error_kind \<Rightarrow> text_range \<Rightarrow> unit parse" where
  "error_at k r = modify (\<lambda>p.
     let e = \<lparr>err_kind = k, err_range = r\<rparr>
     in push_event (Error e) (p\<lparr>errors := errors p @ [e]\<rparr>))"

definition error :: "parse_error_kind \<Rightarrow> unit parse" where
  "error k = do { r \<leftarrow> gets current_token_range; error_at k r }"

definition error_message :: "string \<Rightarrow> unit parse" where
  "error_message msg = error (Message msg)"

text \<open>A text in single quotes, inside a message.\<close>

definition quoted :: "string \<Rightarrow> string" where
  "quoted s = [CHR 0x27] @ s @ [CHR 0x27]"

definition error_expected_construct :: "expected_construct \<Rightarrow> unit parse" where
  "error_expected_construct c = error (ExpectedConstruct c)"

definition eat :: "syntax_kind \<Rightarrow> bool parse" where
  "eat k = do { b \<leftarrow> gets (at k); if b then do { bump; ret True } else ret False }"

text \<open>\<^verbatim>\<open>while p.eat(k) { body(p); }\<close>\<close>

definition while_eat :: "nat \<Rightarrow> syntax_kind \<Rightarrow> unit parse \<Rightarrow> unit parse" where
  "while_eat n k body =
     loop n (do { b \<leftarrow> eat k; if b then do { body; ret True } else ret False })"

definition eat_contextual_kw :: "contextual_keyword \<Rightarrow> bool parse" where
  "eat_contextual_kw kw =
     do { b \<leftarrow> gets (at_contextual_kw kw); if b then do { bump; ret True } else ret False }"

definition eat_non_sealed :: "bool parse" where
  "eat_non_sealed =
     do { b \<leftarrow> gets at_non_sealed;
          if \<not> b then ret False else do { bump; bump; bump; ret True } }"

definition expect_contextual_kw :: "contextual_keyword \<Rightarrow> unit parse" where
  "expect_contextual_kw kw =
     do { b \<leftarrow> eat_contextual_kw kw;
          if_then (\<not> b) (error_message ''expected contextual keyword'') }"

subsubsection \<open>Markers\<close>

text \<open>
  A \<^verbatim>\<open>Marker\<close> is the position of its tombstone; a \<^verbatim>\<open>CompletedMarker\<close> adds the kind. Reading
  \<^verbatim>\<open>p.events[idx]\<close> out of range panics, as the \<^verbatim>\<open>unreachable!\<close> arms do.
\<close>

datatype completed = Completed (completed_pos: nat) (completed_kind: syntax_kind)

definition complete :: "nat \<Rightarrow> syntax_kind \<Rightarrow> completed parse" where
  "complete m k = action (Completed m k) (\<lambda>p.
     case nth_opt (events p) m of
       Some Tombstone \<Rightarrow>
         Inr (Completed m k,
              push_event FinishNode (p\<lparr>events := (events p)[m := StartNode k None]\<rparr>))
     | _ \<Rightarrow> Inl PanicUnreachable)"

definition abandon :: "nat \<Rightarrow> unit parse" where
  "abandon m = action () (\<lambda>p.
     case nth_opt (events p) m of
       Some Tombstone \<Rightarrow> Inr ((), p)
     | _ \<Rightarrow> Inl PanicUnreachable)"

definition precede :: "completed \<Rightarrow> nat parse" where
  "precede c = action 0 (\<lambda>p.
     let new_pos = length (events p);
         p1 = push_event Tombstone p
     in case nth_opt (events p1) (completed_pos c) of
          Some (StartNode k forward_parent) \<Rightarrow>
            (if forward_parent = None then
               Inr (new_pos,
                    p1\<lparr>events := (events p1)
                         [completed_pos c := StartNode k (Some (new_pos - completed_pos c))]\<rparr>)
             else Inl PanicAssert)
        | _ \<Rightarrow> Inl PanicUnreachable)"

text \<open>\<^verbatim>\<open>m.complete(p, KIND);\<close> as a statement.\<close>

definition finish_node :: "nat \<Rightarrow> syntax_kind \<Rightarrow> unit parse" where
  "finish_node m k = discard (complete m k)"

text \<open>A marker that goes out of scope before it is completed or abandoned.\<close>

definition drop_marker :: "nat \<Rightarrow> 'a \<Rightarrow> 'a parse" where
  "drop_marker m d = halt d MarkerDropped"

subsubsection \<open>Expectations\<close>

definition error_expected :: "syntax_kind list \<Rightarrow> unit parse" where
  "error_expected expected =
     do { found \<leftarrow> gets current;
          range \<leftarrow> gets (\<lambda>p. if found = None then range_empty (range_end (last_token_range p))
                              else current_token_range p);
          error_at (ExpectedToken expected found) range;
          m \<leftarrow> start;
          finish_node m MISSING }"

definition expect :: "syntax_kind \<Rightarrow> bool parse" where
  "expect k =
     do { b \<leftarrow> eat k;
          if \<not> b then do { error_expected [k]; ret False } else ret True }"

text \<open>\<^verbatim>\<open>p.expect(k);\<close> as a statement.\<close>

abbreviation expect' :: "syntax_kind \<Rightarrow> unit parse" where
  "expect' k \<equiv> discard (expect k)"

abbreviation eat' :: "syntax_kind \<Rightarrow> unit parse" where
  "eat' k \<equiv> discard (eat k)"

subsubsection \<open>Checkpoints and token splitting\<close>

definition checkpoint :: "checkpoint parse" where
  "checkpoint = gets checkpoint_of"

definition rewind :: "checkpoint \<Rightarrow> unit parse" where
  "rewind cp = action () (\<lambda>p.
     case source_set_pos (source_pos cp) (source p) of
       None \<Rightarrow> Inl PanicAssert
     | Some s \<Rightarrow>
         Inr ((), p\<lparr>source := s, events := take (events_len cp) (events p),
                     errors := take (errors_len cp) (errors p)\<rparr>))"

definition split_token :: "syntax_kind \<Rightarrow> nat \<Rightarrow> syntax_kind \<Rightarrow> unit parse" where
  "split_token first_kind first_len rest_kind = action () (\<lambda>p.
     case source_nth 0 (source p) of
       None \<Rightarrow> Inr ((), p)
     | Some old \<Rightarrow>
         (case split_at (tok_lexeme old) first_len of
            None \<Rightarrow> Inl PanicSplit
          | Some (head, tail) \<Rightarrow>
              Inr ((), (push_event (AddVirtualToken first_kind head) p)
                \<lparr>override_token :=
                   Some \<lparr>tok_kind = rest_kind, tok_lexeme = tail,
                          tok_offset = tok_offset old + first_len\<rparr>\<rparr>)))"

end
