(* ===== verification/Flow.thy ===== *)
theory Flow imports Parser begin

text \<open>
  The discipline every grammar function follows, as a typing judgement on parser actions.

  A function of the grammar appends to the event list; the markers it starts it completes
  or abandons, and a completed marker may be preceded once. \<open>flows T ms f R\<close> says that the
  action \<open>f\<close>, run on the token list \<open>T\<close> while the markers \<open>ms\<close> are pending (innermost
  first), never hits an \<^verbatim>\<open>unreachable!\<close> or an assertion of the marker and reader code,
  keeps the parser's bookkeeping consistent (\<open>consistent\<close>), and leaves the markers \<open>R a\<close> pending
  when it returns \<open>a\<close>. The rules of the judgement are syntax directed.
\<close>

subsection \<open>What an event list records\<close>

fun event_errors :: "event list \<Rightarrow> parse_error list" where
  "event_errors [] = []"
| "event_errors (Error e # es) = e # event_errors es"
| "event_errors (_ # es) = event_errors es"

text \<open>The tokens an event list takes off the source, and whether it holds a split token.\<close>

fun advances :: "event list \<Rightarrow> nat" where
  "advances [] = 0"
| "advances (AddToken # es) = Suc (advances es)"
| "advances (AdvanceSource # es) = Suc (advances es)"
| "advances (_ # es) = advances es"

fun is_split :: "event \<Rightarrow> bool" where
  "is_split (AddVirtualToken _ _) = True"
| "is_split AdvanceSource = True"
| "is_split _ = False"

lemma event_errors_append [simp]: "event_errors (xs @ ys) = event_errors xs @ event_errors ys"
  by (induction xs rule: event_errors.induct) auto

lemma advances_append [simp]: "advances (xs @ ys) = advances xs + advances ys"
  by (induction xs rule: advances.induct) auto

fun structural :: "event \<Rightarrow> bool" where
  "structural Tombstone = True"
| "structural (StartNode _ _) = True"
| "structural FinishNode = True"
| "structural _ = False"

lemma structural_measures:
  assumes "structural e"
  shows "event_errors (e # es) = event_errors es" and "advances (e # es) = advances es"
    and "\<not> is_split e"
  using assms by (cases e; simp)+

text \<open>Replacing one structural event by another leaves the record unchanged.\<close>

lemma update_structural:
  assumes "i < length es" and "structural (es ! i)" and "structural e"
  shows "event_errors (es[i := e]) = event_errors es" and "advances (es[i := e]) = advances es"
    and "list_ex is_split (es[i := e]) = list_ex is_split es"
proof -
  have es: "es = take i es @ es ! i # drop (Suc i) es"
    using assms(1) by (simp add: id_take_nth_drop)
  have up: "es[i := e] = take i es @ e # drop (Suc i) es"
    using assms(1) by (simp add: upd_conv_take_nth_drop)
  note m = structural_measures [OF assms(2)] structural_measures [OF assms(3)]
  show "event_errors (es[i := e]) = event_errors es"
    by (subst (2) es, subst up) (simp add: m)
  show "advances (es[i := e]) = advances es"
    by (subst (2) es, subst up) (simp add: m)
  show "list_ex is_split (es[i := e]) = list_ex is_split es"
    by (subst (2) es, subst up) (simp add: m)
qed

subsection \<open>Balanced segments and forward-parent chains\<close>

text \<open>
  A finished stretch of events is a segment: leaves, and chains of nodes. In a chain each
  node but the last names the next one as its parent, by the distance between the two
  start events; \<open>chain c i\<close> has its last start event at position \<open>i\<close>.
\<close>

fun leaf_event :: "event \<Rightarrow> bool" where
  "leaf_event (StartNode _ _) = False"
| "leaf_event FinishNode = False"
| "leaf_event _ = True"

inductive seg :: "event list \<Rightarrow> bool" and chain :: "event list \<Rightarrow> nat \<Rightarrow> bool" where
  seg_Nil: "seg []"
| seg_append: "seg xs \<Longrightarrow> seg ys \<Longrightarrow> seg (xs @ ys)"
| seg_leaf: "leaf_event e \<Longrightarrow> seg [e]"
| seg_chain: "chain c i \<Longrightarrow> seg c"
| chain_last: "seg xs \<Longrightarrow> chain (StartNode k None # xs @ [FinishNode]) 0"
| chain_next: "seg xs \<Longrightarrow> chain c i \<Longrightarrow>
    chain (StartNode k (Some (length xs + 2)) # xs @ FinishNode # c) (length xs + 2 + i)"

lemma seg_snoc_leaf: "seg xs \<Longrightarrow> leaf_event e \<Longrightarrow> seg (xs @ [e])"
  by (blast intro: seg_append seg_leaf)

lemma chain_last_start_aux:
  "seg es \<Longrightarrow> True" and
  chain_last_start: "chain c i \<Longrightarrow> i < length c \<and> (\<exists>k. c ! i = StartNode k None)"
  by (induction rule: seg_chain.inducts) (auto simp: nth_append)

text \<open>Preceding the last node of a chain and completing the new marker extends the chain.\<close>

lemma chain_extend_aux:
  "seg es \<Longrightarrow> True" and
  chain_extend: "chain c i \<Longrightarrow> seg xs \<Longrightarrow> c ! i = StartNode k None \<Longrightarrow>
   chain (c[i := StartNode k (Some (length c - i))] @ StartNode l None # xs @ [FinishNode]) (length c)"
proof (induction rule: seg_chain.inducts)
  case (chain_last ys k')
  have "chain (StartNode k (Some (length ys + 2)) # ys @ FinishNode #
      (StartNode l None # xs @ [FinishNode])) (length ys + 2 + 0)"
    using chain_last by (intro chain_next seg_chain.chain_last)
  with chain_last show ?case by simp
next
  case (chain_next ys c i k')
  have at: "c ! i = StartNode k None"
    using chain_next.prems(2) by (simp add: nth_append)
  have "chain (StartNode k' (Some (length ys + 2)) # ys @ FinishNode #
      (c[i := StartNode k (Some (length c - i))] @ StartNode l None # xs @ [FinishNode]))
      (length ys + 2 + length c)"
    using chain_next.hyps(1) chain_next.IH(2) [OF chain_next.prems(1) at]
    by (rule seg_chain.chain_next)
  moreover have "(StartNode k' (Some (length ys + 2)) # ys @ FinishNode # c)
      [length ys + 2 + i := StartNode k (Some (length c - i))] =
      StartNode k' (Some (length ys + 2)) # ys @ FinishNode # c[i := StartNode k (Some (length c - i))]"
    by (simp add: list_update_append)
  ultimately show ?case by simp
qed auto

subsection \<open>The judgement\<close>

text \<open>
  Pending obligations: an open marker, an open marker that precedes a chain, a completed
  marker that may still be preceded, a checkpoint that may still be rewound to.
\<close>

datatype pending = Opn nat | Pre nat | Don completed | Chk checkpoint

fun is_Don :: "pending \<Rightarrow> bool" where
  "is_Don (Don _) = True"
| "is_Don _ = False"

definition nodone :: "pending list \<Rightarrow> bool" where
  "nodone ms = (\<not> list_ex is_Don ms)"

lemma nodone_simps [simp]:
  "nodone []" "nodone (Opn m # ms) = nodone ms" "nodone (Pre m # ms) = nodone ms"
  "nodone (Chk c # ms) = nodone ms"
  by (simp_all add: nodone_def)

text \<open>The events since \<open>base\<close>, given what is pending.\<close>

fun shape :: "event list \<Rightarrow> pending list \<Rightarrow> event list \<Rightarrow> bool" where
  "shape base [] es = (\<exists>xs. seg xs \<and> es = base @ xs)"
| "shape base (Opn m # ms) es =
     (\<exists>es1 xs. shape base ms es1 \<and> seg xs \<and> m = length es1 \<and> es = es1 @ Tombstone # xs)"
| "shape base (Pre m # ms) es =
     (\<exists>es1 c i k xs. shape base ms es1 \<and> chain c i \<and> c ! i = StartNode k None \<and> seg xs \<and>
        m = length es1 + length c \<and>
        es = es1 @ c[i := StartNode k (Some (length c - i))] @ Tombstone # xs)"
| "shape base (Don d # ms) es =
     (\<exists>es1 c i. shape base ms es1 \<and> chain c i \<and> completed_pos d = length es1 + i \<and> es = es1 @ c)"
| "shape base (Chk cp # ms) es =
     (\<exists>es1 xs. shape base ms es1 \<and> seg xs \<and> es = es1 @ xs \<and>
        cp = \<lparr>source_pos = advances es1, events_len = length es1,
              errors_len = length (event_errors es1)\<rparr>)"

lemma shape_append:
  assumes a: "shape base ms es" "nodone ms" "seg ys"
  shows "shape base ms (es @ ys)"
proof (cases ms)
  case Nil
  with a obtain xs where "seg xs" "es = base @ xs" by auto
  with Nil seg_append [OF this(1) a(3)] show ?thesis by simp
next
  case (Cons e ms')
  show ?thesis
  proof (cases e)
    case (Opn m)
    with a Cons obtain es1 xs where w: "shape base ms' es1" "seg xs" "m = length es1"
      "es = es1 @ Tombstone # xs" by auto
    show ?thesis
      using Cons Opn w seg_append [OF w(2) a(3)]
      by (simp only: shape.simps, intro exI [of _ es1] exI [of _ "xs @ ys"]) simp
  next
    case (Pre m)
    with a Cons obtain es1 c i k xs where w: "shape base ms' es1" "chain c i"
      "c ! i = StartNode k None" "seg xs" "m = length es1 + length c"
      "es = es1 @ c[i := StartNode k (Some (length c - i))] @ Tombstone # xs"
      by auto
    show ?thesis
      using Cons Pre w seg_append [OF w(4) a(3)]
      by (simp only: shape.simps, intro exI [of _ es1] exI [of _ c] exI [of _ i] exI [of _ k]
            exI [of _ "xs @ ys"]) simp
  next
    case (Don d)
    with a Cons show ?thesis by (simp add: nodone_def)
  next
    case (Chk cp)
    with a Cons obtain es1 xs where w: "shape base ms' es1" "seg xs" "es = es1 @ xs"
      "cp = \<lparr>source_pos = advances es1, events_len = length es1,
              errors_len = length (event_errors es1)\<rparr>" by auto
    show ?thesis
      using Cons Chk w seg_append [OF w(2) a(3)]
      by (simp only: shape.simps, intro exI [of _ es1] exI [of _ "xs @ ys"]) simp
  qed
qed

lemma shape_drop_Don: "shape base (Don d # ms) es \<Longrightarrow> nodone ms \<Longrightarrow> shape base ms es"
  by (auto intro: shape_append seg_chain)

definition has_kind :: "syntax_kind \<Rightarrow> token list \<Rightarrow> bool" where
  "has_kind k T = list_ex (\<lambda>t. tok_kind t = k) T"

definition has_shift :: "token list \<Rightarrow> bool" where
  "has_shift T = (has_kind RIGHT_SHIFT T \<or> has_kind UNSIGNED_RIGHT_SHIFT T)"

text \<open>What may stop a parse of \<open>T\<close>.\<close>

fun stop_ok :: "token list \<Rightarrow> stop \<Rightarrow> bool" where
  "stop_ok T OutOfFuel = True"
| "stop_ok T MarkerDropped = has_kind TRY_KW T"
| "stop_ok T PanicSplit = has_shift T"
| "stop_ok T PanicUnreachable = False"
| "stop_ok T PanicAssert = False"

text \<open>
  The bookkeeping: the cursor counts the events that take a token off the source, the
  error list repeats the error events, and split tokens only come from shift tokens.
\<close>

definition consistent :: "token list \<Rightarrow> parser \<Rightarrow> bool" where
  "consistent T p \<longleftrightarrow>
     tokens (source p) = T \<and> indices (source p) = indices (token_source_new T) \<and>
     cursor (source p) = advances (events p) \<and>
     cursor (source p) \<le> length (indices (source p)) \<and>
     errors p = event_errors (events p) \<and>
     (\<forall>t. override_token p = Some t \<longrightarrow>
        has_shift T \<and> cursor (source p) < length (indices (source p)) \<and>
        tok_kind t \<in> {GREATER, RIGHT_SHIFT}) \<and>
     (list_ex is_split (events p) \<longrightarrow> has_shift T)"

definition flows ::
  "token list \<Rightarrow> pending list \<Rightarrow> 'a parse \<Rightarrow> ('a \<Rightarrow> pending list) \<Rightarrow> bool" where
  "flows T ms f R \<longleftrightarrow>
     (\<forall>e. snd (run_state f (Stop e)) = Stop e) \<and>
     (\<forall>base p. consistent T p \<longrightarrow> shape base ms (events p) \<longrightarrow>
        (case run_state f (Run p) of
           (a, Run p') \<Rightarrow> consistent T p' \<and> shape base (R a) (events p')
         | (_, Stop e) \<Rightarrow> stop_ok T e))"

lemma flowsI:
  assumes "\<And>e. snd (run_state f (Stop e)) = Stop e"
    and "\<And>base p. consistent T p \<Longrightarrow> shape base ms (events p) \<Longrightarrow>
       (\<exists>a p'. run_state f (Run p) = (a, Run p') \<and> consistent T p' \<and> shape base (R a) (events p')) \<or>
       (\<exists>a e. run_state f (Run p) = (a, Stop e) \<and> stop_ok T e)"
  shows "flows T ms f R"
  unfolding flows_def
proof (intro conjI allI impI)
  fix base p assume "consistent T p" "shape base ms (events p)"
  from assms(2) [OF this] show "case run_state f (Run p) of
      (a, Run p') \<Rightarrow> consistent T p' \<and> shape base (R a) (events p')
    | (_, Stop e) \<Rightarrow> stop_ok T e"
    by (elim disjE exE conjE) simp_all
qed (rule assms(1))

lemma flows_stopped: "flows T ms f R \<Longrightarrow> snd (run_state f (Stop e)) = Stop e"
  by (simp add: flows_def)

lemma flowsE:
  assumes "flows T ms f R" and "consistent T p" and "shape base ms (events p)"
  obtains (run) a p' where "run_state f (Run p) = (a, Run p')" "consistent T p'" "shape base (R a) (events p')"
    | (stop) a e where "run_state f (Run p) = (a, Stop e)" "stop_ok T e"
proof -
  obtain a s where r: "run_state f (Run p) = (a, s)" by fastforce
  have "case run_state f (Run p) of (a, Run p') \<Rightarrow> consistent T p' \<and> shape base (R a) (events p')
      | (_, Stop e) \<Rightarrow> stop_ok T e"
    using assms(1) [unfolded flows_def, THEN conjunct2, rule_format, OF assms(2,3)] .
  with r that show thesis by (cases s) auto
qed

subsection \<open>Rules for the control structures\<close>

lemma flow_bind [flow_rules]:
  assumes f: "flows T ms f R" and g: "\<And>a. flows T (R a) (g a) Q"
  shows "flows T ms (State_Monad.bind f g) Q"
proof (rule flowsI)
  fix e
  show "snd (run_state (State_Monad.bind f g) (Stop e)) = Stop e"
    using flows_stopped [OF f, of e] flows_stopped [OF g]
    by (simp add: split_beta)
next
  fix base p assume p: "consistent T p" "shape base ms (events p)"
  from f p show "(\<exists>a p'. run_state (State_Monad.bind f g) (Run p) = (a, Run p') \<and> consistent T p' \<and>
      shape base (Q a) (events p')) \<or>
      (\<exists>a e. run_state (State_Monad.bind f g) (Run p) = (a, Stop e) \<and> stop_ok T e)"
  proof (cases rule: flowsE)
    case (run a p')
    from g run(2,3) show ?thesis
      by (cases rule: flowsE) (auto simp: run)
  next
    case (stop a e)
    moreover have "snd (run_state (g a) (Stop e)) = Stop e" by (rule flows_stopped [OF g])
    ultimately show ?thesis by (cases "run_state (g a) (Stop e)") auto
  qed
qed

lemma flow_ret [flow_rules]: "flows T ms (ret a) (\<lambda>_. ms)"
  by (rule flowsI) auto

lemma flow_ret_at: "ms = R a \<Longrightarrow> flows T ms (ret a) R"
  by (rule flowsI) auto

lemma flow_if [flow_rules]:
  "flows T ms f R \<Longrightarrow> flows T ms g R \<Longrightarrow> flows T ms (if b then f else g) R"
  by simp

lemma flow_if_cond:
  "(b \<Longrightarrow> flows T ms f R) \<Longrightarrow> (\<not> b \<Longrightarrow> flows T ms g R) \<Longrightarrow> flows T ms (if b then f else g) R"
  by simp

lemma flow_if_then [flow_rules]: "flows T ms f (\<lambda>_. ms) \<Longrightarrow> flows T ms (if_then b f) (\<lambda>_. ms)"
  by (auto simp: if_then_def intro: flow_ret)

lemma flow_case_option [flow_rules]:
  "flows T ms f R \<Longrightarrow> (\<And>x. flows T ms (g x) R) \<Longrightarrow>
   flows T ms (case r of None \<Rightarrow> f | Some x \<Rightarrow> g x) R"
  by (cases r) auto

lemma flow_discard [flow_rules]: "flows T ms f (\<lambda>_. ms') \<Longrightarrow> flows T ms (discard f) (\<lambda>_. ms')"
  unfolding discard_def by (rule flow_bind, assumption, rule flow_ret)

text \<open>Forgetting that a completed marker could still be preceded.\<close>

lemma flow_drop:
  assumes "flows T ms f R" and "nodone ms"
  shows "flows T (Don d # ms) f R"
proof (rule flowsI)
  show "snd (run_state f (Stop e)) = Stop e" for e using assms(1) by (rule flows_stopped)
next
  fix base p assume p: "consistent T p" "shape base (Don d # ms) (events p)"
  note q = shape_drop_Don [OF p(2) assms(2)]
  from assms(1) p(1) q show "(\<exists>a p'. run_state f (Run p) = (a, Run p') \<and> consistent T p' \<and>
      shape base (R a) (events p')) \<or> (\<exists>a e. run_state f (Run p) = (a, Stop e) \<and> stop_ok T e)"
    by (cases rule: flowsE) blast+
qed

lemma flow_weaken:
  assumes f: "flows T ms f R" and R: "\<And>a. R a = ms \<or> (\<exists>d. R a = Don d # ms)" and "nodone ms"
  shows "flows T ms f (\<lambda>_. ms)"
proof (rule flowsI)
  show "snd (run_state f (Stop e)) = Stop e" for e using f by (rule flows_stopped)
next
  fix base p assume p: "consistent T p" "shape base ms (events p)"
  from f p show "(\<exists>a p'. run_state f (Run p) = (a, Run p') \<and> consistent T p' \<and> shape base ms (events p')) \<or>
      (\<exists>a e. run_state f (Run p) = (a, Stop e) \<and> stop_ok T e)"
  proof (cases rule: flowsE)
    case (run a p')
    have "shape base ms (events p')"
      using R [of a] run(3) shape_drop_Don [OF _ assms(3)] by metis
    with run show ?thesis by blast
  qed blast
qed

subsection \<open>Rules for the parser operations\<close>

lemma run_action [simp]:
  "run_state (action d f) (Run p) = (case f p of Inl e \<Rightarrow> (d, Stop e) | Inr (a, p') \<Rightarrow> (a, Run p'))"
  "run_state (action d f) (Stop e) = (d, Stop e)"
  by (simp_all add: action_def)

lemma run_gets [simp]:
  "run_state (gets f) (Run p) = (f p, Run p)"
  "run_state (gets f) (Stop e) = (f (parser_new []), Stop e)"
  by (simp_all add: gets_def)

lemma run_modify [simp]:
  "run_state (modify f) (Run p) = ((), Run (f p))"
  "run_state (modify f) (Stop e) = ((), Stop e)"
  by (simp_all add: modify_def)

lemma flow_action:
  assumes "\<And>base p. consistent T p \<Longrightarrow> shape base ms (events p) \<Longrightarrow>
    case f p of Inl e \<Rightarrow> stop_ok T e
    | Inr (a, p') \<Rightarrow> consistent T p' \<and> shape base (R a) (events p')"
  shows "flows T ms (action d f) R"
proof (rule flowsI)
  fix base p assume "consistent T p" "shape base ms (events p)"
  from assms [OF this] show "(\<exists>a p'. run_state (action d f) (Run p) = (a, Run p') \<and>
      consistent T p' \<and> shape base (R a) (events p')) \<or>
      (\<exists>a e. run_state (action d f) (Run p) = (a, Stop e) \<and> stop_ok T e)"
    by (auto split: sum.splits)
qed simp

lemma flow_gets [flow_rules]: "flows T ms (gets f) (\<lambda>_. ms)"
  unfolding gets_def by (rule flow_action) simp

lemma flow_view [flow_rules]: "flows T ms view (\<lambda>_. ms)"
  unfolding view_def by (rule flow_gets)

lemma flow_halt [flow_rules]: "stop_ok T e \<Longrightarrow> flows T ms (halt d e) R"
  unfolding halt_def by (rule flow_action) simp

lemma flow_while_loop [flow_rules]:
  "flows T ms body (\<lambda>_. ms) \<Longrightarrow> flows T ms (while_loop n c body) (\<lambda>_. ms)"
proof (induction n)
  case 0
  show ?case by (auto intro: flow_halt)
next
  case (Suc n)
  show ?case unfolding while_loop.simps
    by (rule flow_bind [OF flow_gets flow_if [OF flow_bind [OF Suc.prems Suc.IH [OF Suc.prems]] flow_ret]])
qed

lemma flow_loop [flow_rules]:
  "flows T ms body (\<lambda>_. ms) \<Longrightarrow> flows T ms (loop n body) (\<lambda>_. ms)"
proof (induction n)
  case 0
  show ?case by (auto intro: flow_halt)
next
  case (Suc n)
  show ?case unfolding loop.simps
    by (rule flow_bind [OF Suc.prems flow_if [OF Suc.IH [OF Suc.prems] flow_ret]])
qed

lemma flow_loop_with:
  "(\<And>x. flows T (J x) (body x) (\<lambda>r. J (snd r))) \<Longrightarrow> flows T (J x) (loop_with n x body) J"
proof (induction n arbitrary: x)
  case 0
  show ?case by (auto intro: flow_halt)
next
  case (Suc n)
  show ?case unfolding loop_with.simps
    by (intro flow_bind [OF Suc.prems] flow_if Suc.IH Suc.prems flow_ret_at refl)
qed

lemma flow_loop_with_same [flow_rules]:
  "(\<And>x. flows T ms (body x) (\<lambda>_. ms)) \<Longrightarrow> flows T ms (loop_with n x body) (\<lambda>_. ms)"
  by (rule flow_loop_with)

lemma flow_is_err [flow_rules]: "flows T ms f (\<lambda>_. ms') \<Longrightarrow> flows T ms (is_err f) (\<lambda>_. ms')"
  unfolding is_err_def by (rule flow_bind, assumption, rule flow_ret)

lemma flow_and_then [flow_rules]: "flows T ms f (\<lambda>_. ms) \<Longrightarrow> flows T ms (and_then b f) (\<lambda>_. ms)"
  by (auto simp: and_then_def intro: flow_ret)

lemma flow_while_eat:
  assumes "flows T ms (eat k) (\<lambda>_. ms)" and "flows T ms body (\<lambda>_. ms)"
  shows "flows T ms (while_eat n k body) (\<lambda>_. ms)"
  unfolding while_eat_def
  by (intro flow_loop flow_bind [OF assms(1)] flow_if flow_bind [OF assms(2)] flow_ret)

subsubsection \<open>Pushing leaves\<close>

lemma flow_modify:
  assumes "nodone ms"
    and "\<And>p. consistent T p \<Longrightarrow> consistent T (f p) \<and> (\<exists>xs. seg xs \<and> events (f p) = events p @ xs)"
  shows "flows T ms (modify f) (\<lambda>_. ms)"
  unfolding modify_def
proof (rule flow_action)
  fix base p assume p: "consistent T p" "shape base ms (events p)"
  obtain xs where "consistent T (f p)" "seg xs" "events (f p) = events p @ xs"
    using assms(2) [OF p(1)] by blast
  thus "case Inr ((), f p) of Inl e \<Rightarrow> stop_ok T e
      | Inr (a, p') \<Rightarrow> consistent T p' \<and> shape base ms (events p')"
    using shape_append [OF p(2) assms(1)] by simp
qed

lemma events_push [simp]: "events (push_event e p) = events p @ [e]"
  and source_push [simp]: "source (push_event e p) = source p"
  and errors_push [simp]: "errors (push_event e p) = errors p"
  and override_push [simp]: "override_token (push_event e p) = override_token p"
  by (simp_all add: push_event_def)

lemma source_nth_Some:
  "source_nth n s = Some t \<Longrightarrow> cursor s + n < length (indices s)"
  by (auto simp: source_nth_def nth_opt_def split: if_splits)

lemma consistent_bump:
  assumes "consistent T p"
  shows "consistent T (bump_parser p) \<and>
    (\<exists>xs. seg xs \<and> events (bump_parser p) = events p @ xs)"
proof (cases "override_token p")
  case (Some over)
  have "seg ([AddVirtualToken (tok_kind over) (tok_lexeme over)] @ [AdvanceSource])"
    by (intro seg_append seg_leaf) simp_all
  with assms Some show ?thesis
    by (auto simp: consistent_def bump_parser_def Let_def source_bump_def)
next
  case None
  show ?thesis
  proof (cases "source_nth 0 (source p)")
    case (Some t)
    have "seg [AddToken]" by (rule seg_leaf) simp
    with assms None Some source_nth_Some [OF Some] show ?thesis
      by (auto simp: consistent_def bump_parser_def Let_def source_bump_def)
  qed (use assms None in \<open>auto simp: bump_parser_def intro: seg_Nil\<close>)
qed

lemma flow_bump [flow_rules]: "nodone ms \<Longrightarrow> flows T ms bump (\<lambda>_. ms)"
  unfolding bump_def by (rule flow_modify) (simp_all add: consistent_bump)

lemma flow_error_at [flow_rules]: "nodone ms \<Longrightarrow> flows T ms (error_at k r) (\<lambda>_. ms)"
  unfolding error_at_def
  by (rule flow_modify) (auto simp: Let_def consistent_def intro: seg_leaf)

lemma flow_error [flow_rules]: "nodone ms \<Longrightarrow> flows T ms (error k) (\<lambda>_. ms)"
  unfolding error_def by (rule flow_rules | simp)+

lemma flow_error_message [flow_rules]: "nodone ms \<Longrightarrow> flows T ms (error_message s) (\<lambda>_. ms)"
  unfolding error_message_def by (rule flow_error)

lemma flow_error_expected_construct [flow_rules]:
  "nodone ms \<Longrightarrow> flows T ms (error_expected_construct c) (\<lambda>_. ms)"
  unfolding error_expected_construct_def by (rule flow_error)

lemma flow_eat [flow_rules]: "nodone ms \<Longrightarrow> flows T ms (eat k) (\<lambda>_. ms)"
  unfolding eat_def by (rule flow_rules | simp)+

lemma flow_while_eat_rule [flow_rules]:
  "nodone ms \<Longrightarrow> flows T ms body (\<lambda>_. ms) \<Longrightarrow> flows T ms (while_eat n k body) (\<lambda>_. ms)"
  by (rule flow_while_eat [OF flow_eat])

lemma flow_eat_contextual_kw [flow_rules]: "nodone ms \<Longrightarrow> flows T ms (eat_contextual_kw k) (\<lambda>_. ms)"
  unfolding eat_contextual_kw_def by (rule flow_rules | simp)+

lemma flow_eat_non_sealed [flow_rules]: "nodone ms \<Longrightarrow> flows T ms eat_non_sealed (\<lambda>_. ms)"
  unfolding eat_non_sealed_def by (rule flow_rules | simp)+

lemma flow_expect_contextual_kw [flow_rules]:
  "nodone ms \<Longrightarrow> flows T ms (expect_contextual_kw k) (\<lambda>_. ms)"
  unfolding expect_contextual_kw_def by (rule flow_rules | simp)+

subsubsection \<open>Markers\<close>

lemma flow_start [flow_rules]: "flows T ms start (\<lambda>m. Opn m # ms)"
  unfolding start_def
  by (rule flow_action) (auto simp: consistent_def intro: seg_Nil)

lemma consistent_update:
  assumes "consistent T p" and "i < length (events p)" and "structural (events p ! i)" and "structural e"
  shows "consistent T (p\<lparr>events := (events p)[i := e]\<rparr>)"
  using assms update_structural [of i "events p" e] by (auto simp: consistent_def)

lemma consistent_push_structural:
  "consistent T p \<Longrightarrow> structural e \<Longrightarrow> consistent T (push_event e p)"
  using structural_measures(1,2) [of e "[]"] structural_measures(3) [of e]
  by (auto simp: consistent_def)

lemma flow_complete [flow_rules]: "flows T (Opn m # ms) (complete m k) (\<lambda>c. Don c # ms)"
  unfolding complete_def
proof (rule flow_action)
  fix base p assume p: "consistent T p" "shape base (Opn m # ms) (events p)"
  then obtain es1 xs where w: "shape base ms es1" "seg xs" "m = length es1"
      "events p = es1 @ Tombstone # xs" by auto
  have c: "consistent T (push_event FinishNode (p\<lparr>events := (events p)[m := StartNode k None]\<rparr>))"
    by (intro consistent_push_structural consistent_update) (simp_all add: p w)
  have "chain (StartNode k None # xs @ [FinishNode]) 0" using w(2) by (rule chain_last)
  hence "shape base (Don (Completed m k) # ms)
      (events (push_event FinishNode (p\<lparr>events := (events p)[m := StartNode k None]\<rparr>)))"
    using w by (simp add: list_update_append) (metis add_0_right)
  with c w show "case (case nth_opt (events p) m of
       Some Tombstone \<Rightarrow>
         Inr (Completed m k,
              push_event FinishNode (p\<lparr>events := (events p)[m := StartNode k None]\<rparr>))
     | _ \<Rightarrow> Inl PanicUnreachable) of Inl e \<Rightarrow> stop_ok T e
    | Inr (a, p') \<Rightarrow> consistent T p' \<and> shape base (Don a # ms) (events p')"
    by (simp add: nth_opt_def del: shape.simps)
qed

lemma flow_complete_Pre: "flows T (Pre m # ms) (complete m k) (\<lambda>c. Don c # ms)"
  unfolding complete_def
proof (rule flow_action)
  fix base p assume p: "consistent T p" "shape base (Pre m # ms) (events p)"
  then obtain es1 c i l xs where w: "shape base ms es1" "chain c i" "c ! i = StartNode l None"
      "seg xs" "m = length es1 + length c"
      "events p = es1 @ c[i := StartNode l (Some (length c - i))] @ Tombstone # xs"
    by auto
  have c: "consistent T (push_event FinishNode (p\<lparr>events := (events p)[m := StartNode k None]\<rparr>))"
    by (intro consistent_push_structural consistent_update) (simp_all add: p w nth_append)
  have "chain (c[i := StartNode l (Some (length c - i))] @ StartNode k None # xs @ [FinishNode])
      (length c)"
    using w by (intro chain_extend)
  hence "shape base (Don (Completed m k) # ms)
      (events (push_event FinishNode (p\<lparr>events := (events p)[m := StartNode k None]\<rparr>)))"
    using w(1,5,6)
    by (simp only: shape.simps, intro exI [of _ es1] exI [of _ "c[i := StartNode l (Some (length c - i))] @
          StartNode k None # xs @ [FinishNode]"] exI [of _ "length c"])
       (simp add: list_update_append)
  with c w show "case (case nth_opt (events p) m of
       Some Tombstone \<Rightarrow>
         Inr (Completed m k,
              push_event FinishNode (p\<lparr>events := (events p)[m := StartNode k None]\<rparr>))
     | _ \<Rightarrow> Inl PanicUnreachable) of Inl e \<Rightarrow> stop_ok T e
    | Inr (a, p') \<Rightarrow> consistent T p' \<and> shape base (Don a # ms) (events p')"
    by (simp add: nth_opt_def nth_append del: shape.simps)
qed

lemma flow_finish_node [flow_rules]:
  "nodone ms \<Longrightarrow> flows T (Opn m # ms) (finish_node m k) (\<lambda>_. ms)"
  unfolding finish_node_def discard_def
  by (rule flow_bind [OF flow_complete]) (rule flow_drop [OF flow_ret])

lemma flow_finish_node_Pre:
  "nodone ms \<Longrightarrow> flows T (Pre m # ms) (finish_node m k) (\<lambda>_. ms)"
  unfolding finish_node_def discard_def
  by (rule flow_bind [OF flow_complete_Pre]) (rule flow_drop [OF flow_ret])

lemma flow_abandon [flow_rules]: "nodone ms \<Longrightarrow> flows T (Opn m # ms) (abandon m) (\<lambda>_. ms)"
  unfolding abandon_def
proof (rule flow_action)
  fix base p assume nd: "nodone ms" and p: "consistent T p" "shape base (Opn m # ms) (events p)"
  then obtain es1 xs where w: "shape base ms es1" "seg xs" "m = length es1"
      "events p = es1 @ Tombstone # xs" by auto
  have "seg ([Tombstone] @ xs)" using w(2) by (intro seg_append seg_leaf) simp_all
  hence "shape base ms (es1 @ [Tombstone] @ xs)" by (rule shape_append [OF w(1) nd])
  with p(1) w show "case (case nth_opt (events p) m of
       Some Tombstone \<Rightarrow> Inr ((), p)
     | _ \<Rightarrow> Inl PanicUnreachable) of Inl e \<Rightarrow> stop_ok T e
    | Inr (a, p') \<Rightarrow> consistent T p' \<and> shape base ms (events p')"
    by (simp add: nth_opt_def)
qed

lemma flow_precede: "flows T (Don d # ms) (precede d) (\<lambda>m. Pre m # ms)"
  unfolding precede_def Let_def
proof (rule flow_action)
  fix base p assume p: "consistent T p" "shape base (Don d # ms) (events p)"
  then obtain es1 c i where w: "shape base ms es1" "chain c i" "completed_pos d = length es1 + i"
      "events p = es1 @ c" by auto
  obtain k where k: "i < length c" "c ! i = StartNode k None"
    using chain_last_start [OF w(2)] by blast
  let ?q = "push_event Tombstone p"
  let ?d = "length (events p) - completed_pos d"
  have at: "nth_opt (events ?q) (completed_pos d) = Some (StartNode k None)"
    using w k by (simp add: nth_opt_def nth_append)
  have "consistent T (?q\<lparr>events := (events ?q)[completed_pos d := StartNode k (Some ?d)]\<rparr>)"
    using w k by (intro consistent_update consistent_push_structural p) (simp_all add: nth_append)
  moreover have "shape base (Pre (length (events p)) # ms)
      ((events ?q)[completed_pos d := StartNode k (Some ?d)])"
    using w k seg_Nil
    by (simp only: shape.simps, intro exI [of _ es1] exI [of _ c] exI [of _ i] exI [of _ k]
          exI [of _ "[]"]) (simp add: list_update_append)
  ultimately show "case (case nth_opt (events ?q) (completed_pos d) of
          Some (StartNode k forward_parent) \<Rightarrow>
            (if forward_parent = None then
               Inr (length (events p),
                    ?q\<lparr>events := (events ?q)[completed_pos d := StartNode k (Some ?d)]\<rparr>)
             else Inl PanicAssert)
        | _ \<Rightarrow> Inl PanicUnreachable) of Inl e \<Rightarrow> stop_ok T e
    | Inr (m, p') \<Rightarrow> consistent T p' \<and> shape base (Pre m # ms) (events p')"
    using at by (simp del: shape.simps events_push)
qed

lemma flow_drop_marker [flow_rules]:
  "has_kind TRY_KW T \<Longrightarrow> flows T ms (drop_marker m d) R"
  unfolding drop_marker_def by (rule flow_halt) simp

text \<open>An action that returns its completed node may be run for its effect.\<close>

lemma flow_discard_node:
  "flows T ms' f (\<lambda>c. Don c # ms) \<Longrightarrow> nodone ms \<Longrightarrow> flows T ms' (discard f) (\<lambda>_. ms)"
  unfolding discard_def by (rule flow_bind, assumption, rule flow_drop [OF flow_ret])

subsubsection \<open>Expectations\<close>

lemma flow_error_expected [flow_rules]: "nodone ms \<Longrightarrow> flows T ms (error_expected ks) (\<lambda>_. ms)"
  unfolding error_expected_def by (rule flow_rules | simp)+

lemma flow_expect [flow_rules]: "nodone ms \<Longrightarrow> flows T ms (expect k) (\<lambda>_. ms)"
  unfolding expect_def by (rule flow_rules | simp)+

subsubsection \<open>Checkpoints\<close>

lemma flow_checkpoint [flow_rules]: "flows T ms checkpoint (\<lambda>cp. Chk cp # ms)"
  unfolding checkpoint_def gets_def
  by (rule flow_action) (auto simp: consistent_def checkpoint_of_def intro: seg_Nil)

lemma list_ex_take: "list_ex P (take n xs) \<Longrightarrow> list_ex P xs"
  by (auto simp: list_ex_iff dest: in_set_takeD)

lemma flow_rewind [flow_rules]: "flows T (Chk cp # ms) (rewind cp) (\<lambda>_. ms)"
  unfolding rewind_def
proof (rule flow_action)
  fix base p assume p: "consistent T p" "shape base (Chk cp # ms) (events p)"
  then obtain es1 xs where w: "shape base ms es1" "events p = es1 @ xs"
    "cp = \<lparr>source_pos = advances es1, events_len = length es1,
          errors_len = length (event_errors es1)\<rparr>" by auto
  with p show "case (case source_set_pos (source_pos cp) (source p) of
       None \<Rightarrow> Inl PanicAssert
     | Some s \<Rightarrow>
         Inr ((), p\<lparr>source := s, events := take (events_len cp) (events p),
                     errors := take (errors_len cp) (errors p)\<rparr>)) of Inl e \<Rightarrow> stop_ok T e
    | Inr (a, p') \<Rightarrow> consistent T p' \<and> shape base ms (events p')"
    by (auto simp: consistent_def source_set_pos_def)
qed

subsection \<open>What the current token says about the input\<close>

definition known :: "token list \<Rightarrow> syntax_kind option \<Rightarrow> bool" where
  "known T ko = (\<forall>k. ko = Some k \<longrightarrow> has_kind k T \<or> k \<in> {GREATER, RIGHT_SHIFT} \<and> has_shift T)"

lemma consistent_source_nth:
  assumes "consistent T p" and "source_nth n (source p) = Some t"
  shows "t \<in> set T"
proof -
  have "indices (source p) ! (cursor (source p) + n) \<in> set (indices (source p))"
    using source_nth_Some [OF assms(2)] by simp
  hence "indices (source p) ! (cursor (source p) + n) < length T"
    using assms(1) by (simp add: consistent_def token_source_new_def)
  with assms show ?thesis
    by (auto simp: source_nth_def nth_opt_def consistent_def split: if_splits)
qed

lemma current_known:
  assumes "consistent T p"
  shows "known T (current p)"
proof (cases "override_token p")
  case None
  show ?thesis
  proof (cases "source_nth 0 (source p)")
    case (Some t)
    with None consistent_source_nth [OF assms Some] show ?thesis
      by (auto simp: known_def current_def source_current_def has_kind_def list_ex_iff)
  qed (use None in \<open>simp add: known_def current_def source_current_def\<close>)
next
  case (Some t)
  with assms show ?thesis by (auto simp: known_def current_def consistent_def)
qed

text \<open>A branch on the current token may use that the token occurs in the input.\<close>

lemma flow_bind_view:
  assumes "\<And>p. known T (current p) \<Longrightarrow> flows T ms (g p) R"
  shows "flows T ms (State_Monad.bind view g) R"
proof (rule flowsI)
  fix e
  have "known T (current (parser_new []))"
    by (simp add: known_def current_def parser_new_def source_current_def source_nth_def
        token_source_new_def nth_opt_def)
  from flows_stopped [OF assms [OF this]]
  show "snd (run_state (State_Monad.bind view g) (Stop e)) = Stop e" by (simp add: view_def)
next
  fix base p assume p: "consistent T p" "shape base ms (events p)"
  from assms [OF current_known [OF p(1)]] p
  show "(\<exists>a p'. run_state (State_Monad.bind view g) (Run p) = (a, Run p') \<and>
      consistent T p' \<and> shape base (R a) (events p')) \<or>
      (\<exists>a e. run_state (State_Monad.bind view g) (Run p) = (a, Stop e) \<and> stop_ok T e)"
    by (cases rule: flowsE) (auto simp: view_def)
qed

lemma flow_split_token:
  assumes "nodone ms" and "has_shift T" and "b \<in> {GREATER, RIGHT_SHIFT}"
  shows "flows T ms (split_token a n b) (\<lambda>_. ms)"
  unfolding split_token_def
proof (rule flow_action)
  fix base p assume p: "consistent T p" "shape base ms (events p)"
  have "seg [AddVirtualToken a s]" for s by (rule seg_leaf) simp
  with p assms show "case (case source_nth 0 (source p) of
       None \<Rightarrow> Inr ((), p)
     | Some old \<Rightarrow>
         (case split_at (tok_lexeme old) n of
            None \<Rightarrow> Inl PanicSplit
          | Some (head, tail) \<Rightarrow>
              Inr ((), (push_event (AddVirtualToken a head) p)
                \<lparr>override_token :=
                   Some \<lparr>tok_kind = b, tok_lexeme = tail, tok_offset = tok_offset old + n\<rparr>\<rparr>)))
      of Inl e \<Rightarrow> stop_ok T e | Inr (a, p') \<Rightarrow> consistent T p' \<and> shape base ms (events p')"
    by (auto simp: consistent_def split: option.splits dest: source_nth_Some intro: shape_append)
qed

end
