(* ===== verification/Lookahead.thy ===== *)
theory Lookahead imports Parser begin

text \<open>
  The lookahead predicates of the grammar: loops over \<^verbatim>\<open>p.nth(i)\<close> that leave the parser as it
  is. Each loop is a recursive function on the index; all of them stop because \<^verbatim>\<open>nth\<close> answers
  \<^verbatim>\<open>None\<close> from \<open>look_bound\<close> on.
\<close>

definition look_bound :: "parser \<Rightarrow> nat" where
  "look_bound p = Suc (length (indices (source p)))"

lemma nth_kind_bound: "nth_kind i p = Some k \<Longrightarrow> i < look_bound p"
  by (auto simp: nth_kind_def source_nth_def nth_opt_def look_bound_def split: option.splits if_splits)

lemma nth_kind_past: "look_bound p \<le> i \<Longrightarrow> nth_kind i p = None"
  using nth_kind_bound [of i p] by (cases "nth_kind i p") fastforce+

subsection \<open>Shared scans\<close>

text \<open>\<^verbatim>\<open>while p.nth(i) == Some(DOT) && p.nth(i + 1) == Some(IDENTIFIER) { i += 2; }\<close>\<close>

function skip_dotted_name :: "parser \<Rightarrow> nat \<Rightarrow> nat" where
  "skip_dotted_name p i =
     (if nth_kind i p = Some DOT \<and> nth_kind (i + 1) p = Some IDENTIFIER
      then skip_dotted_name p (i + 2) else i)"
  by pat_completeness auto
termination
  by (relation "measure (\<lambda>(p, i). look_bound p - i)") (auto dest: nth_kind_bound)

declare skip_dotted_name.simps [simp del]

text \<open>
  The balanced-parentheses loop entered after the opening parenthesis with depth 1; \<^verbatim>\<open>None\<close> is
  \<^verbatim>\<open>return false\<close> of the enclosing function, on the end of the file.
\<close>

function skip_parens :: "parser \<Rightarrow> nat \<Rightarrow> nat \<Rightarrow> nat option" where
  "skip_parens p depth i =
     (if depth = 0 then Some i
      else case nth_kind i p of
             None \<Rightarrow> None
           | Some k \<Rightarrow>
               if k = EOF then None
               else skip_parens p
                      (if k = L_PAREN then depth + 1
                       else if k = R_PAREN then depth - 1 else depth) (i + 1))"
  by pat_completeness auto
termination
  by (relation "measure (\<lambda>(p, depth, i). look_bound p - i)") (auto dest: nth_kind_bound)

declare skip_parens.simps [simp del]

lemma skip_dotted_name_ge: "i \<le> skip_dotted_name p i"
proof (induction p i rule: skip_dotted_name.induct)
  case (1 p i)
  thus ?case by (subst skip_dotted_name.simps) auto
qed

lemma skip_parens_ge: "skip_parens p depth i = Some j \<Longrightarrow> i \<le> j"
proof (induction p depth i rule: skip_parens.induct)
  case (1 p depth i)
  show ?case
  proof (cases "depth = 0 \<or> nth_kind i p = None \<or> nth_kind i p = Some EOF")
    case True
    with 1(2) show ?thesis by (subst (asm) skip_parens.simps) (auto split: if_splits)
  next
    case False
    then obtain k where k: "depth \<noteq> 0" "nth_kind i p = Some k" "k \<noteq> EOF" by auto
    with 1(2) have "skip_parens p (if k = L_PAREN then depth + 1
        else if k = R_PAREN then depth - 1 else depth) (i + 1) = Some j"
      by (subst (asm) skip_parens.simps) simp
    with 1(1) k show ?thesis by fastforce
  qed
qed

text \<open>
  The name and the arguments of an annotation, from the index after its \<^verbatim>\<open>@\<close>: the same
  statements in \<^verbatim>\<open>at_annotated_dimension\<close>, \<^verbatim>\<open>at_local_type_declaration\<close> and
  \<^verbatim>\<open>is_local_variable_declaration\<close>.
\<close>

definition skip_annotation :: "parser \<Rightarrow> nat \<Rightarrow> nat option" where
  "skip_annotation p i =
     (if nth_kind i p \<noteq> Some IDENTIFIER then None
      else let i = skip_dotted_name p (i + 1)
           in if nth_kind i p = Some L_PAREN then skip_parens p 1 (i + 1) else Some i)"

lemma skip_annotation_gt: "skip_annotation p i = Some j \<Longrightarrow> i < j"
  using skip_dotted_name_ge [of "i + 1" p] skip_parens_ge [of p 1 "skip_dotted_name p (i + 1) + 1" j]
  by (auto simp: skip_annotation_def Let_def split: if_splits)

subsection \<open>\<^verbatim>\<open>grammar/types.rs\<close>\<close>

definition is_primitive_type :: "syntax_kind \<Rightarrow> bool" where
  "is_primitive_type kind =
     (kind \<in> {BOOLEAN_KW, BYTE_KW, SHORT_KW, INT_KW, LONG_KW, CHAR_KW, FLOAT_KW, DOUBLE_KW})"

definition at_primitive_type :: "parser \<Rightarrow> bool" where
  "at_primitive_type p =
     at_set (tokenset [INT_KW, SHORT_KW, LONG_KW, FLOAT_KW, DOUBLE_KW, BYTE_KW, BOOLEAN_KW,
       CHAR_KW]) p"

definition at_type_start :: "parser \<Rightarrow> bool" where
  "at_type_start p =
     (at_primitive_type p \<or> at IDENTIFIER p \<or> at AT p \<and> nth_kind 1 p \<noteq> Some INTERFACE_KW)"

definition is_formal_parameters :: "parser \<Rightarrow> bool" where
  "is_formal_parameters p =
     (let kind = nth_kind 1 p in
      if kind = Some FINAL_KW \<or> kind = Some AT then True
      else if (case kind of Some k \<Rightarrow> is_primitive_type k | None \<Rightarrow> False) then True
      else if kind = Some IDENTIFIER \<or> kind = Some UNDERSCORE then
        (let next = nth_kind 2 p in \<not> (next = Some COMMA \<or> next = Some R_PAREN))
      else False)"

definition is_concise_param :: "parser \<Rightarrow> bool" where
  "is_concise_param p = (at IDENTIFIER p \<or> at UNDERSCORE p)"

function annotated_dimension_from :: "parser \<Rightarrow> nat \<Rightarrow> bool" where
  "annotated_dimension_from p i =
     (if nth_kind i p = Some AT \<and> nth_kind (i + 1) p \<noteq> Some INTERFACE_KW then
        (case skip_annotation p (i + 1) of
           None \<Rightarrow> False
         | Some j \<Rightarrow> annotated_dimension_from p j)
      else nth_kind i p = Some L_BRACKET)"
  by pat_completeness auto
termination
  by (relation "measure (\<lambda>(p, i). look_bound p - i)")
     (auto dest!: nth_kind_bound skip_annotation_gt)

declare annotated_dimension_from.simps [simp del]

definition at_annotated_dimension :: "parser \<Rightarrow> bool" where
  "at_annotated_dimension p = (if \<not> at AT p then False else annotated_dimension_from p 0)"

subsection \<open>\<^verbatim>\<open>grammar/compilation_unit.rs\<close>\<close>

text \<open>The loop over annotation arguments here starts on the opening parenthesis with depth 0.\<close>

function skip_parens_at :: "parser \<Rightarrow> int \<Rightarrow> nat \<Rightarrow> nat option" where
  "skip_parens_at p depth i =
     (case nth_kind i p of
        None \<Rightarrow> None
      | Some k \<Rightarrow>
          if k = EOF then None
          else if k = L_PAREN then skip_parens_at p (depth + 1) (i + 1)
          else if k = R_PAREN then
            (if depth - 1 = 0 then Some (i + 1) else skip_parens_at p (depth - 1) (i + 1))
          else skip_parens_at p depth (i + 1))"
  by pat_completeness auto
termination
  by (relation "measure (\<lambda>(p, depth, i). look_bound p - i)") (auto dest: nth_kind_bound)

declare skip_parens_at.simps [simp del]

lemma skip_parens_at_gt: "skip_parens_at p depth i = Some j \<Longrightarrow> i < j"
proof (induction p depth i rule: skip_parens_at.induct)
  case (1 p depth i)
  show ?case
  proof (cases "nth_kind i p = None \<or> nth_kind i p = Some EOF \<or>
      nth_kind i p = Some R_PAREN \<and> depth - 1 = 0")
    case True
    with 1 show ?thesis by (subst (asm) skip_parens_at.simps) (auto split: if_splits)
  next
    case False
    then obtain k where k: "nth_kind i p = Some k" "k \<noteq> EOF" "k = R_PAREN \<longrightarrow> depth - 1 \<noteq> 0"
      by auto
    then obtain d where "skip_parens_at p d (i + 1) = Some j \<Longrightarrow> i + 1 < j"
        "skip_parens_at p d (i + 1) = Some j"
      using 1 by (subst (asm) (4) skip_parens_at.simps) (simp split: if_splits)
    thus ?thesis by simp
  qed
qed

function annotated_package_from :: "parser \<Rightarrow> nat \<Rightarrow> bool" where
  "annotated_package_from p i =
     (if nth_kind i p = Some AT then
        (if nth_kind (i + 1) p \<noteq> Some IDENTIFIER then False
         else let j = skip_dotted_name p (i + 2) in
              if nth_kind j p = Some L_PAREN then
                (case skip_parens_at p 0 j of
                   None \<Rightarrow> False
                 | Some l \<Rightarrow> annotated_package_from p l)
              else annotated_package_from p j)
      else nth_kind i p = Some PACKAGE_KW)"
  by pat_completeness auto
termination
proof (relation "measure (\<lambda>(p, i). look_bound p - i)")
  fix p :: parser and i j l
  assume a: "nth_kind i p = Some AT" "j = skip_dotted_name p (i + 2)" "skip_parens_at p 0 j = Some l"
  hence "i < j" "j < l" using skip_dotted_name_ge [of "i + 2" p] skip_parens_at_gt by auto
  thus "((p, l), p, i) \<in> measure (\<lambda>(p, i). look_bound p - i)"
    using nth_kind_bound [OF a(1)] by auto
next
  fix p :: parser and i j
  assume a: "nth_kind i p = Some AT" "j = skip_dotted_name p (i + 2)"
  thus "((p, j), p, i) \<in> measure (\<lambda>(p, i). look_bound p - i)"
    using nth_kind_bound [OF a(1)] skip_dotted_name_ge [of "i + 2" p] by auto
qed simp

declare annotated_package_from.simps [simp del]

definition at_annotated_package :: "parser \<Rightarrow> bool" where
  "at_annotated_package p = annotated_package_from p 0"

subsection \<open>\<^verbatim>\<open>grammar/decl.rs\<close> and \<^verbatim>\<open>grammar/member.rs\<close>\<close>

function record_header_from :: "parser \<Rightarrow> nat \<Rightarrow> bool" where
  "record_header_from p cur =
     (case nth_kind cur p of
        None \<Rightarrow> False
      | Some k \<Rightarrow>
          if k \<in> {L_PAREN, LESS} then True
          else if k \<in> {L_BRACE, SEMICOLON, EQUAL, DOT, EOF} then False
          else record_header_from p (cur + 1))"
  by pat_completeness auto
termination
  by (relation "measure (\<lambda>(p, i). look_bound p - i)") (auto dest: nth_kind_bound)

declare record_header_from.simps [simp del]

definition is_record_decl_at :: "parser \<Rightarrow> nat \<Rightarrow> bool" where
  "is_record_decl_at p i =
     (if \<not> nth_at_contextual_kw i Kw_Record p then False
      else if nth_kind (i + 1) p \<noteq> Some IDENTIFIER then False
      else record_header_from p (i + 2))"

definition is_record_decl :: "parser \<Rightarrow> bool" where
  "is_record_decl p = is_record_decl_at p 0"

definition is_module_decl_start :: "parser \<Rightarrow> bool" where
  "is_module_decl_start p =
     (at_contextual_kw Kw_Module p \<or>
      at_contextual_kw Kw_Open p \<and> nth_at_contextual_kw 1 Kw_Module p)"

definition at_enum_constant_start :: "parser \<Rightarrow> bool" where
  "at_enum_constant_start p = (at IDENTIFIER p \<or> at AT p)"

definition at_member_start :: "parser \<Rightarrow> bool" where
  "at_member_start p =
     (at_set (tokenset [CLASS_KW, INTERFACE_KW, DEFAULT_KW, ENUM_KW, VOID_KW, INT_KW, SHORT_KW,
        LONG_KW, FLOAT_KW, DOUBLE_KW, BYTE_KW, BOOLEAN_KW, CHAR_KW, IDENTIFIER, L_BRACE, SEMICOLON,
        STATIC_KW, PUBLIC_KW, PRIVATE_KW, PROTECTED_KW, SYNCHRONIZED_KW, FINAL_KW, ABSTRACT_KW,
        NATIVE_KW, TRANSIENT_KW, VOLATILE_KW, STRICTFP_KW, AT, LESS]) p \<or>
      at_contextual_kw Kw_Record p)"

definition is_compact_constructor_like :: "parser \<Rightarrow> bool" where
  "is_compact_constructor_like p = (at IDENTIFIER p \<and> nth_kind 1 p = Some L_BRACE)"

definition is_constructor_like :: "parser \<Rightarrow> bool" where
  "is_constructor_like p = (at IDENTIFIER p \<and> nth_kind 1 p = Some L_PAREN)"

subsection \<open>\<^verbatim>\<open>grammar/expr.rs\<close>\<close>

text \<open>
  The binding powers, as pairs of \<^verbatim>\<open>u8\<close> values that are only compared.
\<close>

definition get_infix_bp :: "syntax_kind \<Rightarrow> (nat \<times> nat) option" where
  "get_infix_bp kind =
     (if kind \<in> {EQUAL, PLUS_EQUAL, MINUS_EQUAL, MULTIPLE_EQUAL, DIVIDE_EQUAL, MODULO_EQUAL,
        AND_EQUAL, OR_EQUAL, XOR_EQUAL, LEFT_SHIFT_EQUAL, RIGHT_SHIFT_EQUAL,
        UNSIGNED_RIGHT_SHIFT_EQUAL} then Some (2, 1)
      else if kind = QUESTION then Some (3, 3)
      else if kind = OR then Some (5, 6)
      else if kind = AND then Some (7, 8)
      else if kind = BIT_OR then Some (9, 10)
      else if kind = CARET then Some (11, 12)
      else if kind = BIT_AND then Some (13, 14)
      else if kind \<in> {EQUAL_EQUAL, NOT_EQUAL} then Some (15, 16)
      else if kind \<in> {LESS, LESS_EQUAL, GREATER, GREATER_EQUAL, INSTANCEOF_KW} then Some (17, 18)
      else if kind \<in> {LEFT_SHIFT, RIGHT_SHIFT, UNSIGNED_RIGHT_SHIFT} then Some (19, 20)
      else if kind \<in> {PLUS, MINUS} then Some (21, 22)
      else if kind \<in> {STAR, SLASH, MODULO} then Some (23, 24)
      else if kind \<in> {PLUS_PLUS, MINUS_MINUS} then Some (25, 26)
      else if kind \<in> {DOT, L_PAREN, L_BRACKET, COLON_COLON} then Some (27, 28)
      else None)"

definition is_expression_start :: "syntax_kind \<Rightarrow> bool" where
  "is_expression_start kind =
     (kind \<in> {IDENTIFIER, INTEGER_LITERAL, FLOAT_LITERAL, STRING_LITERAL, CHAR_LITERAL,
        TRUE_LITERAL, FALSE_LITERAL, NULL_LITERAL, THIS_KW, SUPER_KW, NEW_KW, SWITCH_KW, L_PAREN,
        L_BRACE, NOT, TILDE, PLUS, MINUS, PLUS_PLUS, MINUS_MINUS, AT, STRING_TEMPLATE_BEGIN,
        TEXT_BLOCK_TEMPLATE_BEGIN})"

text \<open>The parentheses scan of \<^verbatim>\<open>is_lambda_lookahead\<close> does not stop at the end-of-file token.\<close>

function lambda_parens :: "parser \<Rightarrow> nat \<Rightarrow> nat \<Rightarrow> nat option" where
  "lambda_parens p depth i =
     (if depth = 0 then Some i
      else case nth_kind i p of
             None \<Rightarrow> None
           | Some k \<Rightarrow>
               lambda_parens p
                 (if k = L_PAREN then depth + 1
                  else if k = R_PAREN then depth - 1 else depth) (i + 1))"
  by pat_completeness auto
termination
  by (relation "measure (\<lambda>(p, depth, i). look_bound p - i)") (auto dest: nth_kind_bound)

declare lambda_parens.simps [simp del]

definition is_lambda_lookahead :: "parser \<Rightarrow> bool" where
  "is_lambda_lookahead p =
     (if (at IDENTIFIER p \<or> at UNDERSCORE p) \<and> nth_kind 1 p = Some ARROW then True
      else if at L_PAREN p then
        (case lambda_parens p 1 1 of
           None \<Rightarrow> False
         | Some i \<Rightarrow> nth_kind i p = Some ARROW)
      else False)"

definition angle_depth :: "syntax_kind \<Rightarrow> int \<Rightarrow> int" where
  "angle_depth k depth =
     (if k = LESS then depth + 1 else if k = GREATER then depth - 1
      else if k = RIGHT_SHIFT then depth - 2 else if k = UNSIGNED_RIGHT_SHIFT then depth - 3
      else depth)"

function method_ref_angles :: "parser \<Rightarrow> int \<Rightarrow> nat \<Rightarrow> nat option" where
  "method_ref_angles p depth i =
     (case nth_kind i p of
        None \<Rightarrow> None
      | Some k \<Rightarrow>
          if k \<in> {LESS, GREATER, RIGHT_SHIFT, UNSIGNED_RIGHT_SHIFT, IDENTIFIER, DOT, COMMA, QUESTION,
               EXTENDS_KW, SUPER_KW, AT, L_BRACKET, R_BRACKET}
          then (let depth = angle_depth k depth in
                if depth = 0 then Some (i + 1)
                else if depth < 0 then None
                else method_ref_angles p depth (i + 1))
          else None)"
  by pat_completeness auto
termination
  by (relation "measure (\<lambda>(p, depth, i). look_bound p - i)") (auto dest: nth_kind_bound)

declare method_ref_angles.simps [simp del]

function skip_empty_dims :: "parser \<Rightarrow> nat \<Rightarrow> nat" where
  "skip_empty_dims p i =
     (if nth_kind i p = Some L_BRACKET \<and> nth_kind (i + 1) p = Some R_BRACKET
      then skip_empty_dims p (i + 2) else i)"
  by pat_completeness auto
termination
  by (relation "measure (\<lambda>(p, i). look_bound p - i)") (auto dest: nth_kind_bound)

declare skip_empty_dims.simps [simp del]

definition is_method_ref_lookahead :: "parser \<Rightarrow> bool" where
  "is_method_ref_lookahead p =
     (case (if at LESS p then method_ref_angles p 0 0 else Some 0) of
        None \<Rightarrow> False
      | Some i \<Rightarrow>
          let i = skip_empty_dims p i in
          nth_kind i p = Some COLON_COLON \<or>
          nth_kind i p = Some DOT \<and> nth_kind (i + 1) p = Some CLASS_KW)"

function skip_name_tokens :: "parser \<Rightarrow> nat \<Rightarrow> nat" where
  "skip_name_tokens p i =
     (if nth_kind i p = Some IDENTIFIER \<or> nth_kind i p = Some DOT
      then skip_name_tokens p (i + 1) else i)"
  by pat_completeness auto
termination
  by (relation "measure (\<lambda>(p, i). look_bound p - i)") (auto dest: nth_kind_bound)

declare skip_name_tokens.simps [simp del]

definition is_record_pattern_lookahead :: "parser \<Rightarrow> bool" where
  "is_record_pattern_lookahead p = (nth_kind (skip_name_tokens p 0) p = Some L_PAREN)"

subsection \<open>\<^verbatim>\<open>grammar/stmt.rs\<close>\<close>

definition is_at_labeled_statement_start :: "parser \<Rightarrow> bool" where
  "is_at_labeled_statement_start p = matches [IDENTIFIER, COLON] p"

definition is_at_yield_statement_start :: "parser \<Rightarrow> bool" where
  "is_at_yield_statement_start p =
     (if \<not> at_contextual_kw Kw_Yield p then False
      else case nth_kind 1 p of
             None \<Rightarrow> False
           | Some k \<Rightarrow>
               if k = L_PAREN then False else if k = EQUAL then False else is_expression_start k)"

definition is_legal_statement_expression :: "syntax_kind \<Rightarrow> bool" where
  "is_legal_statement_expression kind =
     (kind \<in> {ASSIGNMENT_EXPR, POSTFIX_EXPR, ASSIGN_EXPR, PREFIX_EXPR, METHOD_CALL, NEW_EXPR})"

function is_switch_rule_from :: "parser \<Rightarrow> nat \<Rightarrow> bool" where
  "is_switch_rule_from p i =
     (case nth_kind i p of
        None \<Rightarrow> False
      | Some k \<Rightarrow>
          if k = ARROW then True
          else if k \<in> {COLON, L_BRACE, R_BRACE, EOF} then False
          else is_switch_rule_from p (i + 1))"
  by pat_completeness auto
termination
  by (relation "measure (\<lambda>(p, i). look_bound p - i)") (auto dest: nth_kind_bound)

declare is_switch_rule_from.simps [simp del]

definition is_switch_rule :: "parser \<Rightarrow> bool" where
  "is_switch_rule p = is_switch_rule_from p 0"

definition is_class_modifier :: "parser \<Rightarrow> nat \<Rightarrow> bool" where
  "is_class_modifier p i =
     ((case nth_kind i p of
         None \<Rightarrow> False
       | Some k \<Rightarrow> k \<in> {PUBLIC_KW, PRIVATE_KW, PROTECTED_KW, FINAL_KW, STATIC_KW, ABSTRACT_KW,
           DEFAULT_KW, NATIVE_KW, SYNCHRONIZED_KW, TRANSIENT_KW, VOLATILE_KW, STRICTFP_KW}) \<or>
      nth_at_contextual_kw i Kw_Sealed p \<or> nth_at_contextual_kw i Kw_NonSealed p)"

lemma source_nth_bound: "source_nth n s = Some t \<Longrightarrow> n < length (indices s)"
  by (auto simp: source_nth_def nth_opt_def split: if_splits)

lemma nth_at_contextual_kw_bound: "nth_at_contextual_kw i kw p \<Longrightarrow> i < look_bound p"
  by (auto simp: nth_at_contextual_kw_def look_bound_def split: option.splits
      dest: source_nth_bound)

lemma is_class_modifier_bound: "is_class_modifier p i \<Longrightarrow> i < look_bound p"
  by (auto simp: is_class_modifier_def split: option.splits
      dest: nth_at_contextual_kw_bound nth_kind_bound)

lemma nth_at_non_sealed_bound: "nth_at_non_sealed i p \<Longrightarrow> i < look_bound p"
  by (auto simp: nth_at_non_sealed_def look_bound_def split: option.splits if_splits
      dest!: source_nth_bound)

text \<open>The index after the modifiers of a local type declaration.\<close>

function skip_class_modifiers :: "parser \<Rightarrow> nat \<Rightarrow> nat option" where
  "skip_class_modifiers p i =
     (if is_class_modifier p i then skip_class_modifiers p (i + 1)
      else if nth_at_non_sealed i p then skip_class_modifiers p (i + 3)
      else if nth_kind i p = Some AT then
        (if nth_kind (i + 1) p = Some INTERFACE_KW then None
         else case skip_annotation p (i + 1) of
                None \<Rightarrow> None
              | Some j \<Rightarrow> skip_class_modifiers p j)
      else Some i)"
  by pat_completeness auto
termination
  by (relation "measure (\<lambda>(p, i). look_bound p - i)")
     (auto dest!: nth_kind_bound skip_annotation_gt is_class_modifier_bound nth_at_non_sealed_bound)

declare skip_class_modifiers.simps [simp del]

definition at_local_type_declaration :: "parser \<Rightarrow> bool" where
  "at_local_type_declaration p =
     (case skip_class_modifiers p 0 of
        None \<Rightarrow> False
      | Some i \<Rightarrow>
          (case nth_kind i p of
             None \<Rightarrow> False
           | Some k \<Rightarrow> k \<in> {CLASS_KW, ENUM_KW, INTERFACE_KW}) \<or>
          is_record_decl_at p i)"

function skip_variable_modifiers :: "parser \<Rightarrow> nat \<Rightarrow> nat option" where
  "skip_variable_modifiers p i =
     (if nth_kind i p = Some AT then
        (case skip_annotation p (i + 1) of
           None \<Rightarrow> None
         | Some j \<Rightarrow> skip_variable_modifiers p j)
      else if nth_kind i p = Some FINAL_KW then skip_variable_modifiers p (i + 1)
      else Some i)"
  by pat_completeness auto
termination
  by (relation "measure (\<lambda>(p, i). look_bound p - i)")
     (auto dest!: nth_kind_bound skip_annotation_gt)

declare skip_variable_modifiers.simps [simp del]

function skip_type_args :: "parser \<Rightarrow> int \<Rightarrow> nat \<Rightarrow> nat option" where
  "skip_type_args p depth i =
     (if 0 < depth then
        (case nth_kind i p of
           None \<Rightarrow> None
         | Some k \<Rightarrow>
             if k \<in> {SEMICOLON, L_BRACE, EOF} then None
             else skip_type_args p (angle_depth k depth) (i + 1))
      else Some i)"
  by pat_completeness auto
termination
  by (relation "measure (\<lambda>(p, depth, i). look_bound p - i)") (auto dest: nth_kind_bound)

declare skip_type_args.simps [simp del]

text \<open>The part of \<^verbatim>\<open>is_local_variable_declaration\<close> after the modifiers.\<close>

definition is_variable_type_at :: "parser \<Rightarrow> nat \<Rightarrow> bool" where
  "is_variable_type_at p i =
     (case nth_kind i p of
        None \<Rightarrow> False
      | Some kind \<Rightarrow>
          if is_primitive_type kind then True
          else if nth_at_contextual_kw i Kw_Yield p then False
          else if nth_at_contextual_kw i Kw_Var p \<and> nth_kind (i + 1) p = Some IDENTIFIER then True
          else if kind = IDENTIFIER then
            (let i = skip_dotted_name p (i + 1) in
             case (if nth_kind i p = Some LESS then skip_type_args p 1 (i + 1) else Some i) of
               None \<Rightarrow> False
             | Some i \<Rightarrow>
                 let i = skip_empty_dims p i in
                 nth_kind i p = Some IDENTIFIER \<or> nth_kind i p = Some UNDERSCORE)
          else False)"

definition is_local_variable_declaration :: "parser \<Rightarrow> bool" where
  "is_local_variable_declaration p =
     (case skip_variable_modifiers p 0 of
        None \<Rightarrow> False
      | Some i \<Rightarrow> is_variable_type_at p i)"

end
