(* ===== verification/Grammar.thy ===== *)
theory Grammar imports Flow Lookahead begin

text \<open>
  The interface between the mutually recursive parts of \<^verbatim>\<open>parser/grammar/*.rs\<close>.

  The grammar is one knot of mutually recursive functions over ten files. It is tied here
  in the usual way of a shallow embedding: the functions through which every cycle of
  calls passes are the fields of a record \<open>grammar\<close>, every grammar function is a definition
  that takes the record \<open>G\<close> and calls those functions through it, and \<open>java_grammar n\<close>
  (\<^verbatim>\<open>CompilationUnit.thy\<close>) is the grammar in which calls through the record may be nested \<open>n\<close>
  deep. \<open>g_fuel\<close> bounds the iterations of a single loop. A parse that needs more of either
  stops with \<open>OutOfFuel\<close>.

  A function that returns \<^verbatim>\<open>Result<(), ()>\<close> returns a boolean (\<open>True\<close> for \<^verbatim>\<open>Ok\<close>), one that
  returns \<^verbatim>\<open>Result<CompletedMarker, ()>\<close> an option.
\<close>

record grammar =
  g_fuel :: nat
  g_expr_bp :: "nat \<Rightarrow> completed option parse"
  g_element_value :: "unit parse"
  g_reference_type :: "bool parse"
  g_pattern :: "unit parse"
  g_block :: "unit parse"
  g_statement :: "unit parse"
  g_if_statement :: "unit parse"
  g_switch_block :: "unit parse"
  g_class_body :: "unit parse"
  g_interface_body :: "unit parse"
  g_enum_body :: "unit parse"
  g_record_body :: "unit parse"
  g_annotation_type_body :: "unit parse"

text \<open>The grammar that may not call anything any more.\<close>

definition no_grammar :: grammar where
  "no_grammar =
     \<lparr>g_fuel = 0, g_expr_bp = (\<lambda>_. halt None OutOfFuel), g_element_value = halt () OutOfFuel,
      g_reference_type = halt True OutOfFuel, g_pattern = halt () OutOfFuel,
      g_block = halt () OutOfFuel, g_statement = halt () OutOfFuel,
      g_if_statement = halt () OutOfFuel, g_switch_block = halt () OutOfFuel,
      g_class_body = halt () OutOfFuel, g_interface_body = halt () OutOfFuel,
      g_enum_body = halt () OutOfFuel, g_record_body = halt () OutOfFuel,
      g_annotation_type_body = halt () OutOfFuel\<rparr>"

text \<open>\<^verbatim>\<open>while c(p) { body(p) }\<close> and \<^verbatim>\<open>loop { .. }\<close> in the grammar.\<close>

abbreviation while_g :: "grammar \<Rightarrow> (parser \<Rightarrow> bool) \<Rightarrow> unit parse \<Rightarrow> unit parse" where
  "while_g G \<equiv> while_loop (g_fuel G)"

abbreviation loop_g :: "grammar \<Rightarrow> bool parse \<Rightarrow> unit parse" where
  "loop_g G \<equiv> loop (g_fuel G)"

abbreviation while_eat_g :: "grammar \<Rightarrow> syntax_kind \<Rightarrow> unit parse \<Rightarrow> unit parse" where
  "while_eat_g G \<equiv> while_eat (g_fuel G)"

text \<open>\<^verbatim>\<open>expression(p)\<close> and \<^verbatim>\<open>expression(p).ok();\<close>\<close>

definition expression :: "grammar \<Rightarrow> completed option parse" where
  "expression G = g_expr_bp G 0"

text \<open>\<^verbatim>\<open>expression(p).is_err()\<close>, with the completed node no longer of interest.\<close>

definition expression_fails :: "grammar \<Rightarrow> bool parse" where
  "expression_fails G = do { r \<leftarrow> expression G; ret (r = None) }"

subsection \<open>The laws of the interface\<close>

text \<open>
  The marker discipline of \<^verbatim>\<open>Flow.thy\<close>, as the contract between the parts: each function of
  the record may be called while any markers are open, and leaves them as they are; the
  expression parser returns a completed node that the caller may wrap.
\<close>

fun done_opt :: "completed option \<Rightarrow> pending list \<Rightarrow> pending list" where
  "done_opt None ms = ms"
| "done_opt (Some c) ms = Don c # ms"

locale grammar_laws =
  fixes T :: "token list" and G :: grammar
  assumes expr_bp_node: "nodone ms \<Longrightarrow> flows T ms (g_expr_bp G n) (\<lambda>r. done_opt r ms)"
    and element_value [flow_rules]: "nodone ms \<Longrightarrow> flows T ms (g_element_value G) (\<lambda>_. ms)"
    and reference_type [flow_rules]: "nodone ms \<Longrightarrow> flows T ms (g_reference_type G) (\<lambda>_. ms)"
    and pattern [flow_rules]: "nodone ms \<Longrightarrow> flows T ms (g_pattern G) (\<lambda>_. ms)"
    and block [flow_rules]: "nodone ms \<Longrightarrow> flows T ms (g_block G) (\<lambda>_. ms)"
    and statement [flow_rules]: "nodone ms \<Longrightarrow> flows T ms (g_statement G) (\<lambda>_. ms)"
    and if_statement [flow_rules]: "nodone ms \<Longrightarrow> flows T ms (g_if_statement G) (\<lambda>_. ms)"
    and switch_block [flow_rules]: "nodone ms \<Longrightarrow> flows T ms (g_switch_block G) (\<lambda>_. ms)"
    and class_body [flow_rules]: "nodone ms \<Longrightarrow> flows T ms (g_class_body G) (\<lambda>_. ms)"
    and interface_body [flow_rules]: "nodone ms \<Longrightarrow> flows T ms (g_interface_body G) (\<lambda>_. ms)"
    and enum_body [flow_rules]: "nodone ms \<Longrightarrow> flows T ms (g_enum_body G) (\<lambda>_. ms)"
    and record_body [flow_rules]: "nodone ms \<Longrightarrow> flows T ms (g_record_body G) (\<lambda>_. ms)"
    and annotation_type_body [flow_rules]:
      "nodone ms \<Longrightarrow> flows T ms (g_annotation_type_body G) (\<lambda>_. ms)"
begin

lemma expr_bp [flow_rules]: "nodone ms \<Longrightarrow> flows T ms (g_expr_bp G n) (\<lambda>_. ms)"
proof (rule flow_weaken [OF expr_bp_node])
  show "done_opt r ms = ms \<or> (\<exists>d. done_opt r ms = Don d # ms)" for r by (cases r) auto
qed

lemma expression [flow_rules]: "nodone ms \<Longrightarrow> flows T ms (expression G) (\<lambda>_. ms)"
  unfolding expression_def by (rule expr_bp)

lemma expression_node: "nodone ms \<Longrightarrow> flows T ms (expression G) (\<lambda>r. done_opt r ms)"
  unfolding expression_def by (rule expr_bp_node)

lemma expression_fails [flow_rules]: "nodone ms \<Longrightarrow> flows T ms (expression_fails G) (\<lambda>_. ms)"
  unfolding expression_fails_def by (rule flow_rules | simp)+

end

lemma no_grammar_laws: "grammar_laws T no_grammar"
  by unfold_locales (simp_all add: no_grammar_def flow_halt)

subsection \<open>\<^verbatim>\<open>grammar/error_recover.rs\<close>\<close>

definition recover_until_internal ::
  "grammar \<Rightarrow> syntax_kind list \<Rightarrow> (parser \<Rightarrow> bool) \<Rightarrow> unit parse" where
  "recover_until_internal G recovery is_contextual =
     while_g G
       (\<lambda>p. \<not> is_at_end p \<and>
          \<not> (case current p of
               None \<Rightarrow> False
             | Some kind \<Rightarrow> List.member recovery kind \<or> is_contextual p))
       bump"

definition recover_until :: "grammar \<Rightarrow> syntax_kind list \<Rightarrow> unit parse" where
  "recover_until G recovery = recover_until_internal G recovery (\<lambda>_. False)"

definition recover_until_or_eat ::
  "grammar \<Rightarrow> syntax_kind list \<Rightarrow> syntax_kind \<Rightarrow> unit parse" where
  "recover_until_or_eat G recovery eat_if_present =
     do { recover_until G recovery; eat' eat_if_present }"

definition recover_decl :: "grammar \<Rightarrow> unit parse" where
  "recover_decl G =
     do { recover_until G [SEMICOLON, R_BRACE, PACKAGE_KW, IMPORT_KW, CLASS_KW, INTERFACE_KW,
            ENUM_KW];
          p \<leftarrow> view;
          if_then (at_set (tokenset [R_BRACE]) p) bump }"

definition recover_member :: "grammar \<Rightarrow> unit parse" where
  "recover_member G =
     recover_until_or_eat G
       [SEMICOLON, R_BRACE, CLASS_KW, INTERFACE_KW, ENUM_KW, PUBLIC_KW, PRIVATE_KW, PROTECTED_KW,
        STATIC_KW, FINAL_KW, ABSTRACT_KW, DEFAULT_KW, AT]
       SEMICOLON"

definition recover_parameter :: "grammar \<Rightarrow> unit parse" where
  "recover_parameter G = recover_until G [COMMA, R_PAREN]"

definition recover_catch_parameter :: "grammar \<Rightarrow> unit parse" where
  "recover_catch_parameter G = recover_until G [R_PAREN, L_BRACE]"

definition recover_annotation_type_parameter :: "grammar \<Rightarrow> unit parse" where
  "recover_annotation_type_parameter G =
     do { recover_until G [R_PAREN, SEMICOLON, R_BRACE];
          p \<leftarrow> view;
          if_then (at R_PAREN p) bump;
          p \<leftarrow> view;
          if_then (at SEMICOLON p) bump }"

definition recover_type_bound :: "grammar \<Rightarrow> unit parse" where
  "recover_type_bound G =
     recover_until G [COMMA, GREATER, BIT_AND, L_BRACE, L_PAREN, IMPLEMENTS_KW, EXTENDS_KW]"

definition recover_type_argument :: "grammar \<Rightarrow> unit parse" where
  "recover_type_argument G = recover_until G [COMMA, GREATER]"

definition recover_block_statement :: "grammar \<Rightarrow> unit parse" where
  "recover_block_statement G =
     do { recover_until_internal G
            [SEMICOLON, R_BRACE, L_BRACE, IF_KW, WHILE_KW, DO_KW, FOR_KW, TRY_KW, SWITCH_KW,
             SYNCHRONIZED_KW, RETURN_KW, THROW_KW, BREAK_KW, CONTINUE_KW, ASSERT_KW, CLASS_KW,
             INTERFACE_KW, ENUM_KW]
            (\<lambda>p. case current_lexeme p of
                   None \<Rightarrow> False
                 | Some lexeme \<Rightarrow>
                     at IDENTIFIER p \<and> lexeme \<in> {''var'', ''yield'', ''record''});
          eat' SEMICOLON }"

definition recover_switch_statement :: "grammar \<Rightarrow> unit parse" where
  "recover_switch_statement G = recover_until G [CASE_KW, DEFAULT_KW, L_BRACE, R_BRACE]"

lemma flow_recover_until_internal [flow_rules]:
  "nodone ms \<Longrightarrow> flows T ms (recover_until_internal G ks c) (\<lambda>_. ms)"
  unfolding recover_until_internal_def by (rule flow_rules | simp)+

lemma flow_recover_until [flow_rules]: "nodone ms \<Longrightarrow> flows T ms (recover_until G ks) (\<lambda>_. ms)"
  unfolding recover_until_def by (rule flow_rules | simp)+

lemma flow_recover_until_or_eat [flow_rules]:
  "nodone ms \<Longrightarrow> flows T ms (recover_until_or_eat G ks k) (\<lambda>_. ms)"
  unfolding recover_until_or_eat_def by (rule flow_rules | simp)+

lemma flow_recover_decl [flow_rules]: "nodone ms \<Longrightarrow> flows T ms (recover_decl G) (\<lambda>_. ms)"
  unfolding recover_decl_def by (rule flow_rules | simp)+

lemma flow_recover_member [flow_rules]: "nodone ms \<Longrightarrow> flows T ms (recover_member G) (\<lambda>_. ms)"
  unfolding recover_member_def by (rule flow_rules | simp)+

lemma flow_recover_parameter [flow_rules]:
  "nodone ms \<Longrightarrow> flows T ms (recover_parameter G) (\<lambda>_. ms)"
  unfolding recover_parameter_def by (rule flow_rules | simp)+

lemma flow_recover_catch_parameter [flow_rules]:
  "nodone ms \<Longrightarrow> flows T ms (recover_catch_parameter G) (\<lambda>_. ms)"
  unfolding recover_catch_parameter_def by (rule flow_rules | simp)+

lemma flow_recover_annotation_type_parameter [flow_rules]:
  "nodone ms \<Longrightarrow> flows T ms (recover_annotation_type_parameter G) (\<lambda>_. ms)"
  unfolding recover_annotation_type_parameter_def by (rule flow_rules | simp)+

lemma flow_recover_type_bound [flow_rules]:
  "nodone ms \<Longrightarrow> flows T ms (recover_type_bound G) (\<lambda>_. ms)"
  unfolding recover_type_bound_def by (rule flow_rules | simp)+

lemma flow_recover_type_argument [flow_rules]:
  "nodone ms \<Longrightarrow> flows T ms (recover_type_argument G) (\<lambda>_. ms)"
  unfolding recover_type_argument_def by (rule flow_rules | simp)+

lemma flow_recover_block_statement [flow_rules]:
  "nodone ms \<Longrightarrow> flows T ms (recover_block_statement G) (\<lambda>_. ms)"
  unfolding recover_block_statement_def by (rule flow_rules | simp)+

lemma flow_recover_switch_statement [flow_rules]:
  "nodone ms \<Longrightarrow> flows T ms (recover_switch_statement G) (\<lambda>_. ms)"
  unfolding recover_switch_statement_def by (rule flow_rules | simp)+

subsection \<open>\<^verbatim>\<open>grammar/names.rs\<close>\<close>

definition qualified_name :: "grammar \<Rightarrow> unit parse" where
  "qualified_name G =
     do { m \<leftarrow> start;
          p \<leftarrow> view;
          (if at IDENTIFIER p then
             do { bump;
                  while_g G (\<lambda>p. at DOT p \<and> nth_kind 1 p = Some IDENTIFIER) (do { bump; bump }) }
           else error_expected [IDENTIFIER]);
          finish_node m QUALIFIED_NAME }"

lemma flow_qualified_name [flow_rules]: "nodone ms \<Longrightarrow> flows T ms (qualified_name G) (\<lambda>_. ms)"
  unfolding qualified_name_def by (rule flow_rules | simp)+

end
