(* ===== verification/Types.thy ===== *)
theory Types imports Grammar begin

text \<open>
  \<^verbatim>\<open>grammar/modifiers.rs\<close>, \<^verbatim>\<open>grammar/types.rs\<close> and \<^verbatim>\<open>grammar/clauses.rs\<close>: modifier lists and
  annotations, types with their arguments, bounds and dimensions, parameter lists, and the
  clauses of a declaration header.
\<close>

subsection \<open>\<^verbatim>\<open>grammar/modifiers.rs\<close>\<close>

definition element_value_pair :: "grammar \<Rightarrow> unit parse" where
  "element_value_pair G =
     do { m \<leftarrow> start;
          expect' IDENTIFIER;
          expect' EQUAL;
          g_element_value G;
          finish_node m ELEMENT_VALUE_PAIR }"

definition annotation_argument_list :: "grammar \<Rightarrow> unit parse" where
  "annotation_argument_list G =
     do { m \<leftarrow> start;
          expect' L_PAREN;
          p \<leftarrow> view;
          if_then (\<not> at R_PAREN p)
            (if nth_kind 1 p = Some EQUAL
             then do { element_value_pair G; while_eat_g G COMMA (element_value_pair G) }
             else g_element_value G);
          expect' R_PAREN;
          finish_node m ANNOTATION_ARGUMENT_LIST }"

definition annotation :: "grammar \<Rightarrow> unit parse" where
  "annotation G =
     do { m \<leftarrow> start;
          expect' AT;
          qualified_name G;
          p \<leftarrow> view;
          if at L_PAREN p
          then do { annotation_argument_list G; finish_node m ANNOTATION }
          else finish_node m MARKER_ANNOTATION }"

definition modifiers :: "grammar \<Rightarrow> unit parse" where
  "modifiers G =
     do { m \<leftarrow> start;
          is_empty \<leftarrow> loop_with (g_fuel G) True (\<lambda>is_empty.
            do { p \<leftarrow> view;
                 if at_set (tokenset [PUBLIC_KW, PRIVATE_KW, PROTECTED_KW, FINAL_KW, STATIC_KW,
                      ABSTRACT_KW, DEFAULT_KW, NATIVE_KW, SYNCHRONIZED_KW, TRANSIENT_KW,
                      VOLATILE_KW, STRICTFP_KW]) p \<or>
                    at_contextual_kw_set (kw_tokenset [Kw_Sealed, Kw_NonSealed]) p
                 then do { bump; ret (True, False) }
                 else do { b \<leftarrow> eat_non_sealed;
                           p \<leftarrow> view;
                           if b then ret (True, False)
                           else if at AT p \<and> nth_kind 1 p \<noteq> Some INTERFACE_KW
                           then do { annotation G; ret (True, False) }
                           else ret (False, is_empty) } });
          if is_empty then abandon m else finish_node m MODIFIER_LIST }"

definition variable_modifier :: "grammar \<Rightarrow> unit parse" where
  "variable_modifier G =
     do { m \<leftarrow> start;
          is_empty \<leftarrow> loop_with (g_fuel G) True (\<lambda>is_empty.
            do { p \<leftarrow> view;
                 if at AT p \<or> at FINAL_KW p
                 then do { (if at AT p then annotation G else expect' FINAL_KW);
                           ret (True, False) }
                 else ret (False, is_empty) });
          if is_empty then abandon m else finish_node m MODIFIER_LIST }"

definition variable_annotations_opt :: "grammar \<Rightarrow> unit parse" where
  "variable_annotations_opt G =
     do { p \<leftarrow> view;
          if \<not> at AT p then skip
          else do { m \<leftarrow> start;
                    while_g G (at AT) (annotation G);
                    finish_node m MODIFIER_LIST } }"

subsection \<open>\<^verbatim>\<open>grammar/types.rs\<close>\<close>

text \<open>
  \<^verbatim>\<open>expect_gt\<close>: a \<^verbatim>\<open>>>\<close> or \<^verbatim>\<open>>>>\<close> that closes a list of type arguments is split in two.
\<close>

definition expect_gt :: "unit parse" where
  "expect_gt =
     do { p \<leftarrow> view;
          if current p = Some GREATER then bump
          else if current p = Some RIGHT_SHIFT then split_token RIGHT_SHIFT 1 GREATER
          else if current p = Some UNSIGNED_RIGHT_SHIFT then split_token RIGHT_SHIFT 1 RIGHT_SHIFT
          else error_expected [GREATER] }"

definition type_annotations_opt :: "grammar \<Rightarrow> unit parse" where
  "type_annotations_opt G =
     do { p \<leftarrow> view;
          if_then (at AT p \<and> nth_kind 1 p \<noteq> Some INTERFACE_KW)
            (do { m \<leftarrow> start;
                  while_g G (\<lambda>p. at AT p \<and> nth_kind 1 p \<noteq> Some INTERFACE_KW) (annotation G);
                  finish_node m MODIFIER_LIST }) }"

definition dimensions :: "grammar \<Rightarrow> unit parse" where
  "dimensions G =
     do { p \<leftarrow> view;
          if \<not> at L_BRACKET p \<and> \<not> at_annotated_dimension p then skip
          else
            do { m \<leftarrow> start;
                 while_g G (\<lambda>p. at L_BRACKET p \<or> at_annotated_dimension p)
                   (do { type_annotations_opt G;
                         m_inner \<leftarrow> start;
                         expect' L_BRACKET;
                         p \<leftarrow> view;
                         if_then (\<not> at R_BRACKET p \<and>
                              is_expression_start
                                (case current p of None \<Rightarrow> UNKNOWN | Some k \<Rightarrow> k))
                           (discard (expression G));
                         expect' R_BRACKET;
                         finish_node m_inner DIMENSION });
                 finish_node m DIMENSIONS } }"

definition wildcard_bounds :: "grammar \<Rightarrow> bool parse" where
  "wildcard_bounds G =
     do { m \<leftarrow> start;
          p \<leftarrow> view;
          if at EXTENDS_KW p \<or> at SUPER_KW p then
            do { bump;
                 err \<leftarrow> is_err (g_reference_type G);
                 if err then do { finish_node m ERROR; ret False }
                 else do { finish_node m WILDCARD_BOUNDS; ret True } }
          else
            do { error_expected [EXTENDS_KW, SUPER_KW];
                 finish_node m ERROR;
                 ret False } }"

definition wildcard_type :: "grammar \<Rightarrow> bool parse" where
  "wildcard_type G =
     do { m \<leftarrow> start;
          expect' QUESTION;
          p \<leftarrow> view;
          err \<leftarrow> and_then (at EXTENDS_KW p \<or> at SUPER_KW p) (is_err (wildcard_bounds G));
          if err then do { abandon m; ret False }
          else do { finish_node m WILDCARD_TYPE; ret True } }"

definition type_argument :: "grammar \<Rightarrow> bool parse" where
  "type_argument G =
     do { m \<leftarrow> start;
          p \<leftarrow> view;
          res \<leftarrow> (if at QUESTION p then wildcard_type G
                 else if at_primitive_type p then
                   do { m_inner \<leftarrow> start;
                        bump;
                        dimensions G;
                        finish_node m_inner TYPE_K;
                        ret True }
                 else g_reference_type G);
          if \<not> res then do { finish_node m ERROR; ret False }
          else do { finish_node m TYPE_ARGUMENT; ret True } }"

definition type_arguments :: "grammar \<Rightarrow> unit parse" where
  "type_arguments G =
     do { m \<leftarrow> start;
          expect' LESS;
          p \<leftarrow> view;
          if_then (\<not> at GREATER p)
            (do { err \<leftarrow> is_err (type_argument G);
                  if_then err (recover_type_argument G);
                  loop_g G
                    (do { b \<leftarrow> eat COMMA;
                          p \<leftarrow> view;
                          if \<not> b then ret False
                          else if at GREATER p then ret False
                          else do { err \<leftarrow> is_err (type_argument G);
                                    if_then err (recover_type_argument G);
                                    ret True } }) });
          expect_gt;
          finish_node m TYPE_ARGUMENTS }"

definition type_arguments_opt :: "grammar \<Rightarrow> unit parse" where
  "type_arguments_opt G = do { p \<leftarrow> view; if_then (at LESS p) (type_arguments G) }"

definition reference_type :: "grammar \<Rightarrow> bool parse" where
  "reference_type G =
     do { m \<leftarrow> start;
          type_annotations_opt G;
          p \<leftarrow> view;
          if \<not> at IDENTIFIER p then
            do { error_expected_construct Type; finish_node m ERROR; ret False }
          else
            do { qualified_name G;
                 type_arguments_opt G;
                 while_eat_g G DOT
                   (do { type_annotations_opt G; expect' IDENTIFIER; type_arguments_opt G });
                 dimensions G;
                 finish_node m TYPE_K;
                 ret True } }"

text \<open>\<^verbatim>\<open>type_\<close>\<close>

definition type_rule :: "grammar \<Rightarrow> bool parse" where
  "type_rule G =
     do { p \<leftarrow> view;
          if at_primitive_type p then
            do { m \<leftarrow> start; bump; dimensions G; finish_node m TYPE_K; ret True }
          else reference_type G }"

definition type_or_void :: "grammar \<Rightarrow> bool parse" where
  "type_or_void G = do { b \<leftarrow> eat VOID_KW; if b then ret True else type_rule G }"

definition type_bound :: "grammar \<Rightarrow> unit parse" where
  "type_bound G =
     do { m \<leftarrow> start;
          expect' EXTENDS_KW;
          err \<leftarrow> is_err (reference_type G);
          if err then do { recover_type_bound G; finish_node m ERROR }
          else
            do { failed \<leftarrow> loop_with (g_fuel G) False (\<lambda>failed.
                   do { b \<leftarrow> eat BIT_AND;
                        if \<not> b then ret (False, False)
                        else do { err \<leftarrow> is_err (reference_type G);
                                  if err then do { recover_type_bound G; ret (False, True) }
                                  else ret (True, False) } });
                 if failed then finish_node m ERROR else finish_node m TYPE_BOUND } }"

definition type_parameter :: "grammar \<Rightarrow> unit parse" where
  "type_parameter G =
     do { m \<leftarrow> start;
          expect' IDENTIFIER;
          p \<leftarrow> view;
          if_then (at EXTENDS_KW p) (type_bound G);
          finish_node m TYPE_PARAMETER }"

definition type_parameters :: "grammar \<Rightarrow> unit parse" where
  "type_parameters G =
     do { m \<leftarrow> start;
          expect' LESS;
          type_parameter G;
          while_eat_g G COMMA (type_parameter G);
          expect_gt;
          finish_node m TYPE_PARAMETERS }"

definition type_parameters_opt :: "grammar \<Rightarrow> unit parse" where
  "type_parameters_opt G = do { p \<leftarrow> view; if_then (at LESS p) (type_parameters G) }"

definition parameter :: "grammar \<Rightarrow> unit parse" where
  "parameter G =
     do { m \<leftarrow> start;
          modifiers G;
          p \<leftarrow> view;
          is_spread \<leftarrow> (if at ELLIPSIS p then do { bump; ret True } else ret False);
          err \<leftarrow> is_err (type_rule G);
          if err then do { recover_parameter G; finish_node m ERROR }
          else
            do { is_spread \<leftarrow>
                   (if \<not> is_spread then do { type_annotations_opt G; eat ELLIPSIS }
                    else ret is_spread);
                 b \<leftarrow> eat IDENTIFIER;
                 if b then
                   do { p \<leftarrow> view;
                        if_then (at L_BRACKET p) (dimensions G);
                        finish_node m (if is_spread then SPREAD_PARAMETER else FORMAL_PARAMETER) }
                 else
                   do { error_expected [IDENTIFIER];
                        recover_parameter G;
                        finish_node m ERROR } } }"

definition formal_parameters :: "grammar \<Rightarrow> unit parse" where
  "formal_parameters G =
     do { m \<leftarrow> start;
          expect' L_PAREN;
          p \<leftarrow> view;
          if_then (\<not> at R_PAREN p)
            (do { parameter G; while_eat_g G COMMA (parameter G) });
          expect' R_PAREN;
          finish_node m FORMAL_PARAMETERS }"

definition inferred_parameters :: "grammar \<Rightarrow> unit parse" where
  "inferred_parameters G =
     do { m \<leftarrow> start;
          expect' L_PAREN;
          p \<leftarrow> view;
          if_then (\<not> at R_PAREN p)
            (loop_g G
               (do { m_param \<leftarrow> start;
                     p \<leftarrow> view;
                     (if is_concise_param p
                      then do { bump; finish_node m_param INFERRED_PARAMETERS }
                      else do { error_message (''Expected identifier or '' @ quoted ''_'');
                                finish_node m_param ERROR });
                     eat COMMA }));
          expect' R_PAREN;
          finish_node m INFERRED_PARAMETERS }"

subsection \<open>\<^verbatim>\<open>grammar/clauses.rs\<close>\<close>

definition throws_clause :: "grammar \<Rightarrow> unit parse" where
  "throws_clause G =
     do { m \<leftarrow> start;
          expect' THROWS_KW;
          discard (type_rule G);
          while_eat_g G COMMA (discard (type_rule G));
          finish_node m THROWS_CLAUSE }"

definition throws_clause_opt :: "grammar \<Rightarrow> unit parse" where
  "throws_clause_opt G = do { p \<leftarrow> view; if_then (at THROWS_KW p) (throws_clause G) }"

definition extends_clause :: "grammar \<Rightarrow> unit parse" where
  "extends_clause G =
     do { m \<leftarrow> start;
          expect' EXTENDS_KW;
          discard (type_rule G);
          finish_node m EXTENDS_CLAUSE }"

definition implements_clause :: "grammar \<Rightarrow> unit parse" where
  "implements_clause G =
     do { m \<leftarrow> start;
          expect' IMPLEMENTS_KW;
          discard (type_rule G);
          while_eat_g G COMMA (discard (type_rule G));
          finish_node m IMPLEMENTS_CLAUSE }"

definition interface_extends_clause :: "grammar \<Rightarrow> unit parse" where
  "interface_extends_clause G =
     do { m \<leftarrow> start;
          expect' EXTENDS_KW;
          discard (type_rule G);
          while_eat_g G COMMA (discard (type_rule G));
          finish_node m INTERFACE_EXTENDS_CLAUSE }"

subsection \<open>The marker discipline\<close>

lemma flow_expect_gt [flow_rules]:
  assumes "nodone ms"
  shows "flows T ms expect_gt (\<lambda>_. ms)"
  unfolding expect_gt_def
proof (rule flow_bind_view)
  fix p assume k: "known T (current p)"
  show "flows T ms
     (if current p = Some GREATER then bump
      else if current p = Some RIGHT_SHIFT then split_token RIGHT_SHIFT 1 GREATER
      else if current p = Some UNSIGNED_RIGHT_SHIFT then split_token RIGHT_SHIFT 1 RIGHT_SHIFT
      else error_expected [GREATER]) (\<lambda>_. ms)"
    using k by (intro flow_if_cond flow_bump flow_split_token flow_error_expected assms)
      (auto simp: known_def has_shift_def)
qed

context grammar_laws begin

lemma flow_element_value_pair [flow_rules]:
  "nodone ms \<Longrightarrow> flows T ms (element_value_pair G) (\<lambda>_. ms)"
  unfolding element_value_pair_def by (rule flow_rules | simp)+

lemma flow_annotation_argument_list [flow_rules]:
  "nodone ms \<Longrightarrow> flows T ms (annotation_argument_list G) (\<lambda>_. ms)"
  unfolding annotation_argument_list_def by (rule flow_rules | simp)+

lemma flow_annotation [flow_rules]: "nodone ms \<Longrightarrow> flows T ms (annotation G) (\<lambda>_. ms)"
  unfolding annotation_def by (rule flow_rules | simp)+

lemma flow_modifiers [flow_rules]: "nodone ms \<Longrightarrow> flows T ms (modifiers G) (\<lambda>_. ms)"
  unfolding modifiers_def by (rule flow_rules | simp)+

lemma flow_variable_modifier [flow_rules]:
  "nodone ms \<Longrightarrow> flows T ms (variable_modifier G) (\<lambda>_. ms)"
  unfolding variable_modifier_def by (rule flow_rules | simp)+

lemma flow_variable_annotations_opt [flow_rules]:
  "nodone ms \<Longrightarrow> flows T ms (variable_annotations_opt G) (\<lambda>_. ms)"
  unfolding variable_annotations_opt_def by (rule flow_rules | simp)+

lemma flow_type_annotations_opt [flow_rules]:
  "nodone ms \<Longrightarrow> flows T ms (type_annotations_opt G) (\<lambda>_. ms)"
  unfolding type_annotations_opt_def by (rule flow_rules | simp)+

lemma flow_dimensions [flow_rules]: "nodone ms \<Longrightarrow> flows T ms (dimensions G) (\<lambda>_. ms)"
  unfolding dimensions_def by (rule flow_rules | simp)+

lemma flow_wildcard_bounds [flow_rules]:
  "nodone ms \<Longrightarrow> flows T ms (wildcard_bounds G) (\<lambda>_. ms)"
  unfolding wildcard_bounds_def by (rule flow_rules | simp)+

lemma flow_wildcard_type [flow_rules]: "nodone ms \<Longrightarrow> flows T ms (wildcard_type G) (\<lambda>_. ms)"
  unfolding wildcard_type_def by (rule flow_rules | simp)+

lemma flow_type_argument [flow_rules]: "nodone ms \<Longrightarrow> flows T ms (type_argument G) (\<lambda>_. ms)"
  unfolding type_argument_def by (rule flow_rules | simp)+

lemma flow_type_arguments [flow_rules]: "nodone ms \<Longrightarrow> flows T ms (type_arguments G) (\<lambda>_. ms)"
  unfolding type_arguments_def by (rule flow_rules | simp)+

lemma flow_type_arguments_opt [flow_rules]:
  "nodone ms \<Longrightarrow> flows T ms (type_arguments_opt G) (\<lambda>_. ms)"
  unfolding type_arguments_opt_def by (rule flow_rules | simp)+

lemma flow_reference_type [flow_rules]: "nodone ms \<Longrightarrow> flows T ms (reference_type G) (\<lambda>_. ms)"
  unfolding reference_type_def by (rule flow_rules | simp)+

lemma flow_type_rule [flow_rules]: "nodone ms \<Longrightarrow> flows T ms (type_rule G) (\<lambda>_. ms)"
  unfolding type_rule_def by (rule flow_rules | simp)+

lemma flow_type_or_void [flow_rules]: "nodone ms \<Longrightarrow> flows T ms (type_or_void G) (\<lambda>_. ms)"
  unfolding type_or_void_def by (rule flow_rules | simp)+

lemma flow_type_bound [flow_rules]: "nodone ms \<Longrightarrow> flows T ms (type_bound G) (\<lambda>_. ms)"
  unfolding type_bound_def by (rule flow_rules | simp)+

lemma flow_type_parameter [flow_rules]: "nodone ms \<Longrightarrow> flows T ms (type_parameter G) (\<lambda>_. ms)"
  unfolding type_parameter_def by (rule flow_rules | simp)+

lemma flow_type_parameters [flow_rules]: "nodone ms \<Longrightarrow> flows T ms (type_parameters G) (\<lambda>_. ms)"
  unfolding type_parameters_def by (rule flow_rules | simp)+

lemma flow_type_parameters_opt [flow_rules]:
  "nodone ms \<Longrightarrow> flows T ms (type_parameters_opt G) (\<lambda>_. ms)"
  unfolding type_parameters_opt_def by (rule flow_rules | simp)+

lemma flow_parameter [flow_rules]: "nodone ms \<Longrightarrow> flows T ms (parameter G) (\<lambda>_. ms)"
  unfolding parameter_def by (rule flow_rules | simp)+

lemma flow_formal_parameters [flow_rules]:
  "nodone ms \<Longrightarrow> flows T ms (formal_parameters G) (\<lambda>_. ms)"
  unfolding formal_parameters_def by (rule flow_rules | simp)+

lemma flow_inferred_parameters [flow_rules]:
  "nodone ms \<Longrightarrow> flows T ms (inferred_parameters G) (\<lambda>_. ms)"
  unfolding inferred_parameters_def by (rule flow_rules | simp)+

lemma flow_throws_clause [flow_rules]: "nodone ms \<Longrightarrow> flows T ms (throws_clause G) (\<lambda>_. ms)"
  unfolding throws_clause_def by (rule flow_rules | simp)+

lemma flow_throws_clause_opt [flow_rules]:
  "nodone ms \<Longrightarrow> flows T ms (throws_clause_opt G) (\<lambda>_. ms)"
  unfolding throws_clause_opt_def by (rule flow_rules | simp)+

lemma flow_extends_clause [flow_rules]: "nodone ms \<Longrightarrow> flows T ms (extends_clause G) (\<lambda>_. ms)"
  unfolding extends_clause_def by (rule flow_rules | simp)+

lemma flow_implements_clause [flow_rules]:
  "nodone ms \<Longrightarrow> flows T ms (implements_clause G) (\<lambda>_. ms)"
  unfolding implements_clause_def by (rule flow_rules | simp)+

lemma flow_interface_extends_clause [flow_rules]:
  "nodone ms \<Longrightarrow> flows T ms (interface_extends_clause G) (\<lambda>_. ms)"
  unfolding interface_extends_clause_def by (rule flow_rules | simp)+

end

end
