(* ===== verification/Expr.thy ===== *)
theory Expr imports Types begin

text \<open>
  \<^verbatim>\<open>grammar/expr.rs\<close>: the precedence-climbing expression parser (\<open>expr_prefix\<close> for what starts
  an operand, \<open>expr_led\<close> for the operator loop, \<open>led_step\<close> for one operator), lambdas, casts,
  annotation values and patterns. \<open>switch_common\<close> of \<^verbatim>\<open>grammar/stmt.rs\<close>, which both a switch
  expression and a switch statement call, is here as well.
\<close>

text \<open>\<^verbatim>\<open>Ok(m.complete(p, KIND))\<close>, and \<^verbatim>\<open>m.complete(p, ERROR); return Err(());\<close>\<close>

definition complete_ok :: "nat \<Rightarrow> syntax_kind \<Rightarrow> completed option parse" where
  "complete_ok m k = do { c \<leftarrow> complete m k; ret (Some c) }"

definition fail_node :: "nat \<Rightarrow> completed option parse" where
  "fail_node m = do { finish_node m ERROR; ret None }"

text \<open>\<^verbatim>\<open>expr_bp(p, n).is_err()\<close>\<close>

definition expr_bp_fails :: "grammar \<Rightarrow> nat \<Rightarrow> bool parse" where
  "expr_bp_fails G n = do { r \<leftarrow> g_expr_bp G n; ret (r = None) }"

subsection \<open>Lists of expressions, array initializers and annotation values\<close>

definition argument_list :: "grammar \<Rightarrow> unit parse" where
  "argument_list G =
     do { m \<leftarrow> start;
          expect' L_PAREN;
          p \<leftarrow> view;
          if_then (\<not> at R_PAREN p)
            (loop_g G
               (do { err \<leftarrow> expression_fails G;
                     if_then err (recover_parameter G);
                     eat COMMA }));
          expect' R_PAREN;
          finish_node m ARGUMENT_LIST }"

definition array_initializer :: "grammar \<Rightarrow> completed parse" where
  "array_initializer G =
     do { m \<leftarrow> start;
          expect' L_BRACE;
          p \<leftarrow> view;
          if_then (\<not> at R_BRACE p)
            (do { discard (expression G);
                  loop_g G
                    (do { b \<leftarrow> eat COMMA;
                          p \<leftarrow> view;
                          if \<not> b then ret False
                          else if at R_BRACE p then ret False
                          else do { discard (expression G); ret True } }) });
          expect' R_BRACE;
          complete m ARRAY_INITIALIZER }"

definition element_value_array_initializer :: "grammar \<Rightarrow> completed parse" where
  "element_value_array_initializer G =
     do { m \<leftarrow> start;
          expect' L_BRACE;
          p \<leftarrow> view;
          if_then (\<not> at R_BRACE p)
            (do { g_element_value G;
                  loop_g G
                    (do { b \<leftarrow> eat COMMA;
                          p \<leftarrow> view;
                          if \<not> b then ret False
                          else if at R_BRACE p then ret False
                          else do { g_element_value G; ret True } }) });
          expect' R_BRACE;
          complete m ARRAY_INITIALIZER }"

definition element_value :: "grammar \<Rightarrow> unit parse" where
  "element_value G =
     do { p \<leftarrow> view;
          if at AT p then annotation G
          else if at L_BRACE p then discard (element_value_array_initializer G)
          else do { err \<leftarrow> expression_fails G; if_then err (recover_parameter G) } }"

definition expression_list :: "grammar \<Rightarrow> unit parse" where
  "expression_list G =
     loop_g G
       (do { err \<leftarrow> expression_fails G;
             if_then err (recover_until G [COMMA, R_PAREN]);
             eat COMMA })"

subsection \<open>Patterns\<close>

definition is_pattern :: "grammar \<Rightarrow> bool parse" where
  "is_pattern G =
     do { ckpt \<leftarrow> checkpoint;
          err \<leftarrow> is_err (type_rule G);
          if err then do { rewind ckpt; ret False }
          else
            do { p \<leftarrow> view;
                 case current p of
                   None \<Rightarrow> do { rewind ckpt; ret False }
                 | Some next_token \<Rightarrow>
                     do { rewind ckpt; ret (next_token \<in> {IDENTIFIER, UNDERSCORE, L_PAREN}) } } }"

definition component_pattern :: "grammar \<Rightarrow> unit parse" where
  "component_pattern G =
     do { p \<leftarrow> view;
          if at UNDERSCORE p
          then do { m \<leftarrow> start; expect' UNDERSCORE; finish_node m MATCH_ALL_PATTERN }
          else g_pattern G }"

definition component_pattern_list :: "grammar \<Rightarrow> unit parse" where
  "component_pattern_list G =
     do { component_pattern G; while_eat_g G COMMA (component_pattern G) }"

definition type_pattern :: "grammar \<Rightarrow> bool parse" where
  "type_pattern G =
     do { err \<leftarrow> is_err (type_rule G);
          if err then ret False
          else do { p \<leftarrow> view;
                    if at IDENTIFIER p \<or> at UNDERSCORE p then do { bump; ret True }
                    else ret False } }"

definition pattern :: "grammar \<Rightarrow> unit parse" where
  "pattern G =
     do { m \<leftarrow> start;
          variable_annotations_opt G;
          p \<leftarrow> view;
          if is_record_pattern_lookahead p then
            do { discard (reference_type G);
                 expect' L_PAREN;
                 p \<leftarrow> view;
                 if_then (\<not> at R_PAREN p) (component_pattern_list G);
                 expect' R_PAREN;
                 finish_node m RECORD_PATTERN }
          else
            do { ok \<leftarrow> type_pattern G;
                 if ok then finish_node m TYPE_PATTERN
                 else do { abandon m; error_expected_construct Pattern } } }"

subsection \<open>Operands\<close>

definition template_argument :: "grammar \<Rightarrow> unit parse" where
  "template_argument G =
     do { m \<leftarrow> start;
          bump;
          loop_g G
            (do { err \<leftarrow> expression_fails G;
                  if_then err
                    (do { error_message ''Expected expression inside string template'';
                          recover_until G [STRING_TEMPLATE_MID, STRING_TEMPLATE_END] });
                  p \<leftarrow> view;
                  if current p = Some STRING_TEMPLATE_MID \<or> current p = Some TEXT_BLOCK_TEMPLATE_MID
                  then do { bump; ret True }
                  else if current p = Some STRING_TEMPLATE_END \<or>
                    current p = Some TEXT_BLOCK_TEMPLATE_END
                  then do { bump; ret False }
                  else do { error_message ''Expected string template MID or END''; ret False } });
          finish_node m TEMPLATE_ARGUMENT }"

definition method_reference_rest :: "grammar \<Rightarrow> nat \<Rightarrow> completed parse" where
  "method_reference_rest G m =
     do { expect' COLON_COLON;
          p \<leftarrow> view;
          if_then (at LESS p) (type_arguments G);
          p \<leftarrow> view;
          (if at IDENTIFIER p \<or> at NEW_KW p then bump
           else error_message (''Expected identifier or '' @ quoted ''new'' @ '' after '' @ quoted ''::''));
          complete m METHOD_REFERENCE }"

definition switch_common :: "grammar \<Rightarrow> nat parse" where
  "switch_common G =
     do { m \<leftarrow> start;
          expect' SWITCH_KW;
          b \<leftarrow> expect L_PAREN;
          err \<leftarrow> and_then b (expression_fails G);
          if_then err (recover_until G [R_PAREN, L_BRACE]);
          expect' R_PAREN;
          p \<leftarrow> view;
          (if at L_BRACE p then g_switch_block G
           else do { error_expected [L_BRACE]; recover_block_statement G });
          ret m }"

definition switch_expression :: "grammar \<Rightarrow> completed parse" where
  "switch_expression G = do { m \<leftarrow> switch_common G; complete m SWITCH_EXPR }"

definition array_creation_rest :: "grammar \<Rightarrow> nat \<Rightarrow> completed option parse" where
  "array_creation_rest G m =
     do { dimensions G;
          p \<leftarrow> view;
          if_then (at L_BRACE p) (discard (array_initializer G));
          complete_ok m NEW_EXPR }"

definition new_expression :: "grammar \<Rightarrow> completed option parse" where
  "new_expression G =
     do { m \<leftarrow> start;
          expect' NEW_KW;
          p \<leftarrow> view;
          (if at_primitive_type p then bump else qualified_name G);
          type_arguments_opt G;
          p \<leftarrow> view;
          if current p = Some L_PAREN then
            do { argument_list G;
                 p \<leftarrow> view;
                 if_then (at L_BRACE p) (g_class_body G);
                 complete_ok m NEW_EXPR }
          else if current p = Some L_BRACKET then array_creation_rest G m
          else do { error_expected [L_PAREN, L_BRACKET]; fail_node m } }"

definition lambda_expression :: "grammar \<Rightarrow> completed option parse" where
  "lambda_expression G =
     do { m \<leftarrow> start;
          p \<leftarrow> view;
          (if (at IDENTIFIER p \<or> at UNDERSCORE p) \<and> nth_kind 1 p = Some ARROW then bump
           else if_then (at L_PAREN p)
             (if is_formal_parameters p then formal_parameters G else inferred_parameters G));
          expect' ARROW;
          p \<leftarrow> view;
          (if at L_BRACE p then g_block G else discard (expression G));
          complete_ok m LAMBDA_EXPR }"

definition is_type_cast_lookahead :: "grammar \<Rightarrow> bool parse" where
  "is_type_cast_lookahead G =
     do { ckpt \<leftarrow> checkpoint;
          is_primitive \<leftarrow> gets at_primitive_type;
          first_type_ok \<leftarrow> type_rule G;
          p \<leftarrow> view;
          has_additional_bounds \<leftarrow>
            (if first_type_ok \<and> at BIT_AND p then
               do { loop_g G
                      (do { b \<leftarrow> eat BIT_AND;
                            if b then reference_type G else ret False });
                    ret True }
             else ret False);
          has_r_paren \<leftarrow> gets (at R_PAREN);
          is_cast \<leftarrow>
            (if has_r_paren then
               do { bump;
                    next_token \<leftarrow> gets (\<lambda>p. case current p of None \<Rightarrow> UNKNOWN | Some k \<Rightarrow> k);
                    if is_primitive \<and> \<not> has_additional_bounds
                    then ret (is_expression_start next_token)
                    else ret (is_expression_start next_token \<and>
                           next_token \<notin> {PLUS, MINUS, PLUS_PLUS, MINUS_MINUS}) }
             else ret False);
          rewind ckpt;
          ret is_cast }"

definition additional_bounds :: "grammar \<Rightarrow> unit parse" where
  "additional_bounds G =
     loop_g G
       (do { b \<leftarrow> eat BIT_AND;
             if \<not> b then ret False
             else
               do { err \<leftarrow> is_err (reference_type G);
                    if err then
                      do { error_message (''Expected reference type after '' @ quoted ''&'' @ '' in cast'');
                           ret False }
                    else ret True } })"

definition cast_or_paren_expr :: "grammar \<Rightarrow> completed option parse" where
  "cast_or_paren_expr G =
     do { m \<leftarrow> start;
          expect' L_PAREN;
          is_cast \<leftarrow> is_type_cast_lookahead G;
          if is_cast then
            do { discard (type_rule G);
                 p \<leftarrow> view;
                 if_then (at BIT_AND p) (additional_bounds G);
                 expect' R_PAREN;
                 err \<leftarrow> expr_bp_fails G 25;
                 if err then
                   do { error_message ''Expected an expression after type cast''; fail_node m }
                 else complete_ok m CAST_EXPR }
          else
            do { err \<leftarrow> expression_fails G;
                 if err then
                   do { error_message ''Expected an expression inside parentheses''; fail_node m }
                 else do { expect' R_PAREN; complete_ok m PAREN_EXPR } } }"

text \<open>\<^verbatim>\<open>let m = p.start(); p.bump(); Ok(m.complete(p, KIND))\<close>\<close>

definition token_node :: "syntax_kind \<Rightarrow> completed option parse" where
  "token_node k = do { m \<leftarrow> start; bump; complete_ok m k }"

text \<open>The prefix operators, whose operand binds at 25.\<close>

definition prefix_operator :: "grammar \<Rightarrow> string \<Rightarrow> syntax_kind \<Rightarrow> completed option parse" where
  "prefix_operator G msg k =
     do { m \<leftarrow> start;
          bump;
          err \<leftarrow> expr_bp_fails G 25;
          if err then do { error_message msg; fail_node m } else complete_ok m k }"

definition expr_prefix :: "grammar \<Rightarrow> completed option parse" where
  "expr_prefix G =
     do { p \<leftarrow> view;
          case current p of
            None \<Rightarrow> ret None
          | Some kind \<Rightarrow>
              if kind \<in> {INTEGER_LITERAL, FLOAT_LITERAL, STRING_LITERAL, TEXT_BLOCK, THIS_KW,
                   SUPER_KW, TRUE_LITERAL, FALSE_LITERAL, CHAR_LITERAL, NULL_LITERAL}
              then token_node LITERAL
              else if kind \<in> {STRING_TEMPLATE_BEGIN, TEXT_BLOCK_TEMPLATE_BEGIN} then
                do { m \<leftarrow> start;
                     error_message (''String template is missing a processor (e.g., '' @
                       quoted ''STR.'' @ '')'');
                     template_argument G;
                     complete_ok m TEMPLATE_EXPR }
              else if kind \<in> {IDENTIFIER, UNDERSCORE} then
                (if is_lambda_lookahead p then lambda_expression G else token_node LITERAL)
              else if kind \<in> {BOOLEAN_KW, BYTE_KW, SHORT_KW, INT_KW, LONG_KW, CHAR_KW, FLOAT_KW,
                   DOUBLE_KW, VOID_KW}
              then token_node PRIMITIVE_TYPE_EXPR
              else if kind = L_PAREN then
                (if is_lambda_lookahead p then lambda_expression G else cast_or_paren_expr G)
              else if kind = SWITCH_KW then
                do { c \<leftarrow> switch_expression G; ret (Some c) }
              else if kind \<in> {PLUS_PLUS, MINUS_MINUS} then
                prefix_operator G ''Expected an expression after prefix operator'' PREFIX_EXPR
              else if kind \<in> {PLUS, MINUS, TILDE, NOT} then
                prefix_operator G ''Expected an expression after unary operator'' UNARY_EXPR
              else if kind = L_BRACE then
                do { c \<leftarrow> array_initializer G; ret (Some c) }
              else if kind = NEW_KW then new_expression G
              else do { error_message ''Expected an argument''; ret None } }"

subsection \<open>Operators\<close>

text \<open>The arm for \<^verbatim>\<open>DOT\<close> of the operator loop.\<close>

definition member_access :: "grammar \<Rightarrow> nat \<Rightarrow> completed option parse" where
  "member_access G m =
     do { expect' DOT;
          p \<leftarrow> view;
          if at LESS p then
            do { type_arguments G;
                 p \<leftarrow> view;
                 if at IDENTIFIER p then do { bump; complete_ok m FIELD_ACCESS }
                 else do { error_message (''Expected identifier after '' @ quoted ''.'');
                           complete_ok m ERROR } }
          else if at NEW_KW p then
            do { bump;
                 qualified_name G;
                 type_arguments_opt G;
                 p \<leftarrow> view;
                 if at L_PAREN p then
                   do { argument_list G;
                        p \<leftarrow> view;
                        if_then (at L_BRACE p) (g_class_body G);
                        complete_ok m NEW_EXPR }
                 else do { error_expected [L_PAREN]; complete_ok m ERROR } }
          else if at CLASS_KW p then do { bump; complete_ok m CLASS_LITERAL }
          else if at IDENTIFIER p then do { bump; complete_ok m FIELD_ACCESS }
          else if at THIS_KW p then do { bump; complete_ok m THIS_EXPR }
          else if at SUPER_KW p then do { bump; complete_ok m SUPER_EXPR }
          else if at_set (tokenset [STRING_TEMPLATE_BEGIN, TEXT_BLOCK_TEMPLATE_BEGIN]) p then
            do { template_argument G; complete_ok m TEMPLATE_EXPR }
          else if at_set (tokenset [STRING_LITERAL, TEXT_BLOCK]) p then
            do { bump; complete_ok m TEMPLATE_EXPR }
          else
            do { error_message (''Expected identifier or '' @ quoted ''class'' @ '' after '' @
                   quoted ''.'' @ '', or template after '' @ quoted ''.'');
                 complete_ok m ERROR } }"

text \<open>The arm for \<^verbatim>\<open>L_BRACKET\<close>.\<close>

definition bracket_access :: "grammar \<Rightarrow> nat \<Rightarrow> completed option parse" where
  "bracket_access G m =
     do { expect' L_BRACKET;
          p \<leftarrow> view;
          if at R_BRACKET p then
            do { expect' R_BRACKET;
                 while_eat_g G L_BRACKET (expect' R_BRACKET);
                 complete_ok m TYPE_K }
          else
            do { err \<leftarrow> expression_fails G;
                 if err then
                   do { error_message ''Expected an expression inside array access brackets'';
                        fail_node m }
                 else do { expect' R_BRACKET; complete_ok m ARRAY_ACCESS } } }"

text \<open>The arm for \<^verbatim>\<open>QUESTION\<close>.\<close>

definition conditional_rest :: "grammar \<Rightarrow> nat \<Rightarrow> nat \<Rightarrow> completed option parse" where
  "conditional_rest G r_bp m =
     do { bump;
          err \<leftarrow> expression_fails G;
          if err then
            do { error_message (''Expected an expression after '' @ quoted ''?'' @
                   '' in conditional expression'');
                 fail_node m }
          else
            do { colon \<leftarrow> expect COLON;
                 if \<not> colon then
                   do { error_message (''Expected '' @ quoted '':'' @ '' in conditional expression'');
                        fail_node m }
                 else
                   do { err \<leftarrow> expr_bp_fails G r_bp;
                        if err then
                          do { error_message (''Expected an expression after '' @ quoted '':'' @
                                 '' in conditional expression'');
                               fail_node m }
                        else complete_ok m COND_EXPR } } }"

definition instanceof_rest :: "grammar \<Rightarrow> nat \<Rightarrow> completed option parse" where
  "instanceof_rest G m =
     do { bump;
          b \<leftarrow> is_pattern G;
          (if b then pattern G
           else do { err \<leftarrow> is_err (type_rule G);
                     if_then err (error_message (''Expected type or pattern after '' @
                       quoted ''instanceof'')) });
          complete_ok m INSTANCEOF_EXPR }"

text \<open>An operator with an operand to its right.\<close>

definition binary_rest ::
  "grammar \<Rightarrow> nat \<Rightarrow> string \<Rightarrow> syntax_kind \<Rightarrow> nat \<Rightarrow> completed option parse" where
  "binary_rest G r_bp msg k m =
     do { bump;
          err \<leftarrow> expr_bp_fails G r_bp;
          if err then do { error_message msg; fail_node m } else complete_ok m k }"

text \<open>
  The \<^verbatim>\<open>match\<close> on the operator, after the marker \<open>m\<close> has been put before the left operand;
  \<^verbatim>\<open>None\<close> is \<^verbatim>\<open>return Err(())\<close>.
\<close>

definition led_step :: "grammar \<Rightarrow> syntax_kind \<Rightarrow> nat \<Rightarrow> nat \<Rightarrow> completed option parse" where
  "led_step G kind r_bp m =
     do { p \<leftarrow> view;
          if kind \<in> {EQUAL, PLUS_EQUAL, MINUS_EQUAL, MULTIPLE_EQUAL, DIVIDE_EQUAL, MODULO_EQUAL,
               AND_EQUAL, OR_EQUAL, XOR_EQUAL, LEFT_SHIFT_EQUAL, RIGHT_SHIFT_EQUAL,
               UNSIGNED_RIGHT_SHIFT_EQUAL}
          then binary_rest G r_bp ''Expected an expression after assignment operator'' ASSIGN_EXPR m
          else if kind = COLON_COLON then
            do { c \<leftarrow> method_reference_rest G m; ret (Some c) }
          else if kind = DOT then member_access G m
          else if kind = L_PAREN then do { argument_list G; complete_ok m METHOD_CALL }
          else if kind = L_BRACKET then bracket_access G m
          else if kind \<in> {PLUS_PLUS, MINUS_MINUS} then do { bump; complete_ok m POSTFIX_EXPR }
          else if kind = QUESTION then conditional_rest G r_bp m
          else if kind = INSTANCEOF_KW then instanceof_rest G m
          else if kind = LESS \<and> is_method_ref_lookahead p then
            do { type_arguments G; complete_ok m TYPE_K }
          else binary_rest G r_bp ''Expected an expression after binary operator'' BINARY_EXPR m }"

text \<open>The loop over the operators that bind at least as tightly as \<open>min_bp\<close>.\<close>

primrec expr_led :: "grammar \<Rightarrow> nat \<Rightarrow> nat \<Rightarrow> completed \<Rightarrow> completed option parse" where
  "expr_led G min_bp 0 left = halt None OutOfFuel"
| "expr_led G min_bp (Suc n) left =
     do { p \<leftarrow> view;
          case current p of
            None \<Rightarrow> ret (Some left)
          | Some kind \<Rightarrow>
              (case get_infix_bp kind of
                 None \<Rightarrow> ret (Some left)
               | Some bp \<Rightarrow>
                   if fst bp < min_bp then ret (Some left)
                   else
                     do { m \<leftarrow> precede left;
                          r \<leftarrow> led_step G kind (snd bp) m;
                          case r of
                            None \<Rightarrow> ret None
                          | Some left \<Rightarrow> expr_led G min_bp n left }) }"

definition expr_bp :: "grammar \<Rightarrow> nat \<Rightarrow> completed option parse" where
  "expr_bp G min_bp =
     do { r \<leftarrow> expr_prefix G;
          case r of
            None \<Rightarrow> ret None
          | Some left \<Rightarrow> expr_led G min_bp (g_fuel G) left }"

definition case_pattern_or_constant :: "grammar \<Rightarrow> unit parse" where
  "case_pattern_or_constant G =
     do { b \<leftarrow> is_pattern G;
          p \<leftarrow> view;
          if b then pattern G
          else if is_lambda_lookahead p then
            (if at IDENTIFIER p \<or> at UNDERSCORE p
             then do { m \<leftarrow> start; bump; finish_node m LITERAL }
             else if at L_PAREN p then discard (cast_or_paren_expr G)
             else discard (expression G))
          else discard (expression G) }"

subsection \<open>The marker discipline\<close>

lemma flow_ret_None [node_rules]: "flows T ms (ret None) (\<lambda>r. done_opt r ms)"
  by (rule flow_ret_at) simp

lemma flow_ret_Some [node_rules]: "flows T (Don c # ms) (ret (Some c)) (\<lambda>r. done_opt r ms)"
  by (rule flow_ret_at) simp

lemma flow_node_case:
  "(\<And>c. flows T (Don c # ms) (g c) (\<lambda>r. done_opt r ms)) \<Longrightarrow>
   flows T (done_opt r ms) (case r of None \<Rightarrow> ret None | Some c \<Rightarrow> g c) (\<lambda>r. done_opt r ms)"
  by (cases r) (simp_all add: flow_ret_None)

lemma flow_complete_ok [node_rules]:
  "flows T (Opn m # ms) (complete_ok m k) (\<lambda>r. done_opt r ms)"
  unfolding complete_ok_def by (rule node_rules flow_rules)+

lemma flow_complete_ok_Pre [node_rules]:
  "flows T (Pre m # ms) (complete_ok m k) (\<lambda>r. done_opt r ms)"
  unfolding complete_ok_def by (rule flow_bind [OF flow_complete_Pre flow_ret_Some])

lemma flow_fail_node [node_rules]:
  "nodone ms \<Longrightarrow> flows T (Opn m # ms) (fail_node m) (\<lambda>r. done_opt r ms)"
  unfolding fail_node_def by (rule node_rules flow_rules | assumption)+

lemma flow_fail_node_Pre [node_rules]:
  "nodone ms \<Longrightarrow> flows T (Pre m # ms) (fail_node m) (\<lambda>r. done_opt r ms)"
  unfolding fail_node_def by (rule node_rules flow_finish_node_Pre flow_rules | assumption)+

lemma done_opt_weak: "done_opt r ms = ms \<or> (\<exists>d. done_opt r ms = Don d # ms)"
  by (cases r) auto

text \<open>Forgetting the node of a function that may fail.\<close>

lemma flow_weaken_opt:
  "flows T ms f (\<lambda>r. done_opt r ms) \<Longrightarrow> nodone ms \<Longrightarrow> flows T ms f (\<lambda>_. ms)"
  by (rule flow_weaken [OF _ done_opt_weak])

lemma flow_token_node [node_rules]:
  "nodone ms \<Longrightarrow> flows T ms (token_node k) (\<lambda>r. done_opt r ms)"
  unfolding token_node_def by (rule node_rules flow_rules | simp)+

context grammar_laws begin

lemma flow_expr_bp_fails [flow_rules]: "nodone ms \<Longrightarrow> flows T ms (expr_bp_fails G n) (\<lambda>_. ms)"
  unfolding expr_bp_fails_def by (rule flow_rules | simp)+

lemma flow_argument_list [flow_rules]: "nodone ms \<Longrightarrow> flows T ms (argument_list G) (\<lambda>_. ms)"
  unfolding argument_list_def by (rule flow_rules | simp)+

lemma flow_array_initializer_node:
  "nodone ms \<Longrightarrow> flows T ms (array_initializer G) (\<lambda>c. Don c # ms)"
  unfolding array_initializer_def by (rule flow_rules | simp)+

lemma flow_array_initializer [flow_rules]:
  "nodone ms \<Longrightarrow> flows T ms (discard (array_initializer G)) (\<lambda>_. ms)"
  by (rule flow_discard_node [OF flow_array_initializer_node])

lemma flow_element_value_array_initializer [flow_rules]:
  "nodone ms \<Longrightarrow> flows T ms (discard (element_value_array_initializer G)) (\<lambda>_. ms)"
  unfolding element_value_array_initializer_def
  by (rule flow_discard_node) (rule flow_rules | simp)+

lemma flow_element_value: "nodone ms \<Longrightarrow> flows T ms (element_value G) (\<lambda>_. ms)"
  unfolding element_value_def by (rule flow_rules | simp)+

lemma flow_expression_list [flow_rules]:
  "nodone ms \<Longrightarrow> flows T ms (expression_list G) (\<lambda>_. ms)"
  unfolding expression_list_def by (rule flow_rules | simp)+

lemma flow_is_pattern [flow_rules]: "nodone ms \<Longrightarrow> flows T ms (is_pattern G) (\<lambda>_. ms)"
  unfolding is_pattern_def by (rule flow_rules | simp)+

lemma flow_component_pattern [flow_rules]:
  "nodone ms \<Longrightarrow> flows T ms (component_pattern G) (\<lambda>_. ms)"
  unfolding component_pattern_def by (rule flow_rules | simp)+

lemma flow_component_pattern_list [flow_rules]:
  "nodone ms \<Longrightarrow> flows T ms (component_pattern_list G) (\<lambda>_. ms)"
  unfolding component_pattern_list_def by (rule flow_rules | simp)+

lemma flow_type_pattern [flow_rules]: "nodone ms \<Longrightarrow> flows T ms (type_pattern G) (\<lambda>_. ms)"
  unfolding type_pattern_def by (rule flow_rules | simp)+

lemma flow_pattern [flow_rules]: "nodone ms \<Longrightarrow> flows T ms (Expr.pattern G) (\<lambda>_. ms)"
  unfolding pattern_def by (rule flow_rules | simp)+

lemma flow_template_argument [flow_rules]:
  "nodone ms \<Longrightarrow> flows T ms (template_argument G) (\<lambda>_. ms)"
  unfolding template_argument_def by (rule flow_rules | simp)+

lemma flow_method_reference_rest:
  "nodone ms \<Longrightarrow> flows T (Pre m # ms) (method_reference_rest G m) (\<lambda>c. Don c # ms)"
  unfolding method_reference_rest_def by (rule flow_complete_Pre flow_rules | simp)+

lemma flow_switch_common [flow_rules]:
  "nodone ms \<Longrightarrow> flows T ms (switch_common G) (\<lambda>m. Opn m # ms)"
  unfolding switch_common_def
  by (rule flow_bind [OF flow_start]) (rule flow_ret_at [OF refl] flow_rules | simp)+

lemma flow_switch_expression:
  "nodone ms \<Longrightarrow> flows T ms (switch_expression G) (\<lambda>c. Don c # ms)"
  unfolding switch_expression_def by (rule flow_rules | simp)+

lemma flow_array_creation_rest [node_rules]:
  "nodone ms \<Longrightarrow> flows T (Opn m # ms) (array_creation_rest G m) (\<lambda>r. done_opt r ms)"
  unfolding array_creation_rest_def by (rule node_rules flow_rules | simp)+

lemma flow_new_expression [node_rules]:
  "nodone ms \<Longrightarrow> flows T ms (new_expression G) (\<lambda>r. done_opt r ms)"
  unfolding new_expression_def by (rule node_rules flow_rules | simp)+

lemma flow_lambda_expression [node_rules]:
  "nodone ms \<Longrightarrow> flows T ms (lambda_expression G) (\<lambda>r. done_opt r ms)"
  unfolding lambda_expression_def by (rule node_rules flow_rules | simp)+

lemma flow_is_type_cast_lookahead [flow_rules]:
  "nodone ms \<Longrightarrow> flows T ms (is_type_cast_lookahead G) (\<lambda>_. ms)"
  unfolding is_type_cast_lookahead_def by (rule flow_rules | simp)+

lemma flow_additional_bounds [flow_rules]:
  "nodone ms \<Longrightarrow> flows T ms (additional_bounds G) (\<lambda>_. ms)"
  unfolding additional_bounds_def by (rule flow_rules | simp)+

lemma flow_cast_or_paren_expr_node [node_rules]:
  "nodone ms \<Longrightarrow> flows T ms (cast_or_paren_expr G) (\<lambda>r. done_opt r ms)"
  unfolding cast_or_paren_expr_def by (rule node_rules flow_rules | simp)+

lemma flow_cast_or_paren_expr [flow_rules]:
  "nodone ms \<Longrightarrow> flows T ms (cast_or_paren_expr G) (\<lambda>_. ms)"
  by (rule flow_weaken_opt [OF flow_cast_or_paren_expr_node])

lemma flow_prefix_operator [node_rules]:
  "nodone ms \<Longrightarrow> flows T ms (prefix_operator G msg k) (\<lambda>r. done_opt r ms)"
  unfolding prefix_operator_def by (rule node_rules flow_rules | simp)+

lemma flow_expr_prefix:
  "nodone ms \<Longrightarrow> flows T ms (expr_prefix G) (\<lambda>r. done_opt r ms)"
  unfolding expr_prefix_def
  by (rule node_rules flow_array_initializer_node flow_switch_expression flow_rules | simp only: nodone_simps)+

lemma flow_member_access [node_rules]:
  "nodone ms \<Longrightarrow> flows T (Pre m # ms) (member_access G m) (\<lambda>r. done_opt r ms)"
  unfolding member_access_def by (rule node_rules flow_rules | simp only: nodone_simps)+

lemma flow_bracket_access [node_rules]:
  "nodone ms \<Longrightarrow> flows T (Pre m # ms) (bracket_access G m) (\<lambda>r. done_opt r ms)"
  unfolding bracket_access_def by (rule node_rules flow_rules | simp)+

lemma flow_conditional_rest [node_rules]:
  "nodone ms \<Longrightarrow> flows T (Pre m # ms) (conditional_rest G n m) (\<lambda>r. done_opt r ms)"
  unfolding conditional_rest_def by (rule node_rules flow_rules | simp)+

lemma flow_instanceof_rest [node_rules]:
  "nodone ms \<Longrightarrow> flows T (Pre m # ms) (instanceof_rest G m) (\<lambda>r. done_opt r ms)"
  unfolding instanceof_rest_def by (rule node_rules flow_rules | simp)+

lemma flow_binary_rest [node_rules]:
  "nodone ms \<Longrightarrow> flows T (Pre m # ms) (binary_rest G n s k m) (\<lambda>r. done_opt r ms)"
  unfolding binary_rest_def by (rule node_rules flow_rules | simp)+

lemma flow_led_step:
  "nodone ms \<Longrightarrow> flows T (Pre m # ms) (led_step G kind r_bp m) (\<lambda>r. done_opt r ms)"
  unfolding led_step_def
  by (rule node_rules flow_method_reference_rest flow_rules | simp only: nodone_simps)+

lemma flow_expr_led:
  "nodone ms \<Longrightarrow> flows T (Don left # ms) (expr_led G min_bp n left) (\<lambda>r. done_opt r ms)"
proof (induction n arbitrary: left)
  case 0
  show ?case by (simp add: flow_halt)
next
  case (Suc n)
  show ?case
    unfolding expr_led.simps
    by (rule flow_node_case Suc.IH [OF Suc.prems] flow_bind [OF flow_view]
        flow_bind [OF flow_precede] flow_bind [OF flow_led_step [OF Suc.prems]]
        flow_case_option flow_if flow_ret_Some)+
qed

lemma flow_expr_bp: "nodone ms \<Longrightarrow> flows T ms (Expr.expr_bp G n) (\<lambda>r. done_opt r ms)"
  unfolding expr_bp_def
  by (rule flow_bind [OF flow_expr_prefix]) (rule flow_node_case flow_expr_led | assumption)+

lemma flow_case_pattern_or_constant [flow_rules]:
  "nodone ms \<Longrightarrow> flows T ms (case_pattern_or_constant G) (\<lambda>_. ms)"
  unfolding case_pattern_or_constant_def by (rule flow_rules | simp)+

end

end
