(* ===== verification/Decl.thy ===== *)
theory Decl imports Expr begin

text \<open>
  \<^verbatim>\<open>grammar/decl.rs\<close> up to the bodies of types: variable declarators, module declarations,
  and the \<^verbatim>\<open>*_decl_rest\<close> functions, which take over the marker that was started before the
  modifiers of a declaration.
\<close>

subsection \<open>Variable declarators\<close>

definition variable_id :: "bool parse" where
  "variable_id =
     do { p \<leftarrow> view;
          if at IDENTIFIER p \<or> at UNDERSCORE p then do { bump; ret True }
          else do { error_expected [IDENTIFIER, UNDERSCORE]; ret False } }"

definition variable_declarator :: "grammar \<Rightarrow> bool parse" where
  "variable_declarator G =
     do { m \<leftarrow> start;
          err \<leftarrow> is_err variable_id;
          if err then do { finish_node m VARIABLE_DECLARATOR; ret False }
          else
            do { dimensions G;
                 b \<leftarrow> eat EQUAL;
                 err \<leftarrow> and_then b (expression_fails G);
                 if err then do { finish_node m VARIABLE_DECLARATOR; ret False }
                 else do { finish_node m VARIABLE_DECLARATOR; ret True } } }"

definition variable_declarator_no_init_expr :: "grammar \<Rightarrow> bool parse" where
  "variable_declarator_no_init_expr G =
     do { m \<leftarrow> start;
          err \<leftarrow> is_err variable_id;
          if err then do { finish_node m VARIABLE_DECLARATOR; ret False }
          else do { dimensions G; finish_node m VARIABLE_DECLARATOR; ret True } }"

definition variable_declarator_list :: "grammar \<Rightarrow> bool parse" where
  "variable_declarator_list G =
     do { m \<leftarrow> start;
          err \<leftarrow> is_err (variable_declarator G);
          if err then do { finish_node m VARIABLE_DECLARATOR_LIST; ret False }
          else
            do { loop_g G
                   (do { b \<leftarrow> eat COMMA;
                         if b then variable_declarator G else ret False });
                 finish_node m VARIABLE_DECLARATOR_LIST;
                 ret True } }"

subsection \<open>Modules\<close>

definition requires_modifier :: "grammar \<Rightarrow> unit parse" where
  "requires_modifier G =
     do { m \<leftarrow> start;
          is_empty \<leftarrow> loop_with (g_fuel G) True (\<lambda>is_empty.
            do { p \<leftarrow> view;
                 if at_contextual_kw Kw_Transitive p \<or> at STATIC_KW p
                 then do { bump; ret (True, False) }
                 else ret (False, is_empty) });
          if is_empty then abandon m else finish_node m MODIFIER_LIST }"

definition requires_directive :: "grammar \<Rightarrow> nat \<Rightarrow> unit parse" where
  "requires_directive G m =
     do { expect_contextual_kw Kw_Requires;
          requires_modifier G;
          qualified_name G;
          expect' SEMICOLON;
          finish_node m REQUIRES_DIRECTIVE }"

text \<open>\<^verbatim>\<open>loop { qualified_name(p); if !p.eat(COMMA) { break; } }\<close>\<close>

definition qualified_names :: "grammar \<Rightarrow> unit parse" where
  "qualified_names G = loop_g G (do { qualified_name G; eat COMMA })"

definition exports_directive :: "grammar \<Rightarrow> nat \<Rightarrow> unit parse" where
  "exports_directive G m =
     do { expect_contextual_kw Kw_Exports;
          qualified_name G;
          p \<leftarrow> view;
          if_then (at_contextual_kw Kw_To p) (do { bump; qualified_names G });
          expect' SEMICOLON;
          finish_node m EXPORTS_DIRECTIVE }"

definition opens_directive :: "grammar \<Rightarrow> nat \<Rightarrow> unit parse" where
  "opens_directive G m =
     do { expect_contextual_kw Kw_Opens;
          qualified_name G;
          p \<leftarrow> view;
          if_then (at_contextual_kw Kw_To p) (do { bump; qualified_names G });
          expect' SEMICOLON;
          finish_node m OPENS_DIRECTIVE }"

definition uses_directive :: "grammar \<Rightarrow> nat \<Rightarrow> unit parse" where
  "uses_directive G m =
     do { expect_contextual_kw Kw_Uses;
          qualified_name G;
          expect' SEMICOLON;
          finish_node m USES_DIRECTIVE }"

definition provides_directive :: "grammar \<Rightarrow> nat \<Rightarrow> unit parse" where
  "provides_directive G m =
     do { expect_contextual_kw Kw_Provides;
          qualified_name G;
          expect_contextual_kw Kw_With;
          qualified_names G;
          expect' SEMICOLON;
          finish_node m PROVIDES_DIRECTIVE }"

definition module_directive :: "grammar \<Rightarrow> unit parse" where
  "module_directive G =
     do { m \<leftarrow> start;
          p \<leftarrow> view;
          if at_contextual_kw Kw_Requires p then requires_directive G m
          else if at_contextual_kw Kw_Exports p then exports_directive G m
          else if at_contextual_kw Kw_Opens p then opens_directive G m
          else if at_contextual_kw Kw_Uses p then uses_directive G m
          else if at_contextual_kw Kw_Provides p then provides_directive G m
          else
            do { error_expected_construct ModuleDirective;
                 recover_member G;
                 finish_node m ERROR } }"

definition module_body :: "grammar \<Rightarrow> unit parse" where
  "module_body G =
     do { m \<leftarrow> start;
          expect' L_BRACE;
          while_g G (\<lambda>p. \<not> at_set (tokenset [EOF, R_BRACE]) p) (module_directive G);
          expect' R_BRACE;
          finish_node m MODULE_BODY }"

definition module_decl_rest :: "grammar \<Rightarrow> nat \<Rightarrow> unit parse" where
  "module_decl_rest G m =
     do { discard (eat_contextual_kw Kw_Open);
          expect_contextual_kw Kw_Module;
          qualified_name G;
          module_body G;
          finish_node m MODULE_DECL }"

subsection \<open>Headers of type declarations\<close>

definition permits_clause :: "grammar \<Rightarrow> unit parse" where
  "permits_clause G =
     do { m \<leftarrow> start;
          expect_contextual_kw Kw_Permits;
          err \<leftarrow> is_err (type_rule G);
          if err then
            do { while_g G (\<lambda>p. \<not> is_at_end p \<and> \<not> at L_BRACE p \<and> \<not> at COMMA p) bump;
                 finish_node m PERMITS_CLAUSE }
          else
            do { loop_g G
                   (do { b \<leftarrow> eat COMMA;
                         if b then type_rule G else ret False });
                 finish_node m PERMITS_CLAUSE } }"

definition annotation_type_decl_rest :: "grammar \<Rightarrow> nat \<Rightarrow> unit parse" where
  "annotation_type_decl_rest G m =
     do { expect' AT;
          expect' INTERFACE_KW;
          expect' IDENTIFIER;
          g_annotation_type_body G;
          finish_node m ANNOTATION_TYPE_DECL }"

definition record_decl_rest :: "grammar \<Rightarrow> nat \<Rightarrow> unit parse" where
  "record_decl_rest G m =
     do { expect_contextual_kw Kw_Record;
          expect' IDENTIFIER;
          type_parameters_opt G;
          formal_parameters G;
          p \<leftarrow> view;
          if_then (at IMPLEMENTS_KW p) (implements_clause G);
          p \<leftarrow> view;
          if_then (at_contextual_kw Kw_Permits p) (permits_clause G);
          g_record_body G;
          finish_node m RECORD_DECL }"

definition enum_decl_rest :: "grammar \<Rightarrow> nat \<Rightarrow> unit parse" where
  "enum_decl_rest G m =
     do { expect' ENUM_KW;
          expect' IDENTIFIER;
          p \<leftarrow> view;
          if_then (at IMPLEMENTS_KW p) (implements_clause G);
          g_enum_body G;
          finish_node m ENUM_DECL }"

definition class_decl_rest :: "grammar \<Rightarrow> nat \<Rightarrow> unit parse" where
  "class_decl_rest G m =
     do { expect' CLASS_KW;
          expect' IDENTIFIER;
          type_parameters_opt G;
          p \<leftarrow> view;
          if_then (at EXTENDS_KW p) (extends_clause G);
          p \<leftarrow> view;
          if_then (at IMPLEMENTS_KW p) (implements_clause G);
          p \<leftarrow> view;
          if_then (at_contextual_kw Kw_Permits p) (permits_clause G);
          g_class_body G;
          finish_node m CLASS_DECL }"

definition interface_decl_rest :: "grammar \<Rightarrow> nat \<Rightarrow> unit parse" where
  "interface_decl_rest G m =
     do { expect' INTERFACE_KW;
          expect' IDENTIFIER;
          type_parameters_opt G;
          p \<leftarrow> view;
          if_then (at EXTENDS_KW p) (interface_extends_clause G);
          p \<leftarrow> view;
          if_then (at_contextual_kw Kw_Permits p) (permits_clause G);
          g_interface_body G;
          finish_node m INTERFACE_DECL }"

subsection \<open>The marker discipline\<close>

lemma flow_variable_id [flow_rules]: "nodone ms \<Longrightarrow> flows T ms variable_id (\<lambda>_. ms)"
  unfolding variable_id_def by (rule flow_rules | simp)+

lemma flow_requires_modifier [flow_rules]:
  "nodone ms \<Longrightarrow> flows T ms (requires_modifier G) (\<lambda>_. ms)"
  unfolding requires_modifier_def by (rule flow_rules | simp)+

lemma flow_requires_directive [flow_rules]:
  "nodone ms \<Longrightarrow> flows T (Opn m # ms) (requires_directive G m) (\<lambda>_. ms)"
  unfolding requires_directive_def by (rule flow_rules | simp)+

lemma flow_qualified_names [flow_rules]:
  "nodone ms \<Longrightarrow> flows T ms (qualified_names G) (\<lambda>_. ms)"
  unfolding qualified_names_def by (rule flow_rules | simp)+

lemma flow_exports_directive [flow_rules]:
  "nodone ms \<Longrightarrow> flows T (Opn m # ms) (exports_directive G m) (\<lambda>_. ms)"
  unfolding exports_directive_def by (rule flow_rules | simp)+

lemma flow_opens_directive [flow_rules]:
  "nodone ms \<Longrightarrow> flows T (Opn m # ms) (opens_directive G m) (\<lambda>_. ms)"
  unfolding opens_directive_def by (rule flow_rules | simp)+

lemma flow_uses_directive [flow_rules]:
  "nodone ms \<Longrightarrow> flows T (Opn m # ms) (uses_directive G m) (\<lambda>_. ms)"
  unfolding uses_directive_def by (rule flow_rules | simp)+

lemma flow_provides_directive [flow_rules]:
  "nodone ms \<Longrightarrow> flows T (Opn m # ms) (provides_directive G m) (\<lambda>_. ms)"
  unfolding provides_directive_def by (rule flow_rules | simp)+

lemma flow_module_directive [flow_rules]:
  "nodone ms \<Longrightarrow> flows T ms (module_directive G) (\<lambda>_. ms)"
  unfolding module_directive_def by (rule flow_rules | simp)+

lemma flow_module_body [flow_rules]: "nodone ms \<Longrightarrow> flows T ms (module_body G) (\<lambda>_. ms)"
  unfolding module_body_def by (rule flow_rules | simp)+

lemma flow_module_decl_rest [flow_rules]:
  "nodone ms \<Longrightarrow> flows T (Opn m # ms) (module_decl_rest G m) (\<lambda>_. ms)"
  unfolding module_decl_rest_def by (rule flow_rules | simp)+

context grammar_laws begin

lemma flow_variable_declarator [flow_rules]:
  "nodone ms \<Longrightarrow> flows T ms (variable_declarator G) (\<lambda>_. ms)"
  unfolding variable_declarator_def by (rule flow_rules | simp)+

lemma flow_variable_declarator_no_init_expr [flow_rules]:
  "nodone ms \<Longrightarrow> flows T ms (variable_declarator_no_init_expr G) (\<lambda>_. ms)"
  unfolding variable_declarator_no_init_expr_def by (rule flow_rules | simp)+

lemma flow_variable_declarator_list [flow_rules]:
  "nodone ms \<Longrightarrow> flows T ms (variable_declarator_list G) (\<lambda>_. ms)"
  unfolding variable_declarator_list_def by (rule flow_rules | simp)+

lemma flow_permits_clause [flow_rules]: "nodone ms \<Longrightarrow> flows T ms (permits_clause G) (\<lambda>_. ms)"
  unfolding permits_clause_def by (rule flow_rules | simp)+

lemma flow_annotation_type_decl_rest [flow_rules]:
  "nodone ms \<Longrightarrow> flows T (Opn m # ms) (annotation_type_decl_rest G m) (\<lambda>_. ms)"
  unfolding annotation_type_decl_rest_def by (rule flow_rules | simp)+

lemma flow_record_decl_rest [flow_rules]:
  "nodone ms \<Longrightarrow> flows T (Opn m # ms) (record_decl_rest G m) (\<lambda>_. ms)"
  unfolding record_decl_rest_def by (rule flow_rules | simp)+

lemma flow_enum_decl_rest [flow_rules]:
  "nodone ms \<Longrightarrow> flows T (Opn m # ms) (enum_decl_rest G m) (\<lambda>_. ms)"
  unfolding enum_decl_rest_def by (rule flow_rules | simp)+

lemma flow_class_decl_rest [flow_rules]:
  "nodone ms \<Longrightarrow> flows T (Opn m # ms) (class_decl_rest G m) (\<lambda>_. ms)"
  unfolding class_decl_rest_def by (rule flow_rules | simp)+

lemma flow_interface_decl_rest [flow_rules]:
  "nodone ms \<Longrightarrow> flows T (Opn m # ms) (interface_decl_rest G m) (\<lambda>_. ms)"
  unfolding interface_decl_rest_def by (rule flow_rules | simp)+

end

end
