(* ===== verification/Stmt.thy ===== *)
theory Stmt imports Decl begin

text \<open>\<^verbatim>\<open>grammar/stmt.rs\<close>: blocks, statements, switch blocks and local variable declarations.\<close>

subsection \<open>Local variables\<close>

definition local_variable_declaration :: "grammar \<Rightarrow> bool parse" where
  "local_variable_declaration G =
     do { m \<leftarrow> start;
          variable_modifier G;
          p \<leftarrow> view;
          err \<leftarrow> (if at_contextual_kw Kw_Var p then do { bump; ret False }
                 else is_err (type_rule G));
          if err then do { error_expected_construct Type; finish_node m ERROR; ret False }
          else
            do { err \<leftarrow> is_err (variable_declarator_list G);
                 if err then do { finish_node m ERROR; ret False }
                 else do { finish_node m LOCAL_VARIABLE_DECLARATION; ret True } } }"

definition local_variable_declaration_statement :: "grammar \<Rightarrow> bool parse" where
  "local_variable_declaration_statement G =
     do { m \<leftarrow> start;
          err \<leftarrow> is_err (local_variable_declaration G);
          if err then do { recover_block_statement G; finish_node m ERROR; ret False }
          else do { expect' SEMICOLON; finish_node m LOCAL_VARIABLE_DECLARATION_STMT; ret True } }"

subsection \<open>Simple statements\<close>

definition parenthesized_expression :: "grammar \<Rightarrow> unit parse" where
  "parenthesized_expression G =
     do { m \<leftarrow> start;
          b \<leftarrow> expect L_PAREN;
          if \<not> b then abandon m
          else
            do { err \<leftarrow> expression_fails G;
                 if_then err (recover_block_statement G);
                 expect' R_PAREN;
                 finish_node m PARENTHESIZED_EXPR } }"

definition empty_statement :: "grammar \<Rightarrow> unit parse" where
  "empty_statement G = do { m \<leftarrow> start; expect' SEMICOLON; finish_node m EMPTY_STMT }"

definition expression_statement :: "grammar \<Rightarrow> unit parse" where
  "expression_statement G =
     do { m \<leftarrow> start;
          r \<leftarrow> expression G;
          case r of
            None \<Rightarrow>
              do { error_expected_construct Statement; recover_block_statement G; abandon m }
          | Some expr_marker \<Rightarrow>
              do { if_then (\<not> is_legal_statement_expression (completed_kind expr_marker))
                     (error NotAStatement);
                   expect' SEMICOLON;
                   finish_node m EXPRESSION_STMT } }"

definition yield_statement :: "grammar \<Rightarrow> unit parse" where
  "yield_statement G =
     do { m \<leftarrow> start;
          expect_contextual_kw Kw_Yield;
          err \<leftarrow> expression_fails G;
          if err then do { recover_block_statement G; finish_node m ERROR }
          else do { expect' SEMICOLON; finish_node m YIELD_STMT } }"

definition return_statement :: "grammar \<Rightarrow> unit parse" where
  "return_statement G =
     do { m \<leftarrow> start;
          expect' RETURN_KW;
          p \<leftarrow> view;
          err \<leftarrow> and_then (\<not> at SEMICOLON p) (expression_fails G);
          if err then do { recover_block_statement G; finish_node m ERROR }
          else do { expect' SEMICOLON; finish_node m RETURN_STMT } }"

definition throw_statement :: "grammar \<Rightarrow> unit parse" where
  "throw_statement G =
     do { m \<leftarrow> start;
          expect' THROW_KW;
          err \<leftarrow> expression_fails G;
          if err then do { recover_block_statement G; finish_node m ERROR }
          else do { expect' SEMICOLON; finish_node m THROW_STMT } }"

definition break_statement :: "grammar \<Rightarrow> unit parse" where
  "break_statement G =
     do { m \<leftarrow> start; expect' BREAK_KW; eat' IDENTIFIER; expect' SEMICOLON;
          finish_node m BREAK_STMT }"

definition continue_statement :: "grammar \<Rightarrow> unit parse" where
  "continue_statement G =
     do { m \<leftarrow> start; expect' CONTINUE_KW; eat' IDENTIFIER; expect' SEMICOLON;
          finish_node m CONTINUE_STMT }"

definition assert_statement :: "grammar \<Rightarrow> unit parse" where
  "assert_statement G =
     do { m \<leftarrow> start;
          expect' ASSERT_KW;
          err \<leftarrow> expression_fails G;
          if_then err (recover_until G [COLON, SEMICOLON]);
          b \<leftarrow> eat COLON;
          err \<leftarrow> and_then b (expression_fails G);
          if_then err (recover_until G [SEMICOLON]);
          expect' SEMICOLON;
          finish_node m ASSERT_STMT }"

subsection \<open>Compound statements\<close>

definition method_body_or_semicolon :: "grammar \<Rightarrow> unit parse" where
  "method_body_or_semicolon G =
     do { p \<leftarrow> view; if at L_BRACE p then g_block G else expect' SEMICOLON }"

definition labeled_statement :: "grammar \<Rightarrow> unit parse" where
  "labeled_statement G =
     do { m \<leftarrow> start;
          expect' IDENTIFIER;
          expect' COLON;
          g_statement G;
          finish_node m LABELED_STMT }"

text \<open>The condition of \<^verbatim>\<open>while\<close> and \<^verbatim>\<open>if\<close>: the same \<^verbatim>\<open>if .. else\<close> in both.\<close>

definition condition :: "grammar \<Rightarrow> unit parse" where
  "condition G =
     do { p \<leftarrow> view;
          if at L_PAREN p then parenthesized_expression G
          else do { error_expected [L_PAREN];
                    recover_until_or_eat G [R_PAREN, L_BRACE, SEMICOLON] SEMICOLON } }"

definition while_statement :: "grammar \<Rightarrow> unit parse" where
  "while_statement G =
     do { m \<leftarrow> start;
          expect' WHILE_KW;
          condition G;
          g_statement G;
          finish_node m WHILE_STMT }"

definition if_statement :: "grammar \<Rightarrow> unit parse" where
  "if_statement G =
     do { m \<leftarrow> start;
          expect' IF_KW;
          condition G;
          g_statement G;
          b \<leftarrow> eat ELSE_KW;
          p \<leftarrow> view;
          if_then b (if at IF_KW p then g_if_statement G else g_statement G);
          finish_node m IF_STMT }"

definition do_statement :: "grammar \<Rightarrow> unit parse" where
  "do_statement G =
     do { m \<leftarrow> start;
          expect' DO_KW;
          p \<leftarrow> view;
          (if at L_BRACE p then g_block G
           else if at WHILE_KW p \<or> at EOF p then error_expected_construct Statement
           else g_statement G);
          expect' WHILE_KW;
          p \<leftarrow> view;
          (if at L_PAREN p then parenthesized_expression G else error_expected [L_PAREN]);
          expect' SEMICOLON;
          finish_node m DO_STMT }"

definition synchronized_statement :: "grammar \<Rightarrow> unit parse" where
  "synchronized_statement G =
     do { m \<leftarrow> start;
          expect' SYNCHRONIZED_KW;
          condition G;
          p \<leftarrow> view;
          (if at L_BRACE p then g_block G
           else do { error_expected [L_BRACE]; recover_block_statement G });
          finish_node m SYNCHRONIZED_STMT }"

subsubsection \<open>\<^verbatim>\<open>for\<close>\<close>

text \<open>
  \<^verbatim>\<open>scan_for_separator\<close> looks for the separator of the loop header by consuming tokens under
  a checkpoint. Its locals are the parenthesis depth, the number of pending conditional
  operators, the previous token and, at the end, the separator.
\<close>

record scan =
  paren_depth :: int
  ternary_depth :: nat
  previous :: "syntax_kind option"
  separator :: "syntax_kind option"

definition scan_step :: "parser \<Rightarrow> scan \<Rightarrow> bool \<times> scan" where
  "scan_step p s =
     (if at L_PAREN p then (True, s\<lparr>paren_depth := paren_depth s + 1\<rparr>)
      else if at R_PAREN p then (True, s\<lparr>paren_depth := paren_depth s - 1\<rparr>)
      else if paren_depth s = 0 then
        (if at QUESTION p then
           (if \<not> (previous s = Some LESS \<or> previous s = Some COMMA)
            then (True, s\<lparr>ternary_depth := ternary_depth s + 1\<rparr>) else (True, s))
         else if at COLON p \<and> 0 < ternary_depth s
         then (True, s\<lparr>ternary_depth := ternary_depth s - 1\<rparr>)
         else if ternary_depth s = 0 then
           (if at SEMICOLON p then (False, s\<lparr>separator := Some SEMICOLON\<rparr>)
            else if at COLON p then (False, s\<lparr>separator := Some COLON\<rparr>)
            else (True, s))
         else (True, s))
      else (True, s))"

definition scan_for_separator :: "grammar \<Rightarrow> syntax_kind option parse" where
  "scan_for_separator G =
     do { ckpt \<leftarrow> checkpoint;
          s \<leftarrow> loop_with (g_fuel G)
            \<lparr>paren_depth = 0, ternary_depth = 0, previous = None, separator = None\<rparr>
            (\<lambda>s. do { p \<leftarrow> view;
                      if at EOF p then ret (False, s)
                      else
                        (let r = scan_step p s in
                         if fst r then
                           do { bump; ret (True, (snd r)\<lparr>previous := current p\<rparr>) }
                         else ret r) });
          rewind ckpt;
          ret (separator s) }"

definition enhanced_for_stmt :: "grammar \<Rightarrow> bool parse" where
  "enhanced_for_stmt G =
     do { variable_modifier G;
          err \<leftarrow> is_err (type_rule G);
          if err then do { error_expected_construct Type; ret False }
          else
            do { err \<leftarrow> is_err (variable_declarator_no_init_expr G);
                 if err then ret False
                 else
                   do { b \<leftarrow> expect COLON;
                        if \<not> b then ret False
                        else do { err \<leftarrow> expression_fails G; ret (\<not> err) } } } }"

definition basic_for_stmt :: "grammar \<Rightarrow> bool parse" where
  "basic_for_stmt G =
     do { p \<leftarrow> view;
          if_then (\<not> at SEMICOLON p)
            (if is_local_variable_declaration p then discard (local_variable_declaration G)
             else expression_list G);
          b \<leftarrow> expect SEMICOLON;
          if \<not> b then ret False
          else
            do { p \<leftarrow> view;
                 err \<leftarrow> and_then (\<not> at SEMICOLON p) (expression_fails G);
                 if_then err (recover_until G [SEMICOLON, R_PAREN, L_BRACE]);
                 b \<leftarrow> expect SEMICOLON;
                 if \<not> b then ret False
                 else
                   do { p \<leftarrow> view;
                        if_then (\<not> at R_PAREN p) (expression_list G);
                        ret True } } }"

definition for_statement :: "grammar \<Rightarrow> unit parse" where
  "for_statement G =
     do { m \<leftarrow> start;
          expect' FOR_KW;
          expect' L_PAREN;
          separator \<leftarrow> scan_for_separator G;
          node_kind \<leftarrow>
            (if separator = Some SEMICOLON then do { discard (basic_for_stmt G); ret FOR_STMT }
             else if separator = Some COLON
             then do { discard (enhanced_for_stmt G); ret ENHANCED_FOR_STMT }
             else do { recover_until G [R_PAREN, L_BRACE]; ret FOR_STMT });
          b \<leftarrow> expect R_PAREN;
          if_then (\<not> b) (recover_block_statement G);
          g_statement G;
          finish_node m node_kind }"

subsubsection \<open>\<^verbatim>\<open>try\<close>\<close>

definition variable_access :: "grammar \<Rightarrow> completed parse" where
  "variable_access G =
     do { m \<leftarrow> start;
          p \<leftarrow> view;
          if at IDENTIFIER p \<or> at THIS_KW p \<or> at SUPER_KW p then
            do { bump;
                 left \<leftarrow> complete m VARIABLE_ACCESS;
                 loop_with (g_fuel G) left (\<lambda>left.
                   do { p \<leftarrow> view;
                        if at DOT p then
                          do { m \<leftarrow> precede left;
                               expect' DOT;
                               p \<leftarrow> view;
                               if at IDENTIFIER p \<or> at THIS_KW p \<or> at SUPER_KW p then
                                 do { bump;
                                      left \<leftarrow> complete m VARIABLE_ACCESS;
                                      ret (True, left) }
                               else
                                 do { error_expected [IDENTIFIER];
                                      left \<leftarrow> complete m ERROR;
                                      ret (False, left) } }
                        else ret (False, left) }) }
          else
            do { error_expected [IDENTIFIER, THIS_KW, SUPER_KW];
                 complete m ERROR } }"

text \<open>
  When the declaration of a resource fails, \<^verbatim>\<open>resource\<close> returns without completing or
  abandoning the marker it started: the marker is dropped armed.
\<close>

definition resource :: "grammar \<Rightarrow> bool parse" where
  "resource G =
     do { m \<leftarrow> start;
          p \<leftarrow> view;
          err \<leftarrow> (if is_local_variable_declaration p then is_err (local_variable_declaration G)
                 else do { discard (variable_access G); ret False });
          if err then drop_marker m False
          else do { finish_node m RESOURCE; ret True } }"

definition resource_specification :: "grammar \<Rightarrow> unit parse" where
  "resource_specification G =
     do { m \<leftarrow> start;
          expect' L_PAREN;
          loop_g G
            (do { err \<leftarrow> is_err (resource G);
                  if_then err (recover_until G [SEMICOLON, R_PAREN, L_BRACE]);
                  p \<leftarrow> view;
                  if \<not> at SEMICOLON p then ret False
                  else do { expect' SEMICOLON; p \<leftarrow> view; ret (\<not> at R_PAREN p) } });
          expect' R_PAREN;
          finish_node m RESOURCE_SPECIFICATION }"

definition catch_type :: "grammar \<Rightarrow> unit parse" where
  "catch_type G =
     do { m \<leftarrow> start;
          err \<leftarrow> is_err (reference_type G);
          if err then do { error_message ''Expected a reference type''; finish_node m ERROR }
          else
            do { while_eat_g G BIT_OR
                   (do { err \<leftarrow> is_err (reference_type G);
                         if_then err
                           (error_message (''Expected reference type after '' @ quoted ''|'')) });
                 finish_node m CATCH_TYPE } }"

definition catch_formal_parameter :: "grammar \<Rightarrow> unit parse" where
  "catch_formal_parameter G =
     do { m \<leftarrow> start;
          variable_modifier G;
          catch_type G;
          expect' IDENTIFIER;
          p \<leftarrow> view;
          if_then (at L_BRACKET p) (dimensions G);
          finish_node m CATCH_FORMAL_PARAMETER }"

definition catch_clause :: "grammar \<Rightarrow> unit parse" where
  "catch_clause G =
     do { m \<leftarrow> start;
          expect' CATCH_KW;
          b \<leftarrow> expect L_PAREN;
          (if b then do { catch_formal_parameter G; expect' R_PAREN }
           else recover_catch_parameter G);
          g_block G;
          finish_node m CATCH_CLAUSE }"

definition finally_clause :: "grammar \<Rightarrow> unit parse" where
  "finally_clause G =
     do { m \<leftarrow> start; expect' FINALLY_KW; g_block G; finish_node m FINALLY_CLAUSE }"

definition try_statement :: "grammar \<Rightarrow> unit parse" where
  "try_statement G =
     do { m \<leftarrow> start;
          expect' TRY_KW;
          p \<leftarrow> view;
          is_twr \<leftarrow> (if at L_PAREN p then do { resource_specification G; ret True } else ret False);
          g_block G;
          has_catch \<leftarrow> loop_with (g_fuel G) False (\<lambda>has_catch.
            do { p \<leftarrow> view;
                 if at CATCH_KW p then do { catch_clause G; ret (True, True) }
                 else ret (False, has_catch) });
          p \<leftarrow> view;
          has_finally \<leftarrow> (if at FINALLY_KW p then do { finally_clause G; ret True } else ret False);
          if_then (\<not> has_catch \<and> \<not> has_finally \<and> \<not> is_twr)
            (error_expected [CATCH_KW, FINALLY_KW]);
          if is_twr then finish_node m TRY_WITH_RESOURCES_STMT else finish_node m TRY_STMT }"

subsubsection \<open>\<^verbatim>\<open>switch\<close>\<close>

definition switch_statement :: "grammar \<Rightarrow> unit parse" where
  "switch_statement G = do { m \<leftarrow> switch_common G; finish_node m SWITCH_STMT }"

definition switch_label :: "grammar \<Rightarrow> unit parse" where
  "switch_label G =
     do { m \<leftarrow> start;
          current_token \<leftarrow> gets (\<lambda>p. case current p of None \<Rightarrow> EOF | Some k \<Rightarrow> k);
          p \<leftarrow> view;
          (if at_set (tokenset [CASE_KW, DEFAULT_KW]) p then bump
           else error_expected [CASE_KW, DEFAULT_KW]);
          if_then (current_token = CASE_KW)
            (do { discard (loop_with (g_fuel G) False (\<lambda>meet_null.
                    do { b \<leftarrow> eat NULL_LITERAL;
                         meet_null \<leftarrow>
                           (if b then ret True
                            else
                              do { d \<leftarrow> eat DEFAULT_KW;
                                   (if d then
                                      if_then (\<not> meet_null)
                                        (error_message (''Default label not allowed here: '' @
                                          quoted ''default'' @
                                          '' can only be used as a single case label or paired only with ''
                                          @ quoted ''null''))
                                    else case_pattern_or_constant G);
                                   ret meet_null });
                         again \<leftarrow> eat COMMA;
                         ret (again, meet_null) }));
                  b \<leftarrow> eat_contextual_kw Kw_When;
                  if_then b (discard (expression G)) });
          finish_node m SWITCH_LABEL }"

definition switch_rule :: "grammar \<Rightarrow> unit parse" where
  "switch_rule G =
     do { m \<leftarrow> start;
          switch_label G;
          expect' ARROW;
          p \<leftarrow> view;
          (if current p = Some L_BRACE then g_block G
           else if current p = Some THROW_KW then throw_statement G
           else do { discard (expression G); expect' SEMICOLON });
          finish_node m SWITCH_RULE }"

subsection \<open>Statements and blocks\<close>

definition statement :: "grammar \<Rightarrow> unit parse" where
  "statement G =
     do { p \<leftarrow> view;
          if current p = Some L_BRACE then g_block G
          else if current p = Some SEMICOLON then empty_statement G
          else if current p = Some IF_KW then if_statement G
          else if current p = Some WHILE_KW then while_statement G
          else if current p = Some DO_KW then do_statement G
          else if current p = Some FOR_KW then for_statement G
          else if current p = Some TRY_KW then try_statement G
          else if current p = Some SYNCHRONIZED_KW then synchronized_statement G
          else if current p = Some SWITCH_KW then switch_statement G
          else if current p = Some RETURN_KW then return_statement G
          else if current p = Some THROW_KW then throw_statement G
          else if current p = Some BREAK_KW then break_statement G
          else if current p = Some CONTINUE_KW then continue_statement G
          else if current p = Some ASSERT_KW then assert_statement G
          else if is_at_yield_statement_start p then yield_statement G
          else if is_at_labeled_statement_start p then labeled_statement G
          else expression_statement G }"

definition block_statement :: "grammar \<Rightarrow> unit parse" where
  "block_statement G =
     do { p \<leftarrow> view;
          if at CLASS_KW p then do { m \<leftarrow> start; class_decl_rest G m }
          else if at ENUM_KW p then do { m \<leftarrow> start; enum_decl_rest G m }
          else if at INTERFACE_KW p then do { m \<leftarrow> start; interface_decl_rest G m }
          else if is_record_decl p then do { m \<leftarrow> start; record_decl_rest G m }
          else if at_local_type_declaration p then
            do { m \<leftarrow> start;
                 modifiers G;
                 p \<leftarrow> view;
                 if at CLASS_KW p then class_decl_rest G m
                 else if at ENUM_KW p then enum_decl_rest G m
                 else if at INTERFACE_KW p then interface_decl_rest G m
                 else record_decl_rest G m }
          else if is_local_variable_declaration p
          then discard (local_variable_declaration_statement G)
          else statement G }"

definition block :: "grammar \<Rightarrow> unit parse" where
  "block G =
     do { m \<leftarrow> start;
          expect' L_BRACE;
          while_g G (\<lambda>p. \<not> is_at_end p \<and> \<not> at R_BRACE p) (block_statement G);
          expect' R_BRACE;
          finish_node m BLOCK }"

definition switch_block_statement_group :: "grammar \<Rightarrow> unit parse" where
  "switch_block_statement_group G =
     do { m \<leftarrow> start;
          switch_label G;
          expect' COLON;
          while_g G (at_set (tokenset [CASE_KW, DEFAULT_KW]))
            (do { switch_label G; expect' COLON });
          while_g G (\<lambda>p. \<not> at_set (tokenset [EOF, R_BRACE, CASE_KW, DEFAULT_KW]) p)
            (block_statement G);
          finish_node m SWITCH_BLOCK_STATEMENT_GROUP }"

definition switch_block :: "grammar \<Rightarrow> unit parse" where
  "switch_block G =
     do { m \<leftarrow> start;
          expect' L_BRACE;
          while_g G (\<lambda>p. \<not> at R_BRACE p \<and> \<not> at EOF p)
            (do { p \<leftarrow> view;
                  if at CASE_KW p \<or> at DEFAULT_KW p then
                    (if is_switch_rule p then switch_rule G else switch_block_statement_group G)
                  else
                    do { error_expected [CASE_KW, DEFAULT_KW];
                         recover_switch_statement G } });
          expect' R_BRACE;
          finish_node m SWITCH_BLOCK }"

subsection \<open>The marker discipline\<close>

lemma flow_variable_access_node:
  "nodone ms \<Longrightarrow> flows T ms (variable_access G) (\<lambda>c. Don c # ms)"
  unfolding variable_access_def
  by (rule flow_complete_Pre flow_precede flow_ret_at [of "Don c # ms" "\<lambda>r. Don (snd r) # ms" for c]
      flow_loop_with [of T "\<lambda>c. Don c # ms"] flow_rules | simp)+

lemma flow_variable_access [flow_rules]:
  "nodone ms \<Longrightarrow> flows T ms (discard (variable_access G)) (\<lambda>_. ms)"
  by (rule flow_discard_node [OF flow_variable_access_node])

lemma flow_empty_statement [flow_rules]: "nodone ms \<Longrightarrow> flows T ms (empty_statement G) (\<lambda>_. ms)"
  unfolding empty_statement_def by (rule flow_rules | simp)+

lemma flow_break_statement [flow_rules]: "nodone ms \<Longrightarrow> flows T ms (break_statement G) (\<lambda>_. ms)"
  unfolding break_statement_def by (rule flow_rules | simp)+

lemma flow_continue_statement [flow_rules]:
  "nodone ms \<Longrightarrow> flows T ms (continue_statement G) (\<lambda>_. ms)"
  unfolding continue_statement_def by (rule flow_rules | simp)+

lemma flow_scan_for_separator [flow_rules]:
  "nodone ms \<Longrightarrow> flows T ms (scan_for_separator G) (\<lambda>_. ms)"
  unfolding scan_for_separator_def Let_def by (rule flow_rules | simp)+

context grammar_laws begin

lemma flow_local_variable_declaration [flow_rules]: "nodone ms \<Longrightarrow> flows T ms (local_variable_declaration G) (\<lambda>_. ms)"
  unfolding local_variable_declaration_def by (rule flow_rules | simp)+

lemma flow_local_variable_declaration_statement [flow_rules]: "nodone ms \<Longrightarrow> flows T ms (local_variable_declaration_statement G) (\<lambda>_. ms)"
  unfolding local_variable_declaration_statement_def by (rule flow_rules | simp)+

lemma flow_parenthesized_expression [flow_rules]: "nodone ms \<Longrightarrow> flows T ms (parenthesized_expression G) (\<lambda>_. ms)"
  unfolding parenthesized_expression_def by (rule flow_rules | simp)+

lemma flow_expression_statement [flow_rules]: "nodone ms \<Longrightarrow> flows T ms (expression_statement G) (\<lambda>_. ms)"
  unfolding expression_statement_def by (rule flow_rules | simp)+

lemma flow_yield_statement [flow_rules]: "nodone ms \<Longrightarrow> flows T ms (yield_statement G) (\<lambda>_. ms)"
  unfolding yield_statement_def by (rule flow_rules | simp)+

lemma flow_return_statement [flow_rules]: "nodone ms \<Longrightarrow> flows T ms (return_statement G) (\<lambda>_. ms)"
  unfolding return_statement_def by (rule flow_rules | simp)+

lemma flow_throw_statement [flow_rules]: "nodone ms \<Longrightarrow> flows T ms (throw_statement G) (\<lambda>_. ms)"
  unfolding throw_statement_def by (rule flow_rules | simp)+

lemma flow_assert_statement [flow_rules]: "nodone ms \<Longrightarrow> flows T ms (assert_statement G) (\<lambda>_. ms)"
  unfolding assert_statement_def by (rule flow_rules | simp)+

lemma flow_method_body_or_semicolon [flow_rules]: "nodone ms \<Longrightarrow> flows T ms (method_body_or_semicolon G) (\<lambda>_. ms)"
  unfolding method_body_or_semicolon_def by (rule flow_rules | simp)+

lemma flow_labeled_statement [flow_rules]: "nodone ms \<Longrightarrow> flows T ms (labeled_statement G) (\<lambda>_. ms)"
  unfolding labeled_statement_def by (rule flow_rules | simp)+

lemma flow_condition [flow_rules]: "nodone ms \<Longrightarrow> flows T ms (condition G) (\<lambda>_. ms)"
  unfolding condition_def by (rule flow_rules | simp)+

lemma flow_while_statement [flow_rules]: "nodone ms \<Longrightarrow> flows T ms (while_statement G) (\<lambda>_. ms)"
  unfolding while_statement_def by (rule flow_rules | simp)+

lemma flow_if_statement: "nodone ms \<Longrightarrow> flows T ms (Stmt.if_statement G) (\<lambda>_. ms)"
  unfolding if_statement_def by (rule flow_rules | simp)+

lemma flow_do_statement [flow_rules]: "nodone ms \<Longrightarrow> flows T ms (do_statement G) (\<lambda>_. ms)"
  unfolding do_statement_def by (rule flow_rules | simp)+

lemma flow_synchronized_statement [flow_rules]: "nodone ms \<Longrightarrow> flows T ms (synchronized_statement G) (\<lambda>_. ms)"
  unfolding synchronized_statement_def by (rule flow_rules | simp)+

lemma flow_enhanced_for_stmt [flow_rules]: "nodone ms \<Longrightarrow> flows T ms (enhanced_for_stmt G) (\<lambda>_. ms)"
  unfolding enhanced_for_stmt_def by (rule flow_rules | simp)+

lemma flow_basic_for_stmt [flow_rules]: "nodone ms \<Longrightarrow> flows T ms (basic_for_stmt G) (\<lambda>_. ms)"
  unfolding basic_for_stmt_def by (rule flow_rules | simp)+

lemma flow_for_statement [flow_rules]: "nodone ms \<Longrightarrow> flows T ms (for_statement G) (\<lambda>_. ms)"
  unfolding for_statement_def by (rule flow_rules | simp)+

lemma flow_catch_type [flow_rules]: "nodone ms \<Longrightarrow> flows T ms (catch_type G) (\<lambda>_. ms)"
  unfolding catch_type_def by (rule flow_rules | simp)+

lemma flow_catch_formal_parameter [flow_rules]: "nodone ms \<Longrightarrow> flows T ms (catch_formal_parameter G) (\<lambda>_. ms)"
  unfolding catch_formal_parameter_def by (rule flow_rules | simp)+

lemma flow_catch_clause [flow_rules]: "nodone ms \<Longrightarrow> flows T ms (catch_clause G) (\<lambda>_. ms)"
  unfolding catch_clause_def by (rule flow_rules | simp)+

lemma flow_finally_clause [flow_rules]: "nodone ms \<Longrightarrow> flows T ms (finally_clause G) (\<lambda>_. ms)"
  unfolding finally_clause_def by (rule flow_rules | simp)+

lemma flow_resource:
  "nodone ms \<Longrightarrow> has_kind TRY_KW T \<Longrightarrow> flows T ms (resource G) (\<lambda>_. ms)"
  unfolding resource_def by (rule flow_rules | assumption | simp)+

lemma flow_resource_specification:
  "nodone ms \<Longrightarrow> has_kind TRY_KW T \<Longrightarrow> flows T ms (resource_specification G) (\<lambda>_. ms)"
  unfolding resource_specification_def
  by (rule flow_resource flow_rules | assumption | simp)+

lemma flow_try_statement:
  "nodone ms \<Longrightarrow> has_kind TRY_KW T \<Longrightarrow> flows T ms (try_statement G) (\<lambda>_. ms)"
  unfolding try_statement_def
  by (rule flow_resource_specification flow_rules | assumption | simp)+

lemma flow_switch_statement [flow_rules]: "nodone ms \<Longrightarrow> flows T ms (switch_statement G) (\<lambda>_. ms)"
  unfolding switch_statement_def by (rule flow_rules | simp)+

lemma flow_switch_label [flow_rules]: "nodone ms \<Longrightarrow> flows T ms (switch_label G) (\<lambda>_. ms)"
  unfolding switch_label_def by (rule flow_rules | simp)+

lemma flow_switch_rule [flow_rules]: "nodone ms \<Longrightarrow> flows T ms (switch_rule G) (\<lambda>_. ms)"
  unfolding switch_rule_def by (rule flow_rules | simp)+

lemma flow_statement:
  assumes "nodone ms"
  shows "flows T ms (statement G) (\<lambda>_. ms)"
  unfolding statement_def
proof (rule flow_bind_view)
  fix p assume "known T (current p)"
  hence "current p = Some TRY_KW \<Longrightarrow> has_kind TRY_KW T" by (auto simp: known_def)
  thus "flows T ms (if current p = Some L_BRACE then g_block G
          else if current p = Some SEMICOLON then empty_statement G
          else if current p = Some IF_KW then Stmt.if_statement G
          else if current p = Some WHILE_KW then while_statement G
          else if current p = Some DO_KW then do_statement G
          else if current p = Some FOR_KW then for_statement G
          else if current p = Some TRY_KW then try_statement G
          else if current p = Some SYNCHRONIZED_KW then synchronized_statement G
          else if current p = Some SWITCH_KW then switch_statement G
          else if current p = Some RETURN_KW then return_statement G
          else if current p = Some THROW_KW then throw_statement G
          else if current p = Some BREAK_KW then break_statement G
          else if current p = Some CONTINUE_KW then continue_statement G
          else if current p = Some ASSERT_KW then assert_statement G
          else if is_at_yield_statement_start p then yield_statement G
          else if is_at_labeled_statement_start p then labeled_statement G
          else expression_statement G) (\<lambda>_. ms)"
    by (intro flow_if_cond)
      (simp_all only: assms flow_rules flow_if_statement flow_try_statement not_False_eq_True)
qed

lemma flow_block_statement [flow_rules]:
  "nodone ms \<Longrightarrow> flows T ms (block_statement G) (\<lambda>_. ms)"
  unfolding block_statement_def by (rule flow_statement flow_rules | simp)+

lemma flow_block: "nodone ms \<Longrightarrow> flows T ms (Stmt.block G) (\<lambda>_. ms)"
  unfolding block_def by (rule flow_rules | simp)+

lemma flow_switch_block_statement_group [flow_rules]:
  "nodone ms \<Longrightarrow> flows T ms (switch_block_statement_group G) (\<lambda>_. ms)"
  unfolding switch_block_statement_group_def by (rule flow_rules | simp)+

lemma flow_switch_block: "nodone ms \<Longrightarrow> flows T ms (Stmt.switch_block G) (\<lambda>_. ms)"
  unfolding switch_block_def by (rule flow_rules | simp)+

end

end
