(* ===== verification/Member.thy ===== *)
theory Member imports Stmt begin

text \<open>
  \<^verbatim>\<open>grammar/member.rs\<close>, and the bodies of types and the top-level declaration of
  \<^verbatim>\<open>grammar/decl.rs\<close>.
\<close>

subsection \<open>Members\<close>

definition constructor_rest :: "grammar \<Rightarrow> nat \<Rightarrow> unit parse" where
  "constructor_rest G m =
     do { expect' IDENTIFIER;
          formal_parameters G;
          p \<leftarrow> view;
          if_then (at THROWS_KW p) (throws_clause G);
          g_block G;
          finish_node m CONSTRUCTOR_DECL }"

definition compact_constructor_rest :: "grammar \<Rightarrow> nat \<Rightarrow> unit parse" where
  "compact_constructor_rest G m =
     do { expect' IDENTIFIER; g_block G; finish_node m COMPACT_CONSTRUCTOR_DECL }"

definition member_decl_rest :: "grammar \<Rightarrow> nat \<Rightarrow> unit parse" where
  "member_decl_rest G m =
     do { p \<leftarrow> view;
          if at SEMICOLON p then do { bump; finish_node m EMPTY_DECL }
          else
            do { type_parameters_opt G;
                 p \<leftarrow> view;
                 if at VOID_KW p then
                   do { bump;
                        expect' IDENTIFIER;
                        formal_parameters G;
                        throws_clause_opt G;
                        method_body_or_semicolon G;
                        finish_node m METHOD_DECL }
                 else if is_constructor_like p then constructor_rest G m
                 else if at_type_start p then
                   do { err \<leftarrow> is_err (type_rule G);
                        if err then do { recover_member G; finish_node m ERROR }
                        else
                          do { p \<leftarrow> view;
                               if at IDENTIFIER p \<and> nth_kind 1 p = Some L_PAREN then
                                 do { bump;
                                      formal_parameters G;
                                      throws_clause_opt G;
                                      method_body_or_semicolon G;
                                      finish_node m METHOD_DECL }
                               else
                                 do { discard (variable_declarator_list G);
                                      expect' SEMICOLON;
                                      finish_node m FIELD_DECL } } }
                 else
                   do { error_expected_construct MemberDeclaration;
                        recover_member G;
                        finish_node m ERROR } } }"

definition annotation_type_member_decl_rest :: "grammar \<Rightarrow> nat \<Rightarrow> unit parse" where
  "annotation_type_member_decl_rest G m =
     do { err \<leftarrow> is_err (type_or_void G);
          if err then do { recover_member G; finish_node m ERROR }
          else
            do { p \<leftarrow> view;
                 if at IDENTIFIER p \<and> nth_kind 1 p = Some L_PAREN then
                   do { expect' IDENTIFIER;
                        expect' L_PAREN;
                        b \<leftarrow> eat R_PAREN;
                        if \<not> b then
                          do { recover_annotation_type_parameter G; finish_node m ERROR }
                        else
                          do { d \<leftarrow> eat DEFAULT_KW;
                               if_then d (discard (expression G));
                               expect' SEMICOLON;
                               finish_node m ANNOTATION_TYPE_ELEMENT_DECL } }
                 else
                   do { discard (variable_declarator_list G);
                        expect' SEMICOLON;
                        finish_node m FIELD_DECL } } }"

text \<open>
  The branch on a nested type that the member functions share: each of them runs it after
  the modifiers, with its own last case \<open>other\<close>.
\<close>

definition nested_type_or :: "grammar \<Rightarrow> nat \<Rightarrow> unit parse \<Rightarrow> unit parse" where
  "nested_type_or G m other =
     do { p \<leftarrow> view;
          if at CLASS_KW p then class_decl_rest G m
          else if at INTERFACE_KW p then interface_decl_rest G m
          else if at ENUM_KW p then enum_decl_rest G m
          else if at_contextual_kw Kw_Record p then record_decl_rest G m
          else if at AT p \<and> nth_kind 1 p = Some INTERFACE_KW then annotation_type_decl_rest G m
          else other }"

text \<open>The initializers, which a class body and a record body treat alike.\<close>

definition initializer_or :: "grammar \<Rightarrow> unit parse \<Rightarrow> unit parse" where
  "initializer_or G other =
     do { p \<leftarrow> view;
          if at STATIC_KW p \<and> nth_kind 1 p = Some L_BRACE then
            do { m \<leftarrow> start; bump; g_block G; finish_node m STATIC_INITIALIZER }
          else if at L_BRACE p then
            do { m \<leftarrow> start; g_block G; finish_node m INSTANCE_INITIALIZER }
          else other }"

definition class_member_decl :: "grammar \<Rightarrow> unit parse" where
  "class_member_decl G =
     initializer_or G
       (do { m \<leftarrow> start; modifiers G; nested_type_or G m (member_decl_rest G m) })"

definition record_member_decl :: "grammar \<Rightarrow> unit parse" where
  "record_member_decl G =
     initializer_or G
       (do { m \<leftarrow> start;
             modifiers G;
             p \<leftarrow> view;
             if is_compact_constructor_like p then compact_constructor_rest G m
             else if is_constructor_like p then constructor_rest G m
             else nested_type_or G m (member_decl_rest G m) })"

definition interface_member_decl :: "grammar \<Rightarrow> unit parse" where
  "interface_member_decl G =
     do { m \<leftarrow> start; modifiers G; nested_type_or G m (member_decl_rest G m) }"

definition annotation_type_member_decl :: "grammar \<Rightarrow> unit parse" where
  "annotation_type_member_decl G =
     do { m \<leftarrow> start; modifiers G; nested_type_or G m (annotation_type_member_decl_rest G m) }"

subsection \<open>Bodies\<close>

text \<open>A token that cannot start a member is wrapped, with what follows it, in an error node.\<close>

definition bad_member :: "grammar \<Rightarrow> unit parse" where
  "bad_member G =
     do { err \<leftarrow> start;
          error_expected_construct MemberDeclaration;
          recover_member G;
          finish_node err ERROR }"

definition in_body :: "parser \<Rightarrow> bool" where
  "in_body p = (\<not> is_at_end p \<and> \<not> at R_BRACE p)"

definition class_body :: "grammar \<Rightarrow> unit parse" where
  "class_body G =
     do { m \<leftarrow> start;
          expect' L_BRACE;
          while_g G in_body
            (do { p \<leftarrow> view; if at_member_start p then class_member_decl G else bad_member G });
          expect' R_BRACE;
          finish_node m CLASS_BODY }"

definition interface_body :: "grammar \<Rightarrow> unit parse" where
  "interface_body G =
     do { m \<leftarrow> start;
          expect' L_BRACE;
          while_g G in_body
            (do { p \<leftarrow> view; if at_member_start p then interface_member_decl G else bad_member G });
          expect' R_BRACE;
          finish_node m INTERFACE_BODY }"

definition record_body :: "grammar \<Rightarrow> unit parse" where
  "record_body G =
     do { m \<leftarrow> start;
          expect' L_BRACE;
          while_g G in_body (record_member_decl G);
          expect' R_BRACE;
          finish_node m RECORD_BODY }"

definition annotation_type_body :: "grammar \<Rightarrow> unit parse" where
  "annotation_type_body G =
     do { m \<leftarrow> start;
          expect' L_BRACE;
          while_g G in_body (annotation_type_member_decl G);
          expect' R_BRACE;
          finish_node m ANNOTATION_TYPE_BODY }"

definition enum_constant :: "grammar \<Rightarrow> unit parse" where
  "enum_constant G =
     do { m \<leftarrow> start;
          while_g G (\<lambda>p. at AT p \<and> nth_kind 1 p \<noteq> Some INTERFACE_KW) (annotation G);
          expect' IDENTIFIER;
          p \<leftarrow> view;
          if_then (at L_PAREN p) (argument_list G);
          p \<leftarrow> view;
          if_then (at L_BRACE p) (g_class_body G);
          finish_node m ENUM_CONSTANT }"

definition enum_body :: "grammar \<Rightarrow> unit parse" where
  "enum_body G =
     do { m \<leftarrow> start;
          expect' L_BRACE;
          p \<leftarrow> view;
          if_then (at_enum_constant_start p)
            (loop_g G
               (do { enum_constant G;
                     b \<leftarrow> eat COMMA;
                     if \<not> b then ret False
                     else gets at_enum_constant_start }));
          eat' COMMA;
          b \<leftarrow> eat SEMICOLON;
          if_then b (while_g G in_body (class_member_decl G));
          expect' R_BRACE;
          finish_node m ENUM_BODY }"

subsection \<open>Top-level declarations\<close>

definition decl :: "grammar \<Rightarrow> unit parse" where
  "decl G =
     do { m \<leftarrow> start;
          modifiers G;
          p \<leftarrow> view;
          if at CLASS_KW p then class_decl_rest G m
          else if at INTERFACE_KW p then interface_decl_rest G m
          else if at ENUM_KW p then enum_decl_rest G m
          else if is_record_decl p then record_decl_rest G m
          else if is_module_decl_start p then module_decl_rest G m
          else if at AT p \<and> nth_kind 1 p = Some INTERFACE_KW then annotation_type_decl_rest G m
          else if at_member_start p then member_decl_rest G m
          else
            do { error_expected_construct Declaration;
                 recover_decl G;
                 finish_node m ERROR } }"

subsection \<open>The marker discipline\<close>

lemma flow_bad_member [flow_rules]: "nodone ms \<Longrightarrow> flows T ms (bad_member G) (\<lambda>_. ms)"
  unfolding bad_member_def by (rule flow_rules | simp)+

context grammar_laws begin

lemma flow_constructor_rest [flow_rules]:
  "nodone ms \<Longrightarrow> flows T (Opn m # ms) (constructor_rest G m) (\<lambda>_. ms)"
  unfolding constructor_rest_def by (rule flow_rules | simp)+

lemma flow_compact_constructor_rest [flow_rules]:
  "nodone ms \<Longrightarrow> flows T (Opn m # ms) (compact_constructor_rest G m) (\<lambda>_. ms)"
  unfolding compact_constructor_rest_def by (rule flow_rules | simp)+

lemma flow_member_decl_rest [flow_rules]:
  "nodone ms \<Longrightarrow> flows T (Opn m # ms) (member_decl_rest G m) (\<lambda>_. ms)"
  unfolding member_decl_rest_def by (rule flow_rules | simp)+

lemma flow_annotation_type_member_decl_rest [flow_rules]:
  "nodone ms \<Longrightarrow> flows T (Opn m # ms) (annotation_type_member_decl_rest G m) (\<lambda>_. ms)"
  unfolding annotation_type_member_decl_rest_def by (rule flow_rules | simp)+

lemma flow_nested_type_or [flow_rules]:
  "nodone ms \<Longrightarrow> flows T (Opn m # ms) other (\<lambda>_. ms) \<Longrightarrow>
   flows T (Opn m # ms) (nested_type_or G m other) (\<lambda>_. ms)"
  unfolding nested_type_or_def by (rule flow_rules | assumption | simp)+

lemma flow_initializer_or [flow_rules]:
  "nodone ms \<Longrightarrow> flows T ms other (\<lambda>_. ms) \<Longrightarrow> flows T ms (initializer_or G other) (\<lambda>_. ms)"
  unfolding initializer_or_def by (rule flow_rules | assumption | simp)+

lemma flow_class_member_decl [flow_rules]:
  "nodone ms \<Longrightarrow> flows T ms (class_member_decl G) (\<lambda>_. ms)"
  unfolding class_member_decl_def by (rule flow_rules | simp)+

lemma flow_record_member_decl [flow_rules]:
  "nodone ms \<Longrightarrow> flows T ms (record_member_decl G) (\<lambda>_. ms)"
  unfolding record_member_decl_def by (rule flow_rules | simp)+

lemma flow_interface_member_decl [flow_rules]:
  "nodone ms \<Longrightarrow> flows T ms (interface_member_decl G) (\<lambda>_. ms)"
  unfolding interface_member_decl_def by (rule flow_rules | simp)+

lemma flow_annotation_type_member_decl [flow_rules]:
  "nodone ms \<Longrightarrow> flows T ms (annotation_type_member_decl G) (\<lambda>_. ms)"
  unfolding annotation_type_member_decl_def by (rule flow_rules | simp)+

lemma flow_class_body: "nodone ms \<Longrightarrow> flows T ms (Member.class_body G) (\<lambda>_. ms)"
  unfolding class_body_def by (rule flow_rules | simp)+

lemma flow_interface_body: "nodone ms \<Longrightarrow> flows T ms (Member.interface_body G) (\<lambda>_. ms)"
  unfolding interface_body_def by (rule flow_rules | simp)+

lemma flow_record_body: "nodone ms \<Longrightarrow> flows T ms (Member.record_body G) (\<lambda>_. ms)"
  unfolding record_body_def by (rule flow_rules | simp)+

lemma flow_annotation_type_body:
  "nodone ms \<Longrightarrow> flows T ms (Member.annotation_type_body G) (\<lambda>_. ms)"
  unfolding annotation_type_body_def by (rule flow_rules | simp)+

lemma flow_enum_constant [flow_rules]: "nodone ms \<Longrightarrow> flows T ms (enum_constant G) (\<lambda>_. ms)"
  unfolding enum_constant_def by (rule flow_rules | simp)+

lemma flow_enum_body: "nodone ms \<Longrightarrow> flows T ms (Member.enum_body G) (\<lambda>_. ms)"
  unfolding enum_body_def by (rule flow_rules | simp)+

lemma flow_decl [flow_rules]: "nodone ms \<Longrightarrow> flows T ms (decl G) (\<lambda>_. ms)"
  unfolding decl_def by (rule flow_rules | simp)+

end

end
