(* ===== verification/CompilationUnit.thy ===== *)
theory CompilationUnit imports Member begin

text \<open>
  \<^verbatim>\<open>grammar/compilation_unit.rs\<close>: packages, imports and the root of the grammar, and the knot
  that ties the grammar functions together.
\<close>

subsection \<open>Packages and imports\<close>

definition package_decl :: "grammar \<Rightarrow> unit parse" where
  "package_decl G =
     do { m \<leftarrow> start;
          expect' PACKAGE_KW;
          qualified_name G;
          expect' SEMICOLON;
          finish_node m PACKAGE_DECL }"

definition import_path :: "grammar \<Rightarrow> unit parse" where
  "import_path G =
     do { m \<leftarrow> start;
          expect' IDENTIFIER;
          loop_g G
            (do { b \<leftarrow> eat DOT;
                  if \<not> b then ret False
                  else
                    do { s \<leftarrow> eat STAR;
                         if s then ret False
                         else do { expect' IDENTIFIER; ret True } } });
          finish_node m IMPORT_PATH }"

definition import_decl :: "grammar \<Rightarrow> unit parse" where
  "import_decl G =
     do { m \<leftarrow> start;
          expect' IMPORT_KW;
          eat' STATIC_KW;
          import_path G;
          expect' SEMICOLON;
          finish_node m IMPORT_DECL }"

subsection \<open>The root\<close>

definition item :: "grammar \<Rightarrow> unit parse" where
  "item G =
     do { p \<leftarrow> view;
          case current p of
            None \<Rightarrow> skip
          | Some k \<Rightarrow>
              if k = PACKAGE_KW then package_decl G
              else if k = IMPORT_KW then import_decl G
              else if k = AT \<and> at_annotated_package p then do { modifiers G; package_decl G }
              else if k = EOF then skip
              else decl G }"

definition root :: "grammar \<Rightarrow> unit parse" where
  "root G =
     do { m \<leftarrow> start;
          while_g G (\<lambda>p. \<not> is_at_end p) (item G);
          finish_node m ROOT }"

subsection \<open>The grammar of a given depth\<close>

primrec java_grammar :: "nat \<Rightarrow> grammar" where
  "java_grammar 0 = no_grammar"
| "java_grammar (Suc n) =
     (let G = java_grammar n in
      \<lparr>g_fuel = Suc n, g_expr_bp = Expr.expr_bp G, g_element_value = Expr.element_value G,
       g_reference_type = Types.reference_type G, g_pattern = Expr.pattern G,
       g_block = Stmt.block G, g_statement = Stmt.statement G,
       g_if_statement = Stmt.if_statement G, g_switch_block = Stmt.switch_block G,
       g_class_body = Member.class_body G, g_interface_body = Member.interface_body G,
       g_enum_body = Member.enum_body G, g_record_body = Member.record_body G,
       g_annotation_type_body = Member.annotation_type_body G\<rparr>)"

text \<open>\<^verbatim>\<open>parser::parse\<close> up to the point where the events are handed to the sink.\<close>

definition run_parser :: "nat \<Rightarrow> token list \<Rightarrow> machine" where
  "run_parser n ts = snd (run_state (root (java_grammar n)) (Run (parser_new ts)))"

subsection \<open>The marker discipline\<close>

lemma flow_package_decl [flow_rules]: "nodone ms \<Longrightarrow> flows T ms (package_decl G) (\<lambda>_. ms)"
  unfolding package_decl_def by (rule flow_rules | simp)+

lemma flow_import_path [flow_rules]: "nodone ms \<Longrightarrow> flows T ms (import_path G) (\<lambda>_. ms)"
  unfolding import_path_def by (rule flow_rules | simp)+

lemma flow_import_decl [flow_rules]: "nodone ms \<Longrightarrow> flows T ms (import_decl G) (\<lambda>_. ms)"
  unfolding import_decl_def by (rule flow_rules | simp)+

context grammar_laws begin

lemma flow_item [flow_rules]: "nodone ms \<Longrightarrow> flows T ms (item G) (\<lambda>_. ms)"
  unfolding item_def by (rule flow_rules | simp)+

lemma flow_root: "nodone ms \<Longrightarrow> flows T ms (root G) (\<lambda>_. ms)"
  unfolding root_def by (rule flow_rules | simp)+

text \<open>The functions of the next depth keep the contract.\<close>

lemma next_grammar_laws:
  "grammar_laws T
     \<lparr>g_fuel = n, g_expr_bp = Expr.expr_bp G, g_element_value = Expr.element_value G,
      g_reference_type = Types.reference_type G, g_pattern = Expr.pattern G,
      g_block = Stmt.block G, g_statement = Stmt.statement G,
      g_if_statement = Stmt.if_statement G, g_switch_block = Stmt.switch_block G,
      g_class_body = Member.class_body G, g_interface_body = Member.interface_body G,
      g_enum_body = Member.enum_body G, g_record_body = Member.record_body G,
      g_annotation_type_body = Member.annotation_type_body G\<rparr>"
  by unfold_locales
    (simp_all add: flow_expr_bp flow_element_value flow_reference_type flow_pattern flow_block
      flow_statement flow_if_statement flow_switch_block flow_class_body flow_interface_body
      flow_enum_body flow_record_body flow_annotation_type_body)

end

lemma java_grammar_laws: "grammar_laws T (java_grammar n)"
  by (induction n) (simp_all add: no_grammar_laws Let_def grammar_laws.next_grammar_laws)

interpretation java: grammar_laws T "java_grammar n" for T n
  by (rule java_grammar_laws)

end
