(* ===== verification/Sink.thy ===== *)
theory Sink imports Flow begin

text \<open>
  \<^verbatim>\<open>parser/sink.rs\<close>: the sink replays the events over the raw tokens, trivia included, and
  drives the tree builder. The builder (\<^verbatim>\<open>rowan::GreenNodeBuilder\<close>) is not part of the
  repository; what the sink does to it is recorded as the sequence of its calls.
\<close>

datatype builder_call = BStart syntax_kind | BToken syntax_kind string | BFinish

record sink =
  sink_tokens :: "token list"
  sink_events :: "event list"
  builder :: "builder_call list"
  sink_cursor :: nat

definition sink_new :: "token list \<Rightarrow> event list \<Rightarrow> sink" where
  "sink_new ts es = \<lparr>sink_tokens = ts, sink_events = es, builder = [], sink_cursor = 0\<rparr>"

definition call_builder :: "builder_call \<Rightarrow> sink \<Rightarrow> sink" where
  "call_builder c s = s\<lparr>builder := builder s @ [c]\<rparr>"

definition emit_token :: "token \<Rightarrow> sink \<Rightarrow> sink" where
  "emit_token t s =
     (call_builder (BToken (tok_kind t) (tok_lexeme t)) s)\<lparr>sink_cursor := sink_cursor s + 1\<rparr>"

function eat_trivia :: "sink \<Rightarrow> sink" where
  "eat_trivia s =
     (case nth_opt (sink_tokens s) (sink_cursor s) of
        None \<Rightarrow> s
      | Some t \<Rightarrow> if \<not> is_trivia (tok_kind t) then s else eat_trivia (emit_token t s))"
  by pat_completeness auto
termination
  by (relation "measure (\<lambda>s. length (sink_tokens s) - sink_cursor s)")
    (auto simp: emit_token_def call_builder_def nth_opt_Some)

declare eat_trivia.simps [simp del]

definition sink_token :: "sink \<Rightarrow> sink" where
  "sink_token s =
     (let s = eat_trivia s in
      case nth_opt (sink_tokens s) (sink_cursor s) of
        None \<Rightarrow> s
      | Some t \<Rightarrow> emit_token t s)"

text \<open>The index of the last \<^verbatim>\<open>FinishNode\<close>: the one that finishes the root.\<close>

definition last_finish_idx :: "event list \<Rightarrow> nat option" where
  "last_finish_idx es = find (\<lambda>i. es ! i = FinishNode) (rev [0..<length es])"

text \<open>
  The loop along the forward parents: it takes each parent's start event out of the list.
  \<^verbatim>\<open>None\<close> is the \<^verbatim>\<open>unreachable!\<close> arm, or an index past the end.
\<close>

definition is_start :: "event \<Rightarrow> bool" where
  "is_start e = (case e of StartNode _ _ \<Rightarrow> True | _ \<Rightarrow> False)"

lemma starts_decrease:
  "i < length es \<Longrightarrow> is_start (es ! i) \<Longrightarrow>
   length (filter is_start (es[i := Tombstone])) < length (filter is_start es)"
  by (subst (2) id_take_nth_drop, assumption) (simp add: upd_conv_take_nth_drop is_start_def)

function forward_parents ::
  "nat \<Rightarrow> nat option \<Rightarrow> syntax_kind list \<Rightarrow> event list \<Rightarrow> (syntax_kind list \<times> event list) option"
where
  "forward_parents i None kinds es = Some (kinds, es)"
| "forward_parents i (Some d) kinds es =
     (case nth_opt es (i + d) of
        Some (StartNode k fp) \<Rightarrow>
          forward_parents (i + d) fp (kinds @ [k]) (es[i + d := Tombstone])
      | _ \<Rightarrow> None)"
  by pat_completeness auto
termination
  by (relation "measure (\<lambda>(i, fp, kinds, es). length (filter is_start es))")
    (auto simp: nth_opt_Some is_start_def intro!: starts_decrease)

text \<open>One round of the loop of \<^verbatim>\<open>build\<close>.\<close>

definition build_event :: "nat option \<Rightarrow> nat \<Rightarrow> sink \<Rightarrow> sink option" where
  "build_event last_finish idx s0 =
     (let s = s0\<lparr>sink_events := (sink_events s0)[idx := Tombstone]\<rparr> in
      case sink_events s0 ! idx of
        Tombstone \<Rightarrow> Some s
      | AddToken \<Rightarrow> Some (sink_token s)
      | AddVirtualToken kind lexeme \<Rightarrow> Some (call_builder (BToken kind lexeme) s)
      | AdvanceSource \<Rightarrow> Some (s\<lparr>sink_cursor := sink_cursor s + 1\<rparr>)
      | Error _ \<Rightarrow> Some s
      | StartNode kind fp \<Rightarrow>
          (case forward_parents idx fp [kind] (sink_events s) of
             None \<Rightarrow> None
           | Some (kinds, es) \<Rightarrow>
               let s = s\<lparr>sink_events := es\<rparr>;
                   s = (if idx \<noteq> 0 then eat_trivia s else s)
               in Some (fold (\<lambda>k. call_builder (BStart k)) (rev kinds) s))
      | FinishNode \<Rightarrow>
          (let s = (if Some idx = last_finish then eat_trivia s else s)
           in Some (call_builder BFinish s)))"

primrec build_events :: "nat option \<Rightarrow> nat list \<Rightarrow> sink \<Rightarrow> sink option" where
  "build_events last_finish [] s = Some s"
| "build_events last_finish (idx # idxs) s =
     (case build_event last_finish idx s of
        None \<Rightarrow> None
      | Some s \<Rightarrow> build_events last_finish idxs s)"

definition build :: "sink \<Rightarrow> sink option" where
  "build s =
     build_events (last_finish_idx (sink_events s)) [0..<length (sink_events s)] s"

text \<open>\<^verbatim>\<open>Sink::new(tokens, events, None).finish()\<close>, as the calls of the builder.\<close>

definition sink_finish :: "token list \<Rightarrow> event list \<Rightarrow> builder_call list option" where
  "sink_finish ts es = map_option builder (build (sink_new ts es))"

subsection \<open>What the builder receives\<close>

text \<open>A syntax tree, and the calls that build it.\<close>

datatype tree = Node syntax_kind "tree list" | Leaf syntax_kind string

fun tree_calls :: "tree \<Rightarrow> builder_call list" where
  "tree_calls (Leaf k s) = [BToken k s]"
| "tree_calls (Node k ts) = BStart k # concat (map tree_calls ts) @ [BFinish]"

definition forest_calls :: "tree list \<Rightarrow> builder_call list" where
  "forest_calls ts = concat (map tree_calls ts)"

definition forest :: "builder_call list \<Rightarrow> bool" where
  "forest cs = (\<exists>ts. cs = forest_calls ts)"

lemma forest_Nil [simp]: "forest []"
  by (auto simp: forest_def forest_calls_def intro: exI [of _ "[]"])

lemma forest_append [intro]:
  assumes "forest xs" "forest ys"
  shows "forest (xs @ ys)"
proof -
  from assms obtain ts us where "xs = forest_calls ts" "ys = forest_calls us"
    by (auto simp: forest_def)
  hence "xs @ ys = forest_calls (ts @ us)" by (simp add: forest_calls_def)
  thus ?thesis unfolding forest_def by blast
qed

lemma forest_token [simp]: "forest [BToken k s]"
  unfolding forest_def forest_calls_def by (rule exI [of _ "[Leaf k s]"]) simp

lemma forest_node:
  assumes "forest xs"
  shows "forest (BStart k # xs @ [BFinish])"
proof -
  from assms obtain ts where "xs = forest_calls ts" by (auto simp: forest_def)
  hence "BStart k # xs @ [BFinish] = forest_calls [Node k ts]" by (simp add: forest_calls_def)
  thus ?thesis unfolding forest_def by blast
qed

text \<open>The leaves of the tree, as the calls record them.\<close>

fun call_tokens :: "builder_call list \<Rightarrow> (syntax_kind \<times> string) list" where
  "call_tokens [] = []"
| "call_tokens (BToken k s # cs) = (k, s) # call_tokens cs"
| "call_tokens (_ # cs) = call_tokens cs"

lemma call_tokens_append [simp]: "call_tokens (xs @ ys) = call_tokens xs @ call_tokens ys"
  by (induction xs rule: call_tokens.induct) auto

lemma call_tokens_starts [simp]: "call_tokens (map BStart ks) = []"
  by (induction ks) auto

text \<open>A stretch of calls that, after a forest, closes \<open>d\<close> open nodes.\<close>

definition closes :: "nat \<Rightarrow> builder_call list \<Rightarrow> bool" where
  "closes d cs = (\<forall>ks xs. length ks = d \<longrightarrow> forest xs \<longrightarrow> forest (map BStart ks @ xs @ cs))"

lemma closesD: "closes d cs \<Longrightarrow> length ks = d \<Longrightarrow> forest xs \<Longrightarrow> forest (map BStart ks @ xs @ cs)"
  by (simp add: closes_def)

lemma closes_0: "closes 0 cs \<longleftrightarrow> forest cs"
proof
  show "closes 0 cs \<Longrightarrow> forest cs" using closesD [of 0 cs "[]" "[]"] by simp
  show "forest cs \<Longrightarrow> closes 0 cs" by (auto simp: closes_def)
qed

lemma closes_append:
  assumes "closes d xs" and "closes e ys"
  shows "closes (d + e) (xs @ ys)"
  unfolding closes_def
proof (intro allI impI)
  fix ks :: "syntax_kind list" and zs assume ks: "length ks = d + e" and zs: "forest zs"
  have "forest (map BStart (drop e ks) @ zs @ xs)"
    using closesD [OF assms(1), of "drop e ks"] ks zs by simp
  from closesD [OF assms(2) _ this, of "take e ks"] ks
  have "forest (map BStart (take e ks) @ (map BStart (drop e ks) @ zs @ xs) @ ys)"
    by simp
  moreover have "map BStart ks = map BStart (take e ks) @ map BStart (drop e ks)"
    by (simp flip: map_append)
  ultimately show "forest (map BStart ks @ zs @ xs @ ys)" by simp
qed

lemma closes_finish: "closes 1 [BFinish]"
  by (auto simp: closes_def length_Suc_conv intro: forest_node)

subsection \<open>Trivia and tokens\<close>

abbreviation trivial :: "token \<Rightarrow> bool" where
  "trivial t \<equiv> is_trivia (tok_kind t)"

abbreviation token_call :: "token \<Rightarrow> builder_call" where
  "token_call t \<equiv> BToken (tok_kind t) (tok_lexeme t)"

abbreviation leaf_of :: "token \<Rightarrow> syntax_kind \<times> string" where
  "leaf_of t \<equiv> (tok_kind t, tok_lexeme t)"

lemma call_tokens_map [simp]: "call_tokens (map token_call ts) = map leaf_of ts"
  by (induction ts) auto

lemma forest_tokens [simp]: "forest (map token_call ts)"
proof (induction ts)
  case (Cons t ts)
  from forest_append [OF forest_token this] show ?case by simp
qed simp

lemma eat_trivia_eq:
  "eat_trivia s =
     (let us = takeWhile trivial (drop (sink_cursor s) (sink_tokens s))
      in s\<lparr>builder := builder s @ map token_call us, sink_cursor := sink_cursor s + length us\<rparr>)"
proof (induction s rule: eat_trivia.induct)
  case (1 s)
  let ?c = "sink_cursor s" and ?ts = "sink_tokens s"
  consider (past) "length ?ts \<le> ?c" | (stop) "?c < length ?ts" "\<not> trivial (?ts ! ?c)"
    | (go) "?c < length ?ts" "trivial (?ts ! ?c)" by linarith
  thus ?case
  proof cases
    case past
    thus ?thesis by (subst eat_trivia.simps) (simp add: nth_opt_def)
  next
    case stop
    thus ?thesis
      by (subst eat_trivia.simps) (simp add: nth_opt_def Cons_nth_drop_Suc [symmetric])
  next
    case go
    hence o: "nth_opt ?ts ?c = Some (?ts ! ?c)" by (simp add: nth_opt_def)
    have "eat_trivia s = eat_trivia (emit_token (?ts ! ?c) s)"
      using go by (subst eat_trivia.simps) (simp add: o)
    also note 1 [OF o]
    finally show ?thesis
      using go by (simp add: Let_def emit_token_def call_builder_def Cons_nth_drop_Suc [symmetric])
  qed
qed

text \<open>The sink has emitted all tokens before its cursor; \<open>seen\<close> counts those without trivia.\<close>

definition in_sync :: "sink \<Rightarrow> bool" where
  "in_sync s \<longleftrightarrow> sink_cursor s \<le> length (sink_tokens s) \<and>
     call_tokens (builder s) = map leaf_of (take (sink_cursor s) (sink_tokens s))"

definition seen :: "sink \<Rightarrow> nat" where
  "seen s = length (filter (\<lambda>t. \<not> trivial t) (take (sink_cursor s) (sink_tokens s)))"

definition total :: "token list \<Rightarrow> nat" where
  "total ts = length (filter (\<lambda>t. \<not> trivial t) ts)"

definition carries :: "nat \<Rightarrow> sink \<Rightarrow> sink \<Rightarrow> bool" where
  "carries k s s' \<longleftrightarrow>
     (in_sync s \<and> seen s + k \<le> total (sink_tokens s) \<longrightarrow> in_sync s' \<and> seen s' = seen s + k)"

lemma carries_trans:
  "carries j s s' \<Longrightarrow> carries k s' s'' \<Longrightarrow> sink_tokens s' = sink_tokens s \<Longrightarrow>
   carries (j + k) s s''"
  by (auto simp: carries_def)

text \<open>What every operation of the sink does to the builder.\<close>

definition grows :: "nat \<Rightarrow> sink \<Rightarrow> sink \<Rightarrow> bool" where
  "grows d s s' \<longleftrightarrow> sink_tokens s' = sink_tokens s \<and>
     (\<exists>cs. builder s' = builder s @ cs \<and> closes d cs)"

lemma grows_trans: "grows d s s' \<Longrightarrow> grows e s' s'' \<Longrightarrow> grows (d + e) s s''"
  unfolding grows_def using closes_append by fastforce

lemma eat_trivia_grows: "grows 0 s (eat_trivia s)"
  by (auto simp: grows_def eat_trivia_eq Let_def closes_0)

lemma eat_trivia_events [simp]: "sink_events (eat_trivia s) = sink_events s"
  and eat_trivia_tokens [simp]: "sink_tokens (eat_trivia s) = sink_tokens s"
  by (simp_all add: eat_trivia_eq Let_def)

lemma take_add_takeWhile:
  "take (c + length (takeWhile P (drop c ts))) ts = take c ts @ takeWhile P (drop c ts)"
  by (metis take_add takeWhile_eq_take)

lemma eat_trivia_carries: "carries 0 s (eat_trivia s)"
proof -
  have "filter (\<lambda>t. \<not> trivial t) (takeWhile trivial ts) = []" for ts
    by (auto simp: filter_empty_conv dest: set_takeWhileD)
  moreover have "c \<le> length ts \<Longrightarrow> c + length (takeWhile trivial (drop c ts)) \<le> length ts"
    for c and ts :: "token list"
    using length_takeWhile_le [of trivial "drop c ts"] by simp
  ultimately show ?thesis
    by (simp add: carries_def in_sync_def seen_def eat_trivia_eq Let_def take_add_takeWhile)
qed

lemma eat_trivia_stops:
  assumes "sink_cursor s \<le> length (sink_tokens s)"
  shows "nth_opt (sink_tokens s) (sink_cursor (eat_trivia s)) = None \<and>
      sink_cursor (eat_trivia s) = length (sink_tokens s) \<or>
    (\<exists>t. nth_opt (sink_tokens s) (sink_cursor (eat_trivia s)) = Some t \<and> \<not> trivial t)"
proof -
  let ?ds = "drop (sink_cursor s) (sink_tokens s)"
  let ?n = "length (takeWhile trivial ?ds)"
  have c: "sink_cursor (eat_trivia s) = sink_cursor s + ?n" by (simp add: eat_trivia_eq Let_def)
  show ?thesis
  proof (cases "?n < length ?ds")
    case True
    hence "sink_cursor s + ?n < length (sink_tokens s)" by simp
    with nth_length_takeWhile [OF True] assms show ?thesis by (simp add: c nth_opt_def)
  next
    case False
    with length_takeWhile_le [of trivial ?ds] assms show ?thesis by (simp add: c nth_opt_def)
  qed
qed

lemma sink_token_events [simp]: "sink_events (sink_token s) = sink_events s"
  by (auto simp: sink_token_def Let_def emit_token_def call_builder_def split: option.splits)

lemma sink_token_grows: "grows 0 s (sink_token s)"
proof -
  have "grows 0 (eat_trivia s) (sink_token s)"
    by (auto simp: sink_token_def Let_def grows_def emit_token_def call_builder_def closes_0
        split: option.splits)
  from grows_trans [OF eat_trivia_grows this] show ?thesis by simp
qed

lemma sink_token_carries: "carries 1 s (sink_token s)"
  unfolding carries_def
proof
  assume s: "in_sync s \<and> seen s + 1 \<le> total (sink_tokens s)"
  let ?e = "eat_trivia s"
  have e: "in_sync ?e" "seen ?e = seen s"
    using eat_trivia_carries [of s] s by (auto simp: carries_def)
  have "sink_cursor ?e \<noteq> length (sink_tokens s)"
    using e(2) s by (auto simp: seen_def total_def)
  with eat_trivia_stops [of s] s obtain t where
    t: "nth_opt (sink_tokens s) (sink_cursor ?e) = Some t" "\<not> trivial t"
    by (auto simp: in_sync_def)
  hence u: "sink_token s = emit_token t ?e" by (simp add: sink_token_def)
  from t e show "in_sync (sink_token s) \<and> seen (sink_token s) = seen s + 1"
    unfolding u
    by (auto simp: in_sync_def seen_def emit_token_def call_builder_def nth_opt_Some
        take_Suc_conv_app_nth)
qed

subsection \<open>Replaying a segment\<close>

text \<open>
  \<open>replays xs d\<close>: wherever the events \<open>xs\<close> stand after the first event, the loop of \<^verbatim>\<open>build\<close>
  gets through them, turns them into tombstones, touches no other event, and closes \<open>d\<close>
  nodes; without split tokens it emits the source up to the tokens the events take.
\<close>

definition replays :: "event list \<Rightarrow> nat \<Rightarrow> bool" where
  "replays xs d \<longleftrightarrow>
     (\<forall>pre post s last. pre \<noteq> [] \<longrightarrow> sink_events s = pre @ xs @ post \<longrightarrow>
        (\<exists>s'. build_events last [length pre..<length pre + length xs] s = Some s' \<and>
           sink_events s' = pre @ replicate (length xs) Tombstone @ post \<and> grows d s s' \<and>
           (\<not> list_ex is_split xs \<longrightarrow> carries (advances xs) s s')))"

lemma replaysD:
  "replays xs d \<Longrightarrow> pre \<noteq> [] \<Longrightarrow> sink_events s = pre @ xs @ post \<Longrightarrow>
   \<exists>s'. build_events l [length pre..<length pre + length xs] s = Some s' \<and>
     sink_events s' = pre @ replicate (length xs) Tombstone @ post \<and> grows d s s' \<and>
     (\<not> list_ex is_split xs \<longrightarrow> carries (advances xs) s s')"
  unfolding replays_def by blast

lemma build_events_append:
  "build_events l (is @ js) s =
     (case build_events l is s of None \<Rightarrow> None | Some s' \<Rightarrow> build_events l js s')"
  by (induction "is" arbitrary: s) (auto split: option.splits)

lemma replays_append:
  assumes "replays xs d" and "replays ys e"
  shows "replays (xs @ ys) (d + e)"
  unfolding replays_def
proof (intro allI impI)
  fix pre post last and s :: sink
  assume pre: "pre \<noteq> []" and s: "sink_events s = pre @ (xs @ ys) @ post"
  from assms(1) pre s obtain s1 where 1:
    "build_events last [length pre..<length pre + length xs] s = Some s1"
    "sink_events s1 = pre @ replicate (length xs) Tombstone @ ys @ post"
    "grows d s s1" "\<not> list_ex is_split xs \<longrightarrow> carries (advances xs) s s1"
    unfolding replays_def by (metis append.assoc)
  let ?pre = "pre @ replicate (length xs) Tombstone"
  have "?pre \<noteq> []" "sink_events s1 = ?pre @ ys @ post" using pre 1(2) by simp_all
  with assms(2) obtain s2 where 2:
    "build_events last [length ?pre..<length ?pre + length ys] s1 = Some s2"
    "sink_events s2 = ?pre @ replicate (length ys) Tombstone @ post"
    "grows e s1 s2" "\<not> list_ex is_split ys \<longrightarrow> carries (advances ys) s1 s2"
    unfolding replays_def by metis
  have "[length pre..<length pre + length (xs @ ys)] =
      [length pre..<length pre + length xs] @ [length ?pre..<length ?pre + length ys]"
    using upt_add_eq_append [of "length pre" "length pre + length xs" "length ys"]
    by (simp add: add.assoc)
  with 1(1) 2(1)
  have "build_events last [length pre..<length pre + length (xs @ ys)] s = Some s2"
    by (simp add: build_events_append)
  moreover have "sink_events s2 = pre @ replicate (length (xs @ ys)) Tombstone @ post"
    using 2(2) by (simp add: replicate_add)
  moreover have "grows (d + e) s s2" using 1(3) 2(3) by (rule grows_trans)
  moreover have "\<not> list_ex is_split (xs @ ys) \<longrightarrow> carries (advances (xs @ ys)) s s2"
    using 1(3,4) 2(4) carries_trans [of "advances xs" s s1 "advances ys" s2]
    by (auto simp: grows_def)
  ultimately show "\<exists>s'. build_events last [length pre..<length pre + length (xs @ ys)] s = Some s' \<and>
      sink_events s' = pre @ replicate (length (xs @ ys)) Tombstone @ post \<and> grows (d + e) s s' \<and>
      (\<not> list_ex is_split (xs @ ys) \<longrightarrow> carries (advances (xs @ ys)) s s')" by blast
qed

lemma replays_Nil: "replays [] 0"
  by (auto simp: replays_def grows_def closes_0 carries_def)

text \<open>A single event.\<close>

lemma replays_one:
  assumes "\<And>pre post s last. pre \<noteq> [] \<Longrightarrow> sink_events s = pre @ e # post \<Longrightarrow>
    \<exists>s'. build_event last (length pre) s = Some s' \<and> sink_events s' = pre @ Tombstone # post \<and>
      grows d s s' \<and> (\<not> is_split e \<longrightarrow> carries (advances [e]) s s')"
  shows "replays [e] d"
  unfolding replays_def
proof (intro allI impI)
  fix pre post last and s :: sink assume "pre \<noteq> []" "sink_events s = pre @ [e] @ post"
  with assms [of pre s post last] show "\<exists>s'. build_events last [length pre..<length pre + length [e]] s = Some s' \<and>
      sink_events s' = pre @ replicate (length [e]) Tombstone @ post \<and> grows d s s' \<and>
      (\<not> list_ex is_split [e] \<longrightarrow> carries (advances [e]) s s')"
    by auto
qed

lemma grows_builder_only:
  "grows 0 s (s\<lparr>sink_events := es\<rparr>)" "grows 0 s (s\<lparr>sink_events := es, sink_cursor := c\<rparr>)"
  by (auto simp: grows_def closes_0)

lemma carries_events: "carries 0 s (s\<lparr>sink_events := es\<rparr>)"
  by (auto simp: carries_def in_sync_def seen_def)

lemma grows_call: "closes d [c] \<Longrightarrow> grows d s (call_builder c s)"
  by (auto simp: grows_def call_builder_def)

lemma replays_leaf:
  assumes "leaf_event e"
  shows "replays [e] 0"
proof (rule replays_one)
  fix pre post :: "event list" and s :: sink and last
  assume s: "sink_events s = pre @ e # post"
  let ?s = "s\<lparr>sink_events := pre @ Tombstone # post\<rparr>"
  have ev: "(sink_events s)[length pre := Tombstone] = pre @ Tombstone # post"
    by (simp add: s)
  note g = grows_trans [OF grows_builder_only(1), where e = 0, simplified]
  note c = carries_trans [OF carries_events, simplified]
  have tok: "grows 0 s (sink_token ?s)" "carries 1 s (sink_token ?s)"
    using g [OF sink_token_grows] c [OF sink_token_carries] by simp_all
  have call: "grows 0 s (call_builder (BToken k l) ?s)" for k l
    by (rule g, rule grows_call) (simp add: closes_0)
  show "\<exists>s'. build_event last (length pre) s = Some s' \<and> sink_events s' = pre @ Tombstone # post \<and>
      grows 0 s s' \<and> (\<not> is_split e \<longrightarrow> carries (advances [e]) s s')"
  proof (cases e)
    case AddToken
    with s ev tok show ?thesis by (auto simp: build_event_def)
  next
    case (AddVirtualToken k l)
    with s ev call show ?thesis by (auto simp: build_event_def call_builder_def)
  next
    case AdvanceSource
    with s ev show ?thesis
      by (auto simp: build_event_def grows_def closes_0)
  qed (use s ev assms in \<open>auto simp: build_event_def grows_builder_only carries_events\<close>)
qed

lemma replays_finish: "replays [FinishNode] 1"
proof (rule replays_one)
  fix pre post :: "event list" and s :: sink and last
  assume s: "sink_events s = pre @ FinishNode # post"
  let ?s = "s\<lparr>sink_events := pre @ Tombstone # post\<rparr>"
  let ?t = "if Some (length pre) = last then eat_trivia ?s else ?s"
  have "build_event last (length pre) s = Some (call_builder BFinish ?t)"
    by (simp add: build_event_def s Let_def)
  moreover have "sink_events (call_builder BFinish ?t) = pre @ Tombstone # post"
    by (simp add: call_builder_def)
  moreover have t: "grows 0 s ?t" "carries 0 s ?t"
    using grows_trans [OF grows_builder_only(1) eat_trivia_grows, where s = s]
      carries_trans [OF carries_events eat_trivia_carries, where s = s]
    by (simp_all add: grows_builder_only carries_events)
  moreover from grows_trans [OF t(1) grows_call [OF closes_finish]]
  have "grows 1 s (call_builder BFinish ?t)" by simp
  moreover have "carries 0 s (call_builder BFinish ?t)"
    using t(2) by (simp add: carries_def in_sync_def seen_def call_builder_def)
  ultimately show "\<exists>s'. build_event last (length pre) s = Some s' \<and>
      sink_events s' = pre @ Tombstone # post \<and> grows 1 s s' \<and>
      (\<not> is_split FinishNode \<longrightarrow> carries (advances [FinishNode]) s s')" by auto
qed

text \<open>
  The loop along the forward parents collects the kinds of a chain and leaves behind events
  that close one node per kind.
\<close>

definition collects :: "event list \<Rightarrow> bool" where
  "collects c \<longleftrightarrow>
     (\<exists>k fp c'. c = StartNode k fp # c' \<and>
        (\<forall>pre kinds post. \<exists>ks es.
           forward_parents (length pre) fp kinds (pre @ Tombstone # c' @ post) =
             Some (kinds @ ks, pre @ Tombstone # es @ post) \<and>
           length es = length c' \<and> advances es = advances c' \<and>
           list_ex is_split es = list_ex is_split c' \<and> replays es (Suc (length ks))))"

lemma fold_starts:
  "fold (\<lambda>k. call_builder (BStart k)) ks s = s\<lparr>builder := builder s @ map BStart ks\<rparr>"
  by (induction ks arbitrary: s) (simp_all add: call_builder_def)

lemma collects_replays:
  assumes "collects c"
  shows "replays c 0"
  unfolding replays_def
proof (intro allI impI)
  fix pre post last and s :: sink
  assume pre: "pre \<noteq> []" and s: "sink_events s = pre @ c @ post"
  obtain k fp c' where c: "c = StartNode k fp # c'"
    and col: "\<And>pre kinds post. \<exists>ks es.
           forward_parents (length pre) fp kinds (pre @ Tombstone # c' @ post) =
             Some (kinds @ ks, pre @ Tombstone # es @ post) \<and>
           length es = length c' \<and> advances es = advances c' \<and>
           list_ex is_split es = list_ex is_split c' \<and> replays es (Suc (length ks))"
    using assms unfolding collects_def by blast
  obtain ks es where fp: "forward_parents (length pre) fp [k] (pre @ Tombstone # c' @ post) =
        Some (k # ks, pre @ Tombstone # es @ post)" "length es = length c'"
      "advances es = advances c'" "list_ex is_split es = list_ex is_split c'"
      "replays es (Suc (length ks))"
    using col [of pre "[k]" post] by auto
  let ?e = "eat_trivia (s\<lparr>sink_events := pre @ Tombstone # es @ post\<rparr>)"
  let ?s = "?e\<lparr>builder := builder ?e @ map BStart (rev (k # ks))\<rparr>"
  have 1: "build_event last (length pre) s = Some ?s"
    using pre fp(1) by (simp add: build_event_def s c Let_def fold_starts)
  have "sink_events ?s = (pre @ [Tombstone]) @ es @ post" by simp
  with fp(5) obtain s' where 2:
    "build_events last [length (pre @ [Tombstone])..<length (pre @ [Tombstone]) + length es] ?s = Some s'"
    "sink_events s' = (pre @ [Tombstone]) @ replicate (length es) Tombstone @ post"
    "grows (Suc (length ks)) ?s s'" "\<not> list_ex is_split es \<longrightarrow> carries (advances es) ?s s'"
    unfolding replays_def by blast
  have "[length pre..<length pre + length c] =
      length pre # [length (pre @ [Tombstone])..<length (pre @ [Tombstone]) + length es]"
    by (simp add: c fp(2) upt_conv_Cons del: upt_Suc)
  with 1 2(1) have run: "build_events last [length pre..<length pre + length c] s = Some s'" by simp
  have e: "grows 0 s ?e" "carries 0 s ?e"
    using grows_trans [OF grows_builder_only(1) eat_trivia_grows, where s = s]
      carries_trans [OF carries_events eat_trivia_carries, where s = s] by simp_all
  have g: "grows 0 s s'"
  proof -
    from e(1) obtain us where us: "builder ?e = builder s @ us" "forest us"
      by (auto simp: grows_def closes_0)
    from 2(3) obtain cs where cs: "builder s' = builder ?s @ cs" "closes (Suc (length ks)) cs"
      by (auto simp: grows_def)
    have "forest (map BStart (rev (k # ks)) @ [] @ cs)"
      by (rule closesD [OF cs(2)]) simp_all
    from forest_append [OF us(2) this] have "forest (us @ map BStart (rev (k # ks)) @ cs)" by simp
    with us cs 2(3) e(1) show ?thesis by (simp add: grows_def closes_0)
  qed
  have "carries 0 s ?s"
    using e(2) by (auto simp: carries_def in_sync_def seen_def)
  hence "\<not> list_ex is_split es \<longrightarrow> carries (advances es) s s'"
    using carries_trans [of 0 s ?s "advances es" s'] 2(4) by simp
  with fp(3,4) have "\<not> list_ex is_split c \<longrightarrow> carries (advances c) s s'" by (simp add: c)
  moreover have "sink_events s' = pre @ replicate (length c) Tombstone @ post"
    using 2(2) by (simp add: c fp(2))
  ultimately show "\<exists>s'. build_events last [length pre..<length pre + length c] s = Some s' \<and>
      sink_events s' = pre @ replicate (length c) Tombstone @ post \<and> grows 0 s s' \<and>
      (\<not> list_ex is_split c \<longrightarrow> carries (advances c) s s')"
    using run g by blast
qed

lemma seg_replays: "seg xs \<Longrightarrow> replays xs 0" and chain_collects: "chain c i \<Longrightarrow> collects c"
proof (induction rule: seg_chain.inducts)
  case seg_Nil
  show ?case by (rule replays_Nil)
next
  case (seg_append xs ys)
  from replays_append [OF this(3,4)] show ?case by simp
next
  case (seg_leaf e)
  thus ?case by (rule replays_leaf)
next
  case (seg_chain c i)
  from this(2) show ?case by (rule collects_replays)
next
  case (chain_last xs k)
  have "replays (xs @ [FinishNode]) 1"
    using replays_append [OF chain_last(2) replays_finish] by simp
  thus ?case unfolding collects_def
    by (intro exI [of _ k] exI [of _ None] exI [of _ "xs @ [FinishNode]"] conjI refl allI
        exI [of _ "[]"]) simp_all
next
  case (chain_next xs c i k)
  from chain_next.IH(2) obtain k2 fp2 c2 where c: "c = StartNode k2 fp2 # c2"
    and col: "\<And>pre kinds post. \<exists>ks es.
           forward_parents (length pre) fp2 kinds (pre @ Tombstone # c2 @ post) =
             Some (kinds @ ks, pre @ Tombstone # es @ post) \<and>
           length es = length c2 \<and> advances es = advances c2 \<and>
           list_ex is_split es = list_ex is_split c2 \<and> replays es (Suc (length ks))"
    unfolding collects_def by blast
  show ?case unfolding collects_def
  proof (rule exI, rule exI, rule exI, rule conjI, rule refl, intro allI)
    fix pre kinds post
    let ?pre = "pre @ Tombstone # xs @ [FinishNode]"
    obtain ks es where fp: "forward_parents (length ?pre) fp2 (kinds @ [k2]) (?pre @ Tombstone # c2 @ post) =
        Some ((kinds @ [k2]) @ ks, ?pre @ Tombstone # es @ post)" "length es = length c2"
      "advances es = advances c2" "list_ex is_split es = list_ex is_split c2"
      "replays es (Suc (length ks))"
      using col by blast
    let ?es = "xs @ FinishNode # Tombstone # es"
    have "forward_parents (length pre) (Some (length xs + 2)) kinds
        (pre @ Tombstone # (xs @ FinishNode # c) @ post) =
      forward_parents (length ?pre) fp2 (kinds @ [k2]) (?pre @ Tombstone # c2 @ post)"
      by (simp add: c nth_opt_def nth_append list_update_append)
    with fp(1) have "forward_parents (length pre) (Some (length xs + 2)) kinds
        (pre @ Tombstone # (xs @ FinishNode # c) @ post) =
      Some (kinds @ k2 # ks, pre @ Tombstone # ?es @ post)" by simp
    moreover have "replays (xs @ [FinishNode] @ [Tombstone] @ es) (0 + (1 + (0 + Suc (length ks))))"
      by (intro replays_append chain_next.IH(1) replays_finish replays_leaf fp(5)) simp
    hence "replays ?es (Suc (length (k2 # ks)))" by simp
    ultimately show "\<exists>ks es. forward_parents (length pre) (Some (length xs + 2)) kinds
        (pre @ Tombstone # (xs @ FinishNode # c) @ post) =
          Some (kinds @ ks, pre @ Tombstone # es @ post) \<and>
        length es = length (xs @ FinishNode # c) \<and> advances es = advances (xs @ FinishNode # c) \<and>
        list_ex is_split es = list_ex is_split (xs @ FinishNode # c) \<and>
        replays es (Suc (length ks))"
      using fp(2-4) by (intro exI [of _ "k2 # ks"] exI [of _ ?es]) (simp add: c)
  qed
qed

subsection \<open>Replaying a parse\<close>

lemma last_finish_root: "last_finish_idx (es @ [FinishNode]) = Some (length es)"
  by (simp add: last_finish_idx_def)

text \<open>
  The events of a finished parse are replayed without a panic, as the calls that build one
  tree; without split tokens, its leaves are the tokens up to the one after the last the
  parser took, trivia included.
\<close>

lemma sink_finish_root:
  assumes xs: "seg xs" and es: "es = StartNode k None # xs @ [FinishNode]"
  shows "\<exists>ts. sink_finish T es = Some (tree_calls (Node k ts)) \<and>
    (\<not> list_ex is_split es \<longrightarrow> advances es \<le> total T \<longrightarrow>
      (\<exists>us vs. T = us @ vs \<and> call_tokens (tree_calls (Node k ts)) = map leaf_of us \<and>
         total us = advances es \<and> (vs = [] \<or> \<not> trivial (hd vs))))"
proof -
  let ?last = "Some (Suc (length xs))"
  let ?s0 = "sink_new T es"
  let ?s1 = "call_builder (BStart k) (?s0\<lparr>sink_events := Tombstone # xs @ [FinishNode]\<rparr>)"
  have 1: "build_event ?last 0 ?s0 = Some ?s1"
    by (simp add: build_event_def sink_new_def es)
  have "sink_events ?s1 = [Tombstone] @ xs @ [FinishNode]" by (simp add: call_builder_def)
  from replaysD [OF seg_replays [OF xs] _ this] obtain s2 where 2:
    "build_events ?last [length [Tombstone]..<length [Tombstone] + length xs] ?s1 = Some s2"
    "sink_events s2 = [Tombstone] @ replicate (length xs) Tombstone @ [FinishNode]"
    "grows 0 ?s1 s2" "\<not> list_ex is_split xs \<longrightarrow> carries (advances xs) ?s1 s2"
    by blast
  let ?e = "eat_trivia (s2\<lparr>sink_events := replicate (Suc (Suc (length xs))) Tombstone\<rparr>)"
  have "sink_events s2 = replicate (Suc (length xs)) Tombstone @ [FinishNode]" using 2(2) by simp
  hence 3: "build_event ?last (Suc (length xs)) s2 = Some (call_builder BFinish ?e)"
    by (simp add: build_event_def Let_def nth_append list_update_append replicate_append_same
        del: replicate_Suc) simp
  have "last_finish_idx es = ?last"
    using last_finish_root [of "StartNode k None # xs"] by (simp add: es)
  moreover have "[0..<length es] = 0 # [length [Tombstone]..<length [Tombstone] + length xs] @ [Suc (length xs)]"
  proof -
    have "[0..<length es] = [0..<Suc (length xs)] @ [Suc (length xs)]" by (simp add: es)
    also have "[0..<Suc (length xs)] = 0 # [Suc 0..<Suc (length xs)]" by (rule upt_conv_Cons) simp
    finally show ?thesis by (simp del: upt_Suc)
  qed
  ultimately have "build ?s0 = Some (call_builder BFinish ?e)"
    using 1 2(1) 3 by (simp add: build_def build_events_append sink_new_def)
  hence fin: "sink_finish T es = Some (builder ?e @ [BFinish])"
    by (simp add: sink_finish_def call_builder_def)
  have e: "grows 0 s2 ?e" "carries 0 s2 ?e"
    using grows_trans [OF grows_builder_only(1) eat_trivia_grows, where s = s2]
      carries_trans [OF carries_events eat_trivia_carries, where s = s2] by simp_all
  from grows_trans [OF 2(3) e(1)] obtain cs where cs: "builder ?e = BStart k # cs" "forest cs"
    by (auto simp: grows_def closes_0 call_builder_def sink_new_def)
  then obtain ts where ts: "cs = forest_calls ts" by (auto simp: forest_def)
  have tree: "builder ?e @ [BFinish] = tree_calls (Node k ts)"
    by (simp add: cs(1) ts forest_calls_def del: replicate_Suc)
  have "\<exists>us vs. T = us @ vs \<and> call_tokens (tree_calls (Node k ts)) = map leaf_of us \<and>
      total us = advances es \<and> (vs = [] \<or> \<not> trivial (hd vs))"
    if split: "\<not> list_ex is_split es" and le: "advances es \<le> total T"
  proof -
    have adv: "advances es = advances xs" by (simp add: es)
    have tok: "sink_tokens ?e = T" "sink_tokens s2 = T"
      using 2(3) e(1) by (auto simp: grows_def call_builder_def sink_new_def)
    have "in_sync ?s1" "seen ?s1 = 0" "sink_tokens ?s1 = T"
      by (simp_all add: in_sync_def seen_def call_builder_def sink_new_def)
    with 2(4) split le adv have s2: "in_sync s2" "seen s2 = advances es"
      by (auto simp: carries_def es)
    with e(2) le tok have se: "in_sync ?e" "seen ?e = advances es" by (auto simp: carries_def)
    let ?c = "sink_cursor ?e"
    have "drop ?c T = [] \<or> \<not> trivial (hd (drop ?c T))"
      using eat_trivia_stops [of "s2\<lparr>sink_events := replicate (Suc (Suc (length xs))) Tombstone\<rparr>"] s2(1)
      by (auto simp: tok in_sync_def nth_opt_Some hd_drop_conv_nth)
    moreover have "call_tokens (tree_calls (Node k ts)) = map leaf_of (take ?c T)"
      unfolding tree [symmetric] using se(1) tok(1) by (simp add: in_sync_def del: replicate_Suc)
    moreover have "total (take ?c T) = advances es"
      using se(2) tok(1) by (simp add: seen_def total_def)
    ultimately show ?thesis by (intro exI [of _ "take ?c T"] exI [of _ "drop ?c T"]) simp
  qed
  with fin tree show ?thesis by auto
qed

end
