(* ===== verification/Parse.thy ===== *)
theory Parse imports CompilationUnit Sink begin

text \<open>
  \<^verbatim>\<open>Parser::parse\<close>: the root of the grammar, then the sink; and what the marker discipline
  says about the two together.
\<close>

definition parse :: "nat \<Rightarrow> token list \<Rightarrow> stop + builder_call list \<times> parse_error list" where
  "parse n ts =
     (case run_parser n ts of
        Stop e \<Rightarrow> Inl e
      | Run p \<Rightarrow>
          (case sink_finish (tokens (source p)) (events p) of
             None \<Rightarrow> Inl PanicUnreachable
           | Some calls \<Rightarrow> Inr (calls, errors p)))"

subsection \<open>The events of a finished parse\<close>

lemma consistent_new: "consistent T (parser_new T)"
  by (simp add: consistent_def parser_new_def token_source_new_def)

lemma while_loop_exit:
  assumes "run_state (while_loop n c body) (Run p) = (a, Run q)"
    and "\<And>e. snd (run_state body (Stop e)) = Stop e"
  shows "\<not> c q"
  using assms(1)
proof (induction n arbitrary: p a)
  case 0
  thus ?case by (simp add: halt_def)
next
  case (Suc n)
  show ?case
  proof (cases "c p")
    case True
    obtain b s where r: "run_state body (Run p) = (b, s)" by (rule prod.exhaust)
    show ?thesis
    proof (cases s)
      case (Run q')
      with Suc r True show ?thesis by auto
    next
      case (Stop e)
      have "snd (run_state (while_loop n c body) (Stop e)) = Stop e"
      proof (induction n)
        case (Suc n)
        with assms(2) show ?case by (simp add: split_beta)
      qed (simp add: halt_def)
      with Suc.prems r True Stop show ?thesis by (simp add: split_beta)
    qed
  qed (use Suc in auto)
qed

text \<open>
  The root's marker is the first event; everything between its start and its finish is a
  balanced segment.
\<close>

lemma root_outcome:
  "case run_parser n T of
     Stop e \<Rightarrow> stop_ok T e
   | Run p \<Rightarrow> consistent T p \<and> is_at_end p \<and>
       (\<exists>xs. seg xs \<and> events p = StartNode ROOT None # xs @ [FinishNode])"
proof -
  let ?G = "java_grammar n"
  let ?p = "push_event Tombstone (parser_new T)"
  let ?body = "while_g ?G (\<lambda>p. \<not> is_at_end p) (item ?G)"
  have c: "consistent T ?p"
    by (rule consistent_push_structural [OF consistent_new]) simp
  have sh: "shape [Tombstone] [] (events ?p)"
    by (simp add: parser_new_def seg_Nil)
  have f: "flows T [] ?body (\<lambda>_. [])"
    by (rule flow_while_loop) (rule java.flow_item, simp)
  have start: "run_state start (Run (parser_new T)) = (0, Run ?p)"
    by (simp add: start_def) (simp add: parser_new_def)
  have run: "run_state (root ?G) (Run (parser_new T)) =
      (case run_state ?body (Run ?p) of (_, s) \<Rightarrow> run_state (finish_node 0 ROOT) s)"
    by (simp add: root_def start split_beta)
  from f c sh show ?thesis
  proof (cases rule: flowsE)
    case (run a q)
    then obtain xs where q: "consistent T q" "seg xs" "events q = Tombstone # xs" by auto
    have e: "is_at_end q"
      using while_loop_exit [OF run(1)] flows_stopped [OF java.flow_item [of "[]" T n]] by simp
    let ?es = "StartNode ROOT None # xs @ [FinishNode]"
    let ?r = "q\<lparr>events := ?es\<rparr>"
    have "run_state (finish_node 0 ROOT) (Run q) = ((), Run ?r)"
      by (simp add: finish_node_def discard_def complete_def nth_opt_def q(3) push_event_def)
    with run(1) \<open>run_state (root ?G) _ = _\<close> have "run_parser n T = Run ?r"
      by (simp add: run_parser_def)
    moreover have "consistent T (push_event FinishNode (q\<lparr>events := (events q)[0 := StartNode ROOT None]\<rparr>))"
      by (intro consistent_push_structural consistent_update q) (simp_all add: q)
    hence "consistent T ?r" by (simp add: q(3) push_event_def)
    moreover have "is_at_end ?r"
      using e by (simp add: is_at_end_def at_def current_def cong: option.case_cong)
    ultimately show ?thesis using q(2) by auto
  next
    case (stop a e)
    with run have "run_parser n T = Stop e"
      by (simp add: run_parser_def finish_node_def discard_def complete_def)
    with stop(2) show ?thesis by simp
  qed
qed

lemma run_parser_Run:
  assumes "run_parser n T = Run p"
  obtains xs where "consistent T p" "is_at_end p" "seg xs"
    "events p = StartNode ROOT None # xs @ [FinishNode]"
  using root_outcome [of T n] assms by auto

lemma run_parser_Stop: "run_parser n T = Stop e \<Longrightarrow> stop_ok T e"
  using root_outcome [of T n] by simp

lemma parse_Inr:
  assumes "parse n T = Inr (calls, errs)"
  obtains p where "run_parser n T = Run p" "sink_finish T (events p) = Some calls" "errs = errors p"
proof (cases "run_parser n T")
  case (Run p)
  have "consistent T p" using Run by (rule run_parser_Run)
  hence "tokens (source p) = T" by (simp add: consistent_def)
  with assms Run that show thesis by (auto simp: parse_def split: option.splits)
qed (use assms in \<open>simp add: parse_def\<close>)

subsection \<open>The text of the tree\<close>

definition source_text :: "token list \<Rightarrow> string" where
  "source_text ts = concat (map tok_lexeme ts)"

definition tree_text :: "builder_call list \<Rightarrow> string" where
  "tree_text calls = concat (map snd (call_tokens calls))"

text \<open>The lexer ends every token list with one empty end-of-file token.\<close>

definition ends_with_eof :: "token list \<Rightarrow> bool" where
  "ends_with_eof T =
     (T \<noteq> [] \<and> tok_kind (last T) = EOF \<and> tok_lexeme (last T) = '''' \<and>
      list_all (\<lambda>t. tok_kind t \<noteq> EOF) (butlast T))"

lemma no_shift_no_override:
  "consistent T p \<Longrightarrow> \<not> has_shift T \<Longrightarrow> override_token p = None"
  by (cases "override_token p") (auto simp: consistent_def)

text \<open>The token at an index of the reader: the prefix before it holds that many tokens.\<close>

lemma filter_upt_append:
  "filter (\<lambda>i. P ((us @ t # vs) ! i)) [0..<length (us @ t # vs)] =
     filter (\<lambda>i. P (us ! i)) [0..<length us] @ (if P t then [length us] else []) @
     map (\<lambda>i. i + Suc (length us)) (filter (\<lambda>i. P (vs ! i)) [0..<length vs])"
proof -
  have "[0..<length us + Suc (length vs)] = [0..<length us] @ [length us..<length us + Suc (length vs)]"
    by (rule upt_add_eq_append) simp
  moreover have "[length us..<length us + Suc (length vs)] =
      length us # map (\<lambda>i. i + Suc (length us)) [0..<length vs]"
    using map_add_upt [of "Suc (length us)" "length vs"]
    by (simp add: upt_conv_Cons add.commute del: upt_Suc)
  ultimately have "[0..<length (us @ t # vs)] = [0..<length us] @ [length us] @
      map (\<lambda>i. i + Suc (length us)) [0..<length vs]" by simp
  moreover have "filter (\<lambda>i. P ((us @ t # vs) ! i)) [0..<length us] =
      filter (\<lambda>i. P (us ! i)) [0..<length us]"
    by (rule filter_cong) (auto simp: nth_append)
  moreover have "filter (\<lambda>i. P ((us @ t # vs) ! i)) (map (\<lambda>i. i + Suc (length us)) [0..<length vs]) =
      map (\<lambda>i. i + Suc (length us)) (filter (\<lambda>i. P (vs ! i)) [0..<length vs])"
    by (simp add: filter_map o_def nth_append)
  ultimately show ?thesis by simp
qed

lemma length_filter_indices:
  "length (filter (\<lambda>i. P (us ! i)) [0..<length us]) = length (filter P us)"
proof -
  have "map (\<lambda>i. us ! i) (filter (\<lambda>i. P (us ! i)) [0..<length us]) = filter P us"
    by (simp add: filter_map [unfolded o_def, symmetric] map_nth)
  from arg_cong [OF this, of length] show ?thesis by simp
qed

lemma source_token_at:
  assumes "\<not> trivial t"
  shows "source_nth 0 (token_source_new (us @ t # vs)\<lparr>cursor := total us\<rparr>) = Some t"
proof -
  have "length (filter (\<lambda>i. \<not> trivial (us ! i)) [0..<length us]) = total us"
    by (simp add: total_def length_filter_indices [of "\<lambda>t. \<not> trivial t"])
  moreover have "indices (token_source_new (us @ t # vs)) =
      filter (\<lambda>i. \<not> trivial ((us @ t # vs) ! i)) [0..<length (us @ t # vs)]"
    unfolding token_source_new_def by simp
  hence "indices (token_source_new (us @ t # vs)) =
      filter (\<lambda>i. \<not> trivial (us ! i)) [0..<length us] @ length us #
      map (\<lambda>i. i + Suc (length us)) (filter (\<lambda>i. \<not> trivial (vs ! i)) [0..<length vs])"
    using assms by (simp only: filter_upt_append [of "\<lambda>t. \<not> trivial t"]) simp
  ultimately have "nth_opt (indices (token_source_new (us @ t # vs))) (total us) = Some (length us)"
    by (simp add: nth_opt_def nth_append)
  moreover have "tokens (token_source_new (us @ t # vs)) = us @ t # vs"
    by (simp add: token_source_new_def)
  ultimately show ?thesis by (simp add: source_nth_def)
qed

lemma length_indices: "length (indices (token_source_new T)) = total T"
  by (simp add: token_source_new_def total_def length_filter_indices [of "\<lambda>t. \<not> trivial t"])

lemma parse_text:
  assumes "parse n T = Inr (calls, errs)" and "\<not> has_shift T" and "ends_with_eof T"
  shows "tree_text calls = source_text T"
proof -
  obtain p where p: "run_parser n T = Run p" "sink_finish T (events p) = Some calls"
    using assms(1) by (rule parse_Inr)
  obtain xs where q: "consistent T p" "is_at_end p" "seg xs"
    "events p = StartNode ROOT None # xs @ [FinishNode]" using p(1) by (rule run_parser_Run)
  have sp: "\<not> list_ex is_split (events p)" using q(1) assms(2) by (auto simp: consistent_def)
  have cur: "cursor (source p) = advances (events p)" "advances (events p) \<le> total T"
    using q(1) by (auto simp: consistent_def length_indices)
  from sink_finish_root [OF q(3,4), of T] p(2) sp cur(2) obtain us vs where
    u: "T = us @ vs" "call_tokens calls = map leaf_of us" "total us = advances (events p)"
       "vs = [] \<or> \<not> trivial (hd vs)" by auto
  have "source_text vs = ''''"
  proof (cases vs)
    case (Cons t vs')
    have "source p = token_source_new T\<lparr>cursor := total us\<rparr>"
      using q(1) cur(1) u(3) by (simp add: consistent_def token_source_new_def)
    hence "source_nth 0 (source p) = Some t"
      using source_token_at [of t us vs'] u(1,4) Cons by simp
    hence "current p = Some (tok_kind t)" "\<not> source_is_at_end (source p)"
      using no_shift_no_override [OF q(1) assms(2)] source_nth_Some [of 0 "source p" t]
      by (simp_all add: current_def source_current_def source_is_at_end_def)
    with q(2) have "tok_kind t = EOF" by (auto simp: is_at_end_def at_def)
    with assms(3) u(1) Cons have "vs' = []"
      by (cases vs' rule: rev_cases) (auto simp: ends_with_eof_def butlast_append)
    with assms(3) u(1) Cons show ?thesis by (simp add: ends_with_eof_def source_text_def)
  qed (simp add: source_text_def)
  with u(1,2) show ?thesis by (simp add: tree_text_def source_text_def comp_def)
qed

end
