(* ===== verification/Execution.thy ===== *)
theory Execution imports Parse begin

text \<open>
  Running the model on a concrete token list inside the kernel: the collection \<open>run_simps\<close>
  evaluates an action on a running parser from the outside in, one operation at a time. The
  congruence rules keep the simplifier out of what has not been reached yet. Fuel is written
  in unary.
\<close>

text \<open>An action's result, and what is still to be run.\<close>

definition resume :: "'a \<times> machine \<Rightarrow> ('a \<Rightarrow> 'b parse) \<Rightarrow> 'b \<times> machine" where
  "resume r g = run_state (g (fst r)) (snd r)"

lemma resume_cong: "r = r' \<Longrightarrow> resume r g = resume r' g"
  by simp

lemma run_state_cong: "s = s' \<Longrightarrow> run_state g s = run_state g s'"
  by simp

lemmas run_congs = resume_cong run_state_cong if_weak_cong

lemma run_unfold: "f = g \<Longrightarrow> run_state f (Run p) = run_state g (Run p)"
  by simp

subsection \<open>Control structures\<close>

lemma run_control [run_simps]:
  "resume (a, Run p) g = run_state (g a) (Run p)"
  "resume (a, Stop e) g = run_state (g a) (Stop e)"
  "run_state (State_Monad.bind f g) (Run p) = resume (run_state f (Run p)) g"
  "run_state (ret a) (Run p) = (a, Run p)"
  "run_state (if b then h else h') (Run p) =
     (if b then run_state h (Run p) else run_state h' (Run p))"
  "run_state (if_then b h'') (Run p) = (if b then run_state h'' (Run p) else ((), Run p))"
  "run_state (discard f) (Run p) = resume (run_state f (Run p)) (\<lambda>_. skip)"
  "run_state view (Run p) = (p, Run p)"
  by (simp_all add: resume_def split_beta if_then_def discard_def view_def)

lemma run_bool_control [run_simps]:
  "run_state (is_err f) (Run p) = resume (run_state f (Run p)) (\<lambda>a. ret (\<not> a))"
  "run_state (and_then b f) (Run p) = (if b then run_state f (Run p) else (False, Run p))"
  by (simp_all add: resume_def split_beta is_err_def and_then_def)

lemma run_let [run_simps]:
  "run_state (Let x f) (Run p) = (let y = x in run_state (f y) (Run p))"
  by simp

lemma run_case_option [run_simps]:
  "run_state (case r of None \<Rightarrow> f | Some x \<Rightarrow> g x) (Run p) =
     (case r of None \<Rightarrow> run_state f (Run p) | Some x \<Rightarrow> run_state (g x) (Run p))"
  by (cases r) auto

lemma run_loops [run_simps]:
  "run_state (while_loop (Suc n) c f) (Run p) =
     (if c p then resume (run_state f (Run p)) (\<lambda>_. while_loop n c f) else ((), Run p))"
  "run_state (loop (Suc n) h) (Run p) =
     resume (run_state h (Run p)) (\<lambda>b. if b then loop n h else skip)"
  "run_state (while_eat (Suc n) k f) (Run p) =
     resume (run_state (eat k) (Run p))
       (\<lambda>b. if b then State_Monad.bind f (\<lambda>_. while_eat n k f) else skip)"
  by (simp_all add: resume_def split_beta while_eat_def)

lemma run_loop_with [run_simps]:
  "run_state (loop_with (Suc n) x f) (Run p) =
     resume (run_state (f x) (Run p)) (\<lambda>r. if fst r then loop_with n (snd r) f else ret (snd r))"
  by (simp add: resume_def split_beta)

lemmas run_expr_led [run_simps] = expr_led.simps(2) [THEN run_unfold]

text \<open>The end of the fuel, and a stopped machine.\<close>

lemma run_halt [run_simps]: "run_state (halt d e) (Run p) = (d, Stop e)"
  by (simp add: halt_def)

lemma run_no_fuel [run_simps]:
  "run_state (while_loop 0 c f) (Run p) = ((), Stop OutOfFuel)"
  "run_state (loop 0 h) (Run p) = ((), Stop OutOfFuel)"
  "run_state (while_eat 0 k f) (Run p) = ((), Stop OutOfFuel)"
  by (simp_all add: halt_def while_eat_def)

subsection \<open>The grammar of a given depth\<close>

lemma run_fuel [run_simps]:
  "run_state (while_loop (g_fuel (java_grammar (Suc n))) c f) (Run p) =
     run_state (while_loop (Suc n) c f) (Run p)"
  "run_state (while_eat (g_fuel (java_grammar (Suc n))) k f) (Run p) =
     run_state (while_eat (Suc n) k f) (Run p)"
  "run_state (loop (g_fuel (java_grammar (Suc n))) h) (Run p) =
     run_state (loop (Suc n) h) (Run p)"
  by (simp_all add: Let_def)

lemma run_fuel_with [run_simps]:
  "run_state (loop_with (g_fuel (java_grammar (Suc n))) x h) (Run p) =
     run_state (loop_with (Suc n) x h) (Run p)"
  "run_state (expr_led G m (g_fuel (java_grammar (Suc n))) l) (Run p) =
     run_state (expr_led G m (Suc n) l) (Run p)"
  by (simp_all add: Let_def)

lemma run_calls [run_simps]:
  "run_state (g_element_value (java_grammar (Suc n))) (Run p) =
     run_state (Expr.element_value (java_grammar n)) (Run p)"
  "run_state (g_pattern (java_grammar (Suc n))) (Run p) =
     run_state (Expr.pattern (java_grammar n)) (Run p)"
  "run_state (g_block (java_grammar (Suc n))) (Run p) =
     run_state (Stmt.block (java_grammar n)) (Run p)"
  "run_state (g_statement (java_grammar (Suc n))) (Run p) =
     run_state (Stmt.statement (java_grammar n)) (Run p)"
  "run_state (g_if_statement (java_grammar (Suc n))) (Run p) =
     run_state (Stmt.if_statement (java_grammar n)) (Run p)"
  "run_state (g_switch_block (java_grammar (Suc n))) (Run p) =
     run_state (Stmt.switch_block (java_grammar n)) (Run p)"
  "run_state (g_class_body (java_grammar (Suc n))) (Run p) =
     run_state (Member.class_body (java_grammar n)) (Run p)"
  "run_state (g_interface_body (java_grammar (Suc n))) (Run p) =
     run_state (Member.interface_body (java_grammar n)) (Run p)"
  "run_state (g_enum_body (java_grammar (Suc n))) (Run p) =
     run_state (Member.enum_body (java_grammar n)) (Run p)"
  "run_state (g_record_body (java_grammar (Suc n))) (Run p) =
     run_state (Member.record_body (java_grammar n)) (Run p)"
  "run_state (g_annotation_type_body (java_grammar (Suc n))) (Run p) =
     run_state (Member.annotation_type_body (java_grammar n)) (Run p)"
  by (simp_all add: Let_def)

lemma run_value_calls [run_simps]:
  "run_state (g_expr_bp (java_grammar (Suc n)) m) (Run p) =
     run_state (Expr.expr_bp (java_grammar n) m) (Run p)"
  "run_state (g_reference_type (java_grammar (Suc n))) (Run p) =
     run_state (Types.reference_type (java_grammar n)) (Run p)"
  by (simp_all add: Let_def)

lemma run_no_calls [run_simps]:
  "run_state (g_element_value (java_grammar 0)) (Run p) = ((), Stop OutOfFuel)"
  "run_state (g_pattern (java_grammar 0)) (Run p) = ((), Stop OutOfFuel)"
  "run_state (g_block (java_grammar 0)) (Run p) = ((), Stop OutOfFuel)"
  "run_state (g_statement (java_grammar 0)) (Run p) = ((), Stop OutOfFuel)"
  "run_state (g_if_statement (java_grammar 0)) (Run p) = ((), Stop OutOfFuel)"
  "run_state (g_switch_block (java_grammar 0)) (Run p) = ((), Stop OutOfFuel)"
  "run_state (g_class_body (java_grammar 0)) (Run p) = ((), Stop OutOfFuel)"
  "run_state (g_interface_body (java_grammar 0)) (Run p) = ((), Stop OutOfFuel)"
  "run_state (g_enum_body (java_grammar 0)) (Run p) = ((), Stop OutOfFuel)"
  "run_state (g_record_body (java_grammar 0)) (Run p) = ((), Stop OutOfFuel)"
  "run_state (g_annotation_type_body (java_grammar 0)) (Run p) = ((), Stop OutOfFuel)"
  "run_state (g_expr_bp (java_grammar 0) m) (Run p) = (None, Stop OutOfFuel)"
  "run_state (g_reference_type (java_grammar 0)) (Run p) = (True, Stop OutOfFuel)"
  by (simp_all add: no_grammar_def halt_def)

lemma run_no_loops [run_simps]:
  "run_state (while_loop (g_fuel (java_grammar 0)) c f) (Run p) = ((), Stop OutOfFuel)"
  "run_state (while_eat (g_fuel (java_grammar 0)) k f) (Run p) = ((), Stop OutOfFuel)"
  "run_state (loop (g_fuel (java_grammar 0)) h) (Run p) = ((), Stop OutOfFuel)"
  by (simp_all add: no_grammar_def halt_def while_eat_def)

lemma run_no_loops_with [run_simps]:
  "run_state (loop_with (g_fuel (java_grammar 0)) x h) (Run p) = (x, Stop OutOfFuel)"
  "run_state (expr_led G m (g_fuel (java_grammar 0)) l) (Run p) = (None, Stop OutOfFuel)"
  by (simp_all add: no_grammar_def halt_def)

text \<open>
  Two functions are left out of \<open>run_simps\<close>: \<open>module_body\<close> and \<open>switch_block\<close>, about which there
  are theorems that hold for any fuel.
\<close>

subsection \<open>The functions\<close>

lemma run_primitives [run_simps]:
  "run_state (gets h) (Run p) = (h p, Run p)"
  "run_state (modify f) (Run p) = ((), Run (f p))"
  by simp_all

lemmas run_Parser [run_simps] =
  start_def [THEN run_unfold]  bump_def [THEN run_unfold]  error_at_def [THEN run_unfold]  error_def [THEN run_unfold]  error_message_def [THEN run_unfold]
  error_expected_construct_def [THEN run_unfold]  eat_def [THEN run_unfold]  eat_contextual_kw_def [THEN run_unfold]  eat_non_sealed_def [THEN run_unfold]
  expect_contextual_kw_def [THEN run_unfold]  complete_def [THEN run_unfold]  abandon_def [THEN run_unfold]  precede_def [THEN run_unfold]  finish_node_def [THEN run_unfold]
  drop_marker_def [THEN run_unfold]  error_expected_def [THEN run_unfold]  expect_def [THEN run_unfold]  checkpoint_def [THEN run_unfold]  rewind_def [THEN run_unfold]
  split_token_def [THEN run_unfold]

lemmas run_Grammar [run_simps] =
  expression_def [THEN run_unfold]  expression_fails_def [THEN run_unfold]  recover_until_internal_def [THEN run_unfold]  recover_until_def [THEN run_unfold]
  recover_until_or_eat_def [THEN run_unfold]  recover_decl_def [THEN run_unfold]  recover_member_def [THEN run_unfold]  recover_parameter_def [THEN run_unfold]
  recover_catch_parameter_def [THEN run_unfold]  recover_annotation_type_parameter_def [THEN run_unfold]
  recover_type_bound_def [THEN run_unfold]  recover_type_argument_def [THEN run_unfold]  recover_block_statement_def [THEN run_unfold]
  recover_switch_statement_def [THEN run_unfold]  qualified_name_def [THEN run_unfold]

lemmas run_Types [run_simps] =
  element_value_pair_def [THEN run_unfold]  annotation_argument_list_def [THEN run_unfold]  annotation_def [THEN run_unfold]  modifiers_def [THEN run_unfold]
  variable_modifier_def [THEN run_unfold]  variable_annotations_opt_def [THEN run_unfold]  expect_gt_def [THEN run_unfold]
  type_annotations_opt_def [THEN run_unfold]  dimensions_def [THEN run_unfold]  wildcard_bounds_def [THEN run_unfold]  wildcard_type_def [THEN run_unfold]
  type_argument_def [THEN run_unfold]  type_arguments_def [THEN run_unfold]  type_arguments_opt_def [THEN run_unfold]  reference_type_def [THEN run_unfold]
  type_rule_def [THEN run_unfold]  type_or_void_def [THEN run_unfold]  type_bound_def [THEN run_unfold]  type_parameter_def [THEN run_unfold]
  type_parameters_def [THEN run_unfold]  type_parameters_opt_def [THEN run_unfold]  parameter_def [THEN run_unfold]  formal_parameters_def [THEN run_unfold]
  inferred_parameters_def [THEN run_unfold]  throws_clause_def [THEN run_unfold]  throws_clause_opt_def [THEN run_unfold]  extends_clause_def [THEN run_unfold]
  implements_clause_def [THEN run_unfold]  interface_extends_clause_def [THEN run_unfold]

lemmas run_Expr [run_simps] =
  complete_ok_def [THEN run_unfold]  fail_node_def [THEN run_unfold]  expr_bp_fails_def [THEN run_unfold]  argument_list_def [THEN run_unfold]
  array_initializer_def [THEN run_unfold]  element_value_array_initializer_def [THEN run_unfold]  element_value_def [THEN run_unfold]
  expression_list_def [THEN run_unfold]  is_pattern_def [THEN run_unfold]  component_pattern_def [THEN run_unfold]  component_pattern_list_def [THEN run_unfold]
  type_pattern_def [THEN run_unfold]  pattern_def [THEN run_unfold]  template_argument_def [THEN run_unfold]  method_reference_rest_def [THEN run_unfold]
  switch_common_def [THEN run_unfold]  switch_expression_def [THEN run_unfold]  array_creation_rest_def [THEN run_unfold]  new_expression_def [THEN run_unfold]
  lambda_expression_def [THEN run_unfold]  is_type_cast_lookahead_def [THEN run_unfold]  additional_bounds_def [THEN run_unfold]
  cast_or_paren_expr_def [THEN run_unfold]  token_node_def [THEN run_unfold]  prefix_operator_def [THEN run_unfold]  expr_prefix_def [THEN run_unfold]
  member_access_def [THEN run_unfold]  bracket_access_def [THEN run_unfold]  conditional_rest_def [THEN run_unfold]  instanceof_rest_def [THEN run_unfold]
  binary_rest_def [THEN run_unfold]  led_step_def [THEN run_unfold]  expr_bp_def [THEN run_unfold]  case_pattern_or_constant_def [THEN run_unfold]

lemmas run_Decl [run_simps] =
  variable_id_def [THEN run_unfold]  variable_declarator_def [THEN run_unfold]  variable_declarator_no_init_expr_def [THEN run_unfold]
  variable_declarator_list_def [THEN run_unfold]  requires_modifier_def [THEN run_unfold]  requires_directive_def [THEN run_unfold]
  qualified_names_def [THEN run_unfold]  exports_directive_def [THEN run_unfold]  opens_directive_def [THEN run_unfold]  uses_directive_def [THEN run_unfold]
  provides_directive_def [THEN run_unfold]  module_directive_def [THEN run_unfold]  module_decl_rest_def [THEN run_unfold]  permits_clause_def [THEN run_unfold]
  annotation_type_decl_rest_def [THEN run_unfold]  record_decl_rest_def [THEN run_unfold]  enum_decl_rest_def [THEN run_unfold]
  class_decl_rest_def [THEN run_unfold]  interface_decl_rest_def [THEN run_unfold]

lemmas run_Stmt [run_simps] =
  local_variable_declaration_def [THEN run_unfold]  local_variable_declaration_statement_def [THEN run_unfold]
  parenthesized_expression_def [THEN run_unfold]  empty_statement_def [THEN run_unfold]  expression_statement_def [THEN run_unfold]
  yield_statement_def [THEN run_unfold]  return_statement_def [THEN run_unfold]  throw_statement_def [THEN run_unfold]  break_statement_def [THEN run_unfold]
  continue_statement_def [THEN run_unfold]  assert_statement_def [THEN run_unfold]  method_body_or_semicolon_def [THEN run_unfold]
  labeled_statement_def [THEN run_unfold]  condition_def [THEN run_unfold]  while_statement_def [THEN run_unfold]  if_statement_def [THEN run_unfold]
  do_statement_def [THEN run_unfold]  synchronized_statement_def [THEN run_unfold]  scan_for_separator_def [THEN run_unfold]
  enhanced_for_stmt_def [THEN run_unfold]  basic_for_stmt_def [THEN run_unfold]  for_statement_def [THEN run_unfold]  variable_access_def [THEN run_unfold]
  resource_def [THEN run_unfold]  resource_specification_def [THEN run_unfold]  catch_type_def [THEN run_unfold]  catch_formal_parameter_def [THEN run_unfold]
  catch_clause_def [THEN run_unfold]  finally_clause_def [THEN run_unfold]  try_statement_def [THEN run_unfold]  switch_statement_def [THEN run_unfold]
  switch_label_def [THEN run_unfold]  switch_rule_def [THEN run_unfold]  statement_def [THEN run_unfold]  block_statement_def [THEN run_unfold]  block_def [THEN run_unfold]
  switch_block_statement_group_def [THEN run_unfold]

lemmas run_Member [run_simps] =
  constructor_rest_def [THEN run_unfold]  compact_constructor_rest_def [THEN run_unfold]  member_decl_rest_def [THEN run_unfold]
  annotation_type_member_decl_rest_def [THEN run_unfold]  nested_type_or_def [THEN run_unfold]  initializer_or_def [THEN run_unfold]
  class_member_decl_def [THEN run_unfold]  record_member_decl_def [THEN run_unfold]  interface_member_decl_def [THEN run_unfold]
  annotation_type_member_decl_def [THEN run_unfold]  bad_member_def [THEN run_unfold]  class_body_def [THEN run_unfold]  interface_body_def [THEN run_unfold]
  record_body_def [THEN run_unfold]  annotation_type_body_def [THEN run_unfold]  enum_constant_def [THEN run_unfold]  enum_body_def [THEN run_unfold]  decl_def [THEN run_unfold]

lemmas run_CompilationUnit [run_simps] =
  package_decl_def [THEN run_unfold]  import_path_def [THEN run_unfold]  import_decl_def [THEN run_unfold]  item_def [THEN run_unfold]  root_def [THEN run_unfold]

lemmas run_switch_block = Stmt.switch_block_def [THEN run_unfold]
lemmas run_module_body = module_body_def [THEN run_unfold]

lemmas run_Lookahead [run_simps] =
  skip_annotation_def is_primitive_type_def at_primitive_type_def at_type_start_def
  is_formal_parameters_def is_concise_param_def at_annotated_dimension_def
  at_annotated_package_def is_record_decl_at_def is_record_decl_def is_module_decl_start_def
  at_enum_constant_start_def at_member_start_def is_compact_constructor_like_def
  is_constructor_like_def get_infix_bp_def is_expression_start_def is_lambda_lookahead_def
  angle_depth_def is_method_ref_lookahead_def is_record_pattern_lookahead_def
  is_at_labeled_statement_start_def is_at_yield_statement_start_def
  is_legal_statement_expression_def is_switch_rule_def is_class_modifier_def
  at_local_type_declaration_def is_variable_type_at_def is_local_variable_declaration_def
  skip_dotted_name.simps skip_parens.simps annotated_dimension_from.simps skip_parens_at.simps
  annotated_package_from.simps record_header_from.simps lambda_parens.simps
  method_ref_angles.simps skip_empty_dims.simps skip_name_tokens.simps
  is_switch_rule_from.simps skip_class_modifiers.simps skip_variable_modifiers.simps
  skip_type_args.simps

lemma run_at_set [run_simps]:
  "list_all (\<lambda>k. discriminant k < 256) ks \<Longrightarrow>
   at_set (tokenset ks) p = (case current p of None \<Rightarrow> False | Some k \<Rightarrow> List.member ks k)"
  by (auto simp: at_set_def contains_tokenset list_all_iff split: option.split)

lemmas run_kw_set [run_simps] = contains_kw_tokenset

lemmas run_queries [run_simps] =
  current_def source_current_def source_nth_def nth_opt_def nth_kind_def at_def is_at_end_def
  source_is_at_end_def current_lexeme_def source_current_lexeme_def bump_parser_def
  source_bump_def at_contextual_kw_def nth_at_contextual_kw_def at_contextual_kw_set_def
  nth_at_non_sealed_def at_non_sealed_def matches_def current_token_range_def checkpoint_of_def
  kw_from_str_def in_body_def push_event_def source_set_pos_def Let_def

text \<open>A token at an offset, and a parser over a token list.\<close>

definition tok :: "syntax_kind \<Rightarrow> string \<Rightarrow> nat \<Rightarrow> token" where
  "tok k s i = \<lparr>tok_kind = k, tok_lexeme = s, tok_offset = i\<rparr>"

lemmas run_start = run_parser_def parser_new_def token_source_new_def tok_def is_trivia_def

subsection \<open>A stopped machine\<close>

text \<open>A stop that happens deep inside a parse is the result of the whole parse.\<close>

definition halted :: "'a parse \<Rightarrow> bool" where
  "halted f = (\<forall>e. snd (run_state f (Stop e)) = Stop e)"

named_theorems halt_rules

lemma halted_flows: "flows T ms f R \<Longrightarrow> halted f"
  by (simp add: halted_def flows_stopped)

lemma resume_stop: "snd r = Stop e \<Longrightarrow> (\<And>a. halted (g a)) \<Longrightarrow> snd (resume r g) = Stop e"
  by (simp add: resume_def halted_def)

lemma run_stopped: "halted f \<Longrightarrow> snd (run_state f (Stop e)) = Stop e"
  by (simp add: halted_def)

lemma halted_bind [halt_rules]: "halted f \<Longrightarrow> (\<And>a. halted (g a)) \<Longrightarrow> halted (State_Monad.bind f g)"
  by (simp add: halted_def split_beta)

lemma halted_ret [halt_rules]: "halted (ret a)"
  by (simp add: halted_def)

lemma halted_if [halt_rules]: "halted f \<Longrightarrow> halted g \<Longrightarrow> halted (if b then f else g)"
  by simp

lemma halted_if_then [halt_rules]: "halted f \<Longrightarrow> halted (if_then b f)"
  by (simp add: if_then_def halted_def)

lemma halted_discard [halt_rules]: "halted f \<Longrightarrow> halted (discard f)"
  by (simp add: discard_def halted_def split_beta)

lemma halted_case_option [halt_rules]:
  "halted f \<Longrightarrow> (\<And>x. halted (g x)) \<Longrightarrow> halted (case r of None \<Rightarrow> f | Some x \<Rightarrow> g x)"
  by (cases r) auto

lemma halted_is_err [halt_rules]: "halted f \<Longrightarrow> halted (is_err f)"
  unfolding is_err_def by (intro halt_rules)

lemma halted_and_then [halt_rules]: "halted f \<Longrightarrow> halted (and_then b f)"
  unfolding and_then_def by (intro halt_rules)

lemma halted_action [halt_rules]: "halted (action d f)"
  by (simp add: halted_def)

lemma halted_complete [halt_rules]: "halted (complete m k)"
  unfolding complete_def by (rule halted_action)

lemma halted_finish_node [halt_rules]: "halted (finish_node m k)"
  unfolding finish_node_def complete_def by (intro halt_rules)

lemma halted_while_loop [halt_rules]: "halted f \<Longrightarrow> halted (while_loop n c f)"
  by (induction n) (simp_all add: halt_def gets_def halted_bind halted_action halted_ret)

lemma halted_loop [halt_rules]: "halted f \<Longrightarrow> halted (loop n f)"
  by (induction n) (simp_all add: halt_def halted_bind halted_action halted_ret)

lemma halted_loop_with [halt_rules]: "(\<And>x. halted (f x)) \<Longrightarrow> halted (loop_with n x f)"
  by (induction n arbitrary: x) (simp_all add: halt_def halted_bind halted_action halted_ret)

lemmas halted_leaf = halted_flows [where ms = "[]"]

lemma halted_resource [halt_rules]: "halted (resource (java_grammar n))"
  by (rule halted_flows [OF java.flow_resource [of "[]" "[tok TRY_KW [] 0]"]])
    (simp_all add: has_kind_def tok_def)

lemma halted_expr_led [halt_rules]: "halted (expr_led (java_grammar n) m k left)"
  by (rule halted_flows [OF java.flow_expr_led [of "[]" "[]"]]) simp

lemma halted_statement [halt_rules]: "halted (statement (java_grammar n))"
  by (rule halted_leaf [OF java.flow_statement]) simp

end
