(* ===== verification/Behaviour.thy ===== *)
theory Behaviour imports Execution begin

text \<open>
  What single operations of the parser do: the effect of a failed expectation, error
  recovery, lookahead under a checkpoint, where the operator loop stops, and loops that
  never end.
\<close>

subsection \<open>Expectations\<close>

definition report :: "parse_error \<Rightarrow> parser \<Rightarrow> parser" where
  "report e p =
     p\<lparr>events := events p @ [Error e, StartNode MISSING None, FinishNode],
       errors := errors p @ [e]\<rparr>"

definition expected_error :: "syntax_kind list \<Rightarrow> parser \<Rightarrow> parse_error" where
  "expected_error ks p =
     \<lparr>err_kind = ExpectedToken ks (current p),
      err_range = (if current p = None then range_empty (range_end (last_token_range p))
                   else current_token_range p)\<rparr>"

lemma run_error_expected:
  "run_state (error_expected ks) (Run p) = ((), Run (report (expected_error ks p) p))"
  by (simp add: error_expected_def error_at_def start_def finish_node_def discard_def complete_def
      report_def expected_error_def Let_def push_event_def nth_opt_def nth_append list_update_append)

lemma report_queries [simp]:
  "source (report e p) = source p" "override_token (report e p) = override_token p"
  "current (report e p) = current p" "is_at_end (report e p) = is_at_end p"
  by (simp_all add: report_def current_def is_at_end_def at_def cong: option.case_cong)

lemma run_eat:
  "run_state (eat k) (Run p) = (if at k p then (True, Run (bump_parser p)) else (False, Run p))"
  by (simp add: eat_def bump_def)

lemma run_expect:
  "run_state (expect k) (Run p) =
     (if at k p then (True, Run (bump_parser p))
      else (False, Run (report (expected_error [k] p) p)))"
  by (simp add: expect_def run_eat run_error_expected)

lemma run_marker: "run_state start (Run p) = (length (events p), Run (push_event Tombstone p))"
  by (simp add: start_def)

lemma run_finish_node:
  "nth_opt (events p) m = Some Tombstone \<Longrightarrow> run_state (finish_node m k) (Run p) =
     ((), Run (push_event FinishNode (p\<lparr>events := (events p)[m := StartNode k None]\<rparr>)))"
  "run_state (finish_node m k) (Stop e) = ((), Stop e)"
  by (simp_all add: finish_node_def discard_def complete_def)

text \<open>Without an override, the parser moves along the tokens that are not trivia.\<close>

lemma nth_kind_0: "nth_kind 0 p = current p"
  by (simp add: nth_kind_def current_def source_current_def split: option.split)

lemma bump_shifts:
  assumes "override_token p = None" and "current p \<noteq> None"
  shows "override_token (bump_parser p) = None" and "nth_kind i (bump_parser p) = nth_kind (Suc i) p"
    and "cursor (source (bump_parser p)) = Suc (cursor (source p))"
proof -
  obtain t where t: "source_nth 0 (source p) = Some t"
    using assms by (auto simp: current_def source_current_def)
  note c = source_nth_Some [OF t]
  show "override_token (bump_parser p) = None"
    using assms(1) t by (simp add: bump_parser_def Let_def)
  show "cursor (source (bump_parser p)) = Suc (cursor (source p))"
    using assms(1) t c by (simp add: bump_parser_def Let_def source_bump_def)
  show "nth_kind i (bump_parser p) = nth_kind (Suc i) p"
    using assms(1) t c
    by (simp add: bump_parser_def Let_def source_bump_def nth_kind_def source_nth_def
        cong: option.case_cong)
qed

subsection \<open>Loops that never end\<close>

lemma while_loop_diverges:
  assumes "J p"
    and step: "\<And>q. J q \<Longrightarrow> c q \<and>
      (run_state body (Run q) = ((), Stop OutOfFuel) \<or>
       (\<exists>r. run_state body (Run q) = ((), Run r) \<and> J r))"
    and "halted body"
  shows "run_state (while_loop n c body) (Run p) = ((), Stop OutOfFuel)"
  using assms(1)
proof (induction n arbitrary: p)
  case 0
  show ?case by (simp add: halt_def)
next
  case (Suc n)
  have h: "run_state (while_loop n c body) (Stop e) = ((), Stop e)" for e
    using halted_while_loop [OF assms(3), of n c] by (simp add: halted_def prod_eq_iff)
  from step [OF Suc.prems] Suc.IH h show ?case by auto
qed

text \<open>A recovery loop that is already at one of its tokens consumes nothing.\<close>

lemma recover_until_here:
  assumes "current p = Some k" and "List.member ks k"
  shows "run_state (recover_until G ks) (Run p) =
    ((), if g_fuel G = 0 then Stop OutOfFuel else Run p)"
  using assms
  by (cases "g_fuel G") (simp_all add: recover_until_def recover_until_internal_def halt_def)

text \<open>
  In a switch block, a token that starts no label is skipped up to the next of \<^verbatim>\<open>case\<close>,
  \<^verbatim>\<open>default\<close> and the braces; an opening brace is such a token itself, and stops the recovery
  at once.
\<close>

lemma recover_until_or_eat_here:
  assumes "current p = Some k" and "List.member ks k" and "k \<noteq> e"
  shows "run_state (recover_until_or_eat G ks e) (Run p) =
    ((), if g_fuel G = 0 then Stop OutOfFuel else Run p)"
  using assms(3) recover_until_here [OF assms(1,2), of G] assms(1)
  by (simp add: recover_until_or_eat_def discard_def run_eat at_def)
    (simp add: eat_def bump_def split_beta)

lemma switch_block_stuck:
  assumes "override_token p = None" and "nth_kind 0 p = Some L_BRACE"
    and "nth_kind 1 p = Some L_BRACE"
  shows "run_state (switch_block (java_grammar n)) (Run p) = ((), Stop OutOfFuel)"
proof -
  let ?G = "java_grammar n"
  let ?body = "do { p \<leftarrow> view;
                  if at CASE_KW p \<or> at DEFAULT_KW p then
                    (if is_switch_rule p then switch_rule ?G else switch_block_statement_group ?G)
                  else
                    do { error_expected [CASE_KW, DEFAULT_KW];
                         recover_switch_statement ?G } }"
  let ?c = "\<lambda>p. \<not> at R_BRACE p \<and> \<not> at EOF p"
  let ?p = "push_event Tombstone p"
  let ?q = "bump_parser ?p"
  have p: "override_token ?p = None" "current ?p = Some L_BRACE" "nth_kind 1 ?p = Some L_BRACE"
    using assms by (simp_all add: push_event_def nth_kind_def current_def source_current_def)
  hence q: "current ?q = Some L_BRACE" using bump_shifts [OF p(1)] nth_kind_0 [of ?q] by simp
  have h: "halted ?body"
    by (rule halt_rules | (rule halted_leaf, (rule flow_rules; simp)))+
  have "run_state ?body (Run r) = ((), Stop OutOfFuel) \<or>
      (\<exists>r'. run_state ?body (Run r) = ((), Run r') \<and> current r' = Some L_BRACE)"
    if "current r = Some L_BRACE" for r
    using that
    by (auto simp: view_def at_def run_error_expected recover_switch_statement_def
        recover_until_here)
  moreover have "?c r" if "current r = Some L_BRACE" for r using that by (simp add: at_def)
  ultimately have l: "run_state (while_g ?G ?c ?body) (Run ?q) = ((), Stop OutOfFuel)"
    using q h by (intro while_loop_diverges [where J = "\<lambda>r. current r = Some L_BRACE"]) blast+
  have "halted (do { expect' R_BRACE; finish_node m SWITCH_BLOCK })" for m
    by (rule halt_rules | (rule halted_leaf, (rule flow_rules; simp)))+
  hence "run_state (do { expect' R_BRACE; finish_node m SWITCH_BLOCK }) (Stop e) = ((), Stop e)" for m e
    by (simp add: halted_def prod_eq_iff)
  with l p(2) show ?thesis
    unfolding switch_block_def
    by (simp add: run_control run_marker run_expect at_def [of L_BRACE] del: run_state_bind
        cong: run_congs)
qed

text \<open>
  In a module body, a token at which \<^verbatim>\<open>recover_member\<close> stops and that starts no directive is
  never consumed.
\<close>

definition stuck_directive_kinds :: "syntax_kind list" where
  "stuck_directive_kinds =
     [CLASS_KW, INTERFACE_KW, ENUM_KW, PUBLIC_KW, PRIVATE_KW, PROTECTED_KW, STATIC_KW, FINAL_KW,
      ABSTRACT_KW, DEFAULT_KW, AT]"

lemma stuck_directive_kinds_recover:
  "List.member stuck_directive_kinds k \<Longrightarrow>
   List.member [SEMICOLON, R_BRACE, CLASS_KW, INTERFACE_KW, ENUM_KW, PUBLIC_KW, PRIVATE_KW,
     PROTECTED_KW, STATIC_KW, FINAL_KW, ABSTRACT_KW, DEFAULT_KW, AT] k \<and>
   k \<notin> {IDENTIFIER, SEMICOLON, R_BRACE, EOF}"
  by (auto simp: stuck_directive_kinds_def)

lemma run_error_expected_construct:
  "run_state (error_expected_construct c) (Run p) =
     (let e = \<lparr>err_kind = ExpectedConstruct c, err_range = current_token_range p\<rparr>
      in ((), Run (p\<lparr>events := events p @ [Error e], errors := errors p @ [e]\<rparr>)))"
  by (simp add: error_expected_construct_def error_def error_at_def push_event_def Let_def)

lemma module_directive_stuck:
  assumes "current p = Some k" and "List.member stuck_directive_kinds k"
  shows "run_state (module_directive G) (Run p) = ((), Stop OutOfFuel) \<or>
    (\<exists>q. run_state (module_directive G) (Run p) = ((), Run q) \<and> current q = Some k)"
proof -
  have k: "List.member [SEMICOLON, R_BRACE, CLASS_KW, INTERFACE_KW, ENUM_KW, PUBLIC_KW, PRIVATE_KW,
     PROTECTED_KW, STATIC_KW, FINAL_KW, ABSTRACT_KW, DEFAULT_KW, AT] k"
    "k \<noteq> IDENTIFIER" "k \<noteq> SEMICOLON" "k \<noteq> R_BRACE" "k \<noteq> EOF"
    using stuck_directive_kinds_recover [OF assms(2)] by auto
  let ?e = "\<lparr>err_kind = ExpectedConstruct ModuleDirective,
      err_range = current_token_range (push_event Tombstone p)\<rparr>"
  let ?p = "p\<lparr>events := events p @ [Tombstone, Error ?e], errors := errors p @ [?e]\<rparr>"
  let ?q = "p\<lparr>events := events p @ [StartNode ERROR None, Error ?e, FinishNode],
      errors := errors p @ [?e]\<rparr>"
  have c: "current (push_event Tombstone p) = Some k" "current ?p = Some k" "current ?q = Some k"
    using assms(1) by (simp_all add: current_def cong: option.case_cong)
  have n: "\<not> at_contextual_kw kw (push_event Tombstone p)" for kw
    using c(1) k(2) by (simp add: at_contextual_kw_def)
  have r: "run_state (recover_member G) (Run ?p) = ((), if g_fuel G = 0 then Stop OutOfFuel else Run ?p)"
    unfolding recover_member_def by (rule recover_until_or_eat_here [OF c(2) k(1,3)])
  have "run_state (module_directive G) (Run p) =
      resume (run_state (recover_member G) (Run ?p)) (\<lambda>_. finish_node (length (events p)) ERROR)"
    unfolding module_directive_def using n
    by (simp add: run_control run_marker run_error_expected_construct Let_def
        del: run_state_bind cong: run_congs) (simp add: push_event_def)
  also have "\<dots> = ((), if g_fuel G = 0 then Stop OutOfFuel else Run ?q)"
    unfolding r
    by (simp add: run_control run_finish_node nth_opt_def nth_append list_update_append)
      (simp add: push_event_def)
  finally show ?thesis using c(3) by auto
qed

lemma module_body_stuck:
  assumes "override_token p = None" and "nth_kind 0 p = Some L_BRACE"
    and "nth_kind 1 p = Some k" and "List.member stuck_directive_kinds k"
  shows "run_state (module_body G) (Run p) = ((), Stop OutOfFuel)"
proof -
  let ?c = "\<lambda>p. \<not> at_set (tokenset [EOF, R_BRACE]) p"
  let ?p = "push_event Tombstone p"
  let ?q = "bump_parser ?p"
  have p: "override_token ?p = None" "current ?p = Some L_BRACE" "nth_kind 1 ?p = Some k"
    using assms by (simp_all add: push_event_def nth_kind_def current_def source_current_def)
  hence q: "current ?q = Some k" using bump_shifts [OF p(1)] nth_kind_0 [of ?q] by simp
  have h: "halted (module_directive G)"
    by (rule halted_leaf [OF flow_module_directive]) simp
  have "?c r" if "current r = Some k" for r
    using that stuck_directive_kinds_recover [OF assms(4)] by (simp add: run_at_set)
  with module_directive_stuck [OF _ assms(4)] q h
  have l: "run_state (while_g G ?c (module_directive G)) (Run ?q) = ((), Stop OutOfFuel)"
    by (intro while_loop_diverges [where J = "\<lambda>r. current r = Some k"]) blast+
  have "halted (do { expect' R_BRACE; finish_node m MODULE_BODY })" for m
    by (rule halt_rules | (rule halted_leaf, (rule flow_rules; simp)))+
  hence "run_state (do { expect' R_BRACE; finish_node m MODULE_BODY }) (Stop e) = ((), Stop e)" for m e
    by (simp add: halted_def prod_eq_iff)
  with l p(2) show ?thesis
    unfolding module_body_def
    by (simp add: run_control run_marker run_expect at_def [of L_BRACE] del: run_state_bind
        cong: run_congs)
qed

subsection \<open>Where the operator loop stops\<close>

definition no_operator_at :: "nat \<Rightarrow> parser \<Rightarrow> bool" where
  "no_operator_at min_bp p =
     (case current p of
        None \<Rightarrow> True
      | Some k \<Rightarrow>
          (case get_infix_bp k of
             None \<Rightarrow> True
           | Some bp \<Rightarrow> fst bp < min_bp))"

lemma halted_snd: "halted f \<Longrightarrow> run_state f (Stop e) = (a, s) \<Longrightarrow> s = Stop e"
  by (metis halted_def snd_conv)

lemma led_step_halted: "halted (led_step (java_grammar n) kind r m)"
  by (rule halted_flows [OF java.flow_led_step [of "[]" "[]"]]) simp

lemma expr_led_exit:
  "run_state (expr_led (java_grammar n) min_bp k left) (Run p) = (Some c, Run q) \<Longrightarrow>
   no_operator_at min_bp q"
proof (induction k arbitrary: left p)
  case 0
  thus ?case by (simp add: halt_def)
next
  case (Suc k)
  show ?case
  proof (cases "no_operator_at min_bp p")
    case True
    with Suc.prems show ?thesis
      by (auto simp: view_def no_operator_at_def split: option.splits)
  next
    case False
    then obtain kind bp where kb: "current p = Some kind" "get_infix_bp kind = Some bp"
        "\<not> fst bp < min_bp"
      by (auto simp: no_operator_at_def split: option.splits)
    obtain m s1 where 1: "run_state (precede left) (Run p) = (m, s1)" by (rule prod.exhaust)
    obtain r s2 where 2: "run_state (led_step (java_grammar n) kind (snd bp) m) s1 = (r, s2)"
      by (rule prod.exhaust)
    from Suc.prems kb 1 2
    have 3: "run_state (case r of None \<Rightarrow> ret None
        | Some left \<Rightarrow> expr_led (java_grammar n) min_bp k left) s2 = (Some c, Run q)"
      by (simp add: view_def)
    then obtain l where l: "run_state (expr_led (java_grammar n) min_bp k l) s2 = (Some c, Run q)"
      by (cases r) auto
    show ?thesis
    proof (cases s2)
      case (Run p2)
      with l Suc.IH show ?thesis by simp
    next
      case (Stop e)
      with l halted_snd [OF halted_expr_led] show ?thesis by blast
    qed
  qed
qed

lemma expr_bp_exit:
  assumes "run_state (Expr.expr_bp (java_grammar n) min_bp) (Run p) = (Some c, Run q)"
  shows "no_operator_at min_bp q"
proof -
  obtain r s where 1: "run_state (expr_prefix (java_grammar n)) (Run p) = (r, s)"
    by (rule prod.exhaust)
  with assms obtain l where l:
    "run_state (expr_led (java_grammar n) min_bp (g_fuel (java_grammar n)) l) s = (Some c, Run q)"
    by (cases r) (auto simp: expr_bp_def)
  show ?thesis
  proof (cases s)
    case (Run p2)
    with l expr_led_exit show ?thesis by blast
  next
    case (Stop e)
    with l halted_snd [OF halted_expr_led] show ?thesis by blast
  qed
qed

subsection \<open>Error recovery\<close>

text \<open>
  \<open>skips j ks p q\<close>: \<open>q\<close> is \<open>p\<close> after taking \<open>j\<close> tokens, none of them in \<open>ks\<close> or the end of
  the file.
\<close>

definition skips :: "nat \<Rightarrow> syntax_kind list \<Rightarrow> parser \<Rightarrow> parser \<Rightarrow> bool" where
  "skips j ks p q \<longleftrightarrow>
     (\<forall>i<j. \<exists>k. nth_kind i p = Some k \<and> k \<noteq> EOF \<and> \<not> List.member ks k) \<and>
     (\<forall>i. nth_kind i q = nth_kind (i + j) p) \<and> override_token q = None \<and>
     cursor (source q) = cursor (source p) + j \<and>
     events q = events p @ replicate j AddToken \<and> errors q = errors p"

lemma bump_records:
  assumes "override_token p = None" and "current p \<noteq> None"
  shows "events (bump_parser p) = events p @ [AddToken]" and "errors (bump_parser p) = errors p"
    and "indices (source (bump_parser p)) = indices (source p)"
    and "cursor (source p) < length (indices (source p))"
  using assms source_nth_Some [of 0 "source p"]
  by (auto simp: bump_parser_def Let_def current_def source_current_def source_bump_def)

lemma current_in_source:
  "override_token p = None \<Longrightarrow> current p = Some k \<Longrightarrow> cursor (source p) < length (indices (source p))"
  by (rule bump_records(4)) auto

lemma skips_Suc:
  assumes p: "override_token p = None" "current p = Some k" "k \<noteq> EOF" "\<not> List.member ks k"
    and q: "skips j ks (bump_parser p) q"
  shows "skips (Suc j) ks p q"
proof -
  have c: "current p \<noteq> None" using p(2) by simp
  note b = bump_shifts [OF p(1) c] bump_records [OF p(1) c]
  have "\<exists>k. nth_kind i p = Some k \<and> k \<noteq> EOF \<and> \<not> List.member ks k" if "i < Suc j" for i
  proof (cases i)
    case 0
    with p show ?thesis by (simp add: nth_kind_0)
  next
    case (Suc i')
    with that q b(2) show ?thesis by (auto simp: skips_def)
  qed
  with q b show ?thesis by (auto simp: skips_def)
qed

lemma recover_loop:
  fixes ks
  defines "c \<equiv> \<lambda>p. \<not> is_at_end p \<and>
    \<not> (case current p of None \<Rightarrow> False | Some kind \<Rightarrow> List.member ks kind \<or> False)"
  assumes "override_token p = None"
    and "length (indices (source p)) - cursor (source p) < n"
  shows "\<exists>j q. run_state (while_loop n c bump) (Run p) = ((), Run q) \<and> skips j ks p q \<and> \<not> c q"
  using assms(2,3)
proof (induction n arbitrary: p)
  case (Suc n)
  show ?case
  proof (cases "c p")
    case False
    have "skips 0 ks p p" using Suc.prems(1) by (simp add: skips_def)
    with False show ?thesis by auto
  next
    case True
    hence "\<not> source_is_at_end (source p)" by (simp add: c_def is_at_end_def)
    hence "current p \<noteq> None"
      using Suc.prems(1) by (simp add: current_def source_current_def source_nth_def nth_opt_def
          source_is_at_end_def)
    then obtain k where k: "current p = Some k" by auto
    with True have k2: "k \<noteq> EOF" "\<not> List.member ks k" by (auto simp: c_def is_at_end_def at_def)
    let ?p = "bump_parser p"
    have c: "current p \<noteq> None" using k by simp
    note b = bump_shifts [OF Suc.prems(1) c] bump_records [OF Suc.prems(1) c]
    from b Suc.prems(2) have "length (indices (source ?p)) - cursor (source ?p) < n" by simp
    from Suc.IH [OF b(1) this] obtain j q where
      "run_state (while_loop n c bump) (Run ?p) = ((), Run q)" "skips j ks ?p q" "\<not> c q" by blast
    with True skips_Suc [OF Suc.prems(1) k k2] show ?thesis by (auto simp: bump_def)
  qed
qed simp

lemma recover_until_total:
  assumes "override_token p = None"
    and "length (indices (source p)) - cursor (source p) < g_fuel G"
  shows "\<exists>j q. run_state (recover_until G ks) (Run p) = ((), Run q) \<and> skips j ks p q \<and>
    (is_at_end q \<or> (\<exists>k. current q = Some k \<and> List.member ks k))"
proof -
  from recover_loop [OF assms, of ks] obtain j q where
    "run_state (recover_until G ks) (Run p) = ((), Run q)" "skips j ks p q"
    "is_at_end q \<or> (case current q of None \<Rightarrow> False | Some k \<Rightarrow> List.member ks k \<or> False)"
    unfolding recover_until_def recover_until_internal_def by blast
  thus ?thesis by (auto split: option.splits)
qed

subsection \<open>Lookahead under a checkpoint\<close>

definition same_position :: "parser \<Rightarrow> parser \<Rightarrow> bool" where
  "same_position p q \<longleftrightarrow> source q = source p \<and> events q = events p \<and> errors q = errors p"

lemma shape_checkpoint:
  assumes "consistent T p"
  shows "shape (events p) [Chk (checkpoint_of p)] (events p)"
  using assms by (auto simp: consistent_def checkpoint_of_def intro: seg_Nil)

text \<open>Whatever was parsed since the checkpoint, rewinding forgets it.\<close>

lemma rewind_restores:
  assumes p: "consistent T p" and q: "consistent T q"
    and sh: "shape (events p) [Chk (checkpoint_of p)] (events q)"
  shows "\<exists>r. run_state (rewind (checkpoint_of p)) (Run q) = ((), Run r) \<and> same_position p r"
proof -
  from sh obtain xs ys where e: "events q = (events p @ xs) @ ys"
    and l: "length (events p @ xs) = length (events p)"
    by (auto simp: checkpoint_of_def)
  hence t: "take (length (events p)) (events q) = events p" by simp
  have "cursor (source p) \<le> length (indices (source p))" "indices (source q) = indices (source p)"
    using p q unfolding consistent_def by auto
  hence "cursor (source p) \<le> length (indices (source q))" by simp
  moreover have "take (length (errors p)) (errors q) = errors p"
    using p q e by (simp add: consistent_def)
  moreover have "source q\<lparr>cursor := cursor (source p)\<rparr> = source p"
    using p q by (simp add: consistent_def)
  ultimately show ?thesis
    using t by (simp add: rewind_def source_set_pos_def checkpoint_of_def same_position_def)
qed

text \<open>An action that ends by rewinding to a checkpoint taken at \<open>p\<close>.\<close>

definition restores :: "token list \<Rightarrow> parser \<Rightarrow> 'a parse \<Rightarrow> bool" where
  "restores T p f \<longleftrightarrow> halted f \<and>
     (\<forall>q b s. consistent T q \<longrightarrow> shape (events p) [Chk (checkpoint_of p)] (events q) \<longrightarrow>
        run_state f (Run q) = (b, Run s) \<longrightarrow> same_position p s)"

named_theorems restore_rules

lemma restores_rewind [restore_rules]:
  assumes "consistent T p"
  shows "restores T p (State_Monad.bind (rewind (checkpoint_of p)) (\<lambda>_. ret x))"
  unfolding restores_def
proof (intro conjI allI impI)
  show "halted (State_Monad.bind (rewind (checkpoint_of p)) (\<lambda>_. ret x))"
    unfolding rewind_def by (intro halt_rules)
next
  fix q b s
  assume q: "consistent T q" "shape (events p) [Chk (checkpoint_of p)] (events q)"
    and run: "run_state (State_Monad.bind (rewind (checkpoint_of p)) (\<lambda>_. ret x)) (Run q) = (b, Run s)"
  from rewind_restores [OF assms q] run show "same_position p s" by auto
qed

lemma restores_bind [restore_rules]:
  assumes f: "flows T [Chk (checkpoint_of p)] f (\<lambda>_. [Chk (checkpoint_of p)])"
    and h: "\<And>a. restores T p (h a)"
  shows "restores T p (State_Monad.bind f h)"
  unfolding restores_def
proof (intro conjI allI impI)
  show "halted (State_Monad.bind f h)"
    using h by (intro halted_bind halted_flows [OF f]) (simp add: restores_def)
next
  fix q b s
  assume q: "consistent T q" "shape (events p) [Chk (checkpoint_of p)] (events q)"
    and run: "run_state (State_Monad.bind f h) (Run q) = (b, Run s)"
  from f q show "same_position p s"
  proof (cases rule: flowsE)
    case (run a q')
    with h [of a] \<open>run_state (State_Monad.bind f h) _ = _\<close> show ?thesis by (auto simp: restores_def)
  next
    case (stop a e)
    with halted_snd [of "h a" e b "Run s"] h [of a] run show ?thesis by (auto simp: restores_def)
  qed
qed

lemma restores_if [restore_rules]:
  "restores T p f \<Longrightarrow> restores T p g \<Longrightarrow> restores T p (if b then f else g)"
  by simp

lemma restores_case_option [restore_rules]:
  "restores T p f \<Longrightarrow> (\<And>x. restores T p (g x)) \<Longrightarrow>
   restores T p (case r of None \<Rightarrow> f | Some x \<Rightarrow> g x)"
  by (cases r) auto

lemma run_checkpoint:
  "run_state (State_Monad.bind checkpoint h) (Run p) = run_state (h (checkpoint_of p)) (Run p)"
  by (simp add: checkpoint_def)

lemma checkpoint_restores:
  assumes "consistent T p" and "restores T p (h (checkpoint_of p))"
    and "run_state (State_Monad.bind checkpoint h) (Run p) = (b, Run q)"
  shows "same_position p q"
  using assms shape_checkpoint [OF assms(1)] unfolding run_checkpoint restores_def by blast

lemma nodone_Chk [restore_rules]: "nodone [Chk c]"
  by simp

lemma is_pattern_restores:
  "consistent T p \<Longrightarrow> run_state (is_pattern (java_grammar n)) (Run p) = (b, Run q) \<Longrightarrow>
   same_position p q"
  unfolding is_pattern_def
  by (erule checkpoint_restores [rotated 2])
    (assumption | rule restore_rules flow_rules)+

lemma is_type_cast_lookahead_restores:
  "consistent T p \<Longrightarrow>
   run_state (is_type_cast_lookahead (java_grammar n)) (Run p) = (b, Run q) \<Longrightarrow> same_position p q"
  unfolding is_type_cast_lookahead_def
  by (erule checkpoint_restores [rotated 2])
    (assumption | rule restore_rules flow_rules)+

lemma scan_for_separator_restores:
  "consistent T p \<Longrightarrow> run_state (scan_for_separator G) (Run p) = (b, Run q) \<Longrightarrow>
   same_position p q"
  unfolding scan_for_separator_def Let_def
  by (erule checkpoint_restores [rotated 2])
    (assumption | rule restore_rules flow_rules)+

subsection \<open>Balanced parentheses\<close>

text \<open>How the nesting changes over the tokens from \<open>i\<close> to \<open>j\<close>.\<close>

definition paren_change :: "syntax_kind option \<Rightarrow> int" where
  "paren_change k = (if k = Some L_PAREN then 1 else if k = Some R_PAREN then - 1 else 0)"

definition paren_level :: "parser \<Rightarrow> nat \<Rightarrow> nat \<Rightarrow> int" where
  "paren_level p i j = (\<Sum>m \<in> {i..<j}. paren_change (nth_kind m p))"

text \<open>\<open>j\<close> is the first index after \<open>i\<close> at which \<open>d\<close> open parentheses are closed.\<close>

definition closes_at :: "parser \<Rightarrow> nat \<Rightarrow> nat \<Rightarrow> nat \<Rightarrow> bool" where
  "closes_at p d i j \<longleftrightarrow>
     i \<le> j \<and> int d + paren_level p i j = 0 \<and>
     (\<forall>m. i \<le> m \<longrightarrow> m < j \<longrightarrow> 0 < int d + paren_level p i m \<and>
        nth_kind m p \<noteq> None \<and> nth_kind m p \<noteq> Some EOF)"

lemma paren_level_first: "i < j \<Longrightarrow> paren_level p i j = paren_change (nth_kind i p) + paren_level p (Suc i) j"
  by (simp add: paren_level_def sum.atLeast_Suc_lessThan)

lemma paren_level_empty [simp]: "paren_level p i i = 0"
  by (simp add: paren_level_def)

lemma closes_at_0: "closes_at p 0 i j \<longleftrightarrow> i = j"
  by (auto simp: closes_at_def)

lemma closes_at_step:
  assumes "0 < d"
  shows "closes_at p d i j \<longleftrightarrow>
    nth_kind i p \<noteq> None \<and> nth_kind i p \<noteq> Some EOF \<and>
    closes_at p (nat (int d + paren_change (nth_kind i p))) (Suc i) j"
proof -
  define e where "e = nat (int d + paren_change (nth_kind i p))"
  have e: "int e = int d + paren_change (nth_kind i p)"
    using assms by (simp add: e_def paren_change_def)
  have l: "int d + paren_level p i m = int e + paren_level p (Suc i) m" if "i < m" for m
    using paren_level_first [OF that, of p] e by simp
  show ?thesis
    unfolding e_def [symmetric]
  proof
    assume c: "closes_at p d i j"
    with assms have ij: "i < j" by (cases "i = j") (auto simp: closes_at_def)
    with c have "nth_kind i p \<noteq> None \<and> nth_kind i p \<noteq> Some EOF" by (simp add: closes_at_def)
    moreover have "closes_at p e (Suc i) j"
      unfolding closes_at_def
    proof (intro conjI allI impI)
      show "Suc i \<le> j" using ij by simp
      show "int e + paren_level p (Suc i) j = 0" using c l [OF ij] by (simp add: closes_at_def)
      fix m assume m: "Suc i \<le> m" "m < j"
      hence "0 < int d + paren_level p i m" using c by (simp add: closes_at_def)
      with l [of m] m show "0 < int e + paren_level p (Suc i) m" by simp
      show "nth_kind m p \<noteq> None" "nth_kind m p \<noteq> Some EOF"
        using c m by (simp_all add: closes_at_def)
    qed
    ultimately show "nth_kind i p \<noteq> None \<and> nth_kind i p \<noteq> Some EOF \<and> closes_at p e (Suc i) j"
      by blast
  next
    assume c: "nth_kind i p \<noteq> None \<and> nth_kind i p \<noteq> Some EOF \<and> closes_at p e (Suc i) j"
    show "closes_at p d i j"
      unfolding closes_at_def
    proof (intro conjI allI impI)
      show "i \<le> j" using c by (simp add: closes_at_def)
      show "int d + paren_level p i j = 0" using c l [of j] by (simp add: closes_at_def)
      fix m assume m: "i \<le> m" "m < j"
      show "0 < int d + paren_level p i m"
        using assms c l [of m] m by (cases "m = i") (auto simp: closes_at_def)
      show "nth_kind m p \<noteq> None" "nth_kind m p \<noteq> Some EOF"
        using c m by (cases "m = i"; simp add: closes_at_def)+
    qed
  qed
qed

lemma skip_parens_iff: "skip_parens p d i = Some j \<longleftrightarrow> closes_at p d i j"
proof (induction p d i rule: skip_parens.induct)
  case (1 p d i)
  show ?case
  proof (cases "d = 0")
    case True
    thus ?thesis by (subst skip_parens.simps) (auto simp: closes_at_0)
  next
    case False
    hence d: "0 < d" by simp
    show ?thesis
    proof (cases "nth_kind i p = None \<or> nth_kind i p = Some EOF")
      case True
      with d show ?thesis
        by (subst skip_parens.simps) (auto simp: closes_at_step)
    next
      case False
      then obtain k where k: "nth_kind i p = Some k" "k \<noteq> EOF" by auto
      have "nat (int d + paren_change (Some k)) =
          (if k = L_PAREN then d + 1 else if k = R_PAREN then d - 1 else d)"
        using d by (auto simp: paren_change_def)
      with 1 d k show ?thesis
        by (subst skip_parens.simps) (simp add: closes_at_step)
    qed
  qed
qed

subsection \<open>Splitting shift tokens\<close>

text \<open>Closing a list of type arguments at \<^verbatim>\<open>>>\<close> or \<^verbatim>\<open>>>>\<close>, without an override.\<close>

lemma run_expect_gt_split:
  assumes "override_token p = None" and "source_nth 0 (source p) = Some t"
    and "split_at (tok_lexeme t) 1 = Some (a, b)"
    and "tok_kind t = RIGHT_SHIFT \<and> k = GREATER \<or> tok_kind t = UNSIGNED_RIGHT_SHIFT \<and> k = RIGHT_SHIFT"
  shows "run_state expect_gt (Run p) =
    ((), Run (p\<lparr>events := events p @ [AddVirtualToken RIGHT_SHIFT a],
               override_token := Some \<lparr>tok_kind = k, tok_lexeme = b, tok_offset = tok_offset t + 1\<rparr>\<rparr>))"
  using assms
  by (auto simp: expect_gt_def view_def current_def source_current_def split_token_def push_event_def)

lemma run_expect_gt_split_again:
  assumes "override_token p = Some o1" and "tok_kind o1 = RIGHT_SHIFT"
    and "source_nth 0 (source p) = Some t" and "split_at (tok_lexeme t) 1 = Some (a, b)"
  shows "run_state expect_gt (Run p) =
    ((), Run (p\<lparr>events := events p @ [AddVirtualToken RIGHT_SHIFT a],
               override_token := Some \<lparr>tok_kind = GREATER, tok_lexeme = b, tok_offset = tok_offset t + 1\<rparr>\<rparr>))"
  using assms
  by (simp add: expect_gt_def view_def current_def split_token_def push_event_def)

lemma run_expect_gt_bump:
  assumes "current p = Some GREATER"
  shows "run_state expect_gt (Run p) = ((), Run (bump_parser p))"
  using assms by (simp add: expect_gt_def view_def bump_def)

end
