(* ===== verification/Reader.thy ===== *)
theory Reader imports Parser begin

text \<open>
  The unicode reader of \<^verbatim>\<open>crates/java-syntax/src/reader.rs\<close>: a cursor over the bytes of the
  source that translates the \<^verbatim>\<open>\uXXXX\<close> escapes as it goes. A character is its code point; a
  text is its bytes, as in \<open>Parser\<close>. A result \<open>None\<close> is a panic: slicing a \<^verbatim>\<open>str\<close> off a
  character boundary.
\<close>

subsection \<open>UTF-8, as far as \<^verbatim>\<open>str\<close> and \<^verbatim>\<open>char\<close> need it\<close>

definition scalar :: "nat \<Rightarrow> bool" where
  "scalar c = (c < 0xD800 \<or> 0xDFFF < c \<and> c < 0x110000)"

definition len_utf8 :: "nat \<Rightarrow> nat" where
  "len_utf8 c = (if c < 0x80 then 1 else if c < 0x800 then 2 else if c < 0x10000 then 3 else 4)"

text \<open>\<^verbatim>\<open>char::len_utf16\<close>\<close>

definition len_utf16 :: "nat \<Rightarrow> nat" where
  "len_utf16 c = (if c < 0x10000 then 1 else 2)"

definition encode_utf8 :: "nat \<Rightarrow> string" where
  "encode_utf8 c =
     (if c < 0x80 then [char_of c]
      else if c < 0x800 then [char_of (0xC0 + c div 64), char_of (0x80 + c mod 64)]
      else if c < 0x10000 then
        [char_of (0xE0 + c div 4096), char_of (0x80 + c div 64 mod 64), char_of (0x80 + c mod 64)]
      else
        [char_of (0xF0 + c div 262144), char_of (0x80 + c div 4096 mod 64),
         char_of (0x80 + c div 64 mod 64), char_of (0x80 + c mod 64)])"

definition continuation :: "char \<Rightarrow> nat" where
  "continuation b = (of_char b :: nat) mod 64"

text \<open>\<^verbatim>\<open>s.chars().next().unwrap_or('\0')\<close>\<close>

fun first_char :: "string \<Rightarrow> nat" where
  "first_char [] = 0"
| "first_char (b # bs) =
     (let n = (of_char b :: nat) in
      if n < 0x80 then n
      else case bs of
        [] \<Rightarrow> 0
      | b1 # bs1 \<Rightarrow>
          if n < 0xE0 then (n mod 32) * 64 + continuation b1
          else case bs1 of
            [] \<Rightarrow> 0
          | b2 # bs2 \<Rightarrow>
              if n < 0xF0 then (n mod 16) * 4096 + continuation b1 * 64 + continuation b2
              else case bs2 of
                [] \<Rightarrow> 0
              | b3 # _ \<Rightarrow>
                  (n mod 8) * 262144 + continuation b1 * 4096 + continuation b2 * 64 +
                  continuation b3)"

text \<open>The invariant of a \<^verbatim>\<open>str\<close>: it encodes a list of scalar values.\<close>

definition utf8 :: "string \<Rightarrow> bool" where
  "utf8 s \<longleftrightarrow> (\<exists>cs. list_all scalar cs \<and> s = concat (map encode_utf8 cs))"

text \<open>\<^verbatim>\<open>&s[a..b]\<close>\<close>

definition slice :: "string \<Rightarrow> nat \<Rightarrow> nat \<Rightarrow> string option" where
  "slice s a b =
     (if a \<le> b \<and> is_char_boundary s a \<and> is_char_boundary s b then Some (take (b - a) (drop a s))
      else None)"

subsection \<open>The state\<close>

text \<open>A \<^verbatim>\<open>UnicodeEscapeError\<close> is a range.\<close>

record source_reader =
  rd_source :: string
  rd_start :: nat
  rd_current :: nat
  rd_errors :: "text_range list"

definition reader_new :: "string \<Rightarrow> source_reader" where
  "reader_new s = \<lparr>rd_source = s, rd_start = 0, rd_current = 0, rd_errors = []\<rparr>"

definition new_token :: "source_reader \<Rightarrow> source_reader" where
  "new_token r = r\<lparr>rd_start := rd_current r\<rparr>"

definition reader_is_at_end :: "source_reader \<Rightarrow> bool" where
  "reader_is_at_end r = (length (rd_source r) \<le> rd_current r)"

definition current_token_lexeme_raw :: "source_reader \<Rightarrow> string option" where
  "current_token_lexeme_raw r = slice (rd_source r) (rd_start r) (rd_current r)"

subsection \<open>Scanning one character\<close>

definition backslash :: char where
  "backslash = CHR 0x5C"

definition count_preceding_backslashes :: "string \<Rightarrow> nat \<Rightarrow> nat" where
  "count_preceding_backslashes s offset =
     length (takeWhile (\<lambda>b. b = backslash) (rev (take offset s)))"

definition hex_digit :: "char \<Rightarrow> nat option" where
  "hex_digit b =
     (let n = (of_char b :: nat) in
      if 48 \<le> n \<and> n \<le> 57 then Some (n - 48)
      else if 65 \<le> n \<and> n \<le> 70 then Some (n - 55)
      else if 97 \<le> n \<and> n \<le> 102 then Some (n - 87)
      else None)"

definition from_hex :: "string \<Rightarrow> nat" where
  "from_hex bs = foldl (\<lambda>n b. 16 * n + the (hex_digit b)) 0 bs"

text \<open>The index after the \<^verbatim>\<open>u\<close>s that follow a backslash.\<close>

definition hex_place :: "string \<Rightarrow> nat \<Rightarrow> nat" where
  "hex_place s offset =
     offset + 1 + length (takeWhile (\<lambda>b. b = CHR ''u'') (drop (offset + 1) s))"

text \<open>\<^verbatim>\<open>Ok((code, len))\<close> is \<open>Inr\<close>, \<^verbatim>\<open>Err(len)\<close> is \<open>Inl\<close>.\<close>

definition scan_code_unit :: "string \<Rightarrow> nat \<Rightarrow> (nat + nat \<times> nat) option" where
  "scan_code_unit s offset =
     (if length s \<le> offset then Some (Inr (0, 0))
      else if s ! offset \<noteq> backslash then
        (if is_char_boundary s offset then
           (let c = first_char (drop offset s) in Some (Inr (c, len_utf8 c)))
         else None)
      else if odd (count_preceding_backslashes s offset) then Some (Inr (92, 1))
      else
        (let next = offset + 1 in
         if length s \<le> next \<or> s ! next \<noteq> CHR ''u'' then Some (Inr (92, 1))
         else
           (let hex_start = hex_place s offset;
                hex_end = hex_start + 4
            in if length s < hex_end then Some (Inl (length s - offset))
               else
                 (case slice s hex_start hex_end of
                    None \<Rightarrow> None
                  | Some hex_str \<Rightarrow>
                      if \<not> list_all (\<lambda>b. hex_digit b \<noteq> None) hex_str
                      then Some (Inl (hex_end - offset))
                      else Some (Inr (from_hex hex_str, hex_end - offset))))))"

datatype scan_result = Char_scan nat nat | InvalidEscape nat

definition scan_at :: "string \<Rightarrow> nat \<Rightarrow> scan_result option" where
  "scan_at s offset =
     (case scan_code_unit s offset of
        None \<Rightarrow> None
      | Some (Inl err_len) \<Rightarrow> Some (InvalidEscape err_len)
      | Some (Inr (code1, len1)) \<Rightarrow>
          if scalar code1 then Some (Char_scan code1 len1)
          else if 0xD800 \<le> code1 \<and> code1 \<le> 0xDBFF then
            (case scan_code_unit s (offset + len1) of
               None \<Rightarrow> None
             | Some (Inl _) \<Rightarrow> Some (InvalidEscape len1)
             | Some (Inr (code2, len2)) \<Rightarrow>
                 if 0xDC00 \<le> code2 \<and> code2 \<le> 0xDFFF then
                   Some (Char_scan
                     (semiring_bit_operations_class.or
                       (0x10000 + push_bit 10 (code1 - 0xD800)) (code2 - 0xDC00))
                     (len1 + len2))
                 else Some (InvalidEscape len1))
          else Some (InvalidEscape len1))"

definition logical_char_at :: "string \<Rightarrow> nat \<Rightarrow> nat option" where
  "logical_char_at s offset =
     (case scan_at s offset of
        None \<Rightarrow> None
      | Some (Char_scan c _) \<Rightarrow> Some c
      | Some (InvalidEscape _) \<Rightarrow> Some 92)"

definition logical_len_at :: "string \<Rightarrow> nat \<Rightarrow> nat option" where
  "logical_len_at s offset =
     (case scan_at s offset of
        None \<Rightarrow> None
      | Some (Char_scan _ len) \<Rightarrow> Some len
      | Some (InvalidEscape _) \<Rightarrow> Some 1)"

subsection \<open>Operations\<close>

primrec peek_from :: "string \<Rightarrow> nat \<Rightarrow> nat \<Rightarrow> nat option" where
  "peek_from s 0 offset = logical_char_at s offset"
| "peek_from s (Suc n) offset =
     (case logical_len_at s offset of
        None \<Rightarrow> None
      | Some len \<Rightarrow> if len = 0 then Some 0 else peek_from s n (offset + len))"

definition peek_n :: "nat \<Rightarrow> source_reader \<Rightarrow> nat option" where
  "peek_n n r = peek_from (rd_source r) n (rd_current r)"

definition peek :: "source_reader \<Rightarrow> nat option" where
  "peek r = peek_n 0 r"

definition peek_next :: "source_reader \<Rightarrow> nat option" where
  "peek_next r = peek_n 1 r"

text \<open>An ill-formed escape is read as its backslash, and recorded.\<close>

definition take_backslash :: "nat \<Rightarrow> source_reader \<Rightarrow> source_reader" where
  "take_backslash len r =
     r\<lparr>rd_errors := rd_errors r @ [range_at (rd_current r) len], rd_current := rd_current r + 1\<rparr>"

definition advance_if_matches :: "nat \<Rightarrow> source_reader \<Rightarrow> (bool \<times> source_reader) option" where
  "advance_if_matches expected r =
     (case scan_at (rd_source r) (rd_current r) of
        None \<Rightarrow> None
      | Some (Char_scan c len) \<Rightarrow>
          if c = expected then Some (True, r\<lparr>rd_current := rd_current r + len\<rparr>)
          else Some (False, r)
      | Some (InvalidEscape len) \<Rightarrow>
          if expected = 92 then Some (True, take_backslash len r) else Some (False, r))"

definition matches_str :: "string \<Rightarrow> source_reader \<Rightarrow> bool option" where
  "matches_str expected r =
     (if is_char_boundary (rd_source r) (rd_current r)
      then Some (take (length expected) (drop (rd_current r) (rd_source r)) = expected) else None)"

definition advance_if_matches_str :: "string \<Rightarrow> source_reader \<Rightarrow> (bool \<times> source_reader) option" where
  "advance_if_matches_str expected r =
     (case matches_str expected r of
        None \<Rightarrow> None
      | Some b \<Rightarrow>
          Some (b, if b then r\<lparr>rd_current := rd_current r + length expected\<rparr> else r))"

definition advance :: "source_reader \<Rightarrow> (nat \<times> source_reader) option" where
  "advance r =
     (case scan_at (rd_source r) (rd_current r) of
        None \<Rightarrow> None
      | Some (Char_scan c len) \<Rightarrow> Some (c, r\<lparr>rd_current := rd_current r + len\<rparr>)
      | Some (InvalidEscape len) \<Rightarrow> Some (92, take_backslash len r))"

text \<open>
  The loop of \<^verbatim>\<open>translate_unicode_escapes\<close>: each round takes at least a byte, so the length of
  the text bounds their number.
\<close>

primrec translate_loop :: "nat \<Rightarrow> source_reader \<Rightarrow> string \<Rightarrow> string option" where
  "translate_loop 0 r out = (if reader_is_at_end r then Some out else None)"
| "translate_loop (Suc n) r out =
     (if reader_is_at_end r then Some out
      else case advance r of
             None \<Rightarrow> None
           | Some (c, r) \<Rightarrow> translate_loop n r (out @ encode_utf8 c))"

definition translate_unicode_escapes :: "string \<Rightarrow> string option" where
  "translate_unicode_escapes text =
     (if backslash \<notin> set text then Some text
      else translate_loop (length text) (reader_new text) [])"

definition current_token_lexeme :: "source_reader \<Rightarrow> string option" where
  "current_token_lexeme r =
     (case current_token_lexeme_raw r of
        None \<Rightarrow> None
      | Some text \<Rightarrow> translate_unicode_escapes text)"

end
