(* ===== verification/ReaderFacts.thy ===== *)
theory ReaderFacts imports Reader begin

text \<open>
  What the unicode reader guarantees on a valid \<^verbatim>\<open>str\<close>: it stays on character boundaries, each
  step takes at least a byte, and it panics only on a malformed escape whose four places cut a
  character in two.
\<close>

subsection \<open>Encoded text\<close>

lemma utf8_Nil [simp]: "utf8 []"
  by (auto simp: utf8_def intro: exI [of _ "[]"])

lemma utf8_encode [intro]: "scalar c \<Longrightarrow> utf8 t \<Longrightarrow> utf8 (encode_utf8 c @ t)"
  unfolding utf8_def by (metis concat.simps(2) list.pred_inject(2) list.simps(9))

lemma utf8E:
  assumes "utf8 s" and "s \<noteq> []"
  obtains c t where "scalar c" "s = encode_utf8 c @ t" "utf8 t"
proof -
  from assms obtain cs where cs: "list_all scalar cs" "s = concat (map encode_utf8 cs)"
    by (auto simp: utf8_def)
  with assms(2) obtain c cs' where "cs = c # cs'" by (cases cs) auto
  with cs that show thesis by (auto simp: utf8_def)
qed

lemma length_encode [simp]: "length (encode_utf8 c) = len_utf8 c"
  by (simp add: encode_utf8_def len_utf8_def)

lemma len_utf8_pos [simp]: "0 < len_utf8 c" "len_utf8 c \<noteq> 0"
  by (simp_all add: len_utf8_def)

lemma encode_not_Nil [simp]: "encode_utf8 c \<noteq> []"
  using len_utf8_pos(2) [of c] length_encode [of c] by (metis list.size(3))

lemma of_char_of: "n < 256 \<Longrightarrow> (of_char (char_of n) :: nat) = n"
  by simp

lemma lead_mod:
  fixes x :: nat
  shows "x < 32 \<Longrightarrow> (192 + x) mod 32 = x" "x < 16 \<Longrightarrow> (224 + x) mod 16 = x"
    "x < 8 \<Longrightarrow> (240 + x) mod 8 = x" "x < 64 \<Longrightarrow> (128 + x) mod 64 = x"
  using mod_mult_self1 [of x 6 32] mod_mult_self1 [of x 14 16] mod_mult_self1 [of x 30 8]
    mod_mult_self1 [of x 2 64] by (simp_all add: add.commute)

lemma first_char_bytes:
  "a < 32 \<Longrightarrow> b < 64 \<Longrightarrow>
     first_char (char_of (192 + a :: nat) # char_of (128 + b :: nat) # t) = a * 64 + b"
  "a < 16 \<Longrightarrow> b < 64 \<Longrightarrow> c < 64 \<Longrightarrow>
     first_char (char_of (224 + a :: nat) # char_of (128 + b :: nat) # char_of (128 + c :: nat) # t) =
       a * 4096 + b * 64 + c"
  "a < 8 \<Longrightarrow> b < 64 \<Longrightarrow> c < 64 \<Longrightarrow> d < 64 \<Longrightarrow>
     first_char (char_of (240 + a :: nat) # char_of (128 + b :: nat) # char_of (128 + c :: nat) #
       char_of (128 + d :: nat) # t) = a * 262144 + b * 4096 + c * 64 + d"
  by (simp_all add: continuation_def Let_def lead_mod)

lemma digits_64:
  fixes c :: nat
  shows "c div 64 * 64 + c mod 64 = c"
    "c div 4096 * 4096 + c div 64 mod 64 * 64 + c mod 64 = c"
    "c div 262144 * 262144 + c div 4096 mod 64 * 4096 + c div 64 mod 64 * 64 + c mod 64 = c"
proof -
  have d: "c div 4096 = c div 64 div 64" "c div 262144 = c div 64 div 64 div 64"
    by (simp_all add: div_mult2_eq [symmetric])
  have e: "c = 64 * (c div 64) + c mod 64" "c div 64 = 64 * (c div 64 div 64) + c div 64 mod 64"
    "c div 64 div 64 = 64 * (c div 64 div 64 div 64) + c div 64 div 64 mod 64" by simp_all
  show "c div 64 * 64 + c mod 64 = c" by simp
  show "c div 4096 * 4096 + c div 64 mod 64 * 64 + c mod 64 = c" unfolding d using e by linarith
  show "c div 262144 * 262144 + c div 4096 mod 64 * 4096 + c div 64 mod 64 * 64 + c mod 64 = c"
    unfolding d using e by linarith
qed

lemma first_char_encode:
  assumes "scalar c"
  shows "first_char (encode_utf8 c @ t) = c"
proof -
  have c: "c < 0x110000" using assms by (auto simp: scalar_def)
  have m: "c mod 64 < 64" "c div 64 mod 64 < 64" "c div 4096 mod 64 < 64" by simp_all
  consider "c < 0x80" | "0x80 \<le> c" "c < 0x800" | "0x800 \<le> c" "c < 0x10000" | "0x10000 \<le> c"
    by linarith
  thus ?thesis
  proof cases
    case 2
    hence q: "c div 64 < 32" by (simp add: div_less_iff_less_mult)
    have "encode_utf8 c @ t = char_of (192 + c div 64) # char_of (128 + c mod 64) # t"
      using 2 by (simp add: encode_utf8_def)
    hence "first_char (encode_utf8 c @ t) = c div 64 * 64 + c mod 64"
      by (simp only: first_char_bytes(1) [OF q m(1)])
    thus ?thesis by (simp only: digits_64)
  next
    case 3
    hence q: "c div 4096 < 16" by (simp add: div_less_iff_less_mult)
    have "encode_utf8 c @ t =
        char_of (224 + c div 4096) # char_of (128 + c div 64 mod 64) # char_of (128 + c mod 64) # t"
      using 3 by (simp add: encode_utf8_def)
    hence "first_char (encode_utf8 c @ t) = c div 4096 * 4096 + c div 64 mod 64 * 64 + c mod 64"
      by (simp only: first_char_bytes(2) [OF q m(2,1)])
    thus ?thesis by (simp only: digits_64)
  next
    case 4
    have q: "c div 262144 < 8" using c by (simp add: div_less_iff_less_mult)
    have "encode_utf8 c @ t =
        char_of (240 + c div 262144) # char_of (128 + c div 4096 mod 64) #
        char_of (128 + c div 64 mod 64) # char_of (128 + c mod 64) # t"
      using 4 by (simp add: encode_utf8_def)
    hence "first_char (encode_utf8 c @ t) =
        c div 262144 * 262144 + c div 4096 mod 64 * 4096 + c div 64 mod 64 * 64 + c mod 64"
      by (simp only: first_char_bytes(3) [OF q m(3,2,1)])
    thus ?thesis by (simp only: digits_64)
  qed (simp add: encode_utf8_def Let_def)
qed

text \<open>The first byte of a character is no continuation byte, and an ASCII byte is a character.\<close>

lemma encode_first_byte:
  assumes "scalar c"
  shows "\<not> (128 \<le> (of_char (hd (encode_utf8 c)) :: nat) \<and> (of_char (hd (encode_utf8 c)) :: nat) < 192)"
proof -
  have "c < 0x110000" using assms by (auto simp: scalar_def)
  hence "c < 0x800 \<Longrightarrow> c div 64 < 64" "c < 0x10000 \<Longrightarrow> c div 4096 < 32" "c div 262144 < 16"
    by (simp_all add: div_less_iff_less_mult)
  thus ?thesis by (simp add: encode_utf8_def)
qed

lemma encode_ascii:
  assumes "scalar c" and "(of_char (hd (encode_utf8 c)) :: nat) < 128"
  shows "len_utf8 c = 1"
proof -
  have "c < 0x110000" using assms by (auto simp: scalar_def)
  hence "c < 0x800 \<Longrightarrow> c div 64 < 64" "c < 0x10000 \<Longrightarrow> c div 4096 < 32" "c div 262144 < 16"
    by (simp_all add: div_less_iff_less_mult)
  with assms(2) show ?thesis by (simp add: encode_utf8_def len_utf8_def split: if_splits)
qed

subsection \<open>Character boundaries\<close>

definition boundary :: "string \<Rightarrow> nat \<Rightarrow> bool" where
  "boundary s i = (i \<le> length s \<and> utf8 (drop i s))"

lemma boundary_0: "boundary s 0 = utf8 s"
  by (simp add: boundary_def)

lemma boundary_le: "boundary s i \<Longrightarrow> i \<le> length s"
  by (simp add: boundary_def)

lemma boundary_end [simp]: "boundary s (length s)"
  by (simp add: boundary_def)

lemma boundaryE:
  assumes "boundary s i" and "i < length s"
  obtains c t where "scalar c" "drop i s = encode_utf8 c @ t" "first_char (drop i s) = c"
    "boundary s (i + len_utf8 c)" "i + len_utf8 c \<le> length s"
proof -
  from assms have "utf8 (drop i s)" "drop i s \<noteq> []" by (auto simp: boundary_def)
  then obtain c t where c: "scalar c" "drop i s = encode_utf8 c @ t" "utf8 t"
    by (rule utf8E)
  have "drop (i + len_utf8 c) s = drop (len_utf8 c) (drop i s)" by (simp add: add.commute)
  hence d: "drop (i + len_utf8 c) s = t" by (simp add: c(2))
  have "length (drop i s) = len_utf8 c + length t" by (simp add: c(2))
  hence "i + len_utf8 c \<le> length s" using assms(2) by simp
  with c d that [of c t] show thesis by (simp add: boundary_def first_char_encode)
qed

lemma hd_drop: "i < length s \<Longrightarrow> hd (drop i s) = s ! i"
  by (rule hd_drop_conv_nth)

lemma boundary_char: "boundary s i \<Longrightarrow> is_char_boundary s i"
proof (cases "i < length s")
  case True
  assume "boundary s i"
  from this True obtain c t where c: "scalar c" "drop i s = encode_utf8 c @ t" by (rule boundaryE)
  have "s ! i = hd (encode_utf8 c)" using hd_drop [OF True] by (simp add: c(2))
  with encode_first_byte [OF c(1)] True show ?thesis by (simp add: is_char_boundary_def)
qed (auto simp: boundary_def is_char_boundary_def)

lemma boundary_ascii:
  assumes "boundary s i" and "i < length s" and "(of_char (s ! i) :: nat) < 128"
  shows "boundary s (i + 1)"
proof -
  from assms(1,2) obtain c t where c: "scalar c" "drop i s = encode_utf8 c @ t"
    "boundary s (i + len_utf8 c)" by (rule boundaryE)
  have "s ! i = hd (encode_utf8 c)" using hd_drop [OF assms(2)] by (simp add: c(2))
  with encode_ascii [OF c(1)] assms(3) have "len_utf8 c = 1" by simp
  with c(3) show ?thesis by simp
qed

lemma boundary_ascii_run:
  assumes "boundary s i" and "i + n \<le> length s"
    and "\<And>j. j < n \<Longrightarrow> (of_char (s ! (i + j)) :: nat) < 128"
  shows "boundary s (i + n)"
  using assms
proof (induction n)
  case (Suc n)
  hence "boundary s (i + n)" by simp
  from boundary_ascii [OF this] Suc.prems(2) Suc.prems(3) [of n] show ?case by simp
qed simp

lemma slice_boundaries:
  "boundary s a \<Longrightarrow> boundary s b \<Longrightarrow> a \<le> b \<Longrightarrow> slice s a b = Some (take (b - a) (drop a s))"
  by (simp add: slice_def boundary_char)

subsection \<open>One character\<close>

text \<open>
  Every escape that has four more bytes ends on a character boundary; a source for which this
  holds never makes the reader panic.
\<close>

definition escapes_ok :: "string \<Rightarrow> bool" where
  "escapes_ok s \<longleftrightarrow>
     (\<forall>i<length s. s ! i = backslash \<and> i + 1 < length s \<and> s ! (i + 1) = CHR ''u'' \<and>
        hex_place s i + 4 \<le> length s \<longrightarrow> is_char_boundary s (hex_place s i + 4))"

lemma backslash_code [simp]: "(of_char backslash :: nat) = 92"
  by (simp add: backslash_def)

lemma nth_takeWhile_drop:
  "j < length (takeWhile P (drop k s)) \<Longrightarrow> P (s ! (k + j)) \<and> k + j < length s"
  using nth_mem [of j "takeWhile P (drop k s)"] takeWhile_nth [of j P "drop k s"]
    length_takeWhile_le [of P "drop k s"]
  by (auto dest: set_takeWhileD)

lemma boundary_hex_place:
  assumes "boundary s i" and "i < length s" and "s ! i = backslash"
  shows "boundary s (hex_place s i)"
proof -
  let ?n = "length (takeWhile (\<lambda>b. b = CHR ''u'') (drop (i + 1) s))"
  have b: "boundary s (i + 1)" using boundary_ascii [OF assms(1,2)] assms(3) by simp
  have "boundary s (i + 1 + ?n)"
  proof (rule boundary_ascii_run [OF b])
    show "i + 1 + ?n \<le> length s"
      using length_takeWhile_le [of "\<lambda>b. b = CHR ''u''" "drop (i + 1) s"] assms(2) by simp
    show "(of_char (s ! (i + 1 + j)) :: nat) < 128" if "j < ?n" for j
      using nth_takeWhile_drop [OF that] by simp
  qed
  thus ?thesis by (simp add: hex_place_def)
qed

lemma hex_digit_ascii: "hex_digit b \<noteq> None \<Longrightarrow> (of_char b :: nat) < 128"
  by (simp add: hex_digit_def Let_def split: if_splits)

lemma scan_code_unit_end: "length s \<le> i \<Longrightarrow> scan_code_unit s i = Some (Inr (0, 0))"
  by (simp add: scan_code_unit_def)

lemma scan_code_unit_char:
  "i < length s \<Longrightarrow> s ! i \<noteq> backslash \<Longrightarrow> boundary s i \<Longrightarrow>
     scan_code_unit s i = Some (Inr (first_char (drop i s), len_utf8 (first_char (drop i s))))"
  by (simp add: scan_code_unit_def boundary_char Let_def)

text \<open>The three outcomes at a backslash.\<close>

lemma scan_code_unit_backslash:
  assumes b: "boundary s i" and i: "i < length s" "s ! i = backslash"
  obtains (plain) "scan_code_unit s i = Some (Inr (92, 1))" "boundary s (i + 1)"
  | (bad) n where "scan_code_unit s i = Some (Inl n)" "0 < n"
  | (escape) c n where "scan_code_unit s i = Some (Inr (c, n))" "0 < n" "boundary s (i + n)"
  | (panic) "scan_code_unit s i = None" "\<not> escapes_ok s"
proof -
  let ?h = "hex_place s i"
  have b1: "boundary s (i + 1)" using boundary_ascii [OF b i(1)] i(2) by simp
  have bh: "boundary s ?h" using b i by (rule boundary_hex_place)
  have hi: "i < ?h" by (simp add: hex_place_def)
  consider "odd (count_preceding_backslashes s i) \<or> length s \<le> i + 1 \<or> s ! (i + 1) \<noteq> CHR ''u''"
    | "even (count_preceding_backslashes s i)" "i + 1 < length s" "s ! (i + 1) = CHR ''u''"
      "length s < ?h + 4"
    | "even (count_preceding_backslashes s i)" "i + 1 < length s" "s ! (i + 1) = CHR ''u''"
      "?h + 4 \<le> length s" by linarith
  thus thesis
  proof cases
    case 1
    with i b1 plain show thesis by (simp add: scan_code_unit_def)
  next
    case 2
    with i have "scan_code_unit s i = Some (Inl (length s - i))"
      by (simp add: scan_code_unit_def Let_def)
    with i bad show thesis by simp
  next
    case 3
    let ?x = "slice s ?h (?h + 4)"
    have eq: "scan_code_unit s i =
        (case ?x of None \<Rightarrow> None
         | Some x \<Rightarrow> if \<not> list_all (\<lambda>b. hex_digit b \<noteq> None) x then Some (Inl (?h + 4 - i))
                   else Some (Inr (from_hex x, ?h + 4 - i)))"
      using i 3 by (simp add: scan_code_unit_def Let_def)
    show thesis
    proof (cases ?x)
      case None
      hence "\<not> is_char_boundary s (?h + 4)" using boundary_char [OF bh] by (auto simp: slice_def split: if_splits)
      with 3 i have "\<not> escapes_ok s" unfolding escapes_ok_def by blast
      with eq None panic show thesis by simp
    next
      case (Some x)
      hence x: "x = take 4 (drop ?h s)" by (simp add: slice_def split: if_splits)
      show thesis
      proof (cases "list_all (\<lambda>b. hex_digit b \<noteq> None) x")
        case True
        have "boundary s (?h + 4)"
        proof (rule boundary_ascii_run [OF bh 3(4)])
          fix j :: nat assume j: "j < 4"
          with 3(4) have "s ! (?h + j) \<in> set x"
            using nth_mem [of j x] by (simp add: x)
          with True show "(of_char (s ! (?h + j)) :: nat) < 128"
            by (simp add: list_all_iff hex_digit_ascii)
        qed
        with eq Some True hi escape [of "from_hex x" "?h + 4 - i"] show thesis by simp
      next
        case False
        with eq Some hi bad [of "?h + 4 - i"] show thesis by simp
      qed
    qed
  qed
qed

lemma scan_code_unit_outcome:
  assumes "boundary s i"
  shows "case scan_code_unit s i of
      None \<Rightarrow> \<not> escapes_ok s
    | Some (Inl n) \<Rightarrow> i < length s \<and> s ! i = backslash
    | Some (Inr (c, n)) \<Rightarrow> boundary s (i + n) \<and> (n = 0 \<longleftrightarrow> i = length s) \<and> (n = 0 \<longrightarrow> c = 0)"
proof (cases "i < length s")
  case True
  show ?thesis
  proof (cases "s ! i = backslash")
    case bs: True
    show ?thesis
      using assms True bs by (rule scan_code_unit_backslash) (use True bs in auto)
  next
    case False
    from assms True obtain c t where "first_char (drop i s) = c" "boundary s (i + len_utf8 c)"
      by (rule boundaryE)
    with scan_code_unit_char [OF True False assms] True len_utf8_pos [of c] show ?thesis by simp
  qed
next
  case False
  with boundary_le [OF assms] have "i = length s" by simp
  thus ?thesis by (simp add: scan_code_unit_end)
qed

lemma scan_at_outcome:
  assumes b: "boundary s i"
  shows "case scan_at s i of
      None \<Rightarrow> \<not> escapes_ok s
    | Some (InvalidEscape n) \<Rightarrow> i < length s \<and> boundary s (i + 1)
    | Some (Char_scan c n) \<Rightarrow> boundary s (i + n) \<and> (n = 0 \<longleftrightarrow> i = length s) \<and> (n = 0 \<longrightarrow> c = 0)"
proof -
  have bs: "boundary s (i + 1)" if "i < length s" "s ! i = backslash"
    using boundary_ascii [OF b that(1)] that(2) by simp
  note u = scan_code_unit_outcome [OF b]
  show ?thesis
  proof (cases "scan_code_unit s i")
    case None
    with u show ?thesis by (simp add: scan_at_def)
  next
    case (Some r)
    show ?thesis
    proof (cases r)
      case (Inl n)
      with Some u bs show ?thesis by (simp add: scan_at_def)
    next
      case (Inr cn)
      obtain c n where cn: "cn = (c, n)" by (cases cn)
      with Some Inr u have o: "boundary s (i + n)" "n = 0 \<longleftrightarrow> i = length s" "n = 0 \<longrightarrow> c = 0"
        by simp_all
      show ?thesis
      proof (cases "scalar c")
        case True
        with Some Inr cn o show ?thesis by (simp add: scan_at_def)
      next
        case False
        hence "n \<noteq> 0" using o(3) by (auto simp: scalar_def)
        hence i: "i < length s" using o(2) boundary_le [OF b] by simp
        have bsi: "s ! i = backslash"
        proof (rule ccontr)
          assume "s ! i \<noteq> backslash"
          from scan_code_unit_char [OF i this b] Some Inr cn have "c = first_char (drop i s)" by simp
          moreover from b i obtain c' t where "scalar c'" "first_char (drop i s) = c'" by (rule boundaryE)
          ultimately show False using False by simp
        qed
        note v = scan_code_unit_outcome [OF o(1)]
        show ?thesis
          using Some Inr cn False v \<open>n \<noteq> 0\<close> bs [OF i bsi] i
          by (auto simp: scan_at_def add.assoc split: option.splits sum.splits if_splits)
      qed
    qed
  qed
qed

subsection \<open>Operations of the reader\<close>

definition at_boundary :: "source_reader \<Rightarrow> bool" where
  "at_boundary r = boundary (rd_source r) (rd_current r)"

definition forward :: "source_reader \<Rightarrow> source_reader \<Rightarrow> bool" where
  "forward r r' \<longleftrightarrow> rd_source r' = rd_source r \<and> rd_start r' = rd_start r \<and>
     rd_current r \<le> rd_current r' \<and> at_boundary r'"

lemma reader_not_at_end: "at_boundary r \<Longrightarrow> rd_current r \<noteq> length (rd_source r) \<Longrightarrow> \<not> reader_is_at_end r"
  using boundary_le [of "rd_source r" "rd_current r"]
  by (simp add: at_boundary_def reader_is_at_end_def)

lemma advance_outcome:
  assumes "at_boundary r"
  shows "case advance r of
      None \<Rightarrow> \<not> escapes_ok (rd_source r)
    | Some (c, r') \<Rightarrow> forward r r' \<and> peek r = Some c \<and>
        (rd_current r < rd_current r' \<or> reader_is_at_end r \<and> r' = r)"
  using scan_at_outcome [OF assms [unfolded at_boundary_def]]
  by (auto simp: advance_def peek_def peek_n_def logical_char_at_def forward_def at_boundary_def
      take_backslash_def reader_is_at_end_def split: option.splits scan_result.splits)

lemma peek_outcome:
  assumes "at_boundary r"
  shows "case peek r of None \<Rightarrow> \<not> escapes_ok (rd_source r) | Some c \<Rightarrow> reader_is_at_end r \<longrightarrow> c = 0"
  using scan_at_outcome [OF assms [unfolded at_boundary_def]] boundary_le [OF assms [unfolded at_boundary_def]]
  by (auto simp: peek_def peek_n_def logical_char_at_def reader_is_at_end_def
      split: option.splits scan_result.splits)

lemma peek_from_outcome:
  "boundary s i \<Longrightarrow> peek_from s n i = None \<Longrightarrow> \<not> escapes_ok s"
proof (induction n arbitrary: i)
  case 0
  thus ?case using scan_at_outcome [OF 0(1)]
    by (auto simp: logical_char_at_def split: option.splits scan_result.splits)
next
  case (Suc n)
  from Suc.prems show ?case using scan_at_outcome [OF Suc.prems(1)] Suc.IH
    by (auto simp: logical_len_at_def split: option.splits scan_result.splits if_splits)
qed

lemma peek_n_outcome: "at_boundary r \<Longrightarrow> peek_n n r = None \<Longrightarrow> \<not> escapes_ok (rd_source r)"
  unfolding at_boundary_def peek_n_def by (rule peek_from_outcome)

lemma advance_if_matches_outcome:
  assumes "at_boundary r"
  shows "case advance_if_matches e r of
      None \<Rightarrow> \<not> escapes_ok (rd_source r)
    | Some (b, r') \<Rightarrow> forward r r' \<and>
        (if b then peek r = Some e \<and> (rd_current r < rd_current r' \<or> e = 0) else r' = r)"
  using scan_at_outcome [OF assms [unfolded at_boundary_def]] assms
  by (auto simp: advance_if_matches_def peek_def peek_n_def logical_char_at_def forward_def
      at_boundary_def take_backslash_def split: option.splits scan_result.splits)

lemma advance_if_matches_str_outcome:
  assumes "at_boundary r" and "list_all (\<lambda>b. (of_char b :: nat) < 128) e"
  shows "case advance_if_matches_str e r of
      None \<Rightarrow> False
    | Some (b, r') \<Rightarrow> forward r r' \<and>
        (if b then rd_current r' = rd_current r + length e else r' = r)"
proof -
  let ?s = "rd_source r" and ?i = "rd_current r"
  have b: "boundary ?s ?i" using assms(1) by (simp add: at_boundary_def)
  show ?thesis
  proof (cases "take (length e) (drop ?i ?s) = e")
    case True
    hence "length (take (length e) (drop ?i ?s)) = length e" by simp
    hence l: "?i + length e \<le> length ?s" using boundary_le [OF b] by simp
    have "boundary ?s (?i + length e)"
    proof (rule boundary_ascii_run [OF b l])
      fix j assume j: "j < length e"
      hence "?s ! (?i + j) = e ! j"
        using l by (subst True [symmetric]) simp
      with assms(2) j show "(of_char (?s ! (?i + j)) :: nat) < 128" by (simp add: list_all_length)
    qed
    with True b show ?thesis
      by (simp add: advance_if_matches_str_def matches_str_def boundary_char forward_def
          at_boundary_def)
  next
    case False
    with b show ?thesis
      by (simp add: advance_if_matches_str_def matches_str_def boundary_char forward_def
          at_boundary_def)
  qed
qed

subsection \<open>Lexemes\<close>

lemma encode_tail:
  assumes "scalar c" and "0 < j" and "j < len_utf8 c"
  shows "128 \<le> (of_char (encode_utf8 c ! j) :: nat) \<and> (of_char (encode_utf8 c ! j) :: nat) < 192"
proof -
  have "c < 0x110000" using assms(1) by (auto simp: scalar_def)
  have m: "128 + x mod 64 < (192 :: nat)" for x by (simp add: less_mult_imp_div_less)
  have "j = 1 \<and> 0x80 \<le> c \<or> j = 2 \<and> 0x800 \<le> c \<or> j = 3 \<and> 0x10000 \<le> c"
    using assms(2,3) unfolding len_utf8_def by (simp split: if_splits; arith)
  then consider "j = 1" "0x80 \<le> c" | "j = 2" "0x800 \<le> c" | "j = 3" "0x10000 \<le> c" by blast
  thus ?thesis by cases (use m in \<open>simp_all add: encode_utf8_def\<close>)
qed

lemma utf8_take:
  assumes "boundary s a" and "boundary s b" and "a \<le> b"
  shows "utf8 (take (b - a) (drop a s))"
  using assms
proof (induction "b - a" arbitrary: a rule: less_induct)
  case less
  show ?case
  proof (cases "a = b")
    case False
    with less.prems have ab: "a < b" "b \<le> length s" by (auto simp: boundary_def)
    obtain c t where c: "scalar c" "drop a s = encode_utf8 c @ t" "boundary s (a + len_utf8 c)"
      using less.prems(1) ab by (auto elim: boundaryE)
    have "a + len_utf8 c \<le> b"
    proof (rule ccontr)
      assume h: "\<not> a + len_utf8 c \<le> b"
      hence "b < length s" using boundary_le [OF c(3)] by simp
      moreover have "b - a < len_utf8 c" using ab h by linarith
      hence "s ! b = encode_utf8 c ! (b - a)"
        using arg_cong [OF c(2), of "\<lambda>x. x ! (b - a)"] ab by (simp add: nth_append)
      ultimately show False
        using encode_tail [OF c(1), of "b - a"] ab h boundary_char [OF less.prems(2)]
        by (simp add: is_char_boundary_def)
    qed
    moreover have "utf8 (take (b - (a + len_utf8 c)) (drop (a + len_utf8 c) s))"
    proof (rule less.hyps)
      show "b - (a + len_utf8 c) < b - a" using ab len_utf8_pos(1) [of c] by linarith
    qed (use less.prems(2) c(3) \<open>a + len_utf8 c \<le> b\<close> in simp_all)
    moreover have "drop (a + len_utf8 c) s = t"
      using arg_cong [OF c(2), of "drop (len_utf8 c)"] by (simp add: add.commute)
    ultimately show ?thesis using c(1,2) by (auto simp: take_append)
  qed simp
qed

lemma takeWhile_take_stop:
  assumes "length (takeWhile P (take n xs)) < n" and "length (takeWhile P (take n xs)) < length xs"
  shows "takeWhile P xs = takeWhile P (take n xs)"
proof -
  let ?m = "length (takeWhile P (take n xs))"
  have "?m < length (take n xs)" using assms by simp
  hence "\<not> P (take n xs ! ?m)" by (rule nth_length_takeWhile)
  hence "\<exists>x\<in>set (take n xs). \<not> P x" using \<open>?m < length (take n xs)\<close> nth_mem by blast
  thus ?thesis by (metis append_take_drop_id takeWhile_append1)
qed

lemma is_char_boundary_slice:
  assumes "is_char_boundary s (a + k)" and "k \<le> length (take n (drop a s))" and "a \<le> length s"
  shows "is_char_boundary (take n (drop a s)) k"
proof (cases "k = length (take n (drop a s)) \<or> k = 0")
  case False
  hence "k < length (take n (drop a s))" using assms(2) by linarith
  hence "take n (drop a s) ! k = s ! (a + k)" "a + k < length s" using assms(3) by auto
  with assms(1) \<open>k < _\<close> False show ?thesis by (simp add: is_char_boundary_def)
qed (auto simp: is_char_boundary_def)

lemma escapes_ok_slice:
  assumes "escapes_ok s" and "b \<le> length s"
  shows "escapes_ok (take (b - a) (drop a s))"
  unfolding escapes_ok_def
proof (intro allI impI, elim conjE)
  let ?t = "take (b - a) (drop a s)"
  fix i
  assume i: "i < length ?t" "?t ! i = backslash" "i + 1 < length ?t" "?t ! (i + 1) = CHR ''u''"
    and h: "hex_place ?t i + 4 \<le> length ?t"
  have "a \<le> length s" using i(1) by auto
  let ?n = "b - a - (i + 1)"
  have d: "drop (i + 1) ?t = take ?n (drop (a + i + 1) s)"
    by (simp add: drop_take add.commute add.left_commute)
  have m: "hex_place ?t i = i + 1 + length (takeWhile (\<lambda>b. b = CHR ''u'') (take ?n (drop (a + i + 1) s)))"
    unfolding hex_place_def d ..
  hence "takeWhile (\<lambda>b. b = CHR ''u'') (drop (a + i + 1) s) =
      takeWhile (\<lambda>b. b = CHR ''u'') (take ?n (drop (a + i + 1) s))"
    using h by (intro takeWhile_take_stop) auto
  hence p: "hex_place s (a + i) = a + hex_place ?t i" using m by (simp add: hex_place_def)
  have "a + i < length s \<and> s ! (a + i) = backslash \<and> a + i + 1 < length s \<and>
      s ! (a + i + 1) = CHR ''u'' \<and> hex_place s (a + i) + 4 \<le> length s"
    using i h p \<open>a \<le> length s\<close> by (auto simp: add.assoc)
  hence "is_char_boundary s (hex_place s (a + i) + 4)"
    using assms(1) unfolding escapes_ok_def by blast
  thus "is_char_boundary ?t (hex_place ?t i + 4)"
    using h p \<open>a \<le> length s\<close> by (intro is_char_boundary_slice) (simp_all add: add.assoc)
qed

subsection \<open>Translating the escapes of a text\<close>

lemma translate_loop_total:
  assumes "at_boundary r" and "length (rd_source r) - rd_current r \<le> n"
    and "escapes_ok (rd_source r)"
  shows "translate_loop n r out \<noteq> None"
  using assms
proof (induction n arbitrary: r out)
  case 0
  thus ?case by (simp add: reader_is_at_end_def)
next
  case (Suc n)
  show ?case
  proof (cases "reader_is_at_end r")
    case False
    with advance_outcome [OF Suc.prems(1)] Suc.prems(3) obtain c r' where
      a: "advance r = Some (c, r')" "forward r r'" "rd_current r < rd_current r'"
      by (auto split: option.splits)
    with Suc.prems Suc.IH [of r' "out @ encode_utf8 c"] False show ?thesis
      by (auto simp: forward_def reader_is_at_end_def)
  qed simp
qed

lemma translate_total: "utf8 s \<Longrightarrow> escapes_ok s \<Longrightarrow> translate_unicode_escapes s \<noteq> None"
  using translate_loop_total [of "reader_new s" "length s" "[]"]
  by (simp add: translate_unicode_escapes_def reader_new_def at_boundary_def boundary_0)

text \<open>
  A text without a backslash is translated to itself: the shortcut of the function agrees with
  its loop.
\<close>

lemma translate_loop_plain:
  assumes "boundary s i" and "backslash \<notin> set s" and "length s - i \<le> n"
  shows "translate_loop n \<lparr>rd_source = s, rd_start = a, rd_current = i, rd_errors = es\<rparr> out =
    Some (out @ drop i s)"
  using assms
proof (induction n arbitrary: i out)
  case 0
  thus ?case by (simp add: reader_is_at_end_def)
next
  case (Suc n)
  show ?case
  proof (cases "i < length s")
    case True
    from Suc.prems(1) True obtain c t where c: "scalar c" "drop i s = encode_utf8 c @ t"
      "first_char (drop i s) = c" "boundary s (i + len_utf8 c)" by (rule boundaryE)
    have "s ! i \<noteq> backslash" using Suc.prems(2) True nth_mem by metis
    hence "scan_at s i = Some (Char_scan c (len_utf8 c))"
      using scan_code_unit_char [OF True _ Suc.prems(1)] c(1,3) by (simp add: scan_at_def)
    moreover have "drop (len_utf8 c + i) s = t"
      using arg_cong [OF c(2), of "drop (len_utf8 c)"] by simp
    hence "drop i s = encode_utf8 c @ drop (i + len_utf8 c) s" using c(2) by (simp add: add.commute)
    ultimately show ?thesis
      using Suc.IH [OF c(4) Suc.prems(2)] Suc.prems(3) True len_utf8_pos(1) [of c]
      by (simp add: advance_def reader_is_at_end_def del: len_utf8_pos)
  qed (simp add: reader_is_at_end_def)
qed

end
