(* ===== verification/Lexer.thy ===== *)
theory Lexer imports Reader begin

text \<open>
  The lexer of \<^verbatim>\<open>crates/java-syntax/src/lexer.rs\<close> with \<^verbatim>\<open>lexer/identifier.rs\<close>: a state monad
  over a machine that is lexing or has stopped, one definition per handler.

  The general categories of characters come from the crate \<^verbatim>\<open>unicode_general_category\<close>, and
  \<^verbatim>\<open>char::is_numeric\<close> from the Unicode tables of the standard library: both are parameters,
  the fields of a record \<open>unicode\<close>. Every loop of the lexer takes a byte in each round, so the
  length of the source is enough fuel for it; that the fuel never runs out is proved in
  \<open>Lexing\<close>.
\<close>

subsection \<open>Characters\<close>

text \<open>The general categories the source names, and one for all others.\<close>

datatype general_category =
    UppercaseLetter | LowercaseLetter | TitlecaseLetter | ModifierLetter | OtherLetter
  | LetterNumber | CurrencySymbol | ConnectorPunctuation | DecimalNumber | SpacingMark
  | NonspacingMark | Format | OtherCategory

record unicode =
  get_general_category :: "nat \<Rightarrow> general_category"
  is_numeric :: "nat \<Rightarrow> bool"

definition is_java_identifier_start :: "unicode \<Rightarrow> nat \<Rightarrow> bool" where
  "is_java_identifier_start U c =
     (get_general_category U c \<in> {UppercaseLetter, LowercaseLetter, TitlecaseLetter, ModifierLetter,
        OtherLetter, LetterNumber, CurrencySymbol, ConnectorPunctuation})"

definition is_java_identifier_ignorable :: "unicode \<Rightarrow> nat \<Rightarrow> bool" where
  "is_java_identifier_ignorable U c =
     (c \<le> 0x8 \<or> 0xE \<le> c \<and> c \<le> 0x1B \<or> 0x7F \<le> c \<and> c \<le> 0x9F \<or>
      get_general_category U c = Format)"

definition is_java_identifier_part :: "unicode \<Rightarrow> nat \<Rightarrow> bool" where
  "is_java_identifier_part U c =
     (is_java_identifier_start U c \<or>
      get_general_category U c \<in> {DecimalNumber, SpacingMark, NonspacingMark, Format} \<or>
      is_java_identifier_ignorable U c)"

definition is_java_whitespace :: "nat \<Rightarrow> bool" where
  "is_java_whitespace c = (c \<in> {0x20, 0x09, 0x0C, 0x0A, 0x0D})"

text \<open>The code point of an ASCII character of the source, and \<^verbatim>\<open>char\<close> methods of the library.\<close>

abbreviation cp :: "char \<Rightarrow> nat" where
  "cp c \<equiv> of_char c"

definition quote :: nat where
  "quote = 0x27"

definition double_quote :: nat where
  "double_quote = 0x22"

definition newline :: "nat \<Rightarrow> bool" where
  "newline c = (c = 0x0A \<or> c = 0x0D)"

definition is_ascii_digit :: "nat \<Rightarrow> bool" where
  "is_ascii_digit c = (48 \<le> c \<and> c \<le> 57)"

definition to_ascii_lowercase :: "nat \<Rightarrow> nat" where
  "to_ascii_lowercase c = (if 65 \<le> c \<and> c \<le> 90 then c + 32 else c)"

definition is_digit :: "nat \<Rightarrow> nat \<Rightarrow> bool" where
  "is_digit radix c =
     (if is_ascii_digit c then c - 48 < radix
      else if 97 \<le> to_ascii_lowercase c \<and> to_ascii_lowercase c \<le> 122
      then to_ascii_lowercase c - 87 < radix
      else False)"

subsection \<open>The state\<close>

datatype lexer_mode = Normal | TemplateExpression

datatype template_kind = StringTemplate | TextBlockTemplate

primrec begin_token :: "template_kind \<Rightarrow> syntax_kind" where
  "begin_token StringTemplate = STRING_TEMPLATE_BEGIN"
| "begin_token TextBlockTemplate = TEXT_BLOCK_TEMPLATE_BEGIN"

primrec mid_token :: "template_kind \<Rightarrow> syntax_kind" where
  "mid_token StringTemplate = STRING_TEMPLATE_MID"
| "mid_token TextBlockTemplate = TEXT_BLOCK_TEMPLATE_MID"

primrec end_token :: "template_kind \<Rightarrow> syntax_kind" where
  "end_token StringTemplate = STRING_TEMPLATE_END"
| "end_token TextBlockTemplate = TEXT_BLOCK_TEMPLATE_END"

primrec literal_token :: "template_kind \<Rightarrow> syntax_kind" where
  "literal_token StringTemplate = STRING_LITERAL"
| "literal_token TextBlockTemplate = TEXT_BLOCK"

definition allows_newline :: "template_kind \<Rightarrow> bool" where
  "allows_newline k = (k = TextBlockTemplate)"

record template_context =
  ctx_kind :: template_kind
  brace_depth :: nat

datatype template_chunk_role = FullLiteral | Continuation

datatype lexical_error_kind =
    UnexpectedChar nat
  | UnterminatedString
  | UnterminatedComment
  | InvalidChar
  | IllegalTextBlockOpen
  | UnterminatedTextBlock
  | InvalidNumber
  | InvalidUnicodeEscape
  | UnterminatedChar
  | InvalidEscapeSequence
  | UnterminatedTemplate

record lexical_error =
  lex_err_kind :: lexical_error_kind
  lex_err_range :: text_range

record lexer =
  reader :: source_reader
  lex_tokens :: "token list"
  lex_errors :: "lexical_error list"
  mode :: lexer_mode
  template_stack :: "template_context list"

definition lexer_new :: "string \<Rightarrow> lexer" where
  "lexer_new s =
     \<lparr>reader = reader_new s, lex_tokens = [], lex_errors = [], mode = Normal,
      template_stack = []\<rparr>"

subsection \<open>The machine\<close>

datatype lex_stop = LexPanic | LexOutOfFuel

datatype lex_machine = Lexing lexer | LexStop lex_stop

type_synonym 'a lex = "(lex_machine, 'a) state"

definition lex_action :: "'a \<Rightarrow> (lexer \<Rightarrow> lex_stop + 'a \<times> lexer) \<Rightarrow> 'a lex" where
  "lex_action d f = State (\<lambda>s.
     case s of
       Lexing l \<Rightarrow> (case f l of Inl e \<Rightarrow> (d, LexStop e) | Inr (a, l') \<Rightarrow> (a, Lexing l'))
     | LexStop e \<Rightarrow> (d, LexStop e))"

text \<open>A query of the reader, and an operation of the reader; both may panic.\<close>

definition query :: "(source_reader \<Rightarrow> 'a option) \<Rightarrow> 'a lex" where
  "query f = lex_action undefined (\<lambda>l.
     case f (reader l) of None \<Rightarrow> Inl LexPanic | Some a \<Rightarrow> Inr (a, l))"

definition consume :: "(source_reader \<Rightarrow> ('a \<times> source_reader) option) \<Rightarrow> 'a lex" where
  "consume f = lex_action undefined (\<lambda>l.
     case f (reader l) of
       None \<Rightarrow> Inl LexPanic
     | Some (a, r) \<Rightarrow> Inr (a, l\<lparr>reader := r\<rparr>))"

definition lex_gets :: "(lexer \<Rightarrow> 'a) \<Rightarrow> 'a lex" where
  "lex_gets f = lex_action (f (lexer_new [])) (\<lambda>l. Inr (f l, l))"

definition lex_modify :: "(lexer \<Rightarrow> lexer) \<Rightarrow> unit lex" where
  "lex_modify f = lex_action () (\<lambda>l. Inr ((), f l))"

text \<open>A loop over local variables \<open>x\<close>; the body says whether to go round again.\<close>

primrec lex_loop :: "nat \<Rightarrow> 'x \<Rightarrow> ('x \<Rightarrow> (bool \<times> 'x) lex) \<Rightarrow> 'x lex" where
  "lex_loop 0 x body = lex_action x (\<lambda>_. Inl LexOutOfFuel)"
| "lex_loop (Suc n) x body =
     do { r \<leftarrow> body x; if fst r then lex_loop n (snd r) body else ret (snd r) }"

definition source_len :: "lexer \<Rightarrow> nat" where
  "source_len l = length (rd_source (reader l))"

definition lex_loop_over :: "'x \<Rightarrow> ('x \<Rightarrow> (bool \<times> 'x) lex) \<Rightarrow> 'x lex" where
  "lex_loop_over x body = do { n \<leftarrow> lex_gets source_len; lex_loop (Suc n) x body }"

text \<open>\<^verbatim>\<open>while c { body }\<close>\<close>

definition lex_while :: "bool lex \<Rightarrow> unit lex \<Rightarrow> unit lex" where
  "lex_while c body =
     lex_loop_over () (\<lambda>_.
       do { b \<leftarrow> c; if b then do { body; ret (True, ()) } else ret (False, ()) })"

subsection \<open>Tokens and errors\<close>

definition at_end :: "bool lex" where
  "at_end = lex_gets (\<lambda>l. reader_is_at_end (reader l))"

definition skip_char :: "unit lex" where
  "skip_char = discard (consume advance)"

definition complete_token :: "syntax_kind \<Rightarrow> unit lex" where
  "complete_token k =
     do { text \<leftarrow> query current_token_lexeme_raw;
          lex_modify (\<lambda>l. l\<lparr>lex_tokens := lex_tokens l @
            [\<lparr>tok_kind = k, tok_lexeme = text, tok_offset = rd_start (reader l)\<rparr>]\<rparr>) }"

definition complete_eof :: "unit lex" where
  "complete_eof = lex_modify (\<lambda>l. l\<lparr>lex_tokens := lex_tokens l @
     [\<lparr>tok_kind = EOF, tok_lexeme = '''', tok_offset = rd_current (reader l)\<rparr>]\<rparr>)"

definition report_error :: "lexical_error_kind \<Rightarrow> unit lex" where
  "report_error k = lex_modify (\<lambda>l. l\<lparr>lex_errors := lex_errors l @
     [\<lparr>lex_err_kind = k,
       lex_err_range = TextRange (rd_start (reader l)) (rd_current (reader l))\<rparr>]\<rparr>)"

definition set_mode :: "lexer_mode \<Rightarrow> unit lex" where
  "set_mode m = lex_modify (\<lambda>l. l\<lparr>mode := m\<rparr>)"

subsection \<open>Operators\<close>

text \<open>\<^verbatim>\<open>self.reader.advance_if_matches(c)\<close>\<close>

definition follows :: "char \<Rightarrow> bool lex" where
  "follows c = consume (advance_if_matches (cp c))"

definition handle_colon :: "unit lex" where
  "handle_colon =
     do { b \<leftarrow> follows CHR '':''; complete_token (if b then COLON_COLON else COLON) }"

definition handle_mod :: "unit lex" where
  "handle_mod =
     do { b \<leftarrow> follows CHR ''=''; complete_token (if b then MODULO_EQUAL else MODULO) }"

definition handle_bang :: "unit lex" where
  "handle_bang =
     do { b \<leftarrow> follows CHR ''=''; complete_token (if b then NOT_EQUAL else NOT) }"

definition handle_or :: "unit lex" where
  "handle_or =
     do { b \<leftarrow> follows CHR ''|'';
          if b then complete_token OR
          else do { b \<leftarrow> follows CHR ''=''; complete_token (if b then OR_EQUAL else BIT_OR) } }"

definition handle_and :: "unit lex" where
  "handle_and =
     do { b \<leftarrow> follows CHR ''&'';
          if b then complete_token AND
          else do { b \<leftarrow> follows CHR ''=''; complete_token (if b then AND_EQUAL else BIT_AND) } }"

definition handle_star :: "unit lex" where
  "handle_star =
     do { b \<leftarrow> follows CHR ''=''; complete_token (if b then MULTIPLE_EQUAL else STAR) }"

definition handle_plus :: "unit lex" where
  "handle_plus =
     do { b \<leftarrow> follows CHR ''='';
          if b then complete_token PLUS_EQUAL
          else do { b \<leftarrow> follows CHR ''+''; complete_token (if b then PLUS_PLUS else PLUS) } }"

definition handle_caret :: "unit lex" where
  "handle_caret =
     do { b \<leftarrow> follows CHR ''=''; complete_token (if b then XOR_EQUAL else CARET) }"

definition handle_minus :: "unit lex" where
  "handle_minus =
     do { b \<leftarrow> follows CHR ''='';
          if b then complete_token MINUS_EQUAL
          else do {
            b \<leftarrow> follows CHR ''-'';
            if b then complete_token MINUS_MINUS
            else do { b \<leftarrow> follows CHR ''>''; complete_token (if b then ARROW else MINUS) } } }"

definition handle_less :: "unit lex" where
  "handle_less =
     do { b \<leftarrow> follows CHR ''='';
          if b then complete_token LESS_EQUAL
          else do {
            b \<leftarrow> follows CHR ''<'';
            if b then
              do { b \<leftarrow> follows CHR ''='';
                   complete_token (if b then LEFT_SHIFT_EQUAL else LEFT_SHIFT) }
            else complete_token LESS } }"

definition handle_greater :: "unit lex" where
  "handle_greater =
     do { b \<leftarrow> follows CHR ''='';
          if b then complete_token GREATER_EQUAL
          else do {
            b \<leftarrow> follows CHR ''>'';
            if b then
              do { b \<leftarrow> follows CHR ''>'';
                   if b then
                     do { b \<leftarrow> follows CHR ''='';
                          complete_token
                            (if b then UNSIGNED_RIGHT_SHIFT_EQUAL else UNSIGNED_RIGHT_SHIFT) }
                   else
                     do { b \<leftarrow> follows CHR ''='';
                          complete_token (if b then RIGHT_SHIFT_EQUAL else RIGHT_SHIFT) } }
            else complete_token GREATER } }"

definition handle_eq :: "unit lex" where
  "handle_eq =
     do { b \<leftarrow> consume (advance_if_matches_str ''='');
          complete_token (if b then EQUAL_EQUAL else EQUAL) }"

subsection \<open>Whitespace, comments and identifiers\<close>

definition handle_whitespace :: "unit lex" where
  "handle_whitespace =
     do { lex_while (do { c \<leftarrow> query peek; ret (is_java_whitespace c) }) skip_char;
          complete_token WHITESPACE }"

definition line_comment :: "unit lex" where
  "line_comment =
     lex_while (do { c \<leftarrow> query peek; e \<leftarrow> at_end; ret (c \<noteq> 0x0A \<and> c \<noteq> 0x0D \<and> \<not> e) }) skip_char"

text \<open>The value says whether the comment was closed.\<close>

definition block_comment :: "bool lex" where
  "block_comment =
     lex_loop_over False (\<lambda>_.
       do { e \<leftarrow> at_end;
            if e then ret (False, False)
            else do {
              b \<leftarrow> consume (advance_if_matches_str ''*/'');
              if b then ret (False, True) else do { skip_char; ret (True, False) } } })"

definition handle_slash :: "unit lex" where
  "handle_slash =
     do { b \<leftarrow> follows CHR ''/'';
          if b then
            do { doc \<leftarrow> follows CHR ''/'';
                 line_comment;
                 complete_token (if doc then JAVADOC_LINE else LINE_COMMENT) }
          else do {
            b \<leftarrow> follows CHR ''*'';
            if b then
              do { c \<leftarrow> query peek;
                   doc \<leftarrow> (if c = cp CHR ''*''
                          then do { d \<leftarrow> query peek_next; ret (d \<noteq> cp CHR ''/'') }
                          else ret False);
                   has_terminated \<leftarrow> block_comment;
                   if_then (\<not> has_terminated) (report_error UnterminatedComment);
                   complete_token (if doc then JAVADOC else BLOCK_COMMENT) }
            else do {
              b \<leftarrow> follows CHR ''='';
              complete_token (if b then DIVIDE_EQUAL else SLASH) } } }"

text \<open>The table of keywords, and of the literals that look like keywords.\<close>

definition keyword_table :: "(string \<times> syntax_kind) list" where
  "keyword_table =
     [(''package'', PACKAGE_KW), (''import'', IMPORT_KW), (''class'', CLASS_KW),
      (''enum'', ENUM_KW), (''interface'', INTERFACE_KW), (''public'', PUBLIC_KW),
      (''private'', PRIVATE_KW), (''final'', FINAL_KW), (''static'', STATIC_KW),
      (''protected'', PROTECTED_KW), (''abstract'', ABSTRACT_KW), (''for'', FOR_KW),
      (''while'', WHILE_KW), (''continue'', CONTINUE_KW), (''break'', BREAK_KW),
      (''instanceof'', INSTANCEOF_KW), (''return'', RETURN_KW), (''transient'', TRANSIENT_KW),
      (''extends'', EXTENDS_KW), (''implements'', IMPLEMENTS_KW), (''new'', NEW_KW),
      (''assert'', ASSERT_KW), (''switch'', SWITCH_KW), (''case'', CASE_KW),
      (''default'', DEFAULT_KW), (''synchronized'', SYNCHRONIZED_KW), (''do'', DO_KW),
      (''if'', IF_KW), (''else'', ELSE_KW), (''this'', THIS_KW), (''super'', SUPER_KW),
      (''volatile'', VOLATILE_KW), (''native'', NATIVE_KW), (''throw'', THROW_KW),
      (''throws'', THROWS_KW), (''try'', TRY_KW), (''catch'', CATCH_KW),
      (''finally'', FINALLY_KW), (''strictfp'', STRICTFP_KW),
      (''void'', VOID_KW), (''double'', DOUBLE_KW), (''int'', INT_KW), (''short'', SHORT_KW),
      (''long'', LONG_KW), (''float'', FLOAT_KW), (''char'', CHAR_KW),
      (''boolean'', BOOLEAN_KW), (''byte'', BYTE_KW),
      (''null'', NULL_LITERAL), (''true'', TRUE_LITERAL), (''false'', FALSE_LITERAL),
      (''goto'', GOTO_KW), (''const'', CONST_KW),
      (''_'', UNDERSCORE)]"

definition identifier_kind :: "string \<Rightarrow> syntax_kind" where
  "identifier_kind text = (case map_of keyword_table text of Some k \<Rightarrow> k | None \<Rightarrow> IDENTIFIER)"

definition handle_identifier :: "unicode \<Rightarrow> unit lex" where
  "handle_identifier U =
     do { lex_while
            (do { e \<leftarrow> at_end;
                  if e then ret False
                  else do { c \<leftarrow> query peek; ret (is_java_identifier_part U c) } })
            skip_char;
          text \<leftarrow> query current_token_lexeme;
          complete_token (identifier_kind text) }"

subsection \<open>Numbers\<close>

record number =
  num_base :: nat
  last_was_underscore :: bool
  has_invalid_octal_digit :: bool
  is_float :: bool
  has_exp_digits :: bool

definition consume_base :: "number \<Rightarrow> nat" where
  "consume_base n = (if num_base n = 8 then 10 else num_base n)"

text \<open>The prefix of the literal gives its base.\<close>

definition number_prefix :: "nat lex" where
  "number_prefix =
     do { c \<leftarrow> query peek;
          if c = cp CHR ''0'' then
            do { d \<leftarrow> query peek_next;
                 if d = cp CHR ''x'' \<or> d = cp CHR ''X'' then do { skip_char; skip_char; ret 16 }
                 else if d = cp CHR ''b'' \<or> d = cp CHR ''B'' then do { skip_char; skip_char; ret 2 }
                 else if d = cp CHR ''_'' \<or> is_ascii_digit d then do { skip_char; ret 8 }
                 else ret 10 }
          else ret 10 }"

definition integer_step :: "unicode \<Rightarrow> number \<Rightarrow> (bool \<times> number) lex" where
  "integer_step U n =
     do { c \<leftarrow> query peek;
          if is_numeric U c \<or> is_digit (consume_base n) c then
            do { let octal = \<not> is_digit (num_base n) c \<and> num_base n = 8 \<and> is_ascii_digit c;
                 if_then (\<not> is_digit (num_base n) c \<and> \<not> octal) (report_error InvalidNumber);
                 skip_char;
                 ret (True, n\<lparr>last_was_underscore := False,
                   has_invalid_octal_digit := has_invalid_octal_digit n \<or> octal\<rparr>) }
          else if c = cp CHR ''_'' then
            do { skip_char; ret (True, n\<lparr>last_was_underscore := True\<rparr>) }
          else ret (False, n) }"

definition integer_part :: "unicode \<Rightarrow> number \<Rightarrow> number lex" where
  "integer_part U n = lex_loop_over n (integer_step U)"

definition trailing_underscore :: "number \<Rightarrow> number lex" where
  "trailing_underscore n =
     (if last_was_underscore n then
        do { report_error InvalidNumber; ret (n\<lparr>last_was_underscore := False\<rparr>) }
      else ret n)"

definition fraction_digits :: "number \<Rightarrow> number lex" where
  "fraction_digits n =
     do { u \<leftarrow> query peek;
          if_then (u = cp CHR ''_'') (report_error InvalidNumber);
          n \<leftarrow> lex_loop_over (n\<lparr>is_float := True\<rparr>) (\<lambda>n.
            do { c \<leftarrow> query peek;
                 if is_digit (consume_base n) c then
                   do { skip_char; ret (True, n\<lparr>last_was_underscore := False\<rparr>) }
                 else if c = cp CHR ''_'' then
                   do { skip_char; ret (True, n\<lparr>last_was_underscore := True\<rparr>) }
                 else ret (False, n) });
          trailing_underscore n }"

definition fraction_part :: "number \<Rightarrow> number lex" where
  "fraction_part n =
     do { c \<leftarrow> query peek;
          if c = cp CHR ''.'' then do { skip_char; fraction_digits n } else ret n }"

definition exponent_part :: "number \<Rightarrow> number lex" where
  "exponent_part n =
     do { c \<leftarrow> query peek;
          if num_base n \<noteq> 16 \<and> to_ascii_lowercase c = cp CHR ''e'' \<or>
             num_base n = 16 \<and> to_ascii_lowercase c = cp CHR ''p''
          then
            do { skip_char;
                 sign \<leftarrow> query peek;
                 if_then (sign = cp CHR ''+'' \<or> sign = cp CHR ''-'') skip_char;
                 u \<leftarrow> query peek;
                 if_then (u = cp CHR ''_'') (report_error InvalidNumber);
                 n \<leftarrow> lex_loop_over (n\<lparr>is_float := True, has_exp_digits := False\<rparr>) (\<lambda>n.
                   do { c \<leftarrow> query peek;
                        if is_ascii_digit c then
                          do { skip_char;
                               ret (True, n\<lparr>last_was_underscore := False, has_exp_digits := True\<rparr>) }
                        else if c = cp CHR ''_'' then
                          do { skip_char; ret (True, n\<lparr>last_was_underscore := True\<rparr>) }
                        else ret (False, n) });
                 if_then (\<not> has_exp_digits n \<or> last_was_underscore n) (report_error InvalidNumber);
                 ret n }
          else ret n }"

definition type_suffix :: "number \<Rightarrow> number lex" where
  "type_suffix n =
     do { c \<leftarrow> query peek;
          let suffix = to_ascii_lowercase c;
          if suffix = cp CHR ''l'' \<or> suffix = cp CHR ''f'' \<or> suffix = cp CHR ''d'' then
            do { skip_char;
                 ret (n\<lparr>is_float := is_float n \<or> suffix \<noteq> cp CHR ''l''\<rparr>) }
          else ret n }"

definition handle_number :: "unicode \<Rightarrow> unit lex" where
  "handle_number U =
     do { base \<leftarrow> number_prefix;
          n \<leftarrow> integer_part U \<lparr>num_base = base, last_was_underscore = False,
            has_invalid_octal_digit = False, is_float = False, has_exp_digits = False\<rparr>;
          n \<leftarrow> trailing_underscore n;
          n \<leftarrow> fraction_part n;
          n \<leftarrow> exponent_part n;
          n \<leftarrow> type_suffix n;
          if_then (num_base n = 8 \<and> has_invalid_octal_digit n \<and> \<not> is_float n)
            (report_error InvalidNumber);
          complete_token (if is_float n then FLOAT_LITERAL else INTEGER_LITERAL) }"

definition handle_dot :: "unicode \<Rightarrow> unit lex" where
  "handle_dot U =
     do { c \<leftarrow> query peek_next;
          if is_numeric U c then handle_number U
          else do {
            b \<leftarrow> consume (advance_if_matches_str ''...'');
            if b then complete_token ELLIPSIS else do { skip_char; complete_token DOT } } }"

subsection \<open>Literals and templates\<close>

definition octal_digit :: "nat \<Rightarrow> bool" where
  "octal_digit c = (cp CHR ''0'' \<le> c \<and> c \<le> cp CHR ''7'')"

definition consume_escape_sequence :: "bool \<Rightarrow> bool lex" where
  "consume_escape_sequence is_text_block =
     do { skip_char;
          e \<leftarrow> at_end;
          if e then ret False
          else do {
            c \<leftarrow> query peek;
            if c \<in> {cp CHR ''b'', cp CHR ''t'', cp CHR ''n'', cp CHR ''f'', cp CHR ''r'',
                 cp CHR ''s'', double_quote, quote, 92}
            then do { skip_char; ret True }
            else if newline c \<and> is_text_block then do { skip_char; ret True }
            else if octal_digit c then
              do { first_digit \<leftarrow> consume advance;
                   c \<leftarrow> query peek;
                   if_then (octal_digit c)
                     (do { skip_char;
                           c \<leftarrow> query peek;
                           if_then (first_digit \<le> cp CHR ''3'' \<and> octal_digit c) skip_char });
                   ret True }
            else do { skip_char; ret False } } }"

record char_scan =
  logical_char_count :: nat
  has_error :: bool
  unterminated :: bool

definition char_step :: "char_scan \<Rightarrow> (bool \<times> char_scan) lex" where
  "char_step s =
     do { e \<leftarrow> at_end;
          if e then ret (False, s)
          else do {
            c \<leftarrow> query peek;
            if c = quote then ret (False, s)
            else if newline c then
              do { report_error UnterminatedChar; ret (False, s\<lparr>unterminated := True\<rparr>) }
            else do {
              ok \<leftarrow> (if c = 92 then consume_escape_sequence False
                    else do { skip_char; ret True });
              if_then (\<not> ok) (report_error InvalidEscapeSequence);
              ret (True, s\<lparr>logical_char_count := logical_char_count s + len_utf16 c,
                     has_error := has_error s \<or> \<not> ok\<rparr>) } } }"

definition char_content :: "char_scan lex" where
  "char_content =
     lex_loop_over \<lparr>logical_char_count = 0, has_error = False, unterminated = False\<rparr> char_step"

definition handle_char_literal :: "unit lex" where
  "handle_char_literal =
     do { s \<leftarrow> char_content;
          if unterminated s then skip
          else do {
            e \<leftarrow> at_end;
            if e then report_error UnterminatedChar
            else do {
              skip_char;
              if_then (\<not> has_error s \<and> logical_char_count s \<noteq> 1) (report_error InvalidChar);
              complete_token CHAR_LITERAL } } }"

definition is_template_close :: "template_kind \<Rightarrow> bool lex" where
  "is_template_close kind =
     (case kind of
        StringTemplate \<Rightarrow> do { c \<leftarrow> query peek; ret (c = double_quote) }
      | TextBlockTemplate \<Rightarrow>
          do { c \<leftarrow> query peek;
               if c \<noteq> double_quote then ret False
               else do {
                 d \<leftarrow> query peek_next;
                 if d \<noteq> double_quote then ret False
                 else do { e \<leftarrow> query (peek_n 2); ret (e = double_quote) } } })"

definition consume_template_close :: "template_kind \<Rightarrow> unit lex" where
  "consume_template_close kind =
     (case kind of
        StringTemplate \<Rightarrow> skip_char
      | TextBlockTemplate \<Rightarrow> do { skip_char; skip_char; skip_char })"

definition emit_quoted_terminal_token :: "template_kind \<Rightarrow> template_chunk_role \<Rightarrow> unit lex" where
  "emit_quoted_terminal_token kind role =
     (case role of
        FullLiteral \<Rightarrow> complete_token (literal_token kind)
      | Continuation \<Rightarrow>
          do { empty \<leftarrow> lex_gets (\<lambda>l. template_stack l = []);
               if_then empty (set_mode Normal);
               complete_token (end_token kind) })"

definition emit_template_open_token :: "template_kind \<Rightarrow> template_chunk_role \<Rightarrow> unit lex" where
  "emit_template_open_token kind role =
     complete_token (case role of FullLiteral \<Rightarrow> begin_token kind | Continuation \<Rightarrow> mid_token kind)"

text \<open>A literal that ends before its closing delimiter, at a newline or at the end of the file.\<close>

definition unterminated_at_newline :: "template_chunk_role \<Rightarrow> unit lex" where
  "unterminated_at_newline role =
     (case role of
        FullLiteral \<Rightarrow> report_error UnterminatedString
      | Continuation \<Rightarrow> do { report_error UnterminatedTemplate; set_mode Normal })"

definition unterminated_at_end :: "template_kind \<Rightarrow> template_chunk_role \<Rightarrow> unit lex" where
  "unterminated_at_end kind role =
     (case role of
        FullLiteral \<Rightarrow>
          report_error (case kind of StringTemplate \<Rightarrow> UnterminatedString
                        | TextBlockTemplate \<Rightarrow> UnterminatedTextBlock)
      | Continuation \<Rightarrow> do { report_error UnterminatedTemplate; set_mode Normal })"

text \<open>
  The body of the loop of \<^verbatim>\<open>scan_quoted_content\<close>: whether to go round again, and whether the
  function has returned.
\<close>

definition quoted_step :: "template_kind \<Rightarrow> template_chunk_role \<Rightarrow> (bool \<times> bool) lex" where
  "quoted_step kind role =
     do { e \<leftarrow> at_end;
          if e then ret (False, False)
          else do {
            close \<leftarrow> is_template_close kind;
            if close then
              do { consume_template_close kind;
                   emit_quoted_terminal_token kind role;
                   ret (False, True) }
            else do {
              c \<leftarrow> query peek;
              if \<not> allows_newline kind \<and> newline c then
                do { unterminated_at_newline role; ret (False, True) }
              else if c = 92 then
                do { d \<leftarrow> query peek_next;
                     if d = cp CHR ''{'' then
                       do { skip_char;
                            skip_char;
                            emit_template_open_token kind role;
                            lex_modify (\<lambda>l. l\<lparr>template_stack := template_stack l @
                              [\<lparr>ctx_kind = kind, brace_depth = 0\<rparr>]\<rparr>);
                            set_mode TemplateExpression;
                            ret (False, True) }
                     else do {
                       ok \<leftarrow> consume_escape_sequence (kind = TextBlockTemplate);
                       if_then (\<not> ok) (report_error InvalidEscapeSequence);
                       ret (True, False) } }
              else do { skip_char; ret (True, False) } } } }"

definition text_block_open :: "unit lex" where
  "text_block_open =
     do { lex_while (do { c \<leftarrow> query peek; ret (c \<in> {0x20, 0x09, 0x0C}) }) skip_char;
          next_char \<leftarrow> query peek;
          if_then (\<not> newline next_char) (report_error IllegalTextBlockOpen) }"

definition scan_quoted_content :: "template_kind \<Rightarrow> template_chunk_role \<Rightarrow> unit lex" where
  "scan_quoted_content kind role =
     do { if_then (kind = TextBlockTemplate \<and> role = FullLiteral) text_block_open;
          returned \<leftarrow> lex_loop_over False (\<lambda>_. quoted_step kind role);
          if_then (\<not> returned) (unterminated_at_end kind role) }"

definition resume_template_after_expression :: "template_kind \<Rightarrow> unit lex" where
  "resume_template_after_expression kind = scan_quoted_content kind Continuation"

definition handle_string :: "unit lex" where
  "handle_string =
     do { b \<leftarrow> consume (advance_if_matches_str (replicate 2 (CHR 0x22)));
          scan_quoted_content (if b then TextBlockTemplate else StringTemplate) FullLiteral }"

text \<open>\<^verbatim>\<open>ctx.brace_depth\<close> of the innermost template.\<close>

definition set_depth :: "nat \<Rightarrow> lexer \<Rightarrow> lexer" where
  "set_depth d l =
     l\<lparr>template_stack := butlast (template_stack l) @ [(last (template_stack l))\<lparr>brace_depth := d\<rparr>]\<rparr>"

definition handle_left_brace :: "unit lex" where
  "handle_left_brace =
     do { l \<leftarrow> lex_gets (\<lambda>l. l);
          if_then (mode l = TemplateExpression \<and> template_stack l \<noteq> [])
            (lex_modify (set_depth (brace_depth (last (template_stack l)) + 1)));
          skip_char;
          complete_token L_BRACE }"

definition handle_right_brace :: "unit lex" where
  "handle_right_brace =
     do { l \<leftarrow> lex_gets (\<lambda>l. l);
          if mode l \<noteq> TemplateExpression then do { skip_char; complete_token R_BRACE }
          else if template_stack l = [] then
            do { set_mode Normal; skip_char; complete_token R_BRACE }
          else
            (let ctx = last (template_stack l) in
             if 0 < brace_depth ctx then
               do { lex_modify (set_depth (brace_depth ctx - 1));
                    skip_char;
                    complete_token R_BRACE }
             else
               do { skip_char;
                    lex_modify (\<lambda>l. l\<lparr>template_stack := butlast (template_stack l)\<rparr>);
                    resume_template_after_expression (ctx_kind ctx) }) }"

subsection \<open>The dispatch\<close>

text \<open>The characters that are tokens by themselves.\<close>

definition single_char_kind :: "nat \<Rightarrow> syntax_kind option" where
  "single_char_kind c =
     (if c = cp CHR ''('' then Some L_PAREN
      else if c = cp CHR '')'' then Some R_PAREN
      else if c = cp CHR ''['' then Some L_BRACKET
      else if c = cp CHR '']'' then Some R_BRACKET
      else if c = cp CHR '';'' then Some SEMICOLON
      else if c = cp CHR '','' then Some COMMA
      else if c = cp CHR ''?'' then Some QUESTION
      else if c = cp CHR ''@'' then Some AT
      else if c = cp CHR ''~'' then Some TILDE
      else None)"

definition scan_after_advance :: "unicode \<Rightarrow> nat \<Rightarrow> unit lex" where
  "scan_after_advance U c =
     (case single_char_kind c of
        Some k \<Rightarrow> complete_token k
      | None \<Rightarrow>
          if c = cp CHR '':'' then handle_colon
          else if c = cp CHR ''+'' then handle_plus
          else if c = cp CHR ''-'' then handle_minus
          else if c = cp CHR ''*'' then handle_star
          else if c = cp CHR ''^'' then handle_caret
          else if c = cp CHR ''<'' then handle_less
          else if c = cp CHR ''>'' then handle_greater
          else if c = cp CHR ''='' then handle_eq
          else if c = quote then handle_char_literal
          else if c = cp CHR ''/'' then handle_slash
          else if c = double_quote then handle_string
          else if c = cp CHR ''|'' then handle_or
          else if c = cp CHR ''&'' then handle_and
          else if c = cp CHR ''%'' then handle_mod
          else if c = cp CHR ''!'' then handle_bang
          else if c = 0x1A then
            do { e \<leftarrow> at_end; if_then (\<not> e) (report_error (UnexpectedChar 0x1A)) }
          else if is_java_whitespace c then handle_whitespace
          else if is_java_identifier_start U c then handle_identifier U
          else do { complete_token UNKNOWN; report_error (UnexpectedChar c) })"

definition scan_token_dispatch :: "unicode \<Rightarrow> unit lex" where
  "scan_token_dispatch U =
     do { c \<leftarrow> query peek;
          if c = cp CHR ''.'' then handle_dot U
          else if c = cp CHR ''{'' then handle_left_brace
          else if c = cp CHR ''}'' then handle_right_brace
          else if is_numeric U c then handle_number U
          else do { c \<leftarrow> consume advance; scan_after_advance U c } }"

definition scan_next_token :: "unicode \<Rightarrow> unit lex" where
  "scan_next_token U =
     do { lex_modify (\<lambda>l. l\<lparr>reader := new_token (reader l)\<rparr>); scan_token_dispatch U }"

definition skip_bom :: "unit lex" where
  "skip_bom = do { c \<leftarrow> query peek; if_then (c = 0xFEFF) skip_char }"

definition scan_tokens :: "unicode \<Rightarrow> unit lex" where
  "scan_tokens U =
     do { skip_bom;
          lex_while (do { e \<leftarrow> at_end; ret (\<not> e) }) (scan_next_token U);
          open_template \<leftarrow> lex_gets (\<lambda>l. template_stack l \<noteq> []);
          if_then open_template (report_error UnterminatedTemplate);
          complete_eof;
          lex_modify (\<lambda>l. l\<lparr>lex_errors := lex_errors l @
            map (\<lambda>r. \<lparr>lex_err_kind = InvalidUnicodeEscape, lex_err_range = r\<rparr>)
              (rd_errors (reader l))\<rparr>) }"

text \<open>\<^verbatim>\<open>lex(src)\<close>: the tokens and the errors.\<close>

definition lex_source :: "unicode \<Rightarrow> string \<Rightarrow> lex_stop + token list \<times> lexical_error list" where
  "lex_source U s =
     (case snd (run_state (scan_tokens U) (Lexing (lexer_new s))) of
        LexStop e \<Rightarrow> Inl e
      | Lexing l \<Rightarrow> Inr (lex_tokens l, lex_errors l))"

end
