(* ===== verification/LexTriples.thy ===== *)
theory LexTriples imports ReaderFacts Lexer begin

text \<open>
  Reasoning about the lexer. \<open>lexes s P f Q\<close> is a Hoare triple over the machine: from a state
  with \<open>P\<close> the action \<open>f\<close> ends in a state with \<open>Q\<close> of its result, or panics, and then only if
  some escape of the source \<open>s\<close> cuts a character in two. Running out of fuel is not among the
  outcomes.
\<close>

named_theorems lex_rules

subsection \<open>Triples\<close>

fun lex_ok :: "string \<Rightarrow> (lexer \<Rightarrow> bool) \<Rightarrow> lex_machine \<Rightarrow> bool" where
  "lex_ok s P (Lexing l) = P l"
| "lex_ok s P (LexStop e) = (e = LexPanic \<and> \<not> escapes_ok s)"

definition lexes :: "string \<Rightarrow> (lexer \<Rightarrow> bool) \<Rightarrow> 'a lex \<Rightarrow> ('a \<Rightarrow> lexer \<Rightarrow> bool) \<Rightarrow> bool" where
  "lexes s P f Q \<longleftrightarrow>
     (\<forall>m. lex_ok s P m \<longrightarrow> (case run_state f m of (a, m') \<Rightarrow> lex_ok s (Q a) m'))"

lemma lexes_bind:
  assumes "lexes s P f R" and "\<And>a. lexes s (R a) (g a) Q"
  shows "lexes s P (State_Monad.bind f g) Q"
  unfolding lexes_def
proof (intro allI impI)
  fix m assume "lex_ok s P m"
  with assms(1) obtain a m' where "run_state f m = (a, m')" "lex_ok s (R a) m'"
    unfolding lexes_def by (metis (mono_tags, lifting) case_prod_conv surj_pair)
  with assms(2) [of a] show "case run_state (State_Monad.bind f g) m of (b, m'') \<Rightarrow> lex_ok s (Q b) m''"
    by (simp add: lexes_def)
qed

lemma lex_ok_mono: "lex_ok s P m \<Longrightarrow> (\<And>l. P l \<Longrightarrow> Q l) \<Longrightarrow> lex_ok s Q m"
  by (cases m) auto

lemma lexes_weaken:
  assumes "lexes s P' f Q'" and "\<And>l. P l \<Longrightarrow> P' l" and "\<And>a l. Q' a l \<Longrightarrow> Q a l"
  shows "lexes s P f Q"
  unfolding lexes_def
proof (intro allI impI)
  fix m assume "lex_ok s P m"
  hence "lex_ok s P' m" using assms(2) by (rule lex_ok_mono)
  with assms(1) have "case run_state f m of (a, m') \<Rightarrow> lex_ok s (Q' a) m'" by (simp add: lexes_def)
  thus "case run_state f m of (a, m') \<Rightarrow> lex_ok s (Q a) m'"
    by (auto intro: lex_ok_mono [OF _ assms(3)] split: prod.splits)
qed

lemma lexes_conj:
  assumes "lexes s P f Q" and "lexes s P f Q'"
  shows "lexes s P f (\<lambda>a l. Q a l \<and> Q' a l)"
  unfolding lexes_def
proof (intro allI impI)
  fix m assume "lex_ok s P m"
  moreover obtain a m' where "run_state f m = (a, m')" by (rule prod.exhaust)
  ultimately show "case run_state f m of (a, m') \<Rightarrow> lex_ok s (\<lambda>l. Q a l \<and> Q' a l) m'"
    using assms unfolding lexes_def by (cases m') fastforce+
qed

lemma lexes_pre: "lexes s P' f Q \<Longrightarrow> (\<And>l. P l \<Longrightarrow> P' l) \<Longrightarrow> lexes s P f Q"
  by (rule lexes_weaken)

lemma lexes_post: "lexes s P f Q' \<Longrightarrow> (\<And>a l. Q' a l \<Longrightarrow> Q a l) \<Longrightarrow> lexes s P f Q"
  by (rule lexes_weaken)

lemma lexes_ret: "(\<And>l. P l \<Longrightarrow> Q a l) \<Longrightarrow> lexes s P (ret a) Q"
  by (auto simp: lexes_def intro: lex_ok_mono)

lemma lexes_if:
  "(b \<Longrightarrow> lexes s P f Q) \<Longrightarrow> (\<not> b \<Longrightarrow> lexes s P g Q) \<Longrightarrow> lexes s P (if b then f else g) Q"
  by simp

lemma lexes_if_then:
  "(b \<Longrightarrow> lexes s P f Q) \<Longrightarrow> (\<And>l. \<not> b \<Longrightarrow> P l \<Longrightarrow> Q () l) \<Longrightarrow> lexes s P (if_then b f) Q"
  by (auto simp: if_then_def intro: lexes_ret)

lemma lexes_discard: "lexes s P f (\<lambda>_. Q ()) \<Longrightarrow> lexes s P (discard f) Q"
  unfolding discard_def by (rule lexes_bind) (auto intro: lexes_ret)

lemma lexes_action:
  assumes "\<And>l. P l \<Longrightarrow> case f l of Inl e \<Rightarrow> e = LexPanic \<and> \<not> escapes_ok s | Inr (a, l') \<Rightarrow> Q a l'"
  shows "lexes s P (lex_action d f) Q"
  unfolding lexes_def
proof (intro allI impI)
  fix m assume "lex_ok s P m"
  with assms show "case run_state (lex_action d f) m of (a, m') \<Rightarrow> lex_ok s (Q a) m'"
    by (cases m) (fastforce simp: lex_action_def split: sum.splits)+
qed

lemma lexes_query:
  assumes "\<And>l. P l \<Longrightarrow> case f (reader l) of None \<Rightarrow> \<not> escapes_ok s | Some a \<Rightarrow> Q a l"
  shows "lexes s P (query f) Q"
  unfolding query_def using assms by (intro lexes_action) (fastforce split: option.splits)

lemma lexes_consume:
  assumes "\<And>l. P l \<Longrightarrow> case f (reader l) of None \<Rightarrow> \<not> escapes_ok s
      | Some (a, r) \<Rightarrow> Q a (l\<lparr>reader := r\<rparr>)"
  shows "lexes s P (consume f) Q"
  unfolding consume_def using assms by (intro lexes_action) (fastforce split: option.splits)

lemma lexes_gets: "(\<And>l. P l \<Longrightarrow> Q (f l) l) \<Longrightarrow> lexes s P (lex_gets f) Q"
  unfolding lex_gets_def by (rule lexes_action) simp

lemma lexes_modify: "(\<And>l. P l \<Longrightarrow> Q () (f l)) \<Longrightarrow> lexes s P (lex_modify f) Q"
  unfolding lex_modify_def by (rule lexes_action) simp

subsection \<open>States between two tokens\<close>

definition wf_lexer :: "string \<Rightarrow> lexer \<Rightarrow> bool" where
  "wf_lexer s l \<longleftrightarrow>
     rd_source (reader l) = s \<and> boundary s (rd_start (reader l)) \<and>
     boundary s (rd_current (reader l)) \<and> rd_start (reader l) \<le> rd_current (reader l)"

text \<open>
  \<open>l\<close> comes from \<open>l0\<close> by reading on, to position \<open>k\<close> at least: the tokens, the start of the
  current token and the templates are those of \<open>l0\<close>, and errors are only added.
\<close>

definition moved :: "string \<Rightarrow> lexer \<Rightarrow> nat \<Rightarrow> lexer \<Rightarrow> bool" where
  "moved s l0 k l \<longleftrightarrow>
     wf_lexer s l \<and> rd_start (reader l) = rd_start (reader l0) \<and> k \<le> rd_current (reader l) \<and>
     lex_tokens l = lex_tokens l0 \<and> (\<exists>es. lex_errors l = lex_errors l0 @ es) \<and>
     mode l = mode l0 \<and> template_stack l = template_stack l0"

definition reads :: "'a lex \<Rightarrow> bool" where
  "reads f \<longleftrightarrow> (\<forall>s l0 k. lexes s (moved s l0 k) f (\<lambda>_. moved s l0 k))"

lemma readsI: "(\<And>s l0 k. lexes s (moved s l0 k) f (\<lambda>_. moved s l0 k)) \<Longrightarrow> reads f"
  by (simp add: reads_def)

lemma readsD: "reads f \<Longrightarrow> lexes s (moved s l0 k) f (\<lambda>_. moved s l0 k)"
  by (simp add: reads_def)

lemma reads_bind [lex_rules]: "reads f \<Longrightarrow> (\<And>a. reads (g a)) \<Longrightarrow> reads (State_Monad.bind f g)"
  unfolding reads_def by (blast intro: lexes_bind)

lemma reads_ret [lex_rules]: "reads (ret a)"
  unfolding reads_def by (blast intro: lexes_ret)

lemma reads_if [lex_rules]: "reads f \<Longrightarrow> reads g \<Longrightarrow> reads (if b then f else g)"
  by simp

lemma reads_if_then [lex_rules]: "reads f \<Longrightarrow> reads (if_then b f)"
  unfolding reads_def by (blast intro: lexes_if_then)

lemma reads_let [lex_rules]: "(\<And>x. reads (f x)) \<Longrightarrow> reads (let x = a in f x)"
  by simp

lemma reads_discard [lex_rules]: "reads f \<Longrightarrow> reads (discard f)"
  unfolding reads_def by (blast intro: lexes_discard)

lemma moved_at_boundary: "moved s l0 k l \<Longrightarrow> at_boundary (reader l) \<and> rd_source (reader l) = s"
  by (simp add: moved_def wf_lexer_def at_boundary_def)

lemma moved_forward:
  "moved s l0 k l \<Longrightarrow> forward (reader l) r \<Longrightarrow> k' \<le> rd_current r \<Longrightarrow> moved s l0 k' (l\<lparr>reader := r\<rparr>)"
  by (auto simp: moved_def wf_lexer_def forward_def at_boundary_def)

lemma forward_le: "forward r r' \<Longrightarrow> rd_current r \<le> rd_current r'"
  by (simp add: forward_def)

lemma moved_le: "moved s l0 k l \<Longrightarrow> k \<le> rd_current (reader l) \<and> rd_current (reader l) \<le> length s"
  by (auto simp: moved_def wf_lexer_def dest: boundary_le)

lemma moved_weaken: "moved s l0 k l \<Longrightarrow> k' \<le> k \<Longrightarrow> moved s l0 k' l"
  by (simp add: moved_def)

lemma moved_error: "moved s l0 k l \<Longrightarrow> moved s l0 k (l\<lparr>lex_errors := lex_errors l @ es\<rparr>)"
  by (auto simp: moved_def wf_lexer_def)

subsection \<open>The primitives\<close>

lemma lexes_peek:
  "lexes s (moved s l0 k) (query peek)
     (\<lambda>c l. moved s l0 k l \<and> (c \<noteq> 0 \<longrightarrow> \<not> reader_is_at_end (reader l)))"
  by (rule lexes_query) (use peek_outcome moved_at_boundary in \<open>fastforce split: option.splits\<close>)

lemma lexes_skip_char:
  "lexes s (\<lambda>l. moved s l0 k l \<and> \<not> reader_is_at_end (reader l)) skip_char (\<lambda>_. moved s l0 (Suc k))"
  unfolding skip_char_def
proof (intro lexes_discard lexes_consume)
  fix l assume l: "moved s l0 k l \<and> \<not> reader_is_at_end (reader l)"
  with moved_at_boundary advance_outcome [of "reader l"] moved_le [of s l0 k l]
  show "case advance (reader l) of None \<Rightarrow> \<not> escapes_ok s
      | Some (a, r) \<Rightarrow> moved s l0 (Suc k) (l\<lparr>reader := r\<rparr>)"
    by (auto split: option.splits intro: moved_forward)
qed

lemma reads_peek [lex_rules]: "reads (query peek)"
  by (rule readsI, rule lexes_post [OF lexes_peek]) blast

lemma reads_peek_n [lex_rules]: "reads (query (peek_n n))"
proof (rule readsI, rule lexes_query)
  fix s l0 k l assume l: "moved s l0 k l"
  with moved_at_boundary peek_n_outcome [of "reader l" n]
  show "case peek_n n (reader l) of None \<Rightarrow> \<not> escapes_ok s | Some a \<Rightarrow> moved s l0 k l"
    by (auto split: option.splits)
qed

lemma reads_peek_next [lex_rules]: "reads (query peek_next)"
  using reads_peek_n [of 1] by (simp add: peek_next_def [abs_def])

lemma reads_consume:
  assumes "\<And>r. at_boundary r \<Longrightarrow> case f r of None \<Rightarrow> \<not> escapes_ok (rd_source r)
    | Some (a, r') \<Rightarrow> forward r r'"
  shows "reads (consume f)"
proof (rule readsI, rule lexes_consume)
  fix s l0 k l assume l: "moved s l0 k l"
  with assms [of "reader l"] moved_at_boundary [OF l] moved_le [OF l]
  show "case f (reader l) of None \<Rightarrow> \<not> escapes_ok s | Some (a, r) \<Rightarrow> moved s l0 k (l\<lparr>reader := r\<rparr>)"
    by (auto split: option.splits intro!: moved_forward dest: forward_le)
qed

lemma reads_advance [lex_rules]: "reads (consume advance)"
  by (rule reads_consume) (use advance_outcome in \<open>fastforce split: option.splits\<close>)

lemma reads_skip_char [lex_rules]: "reads skip_char"
  unfolding skip_char_def by (intro lex_rules)

lemma reads_follows [lex_rules]: "reads (follows c)"
  unfolding follows_def
proof (rule reads_consume)
  fix r assume "at_boundary r"
  from advance_if_matches_outcome [OF this, of "cp c"]
  show "case advance_if_matches (cp c) r of None \<Rightarrow> \<not> escapes_ok (rd_source r)
      | Some (a, r') \<Rightarrow> forward r r'"
    by (auto split: option.splits)
qed

lemma reads_str [lex_rules]:
  "list_all (\<lambda>b. (of_char b :: nat) < 128) e \<Longrightarrow> reads (consume (advance_if_matches_str e))"
  by (rule reads_consume) (use advance_if_matches_str_outcome in \<open>fastforce split: option.splits\<close>)

lemma reads_at_end [lex_rules]: "reads at_end"
  unfolding at_end_def by (rule readsI, rule lexes_gets)

lemma reads_report_error [lex_rules]: "reads (report_error k)"
  unfolding report_error_def by (rule readsI, rule lexes_modify, rule moved_error)

subsection \<open>Loops\<close>

text \<open>A loop whose rounds all take a byte ends within the fuel it has.\<close>

lemma lexes_loop_halts:
  assumes "\<And>x. lexes s (\<lambda>_. False) (body x) (\<lambda>_ _. False)"
  shows "lexes s (\<lambda>_. False) (lex_loop n x body) Q"
proof (induction n arbitrary: x)
  case (Suc n)
  show ?case unfolding lex_loop.simps
    by (rule lexes_bind [OF assms], rule lexes_if) (auto intro: Suc lexes_ret)
qed (simp add: lexes_action)

text \<open>
  The rule for a loop: \<open>I k\<close> holds before a round at position \<open>k\<close>, a round that goes on takes a
  byte at least, and \<open>R k\<close> is what a round that stops leaves behind.
\<close>

definition within :: "string \<Rightarrow> (nat \<Rightarrow> lexer \<Rightarrow> bool) \<Rightarrow> bool" where
  "within s I \<longleftrightarrow>
     (\<forall>k l. I k l \<longrightarrow> k \<le> length s \<and> source_len l = length s) \<and> (\<forall>k l. I (Suc k) l \<longrightarrow> I k l)"

lemma withinD:
  "within s I \<Longrightarrow> I k l \<Longrightarrow> k \<le> length s \<and> source_len l = length s"
  "within s I \<Longrightarrow> I (Suc k) l \<Longrightarrow> I k l"
  by (simp_all add: within_def)

lemma within_moved: "within s (moved s l0)"
  by (auto simp: within_def source_len_def dest: moved_le moved_at_boundary intro: moved_weaken)

lemma round_halts:
  assumes "lexes s (I x (Suc (length s))) f (\<lambda>r. if fst r then I (snd r) (Suc (Suc (length s)))
      else R (snd r) (Suc (length s)))"
    and "\<And>x. within s (I x)" and "\<And>x. within s (R x)"
  shows "lexes s (\<lambda>_. False) f (\<lambda>_ _. False)"
  by (rule lexes_weaken [OF assms(1)])
    (use withinD(1) [OF assms(2)] withinD(1) [OF assms(3)] in \<open>fastforce split: if_splits\<close>)+

lemma lexes_loop:
  assumes body: "\<And>x k. lexes s (I x k) (body x)
      (\<lambda>r. if fst r then I (snd r) (Suc k) else R (snd r) k)"
    and w: "\<And>x. within s (I x)" "\<And>x. within s (R x)" and "length s - k < n"
  shows "lexes s (I x k) (lex_loop n x body) (\<lambda>x. R x k)"
  using assms(4)
proof (induction n arbitrary: k x)
  case (Suc n)
  have h: "lexes s (\<lambda>_. False) (body y) (\<lambda>_ _. False)" for y
    by (rule round_halts [OF body w])
  have "lexes s (I y (Suc k)) (lex_loop n y body) (\<lambda>x. R x k)" for y
  proof (cases "k < length s")
    case True
    with Suc.prems have "length s - Suc k < n" by simp
    from Suc.IH [OF this] show ?thesis by (rule lexes_post) (rule withinD(2) [OF w(2)])
  next
    case False
    show ?thesis
      by (rule lexes_pre [OF lexes_loop_halts [OF h]])
        (use False withinD(1) [OF w(1)] in fastforce)
  qed
  thus ?case
    unfolding lex_loop.simps
    by (intro lexes_bind [OF body] lexes_if) (auto intro: lexes_ret)
qed simp

lemma lexes_loop_over:
  assumes body: "\<And>x k. lexes s (I x k) (body x)
      (\<lambda>r. if fst r then I (snd r) (Suc k) else R (snd r) k)"
    and w: "\<And>x. within s (I x)" "\<And>x. within s (R x)"
  shows "lexes s (I x k) (lex_loop_over x body) (\<lambda>x. R x k)"
  unfolding lex_loop_over_def
proof (rule lexes_bind)
  show "lexes s (I x k) (lex_gets source_len) (\<lambda>n l. I x k l \<and> n = length s)"
    by (rule lexes_gets) (use withinD(1) [OF w(1)] in fastforce)
  fix n
  show "lexes s (\<lambda>l. I x k l \<and> n = length s) (lex_loop (Suc n) x body) (\<lambda>x. R x k)"
  proof (cases "n = length s")
    case True
    have "lexes s (I x k) (lex_loop (Suc n) x body) (\<lambda>x. R x k)"
      by (rule lexes_loop [OF body w]) (simp add: True)
    thus ?thesis by (rule lexes_pre) simp
  next
    case False
    show ?thesis
      by (rule lexes_pre [OF lexes_loop_halts [OF round_halts [OF body w]]]) (simp add: False)
  qed
qed

lemma reads_loop:
  assumes "\<And>s l0 x k. lexes s (moved s l0 k) (body x)
      (\<lambda>r. if fst r then moved s l0 (Suc k) else moved s l0 k)"
  shows "reads (lex_loop_over x body)"
  by (rule readsI, rule lexes_loop_over [OF assms within_moved within_moved])

subsection \<open>Rounds of a loop\<close>

text \<open>After a look at the next character \<open>c\<close>: only at the end of the source is it NUL for sure.\<close>

definition peeked :: "string \<Rightarrow> lexer \<Rightarrow> nat \<Rightarrow> nat \<Rightarrow> lexer \<Rightarrow> bool" where
  "peeked s l0 k c l \<longleftrightarrow> moved s l0 k l \<and> (c \<noteq> 0 \<longrightarrow> \<not> reader_is_at_end (reader l))"

abbreviation round_ok :: "string \<Rightarrow> lexer \<Rightarrow> nat \<Rightarrow> bool \<times> 'x \<Rightarrow> lexer \<Rightarrow> bool" where
  "round_ok s l0 k r \<equiv> (if fst r then moved s l0 (Suc k) else moved s l0 k)"

named_theorems round_rules

lemma round_peek [round_rules]:
  "(\<And>c. lexes s (peeked s l0 k c) (g c) Q) \<Longrightarrow>
   lexes s (moved s l0 k) (State_Monad.bind (query peek) g) Q"
  by (rule lexes_bind [OF lexes_peek]) (simp only: peeked_def [abs_def])

lemma round_skip [round_rules]:
  assumes "c \<noteq> 0" and "lexes s (moved s l0 (Suc k)) g Q"
  shows "lexes s (peeked s l0 k c) (State_Monad.bind skip_char (\<lambda>_. g)) Q"
  by (rule lexes_bind [OF lexes_pre [OF lexes_skip_char] assms(2)])
    (use assms(1) in \<open>simp add: peeked_def\<close>)

lemma round_if_then [round_rules]:
  assumes "lexes s (peeked s l0 k c) g Q"
  shows "lexes s (peeked s l0 k c) (State_Monad.bind (if_then b (report_error e)) (\<lambda>_. g)) Q"
  by (rule lexes_bind [OF lexes_if_then assms])
    (auto simp: report_error_def peeked_def intro!: lexes_modify moved_error)

lemma round_again [round_rules]:
  "lexes s (moved s l0 (Suc k)) (ret (True, x)) (round_ok s l0 k)"
  by (rule lexes_ret) simp

lemma round_stop [round_rules]:
  "lexes s (peeked s l0 k c) (ret (False, x)) (round_ok s l0 k)"
  "lexes s (moved s l0 k) (ret (False, x)) (round_ok s l0 k)"
  by (rule lexes_ret; simp add: peeked_def)+

lemma round_if [round_rules]:
  "(b \<Longrightarrow> lexes s P f Q) \<Longrightarrow> (\<not> b \<Longrightarrow> lexes s P g Q) \<Longrightarrow> lexes s P (if b then f else g) Q"
  by simp

lemma round_let [round_rules]: "lexes s P (f a) Q \<Longrightarrow> lexes s P (let x = a in f x) Q"
  by simp

text \<open>The end of the source, asked for.\<close>

lemma round_at_end [round_rules]:
  assumes "lexes s (moved s l0 k) (g True) Q" and "lexes s (peeked s l0 k 1) (g False) Q"
  shows "lexes s (moved s l0 k) (State_Monad.bind at_end g) Q"
proof (rule lexes_bind)
  show "lexes s (moved s l0 k) at_end
      (\<lambda>e. if e then moved s l0 k else peeked s l0 k 1)"
    unfolding at_end_def by (rule lexes_gets) (simp add: peeked_def)
  show "lexes s (if e then moved s l0 k else peeked s l0 k 1) (g e) Q" for e
    using assms by (cases e) auto
qed

lemma round_moved:
  "lexes s (moved s l0 k) f Q \<Longrightarrow> lexes s (peeked s l0 k c) f Q"
  by (erule lexes_pre) (simp add: peeked_def)

text \<open>\<^verbatim>\<open>while P(peek()) { advance() }\<close>\<close>

lemma reads_while_peek [lex_rules]:
  assumes "\<And>c. P c \<Longrightarrow> c \<noteq> 0"
  shows "reads (lex_while (State_Monad.bind (query peek) (\<lambda>c. ret (P c))) skip_char)"
  unfolding lex_while_def
proof (rule reads_loop)
  fix s l0 k and x :: unit
  show "lexes s (moved s l0 k)
      (do { b \<leftarrow> do { c \<leftarrow> query peek; ret (P c) };
            if b then do { skip_char; ret (True, ()) } else ret (False, ()) }) (round_ok s l0 k)"
    unfolding State_Monad.bind_assoc State_Monad.bind_left_identity
    by (intro round_rules assms)
qed

lemma round_peek_again [round_rules]:
  "(\<And>d. lexes s (peeked s l0 k c) (g d) Q) \<Longrightarrow>
   lexes s (peeked s l0 k c) (State_Monad.bind (query peek) g) Q"
  by (rule lexes_bind [OF lexes_query [where Q = "\<lambda>_. peeked s l0 k c"]])
    (use peek_outcome moved_at_boundary in \<open>fastforce simp: peeked_def split: option.splits\<close>)

lemma round_str [round_rules]:
  assumes "list_all (\<lambda>b. (of_char b :: nat) < 128) e"
    and "lexes s (moved s l0 k) (g True) Q" and "lexes s (peeked s l0 k c) (g False) Q"
  shows "lexes s (peeked s l0 k c) (State_Monad.bind (consume (advance_if_matches_str e)) g) Q"
proof (rule lexes_bind)
  show "lexes s (peeked s l0 k c) (consume (advance_if_matches_str e))
      (\<lambda>b. if b then moved s l0 k else peeked s l0 k c)"
  proof (rule lexes_consume)
    fix l assume l: "peeked s l0 k c l"
    hence m: "moved s l0 k l" by (simp add: peeked_def)
    from advance_if_matches_str_outcome [OF _ assms(1), of "reader l"] l moved_at_boundary [OF m]
      moved_le [OF m]
    show "case advance_if_matches_str e (reader l) of None \<Rightarrow> \<not> escapes_ok s
        | Some (a, r) \<Rightarrow> (if a then moved s l0 k else peeked s l0 k c) (l\<lparr>reader := r\<rparr>)"
      by (auto simp: peeked_def split: option.splits intro!: moved_forward dest: forward_le)
  qed
  show "lexes s (if b then moved s l0 k else peeked s l0 k c) (g b) Q" for b
    using assms(2,3) by (cases b) auto
qed

lemma round_reads:
  "reads f \<Longrightarrow> (\<And>a. lexes s (moved s l0 k) (g a) Q) \<Longrightarrow>
   lexes s (moved s l0 k) (State_Monad.bind f g) Q"
  by (rule lexes_bind [OF readsD])

lemma reads_line_comment [lex_rules]: "reads line_comment"
  unfolding line_comment_def lex_while_def
proof (rule reads_loop, unfold State_Monad.bind_assoc State_Monad.bind_left_identity,
    rule round_peek, rule round_moved, rule round_at_end)
  fix s l0 k c and x :: unit
  show "lexes s (moved s l0 k)
      (if c \<noteq> 0x0A \<and> c \<noteq> 0x0D \<and> \<not> True then do { skip_char; ret (True, ()) } else ret (False, ()))
      (round_ok s l0 k)" by (simp add: round_stop)
qed (intro round_rules, simp)

lemma reads_block_comment [lex_rules]: "reads block_comment"
  unfolding block_comment_def
  by (rule reads_loop, rule round_at_end, simp_all only: if_True if_False) (intro round_rules; simp)+

lemma reads_identifier_loop [lex_rules]:
  "reads (lex_while (State_Monad.bind at_end (\<lambda>e. if e then ret False
     else State_Monad.bind (query peek) (\<lambda>c. ret (P c)))) skip_char)"
  unfolding lex_while_def
  by (rule reads_loop, unfold State_Monad.bind_assoc, rule round_at_end)
    (simp_all only: if_True if_False State_Monad.bind_assoc State_Monad.bind_left_identity,
     (intro round_rules; simp)+)

subsection \<open>Numbers\<close>

lemma is_digit_0 [simp]: "\<not> is_digit b 0" "\<not> is_ascii_digit 0"
  by (simp_all add: is_digit_def is_ascii_digit_def to_ascii_lowercase_def)

lemma reads_number_prefix [lex_rules]: "reads number_prefix"
  unfolding number_prefix_def by (intro lex_rules)

lemma reads_trailing_underscore [lex_rules]: "reads (trailing_underscore n)"
  unfolding trailing_underscore_def by (intro lex_rules)

lemma round_integer_step:
  assumes "\<not> is_numeric U 0"
  shows "lexes s (moved s l0 k) (integer_step U n) (round_ok s l0 k)"
  unfolding integer_step_def
proof (intro round_rules)
  show "c \<noteq> 0" if "is_numeric U c \<or> is_digit b c" for b c
    using that assms by (cases "c = 0") auto
qed simp

lemma reads_integer_part [lex_rules]: "\<not> is_numeric U 0 \<Longrightarrow> reads (integer_part U n)"
  unfolding integer_part_def by (rule reads_loop) (rule round_integer_step)

lemma reads_fraction_digits [lex_rules]: "reads (fraction_digits n)"
  unfolding fraction_digits_def
  by (intro lex_rules, rule reads_loop, intro round_rules) (auto intro: gr0I)

lemma reads_fraction_part [lex_rules]: "reads (fraction_part n)"
  unfolding fraction_part_def by (intro lex_rules)

lemma reads_exponent_part [lex_rules]: "reads (exponent_part n)"
  unfolding exponent_part_def
  by (intro lex_rules, rule reads_loop, intro round_rules) (auto intro: gr0I)

lemma reads_type_suffix [lex_rules]: "reads (type_suffix n)"
  unfolding type_suffix_def by (intro lex_rules)

subsection \<open>Escapes and character literals\<close>

lemma round_then:
  "lexes s (peeked s l0 k c) f (\<lambda>_. moved s l0 (Suc k)) \<Longrightarrow>
   (\<And>a. lexes s (moved s l0 (Suc k)) (g a) Q) \<Longrightarrow>
   lexes s (peeked s l0 k c) (State_Monad.bind f g) Q"
  by (rule lexes_bind)

lemma escape_takes:
  "c \<noteq> 0 \<Longrightarrow> lexes s (peeked s l0 k c) (consume_escape_sequence b) (\<lambda>_. moved s l0 (Suc k))"
  unfolding consume_escape_sequence_def by (rule round_skip, assumption, rule readsD, intro lex_rules)

lemma reads_escape [lex_rules]: "reads (consume_escape_sequence b)"
  unfolding consume_escape_sequence_def by (intro lex_rules)

lemma round_char_step: "lexes s (moved s l0 k) (char_step x) (round_ok s l0 k)"
  unfolding char_step_def
proof (rule round_at_end, simp_all only: if_True if_False)
  show "lexes s (moved s l0 k) (ret (False, x)) (round_ok s l0 k)" by (rule round_stop)
  let ?f = "\<lambda>c. if c = 92 then consume_escape_sequence False else do { skip_char; ret True }"
  have f: "lexes s (peeked s l0 k 1) (?f c) (\<lambda>_. moved s l0 (Suc k))" for c
    by (auto intro!: escape_takes round_skip lexes_ret)
  show "lexes s (peeked s l0 k 1)
      (do { c \<leftarrow> query peek;
            if c = quote then ret (False, x)
            else if newline c then
              do { report_error UnterminatedChar; ret (False, x\<lparr>unterminated := True\<rparr>) }
            else do {
              ok \<leftarrow> ?f c;
              if_then (\<not> ok) (report_error InvalidEscapeSequence);
              ret (True, x\<lparr>logical_char_count := logical_char_count x + len_utf16 c,
                     has_error := has_error x \<or> \<not> ok\<rparr>) } }) (round_ok s l0 k)"
    by (intro round_rules round_then [OF f] round_reads lex_rules)
      (rule round_moved, intro round_reads round_rules lex_rules)
qed

end
