(* ===== verification/Scanning.thy ===== *)
theory Scanning imports LexTriples begin

text \<open>
  What one call of the dispatch of the lexer does, handler by handler: it takes a byte at least,
  and emits the text it took as one token (\<open>emits\<close>), or drops the text with an error (literals
  that are not terminated), or has met a SUB character that ends the source.
\<close>

subsection \<open>Tokens\<close>

text \<open>The text from the start of the current token to the current position.\<close>

definition pending_text :: "string \<Rightarrow> lexer \<Rightarrow> string" where
  "pending_text s l =
     take (rd_current (reader l) - rd_start (reader l)) (drop (rd_start (reader l)) s)"

text \<open>\<open>l\<close> comes from \<open>l0\<close> by reading on and emitting the one token that was read.\<close>

definition emitted :: "string \<Rightarrow> lexer \<Rightarrow> nat \<Rightarrow> lexer \<Rightarrow> bool" where
  "emitted s l0 k l \<longleftrightarrow>
     wf_lexer s l \<and> rd_start (reader l) = rd_start (reader l0) \<and> k \<le> rd_current (reader l) \<and>
     (\<exists>kind. kind \<noteq> EOF \<and> lex_tokens l = lex_tokens l0 @
        [\<lparr>tok_kind = kind, tok_lexeme = pending_text s l, tok_offset = rd_start (reader l)\<rparr>]) \<and>
     (\<exists>es. lex_errors l = lex_errors l0 @ es) \<and>
     mode l = mode l0 \<and> template_stack l = template_stack l0"

definition emits :: "'a lex \<Rightarrow> bool" where
  "emits f \<longleftrightarrow> (\<forall>s l0 k. lexes s (moved s l0 k) f (\<lambda>_. emitted s l0 k))"

named_theorems emit_rules

lemma emitsD: "emits f \<Longrightarrow> lexes s (moved s l0 k) f (\<lambda>_. emitted s l0 k)"
  by (simp add: emits_def)

lemma emits_complete [emit_rules]:
  assumes "kind \<noteq> EOF"
  shows "emits (complete_token kind)"
  unfolding emits_def complete_token_def
proof (intro allI, rule lexes_bind)
  fix s l0 k
  show "lexes s (moved s l0 k) (query current_token_lexeme_raw)
      (\<lambda>t l. moved s l0 k l \<and> t = pending_text s l)"
  proof (rule lexes_query)
    fix l assume "moved s l0 k l"
    moreover from this have "current_token_lexeme_raw (reader l) = Some (pending_text s l)"
      by (auto simp: current_token_lexeme_raw_def slice_boundaries moved_def wf_lexer_def pending_text_def)
    ultimately show "case current_token_lexeme_raw (reader l) of None \<Rightarrow> \<not> escapes_ok s
        | Some a \<Rightarrow> moved s l0 k l \<and> a = pending_text s l" by simp
  qed
  show "lexes s (\<lambda>l. moved s l0 k l \<and> t = pending_text s l)
      (lex_modify (\<lambda>l. l\<lparr>lex_tokens := lex_tokens l @
         [\<lparr>tok_kind = kind, tok_lexeme = t, tok_offset = rd_start (reader l)\<rparr>]\<rparr>))
      (\<lambda>_. emitted s l0 k)" for t
    by (rule lexes_modify) (use assms in \<open>auto simp: moved_def emitted_def wf_lexer_def pending_text_def\<close>)
qed

lemma emits_bind [emit_rules]: "reads f \<Longrightarrow> (\<And>a. emits (g a)) \<Longrightarrow> emits (State_Monad.bind f g)"
  unfolding reads_def emits_def by (blast intro: lexes_bind)

lemma emits_if [emit_rules]: "emits f \<Longrightarrow> emits g \<Longrightarrow> emits (if b then f else g)"
  by simp

lemma lexes_report_emitted:
  "lexes s (emitted s l0 k) (report_error e) (\<lambda>_. emitted s l0 k)"
  unfolding report_error_def
  by (rule lexes_modify) (auto simp: emitted_def wf_lexer_def pending_text_def)

lemma emits_report [emit_rules]: "emits f \<Longrightarrow> emits (State_Monad.bind f (\<lambda>_. report_error e))"
  unfolding emits_def by (blast intro: lexes_bind lexes_report_emitted)

lemma emits_operators [emit_rules]:
  "emits handle_colon" "emits handle_mod" "emits handle_bang" "emits handle_or" "emits handle_and"
  "emits handle_star" "emits handle_plus" "emits handle_caret" "emits handle_minus"
  "emits handle_less" "emits handle_greater" "emits handle_eq"
  unfolding handle_colon_def handle_mod_def handle_bang_def handle_or_def handle_and_def
    handle_star_def handle_plus_def handle_caret_def handle_minus_def handle_less_def
    handle_greater_def handle_eq_def
  by (intro emit_rules lex_rules; simp)+

lemma emits_whitespace [emit_rules]: "emits handle_whitespace"
  unfolding handle_whitespace_def
  by (intro emit_rules lex_rules) (auto simp: is_java_whitespace_def intro: gr0I)

lemma emits_slash [emit_rules]: "emits handle_slash"
  unfolding handle_slash_def by (intro emit_rules lex_rules; simp)

lemma identifier_kind_not_EOF: "identifier_kind t \<noteq> EOF"
  by (auto simp: identifier_kind_def keyword_table_def split: option.split if_splits)

text \<open>The lexeme of an identifier is a text by itself, so translating it does not panic.\<close>

lemma reads_lexeme [lex_rules]: "reads (query current_token_lexeme)"
proof (rule readsI, rule lexes_query)
  fix s l0 k l assume m: "moved s l0 k l"
  let ?t = "pending_text s l"
  have b: "boundary s (rd_start (reader l))" "boundary s (rd_current (reader l))"
    "rd_start (reader l) \<le> rd_current (reader l)" "rd_source (reader l) = s"
    using m unfolding moved_def wf_lexer_def by blast+
  have "current_token_lexeme_raw (reader l) = Some ?t"
    using b by (simp add: current_token_lexeme_raw_def slice_boundaries pending_text_def)
  moreover have "translate_unicode_escapes ?t \<noteq> None" if "escapes_ok s"
    unfolding pending_text_def
    using that b by (intro translate_total utf8_take escapes_ok_slice boundary_le)
  ultimately show "case current_token_lexeme (reader l) of None \<Rightarrow> \<not> escapes_ok s
      | Some a \<Rightarrow> moved s l0 k l"
    using m by (auto simp: current_token_lexeme_def split: option.split)
qed

lemma emits_identifier [emit_rules]: "emits (handle_identifier U)"
  unfolding handle_identifier_def by (intro emit_rules lex_rules identifier_kind_not_EOF)

lemma emits_number [emit_rules]: "\<not> is_numeric U 0 \<Longrightarrow> emits (handle_number U)"
  unfolding handle_number_def by (intro emit_rules lex_rules) simp_all

lemma emits_dot [emit_rules]: "\<not> is_numeric U 0 \<Longrightarrow> emits (handle_dot U)"
  unfolding handle_dot_def by (intro emit_rules lex_rules) simp_all


subsection \<open>Strings, text blocks and templates\<close>

text \<open>The errors with which the lexer gives up on a literal and drops its text.\<close>

fun drops_text :: "lexical_error_kind \<Rightarrow> bool" where
  "drops_text UnterminatedChar = True"
| "drops_text UnterminatedString = True"
| "drops_text UnterminatedTextBlock = True"
| "drops_text UnterminatedTemplate = True"
| "drops_text (UnexpectedChar c) = (c = 0x1A)"
| "drops_text _ = False"

definition lost :: "lexer \<Rightarrow> bool" where
  "lost l \<longleftrightarrow> list_ex (\<lambda>e. drops_text (lex_err_kind e)) (lex_errors l)"

text \<open>Outside of any template expression the lexer is in its normal mode.\<close>

definition template_ok :: "lexer \<Rightarrow> bool" where
  "template_ok l \<longleftrightarrow> (template_stack l = [] \<longrightarrow> mode l = Normal)"

text \<open>A SUB character, itself or its escape, that is the rest of the source from \<open>p\<close> on.\<close>

definition final_sub :: "string \<Rightarrow> nat \<Rightarrow> bool" where
  "final_sub s p \<longleftrightarrow> p < length s \<and> scan_at s p = Some (Char_scan 0x1A (length s - p))"

text \<open>
  One call of the dispatch: the token that was read is emitted, or it is dropped with an error,
  or it is a SUB character that ends the source.
\<close>

definition scanned :: "string \<Rightarrow> lexer \<Rightarrow> nat \<Rightarrow> lexer \<Rightarrow> bool" where
  "scanned s l0 k l \<longleftrightarrow>
     wf_lexer s l \<and> rd_start (reader l) = rd_start (reader l0) \<and> k \<le> rd_current (reader l) \<and>
     (\<exists>es. lex_errors l = lex_errors l0 @ es) \<and>
     ((\<exists>kind. kind \<noteq> EOF \<and> lex_tokens l = lex_tokens l0 @
        [\<lparr>tok_kind = kind, tok_lexeme = pending_text s l, tok_offset = rd_start (reader l)\<rparr>]) \<or>
      lex_tokens l = lex_tokens l0 \<and>
        (lost l \<or> rd_current (reader l) = length s \<and> final_sub s (rd_start (reader l))))"

lemma emitted_scanned: "emitted s l0 k l \<Longrightarrow> scanned s l0 k l"
  by (auto simp: emitted_def scanned_def)

lemma scanned_error:
  "moved s l0 k l \<Longrightarrow> drops_text e \<Longrightarrow>
   scanned s l0 k (l\<lparr>lex_errors := lex_errors l @ [\<lparr>lex_err_kind = e, lex_err_range = r\<rparr>]\<rparr>)"
  by (auto simp: moved_def scanned_def wf_lexer_def lost_def)

lemma scanned_modes:
  "scanned s l0 k l \<Longrightarrow> scanned s l0 k (l\<lparr>mode := m\<rparr>)"
  "scanned s l0 k l \<Longrightarrow> scanned s l0 k (l\<lparr>template_stack := st\<rparr>)"
  by (auto simp: scanned_def wf_lexer_def lost_def pending_text_def)

text \<open>
  The end of a literal of role \<open>role\<close>. A continuation may start with the template already
  popped.
\<close>

definition quoted_end :: "string \<Rightarrow> lexer \<Rightarrow> template_chunk_role \<Rightarrow> nat \<Rightarrow> lexer \<Rightarrow> bool" where
  "quoted_end s l0 role k l \<longleftrightarrow>
     scanned s l0 k l \<and> (role = Continuation \<or> template_ok l0 \<longrightarrow> template_ok l)"

lemma lexes_dropped:
  assumes "drops_text e"
  shows "lexes s (moved s l0 k) (report_error e)
    (\<lambda>_ l. scanned s l0 k l \<and> mode l = mode l0 \<and> template_stack l = template_stack l0)"
  unfolding report_error_def
  by (rule lexes_modify) (use assms in \<open>auto intro: scanned_error simp: moved_def\<close>)

lemma lexes_unterminated:
  "lexes s (moved s l0 k) (unterminated_at_newline role) (\<lambda>_. quoted_end s l0 role k)"
  "lexes s (moved s l0 k) (unterminated_at_end kind role) (\<lambda>_. quoted_end s l0 role k)"
proof -
  have full: "lexes s (moved s l0 k) (report_error e) (\<lambda>_. quoted_end s l0 FullLiteral k)"
    if "drops_text e" for e
    by (rule lexes_post [OF lexes_dropped [OF that]])
      (auto simp: quoted_end_def template_ok_def)
  have cont: "lexes s (moved s l0 k) (do { report_error UnterminatedTemplate; set_mode Normal })
      (\<lambda>_. quoted_end s l0 Continuation k)"
    unfolding set_mode_def
    by (rule lexes_bind [OF lexes_dropped], simp, rule lexes_modify)
      (auto simp: quoted_end_def template_ok_def intro: scanned_modes)
  show "lexes s (moved s l0 k) (unterminated_at_newline role) (\<lambda>_. quoted_end s l0 role k)"
    using full [of UnterminatedString] cont by (cases role) (simp_all add: unterminated_at_newline_def)
  show "lexes s (moved s l0 k) (unterminated_at_end kind role) (\<lambda>_. quoted_end s l0 role k)"
    using full cont by (cases role; cases kind) (simp_all add: unterminated_at_end_def)
qed

lemma template_tokens_not_EOF [simp]:
  "begin_token kind \<noteq> EOF" "mid_token kind \<noteq> EOF" "end_token kind \<noteq> EOF" "literal_token kind \<noteq> EOF"
  by (cases kind; simp)+

lemma emitted_template_ok: "emitted s l0 k l \<Longrightarrow> template_ok l0 \<Longrightarrow> template_ok l"
  by (simp add: emitted_def template_ok_def)

lemma lexes_terminal:
  "lexes s (moved s l0 k) (emit_quoted_terminal_token kind role) (\<lambda>_. quoted_end s l0 role k)"
proof (cases role)
  case FullLiteral
  show ?thesis
    unfolding emit_quoted_terminal_token_def FullLiteral template_chunk_role.case
    by (rule lexes_post [OF emitsD [OF emits_complete]])
      (simp_all add: quoted_end_def emitted_scanned emitted_template_ok)
next
  case Continuation
  let ?P = "\<lambda>l. moved s l0 k (l\<lparr>mode := mode l0\<rparr>) \<and> template_ok l"
  have m: "lexes s (\<lambda>l. moved s l0 k l \<and> b = (template_stack l = [])) (if_then b (set_mode Normal))
      (\<lambda>_. ?P)" for b
    unfolding set_mode_def
    by (intro lexes_if_then lexes_modify) (auto simp: moved_def wf_lexer_def template_ok_def)
  have c: "lexes s ?P (complete_token (end_token kind)) (\<lambda>_. quoted_end s l0 Continuation k)"
    unfolding complete_token_def
  proof (rule lexes_bind)
    show "lexes s ?P (query current_token_lexeme_raw) (\<lambda>t l. ?P l \<and> t = pending_text s l)"
    proof (rule lexes_query)
      fix l assume p: "?P l"
      hence "current_token_lexeme_raw (reader l) = Some (pending_text s l)"
        by (auto simp: current_token_lexeme_raw_def slice_boundaries moved_def wf_lexer_def
            pending_text_def)
      with p show "case current_token_lexeme_raw (reader l) of None \<Rightarrow> \<not> escapes_ok s
        | Some a \<Rightarrow> ?P l \<and> a = pending_text s l" by simp
    qed
  qed (rule lexes_modify, auto simp: moved_def quoted_end_def scanned_def wf_lexer_def
      template_ok_def pending_text_def)
  show ?thesis
    unfolding emit_quoted_terminal_token_def Continuation template_chunk_role.case
    by (rule lexes_bind [OF lexes_gets lexes_bind [OF m c]]) simp
qed

lemma peeked_moved: "peeked s l0 k c l \<Longrightarrow> moved s l0 k l"
  by (simp add: peeked_def)

lemma reads_is_template_close [lex_rules]: "reads (is_template_close kind)"
  unfolding is_template_close_def by (cases kind; simp; intro lex_rules)

lemma reads_consume_template_close [lex_rules]: "reads (consume_template_close kind)"
  unfolding consume_template_close_def by (cases kind; simp; intro lex_rules)

lemma lexes_look:
  "lexes s (peeked s l0 k c) (query (peek_n n)) (\<lambda>_. peeked s l0 k c)"
proof (rule lexes_query)
  fix l assume p: "peeked s l0 k c l"
  with moved_at_boundary [OF peeked_moved [OF p]] peek_n_outcome [of "reader l" n]
  show "case peek_n n (reader l) of None \<Rightarrow> \<not> escapes_ok s | Some a \<Rightarrow> peeked s l0 k c l"
    by (auto split: option.splits)
qed

lemma round_peek_next [round_rules]:
  "(\<And>d. lexes s (peeked s l0 k c) (g d) Q) \<Longrightarrow>
   lexes s (peeked s l0 k c) (State_Monad.bind (query peek_next) g) Q"
  unfolding peek_next_def [abs_def] by (rule lexes_bind [OF lexes_look])

lemma round_is_template_close [round_rules]:
  assumes "\<And>b. lexes s (peeked s l0 k c) (g b) Q"
  shows "lexes s (peeked s l0 k c) (State_Monad.bind (is_template_close kind) g) Q"
proof (rule lexes_bind [OF _ assms])
  show "lexes s (peeked s l0 k c) (is_template_close kind) (\<lambda>_. peeked s l0 k c)"
    unfolding is_template_close_def
    by (cases kind; simp only: template_kind.case)
      (intro round_rules lexes_bind [OF lexes_look] lexes_ret; assumption)+
qed

lemma lexes_quoted_step:
  "lexes s (moved s l0 k) (quoted_step kind role)
     (\<lambda>r. if fst r then moved s l0 (Suc k) else if snd r then quoted_end s l0 role k else moved s l0 k)"
    (is "lexes s _ _ ?Q")
  unfolding quoted_step_def
proof (rule round_at_end, simp_all only: if_True if_False)
  show "lexes s (moved s l0 k) (ret (False, False)) ?Q" by (rule lexes_ret) simp
  have fin: "lexes s (quoted_end s l0 role k) (ret (False, True)) ?Q" by (rule lexes_ret) simp
  have again: "lexes s (moved s l0 (Suc k)) (ret (True, b)) ?Q" for b by (rule lexes_ret) simp
  have closing: "lexes s (peeked s l0 k 1)
      (do { consume_template_close kind; emit_quoted_terminal_token kind role; ret (False, True) }) ?Q"
    by (intro round_moved lexes_bind [OF readsD [OF reads_consume_template_close]]
        lexes_bind [OF lexes_terminal] fin)
  have newline: "lexes s (peeked s l0 k c) (do { unterminated_at_newline role; ret (False, True) }) ?Q" for c
    by (intro round_moved lexes_bind [OF lexes_unterminated(1)] fin)
  have escape: "lexes s (peeked s l0 k 1)
      (do { ok \<leftarrow> consume_escape_sequence b; if_then (\<not> ok) (report_error InvalidEscapeSequence);
            ret (True, False) }) ?Q" for b
    by (intro round_then [OF escape_takes] round_reads lex_rules again) simp
  have opens: "lexes s (peeked s l0 k 1)
      (do { skip_char; skip_char; emit_template_open_token kind role;
            lex_modify (\<lambda>l. l\<lparr>template_stack := template_stack l @
              [\<lparr>ctx_kind = kind, brace_depth = 0\<rparr>]\<rparr>);
            set_mode TemplateExpression; ret (False, True) }) ?Q"
  proof (rule round_moved, (rule round_reads, rule reads_skip_char)+)
    have e: "lexes s (moved s l0 k) (emit_template_open_token kind role) (\<lambda>_. emitted s l0 k)"
      unfolding emit_template_open_token_def
      by (rule emitsD, rule emits_complete) (cases role; simp)
    have "lexes s (emitted s l0 k)
        (lex_modify (\<lambda>l. l\<lparr>template_stack := template_stack l @ [\<lparr>ctx_kind = kind, brace_depth = 0\<rparr>]\<rparr>))
        (\<lambda>_ l. scanned s l0 k l \<and> template_stack l \<noteq> [])"
      by (rule lexes_modify) (auto intro: scanned_modes emitted_scanned)
    moreover have "lexes s (\<lambda>l. scanned s l0 k l \<and> template_stack l \<noteq> []) (set_mode TemplateExpression)
        (\<lambda>_. quoted_end s l0 role k)"
      unfolding set_mode_def
      by (rule lexes_modify) (auto simp: quoted_end_def template_ok_def intro: scanned_modes)
    ultimately show "lexes s (moved s l0 k)
      (do { emit_template_open_token kind role;
            lex_modify (\<lambda>l. l\<lparr>template_stack := template_stack l @
              [\<lparr>ctx_kind = kind, brace_depth = 0\<rparr>]\<rparr>);
            set_mode TemplateExpression; ret (False, True) }) ?Q"
      by (intro lexes_bind [OF e]) (erule lexes_bind, erule lexes_bind, rule fin)
  qed
  show "lexes s (peeked s l0 k 1)
      (do { close \<leftarrow> is_template_close kind;
            if close then do { consume_template_close kind; emit_quoted_terminal_token kind role;
              ret (False, True) }
            else do {
              c \<leftarrow> query peek;
              if \<not> allows_newline kind \<and> newline c then
                do { unterminated_at_newline role; ret (False, True) }
              else if c = 92 then
                do { d \<leftarrow> query peek_next;
                     if d = cp CHR ''{'' then
                       do { skip_char; skip_char; emit_template_open_token kind role;
                            lex_modify (\<lambda>l. l\<lparr>template_stack := template_stack l @
                              [\<lparr>ctx_kind = kind, brace_depth = 0\<rparr>]\<rparr>);
                            set_mode TemplateExpression; ret (False, True) }
                     else do { ok \<leftarrow> consume_escape_sequence (kind = TextBlockTemplate);
                       if_then (\<not> ok) (report_error InvalidEscapeSequence); ret (True, False) } }
              else do { skip_char; ret (True, False) } } }) ?Q"
    by (intro round_is_template_close round_if round_peek_again round_peek_next closing newline escape
        opens round_skip again) simp
qed

lemma reads_text_block_open [lex_rules]: "reads text_block_open"
  unfolding text_block_open_def by (intro lex_rules) auto

lemma scanned_weaken: "scanned s l0 k l \<Longrightarrow> k' \<le> k \<Longrightarrow> scanned s l0 k' l"
  unfolding scanned_def using le_trans by blast

lemma quoted_end_weaken: "quoted_end s l0 role (Suc k) l \<Longrightarrow> quoted_end s l0 role k l"
  unfolding quoted_end_def using scanned_weaken by fastforce

lemma scanned_le: "scanned s l0 k l \<Longrightarrow> k \<le> length s \<and> source_len l = length s"
  by (auto simp: scanned_def wf_lexer_def source_len_def dest: boundary_le)

lemma within_quoted:
  "within s (\<lambda>k l. if b then quoted_end s l0 role k l else moved s l0 k l)"
  using within_moved [of s l0] scanned_le [of s l0] quoted_end_weaken [of s l0 role]
  by (auto simp: within_def quoted_end_def)

lemma lexes_quoted:
  "lexes s (moved s l0 k) (scan_quoted_content kind role) (\<lambda>_. quoted_end s l0 role k)"
proof -
  have step: "lexes s (moved s l0 j) (quoted_step kind role)
      (\<lambda>r. if fst r then moved s l0 (Suc j)
           else (\<lambda>b j l. if b then quoted_end s l0 role j l else moved s l0 j l) (snd r) j)" for j
    by (rule lexes_post [OF lexes_quoted_step]) (auto split: if_splits)
  have loop: "lexes s (moved s l0 k) (lex_loop_over False (\<lambda>_. quoted_step kind role))
      (\<lambda>b l. if b then quoted_end s l0 role k l else moved s l0 k l)"
    by (rule lexes_loop_over [OF step within_moved within_quoted])
  have last: "lexes s (\<lambda>l. if b then quoted_end s l0 role k l else moved s l0 k l)
      (if_then (\<not> b) (unterminated_at_end kind role)) (\<lambda>_. quoted_end s l0 role k)" for b
    using lexes_unterminated(2) [of s l0 k kind role]
    by (cases b) (auto simp: if_then_def intro: lexes_ret)
  show ?thesis
    unfolding scan_quoted_content_def
    by (rule round_reads, intro lex_rules) (rule lexes_bind [OF loop last])
qed

abbreviation scanned_ok :: "string \<Rightarrow> lexer \<Rightarrow> nat \<Rightarrow> lexer \<Rightarrow> bool" where
  "scanned_ok s l0 \<equiv> quoted_end s l0 FullLiteral"

lemma emitted_ok: "emitted s l0 k l \<Longrightarrow> scanned_ok s l0 k l"
  by (simp add: quoted_end_def emitted_scanned emitted_template_ok)

lemma lexes_emits: "emits f \<Longrightarrow> lexes s (moved s l0 k) f (\<lambda>_. scanned_ok s l0 k)"
  by (rule lexes_post [OF emitsD]) (simp_all add: emitted_ok)

lemma lexes_fix:
  assumes "\<And>l1. lexes s (\<lambda>l. l = l1 \<and> P l1) f Q"
  shows "lexes s P f Q"
  unfolding lexes_def
proof (intro allI impI)
  fix m assume "lex_ok s P m"
  then obtain l1 where "lex_ok s (\<lambda>l. l = l1 \<and> P l1) m" by (cases m) auto
  with assms [of l1] show "case run_state f m of (a, m') \<Rightarrow> lex_ok s (Q a) m'"
    by (simp add: lexes_def)
qed

lemma moved_trans: "moved s l0 k l1 \<Longrightarrow> moved s l1 k' l \<Longrightarrow> moved s l0 k' l"
  by (auto simp: moved_def)

lemma moved_lost: "moved s l1 k l \<Longrightarrow> lost l1 \<Longrightarrow> lost l"
  by (auto simp: moved_def lost_def)

text \<open>A character literal cut by a newline is reported.\<close>

lemma lexes_char_content:
  "lexes s (moved s l0 k) char_content (\<lambda>x l. moved s l0 k l \<and> (unterminated x \<longrightarrow> lost l))"
proof -
  let ?I = "\<lambda>x j l. moved s l0 j l \<and> (unterminated x \<longrightarrow> lost l)"
  have w: "within s (?I x)" for x
    using within_moved [of s l0] by (auto simp: within_def)
  let ?Q = "\<lambda>j (r :: bool \<times> char_scan). if fst r then ?I (snd r) (Suc j) else ?I (snd r) j"
  have halts: "lexes s (\<lambda>_. False) (char_step x) Q" for x and Q :: "bool \<times> char_scan \<Rightarrow> lexer \<Rightarrow> bool"
    by (rule lexes_weaken [OF round_char_step [of s l0 "Suc (length s)"]])
      (auto split: if_splits dest: moved_le)
  have cut: "lexes s (?I x j) (char_step x) (?Q j)" if u: "unterminated x" for x j
  proof (rule lexes_fix)
    fix l1
    show "lexes s (\<lambda>l. l = l1 \<and> ?I x j l1) (char_step x) (?Q j)"
    proof (cases "?I x j l1")
      case True
      hence "moved s l1 j l1" by (auto simp: moved_def)
      with True u show ?thesis
        by (intro lexes_weaken [OF round_char_step [of s l1 j x]])
          (auto intro: moved_trans moved_lost)
    next
      case False
      show ?thesis by (rule lexes_pre [OF halts]) (use False in simp)
    qed
  qed
  have first: "lexes s (moved s l0 j) (char_step x) (?Q j)" if u: "\<not> unterminated x" for x j
    unfolding char_step_def
  proof (rule round_at_end, simp_all only: if_True if_False)
    have stop: "lexes s (moved s l0 j) (ret (False, x)) (?Q j)"
      by (rule lexes_ret) (simp add: u)
    thus "lexes s (moved s l0 j) (ret (False, x)) (?Q j)" .
    have end_of_line: "lexes s (peeked s l0 j 1)
        (do { report_error UnterminatedChar; ret (False, x\<lparr>unterminated := True\<rparr>) }) (?Q j)"
      unfolding report_error_def
      by (rule round_moved, rule lexes_bind [OF lexes_modify lexes_ret],
          rule conjI, erule moved_error) (auto simp: lost_def)
    let ?f = "\<lambda>c. if c = 92 then consume_escape_sequence False else do { skip_char; ret True }"
    have f: "lexes s (peeked s l0 j 1) (?f c) (\<lambda>_. moved s l0 (Suc j))" for c
      by (auto intro!: escape_takes round_skip lexes_ret)
    have again: "lexes s (moved s l0 (Suc j)) (ret (True, x\<lparr>logical_char_count := m, has_error := b\<rparr>)) (?Q j)"
      for m b by (rule lexes_ret) (simp add: u)
    show "lexes s (peeked s l0 j 1)
        (do { c \<leftarrow> query peek;
              if c = quote then ret (False, x)
              else if newline c then
                do { report_error UnterminatedChar; ret (False, x\<lparr>unterminated := True\<rparr>) }
              else do {
                ok \<leftarrow> ?f c;
                if_then (\<not> ok) (report_error InvalidEscapeSequence);
                ret (True, x\<lparr>logical_char_count := logical_char_count x + len_utf16 c,
                       has_error := has_error x \<or> \<not> ok\<rparr>) } }) (?Q j)"
      by (intro round_peek_again round_if round_moved [OF stop] end_of_line round_then [OF f]
          round_reads lex_rules again)
  qed
  have body: "lexes s (?I x j) (char_step x) (?Q j)" for x j
    using cut [of x j] first [of x j] by (cases "unterminated x") simp_all
  show ?thesis
    unfolding char_content_def
    by (rule lexes_pre [OF lexes_loop_over [OF body w w]]) simp
qed

lemma moved_lost_ok: "moved s l0 k l \<Longrightarrow> lost l \<Longrightarrow> scanned_ok s l0 k l"
  by (auto simp: moved_def quoted_end_def scanned_def template_ok_def)

lemma lexes_dropped_ok:
  "drops_text e \<Longrightarrow> lexes s (moved s l0 k) (report_error e) (\<lambda>_. scanned_ok s l0 k)"
  by (rule lexes_post [OF lexes_dropped]) (auto simp: quoted_end_def template_ok_def)

lemma lexes_char_literal:
  "lexes s (moved s l0 k) handle_char_literal (\<lambda>_. scanned_ok s l0 k)"
proof -
  have closed: "emits (do { skip_char; if_then b (report_error InvalidChar); complete_token CHAR_LITERAL })" for b
    by (intro emit_rules lex_rules) simp
  have rest: "lexes s (moved s l0 k)
      (do { e \<leftarrow> at_end;
            if e then report_error UnterminatedChar
            else do { skip_char; if_then b (report_error InvalidChar); complete_token CHAR_LITERAL } })
      (\<lambda>_. scanned_ok s l0 k)" for b
    by (intro round_reads lex_rules lexes_if lexes_dropped_ok lexes_emits [OF closed]) simp
  have cut: "lexes s (\<lambda>l. moved s l0 k l \<and> lost l) skip (\<lambda>_. scanned_ok s l0 k)"
    by (rule lexes_ret) (simp add: moved_lost_ok)
  show ?thesis
    unfolding handle_char_literal_def
    by (rule lexes_bind [OF lexes_char_content], rule lexes_if;
        rule lexes_pre [OF cut] lexes_pre [OF rest]; simp)
qed

subsection \<open>From a fixed state on\<close>

text \<open>
  \<open>since s l0 r X l\<close>: the reader is still \<open>r\<close>, and then \<open>X\<close>; or it has moved on. With \<open>X\<close> false
  a byte has been taken.
\<close>

definition since :: "string \<Rightarrow> lexer \<Rightarrow> source_reader \<Rightarrow> bool \<Rightarrow> lexer \<Rightarrow> bool" where
  "since s l0 r X l \<longleftrightarrow>
     moved s l0 (rd_current r) l \<and> (reader l = r \<and> X \<or> rd_current r < rd_current (reader l))"

lemma since_start:
  assumes "\<And>l1. moved s l0 k l1 \<Longrightarrow> P l1 \<Longrightarrow> lexes s (since s l0 (reader l1) True) f Q"
    and "lexes s (\<lambda>_. False) f Q"
  shows "lexes s (\<lambda>l. moved s l0 k l \<and> P l) f Q"
proof (rule lexes_fix)
  fix l1
  show "lexes s (\<lambda>l. l = l1 \<and> moved s l0 k l1 \<and> P l1) f Q"
  proof (cases "moved s l0 k l1 \<and> P l1")
    case True
    hence "moved s l0 (rd_current (reader l1)) l1" by (simp add: moved_def)
    with True assms(1) [of l1] show ?thesis by (auto intro: lexes_pre simp: since_def)
  next
    case False
    show ?thesis by (rule lexes_pre [OF assms(2)]) (use False in simp)
  qed
qed

lemma since_moved: "since s l0 r False l \<longleftrightarrow> moved s l0 (Suc (rd_current r)) l"
  by (auto simp: since_def moved_def)

lemma since_query:
  assumes "\<And>r. at_boundary r \<Longrightarrow> f r = None \<Longrightarrow> \<not> escapes_ok (rd_source r)"
    and "\<And>a. lexes s (since s l0 r (X \<and> f r = Some a)) (g a) Q"
  shows "lexes s (since s l0 r X) (State_Monad.bind (query f) g) Q"
proof (rule lexes_bind [OF _ assms(2)], rule lexes_query)
  fix l assume l: "since s l0 r X l"
  hence "moved s l0 (rd_current r) l" by (simp add: since_def)
  from moved_at_boundary [OF this] assms(1) [of "reader l"] l
  show "case f (reader l) of None \<Rightarrow> \<not> escapes_ok s
      | Some a \<Rightarrow> since s l0 r (X \<and> f r = Some a) l"
    by (auto simp: since_def split: option.splits)
qed

lemma since_peek:
  "(\<And>c. lexes s (since s l0 r (X \<and> peek r = Some c)) (g c) Q) \<Longrightarrow>
   lexes s (since s l0 r X) (State_Monad.bind (query peek) g) Q"
  by (rule since_query) (auto simp: peek_def [abs_def] dest: peek_n_outcome)

lemma since_peek_next:
  "(\<And>c. lexes s (since s l0 r X) (g c) Q) \<Longrightarrow>
   lexes s (since s l0 r X) (State_Monad.bind (query peek_next) g) Q"
proof (rule since_query)
  fix c assume "\<And>c. lexes s (since s l0 r X) (g c) Q"
  from this [of c] show "lexes s (since s l0 r (X \<and> peek_next r = Some c)) (g c) Q"
    by (rule lexes_pre) (auto simp: since_def)
qed (auto simp: peek_next_def dest: peek_n_outcome)

lemma since_skip:
  assumes "lexes s (since s l0 r (X \<and> reader_is_at_end r)) g Q"
  shows "lexes s (since s l0 r X) (State_Monad.bind skip_char (\<lambda>_. g)) Q"
  unfolding skip_char_def
proof (rule lexes_bind [OF lexes_discard assms], rule lexes_consume)
  fix l assume l: "since s l0 r X l"
  hence m: "moved s l0 (rd_current r) l" by (simp add: since_def)
  show "case advance (reader l) of None \<Rightarrow> \<not> escapes_ok s
      | Some (a, r') \<Rightarrow> since s l0 r (X \<and> reader_is_at_end r) (l\<lparr>reader := r'\<rparr>)"
  proof (cases "advance (reader l)")
    case None
    with advance_outcome [of "reader l"] moved_at_boundary [OF m] show ?thesis by simp
  next
    case (Some ar)
    obtain a r' where ar: "ar = (a, r')" by (cases ar)
    with advance_outcome [of "reader l"] moved_at_boundary [OF m] Some have
      f: "forward (reader l) r'"
        "rd_current (reader l) < rd_current r' \<or> reader_is_at_end (reader l) \<and> r' = reader l"
      by auto
    moreover have "moved s l0 (rd_current r) (l\<lparr>reader := r'\<rparr>)"
      using moved_forward [OF m f(1)] forward_le [OF f(1)] moved_le [OF m] by simp
    ultimately show ?thesis using Some ar l by (auto simp: since_def)
  qed
qed

lemma since_report:
  "lexes s (since s l0 r X) g Q \<Longrightarrow>
   lexes s (since s l0 r X) (State_Monad.bind (if_then b (report_error e)) (\<lambda>_. g)) Q"
  by (rule lexes_bind [OF lexes_if_then])
    (auto simp: report_error_def since_def intro!: lexes_modify moved_error)


subsection \<open>Numbers take a byte\<close>

lemma since_weaken: "since s l0 r X l \<Longrightarrow> (X \<Longrightarrow> Y) \<Longrightarrow> since s l0 r Y l"
  by (auto simp: since_def)

lemma since_prefix: "lexes s (since s l0 r X) number_prefix (\<lambda>_. since s l0 r X)"
  unfolding number_prefix_def
  by (intro since_peek lexes_if since_peek_next since_skip lexes_ret) (auto elim: since_weaken)

lemma since_integer_step:
  assumes "\<not> reader_is_at_end r" and "peek r = Some c"
  shows "lexes s (since s l0 r X) (integer_step U n)
    (\<lambda>q. if fst q then since s l0 r True else since s l0 r (\<not> is_numeric U c))"
  unfolding integer_step_def
  by (intro since_peek lexes_if round_let since_report since_skip lexes_ret)
    (use assms in \<open>auto elim: since_weaken\<close>)

lemma since_integer_part:
  assumes "\<not> is_numeric U 0" and "\<not> reader_is_at_end r" and "peek r = Some c"
  shows "lexes s (since s l0 r True) (integer_part U n) (\<lambda>_. since s l0 r (\<not> is_numeric U c))"
proof -
  let ?I = "\<lambda>_ j l. moved s l0 j l \<and> since s l0 r True l"
  let ?R = "\<lambda>_ j l. moved s l0 j l \<and> since s l0 r (\<not> is_numeric U c) l"
  have w: "within s (?I x)" "within s (?R x)" for x :: number
    using within_moved [of s l0] by (auto simp: within_def)
  have "lexes s (?I x j) (integer_step U x) (\<lambda>q. if fst q then ?I (snd q) (Suc j) else ?R (snd q) j)" for x j
    by (rule lexes_post [OF lexes_conj [OF lexes_pre [OF round_integer_step [OF assms(1)], of _ s l0 j]
            lexes_pre [OF since_integer_step [OF assms(2,3)], of _ s l0 True]]])
      (auto split: if_splits)
  from lexes_loop_over [OF this w, where x = n and k = "rd_current r"] show ?thesis
    unfolding integer_part_def
    by (rule lexes_weaken) (auto simp: since_def)
qed

text \<open>A literal that starts with a numeric character, or with the dot of a fraction.\<close>

lemma since_number:
  assumes "\<not> is_numeric U 0" and "\<not> reader_is_at_end r" and "peek r = Some c"
    and "is_numeric U c \<or> c = cp CHR ''.''"
  shows "lexes s (since s l0 r True) (handle_number U) (\<lambda>_. scanned_ok s l0 (Suc (rd_current r)))"
proof -
  let ?m = "moved s l0 (Suc (rd_current r))"
  have u: "lexes s (since s l0 r X) (trailing_underscore n) (\<lambda>_. since s l0 r X)" for X n
    unfolding trailing_underscore_def
    by (intro lexes_if lexes_bind [OF lexes_post [of _ "since s l0 r X" _ "\<lambda>_. since s l0 r X"]] lexes_ret)
      (auto simp: report_error_def since_def intro!: lexes_modify moved_error)
  have fp: "lexes s (since s l0 r (\<not> is_numeric U c)) (fraction_part n) (\<lambda>_. ?m)" for n
    unfolding fraction_part_def
  proof (intro since_peek lexes_if since_skip)
    fix d
    show "lexes s (since s l0 r ((\<not> is_numeric U c \<and> peek r = Some d) \<and> reader_is_at_end r))
        (fraction_digits n) (\<lambda>_. ?m)"
      by (rule lexes_pre [OF readsD [OF reads_fraction_digits]])
        (use assms(2) in \<open>simp add: since_moved [symmetric] since_def\<close>)
    assume "d \<noteq> cp CHR ''.''"
    thus "lexes s (since s l0 r (\<not> is_numeric U c \<and> peek r = Some d)) (ret n) (\<lambda>_. ?m)"
      by (intro lexes_ret) (use assms(3,4) in \<open>auto simp: since_moved [symmetric] since_def\<close>)
  qed
  have rest: "emits (do {
      n \<leftarrow> exponent_part n;
      n \<leftarrow> type_suffix n;
      if_then (num_base n = 8 \<and> has_invalid_octal_digit n \<and> \<not> is_float n) (report_error InvalidNumber);
      complete_token (if is_float n then FLOAT_LITERAL else INTEGER_LITERAL) })" for n
    by (intro emit_rules lex_rules) simp_all
  show ?thesis
    unfolding handle_number_def
    by (intro lexes_bind [OF since_prefix] lexes_bind [OF since_integer_part [OF assms(1-3)]]
        lexes_bind [OF u] lexes_bind [OF fp] lexes_emits [OF rest])
qed

lemma since_str:
  assumes "list_all (\<lambda>b. (of_char b :: nat) < 128) e" and "e \<noteq> []"
    and "\<And>b. lexes s (since s l0 r (X \<and> \<not> b)) (g b) Q"
  shows "lexes s (since s l0 r X) (State_Monad.bind (consume (advance_if_matches_str e)) g) Q"
proof (rule lexes_bind [OF _ assms(3)], rule lexes_consume)
  fix l assume l: "since s l0 r X l"
  hence m: "moved s l0 (rd_current r) l" by (simp add: since_def)
  show "case advance_if_matches_str e (reader l) of None \<Rightarrow> \<not> escapes_ok s
      | Some (a, r') \<Rightarrow> since s l0 r (X \<and> \<not> a) (l\<lparr>reader := r'\<rparr>)"
  proof (cases "advance_if_matches_str e (reader l)")
    case None
    with advance_if_matches_str_outcome [OF _ assms(1), of "reader l"] moved_at_boundary [OF m]
    show ?thesis by simp
  next
    case (Some br)
    obtain b r' where br: "br = (b, r')" by (cases br)
    with advance_if_matches_str_outcome [OF _ assms(1), of "reader l"] moved_at_boundary [OF m] Some
    have f: "forward (reader l) r'"
        "if b then rd_current r' = rd_current (reader l) + length e else r' = reader l"
      by auto
    moreover have "moved s l0 (rd_current r) (l\<lparr>reader := r'\<rparr>)"
      using moved_forward [OF m f(1)] forward_le [OF f(1)] moved_le [OF m] by simp
    moreover have "0 < length e" using assms(2) by simp
    ultimately show ?thesis
      using Some br l moved_le [OF m] by (cases b) (auto simp: since_def)
  qed
qed

lemma since_emits:
  "emits f \<Longrightarrow> lexes s (since s l0 r False) f (\<lambda>_. scanned_ok s l0 (Suc (rd_current r)))"
  by (rule lexes_pre [OF lexes_emits]) (simp_all add: since_moved)

lemma since_skip_emits:
  assumes "\<not> reader_is_at_end r" and "emits f"
  shows "lexes s (since s l0 r X) (State_Monad.bind skip_char (\<lambda>_. f))
    (\<lambda>_. scanned_ok s l0 (Suc (rd_current r)))"
  by (rule since_skip) (use assms since_emits in simp)

lemma since_dot:
  assumes "\<not> is_numeric U 0" and "\<not> reader_is_at_end r" and "peek r = Some (cp CHR ''.'')"
  shows "lexes s (since s l0 r True) (handle_dot U) (\<lambda>_. scanned_ok s l0 (Suc (rd_current r)))"
  unfolding handle_dot_def
proof (rule since_peek_next, rule lexes_if)
  show "lexes s (since s l0 r True) (handle_number U) (\<lambda>_. scanned_ok s l0 (Suc (rd_current r)))"
    by (rule since_number [OF assms]) simp
  have "lexes s (since s l0 r (True \<and> \<not> b))
      (if b then complete_token ELLIPSIS else do { skip_char; complete_token DOT })
      (\<lambda>_. scanned_ok s l0 (Suc (rd_current r)))" for b
    using assms(2) by (cases b) (simp_all add: since_emits since_skip_emits emits_complete)
  thus "lexes s (since s l0 r True)
      (do { b \<leftarrow> consume (advance_if_matches_str ''...'');
            if b then complete_token ELLIPSIS else do { skip_char; complete_token DOT } })
      (\<lambda>_. scanned_ok s l0 (Suc (rd_current r)))"
    by (intro since_str) simp_all
qed

subsection \<open>Braces\<close>

text \<open>States that differ in the templates only.\<close>

definition sibling :: "lexer \<Rightarrow> lexer \<Rightarrow> bool" where
  "sibling l l' \<longleftrightarrow> lex_tokens l' = lex_tokens l \<and> lex_errors l' = lex_errors l \<and>
     rd_start (reader l') = rd_start (reader l)"

lemma scanned_sibling: "sibling l0 l0' \<Longrightarrow> scanned s l0' k l \<Longrightarrow> scanned s l0 k l"
  unfolding sibling_def scanned_def by metis

lemma scanned_ok_sibling:
  "sibling l0 l0' \<Longrightarrow> template_ok l0' \<Longrightarrow> scanned_ok s l0' k l \<Longrightarrow> scanned_ok s l0 k l"
  by (auto simp: quoted_end_def intro: scanned_sibling)

lemma since_changed:
  assumes "\<And>l. since s l0 r X l \<Longrightarrow> since s l0' r X (f l)"
    and "sibling l0 l0'" and "template_ok l0'"
    and "lexes s (since s l0' r X) g (\<lambda>_. scanned_ok s l0' k)"
  shows "lexes s (since s l0 r X) (State_Monad.bind (lex_modify f) (\<lambda>_. g)) (\<lambda>_. scanned_ok s l0 k)"
proof (rule lexes_bind)
  show "lexes s (since s l0 r X) (lex_modify f) (\<lambda>_. since s l0' r X)"
    by (rule lexes_modify) (rule assms(1))
  show "lexes s (since s l0' r X) g (\<lambda>_. scanned_ok s l0 k)" for u :: unit
    by (rule lexes_post [OF assms(4)]) (rule scanned_ok_sibling [OF assms(2,3)])
qed

lemma since_set_depth:
  assumes "mode l0 = TemplateExpression" and "template_stack l0 \<noteq> []"
    and "\<not> reader_is_at_end r" and "kind \<noteq> EOF"
  shows "lexes s (since s l0 r True)
    (do { lex_modify (set_depth d); skip_char; complete_token kind })
    (\<lambda>_. scanned_ok s l0 (Suc (rd_current r)))"
proof (rule since_changed)
  show "since s (set_depth d l0) r True (set_depth d l)" if "since s l0 r True l" for l
    using that by (auto simp: since_def moved_def set_depth_def wf_lexer_def)
  show "sibling l0 (set_depth d l0)" "template_ok (set_depth d l0)"
    by (simp_all add: sibling_def set_depth_def template_ok_def)
  show "lexes s (since s (set_depth d l0) r True) (do { skip_char; complete_token kind })
      (\<lambda>_. scanned_ok s (set_depth d l0) (Suc (rd_current r)))"
    using assms by (intro since_skip_emits emits_complete)
qed

text \<open>An action that a stopped machine does not start.\<close>

definition halts :: "'a lex \<Rightarrow> bool" where
  "halts f \<longleftrightarrow> (\<forall>s Q. lexes s (\<lambda>_. False) f Q)"

named_theorems lex_halt_rules

lemma haltsD: "halts f \<Longrightarrow> lexes s (\<lambda>_. False) f Q"
  by (simp add: halts_def)

lemma halts_bind [lex_halt_rules]: "halts f \<Longrightarrow> (\<And>a. halts (g a)) \<Longrightarrow> halts (State_Monad.bind f g)"
  unfolding halts_def by (intro allI, rule lexes_bind [where R = "\<lambda>_ _. False"]) simp_all

lemma halts_if [lex_halt_rules]: "halts f \<Longrightarrow> halts g \<Longrightarrow> halts (if b then f else g)"
  by simp

lemma halts_if_then [lex_halt_rules]: "halts f \<Longrightarrow> halts (if_then b f)"
  unfolding halts_def by (intro allI, rule lexes_if_then) simp_all

lemma halts_option [lex_halt_rules]:
  "halts f \<Longrightarrow> (\<And>a. halts (g a)) \<Longrightarrow> halts (case x of None \<Rightarrow> f | Some a \<Rightarrow> g a)"
  by (cases x) simp_all

lemma halts_let [lex_halt_rules]: "(\<And>x. halts (f x)) \<Longrightarrow> halts (let x = a in f x)"
  by simp

lemma halts_ret [lex_halt_rules]: "halts (ret a)"
  by (simp add: halts_def lexes_ret)

lemma halts_action [lex_halt_rules]:
  "halts (lex_modify h)" "halts (lex_gets h')" "halts (query q)" "halts (consume q')"
  by (simp_all add: halts_def lexes_modify lexes_gets lexes_query lexes_consume)

lemma halts_scan:
  assumes "\<And>s l0 k. lexes s (moved s l0 k) f (\<lambda>_. scanned_ok s l0 k)"
  shows "halts f"
  unfolding halts_def
proof (intro allI)
  fix s :: string and Q :: "'a \<Rightarrow> lexer \<Rightarrow> bool"
  show "lexes s (\<lambda>_. False) f Q"
    by (rule lexes_weaken [OF assms [of s _ "Suc (length s)"]])
      (auto simp: quoted_end_def dest: scanned_le)
qed

lemma halts_emits [lex_halt_rules]: "emits f \<Longrightarrow> halts f"
  by (rule halts_scan) (rule lexes_emits)

lemma halts_reads:
  assumes "reads f"
  shows "halts f"
  unfolding halts_def
proof (intro allI)
  fix s :: string and Q :: "'a \<Rightarrow> lexer \<Rightarrow> bool"
  show "lexes s (\<lambda>_. False) f Q"
    by (rule lexes_weaken [OF readsD [OF assms, of s _ "Suc (length s)"]]) (auto dest: moved_le)
qed

lemma halts_skip_char [lex_halt_rules]: "halts skip_char"
  by (rule halts_reads) (rule reads_skip_char)

lemma halts_quoted [lex_halt_rules]: "halts (scan_quoted_content kind role)"
  unfolding halts_def
proof (intro allI)
  fix s :: string and Q :: "unit \<Rightarrow> lexer \<Rightarrow> bool"
  show "lexes s (\<lambda>_. False) (scan_quoted_content kind role) Q"
    by (rule lexes_weaken [OF lexes_quoted [of s _ "Suc (length s)"]])
      (auto simp: quoted_end_def dest: scanned_le)
qed

text \<open>Reading the state: the modes are those of \<open>l0\<close>.\<close>

lemma since_gets:
  assumes "\<And>l. mode l = mode l0 \<Longrightarrow> template_stack l = template_stack l0 \<Longrightarrow>
      lexes s (since s l0 r X) (g l) Q"
    and "\<And>l. halts (g l)"
  shows "lexes s (since s l0 r X) (State_Monad.bind (lex_gets (\<lambda>l. l)) g) Q"
proof (rule lexes_bind)
  show "lexes s (since s l0 r X) (lex_gets (\<lambda>l. l))
      (\<lambda>a l. since s l0 r X l \<and> mode a = mode l0 \<and> template_stack a = template_stack l0)"
    by (rule lexes_gets) (auto simp: since_def moved_def)
  fix a
  show "lexes s (\<lambda>l. since s l0 r X l \<and> mode a = mode l0 \<and> template_stack a = template_stack l0) (g a) Q"
  proof (cases "mode a = mode l0 \<and> template_stack a = template_stack l0")
    case True
    show ?thesis by (rule lexes_pre [OF assms(1)]) (use True in simp_all)
  next
    case False
    show ?thesis by (rule lexes_pre [OF haltsD [OF assms(2)]]) (use False in simp)
  qed
qed

lemma emits_brace [emit_rules]: "emits (complete_token L_BRACE)" "emits (complete_token R_BRACE)"
  by (rule emits_complete; simp)+

lemma halts_left_brace_body:
  "halts (do { if_then b (lex_modify f); skip_char; complete_token L_BRACE })"
  by (intro lex_halt_rules emit_rules)

lemma since_left_brace:
  assumes "\<not> reader_is_at_end r"
  shows "lexes s (since s l0 r True) handle_left_brace (\<lambda>_. scanned_ok s l0 (Suc (rd_current r)))"
  unfolding handle_left_brace_def
proof (rule since_gets [OF _ halts_left_brace_body])
  fix l assume "mode l = mode l0" "template_stack l = template_stack l0"
  thus "lexes s (since s l0 r True)
      (do { if_then (mode l = TemplateExpression \<and> template_stack l \<noteq> [])
              (lex_modify (set_depth (brace_depth (last (template_stack l)) + 1)));
            skip_char; complete_token L_BRACE })
      (\<lambda>_. scanned_ok s l0 (Suc (rd_current r)))"
    using since_set_depth [of l0 r L_BRACE s] since_skip_emits [OF assms emits_brace(1), of s l0 True]
      assms
    by (auto simp: if_then_def)
qed

lemma since_pop:
  assumes "\<not> reader_is_at_end r"
  shows "lexes s (since s l0 r True)
    (do { skip_char;
          lex_modify (\<lambda>l. l\<lparr>template_stack := butlast (template_stack l)\<rparr>);
          resume_template_after_expression kind })
    (\<lambda>_. scanned_ok s l0 (Suc (rd_current r)))"
  unfolding resume_template_after_expression_def
proof (rule since_skip, rule lexes_bind)
  let ?l = "l0\<lparr>template_stack := butlast (template_stack l0)\<rparr>" and ?k = "Suc (rd_current r)"
  show "lexes s (since s l0 r (True \<and> reader_is_at_end r))
      (lex_modify (\<lambda>l. l\<lparr>template_stack := butlast (template_stack l)\<rparr>)) (\<lambda>_. moved s ?l ?k)"
    by (rule lexes_modify) (use assms in \<open>auto simp: since_moved moved_def wf_lexer_def\<close>)
  show "lexes s (moved s ?l ?k) (scan_quoted_content kind Continuation) (\<lambda>_. scanned_ok s l0 ?k)"
    for u :: unit
    by (rule lexes_post [OF lexes_quoted])
      (auto simp: quoted_end_def sibling_def intro: scanned_sibling [of l0 ?l])
qed

lemma since_right_brace:
  assumes r: "\<not> reader_is_at_end r"
  shows "lexes s (since s l0 r True) handle_right_brace (\<lambda>_. scanned_ok s l0 (Suc (rd_current r)))"
  unfolding handle_right_brace_def
proof (rule since_gets)
  let ?Q = "\<lambda>_ :: unit. scanned_ok s l0 (Suc (rd_current r))"
  fix l assume l: "mode l = mode l0" "template_stack l = template_stack l0"
  have normal: "lexes s (since s l0 r True)
      (do { set_mode Normal; skip_char; complete_token R_BRACE }) ?Q"
    unfolding set_mode_def
    by (rule since_changed [where l0' = "l0\<lparr>mode := Normal\<rparr>"])
      (use r in \<open>auto simp: since_def moved_def wf_lexer_def sibling_def template_ok_def
         intro: since_skip_emits emit_rules\<close>)
  show "lexes s (since s l0 r True)
      (if mode l \<noteq> TemplateExpression then do { skip_char; complete_token R_BRACE }
       else if template_stack l = [] then do { set_mode Normal; skip_char; complete_token R_BRACE }
       else
         (let ctx = last (template_stack l) in
          if 0 < brace_depth ctx then
            do { lex_modify (set_depth (brace_depth ctx - 1)); skip_char; complete_token R_BRACE }
          else
            do { skip_char;
                 lex_modify (\<lambda>l. l\<lparr>template_stack := butlast (template_stack l)\<rparr>);
                 resume_template_after_expression (ctx_kind ctx) })) ?Q"
    unfolding Let_def
    by (intro lexes_if normal since_pop since_set_depth since_skip_emits r emit_rules)
      (use l in simp_all)
qed (unfold set_mode_def resume_template_after_expression_def, intro lex_halt_rules emit_rules)


subsection \<open>The dispatch\<close>

lemma lexes_string: "lexes s (moved s l0 k) handle_string (\<lambda>_. scanned_ok s l0 k)"
  unfolding handle_string_def
  by (intro round_reads lexes_quoted reads_str) (simp add: numeral_2_eq_2)

text \<open>After the SUB character that was read at the start of the token.\<close>

definition after_sub :: "string \<Rightarrow> lexer \<Rightarrow> nat \<Rightarrow> lexer \<Rightarrow> bool" where
  "after_sub s l0 k l \<longleftrightarrow>
     moved s l0 k l \<and> (rd_current (reader l) = length s \<longrightarrow> final_sub s (rd_start (reader l0)))"

lemma lexes_sub:
  "lexes s (after_sub s l0 k)
    (do { e \<leftarrow> at_end; if_then (\<not> e) (report_error (UnexpectedChar 0x1A)) }) (\<lambda>_. scanned_ok s l0 k)"
proof (rule lexes_bind)
  show "lexes s (after_sub s l0 k) at_end
      (\<lambda>e l. after_sub s l0 k l \<and> (e \<longrightarrow> rd_current (reader l) = length s))"
    unfolding at_end_def
    by (rule lexes_gets)
      (auto simp: after_sub_def moved_def wf_lexer_def reader_is_at_end_def dest: boundary_le)
  fix e
  show "lexes s (\<lambda>l. after_sub s l0 k l \<and> (e \<longrightarrow> rd_current (reader l) = length s))
      (if_then (\<not> e) (report_error (UnexpectedChar 0x1A))) (\<lambda>_. scanned_ok s l0 k)"
    by (rule lexes_if_then, rule lexes_pre [OF lexes_dropped_ok])
      (auto simp: after_sub_def quoted_end_def scanned_def moved_def template_ok_def)
qed

lemma single_char_kind_not_EOF: "single_char_kind c = Some k \<Longrightarrow> k \<noteq> EOF"
  by (auto simp: single_char_kind_def split: if_splits)

lemma emits_unknown: "emits (do { complete_token UNKNOWN; report_error e })"
  by (intro emits_report emits_complete) simp

lemma halts_sub: "halts (do { e \<leftarrow> at_end; if_then (\<not> e) (report_error k) })"
  unfolding at_end_def report_error_def by (intro lex_halt_rules)

lemma halts_after_advance: "halts (scan_after_advance U c)"
proof (cases "single_char_kind c")
  case None
  show ?thesis
    unfolding scan_after_advance_def None option.case
    by (intro halts_if halts_sub halts_scan [OF lexes_string] halts_scan [OF lexes_char_literal]
        halts_emits [OF emits_unknown]; rule halts_emits; intro emit_rules)
next
  case (Some kind)
  thus ?thesis
    unfolding scan_after_advance_def
    by (simp add: halts_emits emits_complete single_char_kind_not_EOF)
qed

lemma lexes_after_advance:
  assumes "c \<noteq> 0x1A"
  shows "lexes s (moved s l0 k) (scan_after_advance U c) (\<lambda>_. scanned_ok s l0 k)"
proof (cases "single_char_kind c")
  case None
  have sub: "lexes s (moved s l0 k)
      (do { e \<leftarrow> at_end; if_then (\<not> e) (report_error (UnexpectedChar 0x1A)) }) (\<lambda>_. scanned_ok s l0 k)"
    if "c = 0x1A" using assms that by simp
  show ?thesis
    unfolding scan_after_advance_def None option.case
    by (intro lexes_if lexes_string lexes_char_literal sub lexes_emits [OF emits_unknown];
        (assumption | (rule lexes_emits, intro emit_rules)))
next
  case (Some kind)
  thus ?thesis
    unfolding scan_after_advance_def
    by (simp add: lexes_emits emits_complete single_char_kind_not_EOF)
qed

text \<open>
  The dispatch from a state \<open>l0\<close> at the start of a token that is not the end of the source:
  it takes a byte.
\<close>

lemma since_after_advance:
  assumes "\<not> reader_is_at_end r" and "peek r = Some c" and "rd_source r = s"
    and "rd_start (reader l0) = rd_current r"
  shows "lexes s (\<lambda>l. reader l = r \<and> moved s l0 (rd_current r) l)
    (do { c \<leftarrow> consume advance; scan_after_advance U c }) (\<lambda>_. scanned_ok s l0 (Suc (rd_current r)))"
proof (rule lexes_bind)
  show "lexes s (\<lambda>l. reader l = r \<and> moved s l0 (rd_current r) l) (consume advance)
      (\<lambda>d l. moved s l0 (Suc (rd_current r)) l \<and> d = c \<and> (c = 0x1A \<longrightarrow> after_sub s l0 (Suc (rd_current r)) l))"
  proof (rule lexes_consume, elim conjE)
    fix l assume l: "reader l = r" "moved s l0 (rd_current r) l"
    from advance_outcome [of r] moved_at_boundary [OF l(2)] l assms(1,2)
      moved_forward [OF l(2)] moved_le [OF l(2)]
    have to: "case advance (reader l) of None \<Rightarrow> \<not> escapes_ok s
      | Some (d, r') \<Rightarrow> moved s l0 (Suc (rd_current r)) (l\<lparr>reader := r'\<rparr>) \<and> d = c"
      by (auto split: option.splits)
    have "final_sub s (rd_current r)" if "advance r = Some (0x1A, r')" "rd_current r' = length s" for r'
    proof -
      have "rd_current r < length s" using assms(1,3) by (simp add: reader_is_at_end_def not_le)
      with that show ?thesis
        using assms(3) by (auto simp: advance_def final_sub_def split: option.splits scan_result.splits)
    qed
    with to l(1) assms(4) show "case advance (reader l) of None \<Rightarrow> \<not> escapes_ok s
      | Some (d, r') \<Rightarrow> moved s l0 (Suc (rd_current r)) (l\<lparr>reader := r'\<rparr>) \<and> d = c \<and>
          (c = 0x1A \<longrightarrow> after_sub s l0 (Suc (rd_current r)) (l\<lparr>reader := r'\<rparr>))"
      by (auto simp: after_sub_def split: option.splits)
  qed
  fix d
  show "lexes s (\<lambda>l. moved s l0 (Suc (rd_current r)) l \<and> d = c \<and>
      (c = 0x1A \<longrightarrow> after_sub s l0 (Suc (rd_current r)) l)) (scan_after_advance U d)
      (\<lambda>_. scanned_ok s l0 (Suc (rd_current r)))"
  proof (cases "d = c")
    case True
    show ?thesis
    proof (cases "c = 0x1A")
      case False
      from lexes_after_advance [OF this, of s l0 "Suc (rd_current r)" U] True show ?thesis
        by (auto intro: lexes_pre)
    next
      case sub: True
      have "scan_after_advance U d = do { e \<leftarrow> at_end; if_then (\<not> e) (report_error (UnexpectedChar 0x1A)) }"
        unfolding True sub by (simp add: scan_after_advance_def single_char_kind_def quote_def double_quote_def)
      with lexes_sub [of s l0 "Suc (rd_current r)"] sub show ?thesis by (auto intro: lexes_pre)
    qed
  next
    case False
    show ?thesis by (rule lexes_pre [OF haltsD [OF halts_after_advance]]) (use False in simp)
  qed
qed

text \<open>The dispatch looks at the next character first.\<close>

lemma halts_dispatch_body:
  assumes "\<not> is_numeric U 0"
  shows "halts (if c = cp CHR ''.'' then handle_dot U
          else if c = cp CHR ''{'' then handle_left_brace
          else if c = cp CHR ''}'' then handle_right_brace
          else if is_numeric U c then handle_number U
          else do { c \<leftarrow> consume advance; scan_after_advance U c })"
proof -
  have "halts handle_left_brace"
    unfolding handle_left_brace_def by (rule halts_bind [OF halts_action(2) halts_left_brace_body])
  moreover have "halts handle_right_brace"
    unfolding handle_right_brace_def set_mode_def resume_template_after_expression_def
    by (intro lex_halt_rules emit_rules)
  ultimately show ?thesis
    using assms by (simp add: halts_emits emits_dot emits_number)
      (intro impI halts_bind halts_action halts_after_advance)
qed

lemma since_dispatch:
  assumes "\<not> is_numeric U 0" and r: "\<not> reader_is_at_end r" "rd_source r = s"
    "rd_start (reader l0) = rd_current r"
  shows "lexes s (\<lambda>l. reader l = r \<and> moved s l0 (rd_current r) l) (scan_token_dispatch U)
    (\<lambda>_. scanned_ok s l0 (Suc (rd_current r)))"
  unfolding scan_token_dispatch_def
proof (rule lexes_bind)
  let ?P = "\<lambda>l. reader l = r \<and> moved s l0 (rd_current r) l"
  show "lexes s ?P (query peek) (\<lambda>c l. ?P l \<and> peek r = Some c)"
  proof (rule lexes_query, elim conjE)
    fix l assume l: "reader l = r" "moved s l0 (rd_current r) l"
    from peek_outcome [of r] moved_at_boundary [OF l(2)] l
    show "case peek (reader l) of None \<Rightarrow> \<not> escapes_ok s | Some c \<Rightarrow> ?P l \<and> peek r = Some c"
      by (auto split: option.splits)
  qed
  fix c
  let ?f = "if c = cp CHR ''.'' then handle_dot U
    else if c = cp CHR ''{'' then handle_left_brace
    else if c = cp CHR ''}'' then handle_right_brace
    else if is_numeric U c then handle_number U
    else do { c \<leftarrow> consume advance; scan_after_advance U c }"
  show "lexes s (\<lambda>l. ?P l \<and> peek r = Some c) ?f (\<lambda>_. scanned_ok s l0 (Suc (rd_current r)))"
  proof (cases "peek r = Some c")
    case False
    show ?thesis by (rule lexes_pre [OF haltsD [OF halts_dispatch_body [OF assms(1)]]]) (use False in simp)
  next
    case True
    have "lexes s ?P ?f (\<lambda>_. scanned_ok s l0 (Suc (rd_current r)))"
    proof (intro lexes_if since_after_advance [OF r(1) True r(2,3)])
      have at: "lexes s (since s l0 r True) g Q \<Longrightarrow> lexes s ?P g Q" for g :: "unit lex" and Q
        by (erule lexes_pre) (simp add: since_def)
      show "lexes s ?P (handle_dot U) (\<lambda>_. scanned_ok s l0 (Suc (rd_current r)))" if "c = cp CHR ''.''"
        using at since_dot [OF assms(1) r(1)] True that by simp
      show "lexes s ?P handle_left_brace (\<lambda>_. scanned_ok s l0 (Suc (rd_current r)))"
        "lexes s ?P handle_right_brace (\<lambda>_. scanned_ok s l0 (Suc (rd_current r)))"
        by (intro at since_left_brace since_right_brace r)+
      show "lexes s ?P (handle_number U) (\<lambda>_. scanned_ok s l0 (Suc (rd_current r)))" if "is_numeric U c"
        by (rule at, rule since_number [OF assms(1) r(1) True]) (simp add: that)
    qed
    thus ?thesis by (rule lexes_pre) simp
  qed
qed

end
