(* ===== verification/Lexing.thy ===== *)
theory Lexing imports Scanning Parse begin

text \<open>
  The lexer on a whole source: the invariant \<open>between\<close> of its main loop, what it returns
  (\<open>tokenized\<close>), and that a source whose first escape cuts a character makes it panic.
\<close>

subsection \<open>The whole source\<close>

text \<open>
  \<open>placed s a ts e\<close>: the tokens \<open>ts\<close> are texts of \<open>s\<close> at their offsets, none of them empty, one
  after the other between \<open>a\<close> and \<open>e\<close>.
\<close>

fun placed :: "string \<Rightarrow> nat \<Rightarrow> token list \<Rightarrow> nat \<Rightarrow> bool" where
  "placed s a [] e \<longleftrightarrow> a \<le> e"
| "placed s a (t # ts) e \<longleftrightarrow>
     a \<le> tok_offset t \<and> tok_kind t \<noteq> EOF \<and> tok_lexeme t \<noteq> [] \<and>
     take (length (tok_lexeme t)) (drop (tok_offset t) s) = tok_lexeme t \<and>
     placed s (tok_offset t + length (tok_lexeme t)) ts e"

lemma placed_start: "placed s m us e \<Longrightarrow> a \<le> m \<Longrightarrow> placed s a us e"
  by (cases us) auto

lemma placed_append:
  "placed s a (ts @ us) e \<longleftrightarrow> (\<exists>m. placed s a ts m \<and> placed s m us e)"
proof (induction ts arbitrary: a)
  case Nil
  thus ?case by (auto intro: placed_start)
qed auto

lemma placed_mono: "placed s a ts e \<Longrightarrow> e \<le> e' \<Longrightarrow> placed s a ts e'"
  by (induction s a ts e rule: placed.induct) auto

lemma placed_le: "placed s a ts e \<Longrightarrow> a \<le> e"
  by (induction s a ts e rule: placed.induct) auto

text \<open>The text the tokens carry, up to a SUB character at the end of the source.\<close>

definition covers :: "string \<Rightarrow> nat \<Rightarrow> nat \<Rightarrow> token list \<Rightarrow> bool" where
  "covers s b e ts \<longleftrightarrow>
     source_text ts = take (e - b) (drop b s) \<or>
     e = length s \<and> (\<exists>p. b \<le> p \<and> final_sub s p \<and> source_text ts = take (p - b) (drop b s))"

text \<open>The state of the main loop, the source having been entered at \<open>b\<close>.\<close>

definition between :: "string \<Rightarrow> nat \<Rightarrow> nat \<Rightarrow> lexer \<Rightarrow> bool" where
  "between s b k l \<longleftrightarrow>
     wf_lexer s l \<and> k \<le> rd_current (reader l) \<and> template_ok l \<and>
     placed s b (lex_tokens l) (rd_current (reader l)) \<and>
     (lost l \<or> covers s b (rd_current (reader l)) (lex_tokens l))"


lemma source_text_append [simp]: "source_text (ts @ us) = source_text ts @ source_text us"
  by (simp add: source_text_def)

lemma source_text_simps [simp]: "source_text [] = []" "source_text (t # ts) = tok_lexeme t @ source_text ts"
  by (simp_all add: source_text_def)

lemma take_drop_join:
  "b \<le> c \<Longrightarrow> c \<le> e \<Longrightarrow> take (c - b) (drop b s) @ take (e - c) (drop c s) = take (e - b) (drop b s)"
proof -
  assume "b \<le> c" "c \<le> e"
  hence "e - b = (c - b) + (e - c)" "drop c s = drop (c - b) (drop b s)" by simp_all
  thus ?thesis by (simp only: take_add)
qed

lemma lost_errors: "lost l1 \<Longrightarrow> lex_errors l = lex_errors l1 @ es \<Longrightarrow> lost l"
  by (simp add: lost_def)

abbreviation at_token :: "lexer \<Rightarrow> lexer" where
  "at_token l \<equiv> l\<lparr>reader := new_token (reader l)\<rparr>"

lemma between_scanned:
  assumes l1: "between s b k l1" and c: "rd_current (reader l1) < length s"
    and l: "scanned_ok s (at_token l1) (Suc (rd_current (reader l1))) l"
  shows "between s b (Suc k) l"
proof -
  let ?c = "rd_current (reader l1)" and ?e = "rd_current (reader l)"
  let ?t = "\<lambda>kind. \<lparr>tok_kind = kind, tok_lexeme = pending_text s l, tok_offset = ?c\<rparr>"
  have w: "wf_lexer s l" "?c < ?e" "rd_start (reader l) = ?c" "template_ok l"
    and es: "\<exists>es. lex_errors l = lex_errors l1 @ es"
    and out: "(\<exists>kind. kind \<noteq> EOF \<and> lex_tokens l = lex_tokens l1 @ [?t kind]) \<or>
      lex_tokens l = lex_tokens l1 \<and>
        (lost l \<or> ?e = length s \<and> final_sub s ?c)"
    using l l1 by (auto simp: quoted_end_def scanned_def new_token_def between_def template_ok_def)
  have e: "?e \<le> length s" using w(1) by (auto simp: wf_lexer_def dest: boundary_le)
  have k: "k \<le> ?c" "placed s b (lex_tokens l1) ?c" "b \<le> ?c"
    "lost l1 \<or> covers s b ?c (lex_tokens l1)"
    using l1 by (auto simp: between_def dest: placed_le)
  have t: "pending_text s l = take (?e - ?c) (drop ?c s)"
    using w(3) by (simp add: pending_text_def)
  have lost: "lost l \<or> source_text (lex_tokens l1) = take (?c - b) (drop b s)"
    using k(4) c es by (auto simp: covers_def intro: lost_errors)
  from out show ?thesis
  proof (elim disjE exE conjE)
    fix kind assume kind: "kind \<noteq> EOF" "lex_tokens l = lex_tokens l1 @ [?t kind]"
    have "placed s ?c [?t kind] ?e" using t w(2) c e kind(1) by simp
    hence "placed s b (lex_tokens l) ?e" using k(2) by (auto simp: kind(2) placed_append)
    moreover have "lost l \<or> covers s b ?e (lex_tokens l)"
      using lost take_drop_join [of b ?c ?e s] k(3) w(2) by (auto simp: covers_def kind(2) t)
    ultimately show ?thesis using w k(1) by (simp add: between_def)
  next
    assume "lex_tokens l = lex_tokens l1" "lost l"
    thus ?thesis using w k(1) placed_mono [OF k(2), of ?e] by (simp add: between_def)
  next
    assume o: "lex_tokens l = lex_tokens l1" "?e = length s" "final_sub s ?c"
    hence "lost l \<or> covers s b ?e (lex_tokens l)"
      using lost c k(3) by (auto simp: covers_def)
    thus ?thesis using o(1) w k(1) placed_mono [OF k(2), of ?e] by (simp add: between_def)
  qed
qed

lemma lexes_next_token:
  assumes "\<not> is_numeric U 0"
  shows "lexes s (\<lambda>l. between s b k l \<and> \<not> reader_is_at_end (reader l)) (scan_next_token U)
    (\<lambda>_. between s b (Suc k))"
  unfolding scan_next_token_def
proof (rule lexes_fix, rule lexes_bind)
  fix l1
  let ?I = "between s b k l1 \<and> \<not> reader_is_at_end (reader l1)"
  show "lexes s (\<lambda>l. l = l1 \<and> ?I) (lex_modify at_token) (\<lambda>_ l. l = at_token l1 \<and> ?I)"
    by (rule lexes_modify) simp
  fix u :: unit
  have h: "halts (scan_token_dispatch U)"
    unfolding scan_token_dispatch_def
    by (rule halts_bind [OF halts_action(3) halts_dispatch_body [OF assms]])
  show "lexes s (\<lambda>l. l = at_token l1 \<and> ?I) (scan_token_dispatch U) (\<lambda>_. between s b (Suc k))"
  proof (cases ?I)
    case True
    hence w: "wf_lexer s l1" "\<not> reader_is_at_end (reader l1)" by (simp_all add: between_def)
    hence c: "rd_current (reader l1) < length s" "rd_source (reader l1) = s"
      by (simp_all add: wf_lexer_def reader_is_at_end_def not_le)
    have m: "moved s (at_token l1) (rd_current (reader l1)) (at_token l1)"
      using w(1) by (auto simp: moved_def wf_lexer_def new_token_def)
    have "lexes s (\<lambda>l. reader l = reader (at_token l1) \<and>
          moved s (at_token l1) (rd_current (reader (at_token l1))) l) (scan_token_dispatch U)
        (\<lambda>_. scanned_ok s (at_token l1) (Suc (rd_current (reader (at_token l1)))))"
      by (rule since_dispatch [OF assms]) (use w c in \<open>simp_all add: new_token_def reader_is_at_end_def\<close>)
    hence "lexes s (\<lambda>l. l = at_token l1) (scan_token_dispatch U)
        (\<lambda>_. scanned_ok s (at_token l1) (Suc (rd_current (reader l1))))"
      by (rule lexes_weaken) (use m in \<open>simp_all add: new_token_def\<close>)
    thus ?thesis
      by (rule lexes_weaken) (use True c between_scanned [of s b k l1] in auto)
  next
    case False
    show ?thesis by (rule lexes_pre [OF haltsD [OF h]]) (use False in simp)
  qed
qed

lemma within_between: "within s (between s b)"
  by (auto simp: within_def between_def wf_lexer_def source_len_def dest: boundary_le)

lemma lexes_main_loop:
  assumes "\<not> is_numeric U 0"
  shows "lexes s (between s b k)
    (lex_while (do { e \<leftarrow> at_end; ret (\<not> e) }) (scan_next_token U))
    (\<lambda>_. between s b (length s))"
proof -
  let ?R = "\<lambda>j l. between s b j l \<and> reader_is_at_end (reader l)"
  have w: "within s ?R" using within_between [of s b] by (auto simp: within_def)
  have step: "lexes s (between s b j)
      (do { e \<leftarrow> do { e \<leftarrow> at_end; ret (\<not> e) };
            if e then do { scan_next_token U; ret (True, ()) } else ret (False, ()) })
      (\<lambda>r. if fst r then between s b (Suc j) else ?R j)" for j
    unfolding State_Monad.bind_assoc State_Monad.bind_left_identity
  proof (rule lexes_bind)
    show "lexes s (between s b j) at_end (\<lambda>e l. between s b j l \<and> e = reader_is_at_end (reader l))"
      unfolding at_end_def by (rule lexes_gets) simp
    fix e
    show "lexes s (\<lambda>l. between s b j l \<and> e = reader_is_at_end (reader l))
      (if \<not> e then do { scan_next_token U; ret (True, ()) } else ret (False, ()))
      (\<lambda>r. if fst r then between s b (Suc j) else ?R j)"
      by (rule lexes_if, rule lexes_bind [OF lexes_pre [OF lexes_next_token [OF assms]]])
        (auto intro: lexes_ret)
  qed
  have "lexes s (between s b k)
      (lex_loop_over () (\<lambda>_.
         do { e \<leftarrow> do { e \<leftarrow> at_end; ret (\<not> e) };
              if e then do { scan_next_token U; ret (True, ()) } else ret (False, ()) }))
      (\<lambda>_. ?R k)"
    by (rule lexes_loop_over [where I = "\<lambda>_. between s b" and R = "\<lambda>_. ?R", OF step within_between w])
  thus ?thesis
    unfolding lex_while_def
    by (rule lexes_post) (auto simp: between_def wf_lexer_def reader_is_at_end_def)
qed


text \<open>Where the source starts behind its byte order mark, which is skipped when it is there.\<close>

definition body_start :: "string \<Rightarrow> nat" where
  "body_start s =
     (case scan_at s 0 of
        Some (Char_scan c len) \<Rightarrow> if c = 0xFEFF then len else 0
      | _ \<Rightarrow> 0)"

lemma lexes_skip_bom:
  assumes "utf8 s"
  shows "lexes s (\<lambda>l. l = lexer_new s) skip_bom (\<lambda>_. between s (body_start s) 0)"
  unfolding skip_bom_def
proof (rule lexes_bind)
  have b: "boundary s 0" using assms by (simp add: boundary_0)
  note o = scan_at_outcome [OF b]
  have new: "reader (lexer_new s) = reader_new s" by (simp add: lexer_new_def)
  have pk: "peek (reader_new s) = logical_char_at s 0"
    by (simp add: peek_def peek_n_def reader_new_def)
  show "lexes s (\<lambda>l. l = lexer_new s) (query peek)
      (\<lambda>c l. l = lexer_new s \<and> logical_char_at s 0 = Some c)"
    by (rule lexes_query)
      (use o in \<open>cases "scan_at s 0"; auto simp: new pk logical_char_at_def split: scan_result.split\<close>)
  fix c
  show "lexes s (\<lambda>l. l = lexer_new s \<and> logical_char_at s 0 = Some c)
      (if_then (c = 0xFEFF) skip_char) (\<lambda>_. between s (body_start s) 0)"
  proof (rule lexes_if_then)
    show "between s (body_start s) 0 l"
      if "c \<noteq> 0xFEFF" "l = lexer_new s \<and> logical_char_at s 0 = Some c" for l
    proof -
      have "body_start s = 0"
        using that by (auto simp: body_start_def logical_char_at_def split: option.splits scan_result.splits)
      thus ?thesis
        using that b by (simp add: between_def wf_lexer_def template_ok_def covers_def lexer_new_def
            reader_new_def)
    qed
    show "lexes s (\<lambda>l. l = lexer_new s \<and> logical_char_at s 0 = Some c) skip_char
        (\<lambda>_. between s (body_start s) 0)" if c: "c = 0xFEFF"
      unfolding skip_char_def
    proof (intro lexes_discard lexes_consume, elim conjE)
      fix l assume l: "l = lexer_new s" "logical_char_at s 0 = Some c"
      then obtain n where n: "scan_at s 0 = Some (Char_scan c n)"
        using c by (auto simp: logical_char_at_def split: option.splits scan_result.splits)
      have "advance (reader l) = Some (c, (reader_new s)\<lparr>rd_current := n\<rparr>)"
        by (simp add: advance_def l(1) new reader_new_def n)
      moreover have "body_start s = n" "boundary s n" using o by (simp_all add: body_start_def n c)
      ultimately show "case advance (reader l) of None \<Rightarrow> \<not> escapes_ok s
          | Some (a, r) \<Rightarrow> between s (body_start s) 0 (l\<lparr>reader := r\<rparr>)"
        using b by (simp add: l(1) between_def wf_lexer_def template_ok_def covers_def lexer_new_def
            reader_new_def)
    qed
  qed
qed

definition eof_token :: "nat \<Rightarrow> token" where
  "eof_token n = \<lparr>tok_kind = EOF, tok_lexeme = [], tok_offset = n\<rparr>"

text \<open>What the lexer has made of the source \<open>s\<close>.\<close>

definition tokenized :: "string \<Rightarrow> token list \<Rightarrow> lexical_error list \<Rightarrow> bool" where
  "tokenized s ts es \<longleftrightarrow>
     (\<exists>us. ts = us @ [eof_token (length s)] \<and> placed s (body_start s) us (length s) \<and>
        (list_ex (\<lambda>e. drops_text (lex_err_kind e)) es \<or> covers s (body_start s) (length s) us))"

lemma lexes_scan_tokens:
  assumes "utf8 s" and "\<not> is_numeric U 0"
  shows "lexes s (\<lambda>l. l = lexer_new s) (scan_tokens U) (\<lambda>_ l. tokenized s (lex_tokens l) (lex_errors l))"
  unfolding scan_tokens_def
proof (intro lexes_bind [OF lexes_skip_bom [OF assms(1)]] lexes_bind [OF lexes_main_loop [OF assms(2)]])
  let ?b = "between s (body_start s) (length s)"
  show "lexes s ?b
      (do { open_template \<leftarrow> lex_gets (\<lambda>l. template_stack l \<noteq> []);
            if_then open_template (report_error UnterminatedTemplate);
            complete_eof;
            lex_modify (\<lambda>l. l\<lparr>lex_errors := lex_errors l @
              map (\<lambda>r. \<lparr>lex_err_kind = InvalidUnicodeEscape, lex_err_range = r\<rparr>)
                (rd_errors (reader l))\<rparr>) })
      (\<lambda>_ l. tokenized s (lex_tokens l) (lex_errors l))"
  proof (rule lexes_bind [OF lexes_gets [where Q = "\<lambda>_. ?b"]], assumption, rule lexes_bind)
    fix e
    show "lexes s ?b (if_then e (report_error UnterminatedTemplate)) (\<lambda>_. ?b)"
      unfolding report_error_def
      by (intro lexes_if_then lexes_modify)
        (auto simp: between_def wf_lexer_def template_ok_def lost_def)
  next
    fix u :: unit
    let ?e = "\<lambda>l. tokenized s (lex_tokens l) (lex_errors l)"
    have "lexes s ?b complete_eof (\<lambda>_. ?e)"
      unfolding complete_eof_def
    proof (rule lexes_modify)
      fix l assume l: "?b l"
      hence "rd_current (reader l) = length s"
        by (auto simp: between_def wf_lexer_def dest: boundary_le)
      with l show "?e (l\<lparr>lex_tokens := lex_tokens l @
          [\<lparr>tok_kind = EOF, tok_lexeme = [], tok_offset = rd_current (reader l)\<rparr>]\<rparr>)"
        by (auto simp: tokenized_def eof_token_def between_def lost_def)
    qed
    moreover have "lexes s ?e
        (lex_modify (\<lambda>l. l\<lparr>lex_errors := lex_errors l @
            map (\<lambda>r. \<lparr>lex_err_kind = InvalidUnicodeEscape, lex_err_range = r\<rparr>)
              (rd_errors (reader l))\<rparr>)) (\<lambda>_. ?e)"
      by (rule lexes_modify) (auto simp: tokenized_def)
    ultimately show "lexes s ?b
        (do { complete_eof;
              lex_modify (\<lambda>l. l\<lparr>lex_errors := lex_errors l @
                map (\<lambda>r. \<lparr>lex_err_kind = InvalidUnicodeEscape, lex_err_range = r\<rparr>)
                  (rd_errors (reader l))\<rparr>) }) (\<lambda>_. ?e)"
      by (rule lexes_bind)
  qed
qed

lemma lex_outcome:
  assumes "utf8 s" and "\<not> is_numeric U 0"
  shows "case lex_source U s of
      Inl e \<Rightarrow> e = LexPanic \<and> \<not> escapes_ok s
    | Inr (ts, es) \<Rightarrow> tokenized s ts es"
proof -
  obtain u :: unit and m where m: "run_state (scan_tokens U) (Lexing (lexer_new s)) = (u, m)"
    by (metis surj_pair)
  have "lex_ok s (\<lambda>l. l = lexer_new s) (Lexing (lexer_new s))" by simp
  with lexes_scan_tokens [OF assms] have
    "lex_ok s (\<lambda>l. tokenized s (lex_tokens l) (lex_errors l)) m"
    unfolding lexes_def by (metis (no_types, lifting) m case_prod_conv)
  thus ?thesis by (cases m) (simp_all add: lex_source_def m)
qed

text \<open>A machine that stopped in the first character stays stopped.\<close>

lemma halts_stop:
  assumes "halts f" and "\<not> escapes_ok s"
  shows "snd (run_state f (LexStop LexPanic)) = LexStop LexPanic"
proof -
  obtain a m where m: "run_state f (LexStop LexPanic) = (a, m)" by (metis surj_pair)
  have "lex_ok s (\<lambda>_. False) (LexStop LexPanic)" using assms(2) by simp
  with haltsD [OF assms(1), of s "\<lambda>_ _. False"] m have "lex_ok s (\<lambda>_. False) m"
    unfolding lexes_def by fastforce
  thus ?thesis by (cases m) (simp_all add: m)
qed

lemma halts_loop [lex_halt_rules]:
  assumes "\<And>x. halts (body x)"
  shows "halts (lex_loop_over x body)"
proof -
  have "halts (lex_loop n x body)" for n
    unfolding halts_def by (intro allI, rule lexes_loop_halts) (rule haltsD [OF assms])
  thus ?thesis unfolding lex_loop_over_def by (rule halts_bind [OF halts_action(2)])
qed

lemma run_lex_action:
  "run_state (lex_action d f) (Lexing l) =
     (case f l of Inl e \<Rightarrow> (d, LexStop e) | Inr (a, l') \<Rightarrow> (a, Lexing l'))"
  "run_state (lex_action d f) (LexStop e) = (d, LexStop e)"
  by (simp_all add: lex_action_def)

text \<open>The handlers of numbers halt also where the tables take NUL for a digit.\<close>

lemma halts_number: "halts (handle_number U)"
proof -
  have "halts (integer_part U n)" for n
    unfolding integer_part_def integer_step_def report_error_def Let_def
    by (intro halts_loop halts_bind halts_action halts_if halts_if_then halts_skip_char halts_ret)
  moreover have "halts (complete_token k)" for k
    unfolding complete_token_def by (intro halts_bind halts_action)
  ultimately show ?thesis
    unfolding handle_number_def report_error_def
    by (intro halts_bind halts_if_then halts_action halts_reads [OF reads_number_prefix]
        halts_reads [OF reads_trailing_underscore] halts_reads [OF reads_fraction_part]
        halts_reads [OF reads_exponent_part] halts_reads [OF reads_type_suffix])
qed

lemma halts_dispatch: "halts (scan_token_dispatch U)"
proof -
  have "halts (handle_dot U)"
    unfolding handle_dot_def complete_token_def
    by (intro halts_bind halts_if halts_number halts_action halts_skip_char)
  moreover have "halts handle_left_brace"
    unfolding handle_left_brace_def by (rule halts_bind [OF halts_action(2) halts_left_brace_body])
  moreover have "halts handle_right_brace"
    unfolding handle_right_brace_def set_mode_def resume_template_after_expression_def
    by (intro lex_halt_rules emit_rules)
  ultimately show ?thesis
    unfolding scan_token_dispatch_def
    by (intro halts_bind halts_action halts_if halts_number halts_after_advance)
qed

lemma lex_panics:
  assumes "utf8 s" and "logical_char_at s 0 = None"
  shows "lex_source U s = Inl LexPanic"
proof -
  have "\<not> escapes_ok s"
    using assms(2) scan_at_outcome [of s 0] assms(1)
    by (auto simp: boundary_0 logical_char_at_def split: option.splits scan_result.splits)
  have r: "reader (lexer_new s) = reader_new s" "peek (reader_new s) = None"
    using assms(2) by (simp_all add: lexer_new_def peek_def peek_n_def reader_new_def)
  have bom: "run_state skip_bom (Lexing (lexer_new s)) = 
      run_state (if_then (undefined = (0xFEFF :: nat)) skip_char) (LexStop LexPanic)"
    by (simp add: skip_bom_def query_def run_lex_action r)
  have "halts (if_then b skip_char)" for b by (intro lex_halt_rules)
  from halts_stop [OF this \<open>\<not> escapes_ok s\<close>] bom
  have bom': "snd (run_state skip_bom (Lexing (lexer_new s))) = LexStop LexPanic" by simp
  let ?rest = "do { lex_while (do { e \<leftarrow> at_end; ret (\<not> e) }) (scan_next_token U);
     open_template \<leftarrow> lex_gets (\<lambda>l. template_stack l \<noteq> []);
     if_then open_template (report_error UnterminatedTemplate);
     complete_eof;
     lex_modify (\<lambda>l. l\<lparr>lex_errors := lex_errors l @
       map (\<lambda>r. \<lparr>lex_err_kind = InvalidUnicodeEscape, lex_err_range = r\<rparr>) (rd_errors (reader l))\<rparr>) }"
  have "halts (scan_next_token U)"
    unfolding scan_next_token_def by (intro halts_bind halts_action halts_dispatch)
  hence "halts ?rest"
    unfolding lex_while_def at_end_def report_error_def complete_eof_def
    by (intro halts_bind halts_loop halts_if halts_ret halts_action halts_if_then)
  from halts_stop [OF this \<open>\<not> escapes_ok s\<close>] bom'
  have "snd (run_state (scan_tokens U) (Lexing (lexer_new s))) = LexStop LexPanic"
    by (simp add: scan_tokens_def split_beta)
  thus ?thesis by (simp add: lex_source_def)
qed

end
