(* ===== verification/Lexemes.thy ===== *)
theory Lexemes imports Lexing begin

text \<open>
  The lexer run on texts of a single token: every operator and separator of the language, and
  every word of ASCII letters, digits, \<^verbatim>\<open>_\<close> and \<^verbatim>\<open>$\<close>. What the Unicode tables say of the ASCII
  characters is the hypothesis \<open>ascii_tables\<close>; \<open>ascii_unicode\<close> is an instance of it.
\<close>

subsection \<open>ASCII\<close>

definition ascii_category :: "nat \<Rightarrow> general_category" where
  "ascii_category c =
     (if 65 \<le> c \<and> c \<le> 90 then UppercaseLetter
      else if 97 \<le> c \<and> c \<le> 122 then LowercaseLetter
      else if 48 \<le> c \<and> c \<le> 57 then DecimalNumber
      else if c = 0x24 then CurrencySymbol
      else if c = 0x5F then ConnectorPunctuation
      else OtherCategory)"

definition ascii_unicode :: unicode where
  "ascii_unicode = \<lparr>get_general_category = ascii_category, is_numeric = is_ascii_digit\<rparr>"

definition ascii_tables :: "unicode \<Rightarrow> bool" where
  "ascii_tables U \<longleftrightarrow>
     (\<forall>c<128. is_numeric U c = is_ascii_digit c \<and> get_general_category U c = ascii_category c)"

lemma ascii_tables_ascii [simp]: "ascii_tables ascii_unicode"
  by (simp add: ascii_tables_def ascii_unicode_def)

lemma ascii_NUL_not_numeric [simp]: "\<not> is_numeric ascii_unicode 0"
  by (simp add: ascii_unicode_def is_ascii_digit_def)

subsection \<open>Sources without escapes\<close>

definition plain :: "string \<Rightarrow> bool" where
  "plain s \<longleftrightarrow> list_all (\<lambda>b. (of_char b :: nat) < 128 \<and> b \<noteq> backslash) s"

lemma plain_nth: "plain s \<Longrightarrow> i < length s \<Longrightarrow> (of_char (s ! i) :: nat) < 128 \<and> s ! i \<noteq> backslash"
  by (simp add: plain_def list_all_length)

lemma scan_at_plain:
  assumes "plain s"
  shows "scan_at s i = Some (if i < length s then Char_scan (of_char (s ! i)) 1 else Char_scan 0 0)"
proof (cases "i < length s")
  case True
  have "drop i s = s ! i # drop (Suc i) s" using True by (rule Cons_nth_drop_Suc [symmetric])
  with plain_nth [OF assms True] show ?thesis
    by (simp add: scan_at_def scan_code_unit_def True not_le is_char_boundary_def len_utf8_def scalar_def)
qed (simp add: scan_at_def scan_code_unit_def scalar_def)

lemma run_query:
  "run_state (query f) (Lexing l) =
     (case f (reader l) of None \<Rightarrow> (undefined, LexStop LexPanic) | Some a \<Rightarrow> (a, Lexing l))"
  by (simp add: query_def run_lex_action split: option.split)

lemma run_consume:
  "run_state (consume f) (Lexing l) =
     (case f (reader l) of None \<Rightarrow> (undefined, LexStop LexPanic)
      | Some (a, r) \<Rightarrow> (a, Lexing (l\<lparr>reader := r\<rparr>)))"
  by (simp add: consume_def run_lex_action split: option.split)

lemma run_lex_modify: "run_state (lex_modify f) (Lexing l) = ((), Lexing (f l))"
  "run_state (lex_gets g) (Lexing l) = (g l, Lexing l)"
  by (simp_all add: lex_modify_def lex_gets_def run_lex_action)

lemmas lex_run = run_query run_consume run_lex_modify


abbreviation reading :: "string \<Rightarrow> nat \<Rightarrow> lexer" where
  "reading s i \<equiv> \<lparr>reader = \<lparr>rd_source = s, rd_start = 0, rd_current = i, rd_errors = []\<rparr>,
     lex_tokens = [], lex_errors = [], mode = Normal, template_stack = []\<rparr>"

abbreviation one_token :: "syntax_kind \<Rightarrow> string \<Rightarrow> lexer" where
  "one_token k s \<equiv> \<lparr>reader = \<lparr>rd_source = s, rd_start = 0, rd_current = length s, rd_errors = []\<rparr>,
     lex_tokens = [\<lparr>tok_kind = k, tok_lexeme = s, tok_offset = 0\<rparr>], lex_errors = [],
     mode = Normal, template_stack = []\<rparr>"

lemma lex_one_token:
  assumes "plain s" and "s \<noteq> []"
    and "run_state (scan_token_dispatch U) (Lexing (reading s 0)) = ((), Lexing (one_token k s))"
  shows "lex_source U s = Inr ([\<lparr>tok_kind = k, tok_lexeme = s, tok_offset = 0\<rparr>, eof_token (length s)], [])"
proof -
  obtain n where n: "length s = Suc n" using assms(2) by (cases s) auto
  have "(of_char (s ! 0) :: nat) < 128" using plain_nth [OF assms(1), of 0] n by simp
  hence "run_state skip_bom (Lexing (lexer_new s)) = ((), Lexing (reading s 0))"
    using n by (simp add: skip_bom_def lex_run peek_def peek_n_def logical_char_at_def
        scan_at_plain [OF assms(1)] lexer_new_def reader_new_def if_then_def)
  thus ?thesis
    using n assms(3)
    by (simp add: lex_source_def scan_tokens_def lex_while_def lex_loop_over_def lex_run at_end_def
        source_len_def reader_is_at_end_def scan_next_token_def new_token_def if_then_def
        complete_eof_def eof_token_def)
qed

lemma peek_plain:
  "plain s \<Longrightarrow> peek \<lparr>rd_source = s, rd_start = a, rd_current = i, rd_errors = es\<rparr> =
     Some (if i < length s then of_char (s ! i) else 0)"
  by (simp add: peek_def peek_n_def logical_char_at_def scan_at_plain)

lemma advance_plain:
  "plain s \<Longrightarrow> i < length s \<Longrightarrow>
   advance \<lparr>rd_source = s, rd_start = a, rd_current = i, rd_errors = es\<rparr> =
     Some (of_char (s ! i), \<lparr>rd_source = s, rd_start = a, rd_current = Suc i, rd_errors = es\<rparr>)"
  by (simp add: advance_def scan_at_plain)

lemma follows_plain:
  "plain s \<Longrightarrow>
   run_state (follows c) (Lexing \<lparr>reader = \<lparr>rd_source = s, rd_start = a, rd_current = i, rd_errors = es\<rparr>,
     lex_tokens = ts, lex_errors = les, mode = m, template_stack = st\<rparr>) =
   (if i < length s then
      (s ! i = c, Lexing \<lparr>reader = \<lparr>rd_source = s, rd_start = a,
         rd_current = if s ! i = c then Suc i else i, rd_errors = es\<rparr>,
       lex_tokens = ts, lex_errors = les, mode = m, template_stack = st\<rparr>)
    else (c = CHR 0x00, Lexing \<lparr>reader = \<lparr>rd_source = s, rd_start = a, rd_current = i, rd_errors = es\<rparr>,
       lex_tokens = ts, lex_errors = les, mode = m, template_stack = st\<rparr>))"
  by (auto simp: follows_def lex_run advance_if_matches_def scan_at_plain of_char_eq_iff
      of_char_eq_iff [of _ "CHR 0x00", simplified])

lemma complete_plain:
  "i = length s \<Longrightarrow>
   run_state (complete_token k) (Lexing \<lparr>reader = \<lparr>rd_source = s, rd_start = 0, rd_current = i, rd_errors = []\<rparr>,
     lex_tokens = [], lex_errors = [], mode = Normal, template_stack = []\<rparr>) =
   ((), Lexing (one_token k s))"
  by (simp add: complete_token_def lex_run current_token_lexeme_raw_def slice_def is_char_boundary_def)

lemma peek_next_plain:
  "plain s \<Longrightarrow> i < length s \<Longrightarrow>
   peek_next \<lparr>rd_source = s, rd_start = a, rd_current = i, rd_errors = es\<rparr> =
     Some (if Suc i < length s then of_char (s ! Suc i) else 0)"
  by (simp add: peek_next_def peek_n_def logical_char_at_def logical_len_at_def scan_at_plain)

lemma matches_plain:
  "plain s \<Longrightarrow> i \<le> length s \<Longrightarrow>
   matches_str e \<lparr>rd_source = s, rd_start = a, rd_current = i, rd_errors = es\<rparr> =
     Some (take (length e) (drop i s) = e)"
  using plain_nth [of s i] by (auto simp: matches_str_def is_char_boundary_def)

subsection \<open>Operators and separators\<close>

text \<open>The texts of the tokens \<^verbatim>\<open>SyntaxKind\<close> lists as operators and separators.\<close>

definition operator_table :: "(string \<times> syntax_kind) list" where
  "operator_table =
     [(''('', L_PAREN), ('')'', R_PAREN), (''['', L_BRACKET), ('']'', R_BRACKET),
      (''{'', L_BRACE), (''}'', R_BRACE), ('';'', SEMICOLON), ('','', COMMA), (''.'', DOT),
      (''...'', ELLIPSIS), (''@'', AT), (''::'', COLON_COLON), (''='', EQUAL), (''>'', GREATER),
      (''<'', LESS), (''/'', SLASH), (''/='', DIVIDE_EQUAL), (''!'', NOT), (''~'', TILDE), (''?'', QUESTION), ('':'', COLON),
      (''->'', ARROW), (''=='', EQUAL_EQUAL), (''>='', GREATER_EQUAL), (''<='', LESS_EQUAL),
      (''!='', NOT_EQUAL), (''&&'', AND), (''||'', OR), (''++'', PLUS_PLUS), (''--'', MINUS_MINUS),
      (''+'', PLUS), (''-'', MINUS), (''*'', STAR), (''&'', BIT_AND), (''|'', BIT_OR),
      (''^'', CARET), (''%'', MODULO), (''<<'', LEFT_SHIFT), (''>>'', RIGHT_SHIFT),
      (''>>>'', UNSIGNED_RIGHT_SHIFT), (''+='', PLUS_EQUAL), (''-='', MINUS_EQUAL),
      (''*='', MULTIPLE_EQUAL), (''&='', AND_EQUAL), (''|='', OR_EQUAL), (''^='', XOR_EQUAL),
      (''%='', MODULO_EQUAL), (''<<='', LEFT_SHIFT_EQUAL), (''>>='', RIGHT_SHIFT_EQUAL),
      (''>>>='', UNSIGNED_RIGHT_SHIFT_EQUAL)]"

lemmas dispatch_simps = scan_token_dispatch_def lex_run peek_plain advance_plain follows_plain
  complete_plain scan_after_advance_def single_char_kind_def quote_def double_quote_def
  plain_def backslash_def peek_next_plain matches_plain skip_char_def discard_def
  handle_colon_def handle_mod_def handle_bang_def handle_or_def handle_and_def
    handle_star_def handle_plus_def handle_caret_def handle_minus_def handle_less_def
    handle_greater_def handle_eq_def handle_slash_def handle_dot_def handle_left_brace_def handle_right_brace_def if_then_def
  advance_if_matches_str_def

lemma dispatch_operator:
  assumes "\<forall>c<128. is_numeric U c = is_ascii_digit c" and "(t, k) \<in> set operator_table"
  shows "plain t \<and> t \<noteq> [] \<and>
    run_state (scan_token_dispatch U) (Lexing (reading t 0)) = ((), Lexing (one_token k t))"
proof -
  have nz: "\<not> is_numeric U 0" using assms(1) by (simp add: is_ascii_digit_def)
  have "list_all (\<lambda>(t, k). plain t \<and> t \<noteq> [] \<and>
    run_state (scan_token_dispatch U) (Lexing (reading t 0)) = ((), Lexing (one_token k t))) operator_table"
    using assms(1)
    by (simp add: operator_table_def dispatch_simps is_ascii_digit_def nz)
  thus ?thesis using assms(2) by (auto simp: list_all_iff)
qed


subsection \<open>Words\<close>

definition word_start :: "char \<Rightarrow> bool" where
  "word_start b \<longleftrightarrow> ascii_category (of_char b) \<in>
     {UppercaseLetter, LowercaseLetter, CurrencySymbol, ConnectorPunctuation}"

definition java_word :: "string \<Rightarrow> bool" where
  "java_word s \<longleftrightarrow> s \<noteq> [] \<and> word_start (hd s) \<and>
     list_all (\<lambda>b. word_start b \<or> is_ascii_digit (of_char b)) s"

lemma word_char_plain: "word_start b \<or> is_ascii_digit (of_char b) \<Longrightarrow> (of_char b :: nat) < 128 \<and> b \<noteq> backslash"
  by (auto simp: word_start_def ascii_category_def is_ascii_digit_def split: if_splits)

lemma java_word_plain: "java_word s \<Longrightarrow> plain s"
  using word_char_plain by (auto simp: java_word_def plain_def list_all_iff)

lemma identifier_loop:
  assumes "plain s" and "\<And>b. b \<in> set s \<Longrightarrow> is_java_identifier_part U (of_char b)"
    and "i \<le> length s" and "length s - i < n"
  shows "run_state (lex_loop n () (\<lambda>_.
      do { b \<leftarrow> do { e \<leftarrow> at_end;
                  if e then ret False else do { c \<leftarrow> query peek; ret (is_java_identifier_part U c) } };
           if b then do { skip_char; ret (True, ()) } else ret (False, ()) }))
      (Lexing (reading s i)) = ((), Lexing (reading s (length s)))"
  using assms(3,4)
proof (induction n arbitrary: i)
  case (Suc n)
  show ?case
  proof (cases "i < length s")
    case True
    with Suc assms(2) [of "s ! i"] show ?thesis
      by (simp add: at_end_def lex_run reader_is_at_end_def peek_plain [OF assms(1)] skip_char_def
          discard_def advance_plain [OF assms(1)])
  next
    case False
    with Suc.prems show ?thesis by (simp add: at_end_def lex_run reader_is_at_end_def)
  qed
qed simp

lemma dispatch_word:
  assumes U: "ascii_tables U" and w: "java_word s"
  shows "run_state (scan_token_dispatch U) (Lexing (reading s 0)) =
    ((), Lexing (one_token (identifier_kind s) s))"
proof -
  have p: "plain s" using w by (rule java_word_plain)
  obtain b t where s: "s = b # t" using w by (cases s) (auto simp: java_word_def)
  have part: "is_java_identifier_part U (of_char x)" if "x \<in> set s" for x
  proof -
    have x: "word_start x \<or> is_ascii_digit (of_char x)" using w that by (auto simp: java_word_def list_all_iff)
    hence "(of_char x :: nat) < 128" using word_char_plain by blast
    hence "get_general_category U (of_char x) = ascii_category (of_char x)"
      using U by (simp add: ascii_tables_def)
    thus ?thesis
      using x by (auto simp: is_java_identifier_part_def is_java_identifier_start_def word_start_def
          ascii_category_def is_ascii_digit_def split: if_splits)
  qed
  have b: "word_start b" "(of_char b :: nat) < 128" using w s word_char_plain [of b] by (auto simp: java_word_def)
  have start: "is_java_identifier_start U (of_char b)" "\<not> is_numeric U (of_char b)"
    using U b by (auto simp: ascii_tables_def is_java_identifier_start_def word_start_def
          ascii_category_def is_ascii_digit_def split: if_splits)
  have n: "(of_char b :: nat) = 36 \<or> 65 \<le> (of_char b :: nat) \<and> of_char b \<le> (90 :: nat) \<or> of_char b = (95 :: nat) \<or>
      97 \<le> (of_char b :: nat) \<and> of_char b \<le> (122 :: nat)"
    using b(1) by (auto simp: word_start_def ascii_category_def split: if_splits)
  have bs: "backslash \<notin> set s" using plain_nth [OF p] by (auto simp: in_set_conv_nth)
  have loop: "run_state (lex_while (do { e \<leftarrow> at_end;
                  if e then ret False
                  else do { c \<leftarrow> query peek; ret (is_java_identifier_part U c) } }) skip_char)
      (Lexing (reading s 1)) = ((), Lexing (reading s (length s)))"
    unfolding lex_while_def lex_loop_over_def run_state_bind
    by (subst run_lex_modify(2), subst case_prod_conv, rule identifier_loop [OF p part])
      (simp_all add: source_len_def s)
  have body: "run_state (handle_identifier U) (Lexing (reading s 1)) =
      ((), Lexing (one_token (identifier_kind s) s))"
    unfolding handle_identifier_def run_state_bind loop case_prod_conv
    by (simp add: lex_run
        current_token_lexeme_def current_token_lexeme_raw_def slice_def is_char_boundary_def
        translate_unicode_escapes_def bs complete_plain)
  have cond: "scan_after_advance U (of_char b) = handle_identifier U"
    using n start by (auto simp: scan_after_advance_def single_char_kind_def is_java_whitespace_def
      quote_def double_quote_def)
  show ?thesis
    using n start body cond
    by (auto simp: scan_token_dispatch_def lex_run peek_plain [OF p [unfolded s]]
      advance_plain [OF p [unfolded s]] s)
qed


subsection \<open>Evaluation at any position\<close>

lemma lex_loop_numeral:
  "lex_loop (numeral v) x body =
     do { r \<leftarrow> body x; if fst r then lex_loop (pred_numeral v) (snd r) body else ret (snd r) }"
  by (simp add: numeral_eq_Suc)

lemma complete_at:
  "plain s \<Longrightarrow> a \<le> i \<Longrightarrow> i \<le> length s \<Longrightarrow>
   run_state (complete_token k) (Lexing \<lparr>reader = \<lparr>rd_source = s, rd_start = a, rd_current = i, rd_errors = es\<rparr>,
     lex_tokens = ts, lex_errors = les, mode = m, template_stack = st\<rparr>) =
   ((), Lexing \<lparr>reader = \<lparr>rd_source = s, rd_start = a, rd_current = i, rd_errors = es\<rparr>,
     lex_tokens = ts @ [\<lparr>tok_kind = k, tok_lexeme = take (i - a) (drop a s), tok_offset = a\<rparr>],
     lex_errors = les, mode = m, template_stack = st\<rparr>)"
  using plain_nth [of s a] plain_nth [of s i]
  by (auto simp: complete_token_def lex_run current_token_lexeme_raw_def slice_def is_char_boundary_def)

lemma lexeme_at:
  assumes p: "plain s" and "a \<le> i" and "i \<le> length s"
  shows "current_token_lexeme \<lparr>rd_source = s, rd_start = a, rd_current = i, rd_errors = es\<rparr> =
     Some (take (i - a) (drop a s))"
proof -
  have "backslash \<notin> set s" using plain_nth [OF p] by (auto simp: in_set_conv_nth)
  hence "backslash \<notin> set (take (i - a) (drop a s))" by (meson in_set_dropD in_set_takeD)
  thus ?thesis
    using assms plain_nth [OF p, of a] plain_nth [OF p, of i]
    by (auto simp: current_token_lexeme_def current_token_lexeme_raw_def slice_def is_char_boundary_def
        translate_unicode_escapes_def)
qed

end
