(* ===== verification/SourceFile.thy ===== *)
theory SourceFile imports Lexemes begin

text \<open>
  \<^verbatim>\<open>SourceFile::parse\<close> of \<^verbatim>\<open>crates/java-syntax/src/lib.rs\<close> and the error type it returns: the
  lexer, then the parser, and the errors of both.
\<close>

subsection \<open>The function\<close>

datatype syntax_error_kind = LexerError lexical_error_kind | ParserError parse_error_kind

record syntax_error =
  syn_err_kind :: syntax_error_kind
  syn_err_range :: text_range

definition from_lexical_error :: "lexical_error \<Rightarrow> syntax_error" where
  "from_lexical_error e =
     \<lparr>syn_err_kind = LexerError (lex_err_kind e), syn_err_range = lex_err_range e\<rparr>"

definition from_parse_error :: "parse_error \<Rightarrow> syntax_error" where
  "from_parse_error e =
     \<lparr>syn_err_kind = ParserError (err_kind e), syn_err_range = err_range e\<rparr>"

datatype file_stop = LexerStopped lex_stop | ParserStopped stop

definition source_file_parse ::
    "unicode \<Rightarrow> nat \<Rightarrow> string \<Rightarrow> file_stop + builder_call list \<times> syntax_error list" where
  "source_file_parse U n text =
     (case lex_source U text of
        Inl e \<Rightarrow> Inl (LexerStopped e)
      | Inr (ts, lex_errs) \<Rightarrow>
          (case parse n ts of
             Inl e \<Rightarrow> Inl (ParserStopped e)
           | Inr (green, parse_errs) \<Rightarrow>
               Inr (green, map from_lexical_error lex_errs @ map from_parse_error parse_errs)))"

subsection \<open>The tokens it parses\<close>

lemma placed_no_eof: "placed s a ts e \<Longrightarrow> list_all (\<lambda>t. tok_kind t \<noteq> EOF) ts"
  by (induction s a ts e rule: placed.induct) auto

lemma tokenized_eof: "tokenized s ts es \<Longrightarrow> ends_with_eof ts"
  by (auto simp: tokenized_def ends_with_eof_def eof_token_def dest: placed_no_eof)

lemma eof_token_text [simp]: "tok_lexeme (eof_token n) = []"
  by (simp add: eof_token_def)

text \<open>The lexer and the parser one after the other keep the text.\<close>

lemma source_file_text:
  assumes "utf8 s" and "\<not> is_numeric U 0"
    and "lex_source U s = Inr (ts, les)" and "\<not> has_shift ts"
    and "\<not> list_ex (\<lambda>e. drops_text (lex_err_kind e)) les"
    and "source_file_parse U n s = Inr (calls, errs)"
  shows "tree_text calls = drop (body_start s) s \<or>
    (\<exists>p. body_start s \<le> p \<and> final_sub s p \<and>
       tree_text calls = take (p - body_start s) (drop (body_start s) s))"
proof -
  have t: "tokenized s ts les" using lex_outcome [OF assms(1,2)] assms(3) by simp
  obtain perrs where "parse n ts = Inr (calls, perrs)"
    using assms(3,6) by (auto simp: source_file_parse_def split: sum.splits)
  hence "tree_text calls = source_text ts"
    using assms(4) tokenized_eof [OF t] by (rule parse_text)
  thus ?thesis using t assms(5) by (auto simp: tokenized_def covers_def)
qed

end
