(* ===== verification/Examples.thy ===== *)
theory Examples imports Behaviour SourceFile begin

text \<open>
  Small token lists and what the parser makes of them, evaluated in the kernel: the concrete
  inputs at which the properties of the root theory are applied.
\<close>

subsection \<open>\<^verbatim>\<open>class A{}\<close>\<close>

definition class_tokens :: "token list" where
  "class_tokens =
     [tok CLASS_KW ''class'' 0, tok WHITESPACE '' '' 5, tok IDENTIFIER ''A'' 6, tok L_BRACE ''{'' 7,
      tok R_BRACE ''}'' 8, tok EOF '''' 9]"

lemma no_shift_class_tokens: "\<not> has_shift class_tokens"
  by (simp add: class_tokens_def has_shift_def has_kind_def tok_def)

lemma ends_with_eof_class_tokens: "ends_with_eof class_tokens"
  by (simp add: class_tokens_def ends_with_eof_def tok_def)

lemma source_text_class_tokens: "source_text class_tokens = ''class A{}''"
  by (simp add: class_tokens_def source_text_def tok_def)

definition class_events :: "event list" where
  "class_events =
     [StartNode ROOT None, StartNode CLASS_DECL None, Tombstone, AddToken, AddToken,
      StartNode CLASS_BODY None, AddToken, AddToken, FinishNode, FinishNode, FinishNode]"

lemma run_class_tokens:
  "run_parser (Suc (Suc (Suc (Suc (Suc (Suc (Suc 0))))))) class_tokens =
     Run \<lparr>source = (token_source_new class_tokens)\<lparr>cursor := 4\<rparr>, events = class_events,
          errors = [], override_token = None, last_token_range = range_at 8 1\<rparr>"
  by (simp add: class_tokens_def class_events_def run_start
        del: run_state_bind run_state_return java_grammar.simps,
      simp add: run_simps del: run_state_bind run_state_return java_grammar.simps
        cong: run_congs)

definition class_calls :: "builder_call list" where
  "class_calls =
     [BStart ROOT, BStart CLASS_DECL, BToken CLASS_KW ''class'',
      BToken WHITESPACE '' '', BToken IDENTIFIER ''A'', BStart CLASS_BODY,
      BToken L_BRACE ''{'', BToken R_BRACE ''}'', BFinish, BFinish, BFinish]"

lemma parse_class_tokens:
  "parse (Suc (Suc (Suc (Suc (Suc (Suc (Suc 0))))))) class_tokens = Inr (class_calls, [])"
proof -
  have "sink_finish class_tokens class_events = Some class_calls" by code_simp
  thus ?thesis by (simp add: parse_def run_class_tokens token_source_new_def)
qed

subsection \<open>\<^verbatim>\<open>A<B<C >> x;\<close>\<close>

definition gap_tokens :: "token list" where
  "gap_tokens =
     [tok IDENTIFIER ''A'' 0, tok LESS ''<'' 1, tok IDENTIFIER ''B'' 2, tok LESS ''<'' 3,
      tok IDENTIFIER ''C'' 4, tok WHITESPACE '' '' 5, tok RIGHT_SHIFT ''>>'' 6,
      tok WHITESPACE '' '' 8, tok IDENTIFIER ''x'' 9, tok SEMICOLON '';'' 10, tok EOF '''' 11]"

definition gap_events :: "event list" where
  "gap_events =
     [StartNode ROOT None, StartNode FIELD_DECL None, Tombstone, StartNode TYPE_K None,
      StartNode QUALIFIED_NAME None, AddToken, FinishNode, StartNode TYPE_ARGUMENTS None, AddToken,
      StartNode TYPE_ARGUMENT None, StartNode TYPE_K None, StartNode QUALIFIED_NAME None, AddToken,
      FinishNode, StartNode TYPE_ARGUMENTS None, AddToken, StartNode TYPE_ARGUMENT None,
      StartNode TYPE_K None, StartNode QUALIFIED_NAME None, AddToken, FinishNode, FinishNode,
      FinishNode, AddVirtualToken RIGHT_SHIFT ''>'', FinishNode, FinishNode, FinishNode,
      AddVirtualToken GREATER ''>'', AdvanceSource, FinishNode, FinishNode,
      StartNode VARIABLE_DECLARATOR_LIST None, StartNode VARIABLE_DECLARATOR None, AddToken,
      FinishNode, FinishNode, AddToken, FinishNode, FinishNode]"

lemma run_gap_tokens:
  "run_parser (Suc (Suc (Suc (Suc (Suc (Suc (Suc (Suc 0)))))))) gap_tokens =
     Run \<lparr>source = (token_source_new gap_tokens)\<lparr>cursor := 8\<rparr>, events = gap_events,
          errors = [], override_token = None, last_token_range = range_at 10 1\<rparr>"
  by (simp add: gap_tokens_def gap_events_def run_start
        del: run_state_bind run_state_return java_grammar.simps,
      simp add: run_simps split_at_def is_char_boundary_def
        del: run_state_bind run_state_return java_grammar.simps cong: run_congs)

lemma sink_gap_tokens:
  "map_option tree_text (sink_finish gap_tokens gap_events) = Some ''A<B<C>>>> x''"
  by code_simp

lemma parse_gap_tokens:
  "\<exists>calls. parse (Suc (Suc (Suc (Suc (Suc (Suc (Suc (Suc 0)))))))) gap_tokens = Inr (calls, []) \<and>
     tree_text calls = ''A<B<C>>>> x''"
  using sink_gap_tokens by (auto simp: parse_def run_gap_tokens token_source_new_def)

subsection \<open>\<^verbatim>\<open>class A{{try(int)\<close>\<close>

definition try_tokens :: "token list" where
  "try_tokens =
     [tok CLASS_KW ''class'' 0, tok WHITESPACE '' '' 5, tok IDENTIFIER ''A'' 6, tok L_BRACE ''{'' 7,
      tok L_BRACE ''{'' 8, tok TRY_KW ''try'' 9, tok L_PAREN ''('' 12, tok INT_KW ''int'' 13,
      tok R_PAREN '')'' 16, tok EOF '''' 17]"

lemma run_try_tokens:
  "run_parser (Suc (Suc (Suc (Suc (Suc (Suc (Suc (Suc (Suc (Suc (Suc 0))))))))))) try_tokens =
     Stop MarkerDropped"
  by (simp add: try_tokens_def run_start del: run_state_bind run_state_return java_grammar.simps,
      (simp add: run_simps del: run_state_bind run_state_return java_grammar.simps cong: run_congs),
      ((rule resume_stop run_stopped halt_rules | (rule halted_leaf, (rule flow_rules; simp)) |
        simp only: snd_conv)+)?)

lemma parse_try_tokens:
  "parse (Suc (Suc (Suc (Suc (Suc (Suc (Suc (Suc (Suc (Suc (Suc 0))))))))))) try_tokens =
     Inl MarkerDropped"
  by (simp only: parse_def run_try_tokens machine.case)

lemma g_fuel_java: "g_fuel (java_grammar n) = n"
  by (cases n) (simp_all add: no_grammar_def Let_def)

subsection \<open>\<^verbatim>\<open>module m{class\<close>\<close>

definition module_tokens :: "token list" where
  "module_tokens =
     [tok IDENTIFIER ''module'' 0, tok WHITESPACE '' '' 6, tok IDENTIFIER ''m'' 7,
      tok L_BRACE ''{'' 8, tok CLASS_KW ''class'' 9, tok EOF '''' 14]"

lemma run_module_tokens:
  "run_parser 0 module_tokens = Stop OutOfFuel"
  "run_parser (Suc n) module_tokens = Stop OutOfFuel"
  by ((simp add: module_tokens_def run_start del: run_state_bind run_state_return java_grammar.simps),
      (simp add: run_simps module_body_stuck stuck_directive_kinds_def del: run_state_bind
        run_state_return java_grammar.simps cong: run_congs)?,
      ((rule resume_stop run_stopped halt_rules | (rule halted_leaf, (rule flow_rules; simp)) |
        simp only: snd_conv)+)?)+

subsection \<open>\<^verbatim>\<open>int a=switch(x){{\<close>\<close>

definition switch_brace :: "token list" where
  "switch_brace =
     [tok INT_KW ''int'' 0, tok WHITESPACE '' '' 3, tok IDENTIFIER ''a'' 4, tok EQUAL ''='' 5,
      tok SWITCH_KW ''switch'' 6, tok L_PAREN ''('' 12, tok IDENTIFIER ''x'' 13,
      tok R_PAREN '')'' 14, tok L_BRACE ''{'' 15, tok L_BRACE ''{'' 16, tok EOF '''' 17]"

lemma run_switch_brace:
  "run_parser 0 switch_brace = Stop OutOfFuel"
  "run_parser (Suc 0) switch_brace = Stop OutOfFuel"
  "run_parser (Suc (Suc 0)) switch_brace = Stop OutOfFuel"
  "run_parser (Suc (Suc (Suc 0))) switch_brace = Stop OutOfFuel"
  "run_parser (Suc (Suc (Suc (Suc n)))) switch_brace = Stop OutOfFuel"
  by ((simp add: switch_brace_def run_start del: run_state_bind run_state_return java_grammar.simps),
      (simp add: run_simps switch_block_stuck del: run_state_bind run_state_return
        java_grammar.simps cong: run_congs)?,
      ((rule resume_stop run_stopped halt_rules | (rule halted_leaf, (rule flow_rules; simp)) |
        simp only: snd_conv)+)?)+

subsection \<open>Pieces of programs\<close>

definition sum_parser :: parser where
  "sum_parser = parser_new
     [tok IDENTIFIER ''a'' 0, tok PLUS ''+'' 1, tok IDENTIFIER ''b'' 2, tok EOF '''' 3]"

lemma run_sum:
  "run_state (Expr.expr_bp (java_grammar (Suc (Suc 0))) 23) (Run sum_parser) =
     (Some (Completed 0 LITERAL),
      Run (sum_parser\<lparr>source := (source sum_parser)\<lparr>cursor := 1\<rparr>,
        events := [StartNode LITERAL None, AddToken, FinishNode],
        last_token_range := range_at 0 1\<rparr>))"
  by (simp add: sum_parser_def run_start del: run_state_bind run_state_return java_grammar.simps,
      simp add: run_simps del: run_state_bind run_state_return java_grammar.simps cong: run_congs)

definition close_parser :: parser where
  "close_parser = parser_new [tok RIGHT_SHIFT ''>>'' 0, tok EOF '''' 2]"

text \<open>The parser of \<^verbatim>\<open>String s\<close>, and the lookahead that takes it for a type pattern.\<close>

definition pattern_tokens :: "token list" where
  "pattern_tokens = [tok IDENTIFIER ''String'' 0, tok IDENTIFIER ''s'' 7, tok EOF '''' 8]"

lemma run_is_pattern:
  "\<exists>q. run_state (is_pattern (java_grammar (Suc (Suc (Suc (Suc 0)))))) (Run (parser_new pattern_tokens)) =
     (True, Run q)"
  by (simp add: pattern_tokens_def run_start del: run_state_bind run_state_return java_grammar.simps,
      simp add: run_simps del: run_state_bind run_state_return java_grammar.simps cong: run_congs)

subsection \<open>Sources\<close>

lemma lex_class_tokens: "lex_source ascii_unicode ''class A{}'' = Inr (class_tokens, [])"
  by (simp add: lex_source_def scan_tokens_def skip_bom_def lexer_new_def reader_new_def
      lex_while_def lex_loop_over_def lex_loop_numeral source_len_def reader_is_at_end_def at_end_def
      scan_next_token_def new_token_def dispatch_simps complete_at lexeme_at handle_whitespace_def
      is_java_whitespace_def handle_identifier_def is_java_identifier_part_def
      is_java_identifier_start_def is_java_identifier_ignorable_def ascii_unicode_def
      ascii_category_def is_ascii_digit_def identifier_kind_def keyword_table_def complete_eof_def
      class_tokens_def tok_def)

text \<open>An escape with three digits, and then the character \<open>c\<close>.\<close>

definition cut_escape :: "string \<Rightarrow> nat \<Rightarrow> string \<Rightarrow> string" where
  "cut_escape digits c rest = backslash # CHR ''u'' # digits @ encode_utf8 c @ rest"

lemma utf8_plain: "list_all (\<lambda>b. (of_char b :: nat) < 128) s \<Longrightarrow> utf8 s"
proof (induction s)
  case (Cons b s)
  have "encode_utf8 (of_char b) = [b]" "scalar (of_char b)"
    using Cons.prems by (simp_all add: encode_utf8_def scalar_def)
  with utf8_encode [of "of_char b" s] Cons show ?case by simp
qed simp

lemma hex_digit_plain: "hex_digit b \<noteq> None \<Longrightarrow> (of_char b :: nat) < 128 \<and> b \<noteq> CHR ''u''"
  by (auto simp: hex_digit_def Let_def split: if_splits)

lemma utf8_ascii_append: "list_all (\<lambda>b. (of_char b :: nat) < 128) s \<Longrightarrow> utf8 t \<Longrightarrow> utf8 (s @ t)"
proof (induction s)
  case (Cons b s)
  have "encode_utf8 (of_char b) = [b]" "scalar (of_char b)"
    using Cons.prems by (simp_all add: encode_utf8_def scalar_def)
  with utf8_encode [of "of_char b" "s @ t"] Cons show ?case by simp
qed simp

lemma utf8_cut_escape:
  assumes "list_all (\<lambda>b. hex_digit b \<noteq> None) digits" and "scalar c" and "utf8 rest"
  shows "utf8 (cut_escape digits c rest)"
proof -
  have "list_all (\<lambda>b. (of_char b :: nat) < 128) (backslash # CHR ''u'' # digits)"
    using assms(1) hex_digit_plain by (auto simp: list_all_iff backslash_def)
  from utf8_ascii_append [OF this utf8_encode [OF assms(2,3)]] show ?thesis by (simp add: cut_escape_def)
qed

lemma cut_escape_panics:
  assumes "length digits = 3" and "list_all (\<lambda>b. hex_digit b \<noteq> None) digits" and "scalar c" and "0x80 \<le> c"
  shows "logical_char_at (cut_escape digits c rest) 0 = None"
proof -
  obtain x y z where ds: "digits = [x, y, z]"
    using assms(1) by (auto simp: numeral_eq_Suc length_Suc_conv)
  have x: "x \<noteq> CHR ''u''" using assms(2) hex_digit_plain by (auto simp: ds)
  have len: "1 < len_utf8 c" using assms(4) by (simp add: len_utf8_def)
  then obtain b1 b2 bs where e: "encode_utf8 c = b1 # b2 # bs"
    using length_encode [of c] by (cases "encode_utf8 c"; cases "tl (encode_utf8 c)") auto
  have "128 \<le> (of_char b2 :: nat) \<and> (of_char b2 :: nat) < 192"
    using encode_tail [OF assms(3) _ len] by (simp add: e)
  thus ?thesis
    using x by (simp add: logical_char_at_def scan_at_def scan_code_unit_def cut_escape_def ds e
        backslash_def hex_place_def slice_def is_char_boundary_def count_preceding_backslashes_def)
qed

text \<open>The sources \<^verbatim>\<open>+\u003d\<close> and \<^verbatim>\<open>=\u003d\<close>.\<close>

definition escaped_equals :: string where
  "escaped_equals = [backslash, CHR ''u'', CHR ''0'', CHR ''0'', CHR ''3'', CHR ''d'']"

definition plus_escaped :: string where
  "plus_escaped = CHR ''+'' # escaped_equals"

definition equals_escaped :: string where
  "equals_escaped = CHR ''='' # escaped_equals"

lemmas escape_simps = lex_source_def scan_tokens_def skip_bom_def lexer_new_def reader_new_def
  lex_while_def lex_loop_over_def lex_loop_numeral source_len_def reader_is_at_end_def at_end_def
  scan_next_token_def new_token_def scan_token_dispatch_def scan_after_advance_def
  single_char_kind_def lex_run if_then_def complete_eof_def peek_def peek_n_def logical_char_at_def
  scan_at_def scan_code_unit_def hex_place_def slice_def is_char_boundary_def scalar_def
  count_preceding_backslashes_def advance_def hex_digit_def from_hex_def advance_if_matches_def
  advance_if_matches_str_def matches_str_def complete_token_def current_token_lexeme_raw_def
  eof_token_def tok_def follows_def backslash_def len_utf8_def

lemma lex_plus_escaped:
  "lex_source ascii_unicode plus_escaped = Inr ([tok PLUS_EQUAL plus_escaped 0, eof_token 7], [])"
  by (simp add: plus_escaped_def escaped_equals_def escape_simps handle_plus_def ascii_unicode_def
      is_ascii_digit_def)

lemma lex_equals_escaped:
  "lex_source ascii_unicode equals_escaped =
     Inr ([tok EQUAL ''='' 0, tok EQUAL (drop 1 equals_escaped) 1, eof_token 7], [])"
  by (simp add: equals_escaped_def escaped_equals_def escape_simps handle_eq_def quote_def
      ascii_unicode_def is_ascii_digit_def)

end
