(* ===== verification/Spec2Isabelle.thy ===== *)
theory Spec2Isabelle imports NodeSpec Examples begin

text \<open>
  Verification of the Java lexer and parser and of the class file library of caffeine-ls, a
  language server for JVM languages.

  The parser. \<^verbatim>\<open>crates/java-syntax\<close> turns Java source text into a syntax tree that keeps
  every token and a list of errors, and it must do so for any text an editor holds, however
  broken. The lexer (\<^verbatim>\<open>lexer.rs\<close> over the unicode reader \<^verbatim>\<open>reader.rs\<close>) makes tokens; the parser (\<^verbatim>\<open>parser.rs\<close>) runs a recursive descent grammar
  (\<^verbatim>\<open>parser/grammar/*.rs\<close>) over the tokens that are not trivia and records events; the sink
  (\<^verbatim>\<open>parser/sink.rs\<close>) replays the events, with the trivia put back, into the tree builder of
  the \<^verbatim>\<open>rowan\<close> library.

  The theories, in the order of their imports:
  \<^item> \<open>Prelude\<close>: the collections of rules and the small monadic combinators all parts share;
  \<^item> \<open>SyntaxKind\<close>, \<open>TokenSets\<close>: \<^verbatim>\<open>syntax_kind.rs\<close> and the bit sets of \<^verbatim>\<open>tokenset!\<close>, with the
    locale \<open>kind_set\<close> of what the parser needs of a set;
  \<^item> \<open>Parser\<close>: the parser object, its queries as functions of the state and its operations as
    actions of a state monad over a machine that runs or has stopped;
  \<^item> \<open>Flow\<close>: the marker discipline. \<open>flows T ms f R\<close> says that \<open>f\<close> takes a consistent parser
    whose open markers and checkpoints are \<open>ms\<close> to one with \<open>R\<close> of its result, or stops for
    an allowed reason; \<open>seg\<close> describes balanced lists of events with their forward parents;
  \<^item> \<open>Lookahead\<close>: the predicates over \<^verbatim>\<open>p.nth(i)\<close>;
  \<^item> \<open>Grammar\<close>, \<open>Types\<close>, \<open>Expr\<close>, \<open>Decl\<close>, \<open>Stmt\<close>, \<open>Member\<close>, \<open>CompilationUnit\<close>: one definition
    per function of the files under \<^verbatim>\<open>grammar/\<close>, each followed by its \<open>flows\<close> rule. The
    functions call each other recursively across files: a call that closes a cycle goes
    through the record \<open>grammar\<close>, whose contract is the locale \<open>grammar_laws\<close>, and
    \<open>java_grammar n\<close> ties the knot \<open>n\<close> times, with the interpretation of the locale;
  \<^item> \<open>Sink\<close>, \<open>Parse\<close>: the sink, what it hands to the builder, and \<^verbatim>\<open>Parser::parse\<close>;
  \<^item> \<open>Reader\<close>, \<open>ReaderFacts\<close>: the reader, a cursor over the bytes of a UTF-8 text that translates
    \<^verbatim>\<open>\uXXXX\<close> escapes, and where it stops: always at a character boundary (\<open>boundary\<close>), if no
    escape cuts a character (\<open>escapes_ok\<close>);
  \<^item> \<open>Lexer\<close>: the lexer, one definition per handler, templates and their stack included;
  \<^item> \<open>LexTriples\<close>, \<open>Scanning\<close>, \<open>Lexing\<close>: a Hoare logic for it (\<open>lexes s P f Q\<close>), what each
    handler reads and emits, and the invariant of the main loop; \<open>Lexemes\<close>: the lexer on texts
    of one token; \<open>SourceFile\<close>: \<^verbatim>\<open>SourceFile::parse\<close>, the lexer followed by the parser;
  \<^item> \<open>Execution\<close>: an evaluator of the model by rewriting, so that the kernel runs the parser on
    token lists; \<open>Behaviour\<close>: what single operations do; \<open>Examples\<close>: concrete inputs.

  The class file library. \<^verbatim>\<open>lib/rust-asm\<close> reads the compiled classes of a project's
  dependencies and writes class files. The theories, in the order of their imports:
  \<^item> \<open>ClassBytes\<close>: the byte reader as a state monad over a reader that reads or has stopped with
    an error, the big-endian writers, and two notions the round trips and the termination
    proofs rest on: \<open>reads_as f x bs\<close> (on the bytes \<open>bs\<close> the reader \<open>f\<close> gives \<open>x\<close>), with the
    locale \<open>codec\<close> of a reader and a writer that fit each other, and \<open>fueled\<close> (a reader with
    fuel for its bytes does not run out of it);
  \<^item> \<open>ModifiedUtf8\<close>, \<open>ConstPool\<close>: the strings and the entries of the constant pool, lookups in it,
    and the writer's functions that find or add an entry;
  \<^item> \<open>TypeDesc\<close>: \<^verbatim>\<open>types.rs\<close>; \<open>Bytecode\<close>: instructions, their decoder and their encoder;
  \<^item> \<open>Attributes\<close>: what is inside the attributes, with an interpretation of \<open>codec\<close> for each part;
  \<^item> \<open>ClassFile\<close>: code attributes with their labels and lines, attributes with attributes in
    them, members and the file; \<open>ClassReading\<close>: that reading ends, and the labels;
  \<^item> \<open>AttributeWriter\<close>: \<^verbatim>\<open>write_attribute\<close>, its interning of names, and the round trip: what is
    written (\<open>finished\<close>, with computed sizes and stack maps in their places) is read back as the
    reader derives it from the bytes (\<open>reread\<close>);
  \<^item> \<open>PoolBuilder\<close>: \<^verbatim>\<open>constant_pool.rs\<close>, the pool with its deduplication maps, and the locale
    \<open>interner\<close> of what its clients rely on, in \<open>Interning\<close>; \<open>Modules\<close>: module descriptors, to
    attributes and back; \<open>FieldDesc\<close>: the second parser of descriptors;
  \<^item> \<open>CodeBuilder\<close>, \<open>Backpatching\<close>: \<^verbatim>\<open>CodeBody::build\<close>, which makes code of symbolic
    instructions, and the proof that what it patches into the bytes are the encoded distances;
  \<^item> \<open>Nodes\<close>: \<^verbatim>\<open>nodes.rs\<close>; \<open>Opcodes\<close>: the names of \<^verbatim>\<open>opcodes.rs\<close>; \<open>FrameTypes\<close>, \<open>FrameExec\<close>,
    \<open>FrameEffect\<close>, \<open>Frames\<close>: the types of frames and their merges, the decoder the analysis has of
    its own, the effect of each instruction, and the worklist with the two results made of it,
    stack maps and sizes; \<open>FrameFacts\<close>: the locale \<open>absorption\<close> of a merge under which a finished
    worklist is a typing, with its interpretation on \<^verbatim>\<open>merge_frame\<close>; \<open>FrameSizes\<close>: that the sizes
    noted are those of the largest frames the analysis meets;
  \<^item> \<open>ClassOutput\<close>, \<open>ClassRoundtrip\<close>: \<^verbatim>\<open>ClassFileWriter::to_bytes\<close>, and why its bytes are read back;
  \<^item> \<open>ClassSpec\<close>: the properties of the bytes of classes and of their code;
  \<^item> \<open>ClassNodes\<close>, \<open>Visiting\<close>, \<open>ClassBuilder\<close>: \<^verbatim>\<open>ClassFile::to_class_node\<close>,
    \<^verbatim>\<open>ClassReader::accept\<close>, and \<^verbatim>\<open>ClassWriter\<close> with its member visitors. The traits of the
    visitors are one record of functions over the state of the visitor; \<open>NodeFacts\<close>,
    \<open>BuilderFacts\<close>: what the reader of nodes and the writer keep true, with the invariant
    \<open>writer_ok\<close> of the writer's pool and members; \<open>NodeSpec\<close>: the properties of the visitors.

  Fuel. The grammar of depth \<open>n\<close> allows \<open>n\<close> nested calls through the record and \<open>n\<close> rounds of
  each loop; when either is used up the machine stops with \<open>OutOfFuel\<close>. The safety theorems
  hold for every \<open>n\<close>. That some inputs exhaust every \<open>n\<close> is a fact about the program, proved
  below for two of them. A loop of the lexer may go round once more than the source has bytes,
  and this is proved to be enough: each round of each loop takes a byte.
  The readers of class files have the length of their bytes as fuel, which is enough for the
  same reason; descriptors have the length of their text. The analysis of frames has the code's own
  limit of 100000 turns, after which it is an error.

  Parameters. The record \<open>unicode\<close> holds the two tables the lexer asks for, the general
  categories of \<^verbatim>\<open>unicode_general_category\<close> and \<^verbatim>\<open>char::is_numeric\<close>. The theorems assume of them
  that NUL is not numeric, or, where they speak of ASCII texts, what Unicode says of ASCII.
  The labels of a method are numbered in the iteration order of a hash set: \<open>order\<close>, of which
  the theorems assume only that it enumerates the set. Arithmetic on machine integers wraps around, as in a release build.

  What is not modelled: \<^verbatim>\<open>rowan\<close> (the result is the list of builder calls), the texts of
  messages, sources of 4 GiB and more (offsets are natural numbers where the code has
  \<^verbatim>\<open>u32\<close>), the \<^verbatim>\<open>stacksafe\<close> attribute (the stack is unbounded); of the class file library
  the macros that make the tables of opcode names; and the
  rest of the language server, which consumes the trees and the classes.
\<close>

section \<open>The parser as a whole\<close>

text \<open>
  C1. Whatever the tokens, the parser either hands the builder the calls that build exactly
  one tree, with the root node at the top, or stops for one of three reasons: it runs out
  of fuel; a marker is dropped, which takes a \<^verbatim>\<open>try\<close> in the source; a token is split inside
  a character, which takes a \<^verbatim>\<open>>>\<close> or \<^verbatim>\<open>>>>\<close>. No \<^verbatim>\<open>unreachable!\<close> and no assertion of the
  markers, the reader or the sink is ever hit.
\<close>

theorem parse_outcome:
  "case parse n ts of
     Inl e \<Rightarrow> e = OutOfFuel \<or> e = MarkerDropped \<and> has_kind TRY_KW ts \<or> e = PanicSplit \<and> has_shift ts
   | Inr (calls, errs) \<Rightarrow> \<exists>trees. calls = tree_calls (Node ROOT trees)"
proof (cases "run_parser n ts")
  case (Stop e)
  with run_parser_Stop [OF Stop] show ?thesis by (cases e) (simp_all add: parse_def)
next
  case (Run p)
  then obtain xs where q: "consistent ts p" "seg xs"
    "events p = StartNode ROOT None # xs @ [FinishNode]"
    by (rule run_parser_Run)
  from sink_finish_root [OF q(2,3)] obtain trees where
    "sink_finish ts (events p) = Some (tree_calls (Node ROOT trees))" by blast
  moreover have "tokens (source p) = ts" using q(1) unfolding consistent_def by blast
  ultimately have "parse n ts = Inr (tree_calls (Node ROOT trees), errors p)"
    by (simp only: parse_def Run machine.case option.case)
  thus ?thesis by (simp only: sum.case prod.case) (rule exI, rule refl)
qed

text \<open>
  C2. The tree spells the source: when the tokens end with the empty end-of-file token and
  hold no shift token, the leaves of the tree, trivia included, concatenate to the source
  text, however broken the program is.
\<close>

theorem parse_keeps_text:
  assumes "parse n ts = Inr (calls, errs)" and "\<not> has_shift ts" and "ends_with_eof ts"
  shows "tree_text calls = source_text ts"
  using assms by (rule parse_text)

lemma parse_keeps_text_witness:
  "parse (Suc (Suc (Suc (Suc (Suc (Suc (Suc 0))))))) class_tokens = Inr (class_calls, []) \<and>
   tree_text class_calls = ''class A{}''"
  using parse_keeps_text [OF parse_class_tokens no_shift_class_tokens ends_with_eof_class_tokens]
    parse_class_tokens by (simp add: source_text_class_tokens)

text \<open>
  C23. When the parser returns, its error list is the list of its error events in order, its
  position in the source is the number of tokens its events take, and it has reached the
  end of the file.
\<close>

theorem parser_bookkeeping:
  assumes "run_parser n ts = Run p"
  shows "errors p = event_errors (events p) \<and> cursor (source p) = advances (events p) \<and>
    tokens (source p) = ts \<and> is_at_end p"
proof -
  obtain xs where "consistent ts p" "is_at_end p"
    using assms by (rule run_parser_Run)
  thus ?thesis by (simp add: consistent_def)
qed

lemma parser_bookkeeping_witness:
  "event_errors class_events = [] \<and> advances class_events = 4"
  using parser_bookkeeping [OF run_class_tokens] by simp

text \<open>
  C24. Looking ahead has no effect: the three lookaheads that parse under a checkpoint leave
  the position in the source, the events and the errors as they found them.
\<close>

theorem lookahead_has_no_effect:
  assumes "consistent ts p"
    and "run_state (is_pattern (java_grammar n)) (Run p) = (b, Run q) \<or>
      run_state (is_type_cast_lookahead (java_grammar n)) (Run p) = (b, Run q) \<or>
      run_state (scan_for_separator (java_grammar n)) (Run p) = (sep, Run q)"
  shows "source q = source p \<and> events q = events p \<and> errors q = errors p"
proof -
  have "same_position p q"
    using assms is_pattern_restores is_type_cast_lookahead_restores scan_for_separator_restores
    by blast
  thus ?thesis by (simp add: same_position_def)
qed

lemma lookahead_has_no_effect_witness:
  "\<exists>q. run_state (is_pattern (java_grammar (Suc (Suc (Suc (Suc 0)))))) (Run (parser_new pattern_tokens)) =
       (True, Run q) \<and> source q = token_source_new pattern_tokens \<and> events q = [] \<and> errors q = []"
proof -
  from run_is_pattern obtain q where
    q: "run_state (is_pattern (java_grammar (Suc (Suc (Suc (Suc 0)))))) (Run (parser_new pattern_tokens)) =
      (True, Run q)" by blast
  from lookahead_has_no_effect [OF consistent_new disjI1 [OF q]] q show ?thesis
    by (simp add: parser_new_def)
qed

text \<open>
  C25. The sink replays any balanced list of events with a root, forward parents included,
  without reaching its \<^verbatim>\<open>unreachable!\<close>, as the calls that build one tree.
\<close>

theorem sink_builds_one_tree:
  assumes "seg xs"
  shows "\<exists>trees. sink_finish ts (StartNode k None # xs @ [FinishNode]) =
    Some (tree_calls (Node k trees))"
  using sink_finish_root [OF assms refl] by blast

lemma sink_builds_one_tree_witness:
  "\<exists>trees. sink_finish class_tokens [StartNode ROOT None, AddToken, FinishNode] =
     Some (tree_calls (Node ROOT trees))"
  using sink_builds_one_tree [of "[AddToken]" class_tokens ROOT] seg_leaf [of AddToken] by simp

section \<open>The lexer\<close>

text \<open>
  C4. The lexer ends on every source: it panics, and then some escape of the source cuts a
  character in two, or it returns tokens that lie in the source one after the other, each with
  the text at its offset and none of them empty, and an end-of-file token at the end.
\<close>

theorem lexer_outcome:
  assumes "utf8 s" and "\<not> is_numeric U 0"
  shows "case lex_source U s of
      Inl e \<Rightarrow> e = LexPanic \<and> \<not> escapes_ok s
    | Inr (ts, es) \<Rightarrow>
        \<exists>us. ts = us @ [eof_token (length s)] \<and> placed s (body_start s) us (length s)"
  using lex_outcome [OF assms] by (auto simp: tokenized_def split: sum.splits)

lemma lexer_outcome_witness:
  "\<exists>us. class_tokens = us @ [eof_token (length ''class A{}'')] \<and>
     placed ''class A{}'' (body_start ''class A{}'') us (length ''class A{}'')"
  using lexer_outcome [of "''class A{}''" ascii_unicode, OF utf8_plain]
  by (simp add: lex_class_tokens)

text \<open>
  C5. Unless it reports an error with which it drops text, the tokens of the lexer spell the
  source: all of it but a byte order mark at its start, or all of that but a SUB character, itself
  or its escape, that is the very last of the source.
\<close>

theorem lexer_keeps_text:
  assumes "utf8 s" and "\<not> is_numeric U 0" and "lex_source U s = Inr (ts, es)"
    and "\<not> list_ex (\<lambda>e. drops_text (lex_err_kind e)) es"
  shows "source_text ts = drop (body_start s) s \<or>
    (\<exists>p. body_start s \<le> p \<and> final_sub s p \<and>
       source_text ts = take (p - body_start s) (drop (body_start s) s))"
  using lex_outcome [OF assms(1,2)] assms(3,4) by (auto simp: tokenized_def covers_def)

lemma lexer_keeps_text_witness:
  "source_text class_tokens = drop (body_start ''class A{}'') ''class A{}'' \<or>
   (\<exists>p. final_sub ''class A{}'' p)"
  using lexer_keeps_text [OF utf8_plain _ lex_class_tokens] by auto

text \<open>
  C3. From the text to the tree: when lexing reports no error that drops text and no token is
  a shift operator, the leaves of the tree \<^verbatim>\<open>SourceFile::parse\<close> builds spell the source, but for a
  byte order mark at its start and a SUB character that is the very last of it.
\<close>

theorem source_file_keeps_text:
  assumes "utf8 s" and "\<not> is_numeric U 0"
    and "lex_source U s = Inr (ts, les)" and "\<not> has_shift ts"
    and "\<not> list_ex (\<lambda>e. drops_text (lex_err_kind e)) les"
    and "source_file_parse U n s = Inr (calls, errs)"
  shows "tree_text calls = drop (body_start s) s \<or>
    (\<exists>p. body_start s \<le> p \<and> final_sub s p \<and>
       tree_text calls = take (p - body_start s) (drop (body_start s) s))"
  using assms by (rule source_file_text)

lemma source_file_keeps_text_witness:
  "source_file_parse ascii_unicode (Suc (Suc (Suc (Suc (Suc (Suc (Suc 0))))))) ''class A{}'' =
     Inr (class_calls, []) \<and>
   (tree_text class_calls = drop (body_start ''class A{}'') ''class A{}'' \<or>
    (\<exists>p. final_sub ''class A{}'' p))"
proof -
  have p: "source_file_parse ascii_unicode (Suc (Suc (Suc (Suc (Suc (Suc (Suc 0))))))) ''class A{}'' =
     Inr (class_calls, [])"
    by (simp only: source_file_parse_def lex_class_tokens sum.case prod.case parse_class_tokens) simp
  from source_file_keeps_text [OF utf8_plain _ lex_class_tokens no_shift_class_tokens _ p] show ?thesis
    by (auto simp: p)
qed

text \<open>
  C32. Maximal munch: each operator and separator of the language, a source of its own, is lexed as
  one token of its kind, where the tables give ASCII characters the categories of Unicode.
\<close>

theorem operators_are_single_tokens:
  assumes "ascii_tables U" and "(t, k) \<in> set operator_table"
  shows "lex_source U t = Inr ([\<lparr>tok_kind = k, tok_lexeme = t, tok_offset = 0\<rparr>, eof_token (length t)], [])"
  using dispatch_operator [of U t k] assms lex_one_token [of t U k] by (simp add: ascii_tables_def)

lemma operators_are_single_tokens_witness:
  "lex_source ascii_unicode ''>>>='' =
     Inr ([\<lparr>tok_kind = UNSIGNED_RIGHT_SHIFT_EQUAL, tok_lexeme = ''>>>='', tok_offset = 0\<rparr>,
       eof_token (length ''>>>='')], [])"
  using operators_are_single_tokens [OF ascii_tables_ascii, of "''>>>=''" UNSIGNED_RIGHT_SHIFT_EQUAL]
  by (simp add: operator_table_def)

text \<open>
  C33. A word of ASCII letters, digits, underscores and dollar signs that starts with no digit
  is one token: the keyword or literal of the table, or else an identifier.
\<close>

theorem words_are_single_tokens:
  assumes "ascii_tables U" and "java_word w"
  shows "lex_source U w =
    Inr ([\<lparr>tok_kind = identifier_kind w, tok_lexeme = w, tok_offset = 0\<rparr>, eof_token (length w)], [])"
  using lex_one_token [OF java_word_plain [OF assms(2)] _ dispatch_word [OF assms]] assms(2)
  by (simp add: java_word_def)

lemma words_are_single_tokens_witness:
  "lex_source ascii_unicode ''while'' =
     Inr ([\<lparr>tok_kind = WHILE_KW, tok_lexeme = ''while'', tok_offset = 0\<rparr>,
       eof_token (length ''while'')], []) \<and>
   lex_source ascii_unicode ''sealed'' =
     Inr ([\<lparr>tok_kind = IDENTIFIER, tok_lexeme = ''sealed'', tok_offset = 0\<rparr>,
       eof_token (length ''sealed'')], [])"
  using words_are_single_tokens [OF ascii_tables_ascii, of "''while''"]
    words_are_single_tokens [OF ascii_tables_ascii, of "''sealed''"]
  by (simp add: java_word_def word_start_def ascii_category_def identifier_kind_def keyword_table_def)

text \<open>
  C34. The reader moves in whole characters: from a character boundary, \<^verbatim>\<open>advance\<close> gives the
  character \<^verbatim>\<open>peek\<close> shows and stops at a later boundary of the same source, unless it is at the
  end, where it stays; it panics only if an escape of the source cuts a character.
\<close>

theorem reader_advances:
  assumes "at_boundary r"
  shows "case advance r of
      None \<Rightarrow> \<not> escapes_ok (rd_source r)
    | Some (c, r') \<Rightarrow> peek r = Some c \<and> at_boundary r' \<and> rd_source r' = rd_source r \<and>
        rd_start r' = rd_start r \<and>
        (rd_current r < rd_current r' \<or> reader_is_at_end r \<and> r' = r)"
  using advance_outcome [OF assms] by (auto simp: forward_def split: option.splits)

lemma reader_advances_witness:
  "case advance (reader_new ''ab'') of None \<Rightarrow> False | Some (c, r') \<Rightarrow> peek (reader_new ''ab'') = Some c"
  using reader_advances [of "reader_new ''ab''"] utf8_plain [of "''ab''"]
  by (auto simp: at_boundary_def boundary_0 reader_new_def escapes_ok_def backslash_def
      less_Suc_eq split: option.splits)

text \<open>
  C35. The shortcut of \<^verbatim>\<open>translate_unicode_escapes\<close> for texts without a backslash gives what its
  loop would give.
\<close>

theorem translation_shortcut:
  assumes "utf8 t"
  shows "translate_unicode_escapes t = translate_loop (length t) (reader_new t) []"
  using translate_loop_plain [of t 0 "length t" 0 "[]" "[]"] assms
  by (simp add: translate_unicode_escapes_def boundary_0 reader_new_def)

lemma translation_shortcut_witness:
  "translate_loop (length ''ab'') (reader_new ''ab'') [] = Some ''ab''"
  by (subst translation_shortcut [symmetric, OF utf8_plain])
    (simp_all add: translate_unicode_escapes_def backslash_def)

section \<open>Operations\<close>

text \<open>
  C26. Error recovery ends and loses nothing: where the current token is none that was left by the
  split of another (\<^verbatim>\<open>override_token\<close>), and with enough fuel for the tokens that are left,
  \<^verbatim>\<open>recover_until\<close> takes exactly the tokens before the first one it was asked to stop at, or
  before the end of the file, one event each.
\<close>

theorem recover_until_skips:
  assumes "override_token p = None"
    and "length (indices (source p)) - cursor (source p) < g_fuel G"
  shows "\<exists>j q. run_state (recover_until G ks) (Run p) = ((), Run q) \<and>
    (\<forall>i<j. \<exists>k. nth_kind i p = Some k \<and> k \<noteq> EOF \<and> \<not> List.member ks k) \<and>
    cursor (source q) = cursor (source p) + j \<and> events q = events p @ replicate j AddToken \<and>
    (is_at_end q \<or> (\<exists>k. current q = Some k \<and> List.member ks k))"
  using recover_until_total [OF assms, of ks] unfolding skips_def by blast

lemma recover_until_skips_witness:
  "\<exists>j q. run_state (recover_until (java_grammar 9) [L_BRACE]) (Run (parser_new class_tokens)) = ((), Run q) \<and>
     cursor (source q) = j \<and> events q = replicate j AddToken"
proof -
  have "length (indices (source (parser_new class_tokens))) - cursor (source (parser_new class_tokens))
      < g_fuel (java_grammar 9)"
    by (simp add: class_tokens_def run_start g_fuel_java del: java_grammar.simps)
  from recover_until_skips [OF _ this, of "[L_BRACE]"] show ?thesis
    by (auto simp: parser_new_def token_source_new_def)
qed

text \<open>
  C27. The operator loop takes every operator it may: when an expression parsed at a minimal
  binding power returns, the next token is no operator or binds less tightly.
\<close>

theorem expression_is_maximal:
  assumes "run_state (Expr.expr_bp (java_grammar n) min_bp) (Run p) = (Some c, Run q)"
    and "current q = Some k" and "get_infix_bp k = Some (l_bp, r_bp)"
  shows "l_bp < min_bp"
  using expr_bp_exit [OF assms(1)] assms(2,3) by (simp add: no_operator_at_def)

lemma expression_is_maximal_witness:
  "get_infix_bp PLUS = Some (21, 22) \<and> (21 :: nat) < 23"
  using expression_is_maximal [OF run_sum, of PLUS 21 22]
  by (simp add: sum_parser_def run_start get_infix_bp_def current_def source_current_def
      source_nth_def nth_opt_def)

text \<open>
  C28. The scan over annotation arguments finds the matching parenthesis: \<open>skip_parens\<close>
  answers the first index at which as many parentheses are closed as were open, with no
  end of file before it, and fails exactly when there is none.
\<close>

theorem skip_parens_matches:
  "skip_parens p d i = Some j \<longleftrightarrow> closes_at p d i j"
  by (rule skip_parens_iff)

text \<open>
  C29. \<^verbatim>\<open>expect\<close> consumes the token it wants; otherwise it consumes nothing, and records one
  error together with an empty node for the missing token.
\<close>

theorem expect_behaviour:
  "run_state (expect k) (Run p) =
     (if current p = Some k then (True, Run (bump_parser p))
      else (False, Run (report (expected_error [k] p) p)))"
  by (simp add: run_expect at_def)

text \<open>
  C30. A \<^verbatim>\<open>>>\<close> that closes two lists of type arguments is split into its two characters, and
  the source then moves on by one token.
\<close>

theorem double_close_splits:
  assumes "override_token p = None" and "source_nth 0 (source p) = Some t"
    and "tok_kind t = RIGHT_SHIFT" and "tok_lexeme t = ''>>''"
  shows "\<exists>q. run_state (do { expect_gt; expect_gt }) (Run p) = ((), Run q) \<and>
    events q = events p @ [AddVirtualToken RIGHT_SHIFT ''>'', AddVirtualToken GREATER ''>'',
      AdvanceSource] \<and>
    override_token q = None \<and> cursor (source q) = cursor (source p) + 1"
proof -
  have s: "split_at (tok_lexeme t) 1 = Some (''>'', ''>'')"
    using assms(4) by (simp add: split_at_def is_char_boundary_def)
  let ?p = "p\<lparr>events := events p @ [AddVirtualToken RIGHT_SHIFT ''>''],
    override_token := Some \<lparr>tok_kind = GREATER, tok_lexeme = ''>'', tok_offset = tok_offset t + 1\<rparr>\<rparr>"
  have "run_state expect_gt (Run p) = ((), Run ?p)"
    using run_expect_gt_split [OF assms(1,2) s] assms(3) by simp
  moreover have "run_state expect_gt (Run ?p) = ((), Run (bump_parser ?p))"
    by (rule run_expect_gt_bump) (simp add: current_def)
  ultimately show ?thesis
    using source_nth_Some [OF assms(2)]
    by (simp add: bump_parser_def Let_def source_bump_def push_event_def)
qed

lemma double_close_splits_witness:
  "\<exists>q. run_state (do { expect_gt; expect_gt }) (Run close_parser) = ((), Run q) \<and>
     override_token q = None \<and> cursor (source q) = 1"
  using double_close_splits [of close_parser "tok RIGHT_SHIFT ''>>'' 0"]
  by (auto simp: close_parser_def run_start source_nth_def nth_opt_def)

text \<open>
  C31. The token sets of the macro \<^verbatim>\<open>tokenset!\<close> are sets: among the kinds the four words have
  a bit for, membership is membership in the list the macro was given.
\<close>

theorem token_set_is_a_set:
  assumes "\<forall>k \<in> set ks. discriminant k < 256"
  shows "token_set_contains (tokenset ks) (discriminant l) \<longleftrightarrow> l \<in> set ks"
  using assms by (rule contains_tokenset)

lemma token_set_is_a_set_witness:
  "token_set_contains (tokenset [SEMICOLON, R_BRACE]) (discriminant R_BRACE) \<and>
   \<not> token_set_contains (tokenset [SEMICOLON, R_BRACE]) (discriminant L_BRACE)"
  using token_set_is_a_set [of "[SEMICOLON, R_BRACE]" R_BRACE]
    token_set_is_a_set [of "[SEMICOLON, R_BRACE]" L_BRACE] by simp

text \<open>
  The two functions on contextual keywords are inverse to each other: a keyword's
  spelling is parsed back to it, and no other string is.
\<close>

theorem contextual_keyword_roundtrip:
  "kw_from_str s = Some kw \<longleftrightarrow> s = kw_as_str kw"
  using kw_from_str_Some by auto

section \<open>What goes wrong\<close>

text \<open>
  C36. An opening brace where a switch block expects a label makes the parser loop for ever:
  no fuel is enough for \<^verbatim>\<open>int a=switch(x){{\<close>.
\<close>

theorem switch_brace_hangs:
  "parse n switch_brace = Inl OutOfFuel"
proof -
  consider "n = 0" | "n = Suc 0" | "n = Suc (Suc 0)" | "n = Suc (Suc (Suc 0))"
    | m where "n = Suc (Suc (Suc (Suc m)))"
    by (metis not0_implies_Suc)
  hence "run_parser n switch_brace = Stop OutOfFuel" by cases (simp_all only: run_switch_brace)
  thus ?thesis by (simp add: parse_def)
qed

text \<open>
  C37. A directive of a module that starts with a keyword the recovery stops at is never
  passed: with such a token after its opening brace, a module's body never ends.
\<close>

theorem module_body_hangs:
  assumes "override_token p = None" and "nth_kind 0 p = Some L_BRACE"
    and "nth_kind 1 p = Some k" and "List.member stuck_directive_kinds k"
  shows "run_state (module_body G) (Run p) = ((), Stop OutOfFuel)"
  using assms by (rule module_body_stuck)

lemma module_body_hangs_witness:
  "run_state (module_body (java_grammar 5)) (Run (parser_new (drop 3 module_tokens))) =
     ((), Stop OutOfFuel)"
  by (rule module_body_hangs [where k = CLASS_KW])
    (simp_all add: module_tokens_def run_start nth_kind_def source_nth_def nth_opt_def
      stuck_directive_kinds_def)

text \<open>
  The whole parser on \<^verbatim>\<open>module m{class\<close>: no fuel is enough.
\<close>

theorem module_class_hangs:
  "parse n module_tokens = Inl OutOfFuel"
  by (cases n) (simp_all only: parse_def run_module_tokens machine.case)

text \<open>
  C38. A resource that starts like a declaration but has no variable leaves its marker
  incomplete: on \<^verbatim>\<open>class A{{try(int)\<close> the parser stops where the marker is dropped.
\<close>

theorem try_resource_drops_marker:
  "\<exists>n. parse n try_tokens = Inl MarkerDropped"
  using parse_try_tokens by blast

text \<open>
  C39. Splitting a \<^verbatim>\<open>>>\<close> that comes after a blank does not keep the text: the tree of
  \<^verbatim>\<open>A<B<C >> x;\<close> spells something else, without an error.
\<close>

theorem split_close_loses_text:
  "\<exists>n calls. parse n gap_tokens = Inr (calls, []) \<and> tree_text calls \<noteq> source_text gap_tokens"
proof -
  have "source_text gap_tokens = ''A<B<C >> x;''"
    by (simp add: gap_tokens_def source_text_def tok_def)
  with parse_gap_tokens show ?thesis by fastforce
qed

text \<open>
  C40. The lexer slices the four bytes after \<^verbatim>\<open>\u\<close> as a text without looking for character
  boundaries: a source that begins with an escape of three hexadecimal digits and then a
  character that is not ASCII makes it panic, whatever follows and whatever the Unicode tables.
\<close>

theorem cut_escape_is_a_panic:
  assumes "length digits = 3" and "list_all (\<lambda>b. hex_digit b \<noteq> None) digits"
    and "scalar c" and "0x80 \<le> c" and "utf8 rest"
  shows "lex_source U (cut_escape digits c rest) = Inl LexPanic"
  using lex_panics [OF utf8_cut_escape cut_escape_panics] assms by blast

lemma cut_escape_is_a_panic_witness:
  "lex_source ascii_unicode
     [backslash, CHR ''u'', CHR ''0'', CHR ''0'', CHR ''0'', CHR 0xC3, CHR 0xA9, CHR '';''] = Inl LexPanic"
proof -
  have "lex_source ascii_unicode (cut_escape ''000'' 0xE9 '';'') = Inl LexPanic"
    by (rule cut_escape_is_a_panic) (simp_all add: hex_digit_def scalar_def utf8_plain)
  moreover have "encode_utf8 0xE9 = [CHR 0xC3, CHR 0xA9]" by code_simp
  ultimately show ?thesis by (simp add: cut_escape_def)
qed

text \<open>
  The second character of \<^verbatim>\<open>==\<close> is compared with the raw text, where all other operators
  translate escapes: \<^verbatim>\<open>+\u003d\<close> is one token, \<^verbatim>\<open>=\u003d\<close> is two.
\<close>

theorem equals_is_not_translated:
  "lex_source ascii_unicode plus_escaped =
     Inr ([tok PLUS_EQUAL plus_escaped 0, eof_token 7], []) \<and>
   lex_source ascii_unicode equals_escaped =
     Inr ([tok EQUAL ''='' 0, tok EQUAL (drop 1 equals_escaped) 1, eof_token 7], [])"
  using lex_plus_escaped lex_equals_escaped ..

end
